(* ===== verification/PDS_Prelude.thy ===== *)
theory PDS_Prelude
  imports
    Main
    "HOL-Library.Word"
    "HOL-Library.Char_ord"
    "HOL-Library.List_Lexorder"
    "HOL-Library.AList"
begin

text \<open>
  The shared base of the library: byte strings and the parts of Rust's \<open>str\<close> the
  sources use, results (\<open>Result<T, E>\<close> as a sum), hash maps as association lists with
  distinct keys, and asynchronous programs.

  A Rust \<open>str\<close> is its UTF-8 byte sequence; the model is a \<open>string\<close> whose characters
  are those bytes, so \<open>length\<close> is \<open>str::len\<close> and the list order of
  \<open>HOL-Library.List_Lexorder\<close> over \<open>HOL-Library.Char_ord\<close> is the byte order of
  \<open>str::cmp\<close>.

  An \<open>async fn\<close> is a resumption: it is \<open>Ready\<close> with its result or it \<open>Await\<close>s one
  atomic operation on the shared state. \<open>run\<close> executes a program alone; \<open>astep\<close> is one
  step of one program of a pool, so \<open>astep\<^sup>*\<^sup>*\<close> holds every interleaving of the pool.
\<close>

named_theorems async_simps
named_theorems hm_simps

type_synonym byte = "8 word"
type_synonym bytes = "byte list"
type_synonym ('e, 'a) result = "'e + 'a"

abbreviation Ok :: "'a \<Rightarrow> 'e + 'a" where "Ok \<equiv> Inr"
abbreviation Err :: "'e \<Rightarrow> 'e + 'a" where "Err \<equiv> Inl"

subsection \<open>Results\<close>

definition and_then :: "'e + 'a \<Rightarrow> ('a \<Rightarrow> 'e + 'b) \<Rightarrow> 'e + 'b" where
  "and_then r k = (case r of Inl e \<Rightarrow> Inl e | Inr a \<Rightarrow> k a)"

definition map_err :: "('e \<Rightarrow> 'f) \<Rightarrow> 'e + 'a \<Rightarrow> 'f + 'a" where
  "map_err f r = (case r of Inl e \<Rightarrow> Inl (f e) | Inr a \<Rightarrow> Inr a)"

definition ok_or :: "'e \<Rightarrow> 'a option \<Rightarrow> 'e + 'a" where
  "ok_or e x = (case x of None \<Rightarrow> Inl e | Some a \<Rightarrow> Inr a)"

definition is_ok :: "'e + 'a \<Rightarrow> bool" where
  "is_ok r = (case r of Inl _ \<Rightarrow> False | Inr _ \<Rightarrow> True)"

definition is_err :: "'e + 'a \<Rightarrow> bool" where
  "is_err r = (\<not> is_ok r)"

lemma and_then_simps [simp]:
  "and_then (Inl e) k = Inl e" "and_then (Inr a) k = k a"
  by (simp_all add: and_then_def)

lemma and_then_Ok_iff: "and_then r k = Inr b \<longleftrightarrow> (\<exists>a. r = Inr a \<and> k a = Inr b)"
  by (cases r) auto

lemma map_err_simps [simp]:
  "map_err f (Inl e) = Inl (f e)" "map_err f (Inr a) = Inr a"
  by (simp_all add: map_err_def)

lemma map_err_Ok_iff [simp]: "map_err f r = Inr a \<longleftrightarrow> r = Inr a"
  by (cases r) auto

lemma ok_or_simps [simp]: "ok_or e None = Inl e" "ok_or e (Some a) = Inr a"
  by (simp_all add: ok_or_def)

lemma ok_or_Ok_iff [simp]: "ok_or e x = Inr a \<longleftrightarrow> x = Some a"
  by (cases x) auto

lemma is_ok_simps [simp]:
  "is_ok (Inr a)" "\<not> is_ok (Inl e)" "is_err (Inl e)" "\<not> is_err (Inr a)"
  by (simp_all add: is_ok_def is_err_def)

lemma is_ok_iff: "is_ok r \<longleftrightarrow> (\<exists>a. r = Inr a)"
  by (cases r) auto

subsection \<open>Strings\<close>

definition as_bytes :: "string \<Rightarrow> bytes" where
  "as_bytes s = map of_char s"

definition from_bytes :: "bytes \<Rightarrow> string" where
  "from_bytes bs = map (\<lambda>b. char_of (unat b)) bs"

lemma of_char_char_of_byte: "of_char (char_of (unat b) :: char) = (b :: byte)"
proof -
  have "unat b < 256" using unsigned_less [of b, where 'a = nat] by simp
  then have "of_nat (of_char (char_of (unat b) :: char)) = b" by (simp add: of_char_of)
  then show ?thesis by (simp only: of_nat_of_char)
qed

lemma char_of_byte_of_char: "char_of (unat (of_char c :: byte)) = c"
proof -
  have "(of_char c :: nat) mod 256 = of_char c" by simp
  then have lt: "(of_char c :: nat) < 256" by (metis mod_less_divisor zero_less_numeral)
  have "unat (of_nat (of_char c) :: byte) = of_char c"
    using lt by (simp add: unat_of_nat take_bit_nat_eq_self del: of_nat_of_char)
  then show ?thesis by (simp add: of_nat_of_char)
qed

lemma as_bytes_from_bytes [simp]: "as_bytes (from_bytes bs) = bs"
  by (simp add: as_bytes_def from_bytes_def of_char_char_of_byte comp_def)

lemma from_bytes_as_bytes [simp]: "from_bytes (as_bytes s) = s"
  by (simp add: as_bytes_def from_bytes_def char_of_byte_of_char comp_def)

lemma as_bytes_inj [simp]: "as_bytes s = as_bytes t \<longleftrightarrow> s = t"
  by (metis from_bytes_as_bytes)

lemma length_as_bytes [simp]: "length (as_bytes s) = length s"
  by (simp add: as_bytes_def)

definition is_ascii_digit :: "char \<Rightarrow> bool" where
  "is_ascii_digit c = (CHR ''0'' \<le> c \<and> c \<le> CHR ''9'')"

definition is_ascii_upper :: "char \<Rightarrow> bool" where
  "is_ascii_upper c = (CHR ''A'' \<le> c \<and> c \<le> CHR ''Z'')"

definition is_ascii_lower :: "char \<Rightarrow> bool" where
  "is_ascii_lower c = (CHR ''a'' \<le> c \<and> c \<le> CHR ''z'')"

definition is_ascii_alphabetic :: "char \<Rightarrow> bool" where
  "is_ascii_alphabetic c = (is_ascii_upper c \<or> is_ascii_lower c)"

definition is_ascii_alphanumeric :: "char \<Rightarrow> bool" where
  "is_ascii_alphanumeric c = (is_ascii_alphabetic c \<or> is_ascii_digit c)"

lemmas ascii_class_defs =
  is_ascii_digit_def is_ascii_upper_def is_ascii_lower_def
  is_ascii_alphabetic_def is_ascii_alphanumeric_def

definition to_ascii_lower_char :: "char \<Rightarrow> char" where
  "to_ascii_lower_char c = (if is_ascii_upper c then char_of (of_char c + 32 :: nat) else c)"

definition to_ascii_lowercase :: "string \<Rightarrow> string" where
  "to_ascii_lowercase s = map to_ascii_lower_char s"

definition eq_ignore_ascii_case :: "string \<Rightarrow> string \<Rightarrow> bool" where
  "eq_ignore_ascii_case a b = (to_ascii_lowercase a = to_ascii_lowercase b)"

fun split_on :: "char \<Rightarrow> string \<Rightarrow> string list" where
  "split_on d [] = [[]]"
| "split_on d (c # cs) =
     (if c = d then [] # split_on d cs
      else (case split_on d cs of [] \<Rightarrow> [[c]] | s # ss \<Rightarrow> (c # s) # ss))"

definition starts_with :: "string \<Rightarrow> string \<Rightarrow> bool" where
  "starts_with s p = (take (length p) s = p)"

definition ends_with :: "string \<Rightarrow> string \<Rightarrow> bool" where
  "ends_with s p = (length p \<le> length s \<and> drop (length s - length p) s = p)"

definition strip_prefix :: "string \<Rightarrow> string \<Rightarrow> string option" where
  "strip_prefix s p = (if starts_with s p then Some (drop (length p) s) else None)"

definition strip_suffix :: "string \<Rightarrow> string \<Rightarrow> string option" where
  "strip_suffix s p = (if ends_with s p then Some (take (length s - length p) s) else None)"

text \<open>\<open>str::split_once\<close>: the text before and after the first separator.\<close>

fun split_once :: "char \<Rightarrow> string \<Rightarrow> (string \<times> string) option" where
  "split_once d [] = None"
| "split_once d (c # cs) =
     (if c = d then Some ([], cs)
      else map_option (\<lambda>(a, b). (c # a, b)) (split_once d cs))"

text \<open>\<open>str::find\<close> of a substring: the byte index of its first occurrence.\<close>

fun find_str :: "string \<Rightarrow> string \<Rightarrow> nat option" where
  "find_str [] p = (if p = [] then Some 0 else None)"
| "find_str (c # cs) p =
     (if starts_with (c # cs) p then Some 0 else map_option Suc (find_str cs p))"

definition find_char :: "string \<Rightarrow> char \<Rightarrow> nat option" where
  "find_char s c = find_str s [c]"

fun trim_start_matches :: "char \<Rightarrow> string \<Rightarrow> string" where
  "trim_start_matches d [] = []"
| "trim_start_matches d (c # cs) = (if c = d then trim_start_matches d cs else c # cs)"

definition trim_end_matches :: "char \<Rightarrow> string \<Rightarrow> string" where
  "trim_end_matches d s = rev (trim_start_matches d (rev s))"

text \<open>\<open>[&str]::join\<close>.\<close>

fun join_with :: "string \<Rightarrow> string list \<Rightarrow> string" where
  "join_with d [] = []"
| "join_with d [x] = x"
| "join_with d (x # y # ys) = x @ d @ join_with d (y # ys)"

lemma split_on_append: "d \<notin> set a \<Longrightarrow> split_on d (a @ d # b) = a # split_on d b"
  by (induction a) auto

lemma split_on_fresh: "d \<notin> set a \<Longrightarrow> split_on d a = [a]"
  by (induction a) auto

lemma split_on_join: "join_with [d] (split_on d s) = s \<and> split_on d s \<noteq> [] \<and> (\<forall>p \<in> set (split_on d s). d \<notin> set p)"
proof (induction s)
  case (Cons c s)
  then show ?case
    by (cases "split_on d s" rule: list.exhaust [case_product list.exhaust [of "tl (split_on d s)"]])
      (auto split: list.splits)
qed simp

lemma split_three:
  assumes "split_on d t = [h, p, s]"
  shows "t = h @ d # p @ d # s \<and> d \<notin> set h \<and> d \<notin> set p \<and> d \<notin> set s"
  using split_on_join [of d t] assms by simp

subsection \<open>Hash maps\<close>

text \<open>
  A \<open>HashMap\<close> is an association list with distinct keys. The iteration order of the
  Rust type is unspecified; every result below that iterates is either sorted afterwards
  or shown not to depend on the order.
\<close>

type_synonym ('k, 'v) hashmap = "('k \<times> 'v) list"

definition hm_ok :: "('k, 'v) hashmap \<Rightarrow> bool" where
  "hm_ok m = distinct (map fst m)"

definition hm_get :: "('k, 'v) hashmap \<Rightarrow> 'k \<Rightarrow> 'v option" where
  "hm_get m k = map_of m k"

definition hm_contains_key :: "('k, 'v) hashmap \<Rightarrow> 'k \<Rightarrow> bool" where
  "hm_contains_key m k = (hm_get m k \<noteq> None)"

definition hm_insert :: "'k \<Rightarrow> 'v \<Rightarrow> ('k, 'v) hashmap \<Rightarrow> ('k, 'v) hashmap" where
  "hm_insert k v m = AList.update k v m"

definition hm_or_insert :: "'k \<Rightarrow> 'v \<Rightarrow> ('k, 'v) hashmap \<Rightarrow> ('k, 'v) hashmap" where
  "hm_or_insert k v m = (if hm_contains_key m k then m else hm_insert k v m)"

definition hm_remove :: "'k \<Rightarrow> ('k, 'v) hashmap \<Rightarrow> ('k, 'v) hashmap" where
  "hm_remove k m = AList.delete k m"

definition hm_retain :: "('k \<Rightarrow> 'v \<Rightarrow> bool) \<Rightarrow> ('k, 'v) hashmap \<Rightarrow> ('k, 'v) hashmap" where
  "hm_retain P m = filter (\<lambda>(k, v). P k v) m"

definition hm_values :: "('k, 'v) hashmap \<Rightarrow> 'v list" where
  "hm_values m = map snd m"

lemma hm_get_Nil [hm_simps, simp]: "hm_get [] = Map.empty"
  by (simp add: hm_get_def fun_eq_iff)

lemma hm_get_insert [hm_simps]: "hm_get (hm_insert k v m) = (hm_get m)(k \<mapsto> v)"
  by (simp add: hm_get_def hm_insert_def update_conv' fun_eq_iff)

lemma hm_get_or_insert [hm_simps]:
  "hm_get (hm_or_insert k v m) = (case hm_get m k of None \<Rightarrow> (hm_get m)(k \<mapsto> v) | Some _ \<Rightarrow> hm_get m)"
  by (auto simp: hm_or_insert_def hm_contains_key_def hm_get_insert split: option.splits)

lemma hm_get_remove [hm_simps]: "hm_get (hm_remove k m) = (hm_get m)(k := None)"
  by (simp add: hm_get_def hm_remove_def delete_conv' fun_eq_iff)

lemma hm_get_retain [hm_simps]:
  "hm_ok m \<Longrightarrow> hm_get (hm_retain P m) k =
     (case hm_get m k of None \<Rightarrow> None | Some v \<Rightarrow> if P k v then Some v else None)"
  unfolding hm_get_def hm_retain_def hm_ok_def
proof (induction m)
  case (Cons a m)
  have "map_of (filter (\<lambda>(x, y). P x y) m) (fst a) = None" if "fst a \<notin> fst ` set m"
    using that by (auto simp: map_of_eq_None_iff)
  with Cons show ?case by (auto split: option.splits)
qed simp

lemma hm_ok_Nil [simp]: "hm_ok []"
  by (simp add: hm_ok_def)

lemma hm_ok_insert [simp]: "hm_ok m \<Longrightarrow> hm_ok (hm_insert k v m)"
  by (simp add: hm_ok_def hm_insert_def distinct_update)

lemma hm_ok_or_insert [simp]: "hm_ok m \<Longrightarrow> hm_ok (hm_or_insert k v m)"
  by (simp add: hm_or_insert_def)

lemma hm_ok_remove [simp]: "hm_ok m \<Longrightarrow> hm_ok (hm_remove k m)"
  by (simp add: hm_ok_def hm_remove_def distinct_delete)

lemma hm_ok_retain [simp]: "hm_ok m \<Longrightarrow> hm_ok (hm_retain P m)"
  unfolding hm_ok_def hm_retain_def by (induction m) auto

lemma hm_get_in_set: "hm_ok m \<Longrightarrow> hm_get m k = Some v \<longleftrightarrow> (k, v) \<in> set m"
  by (simp add: hm_ok_def hm_get_def)

lemma card_dom_hm_get: "hm_ok m \<Longrightarrow> card (dom (hm_get m)) = length m"
proof -
  assume ok: "hm_ok m"
  have "dom (hm_get m) = fst ` set m"
    by (auto simp: hm_get_def dom_def map_of_eq_None_iff image_iff dest: map_of_SomeD
      intro!: weak_map_of_SomeI)
  then show ?thesis
    using ok by (simp add: hm_ok_def distinct_card flip: set_map)
qed

lemma distinct_map_sort_key: "distinct (map f (sort_key k xs)) = distinct (map f xs)"
  by (simp add: distinct_map)

lemma sorted_neg_rev: "sorted (map (\<lambda>r. - int (f r)) xs) \<longleftrightarrow> sorted (map f (rev xs))"
  by (induction xs) (auto simp: sorted_append)

subsection \<open>Asynchronous programs\<close>

datatype (dead 's, 'a) async = Ready 'a | Await "'s \<Rightarrow> ('s, 'a) async \<times> 's"

lemma async_induct [case_names Ready Await, induct type: async]:
  assumes "\<And>a. P (Ready a)" and "\<And>f. (\<And>s. P (fst (f s))) \<Longrightarrow> P (Await f)"
  shows "P p"
proof (induction p rule: async.induct)
  case (Await f)
  have "P (fst (f s))" for s
    by (rule Await.IH [of "f s"]) (auto simp: prod_set_defs)
  then show ?case by (rule assms(2))
qed (rule assms(1))

primrec run :: "('s, 'a) async \<Rightarrow> 's \<Rightarrow> 'a \<times> 's" where
  "run (Ready a) = (\<lambda>s. (a, s))"
| "run (Await f) = (\<lambda>s. case map_prod run id (f s) of (k, s') \<Rightarrow> k s')"

primrec abind :: "('s, 'a) async \<Rightarrow> ('a \<Rightarrow> ('s, 'b) async) \<Rightarrow> ('s, 'b) async" where
  "abind (Ready a) k = k a"
| "abind (Await f) k = Await (\<lambda>s. map_prod (\<lambda>p. abind p k) id (f s))"

definition atomic :: "('s \<Rightarrow> 'a \<times> 's) \<Rightarrow> ('s, 'a) async" where
  "atomic f = Await (\<lambda>s. case f s of (a, s') \<Rightarrow> (Ready a, s'))"

text \<open>The \<open>?\<close> operator on an awaited result.\<close>

definition await_ok ::
  "('s, 'e + 'a) async \<Rightarrow> ('a \<Rightarrow> ('s, 'e + 'b) async) \<Rightarrow> ('s, 'e + 'b) async" where
  "await_ok p k = abind p (\<lambda>r. case r of Inl e \<Rightarrow> Ready (Inl e) | Inr a \<Rightarrow> k a)"

text \<open>The \<open>?\<close> operator on a result that is already there.\<close>

definition try_ok :: "'e + 'a \<Rightarrow> ('a \<Rightarrow> ('s, 'e + 'b) async) \<Rightarrow> ('s, 'e + 'b) async" where
  "try_ok r k = (case r of Inl e \<Rightarrow> Ready (Inl e) | Inr a \<Rightarrow> k a)"

text \<open>A program on a part of a larger state.\<close>

primrec lift_async :: "('c \<Rightarrow> 's) \<Rightarrow> ('s \<Rightarrow> 'c \<Rightarrow> 'c) \<Rightarrow> ('s, 'a) async \<Rightarrow> ('c, 'a) async" where
  "lift_async g u (Ready a) = Ready a"
| "lift_async g u (Await f) = Await (\<lambda>c. case map_prod (lift_async g u) id (f (g c)) of (p, s) \<Rightarrow> (p, u s c))"

lemma run_Await [async_simps]: "run (Await f) s = (case f s of (p, s') \<Rightarrow> run p s')"
  by (simp add: case_prod_beta)

declare run.simps(2) [simp del]

lemma run_abind [async_simps]:
  "run (abind p k) s = (case run p s of (a, s') \<Rightarrow> run (k a) s')"
  by (induction p arbitrary: s) (auto simp: run_Await case_prod_beta)

lemma run_lift_async:
  assumes "\<And>s c. g (u s c) = s" "\<And>s s' c. u s (u s' c) = u s c" "\<And>c. u (g c) c = c"
  shows "run (lift_async g u p) c = (case run p (g c) of (a, s) \<Rightarrow> (a, u s c))"
proof (induction p arbitrary: c)
  case (Await f)
  show ?case using Await [of "g c" "u (snd (f (g c))) c"] by (simp add: assms run_Await map_prod_def case_prod_beta)
qed (simp add: assms)

lemma run_atomic [async_simps]: "run (atomic f) s = f s"
  by (simp add: atomic_def run_Await case_prod_beta)

lemma run_Ready [async_simps]: "run (Ready a) s = (a, s)"
  by simp

lemma run_await_ok [async_simps]:
  "run (await_ok p k) s =
     (case run p s of (r, s') \<Rightarrow> (case r of Inl e \<Rightarrow> (Inl e, s') | Inr a \<Rightarrow> run (k a) s'))"
  by (auto simp: await_ok_def run_abind split: prod.splits sum.splits)

lemma run_try_ok [async_simps]:
  "run (try_ok r k) s = (case r of Inl e \<Rightarrow> (Inl e, s) | Inr a \<Rightarrow> run (k a) s)"
  by (auto simp: try_ok_def split: sum.splits)

lemma try_ok_simps [simp]: "try_ok (Inl e) k = Ready (Inl e)" "try_ok (Inr a) k = k a"
  by (simp_all add: try_ok_def)

lemma await_ok_run_Ok:
  assumes "run (await_ok p k) s = (Inr b, s'')"
  obtains a s' where "run p s = (Inr a, s')" "run (k a) s' = (Inr b, s'')"
  using assms by (auto simp: run_await_ok split: prod.splits sum.splits)

text \<open>Interleavings: one step of one program of a pool.\<close>

inductive astep ::
  "('s, 'a) async list \<times> 's \<Rightarrow> ('s, 'a) async list \<times> 's \<Rightarrow> bool" where
  astep: "i < length ps \<Longrightarrow> ps ! i = Await f \<Longrightarrow> f s = (p', s') \<Longrightarrow>
     astep (ps, s) (ps[i := p'], s')"

inductive_cases astep_elim: "astep (ps, s) (ps', s')"

text \<open>A schedule names the program that takes each step; a finished program does not move.\<close>

fun sched1 :: "nat \<Rightarrow> ('s, 'a) async list \<times> 's \<Rightarrow> ('s, 'a) async list \<times> 's" where
  "sched1 i (ps, s) =
     (if i < length ps then
        (case ps ! i of Ready a \<Rightarrow> (ps, s)
         | Await f \<Rightarrow> (case f s of (p', s') \<Rightarrow> (ps[i := p'], s')))
      else (ps, s))"

definition sched :: "nat list \<Rightarrow> ('s, 'a) async list \<times> 's \<Rightarrow> ('s, 'a) async list \<times> 's" where
  "sched is c = fold sched1 is c"

lemma sched1_astep: "astep\<^sup>*\<^sup>* c (sched1 i c)"
proof (cases c)
  case (Pair ps s)
  show ?thesis
  proof (cases "i < length ps")
    case True
    then show ?thesis
      using Pair by (cases "ps ! i") (auto intro!: r_into_rtranclp astep.astep split: prod.split)
  qed (simp add: Pair)
qed

lemma sched_astep: "astep\<^sup>*\<^sup>* c (sched is c)"
proof (induction "is" arbitrary: c)
  case (Cons i "is")
  have "astep\<^sup>*\<^sup>* (sched1 i c) (sched is (sched1 i c))" by (rule Cons.IH)
  with sched1_astep [of c i] show ?case by (simp add: sched_def)
qed (simp add: sched_def)

text \<open>
  A state predicate that every atomic operation of a program keeps. It then holds in every
  state of every interleaving, whatever the other programs are, as long as they keep it too.
\<close>

primrec keeps :: "('s \<Rightarrow> bool) \<Rightarrow> ('s, 'a) async \<Rightarrow> bool" where
  "keeps I (Ready a) = True"
| "keeps I (Await f) = (\<forall>s. I s \<longrightarrow> (case map_prod (keeps I) id (f s) of (b, s') \<Rightarrow> b \<and> I s'))"

lemma keeps_Await: "keeps I (Await f) \<longleftrightarrow> (\<forall>s. I s \<longrightarrow> keeps I (fst (f s)) \<and> I (snd (f s)))"
  by (simp add: case_prod_beta)

declare keeps.simps(2) [simp del]

lemma keeps_atomic: "keeps I (atomic f) \<longleftrightarrow> (\<forall>s. I s \<longrightarrow> I (snd (f s)))"
  by (simp add: atomic_def keeps_Await case_prod_beta)

lemma keeps_abind: "keeps I p \<Longrightarrow> (\<And>a. keeps I (k a)) \<Longrightarrow> keeps I (abind p k)"
  by (induction p) (auto simp: keeps_Await)

lemma keeps_await_ok: "keeps I p \<Longrightarrow> (\<And>a. keeps I (k a)) \<Longrightarrow> keeps I (await_ok p k)"
  unfolding await_ok_def by (rule keeps_abind) (auto split: sum.splits)

lemma keeps_try_ok: "(\<And>a. keeps I (k a)) \<Longrightarrow> keeps I (try_ok r k)"
  by (cases r) auto

lemmas keeps_intros = keeps_abind keeps_await_ok keeps_try_ok

lemma keeps_run: "keeps I p \<Longrightarrow> I s \<Longrightarrow> I (snd (run p s))"
proof (induction p arbitrary: s)
  case (Await f)
  obtain p' s' where fs: "f s = (p', s')" by (cases "f s")
  with Await.prems have "keeps I p'" "I s'" by (auto simp: keeps_Await dest!: spec [of _ s])
  then show ?case using Await.IH [of s s'] fs by (simp add: run_Await)
qed simp

lemma keeps_astep:
  assumes "astep c c'" "I (snd c)" "\<forall>p \<in> set (fst c). keeps I p"
  shows "I (snd c') \<and> (\<forall>p \<in> set (fst c'). keeps I p)"
  using assms
proof (cases rule: astep.cases)
  case (astep i ps f s p' s')
  then have "keeps I (Await f)" using assms(3) by (metis fst_conv nth_mem)
  then have "keeps I p' \<and> I s'"
    using astep assms(2) by (auto simp: keeps_Await dest!: spec [of _ s])
  then show ?thesis using astep assms(3) by (auto dest: set_update_subset_insert [THEN subsetD])
qed

theorem keeps_interleaving:
  assumes "astep\<^sup>*\<^sup>* (ps, s) (ps', s')" "I s" "\<forall>p \<in> set ps. keeps I p"
  shows "I s'"
proof -
  have "I (snd c') \<and> (\<forall>p \<in> set (fst c'). keeps I p)" if "astep\<^sup>*\<^sup>* (ps, s) c'" for c'
    using that assms(2,3) by (induction rule: rtranclp_induct) (auto dest: keeps_astep)
  then show ?thesis using assms(1) by fastforce
qed

end
