(* ===== verification/Storage_Traits.thy ===== *)
theory Storage_Traits
  imports PDS_Prelude
begin

text \<open>
  The persistence interface (\<open>rust-core/src/storage/mod.rs\<close>, \<open>storage/traits.rs\<close>,
  \<open>oauth/store.rs\<close>): the error type, the stored record types, one record of operations
  per trait (the vtable behind \<open>dyn StorageBackend\<close>), and what the traits promise.

  The promise is stated against an abstract view of a store (finite maps, a log, a set):
  \<open>meets\<close> says that an operation of a backend in a good state and with its database
  reachable does to the view exactly what the specification operation does, and that an
  operation that cannot reach the database fails and changes nothing. The locales
  \<open>repo_store\<close>, \<open>account_store\<close>, \<open>key_store\<close>, \<open>blob_store\<close> and \<open>oauth_store\<close>
  collect these laws per trait, \<open>storage_backend\<close> bundles them; clients are proved
  against the locales once and for every backend that interprets them.
\<close>

subsection \<open>Errors and stored records\<close>

datatype StorageError =
    Sqlite string
  | AsyncSqlite string
  | Pool string
  | Crypto string
  | BlockNotFound
  | Constraint string

text \<open>A CIDv1 as \<open>Cid::new_v1\<close> builds it: codec, multihash code, digest.\<close>

datatype Cid = Cid (cid_codec: nat) (cid_hash: nat) (cid_digest: bytes)

record AccountSummary =
  sum_did :: string
  sum_handle :: "string option"
  sum_deactivated_at :: "string option"
  sum_takedown_ref :: "string option"
  sum_created_at :: string

record StoredPushedRequest =
  par_request_uri_hash :: string
  par_client_id :: string
  par_redirect_uri :: string
  par_scope :: string
  par_state :: string
  par_code_challenge :: string
  par_dpop_jkt :: "string option"
  par_login_hint :: "string option"
  par_expires_at :: nat

record AuthCode =
  code_hash :: string
  code_did :: string
  code_client_id :: string
  code_redirect_uri :: string
  code_scope :: string
  code_challenge :: string
  code_dpop_jkt :: "string option"
  code_expires_at :: nat

record RefreshTokenRecord =
  rt_token_hash :: string
  rt_session_id :: string
  rt_did :: string
  rt_client_id :: string
  rt_scope :: string
  rt_dpop_jkt :: string
  rt_issued_at :: nat
  rt_expires_at :: nat

datatype ConsumeResult = Consumed RefreshTokenRecord | Reused string | NotFound

subsection \<open>The traits as records of operations\<close>

type_synonym ('s, 'a) sop = "'s \<Rightarrow> (StorageError + 'a) \<times> 's"

record 's RepoStore =
  read_block_bytes :: "Cid \<Rightarrow> ('s, bytes) sop"
  put_block :: "Cid \<Rightarrow> bytes \<Rightarrow> ('s, unit) sop"
  max_seq :: "('s, int) sop"
  backfill_page :: "int \<Rightarrow> int \<Rightarrow> ('s, (int \<times> bytes) list) sop"
  load_repo_root :: "string \<Rightarrow> ('s, Cid option) sop"
  update_repo_root :: "string \<Rightarrow> Cid \<Rightarrow> ('s, unit) sop"
  commit_blocks :: "(Cid \<times> bytes) list \<Rightarrow> string \<Rightarrow> Cid \<Rightarrow> bytes \<Rightarrow> ('s, int) sop"

record 's AccountStore =
  count_accounts :: "('s, int) sop"
  insert_account :: "string \<Rightarrow> string \<Rightarrow> string option \<Rightarrow> string \<Rightarrow> ('s, unit) sop"
  count_and_insert_account :: "string \<Rightarrow> string \<Rightarrow> string option \<Rightarrow> string \<Rightarrow> ('s, int) sop"
  get_account_by_handle :: "string \<Rightarrow> ('s, (string \<times> string) option) sop"
  get_did_by_handle :: "string \<Rightarrow> ('s, string option) sop"
  get_handle_by_did :: "string \<Rightarrow> ('s, string option) sop"
  list_accounts :: "('s, AccountSummary list) sop"
  update_password :: "string \<Rightarrow> string \<Rightarrow> ('s, nat) sop"
  set_takedown :: "string \<Rightarrow> string \<Rightarrow> ('s, nat) sop"
  clear_takedown :: "string \<Rightarrow> ('s, nat) sop"
  insert_invite :: "string \<Rightarrow> int \<Rightarrow> string \<Rightarrow> ('s, unit) sop"
  consume_invite :: "string \<Rightarrow> string \<Rightarrow> ('s, bool) sop"
  upsert_preferences :: "string \<Rightarrow> string \<Rightarrow> ('s, unit) sop"
  get_preferences :: "string \<Rightarrow> ('s, string option) sop"

record 's KeyStore =
  put_key_blob :: "string \<Rightarrow> bytes \<Rightarrow> ('s, unit) sop"
  get_key_blob :: "string \<Rightarrow> ('s, bytes option) sop"

record 's BlobStore =
  put_blob :: "string \<Rightarrow> string \<Rightarrow> string \<Rightarrow> int \<Rightarrow> bytes \<Rightarrow> ('s, unit) sop"
  get_blob :: "string \<Rightarrow> string \<Rightarrow> ('s, (string \<times> bytes) option) sop"
  list_blobs :: "string \<Rightarrow> nat \<Rightarrow> string option \<Rightarrow> ('s, string list) sop"

record 's OAuthStore =
  put_pushed_request :: "StoredPushedRequest \<Rightarrow> ('s, unit) sop"
  get_pushed_request :: "string \<Rightarrow> nat \<Rightarrow> ('s, StoredPushedRequest option) sop"
  delete_pushed_request :: "string \<Rightarrow> ('s, unit) sop"
  put_auth_code :: "AuthCode \<Rightarrow> ('s, unit) sop"
  consume_auth_code :: "string \<Rightarrow> nat \<Rightarrow> ('s, AuthCode option) sop"
  put_refresh_token :: "RefreshTokenRecord \<Rightarrow> ('s, unit) sop"
  consume_refresh_token :: "string \<Rightarrow> nat \<Rightarrow> ('s, ConsumeResult) sop"
  revoke_session :: "string \<Rightarrow> ('s, nat) sop"
  revoke_refresh_token :: "string \<Rightarrow> ('s, bool) sop"
  list_sessions_for_did :: "string \<Rightarrow> nat \<Rightarrow> ('s, RefreshTokenRecord list) sop"
  record_dpop_jti :: "string \<Rightarrow> nat \<Rightarrow> ('s, bool) sop"
  purge_expired :: "nat \<Rightarrow> ('s, nat) sop"

record 's StorageBackend =
  repo_ops :: "'s RepoStore"
  account_ops :: "'s AccountStore"
  key_ops :: "'s KeyStore"
  blob_ops :: "'s BlobStore"
  oauth_ops :: "'s OAuthStore"

subsection \<open>The abstract view of a store\<close>

record account_row =
  row_handle :: "string option"
  row_email :: "string option"
  row_password :: string
  row_created_at :: string
  row_deactivated_at :: "string option"
  row_takedown_ref :: "string option"

record view =
  v_now :: string \<comment> \<open>what \<open>chrono::Utc::now().to_rfc3339()\<close> reads\<close>
  v_blocks :: "Cid \<rightharpoonup> bytes"
  v_log :: "(int \<times> bytes \<times> bool) list" \<comment> \<open>sequence number, event, invalidated\<close>
  v_roots :: "string \<rightharpoonup> Cid"
  v_accounts :: "string \<rightharpoonup> account_row"
  v_invites :: "string \<rightharpoonup> int \<times> bool" \<comment> \<open>uses left, disabled\<close>
  v_invite_uses :: "(string \<times> string) set"
  v_prefs :: "string \<rightharpoonup> string"
  v_keys :: "string \<rightharpoonup> bytes"
  v_blobs :: "string \<times> string \<rightharpoonup> string \<times> bytes"
  v_par :: "string \<rightharpoonup> StoredPushedRequest"
  v_codes :: "string \<rightharpoonup> AuthCode"
  v_refresh :: "string \<rightharpoonup> RefreshTokenRecord \<times> bool" \<comment> \<open>record, spent\<close>
  v_jti :: "string \<rightharpoonup> nat"

definition active_row :: "account_row \<Rightarrow> bool" where
  "active_row a = (row_deactivated_at a = None \<and> row_takedown_ref a = None)"

definition handle_taken :: "view \<Rightarrow> string \<Rightarrow> bool" where
  "handle_taken v h = (\<exists>d a. v_accounts v d = Some a \<and> row_handle a = Some h)"

definition handles_unique :: "view \<Rightarrow> bool" where
  "handles_unique v = (\<forall>d d' a a' h. v_accounts v d = Some a \<longrightarrow> v_accounts v d' = Some a' \<longrightarrow>
     row_handle a = Some h \<longrightarrow> row_handle a' = Some h \<longrightarrow> d = d')"

text \<open>The account an auth-path lookup by handle may return: the active one with that handle.\<close>

definition visible_by_handle :: "view \<Rightarrow> string \<Rightarrow> string \<Rightarrow> account_row \<Rightarrow> bool" where
  "visible_by_handle v h d a =
     (v_accounts v d = Some a \<and> row_handle a = Some h \<and> active_row a)"

text \<open>The firehose log is numbered 1, 2, ... without gaps.\<close>

definition log_ok :: "view \<Rightarrow> bool" where
  "log_ok v = (map fst (v_log v) = map int [1..<Suc (length (v_log v))])"

definition view_ok :: "view \<Rightarrow> bool" where
  "view_ok v = (handles_unique v \<and> log_ok v \<and>
     finite (dom (v_accounts v)) \<and> finite (dom (v_refresh v)) \<and> finite (dom (v_par v)) \<and>
     finite (dom (v_codes v)) \<and> finite (dom (v_jti v)) \<and> finite (dom (v_blobs v)) \<and>
     (\<forall>h r u. v_refresh v h = Some (r, u) \<longrightarrow> rt_token_hash r = h))"

subsection \<open>What each operation does to the view\<close>

text \<open>
  A specification relates the view before, the result and the view after. \<open>reads f\<close>
  returns \<open>f\<close> of the view and changes nothing; \<open>writes f\<close> returns and updates as \<open>f\<close>
  says, a refusal (\<open>None\<close>) being some error with the view unchanged.
\<close>

type_synonym 'a vspec = "view \<Rightarrow> StorageError + 'a \<Rightarrow> view \<Rightarrow> bool"

definition reads :: "(view \<Rightarrow> 'a) \<Rightarrow> 'a vspec" where
  "reads f v r v' = (r = Inr (f v) \<and> v' = v)"

definition writes :: "(view \<Rightarrow> ('a \<times> view) option) \<Rightarrow> 'a vspec" where
  "writes f v r v' =
     (case f v of None \<Rightarrow> is_err r \<and> v' = v | Some (a, w) \<Rightarrow> r = Inr a \<and> v' = w)"

definition lists :: "(view \<Rightarrow> 'a list \<Rightarrow> bool) \<Rightarrow> 'a list vspec" where
  "lists P v r v' = (\<exists>xs. r = Inr xs \<and> P v xs \<and> v' = v)"

text \<open>Blocks, log and repository roots.\<close>

definition spec_read_block :: "Cid \<Rightarrow> bytes vspec" where
  "spec_read_block c v r v' = (r = ok_or BlockNotFound (v_blocks v c) \<and> v' = v)"

definition put_if_absent :: "Cid \<times> bytes \<Rightarrow> (Cid \<rightharpoonup> bytes) \<Rightarrow> (Cid \<rightharpoonup> bytes)" where
  "put_if_absent = (\<lambda>(c, b) m. case m c of None \<Rightarrow> m(c \<mapsto> b) | Some _ \<Rightarrow> m)"

definition spec_put_block :: "Cid \<Rightarrow> bytes \<Rightarrow> unit vspec" where
  "spec_put_block c b = writes (\<lambda>v. Some ((), v\<lparr>v_blocks := put_if_absent (c, b) (v_blocks v)\<rparr>))"

definition spec_max_seq :: "int vspec" where
  "spec_max_seq = reads (\<lambda>v. int (length (v_log v)))"

definition log_after :: "int \<Rightarrow> (int \<times> bytes \<times> bool) list \<Rightarrow> (int \<times> bytes) list" where
  "log_after n l = map (\<lambda>(q, e, _). (q, e)) (filter (\<lambda>(q, _, inval). n < q \<and> \<not> inval) l)"

definition spec_backfill_page :: "int \<Rightarrow> int \<Rightarrow> (int \<times> bytes) list vspec" where
  "spec_backfill_page n k = reads (\<lambda>v. take (nat k) (log_after n (v_log v)))"

definition spec_load_repo_root :: "string \<Rightarrow> Cid option vspec" where
  "spec_load_repo_root d = reads (\<lambda>v. v_roots v d)"

definition spec_update_repo_root :: "string \<Rightarrow> Cid \<Rightarrow> unit vspec" where
  "spec_update_repo_root d c = writes (\<lambda>v. Some ((), v\<lparr>v_roots := (v_roots v)(d \<mapsto> c)\<rparr>))"

definition spec_commit_blocks :: "(Cid \<times> bytes) list \<Rightarrow> string \<Rightarrow> Cid \<Rightarrow> bytes \<Rightarrow> int vspec" where
  "spec_commit_blocks bs d root ev = writes (\<lambda>v. let seq = int (length (v_log v)) + 1 in
     Some (seq, v\<lparr>v_blocks := fold put_if_absent bs (v_blocks v),
                  v_log := v_log v @ [(seq, ev, False)],
                  v_roots := (v_roots v)(d \<mapsto> root)\<rparr>))"

text \<open>Accounts, invites and preferences.\<close>

definition new_row :: "view \<Rightarrow> string \<Rightarrow> string option \<Rightarrow> string \<Rightarrow> account_row" where
  "new_row v h email phc = \<lparr>row_handle = Some h, row_email = email, row_password = phc,
     row_created_at = v_now v, row_deactivated_at = None, row_takedown_ref = None\<rparr>"

definition account_free :: "view \<Rightarrow> string \<Rightarrow> string \<Rightarrow> bool" where
  "account_free v d h = (v_accounts v d = None \<and> \<not> handle_taken v h)"

definition add_account ::
  "string \<Rightarrow> string \<Rightarrow> string option \<Rightarrow> string \<Rightarrow> view \<Rightarrow> view" where
  "add_account d h email phc v = v\<lparr>v_accounts := (v_accounts v)(d \<mapsto> new_row v h email phc)\<rparr>"

definition spec_count_accounts :: "int vspec" where
  "spec_count_accounts = reads (\<lambda>v. int (card (dom (v_accounts v))))"

definition spec_insert_account ::
  "string \<Rightarrow> string \<Rightarrow> string option \<Rightarrow> string \<Rightarrow> unit vspec" where
  "spec_insert_account d h email phc = writes (\<lambda>v.
     if account_free v d h then Some ((), add_account d h email phc v) else None)"

definition spec_count_and_insert_account ::
  "string \<Rightarrow> string \<Rightarrow> string option \<Rightarrow> string \<Rightarrow> int vspec" where
  "spec_count_and_insert_account d h email phc = writes (\<lambda>v.
     if account_free v d h
     then Some (int (card (dom (v_accounts v))), add_account d h email phc v) else None)"

definition spec_get_account_by_handle :: "string \<Rightarrow> (string \<times> string) option vspec" where
  "spec_get_account_by_handle h v r v' = (v' = v \<and>
     (\<exists>x. r = Inr x \<and> (\<forall>d p. x = Some (d, p) \<longleftrightarrow> (\<exists>a. visible_by_handle v h d a \<and> row_password a = p))))"

definition spec_get_did_by_handle :: "string \<Rightarrow> string option vspec" where
  "spec_get_did_by_handle h v r v' = (v' = v \<and>
     (\<exists>x. r = Inr x \<and> (\<forall>d. x = Some d \<longleftrightarrow> (\<exists>a. visible_by_handle v h d a))))"

definition spec_get_handle_by_did :: "string \<Rightarrow> string option vspec" where
  "spec_get_handle_by_did d = reads (\<lambda>v. case v_accounts v d of None \<Rightarrow> None
     | Some a \<Rightarrow> if active_row a then row_handle a else None)"

definition summary_of :: "string \<Rightarrow> account_row \<Rightarrow> AccountSummary" where
  "summary_of d a = \<lparr>sum_did = d, sum_handle = row_handle a,
     sum_deactivated_at = row_deactivated_at a, sum_takedown_ref = row_takedown_ref a,
     sum_created_at = row_created_at a\<rparr>"

definition spec_list_accounts :: "AccountSummary list vspec" where
  "spec_list_accounts = lists (\<lambda>v xs. distinct (map sum_did xs) \<and>
     sorted (map sum_created_at xs) \<and>
     set xs = {summary_of d a |d a. v_accounts v d = Some a})"

definition update_account ::
  "string \<Rightarrow> (account_row \<Rightarrow> account_row) \<Rightarrow> view \<Rightarrow> nat \<times> view" where
  "update_account d f v = (case v_accounts v d of None \<Rightarrow> (0, v)
     | Some a \<Rightarrow> (1, v\<lparr>v_accounts := (v_accounts v)(d \<mapsto> f a)\<rparr>))"

definition spec_update_password :: "string \<Rightarrow> string \<Rightarrow> nat vspec" where
  "spec_update_password d phc = writes (\<lambda>v. Some (update_account d (row_password_update (\<lambda>_. phc)) v))"

definition spec_set_takedown :: "string \<Rightarrow> string \<Rightarrow> nat vspec" where
  "spec_set_takedown d ref = writes (\<lambda>v. Some (update_account d
     (row_takedown_ref_update (\<lambda>_. Some (if ref = [] then v_now v else ref))) v))"

definition spec_clear_takedown :: "string \<Rightarrow> nat vspec" where
  "spec_clear_takedown d = writes (\<lambda>v. Some (update_account d (row_takedown_ref_update (\<lambda>_. None)) v))"

definition spec_insert_invite :: "string \<Rightarrow> int \<Rightarrow> unit vspec" where
  "spec_insert_invite c n = writes (\<lambda>v. case v_invites v c of
     Some _ \<Rightarrow> None | None \<Rightarrow> Some ((), v\<lparr>v_invites := (v_invites v)(c \<mapsto> (n, False))\<rparr>))"

definition invite_usable :: "view \<Rightarrow> string \<Rightarrow> string \<Rightarrow> bool" where
  "invite_usable v c u = (case v_invites v c of None \<Rightarrow> False
     | Some (n, dis) \<Rightarrow> \<not> dis \<and> 0 < n \<and> (c, u) \<notin> v_invite_uses v)"

definition spec_consume_invite :: "string \<Rightarrow> string \<Rightarrow> bool vspec" where
  "spec_consume_invite c u = writes (\<lambda>v. Some (if invite_usable v c u
     then (True, v\<lparr>v_invites := (v_invites v)(c \<mapsto> map_prod (\<lambda>n. n - 1) id (the (v_invites v c))),
                    v_invite_uses := insert (c, u) (v_invite_uses v)\<rparr>)
     else (False, v)))"

definition spec_upsert_preferences :: "string \<Rightarrow> string \<Rightarrow> unit vspec" where
  "spec_upsert_preferences d p = writes (\<lambda>v. Some ((), v\<lparr>v_prefs := (v_prefs v)(d \<mapsto> p)\<rparr>))"

definition spec_get_preferences :: "string \<Rightarrow> string option vspec" where
  "spec_get_preferences d = reads (\<lambda>v. v_prefs v d)"

text \<open>Keys and blobs.\<close>

definition spec_put_key_blob :: "string \<Rightarrow> bytes \<Rightarrow> unit vspec" where
  "spec_put_key_blob i c = writes (\<lambda>v. Some ((), v\<lparr>v_keys := (v_keys v)(i \<mapsto> c)\<rparr>))"

definition spec_get_key_blob :: "string \<Rightarrow> bytes option vspec" where
  "spec_get_key_blob i = reads (\<lambda>v. v_keys v i)"

definition spec_put_blob :: "string \<Rightarrow> string \<Rightarrow> string \<Rightarrow> bytes \<Rightarrow> unit vspec" where
  "spec_put_blob d c mime b = writes (\<lambda>v. Some ((), v\<lparr>v_blobs := (v_blobs v)((d, c) \<mapsto> (mime, b))\<rparr>))"

definition spec_get_blob :: "string \<Rightarrow> string \<Rightarrow> (string \<times> bytes) option vspec" where
  "spec_get_blob d c = reads (\<lambda>v. v_blobs v (d, c))"

definition blob_cids :: "view \<Rightarrow> string \<Rightarrow> string set" where
  "blob_cids v d = {c. v_blobs v (d, c) \<noteq> None}"

definition spec_list_blobs :: "string \<Rightarrow> nat \<Rightarrow> string option \<Rightarrow> string list vspec" where
  "spec_list_blobs d k cur = reads (\<lambda>v. take k
     (filter (\<lambda>c. case cur of None \<Rightarrow> True | Some x \<Rightarrow> x < c) (sorted_list_of_set (blob_cids v d))))"

text \<open>OAuth state.\<close>

definition live :: "('a \<Rightarrow> nat) \<Rightarrow> nat \<Rightarrow> 'a option \<Rightarrow> 'a option" where
  "live ex now x = (case x of None \<Rightarrow> None | Some a \<Rightarrow> if now < ex a then Some a else None)"

definition spec_put_pushed_request :: "StoredPushedRequest \<Rightarrow> unit vspec" where
  "spec_put_pushed_request q = writes (\<lambda>v.
     Some ((), v\<lparr>v_par := (v_par v)(par_request_uri_hash q \<mapsto> q)\<rparr>))"

definition spec_get_pushed_request :: "string \<Rightarrow> nat \<Rightarrow> StoredPushedRequest option vspec" where
  "spec_get_pushed_request h now = reads (\<lambda>v. live par_expires_at now (v_par v h))"

definition spec_delete_pushed_request :: "string \<Rightarrow> unit vspec" where
  "spec_delete_pushed_request h = writes (\<lambda>v. Some ((), v\<lparr>v_par := (v_par v)(h := None)\<rparr>))"

definition spec_put_auth_code :: "AuthCode \<Rightarrow> unit vspec" where
  "spec_put_auth_code c = writes (\<lambda>v. Some ((), v\<lparr>v_codes := (v_codes v)(code_hash c \<mapsto> c)\<rparr>))"

definition spec_consume_auth_code :: "string \<Rightarrow> nat \<Rightarrow> AuthCode option vspec" where
  "spec_consume_auth_code h now = writes (\<lambda>v.
     Some (live code_expires_at now (v_codes v h), v\<lparr>v_codes := (v_codes v)(h := None)\<rparr>))"

definition spec_put_refresh_token :: "RefreshTokenRecord \<Rightarrow> unit vspec" where
  "spec_put_refresh_token t = writes (\<lambda>v.
     Some ((), v\<lparr>v_refresh := (v_refresh v)(rt_token_hash t \<mapsto> (t, False))\<rparr>))"

definition spec_consume_refresh_token :: "string \<Rightarrow> nat \<Rightarrow> ConsumeResult vspec" where
  "spec_consume_refresh_token h now = writes (\<lambda>v. Some
     (case live (rt_expires_at \<circ> fst) now (v_refresh v h) of None \<Rightarrow> (NotFound, v)
      | Some (t, True) \<Rightarrow> (Reused (rt_session_id t), v)
      | Some (t, False) \<Rightarrow> (Consumed t, v\<lparr>v_refresh := (v_refresh v)(h \<mapsto> (t, True))\<rparr>)))"

definition in_session :: "string \<Rightarrow> view \<Rightarrow> string set" where
  "in_session sid v = {h. \<exists>t u. v_refresh v h = Some (t, u) \<and> rt_session_id t = sid}"

definition drop_session :: "string \<Rightarrow> view \<Rightarrow> view" where
  "drop_session sid v = v\<lparr>v_refresh := (v_refresh v) |` (- in_session sid v)\<rparr>"

definition spec_revoke_session :: "string \<Rightarrow> nat vspec" where
  "spec_revoke_session sid = writes (\<lambda>v. Some (card (in_session sid v), drop_session sid v))"

definition spec_revoke_refresh_token :: "string \<Rightarrow> bool vspec" where
  "spec_revoke_refresh_token h = writes (\<lambda>v. Some (case v_refresh v h of None \<Rightarrow> (False, v)
     | Some (t, _) \<Rightarrow> (True, drop_session (rt_session_id t) v)))"

definition spec_list_sessions :: "string \<Rightarrow> nat \<Rightarrow> RefreshTokenRecord list vspec" where
  "spec_list_sessions d now = lists (\<lambda>v xs. distinct (map rt_token_hash xs) \<and>
     sorted (map rt_issued_at (rev xs)) \<and>
     set xs = {t. (\<exists>h. v_refresh v h = Some (t, False)) \<and> rt_did t = d \<and> now < rt_expires_at t})"

definition spec_record_dpop_jti :: "string \<Rightarrow> nat \<Rightarrow> bool vspec" where
  "spec_record_dpop_jti j ex = writes (\<lambda>v. Some (case v_jti v j of
     Some _ \<Rightarrow> (False, v) | None \<Rightarrow> (True, v\<lparr>v_jti := (v_jti v)(j \<mapsto> ex)\<rparr>)))"

definition expired :: "('a \<Rightarrow> nat) \<Rightarrow> nat \<Rightarrow> (string \<rightharpoonup> 'a) \<Rightarrow> string set" where
  "expired ex now m = {k. \<exists>a. m k = Some a \<and> ex a \<le> now}"

definition spec_purge_expired :: "nat \<Rightarrow> nat vspec" where
  "spec_purge_expired now = writes (\<lambda>v. Some
     (card (expired par_expires_at now (v_par v)) + card (expired code_expires_at now (v_codes v)) +
      card (expired (rt_expires_at \<circ> fst) now (v_refresh v)) + card (expired id now (v_jti v)),
      v\<lparr>v_par := v_par v |` (- expired par_expires_at now (v_par v)),
        v_codes := v_codes v |` (- expired code_expires_at now (v_codes v)),
        v_refresh := v_refresh v |` (- expired (rt_expires_at \<circ> fst) now (v_refresh v)),
        v_jti := v_jti v |` (- expired id now (v_jti v))\<rparr>))"

subsection \<open>The contracts\<close>

text \<open>
  \<open>meets good up \<alpha> op R\<close>: from a good state the operation ends in a good state and acts
  on the view as \<open>R\<close> says; a backend that is not \<open>up\<close> may instead fail, leaving the view as
  it was. \<open>up\<close> says that the database stays reachable.
\<close>

definition meets ::
  "('s \<Rightarrow> bool) \<Rightarrow> ('s \<Rightarrow> bool) \<Rightarrow> ('s \<Rightarrow> view) \<Rightarrow> ('s, 'a) sop \<Rightarrow> 'a vspec \<Rightarrow> bool" where
  "meets good up \<alpha> op R = (\<forall>s. good s \<longrightarrow> (case op s of (r, s') \<Rightarrow> good s' \<and> (up s \<longrightarrow> up s') \<and>
     (R (\<alpha> s) r (\<alpha> s') \<or> \<not> up s \<and> is_err r \<and> \<alpha> s' = \<alpha> s)))"

text \<open>Times are \<open>u64\<close> seconds that SQLite stores as \<open>i64\<close>; the contracts speak of those below \<open>2^63\<close>.\<close>

definition time_ok :: "nat \<Rightarrow> bool" where
  "time_ok n = (n < 2 ^ 63)"


lemma meetsI:
  assumes "\<And>s r s'. good s \<Longrightarrow> op s = (r, s') \<Longrightarrow> good s' \<and> (up s \<longrightarrow> up s') \<and>
     (R (\<alpha> s) r (\<alpha> s') \<or> \<not> up s \<and> is_err r \<and> \<alpha> s' = \<alpha> s)"
  shows "meets good up \<alpha> op R"
  using assms by (auto simp: meets_def)

lemma meets_step:
  assumes "meets good up \<alpha> op R" "good s" "op s = (r, s')"
  shows "good s' \<and> (up s \<longrightarrow> up s') \<and>
    (R (\<alpha> s) r (\<alpha> s') \<or> \<not> up s \<and> is_err r \<and> \<alpha> s' = \<alpha> s)"
  using assms by (auto simp: meets_def)

lemma meets_Ok:
  assumes "meets good up \<alpha> op R" "good s" "op s = (Inr a, s')"
  shows "good s' \<and> (up s \<longrightarrow> up s') \<and> R (\<alpha> s) (Inr a) (\<alpha> s')"
  using meets_step [OF assms] by auto

lemma meets_up:
  assumes "meets good up \<alpha> op R" "good s" "up s" "op s = (r, s')"
  shows "good s' \<and> up s' \<and> R (\<alpha> s) r (\<alpha> s')"
  using meets_step [OF assms(1,2,4)] assms(3) by auto

lemma meets_good: "meets good up \<alpha> op R \<Longrightarrow> good s \<Longrightarrow> good (snd (op s))"
  by (cases "op s") (auto dest: meets_step)

lemma meets_readsI:
  assumes "\<And>s. good s \<Longrightarrow> op s = (Inr (f (\<alpha> s)), s)"
  shows "meets good up \<alpha> op (reads f)"
  using assms by (auto simp: meets_def reads_def)

lemma meets_listsI:
  assumes "\<And>s. good s \<Longrightarrow> \<exists>xs. op s = (Inr xs, s) \<and> P (\<alpha> s) xs"
  shows "meets good up \<alpha> op (lists P)"
  using assms by (fastforce simp: meets_def lists_def)

lemma meets_writesI:
  assumes "\<And>s. good s \<Longrightarrow> case f (\<alpha> s) of
      None \<Rightarrow> \<exists>e. op s = (Inl e, s)
    | Some (a, w) \<Rightarrow> \<exists>s'. op s = (Inr a, s') \<and> good s' \<and> (up s \<longrightarrow> up s') \<and> \<alpha> s' = w"
  shows "meets good up \<alpha> op (writes f)"
  using assms by (fastforce simp: meets_def writes_def split: option.splits)

lemma reads_iff [simp]:
  "reads f v (Inr a) v' \<longleftrightarrow> a = f v \<and> v' = v" "\<not> reads f v (Inl e) v'"
  by (auto simp: reads_def)

lemma writes_Ok [simp]: "writes f v (Inr a) v' \<longleftrightarrow> f v = Some (a, v')"
  by (auto simp: writes_def split: option.splits)

lemma writes_Err [simp]: "writes f v (Inl e) v' \<longleftrightarrow> f v = None \<and> v' = v"
  by (auto simp: writes_def split: option.splits)

lemma lists_iff [simp]:
  "lists P v (Inr xs) v' \<longleftrightarrow> P v xs \<and> v' = v" "\<not> lists P v (Inl e) v'"
  by (auto simp: lists_def)

locale repo_store =
  fixes R :: "'s RepoStore" and good up :: "'s \<Rightarrow> bool" and \<alpha> :: "'s \<Rightarrow> view"
  assumes repo_view_ok: "good s \<Longrightarrow> view_ok (\<alpha> s)"
    and read_block: "meets good up \<alpha> (read_block_bytes R c) (spec_read_block c)"
    and put_block: "meets good up \<alpha> (put_block R c b) (spec_put_block c b)"
    and max_seq: "meets good up \<alpha> (max_seq R) spec_max_seq"
    and backfill_page: "0 \<le> k \<Longrightarrow> meets good up \<alpha> (backfill_page R n k) (spec_backfill_page n k)"
    and load_repo_root: "meets good up \<alpha> (load_repo_root R d) (spec_load_repo_root d)"
    and update_repo_root: "meets good up \<alpha> (update_repo_root R d c) (spec_update_repo_root d c)"
    and commit_blocks: "meets good up \<alpha> (commit_blocks R bs d c ev) (spec_commit_blocks bs d c ev)"

locale account_store =
  fixes A :: "'s AccountStore" and good up :: "'s \<Rightarrow> bool" and \<alpha> :: "'s \<Rightarrow> view"
  assumes account_view_ok: "good s \<Longrightarrow> view_ok (\<alpha> s)"
    and count_accounts: "meets good up \<alpha> (count_accounts A) spec_count_accounts"
    and insert_account:
      "meets good up \<alpha> (insert_account A d h email phc) (spec_insert_account d h email phc)"
    and count_and_insert_account: "meets good up \<alpha> (count_and_insert_account A d h email phc)
      (spec_count_and_insert_account d h email phc)"
    and get_account_by_handle:
      "meets good up \<alpha> (get_account_by_handle A h) (spec_get_account_by_handle h)"
    and get_did_by_handle: "meets good up \<alpha> (get_did_by_handle A h) (spec_get_did_by_handle h)"
    and get_handle_by_did: "meets good up \<alpha> (get_handle_by_did A d) (spec_get_handle_by_did d)"
    and list_accounts: "meets good up \<alpha> (list_accounts A) spec_list_accounts"
    and update_password: "meets good up \<alpha> (update_password A d phc) (spec_update_password d phc)"
    and set_takedown: "meets good up \<alpha> (set_takedown A d ref) (spec_set_takedown d ref)"
    and clear_takedown: "meets good up \<alpha> (clear_takedown A d) (spec_clear_takedown d)"
    and insert_invite: "meets good up \<alpha> (insert_invite A c n d) (spec_insert_invite c n)"
    and consume_invite: "meets good up \<alpha> (consume_invite A c u) (spec_consume_invite c u)"
    and upsert_preferences:
      "meets good up \<alpha> (upsert_preferences A d p) (spec_upsert_preferences d p)"
    and get_preferences: "meets good up \<alpha> (get_preferences A d) (spec_get_preferences d)"

locale key_store =
  fixes K :: "'s KeyStore" and good up :: "'s \<Rightarrow> bool" and \<alpha> :: "'s \<Rightarrow> view"
  assumes put_key_blob: "meets good up \<alpha> (put_key_blob K i c) (spec_put_key_blob i c)"
    and get_key_blob: "meets good up \<alpha> (get_key_blob K i) (spec_get_key_blob i)"

text \<open>One backend names a blob's object \<open>did/cid\<close>, so the contract speaks of CIDs whose text has no slash.\<close>

locale blob_store =
  fixes L :: "'s BlobStore" and good up :: "'s \<Rightarrow> bool" and \<alpha> :: "'s \<Rightarrow> view"
  assumes put_blob: "CHR ''/'' \<notin> set c \<Longrightarrow> meets good up \<alpha> (put_blob L d c mime n b) (spec_put_blob d c mime b)"
    and get_blob: "meets good up \<alpha> (get_blob L d c) (spec_get_blob d c)"
    and list_blobs: "time_ok k \<Longrightarrow> meets good up \<alpha> (list_blobs L d k cur) (spec_list_blobs d k cur)"

locale oauth_store =
  fixes Z :: "'s OAuthStore" and good up :: "'s \<Rightarrow> bool" and \<alpha> :: "'s \<Rightarrow> view"
  assumes oauth_view_ok: "good s \<Longrightarrow> view_ok (\<alpha> s)"
    and put_pushed_request: "time_ok (par_expires_at q) \<Longrightarrow>
      meets good up \<alpha> (put_pushed_request Z q) (spec_put_pushed_request q)"
    and get_pushed_request: "time_ok now \<Longrightarrow>
      meets good up \<alpha> (get_pushed_request Z h now) (spec_get_pushed_request h now)"
    and delete_pushed_request:
      "meets good up \<alpha> (delete_pushed_request Z h) (spec_delete_pushed_request h)"
    and put_auth_code: "time_ok (code_expires_at ac) \<Longrightarrow>
      meets good up \<alpha> (put_auth_code Z ac) (spec_put_auth_code ac)"
    and consume_auth_code: "time_ok now \<Longrightarrow>
      meets good up \<alpha> (consume_auth_code Z h now) (spec_consume_auth_code h now)"
    and put_refresh_token: "time_ok (rt_issued_at t) \<Longrightarrow> time_ok (rt_expires_at t) \<Longrightarrow>
      meets good up \<alpha> (put_refresh_token Z t) (spec_put_refresh_token t)"
    and consume_refresh_token: "time_ok now \<Longrightarrow>
      meets good up \<alpha> (consume_refresh_token Z h now) (spec_consume_refresh_token h now)"
    and revoke_session: "meets good up \<alpha> (revoke_session Z sid) (spec_revoke_session sid)"
    and revoke_refresh_token:
      "meets good up \<alpha> (revoke_refresh_token Z h) (spec_revoke_refresh_token h)"
    and list_sessions: "time_ok now \<Longrightarrow>
      meets good up \<alpha> (list_sessions_for_did Z d now) (spec_list_sessions d now)"
    and record_dpop_jti: "time_ok ex \<Longrightarrow>
      meets good up \<alpha> (record_dpop_jti Z j ex) (spec_record_dpop_jti j ex)"
    and purge_expired: "time_ok now \<Longrightarrow>
      meets good up \<alpha> (purge_expired Z now) (spec_purge_expired now)"

locale storage_backend =
  repo: repo_store "repo_ops B" good up \<alpha> + account: account_store "account_ops B" good up \<alpha> +
  key: key_store "key_ops B" good up \<alpha> + blob: blob_store "blob_ops B" good up \<alpha> +
  oauth: oauth_store "oauth_ops B" good up \<alpha>
  for B :: "'s StorageBackend" and good up :: "'s \<Rightarrow> bool" and \<alpha> :: "'s \<Rightarrow> view"

end
