(* ===== verification/Memory_Store.thy ===== *)
theory Memory_Store
  imports Storage_Traits
begin

text \<open>
  The in-memory backend (\<open>rust-core/src/storage/memory/mod.rs\<close>). The state \<open>Inner\<close> lives
  under one mutex, so every trait method is one atomic operation on it. The invariant
  \<open>mem_ok\<close> is what the maps promise between calls; \<open>mem_view\<close> abstracts a state to the view
  of \<open>Storage_Traits\<close>. The interpretations at the end discharge every law of every storage
  contract for this backend.
\<close>

subsection \<open>State\<close>

record Account =
  acc_did :: string
  acc_handle :: "string option"
  acc_email :: "string option"
  acc_password_phc :: string
  acc_created_at :: string
  acc_deactivated_at :: "string option"
  acc_takedown_ref :: "string option"
  acc_ordinal :: nat

record Invite =
  inv_available_uses :: int
  inv_disabled :: bool

record SeqRow =
  sr_seq :: int
  sr_event :: bytes
  sr_invalidated :: bool

text \<open>\<open>m_utc_now\<close> is what \<open>chrono::Utc::now().to_rfc3339()\<close> reads; no operation changes it.\<close>

record Inner =
  m_blocks :: "(Cid, bytes) hashmap"
  m_repo_seq :: "SeqRow list"
  m_next_seq :: int
  m_repo_roots :: "(string, Cid) hashmap"
  m_accounts :: "(string, Account) hashmap"
  m_next_ordinal :: nat
  m_invites :: "(string, Invite) hashmap"
  m_invite_uses :: "(string \<times> string) set"
  m_keys :: "(string, bytes) hashmap"
  m_blobs :: "(string \<times> string, string \<times> bytes) hashmap"
  m_prefs :: "(string, string) hashmap"
  m_oauth_par :: "(string, StoredPushedRequest) hashmap"
  m_oauth_codes :: "(string, AuthCode) hashmap"
  m_oauth_refresh :: "(string, RefreshTokenRecord \<times> bool) hashmap"
  m_oauth_jti :: "(string, nat) hashmap"
  m_utc_now :: string

definition mem_new :: "string \<Rightarrow> Inner" where
  "mem_new now = \<lparr>m_blocks = [], m_repo_seq = [], m_next_seq = 0, m_repo_roots = [],
     m_accounts = [], m_next_ordinal = 0, m_invites = [], m_invite_uses = {}, m_keys = [],
     m_blobs = [], m_prefs = [], m_oauth_par = [], m_oauth_codes = [], m_oauth_refresh = [],
     m_oauth_jti = [], m_utc_now = now\<rparr>"

definition acc_active :: "Account \<Rightarrow> bool" where
  "acc_active a = (acc_deactivated_at a = None \<and> acc_takedown_ref a = None)"

definition mem_active :: "Inner \<Rightarrow> string \<Rightarrow> Account option" where
  "mem_active g did = (case hm_get (m_accounts g) did of
     None \<Rightarrow> None | Some a \<Rightarrow> if acc_active a then Some a else None)"

definition mem_active_by_handle :: "Inner \<Rightarrow> string \<Rightarrow> Account option" where
  "mem_active_by_handle g h = (case find (\<lambda>a. acc_handle a = Some h) (hm_values (m_accounts g)) of
     None \<Rightarrow> None | Some a \<Rightarrow> if acc_active a then Some a else None)"

subsection \<open>Blocks, sequencer, repository roots\<close>

definition mem_read_block_bytes :: "Cid \<Rightarrow> (Inner, bytes) sop" where
  "mem_read_block_bytes cid g = (ok_or BlockNotFound (hm_get (m_blocks g) cid), g)"

definition mem_put_block :: "Cid \<Rightarrow> bytes \<Rightarrow> (Inner, unit) sop" where
  "mem_put_block cid b g = (Ok (), g\<lparr>m_blocks := hm_or_insert cid b (m_blocks g)\<rparr>)"

definition mem_max_seq :: "(Inner, int) sop" where
  "mem_max_seq g = (Ok (if m_repo_seq g = [] then 0 else sr_seq (last (m_repo_seq g))), g)"

definition mem_backfill_page :: "int \<Rightarrow> int \<Rightarrow> (Inner, (int \<times> bytes) list) sop" where
  "mem_backfill_page after_seq limit g =
     (Ok (map (\<lambda>r. (sr_seq r, sr_event r))
        (take (nat (max limit 0))
          (filter (\<lambda>r. after_seq < sr_seq r \<and> \<not> sr_invalidated r) (m_repo_seq g)))), g)"

definition mem_load_repo_root :: "string \<Rightarrow> (Inner, Cid option) sop" where
  "mem_load_repo_root did g = (Ok (hm_get (m_repo_roots g) did), g)"

definition mem_update_repo_root :: "string \<Rightarrow> Cid \<Rightarrow> (Inner, unit) sop" where
  "mem_update_repo_root did root g = (Ok (), g\<lparr>m_repo_roots := hm_insert did root (m_repo_roots g)\<rparr>)"

definition mem_commit_blocks :: "(Cid \<times> bytes) list \<Rightarrow> string \<Rightarrow> Cid \<Rightarrow> bytes \<Rightarrow> (Inner, int) sop" where
  "mem_commit_blocks bs did new_root event_body g =
     (let g1 = g\<lparr>m_blocks := fold (\<lambda>(cid, b) m. hm_or_insert cid b m) bs (m_blocks g)\<rparr>;
          seq = m_next_seq g1 + 1;
          g2 = g1\<lparr>m_next_seq := seq,
                  m_repo_seq := m_repo_seq g1 @
                    [\<lparr>sr_seq = seq, sr_event = event_body, sr_invalidated = False\<rparr>]\<rparr>
      in (Ok seq, g2\<lparr>m_repo_roots := hm_insert did new_root (m_repo_roots g2)\<rparr>))"

subsection \<open>Accounts, invites, preferences\<close>

definition insert_account_locked ::
  "string \<Rightarrow> string \<Rightarrow> string option \<Rightarrow> string \<Rightarrow> (Inner, unit) sop" where
  "insert_account_locked did handle email password_phc g =
     (if hm_contains_key (m_accounts g) did
      then (Err (Constraint (''account already exists: '' @ did)), g)
      else if list_ex (\<lambda>a. acc_handle a = Some handle) (hm_values (m_accounts g))
      then (Err (Constraint (''handle already taken: '' @ handle)), g)
      else (Ok (), g\<lparr>m_next_ordinal := m_next_ordinal g + 1,
        m_accounts := hm_insert did
          \<lparr>acc_did = did, acc_handle = Some handle, acc_email = email,
           acc_password_phc = password_phc, acc_created_at = m_utc_now g,
           acc_deactivated_at = None, acc_takedown_ref = None,
           acc_ordinal = m_next_ordinal g\<rparr> (m_accounts g)\<rparr>))"

definition mem_count_accounts :: "(Inner, int) sop" where
  "mem_count_accounts g = (Ok (int (length (m_accounts g))), g)"

definition mem_count_and_insert_account ::
  "string \<Rightarrow> string \<Rightarrow> string option \<Rightarrow> string \<Rightarrow> (Inner, int) sop" where
  "mem_count_and_insert_account did handle email phc g =
     (let before = int (length (m_accounts g))
      in case insert_account_locked did handle email phc g of
           (Inl e, g') \<Rightarrow> (Err e, g') | (Inr _, g') \<Rightarrow> (Ok before, g'))"

definition mem_get_account_by_handle :: "string \<Rightarrow> (Inner, (string \<times> string) option) sop" where
  "mem_get_account_by_handle h g =
     (Ok (map_option (\<lambda>a. (acc_did a, acc_password_phc a)) (mem_active_by_handle g h)), g)"

definition mem_get_did_by_handle :: "string \<Rightarrow> (Inner, string option) sop" where
  "mem_get_did_by_handle h g = (Ok (map_option acc_did (mem_active_by_handle g h)), g)"

definition mem_get_handle_by_did :: "string \<Rightarrow> (Inner, string option) sop" where
  "mem_get_handle_by_did did g = (Ok (Option.bind (mem_active g did) acc_handle), g)"

definition mem_list_accounts :: "(Inner, AccountSummary list) sop" where
  "mem_list_accounts g = (Ok (map (\<lambda>a. \<lparr>sum_did = acc_did a, sum_handle = acc_handle a,
        sum_deactivated_at = acc_deactivated_at a, sum_takedown_ref = acc_takedown_ref a,
        sum_created_at = acc_created_at a\<rparr>)
     (sort_key acc_created_at (sort_key acc_ordinal (hm_values (m_accounts g))))), g)"

text \<open>\<open>HashMap::get_mut\<close> followed by an assignment, and the affected-row count.\<close>

definition mem_modify_account :: "string \<Rightarrow> (Account \<Rightarrow> Account) \<Rightarrow> (Inner, nat) sop" where
  "mem_modify_account did f g = (case hm_get (m_accounts g) did of
     Some a \<Rightarrow> (Ok 1, g\<lparr>m_accounts := hm_insert did (f a) (m_accounts g)\<rparr>)
   | None \<Rightarrow> (Ok 0, g))"

definition mem_update_password :: "string \<Rightarrow> string \<Rightarrow> (Inner, nat) sop" where
  "mem_update_password did phc = mem_modify_account did (acc_password_phc_update (\<lambda>_. phc))"

definition mem_set_takedown :: "string \<Rightarrow> string \<Rightarrow> (Inner, nat) sop" where
  "mem_set_takedown did reference g = (let now = m_utc_now g in
     mem_modify_account did (acc_takedown_ref_update
       (\<lambda>_. Some (if reference = [] then now else reference))) g)"

definition mem_clear_takedown :: "string \<Rightarrow> (Inner, nat) sop" where
  "mem_clear_takedown did = mem_modify_account did (acc_takedown_ref_update (\<lambda>_. None))"

definition mem_insert_invite :: "string \<Rightarrow> int \<Rightarrow> string \<Rightarrow> (Inner, unit) sop" where
  "mem_insert_invite code available_uses for_account g =
     (if hm_contains_key (m_invites g) code
      then (Err (Constraint (''invite code already exists: '' @ code)), g)
      else (Ok (), g\<lparr>m_invites := hm_insert code
        \<lparr>inv_available_uses = available_uses, inv_disabled = False\<rparr> (m_invites g)\<rparr>))"

definition mem_consume_invite :: "string \<Rightarrow> string \<Rightarrow> (Inner, bool) sop" where
  "mem_consume_invite code used_by g = (case hm_get (m_invites g) code of
     None \<Rightarrow> (Ok False, g)
   | Some i \<Rightarrow>
       if inv_disabled i then (Ok False, g)
       else if inv_available_uses i \<le> 0 then (Ok False, g)
       else if (code, used_by) \<in> m_invite_uses g then (Ok False, g)
       else (Ok True, g\<lparr>m_invite_uses := insert (code, used_by) (m_invite_uses g),
         m_invites := hm_insert code
           (i\<lparr>inv_available_uses := inv_available_uses i - 1\<rparr>) (m_invites g)\<rparr>))"

definition mem_upsert_preferences :: "string \<Rightarrow> string \<Rightarrow> (Inner, unit) sop" where
  "mem_upsert_preferences did p g = (Ok (), g\<lparr>m_prefs := hm_insert did p (m_prefs g)\<rparr>)"

definition mem_get_preferences :: "string \<Rightarrow> (Inner, string option) sop" where
  "mem_get_preferences did g = (Ok (hm_get (m_prefs g) did), g)"

subsection \<open>Keys and blobs\<close>

definition mem_put_key_blob :: "string \<Rightarrow> bytes \<Rightarrow> (Inner, unit) sop" where
  "mem_put_key_blob i ciphertext g = (Ok (), g\<lparr>m_keys := hm_insert i ciphertext (m_keys g)\<rparr>)"

definition mem_get_key_blob :: "string \<Rightarrow> (Inner, bytes option) sop" where
  "mem_get_key_blob i g = (Ok (hm_get (m_keys g) i), g)"

definition mem_put_blob :: "string \<Rightarrow> string \<Rightarrow> string \<Rightarrow> int \<Rightarrow> bytes \<Rightarrow> (Inner, unit) sop" where
  "mem_put_blob did cid mime_type sz b g =
     (Ok (), g\<lparr>m_blobs := hm_insert (did, cid) (mime_type, b) (m_blobs g)\<rparr>)"

definition mem_get_blob :: "string \<Rightarrow> string \<Rightarrow> (Inner, (string \<times> bytes) option) sop" where
  "mem_get_blob did cid g = (Ok (hm_get (m_blobs g) (did, cid)), g)"

definition mem_list_blobs :: "string \<Rightarrow> nat \<Rightarrow> string option \<Rightarrow> (Inner, string list) sop" where
  "mem_list_blobs did limit cursor g =
     (Ok (take limit
        (filter (\<lambda>c. case cursor of None \<Rightarrow> True | Some cur \<Rightarrow> cur < c)
          (sort (map snd (filter (\<lambda>(d, _). d = did) (map fst (m_blobs g))))))), g)"

subsection \<open>OAuth server state\<close>

definition mem_put_pushed_request :: "StoredPushedRequest \<Rightarrow> (Inner, unit) sop" where
  "mem_put_pushed_request req g =
     (Ok (), g\<lparr>m_oauth_par := hm_insert (par_request_uri_hash req) req (m_oauth_par g)\<rparr>)"

definition mem_get_pushed_request :: "string \<Rightarrow> nat \<Rightarrow> (Inner, StoredPushedRequest option) sop" where
  "mem_get_pushed_request h now g = (Ok (case hm_get (m_oauth_par g) h of
     None \<Rightarrow> None | Some r \<Rightarrow> if now < par_expires_at r then Some r else None), g)"

definition mem_delete_pushed_request :: "string \<Rightarrow> (Inner, unit) sop" where
  "mem_delete_pushed_request h g = (Ok (), g\<lparr>m_oauth_par := hm_remove h (m_oauth_par g)\<rparr>)"

definition mem_put_auth_code :: "AuthCode \<Rightarrow> (Inner, unit) sop" where
  "mem_put_auth_code c g =
     (Ok (), g\<lparr>m_oauth_codes := hm_insert (code_hash c) c (m_oauth_codes g)\<rparr>)"

definition mem_consume_auth_code :: "string \<Rightarrow> nat \<Rightarrow> (Inner, AuthCode option) sop" where
  "mem_consume_auth_code h now g =
     (Ok (case hm_get (m_oauth_codes g) h of
        None \<Rightarrow> None | Some c \<Rightarrow> if now < code_expires_at c then Some c else None),
      g\<lparr>m_oauth_codes := hm_remove h (m_oauth_codes g)\<rparr>)"

definition mem_put_refresh_token :: "RefreshTokenRecord \<Rightarrow> (Inner, unit) sop" where
  "mem_put_refresh_token token g =
     (Ok (), g\<lparr>m_oauth_refresh := hm_insert (rt_token_hash token) (token, False) (m_oauth_refresh g)\<rparr>)"

definition mem_consume_refresh_token :: "string \<Rightarrow> nat \<Rightarrow> (Inner, ConsumeResult) sop" where
  "mem_consume_refresh_token h now g = (case hm_get (m_oauth_refresh g) h of
     None \<Rightarrow> (Ok NotFound, g)
   | Some (rec, used) \<Rightarrow>
       if rt_expires_at rec \<le> now then (Ok NotFound, g)
       else if used then (Ok (Reused (rt_session_id rec)), g)
       else (Ok (Consumed rec), g\<lparr>m_oauth_refresh := hm_insert h (rec, True) (m_oauth_refresh g)\<rparr>))"

definition mem_revoke_session :: "string \<Rightarrow> (Inner, nat) sop" where
  "mem_revoke_session sid g =
     (let before = length (m_oauth_refresh g);
          kept = hm_retain (\<lambda>_ (r, _). rt_session_id r \<noteq> sid) (m_oauth_refresh g)
      in (Ok (before - length kept), g\<lparr>m_oauth_refresh := kept\<rparr>))"

definition mem_revoke_refresh_token :: "string \<Rightarrow> (Inner, bool) sop" where
  "mem_revoke_refresh_token h g = (case hm_get (m_oauth_refresh g) h of
     None \<Rightarrow> (Ok False, g)
   | Some (rec, _) \<Rightarrow> (Ok True, g\<lparr>m_oauth_refresh :=
       hm_retain (\<lambda>_ (r, _). rt_session_id r \<noteq> rt_session_id rec) (m_oauth_refresh g)\<rparr>))"

text \<open>
  \<open>sort_by\<close> on \<open>(issued_at descending, token_hash ascending)\<close>: the two stable sorts, least
  significant key first; the descending order is the ascending order of the negation.
\<close>

definition mem_list_sessions_for_did :: "string \<Rightarrow> nat \<Rightarrow> (Inner, RefreshTokenRecord list) sop" where
  "mem_list_sessions_for_did did now g =
     (Ok (sort_key (\<lambda>r. - int (rt_issued_at r)) (sort_key rt_token_hash
        (map fst (filter (\<lambda>(r, used). \<not> used \<and> rt_did r = did \<and> now < rt_expires_at r)
          (hm_values (m_oauth_refresh g)))))), g)"

definition mem_record_dpop_jti :: "string \<Rightarrow> nat \<Rightarrow> (Inner, bool) sop" where
  "mem_record_dpop_jti jti expires_at g =
     (if hm_contains_key (m_oauth_jti g) jti then (Ok False, g)
      else (Ok True, g\<lparr>m_oauth_jti := hm_insert jti expires_at (m_oauth_jti g)\<rparr>))"

definition mem_oauth_len :: "Inner \<Rightarrow> nat" where
  "mem_oauth_len g = length (m_oauth_par g) + length (m_oauth_codes g) +
     length (m_oauth_refresh g) + length (m_oauth_jti g)"

definition mem_purge_expired :: "nat \<Rightarrow> (Inner, nat) sop" where
  "mem_purge_expired now g =
     (let g' = g\<lparr>m_oauth_par := hm_retain (\<lambda>_ r. now < par_expires_at r) (m_oauth_par g),
                 m_oauth_codes := hm_retain (\<lambda>_ c. now < code_expires_at c) (m_oauth_codes g),
                 m_oauth_refresh := hm_retain (\<lambda>_ (r, _). now < rt_expires_at r) (m_oauth_refresh g),
                 m_oauth_jti := hm_retain (\<lambda>_ e. now < e) (m_oauth_jti g)\<rparr>
      in (Ok (mem_oauth_len g - mem_oauth_len g'), g'))"

subsection \<open>The backend\<close>

definition mem_backend :: "Inner StorageBackend" where
  "mem_backend = \<lparr>
     repo_ops = \<lparr>read_block_bytes = mem_read_block_bytes, put_block = mem_put_block,
       max_seq = mem_max_seq, backfill_page = mem_backfill_page,
       load_repo_root = mem_load_repo_root, update_repo_root = mem_update_repo_root,
       commit_blocks = mem_commit_blocks\<rparr>,
     account_ops = \<lparr>count_accounts = mem_count_accounts, insert_account = insert_account_locked,
       count_and_insert_account = mem_count_and_insert_account,
       get_account_by_handle = mem_get_account_by_handle,
       get_did_by_handle = mem_get_did_by_handle, get_handle_by_did = mem_get_handle_by_did,
       list_accounts = mem_list_accounts, update_password = mem_update_password,
       set_takedown = mem_set_takedown, clear_takedown = mem_clear_takedown,
       insert_invite = mem_insert_invite, consume_invite = mem_consume_invite,
       upsert_preferences = mem_upsert_preferences, get_preferences = mem_get_preferences\<rparr>,
     key_ops = \<lparr>put_key_blob = mem_put_key_blob, get_key_blob = mem_get_key_blob\<rparr>,
     blob_ops = \<lparr>put_blob = mem_put_blob, get_blob = mem_get_blob, list_blobs = mem_list_blobs\<rparr>,
     oauth_ops = \<lparr>put_pushed_request = mem_put_pushed_request,
       get_pushed_request = mem_get_pushed_request,
       delete_pushed_request = mem_delete_pushed_request, put_auth_code = mem_put_auth_code,
       consume_auth_code = mem_consume_auth_code, put_refresh_token = mem_put_refresh_token,
       consume_refresh_token = mem_consume_refresh_token, revoke_session = mem_revoke_session,
       revoke_refresh_token = mem_revoke_refresh_token,
       list_sessions_for_did = mem_list_sessions_for_did,
       record_dpop_jti = mem_record_dpop_jti, purge_expired = mem_purge_expired\<rparr>\<rparr>"

lemma mem_backend_ops [simp]:
  "read_block_bytes (repo_ops mem_backend) = mem_read_block_bytes"
  "put_block (repo_ops mem_backend) = mem_put_block"
  "max_seq (repo_ops mem_backend) = mem_max_seq"
  "backfill_page (repo_ops mem_backend) = mem_backfill_page"
  "load_repo_root (repo_ops mem_backend) = mem_load_repo_root"
  "update_repo_root (repo_ops mem_backend) = mem_update_repo_root"
  "commit_blocks (repo_ops mem_backend) = mem_commit_blocks"
  "count_accounts (account_ops mem_backend) = mem_count_accounts"
  "insert_account (account_ops mem_backend) = insert_account_locked"
  "count_and_insert_account (account_ops mem_backend) = mem_count_and_insert_account"
  "get_account_by_handle (account_ops mem_backend) = mem_get_account_by_handle"
  "get_did_by_handle (account_ops mem_backend) = mem_get_did_by_handle"
  "get_handle_by_did (account_ops mem_backend) = mem_get_handle_by_did"
  "list_accounts (account_ops mem_backend) = mem_list_accounts"
  "update_password (account_ops mem_backend) = mem_update_password"
  "set_takedown (account_ops mem_backend) = mem_set_takedown"
  "clear_takedown (account_ops mem_backend) = mem_clear_takedown"
  "insert_invite (account_ops mem_backend) = mem_insert_invite"
  "consume_invite (account_ops mem_backend) = mem_consume_invite"
  "upsert_preferences (account_ops mem_backend) = mem_upsert_preferences"
  "get_preferences (account_ops mem_backend) = mem_get_preferences"
  "put_key_blob (key_ops mem_backend) = mem_put_key_blob"
  "get_key_blob (key_ops mem_backend) = mem_get_key_blob"
  "put_blob (blob_ops mem_backend) = mem_put_blob"
  "get_blob (blob_ops mem_backend) = mem_get_blob"
  "list_blobs (blob_ops mem_backend) = mem_list_blobs"
  "put_pushed_request (oauth_ops mem_backend) = mem_put_pushed_request"
  "get_pushed_request (oauth_ops mem_backend) = mem_get_pushed_request"
  "delete_pushed_request (oauth_ops mem_backend) = mem_delete_pushed_request"
  "put_auth_code (oauth_ops mem_backend) = mem_put_auth_code"
  "consume_auth_code (oauth_ops mem_backend) = mem_consume_auth_code"
  "put_refresh_token (oauth_ops mem_backend) = mem_put_refresh_token"
  "consume_refresh_token (oauth_ops mem_backend) = mem_consume_refresh_token"
  "revoke_session (oauth_ops mem_backend) = mem_revoke_session"
  "revoke_refresh_token (oauth_ops mem_backend) = mem_revoke_refresh_token"
  "list_sessions_for_did (oauth_ops mem_backend) = mem_list_sessions_for_did"
  "record_dpop_jti (oauth_ops mem_backend) = mem_record_dpop_jti"
  "purge_expired (oauth_ops mem_backend) = mem_purge_expired"
  by (simp_all add: mem_backend_def)

subsection \<open>Abstraction and invariant\<close>

definition acc_row :: "Account \<Rightarrow> account_row" where
  "acc_row a = \<lparr>row_handle = acc_handle a, row_email = acc_email a,
     row_password = acc_password_phc a, row_created_at = acc_created_at a,
     row_deactivated_at = acc_deactivated_at a, row_takedown_ref = acc_takedown_ref a\<rparr>"

definition mem_view :: "Inner \<Rightarrow> view" where
  "mem_view g = \<lparr>v_now = m_utc_now g, v_blocks = hm_get (m_blocks g),
     v_log = map (\<lambda>r. (sr_seq r, sr_event r, sr_invalidated r)) (m_repo_seq g),
     v_roots = hm_get (m_repo_roots g),
     v_accounts = (\<lambda>d. map_option acc_row (hm_get (m_accounts g) d)),
     v_invites = (\<lambda>c. map_option (\<lambda>i. (inv_available_uses i, inv_disabled i)) (hm_get (m_invites g) c)),
     v_invite_uses = m_invite_uses g, v_prefs = hm_get (m_prefs g), v_keys = hm_get (m_keys g),
     v_blobs = hm_get (m_blobs g), v_par = hm_get (m_oauth_par g),
     v_codes = hm_get (m_oauth_codes g), v_refresh = hm_get (m_oauth_refresh g),
     v_jti = hm_get (m_oauth_jti g)\<rparr>"

definition mem_seq_ok :: "Inner \<Rightarrow> bool" where
  "mem_seq_ok g = (m_next_seq g = int (length (m_repo_seq g)) \<and>
     map sr_seq (m_repo_seq g) = map int [1..<Suc (length (m_repo_seq g))])"

definition mem_accounts_ok :: "Inner \<Rightarrow> bool" where
  "mem_accounts_ok g = (hm_ok (m_accounts g) \<and>
     (\<forall>(d, a) \<in> set (m_accounts g). acc_did a = d) \<and>
     (\<forall>(d, a) \<in> set (m_accounts g). \<forall>(d', a') \<in> set (m_accounts g).
        acc_handle a \<noteq> None \<longrightarrow> acc_handle a = acc_handle a' \<longrightarrow> d = d'))"

definition mem_ok :: "Inner \<Rightarrow> bool" where
  "mem_ok g = (mem_seq_ok g \<and> mem_accounts_ok g \<and> hm_ok (m_blobs g) \<and> hm_ok (m_oauth_par g) \<and>
     hm_ok (m_oauth_codes g) \<and> hm_ok (m_oauth_refresh g) \<and> hm_ok (m_oauth_jti g) \<and>
     (\<forall>(h, r, u) \<in> set (m_oauth_refresh g). rt_token_hash r = h))"

definition mem_up :: "Inner \<Rightarrow> bool" where
  "mem_up g = True"


lemma mem_view_simps [simp]:
  "v_now (mem_view g) = m_utc_now g" "v_blocks (mem_view g) = hm_get (m_blocks g)"
  "v_log (mem_view g) = map (\<lambda>r. (sr_seq r, sr_event r, sr_invalidated r)) (m_repo_seq g)"
  "v_roots (mem_view g) = hm_get (m_repo_roots g)"
  "v_accounts (mem_view g) d = map_option acc_row (hm_get (m_accounts g) d)"
  "v_invites (mem_view g) c = map_option (\<lambda>i. (inv_available_uses i, inv_disabled i)) (hm_get (m_invites g) c)"
  "v_invite_uses (mem_view g) = m_invite_uses g" "v_prefs (mem_view g) = hm_get (m_prefs g)"
  "v_keys (mem_view g) = hm_get (m_keys g)" "v_blobs (mem_view g) = hm_get (m_blobs g)"
  "v_par (mem_view g) = hm_get (m_oauth_par g)" "v_codes (mem_view g) = hm_get (m_oauth_codes g)"
  "v_refresh (mem_view g) = hm_get (m_oauth_refresh g)" "v_jti (mem_view g) = hm_get (m_oauth_jti g)"
  by (simp_all add: mem_view_def)

text \<open>What an update of one field of the state does to the view.\<close>

lemma mem_view_upd [simp]:
  "mem_view (g\<lparr>m_blocks := x1\<rparr>) = (mem_view g)\<lparr>v_blocks := hm_get x1\<rparr>"
  "mem_view (g\<lparr>m_repo_seq := x2\<rparr>) =
     (mem_view g)\<lparr>v_log := map (\<lambda>r. (sr_seq r, sr_event r, sr_invalidated r)) x2\<rparr>"
  "mem_view (g\<lparr>m_next_seq := x3\<rparr>) = mem_view g"
  "mem_view (g\<lparr>m_repo_roots := x4\<rparr>) = (mem_view g)\<lparr>v_roots := hm_get x4\<rparr>"
  "mem_view (g\<lparr>m_accounts := x5\<rparr>) =
     (mem_view g)\<lparr>v_accounts := (\<lambda>d. map_option acc_row (hm_get x5 d))\<rparr>"
  "mem_view (g\<lparr>m_next_ordinal := x6\<rparr>) = mem_view g"
  "mem_view (g\<lparr>m_invites := x7\<rparr>) = (mem_view g)\<lparr>v_invites :=
     (\<lambda>c. map_option (\<lambda>i. (inv_available_uses i, inv_disabled i)) (hm_get x7 c))\<rparr>"
  "mem_view (g\<lparr>m_invite_uses := x8\<rparr>) = (mem_view g)\<lparr>v_invite_uses := x8\<rparr>"
  "mem_view (g\<lparr>m_keys := x9\<rparr>) = (mem_view g)\<lparr>v_keys := hm_get x9\<rparr>"
  "mem_view (g\<lparr>m_blobs := x10\<rparr>) = (mem_view g)\<lparr>v_blobs := hm_get x10\<rparr>"
  "mem_view (g\<lparr>m_prefs := x11\<rparr>) = (mem_view g)\<lparr>v_prefs := hm_get x11\<rparr>"
  "mem_view (g\<lparr>m_oauth_par := x12\<rparr>) = (mem_view g)\<lparr>v_par := hm_get x12\<rparr>"
  "mem_view (g\<lparr>m_oauth_codes := x13\<rparr>) = (mem_view g)\<lparr>v_codes := hm_get x13\<rparr>"
  "mem_view (g\<lparr>m_oauth_refresh := x14\<rparr>) = (mem_view g)\<lparr>v_refresh := hm_get x14\<rparr>"
  "mem_view (g\<lparr>m_oauth_jti := x15\<rparr>) = (mem_view g)\<lparr>v_jti := hm_get x15\<rparr>"
  by (simp_all add: mem_view_def)

lemma mem_view_maps:
  "v_accounts (mem_view g) = (\<lambda>d. map_option acc_row (hm_get (m_accounts g) d))"
  "v_invites (mem_view g) =
     (\<lambda>c. map_option (\<lambda>i. (inv_available_uses i, inv_disabled i)) (hm_get (m_invites g) c))"
  by (simp_all add: fun_eq_iff)

lemmas mem_ok_defs = mem_ok_def mem_seq_ok_def mem_accounts_ok_def

lemma mem_ok_frame [simp]:
  "mem_ok (g\<lparr>m_blocks := x1\<rparr>) = mem_ok g" "mem_ok (g\<lparr>m_repo_roots := x2\<rparr>) = mem_ok g"
  "mem_ok (g\<lparr>m_invites := x3\<rparr>) = mem_ok g" "mem_ok (g\<lparr>m_invite_uses := x4\<rparr>) = mem_ok g"
  "mem_ok (g\<lparr>m_keys := x5\<rparr>) = mem_ok g" "mem_ok (g\<lparr>m_prefs := x6\<rparr>) = mem_ok g"
  "mem_ok (g\<lparr>m_utc_now := x7\<rparr>) = mem_ok g" "mem_ok (g\<lparr>m_next_ordinal := x8\<rparr>) = mem_ok g"
  by (simp_all add: mem_ok_defs)

lemma mem_ok_maps [simp]:
  "mem_ok g \<Longrightarrow> hm_ok x1 \<Longrightarrow> mem_ok (g\<lparr>m_blobs := x1\<rparr>)"
  "mem_ok g \<Longrightarrow> hm_ok x2 \<Longrightarrow> mem_ok (g\<lparr>m_oauth_par := x2\<rparr>)"
  "mem_ok g \<Longrightarrow> hm_ok x3 \<Longrightarrow> mem_ok (g\<lparr>m_oauth_codes := x3\<rparr>)"
  "mem_ok g \<Longrightarrow> hm_ok x4 \<Longrightarrow> mem_ok (g\<lparr>m_oauth_jti := x4\<rparr>)"
  "mem_ok g \<Longrightarrow> hm_ok x5 \<Longrightarrow> (\<And>h r u. hm_get x5 h = Some (r, u) \<Longrightarrow> rt_token_hash r = h) \<Longrightarrow>
     mem_ok (g\<lparr>m_oauth_refresh := x5\<rparr>)"
  by (auto simp: mem_ok_defs hm_get_in_set)

lemma mem_okD:
  assumes "mem_ok g"
  shows "hm_ok (m_blobs g)" "hm_ok (m_oauth_par g)" "hm_ok (m_oauth_codes g)" "hm_ok (m_oauth_jti g)"
    "hm_ok (m_oauth_refresh g)" "hm_ok (m_accounts g)"
  using assms by (auto simp: mem_ok_defs hm_get_in_set)

lemma mem_ok_token_hash: "mem_ok g \<Longrightarrow> hm_get (m_oauth_refresh g) h = Some (r, u) \<Longrightarrow> rt_token_hash r = h"
  by (auto simp: mem_ok_defs hm_get_in_set)

lemma mem_ok_new: "mem_ok (mem_new now)"
  by (simp add: mem_ok_def mem_new_def mem_seq_ok_def mem_accounts_ok_def)

lemma mem_accounts_view:
  assumes "mem_accounts_ok g"
  shows "v_accounts (mem_view g) d = Some r \<longleftrightarrow> (\<exists>a. (d, a) \<in> set (m_accounts g) \<and> r = acc_row a)"
  using assms by (auto simp: mem_accounts_ok_def simp flip: hm_get_in_set)

lemma finite_dom_hm_get [simp]: "finite (dom (hm_get m))"
  unfolding hm_get_def by (rule finite_dom_map_of)

lemma finite_dom_map_option_hm_get [simp]: "finite (dom (\<lambda>k. map_option f (hm_get m k)))"
  by (rule finite_subset [OF _ finite_dom_hm_get [of m]]) (auto simp: dom_def)

lemma mem_view_ok: "mem_ok g \<Longrightarrow> view_ok (mem_view g)"
proof -
  assume ok: "mem_ok g"
  then have acc: "mem_accounts_ok g" by (simp add: mem_ok_def)
  have "handles_unique (mem_view g)"
    unfolding handles_unique_def mem_accounts_view [OF acc]
    using acc by (fastforce simp: mem_accounts_ok_def acc_row_def)
  moreover have "log_ok (mem_view g)"
    using ok by (simp add: mem_ok_def mem_seq_ok_def log_ok_def comp_def)
  moreover have "rt_token_hash r = h" if "hm_get (m_oauth_refresh g) h = Some (r, u)" for h r u
    using that ok by (fastforce simp: mem_ok_def hm_get_in_set)
  ultimately show ?thesis by (simp add: view_ok_def mem_view_maps)
qed

subsection \<open>Every operation meets its specification\<close>

lemma mem_read_block_meets:
  "meets mem_ok mem_up mem_view (mem_read_block_bytes c) (spec_read_block c)"
  by (rule meetsI) (auto simp: mem_read_block_bytes_def spec_read_block_def )

lemma put_if_absent_hm: "put_if_absent (c, b) (hm_get m) = hm_get (hm_or_insert c b m)"
  by (simp add: put_if_absent_def hm_get_or_insert)

lemma fold_put_if_absent_hm:
  "fold put_if_absent bs (hm_get m) = hm_get (fold (\<lambda>(c, b) m. hm_or_insert c b m) bs m)"
  by (induction bs arbitrary: m) (auto simp: put_if_absent_hm)

lemma mem_put_block_meets:
  "meets mem_ok mem_up mem_view (mem_put_block c b) (spec_put_block c b)"
  unfolding spec_put_block_def
  by (rule meets_writesI)
    (simp add: mem_put_block_def mem_up_def put_if_absent_hm)

lemma mem_max_seq_meets: "meets mem_ok mem_up mem_view mem_max_seq spec_max_seq"
  unfolding spec_max_seq_def
proof (rule meets_readsI)
  fix g assume "mem_ok g"
  then have seqs: "map sr_seq (m_repo_seq g) = map int [1..<Suc (length (m_repo_seq g))]"
    by (simp add: mem_ok_def mem_seq_ok_def)
  have "sr_seq (last (m_repo_seq g)) = int (length (m_repo_seq g))" if "m_repo_seq g \<noteq> []"
    using arg_cong [OF seqs, of last] that by (cases "m_repo_seq g") (auto simp: last_map)
  then show "mem_max_seq g = (Ok (int (length (v_log (mem_view g)))), g)"
    by (simp add: mem_max_seq_def )
qed

lemma mem_backfill_page_meets:
  "0 \<le> k \<Longrightarrow> meets mem_ok mem_up mem_view (mem_backfill_page n k) (spec_backfill_page n k)"
  unfolding spec_backfill_page_def
  by (rule meets_readsI)
    (simp add: mem_backfill_page_def log_after_def  filter_map take_map comp_def max_def)

lemma mem_load_repo_root_meets:
  "meets mem_ok mem_up mem_view (mem_load_repo_root d) (spec_load_repo_root d)"
  unfolding spec_load_repo_root_def
  by (rule meets_readsI) (simp add: mem_load_repo_root_def )

lemma mem_update_repo_root_meets:
  "meets mem_ok mem_up mem_view (mem_update_repo_root d c) (spec_update_repo_root d c)"
  unfolding spec_update_repo_root_def
  by (rule meets_writesI)
    (simp add: mem_update_repo_root_def mem_up_def hm_get_insert)

lemma mem_commit_blocks_meets:
  "meets mem_ok mem_up mem_view (mem_commit_blocks bs d c ev) (spec_commit_blocks bs d c ev)"
  unfolding spec_commit_blocks_def
  by (rule meets_writesI)
    (auto simp: mem_commit_blocks_def mem_up_def Let_def hm_get_insert fold_put_if_absent_hm
      mem_ok_defs)

lemma mem_count_accounts_meets:
  "meets mem_ok mem_up mem_view mem_count_accounts spec_count_accounts"
  unfolding spec_count_accounts_def
  by (rule meets_readsI)
    (simp add: mem_count_accounts_def mem_view_maps mem_ok_def mem_accounts_ok_def
      dom_map_option_comp [unfolded comp_def] card_dom_hm_get)

text \<open>The account table's invariant, in terms of lookups.\<close>

lemma mem_accounts_ok_get:
  "mem_accounts_ok g \<longleftrightarrow> hm_ok (m_accounts g) \<and>
     (\<forall>d a. hm_get (m_accounts g) d = Some a \<longrightarrow> acc_did a = d) \<and>
     (\<forall>d a d' a'. hm_get (m_accounts g) d = Some a \<longrightarrow> hm_get (m_accounts g) d' = Some a' \<longrightarrow>
        acc_handle a \<noteq> None \<longrightarrow> acc_handle a = acc_handle a' \<longrightarrow> d = d')"
  unfolding mem_accounts_ok_def by (auto simp: hm_get_in_set Ball_def)

lemma mem_accounts_ok_insert:
  assumes "mem_accounts_ok g" "m_accounts g' = hm_insert d a (m_accounts g)" "acc_did a = d"
    and "\<And>d' a'. hm_get (m_accounts g) d' = Some a' \<Longrightarrow> acc_handle a \<noteq> None \<Longrightarrow>
      acc_handle a = acc_handle a' \<Longrightarrow> d' = d"
  shows "mem_accounts_ok g'"
  using assms(1,3,4) unfolding mem_accounts_ok_get assms(2) hm_get_insert
  by (auto split: if_splits)


lemma mem_ok_accounts: "mem_ok g \<Longrightarrow> mem_accounts_ok g"
  by (simp add: mem_ok_def)

lemma mem_ok_change_accounts:
  assumes "mem_ok g" "mem_accounts_ok (g\<lparr>m_accounts := as\<rparr>)"
  shows "mem_ok (g\<lparr>m_next_ordinal := n, m_accounts := as\<rparr>)" "mem_ok (g\<lparr>m_accounts := as\<rparr>)"
  using assms by (auto simp: mem_ok_defs)

lemma acc_row_simps [simp]:
  "row_handle (acc_row a) = acc_handle a" "row_password (acc_row a) = acc_password_phc a"
  "active_row (acc_row a) = acc_active a"
  by (simp_all add: acc_row_def active_row_def acc_active_def)

lemma mem_handle_taken:
  "mem_accounts_ok g \<Longrightarrow> handle_taken (mem_view g) h \<longleftrightarrow>
     list_ex (\<lambda>a. acc_handle a = Some h) (hm_values (m_accounts g))"
  unfolding handle_taken_def list_ex_iff hm_values_def
  by (subst mem_accounts_view) (force simp del: mem_view_simps)+

lemma mem_insert_account_cases:
  assumes ok: "mem_ok g"
  shows "(case (if account_free (mem_view g) d h then Some ((), add_account d h email phc (mem_view g)) else None) of
      None \<Rightarrow> \<exists>e. insert_account_locked d h email phc g = (Inl e, g)
    | Some (a, w) \<Rightarrow> \<exists>g'. insert_account_locked d h email phc g = (Inr a, g') \<and> mem_ok g' \<and> mem_view g' = w)"
proof (cases "account_free (mem_view g) d h")
  case True
  note acc = mem_ok_accounts [OF ok]
  from True have new: "hm_get (m_accounts g) d = None"
    and no: "\<not> list_ex (\<lambda>a. acc_handle a = Some h) (hm_values (m_accounts g))"
    by (auto simp: account_free_def mem_handle_taken [OF acc] mem_view_simps)
  let ?a = "\<lparr>acc_did = d, acc_handle = Some h, acc_email = email, acc_password_phc = phc,
    acc_created_at = m_utc_now g, acc_deactivated_at = None, acc_takedown_ref = None,
    acc_ordinal = m_next_ordinal g\<rparr>"
  have "mem_accounts_ok (g\<lparr>m_accounts := hm_insert d ?a (m_accounts g)\<rparr>)"
    by (rule mem_accounts_ok_insert [OF acc, of _ d ?a])
      (use no acc in \<open>auto simp: hm_get_in_set mem_accounts_ok_def hm_values_def list_ex_iff\<close>)
  from mem_ok_change_accounts [OF ok this] show ?thesis
    using True new no
    by (auto simp: insert_account_locked_def hm_contains_key_def add_account_def new_row_def
       hm_get_insert acc_row_def fun_eq_iff)
next
  case False
  then show ?thesis
    by (auto simp: account_free_def mem_handle_taken [OF mem_ok_accounts [OF ok]] mem_view_simps
      insert_account_locked_def hm_contains_key_def)
qed

lemma mem_insert_account_meets:
  "meets mem_ok mem_up mem_view (insert_account_locked d h email phc) (spec_insert_account d h email phc)"
  unfolding spec_insert_account_def
proof (rule meets_writesI)
  fix g assume "mem_ok g"
  from mem_insert_account_cases [OF this, of d h email phc]
  show "case (if account_free (mem_view g) d h then Some ((), add_account d h email phc (mem_view g)) else None) of
      None \<Rightarrow> \<exists>e. insert_account_locked d h email phc g = (Inl e, g)
    | Some (a, w) \<Rightarrow> \<exists>s'. insert_account_locked d h email phc g = (Inr a, s') \<and> mem_ok s' \<and>
        (mem_up g \<longrightarrow> mem_up s') \<and> mem_view s' = w"
    by (auto simp: mem_up_def split: if_splits)
qed

lemma mem_account_count:
  "mem_ok g \<Longrightarrow> card (dom (v_accounts (mem_view g))) = length (m_accounts g)"
  by (simp add: mem_view_maps mem_ok_def mem_accounts_ok_def dom_map_option_comp [unfolded comp_def]
      card_dom_hm_get)

lemma mem_count_and_insert_account_meets:
  "meets mem_ok mem_up mem_view (mem_count_and_insert_account d h email phc)
     (spec_count_and_insert_account d h email phc)"
  unfolding spec_count_and_insert_account_def
proof (rule meets_writesI)
  fix g assume "mem_ok g"
  from mem_insert_account_cases [OF this, of d h email phc] mem_account_count [OF this]
  show "case (if account_free (mem_view g) d h
      then Some (int (card (dom (v_accounts (mem_view g)))), add_account d h email phc (mem_view g)) else None) of
      None \<Rightarrow> \<exists>e. mem_count_and_insert_account d h email phc g = (Inl e, g)
    | Some (a, w) \<Rightarrow> \<exists>s'. mem_count_and_insert_account d h email phc g = (Inr a, s') \<and> mem_ok s' \<and>
        (mem_up g \<longrightarrow> mem_up s') \<and> mem_view s' = w"
    by (auto simp: mem_count_and_insert_account_def mem_up_def split: if_splits)
qed

lemma mem_active_by_handle_iff:
  assumes acc: "mem_accounts_ok g"
  shows "mem_active_by_handle g h = Some a \<longleftrightarrow>
    hm_get (m_accounts g) (acc_did a) = Some a \<and> acc_handle a = Some h \<and> acc_active a"
proof -
  have uniq: "x = y" if "x \<in> set (hm_values (m_accounts g))" "y \<in> set (hm_values (m_accounts g))"
    "acc_handle x = Some h" "acc_handle y = Some h" for x y
  proof -
    from that obtain d d' where "(d, x) \<in> set (m_accounts g)" "(d', y) \<in> set (m_accounts g)"
      by (auto simp: hm_values_def)
    moreover from this that have "d = d'" using acc by (fastforce simp: mem_accounts_ok_def)
    ultimately show ?thesis using acc by (auto simp: mem_accounts_ok_def simp flip: hm_get_in_set)
  qed
  have mem: "hm_get (m_accounts g) (acc_did x) = Some x \<longleftrightarrow> x \<in> set (hm_values (m_accounts g))" for x
    using acc by (auto simp: hm_get_in_set mem_accounts_ok_def hm_values_def image_iff) force+
  show ?thesis
  proof (cases "find (\<lambda>a. acc_handle a = Some h) (hm_values (m_accounts g))")
    case None
    then have "\<forall>x \<in> set (hm_values (m_accounts g)). acc_handle x \<noteq> Some h"
      by (simp add: find_None_iff)
    with None show ?thesis by (auto simp: mem_active_by_handle_def mem)
  next
    case (Some b)
    then have "b \<in> set (hm_values (m_accounts g))" "acc_handle b = Some h"
      by (auto simp: find_Some_iff)
    with Some uniq show ?thesis by (auto simp: mem_active_by_handle_def mem)
  qed
qed

lemma mem_visible_by_handle:
  assumes "mem_accounts_ok g"
  shows "visible_by_handle (mem_view g) h d r \<longleftrightarrow>
    (\<exists>a. mem_active_by_handle g h = Some a \<and> acc_did a = d \<and> r = acc_row a)"
proof -
  have "acc_did a = d" if "hm_get (m_accounts g) d = Some a" for a
    using assms that by (simp add: mem_accounts_ok_get)
  then show ?thesis
    by (auto simp: visible_by_handle_def mem_view_simps mem_active_by_handle_iff [OF assms])
qed

lemma mem_get_account_by_handle_meets:
  "meets mem_ok mem_up mem_view (mem_get_account_by_handle h) (spec_get_account_by_handle h)"
  by (rule meetsI)
    (auto simp: mem_get_account_by_handle_def spec_get_account_by_handle_def mem_up_def
      mem_visible_by_handle mem_ok_accounts)

lemma mem_get_did_by_handle_meets:
  "meets mem_ok mem_up mem_view (mem_get_did_by_handle h) (spec_get_did_by_handle h)"
  by (rule meetsI)
    (auto simp: mem_get_did_by_handle_def spec_get_did_by_handle_def mem_up_def
      mem_visible_by_handle mem_ok_accounts)

lemma mem_get_handle_by_did_meets:
  "meets mem_ok mem_up mem_view (mem_get_handle_by_did d) (spec_get_handle_by_did d)"
  unfolding spec_get_handle_by_did_def
  by (rule meets_readsI)
    (auto simp: mem_get_handle_by_did_def mem_active_def mem_view_simps split: option.splits)

lemma mem_list_accounts_meets:
  "meets mem_ok mem_up mem_view mem_list_accounts spec_list_accounts"
  unfolding spec_list_accounts_def
proof (rule meets_listsI)
  fix g assume "mem_ok g"
  then have acc: "mem_accounts_ok g" by (rule mem_ok_accounts)
  let ?s = "\<lambda>a. \<lparr>sum_did = acc_did a, sum_handle = acc_handle a,
        sum_deactivated_at = acc_deactivated_at a, sum_takedown_ref = acc_takedown_ref a,
        sum_created_at = acc_created_at a\<rparr>"
  let ?l = "sort_key acc_created_at (sort_key acc_ordinal (hm_values (m_accounts g)))"
  have s: "?s a = summary_of (acc_did a) (acc_row a)" for a by (simp add: summary_of_def acc_row_def)
  have dids: "map acc_did (hm_values (m_accounts g)) = map fst (m_accounts g)"
    using acc by (auto simp: hm_values_def mem_accounts_ok_def)
  have "distinct (map acc_did ?l)"
  proof -
    have "distinct (map acc_did (hm_values (m_accounts g)))"
      using acc by (simp add: dids mem_accounts_ok_def hm_ok_def)
    then show ?thesis by (simp add: distinct_map)
  qed
  moreover have "?s ` set ?l = {summary_of d a |d a. v_accounts (mem_view g) d = Some a}"
  proof -
    have did: "acc_did b = d" if "(d, b) \<in> set (m_accounts g)" for d b
      using acc that by (auto simp: mem_accounts_ok_def)
    have "{summary_of d a |d a. v_accounts (mem_view g) d = Some a} =
        (\<lambda>(d, b). summary_of d (acc_row b)) ` set (m_accounts g)"
      unfolding mem_accounts_view [OF acc] by auto
    also have "\<dots> = (\<lambda>p. ?s (snd p)) ` set (m_accounts g)"
      unfolding s by (rule image_cong) (use did in auto)
    finally show ?thesis by (simp add: hm_values_def image_image)
  qed
  ultimately have "distinct (map sum_did (map ?s ?l)) \<and> sorted (map sum_created_at (map ?s ?l)) \<and>
      set (map ?s ?l) = {summary_of d a |d a. v_accounts (mem_view g) d = Some a}"
    by (simp add: comp_def)
  then show "\<exists>xs. mem_list_accounts g = (Inr xs, g) \<and> distinct (map sum_did xs) \<and>
      sorted (map sum_created_at xs) \<and> set xs = {summary_of d a |d a. v_accounts (mem_view g) d = Some a}"
    unfolding mem_list_accounts_def by blast
qed


lemma mem_modify_account_step:
  assumes ok: "mem_ok g"
    and f: "\<And>a. acc_did (f a) = acc_did a" "\<And>a. acc_handle (f a) = acc_handle a"
    and row: "\<And>a. acc_row (f a) = fr (acc_row a)"
  shows "case update_account d fr (mem_view g) of (n, w) \<Rightarrow>
    \<exists>g'. mem_modify_account d f g = (Inr n, g') \<and> mem_ok g' \<and> (mem_up g \<longrightarrow> mem_up g') \<and> mem_view g' = w"
proof (cases "hm_get (m_accounts g) d")
  case None
  with ok show ?thesis by (simp add: mem_modify_account_def update_account_def mem_view_simps)
next
  case (Some a)
  note acc = mem_ok_accounts [OF ok]
  have "mem_accounts_ok (g\<lparr>m_accounts := hm_insert d (f a) (m_accounts g)\<rparr>)"
    by (rule mem_accounts_ok_insert [OF acc, of _ d "f a"])
      (use Some acc f in \<open>auto simp: mem_accounts_ok_get\<close>)
  from mem_ok_change_accounts(2) [OF ok this] show ?thesis
    using Some
    by (simp add: mem_modify_account_def update_account_def mem_up_def hm_get_insert row fun_eq_iff)
qed

lemma mem_update_password_meets:
  "meets mem_ok mem_up mem_view (mem_update_password d phc) (spec_update_password d phc)"
  unfolding spec_update_password_def mem_update_password_def
  by (rule meets_writesI, simp, rule mem_modify_account_step) (simp_all add: acc_row_def)

lemma mem_set_takedown_meets:
  "meets mem_ok mem_up mem_view (mem_set_takedown d ref) (spec_set_takedown d ref)"
  unfolding spec_set_takedown_def mem_set_takedown_def Let_def
proof (rule meets_writesI)
  fix g assume "mem_ok g"
  then have "case update_account d (row_takedown_ref_update (\<lambda>_. Some (if ref = [] then m_utc_now g else ref))) (mem_view g) of
    (n, w) \<Rightarrow> \<exists>g'. mem_modify_account d (acc_takedown_ref_update (\<lambda>_. Some (if ref = [] then m_utc_now g else ref))) g
      = (Inr n, g') \<and> mem_ok g' \<and> (mem_up g \<longrightarrow> mem_up g') \<and> mem_view g' = w"
    by (rule mem_modify_account_step) (simp_all add: acc_row_def)
  then show "case Some (update_account d (row_takedown_ref_update
        (\<lambda>_. Some (if ref = [] then v_now (mem_view g) else ref))) (mem_view g)) of
      None \<Rightarrow> \<exists>e. mem_modify_account d (acc_takedown_ref_update (\<lambda>_. Some (if ref = [] then m_utc_now g else ref))) g = (Inl e, g)
    | Some (a, w) \<Rightarrow> \<exists>s'. mem_modify_account d (acc_takedown_ref_update (\<lambda>_. Some (if ref = [] then m_utc_now g else ref))) g
        = (Inr a, s') \<and> mem_ok s' \<and> (mem_up g \<longrightarrow> mem_up s') \<and> mem_view s' = w"
    by (cases "ref = []") simp_all
qed

lemma mem_clear_takedown_meets:
  "meets mem_ok mem_up mem_view (mem_clear_takedown d) (spec_clear_takedown d)"
  unfolding spec_clear_takedown_def mem_clear_takedown_def
  by (rule meets_writesI, simp, rule mem_modify_account_step) (simp_all add: acc_row_def)

lemma mem_consume_invite_meets:
  "meets mem_ok mem_up mem_view (mem_consume_invite c u) (spec_consume_invite c u)"
  unfolding spec_consume_invite_def
  by (rule meets_writesI)
    (auto simp: mem_consume_invite_def mem_up_def invite_usable_def hm_get_insert fun_eq_iff split: option.splits)

lemma mem_insert_invite_meets:
  "meets mem_ok mem_up mem_view (mem_insert_invite c n d) (spec_insert_invite c n)"
  unfolding spec_insert_invite_def
  by (rule meets_writesI)
    (auto simp: mem_insert_invite_def mem_up_def hm_contains_key_def hm_get_insert fun_eq_iff split: option.splits)

lemma mem_upsert_preferences_meets:
  "meets mem_ok mem_up mem_view (mem_upsert_preferences d p) (spec_upsert_preferences d p)"
  unfolding spec_upsert_preferences_def
  by (rule meets_writesI)
    (simp add: mem_upsert_preferences_def mem_up_def hm_get_insert)

lemma mem_get_preferences_meets:
  "meets mem_ok mem_up mem_view (mem_get_preferences d) (spec_get_preferences d)"
  unfolding spec_get_preferences_def
  by (rule meets_readsI) (simp add: mem_get_preferences_def )

lemma mem_put_key_blob_meets:
  "meets mem_ok mem_up mem_view (mem_put_key_blob i c) (spec_put_key_blob i c)"
  unfolding spec_put_key_blob_def
  by (rule meets_writesI)
    (simp add: mem_put_key_blob_def mem_up_def hm_get_insert)

lemma mem_get_key_blob_meets:
  "meets mem_ok mem_up mem_view (mem_get_key_blob i) (spec_get_key_blob i)"
  unfolding spec_get_key_blob_def
  by (rule meets_readsI) (simp add: mem_get_key_blob_def )

lemma mem_put_blob_meets:
  "meets mem_ok mem_up mem_view (mem_put_blob d c mime n b) (spec_put_blob d c mime b)"
  unfolding spec_put_blob_def
  by (rule meets_writesI)
    (simp add: mem_put_blob_def mem_up_def hm_get_insert mem_okD)

lemma mem_get_blob_meets:
  "meets mem_ok mem_up mem_view (mem_get_blob d c) (spec_get_blob d c)"
  unfolding spec_get_blob_def
  by (rule meets_readsI) (simp add: mem_get_blob_def )

lemma mem_list_blobs_meets:
  "meets mem_ok mem_up mem_view (mem_list_blobs d k cur) (spec_list_blobs d k cur)"
  unfolding spec_list_blobs_def
proof (rule meets_readsI)
  fix g assume "mem_ok g"
  then have ok: "hm_ok (m_blobs g)" by (simp add: mem_ok_def)
  let ?l = "map snd (filter (\<lambda>(d', _). d' = d) (map fst (m_blobs g)))"
  have "distinct ?l"
    using ok by (auto simp: hm_ok_def distinct_map inj_on_def intro: distinct_filter)
  moreover have "set ?l = blob_cids (mem_view g) d"
    by (force simp: blob_cids_def  hm_get_def map_of_eq_None_iff image_iff)
  ultimately have "sorted_list_of_set (blob_cids (mem_view g) d) = sort ?l"
    by (metis sorted_list_of_set_sort_remdups distinct_remdups_id)
  then show "mem_list_blobs d k cur g = (Ok (take k (filter (\<lambda>c. case cur of None \<Rightarrow> True | Some x \<Rightarrow> x < c)
      (sorted_list_of_set (blob_cids (mem_view g) d)))), g)"
    by (simp add: mem_list_blobs_def)
qed


lemma mem_put_pushed_request_meets:
  "meets mem_ok mem_up mem_view (mem_put_pushed_request q) (spec_put_pushed_request q)"
  unfolding spec_put_pushed_request_def
  by (rule meets_writesI) (simp add: mem_put_pushed_request_def mem_up_def hm_get_insert mem_okD)

lemma mem_get_pushed_request_meets:
  "meets mem_ok mem_up mem_view (mem_get_pushed_request h now) (spec_get_pushed_request h now)"
  unfolding spec_get_pushed_request_def
  by (rule meets_readsI) (simp add: mem_get_pushed_request_def live_def)

lemma mem_delete_pushed_request_meets:
  "meets mem_ok mem_up mem_view (mem_delete_pushed_request h) (spec_delete_pushed_request h)"
  unfolding spec_delete_pushed_request_def
  by (rule meets_writesI) (simp add: mem_delete_pushed_request_def mem_up_def hm_get_remove mem_okD)

lemma mem_put_auth_code_meets:
  "meets mem_ok mem_up mem_view (mem_put_auth_code c) (spec_put_auth_code c)"
  unfolding spec_put_auth_code_def
  by (rule meets_writesI) (simp add: mem_put_auth_code_def mem_up_def hm_get_insert mem_okD)

lemma mem_consume_auth_code_meets:
  "meets mem_ok mem_up mem_view (mem_consume_auth_code h now) (spec_consume_auth_code h now)"
  unfolding spec_consume_auth_code_def
  by (rule meets_writesI) (simp add: mem_consume_auth_code_def mem_up_def hm_get_remove mem_okD live_def)

lemma mem_put_refresh_token_meets:
  "meets mem_ok mem_up mem_view (mem_put_refresh_token t) (spec_put_refresh_token t)"
  unfolding spec_put_refresh_token_def
  by (rule meets_writesI)
    (auto simp: mem_put_refresh_token_def mem_up_def hm_get_insert mem_okD mem_ok_token_hash
      intro!: mem_ok_maps split: if_splits)

lemma mem_consume_refresh_token_meets:
  "meets mem_ok mem_up mem_view (mem_consume_refresh_token h now) (spec_consume_refresh_token h now)"
  unfolding spec_consume_refresh_token_def
  by (rule meets_writesI)
    (auto simp: mem_consume_refresh_token_def mem_up_def hm_get_insert mem_okD mem_ok_token_hash live_def
      intro!: mem_ok_maps split: if_splits option.splits bool.splits)

text \<open>\<open>retain\<close> is restriction to the keys kept, and the length drops by the keys lost.\<close>

lemma hm_get_retain_restrict:
  "hm_ok m \<Longrightarrow> hm_get (hm_retain P m) = hm_get m |` (- {k. \<exists>a. hm_get m k = Some a \<and> \<not> P k a})"
  by (auto simp: fun_eq_iff hm_get_retain restrict_map_def split: option.splits)

lemma length_retain:
  assumes "hm_ok m"
  shows "length m - length (hm_retain P m) = card {k. \<exists>a. hm_get m k = Some a \<and> \<not> P k a}"
    and "length (hm_retain P m) \<le> length m"
proof -
  let ?D = "{k. \<exists>a. hm_get m k = Some a \<and> \<not> P k a}"
  have "length (hm_retain P m) = card (dom (hm_get m) - ?D)"
    using assms
    by (simp add: hm_get_retain_restrict Diff_eq flip: card_dom_hm_get)
  also have "\<dots> = card (dom (hm_get m)) - card ?D"
    by (rule card_Diff_subset) (auto intro: finite_subset [OF _ finite_dom_hm_get [of m]])
  finally have "length (hm_retain P m) = length m - card ?D"
    using assms by (simp add: card_dom_hm_get)
  moreover have "card ?D \<le> length m"
    using card_mono [OF finite_dom_hm_get [of m], of ?D] assms by (auto simp: card_dom_hm_get)
  ultimately show "length m - length (hm_retain P m) = card ?D" "length (hm_retain P m) \<le> length m"
    by auto
qed

lemma mem_ok_retain_refresh:
  "mem_ok g \<Longrightarrow> mem_ok (g\<lparr>m_oauth_refresh := hm_retain P (m_oauth_refresh g)\<rparr>)"
  by (rule mem_ok_maps)
    (auto simp: mem_okD hm_get_retain mem_ok_token_hash split: option.splits if_splits)

lemma mem_revoke_session_meets:
  "meets mem_ok mem_up mem_view (mem_revoke_session sid) (spec_revoke_session sid)"
  unfolding spec_revoke_session_def
  by (rule meets_writesI)
    (simp add: mem_revoke_session_def Let_def mem_up_def mem_okD mem_ok_retain_refresh length_retain
      hm_get_retain_restrict drop_session_def in_session_def split_beta)

lemma mem_revoke_refresh_token_meets:
  "meets mem_ok mem_up mem_view (mem_revoke_refresh_token h) (spec_revoke_refresh_token h)"
  unfolding spec_revoke_refresh_token_def
  by (rule meets_writesI)
    (auto simp: mem_revoke_refresh_token_def Let_def mem_up_def mem_okD mem_ok_retain_refresh
      hm_get_retain_restrict drop_session_def in_session_def split_beta split: option.splits)

lemma mem_record_dpop_jti_meets:
  "meets mem_ok mem_up mem_view (mem_record_dpop_jti j ex) (spec_record_dpop_jti j ex)"
  unfolding spec_record_dpop_jti_def
  by (rule meets_writesI)
    (auto simp: mem_record_dpop_jti_def mem_up_def hm_contains_key_def hm_get_insert mem_okD
      split: option.splits)

lemma mem_purge_expired_meets:
  "meets mem_ok mem_up mem_view (mem_purge_expired now) (spec_purge_expired now)"
  unfolding spec_purge_expired_def
proof (rule meets_writesI)
  fix g assume ok: "mem_ok g"
  let ?g = "snd (mem_purge_expired now g)"
  have "mem_ok ?g"
    using ok unfolding mem_purge_expired_def Let_def
    by (auto simp: mem_okD hm_get_retain mem_ok_token_hash intro!: mem_ok_maps split: option.splits if_splits)
  moreover have "mem_oauth_len g - mem_oauth_len ?g =
      card (expired par_expires_at now (hm_get (m_oauth_par g))) +
      card (expired code_expires_at now (hm_get (m_oauth_codes g))) +
      card (expired (rt_expires_at \<circ> fst) now (hm_get (m_oauth_refresh g))) +
      card (expired id now (hm_get (m_oauth_jti g)))"
    using length_retain [OF mem_okD(2) [OF ok], of "\<lambda>_ r. now < par_expires_at r"]
      length_retain [OF mem_okD(3) [OF ok], of "\<lambda>_ r. now < code_expires_at r"]
      length_retain [OF mem_okD(5) [OF ok], of "\<lambda>_ (r, _). now < rt_expires_at r"]
      length_retain [OF mem_okD(4) [OF ok], of "\<lambda>_ e. now < e"]
    by (simp add: mem_purge_expired_def Let_def mem_oauth_len_def expired_def not_less split_beta)
  ultimately show "case Some (card (expired par_expires_at now (v_par (mem_view g))) +
        card (expired code_expires_at now (v_codes (mem_view g))) +
        card (expired (rt_expires_at \<circ> fst) now (v_refresh (mem_view g))) + card (expired id now (v_jti (mem_view g))),
      (mem_view g)\<lparr>v_par := v_par (mem_view g) |` (- expired par_expires_at now (v_par (mem_view g))),
        v_codes := v_codes (mem_view g) |` (- expired code_expires_at now (v_codes (mem_view g))),
        v_refresh := v_refresh (mem_view g) |` (- expired (rt_expires_at \<circ> fst) now (v_refresh (mem_view g))),
        v_jti := v_jti (mem_view g) |` (- expired id now (v_jti (mem_view g)))\<rparr>) of
      None \<Rightarrow> \<exists>e. mem_purge_expired now g = (Inl e, g)
    | Some (a, w) \<Rightarrow> \<exists>s'. mem_purge_expired now g = (Inr a, s') \<and> mem_ok s' \<and> (mem_up g \<longrightarrow> mem_up s') \<and> mem_view s' = w"
    using ok
    by (simp add: mem_purge_expired_def Let_def mem_up_def hm_get_retain_restrict mem_okD expired_def not_less split_beta)
qed


lemma mem_list_sessions_meets:
  "meets mem_ok mem_up mem_view (mem_list_sessions_for_did d now) (spec_list_sessions d now)"
  unfolding spec_list_sessions_def
proof (rule meets_listsI)
  fix g assume ok: "mem_ok g"
  let ?l = "map fst (filter (\<lambda>(r, used). \<not> used \<and> rt_did r = d \<and> now < rt_expires_at r)
          (hm_values (m_oauth_refresh g)))"
  let ?s = "sort_key (\<lambda>r. - int (rt_issued_at r)) (sort_key rt_token_hash ?l)"
  have hash: "rt_token_hash r = h" if "(h, r, u) \<in> set (m_oauth_refresh g)" for h r u
    using ok that by (auto simp: mem_ok_def)
  have "map (rt_token_hash \<circ> fst) (hm_values (m_oauth_refresh g)) = map fst (m_oauth_refresh g)"
    using hash by (auto simp: hm_values_def)
  then have "distinct (map (rt_token_hash \<circ> fst) (hm_values (m_oauth_refresh g)))"
    using mem_okD(5) [OF ok] by (simp add: hm_ok_def)
  then have "distinct (map rt_token_hash ?l)"
    by (simp add: distinct_map_filter)
  then have "distinct (map rt_token_hash ?s)"
    unfolding distinct_map_sort_key .
  moreover have "set ?s = {t. (\<exists>h. v_refresh (mem_view g) h = Some (t, False)) \<and> rt_did t = d \<and> now < rt_expires_at t}"
    using mem_okD(5) [OF ok] by (force simp: hm_values_def hm_get_in_set)
  moreover have "sorted (map rt_issued_at (rev ?s))"
    using sorted_sort_key [of "\<lambda>r. - int (rt_issued_at r)"] by (simp add: sorted_neg_rev)
  ultimately show "\<exists>xs. mem_list_sessions_for_did d now g = (Inr xs, g) \<and> distinct (map rt_token_hash xs) \<and>
      sorted (map rt_issued_at (rev xs)) \<and>
      set xs = {t. (\<exists>h. v_refresh (mem_view g) h = Some (t, False)) \<and> rt_did t = d \<and> now < rt_expires_at t}"
    unfolding mem_list_sessions_for_did_def by blast
qed

lemmas mem_meets =
  mem_read_block_meets mem_put_block_meets mem_max_seq_meets mem_backfill_page_meets
  mem_load_repo_root_meets mem_update_repo_root_meets mem_commit_blocks_meets
  mem_count_accounts_meets mem_insert_account_meets mem_count_and_insert_account_meets
  mem_get_account_by_handle_meets mem_get_did_by_handle_meets mem_get_handle_by_did_meets
  mem_list_accounts_meets mem_update_password_meets mem_set_takedown_meets mem_clear_takedown_meets
  mem_insert_invite_meets mem_consume_invite_meets mem_upsert_preferences_meets
  mem_get_preferences_meets mem_put_key_blob_meets mem_get_key_blob_meets
  mem_put_blob_meets mem_get_blob_meets mem_list_blobs_meets
  mem_put_pushed_request_meets mem_get_pushed_request_meets mem_delete_pushed_request_meets
  mem_put_auth_code_meets mem_consume_auth_code_meets mem_put_refresh_token_meets
  mem_consume_refresh_token_meets mem_revoke_session_meets mem_revoke_refresh_token_meets
  mem_list_sessions_meets mem_record_dpop_jti_meets mem_purge_expired_meets

interpretation mem: storage_backend mem_backend mem_ok mem_up mem_view
  by unfold_locales (simp_all add: mem_meets mem_view_ok)

end
