(* ===== verification/Sqlite_Store.thy ===== *)
theory Sqlite_Store
  imports Storage_Traits
begin

text \<open>
  The SQLite backend (\<open>rust-core/src/storage/sqlite/\<close>: \<open>schema.rs\<close>, \<open>mod.rs\<close>, \<open>repo.rs\<close>,
  \<open>account.rs\<close>, \<open>keys.rs\<close>, \<open>blob.rs\<close>, \<open>oauth.rs\<close>). A table is the list of its rows; the
  statements the sources issue are functions on such lists (\<open>INSERT\<close>, \<open>INSERT OR IGNORE\<close>,
  \<open>INSERT OR REPLACE\<close>, \<open>UPDATE\<close>, \<open>DELETE\<close>, \<open>SELECT ... ORDER BY ... LIMIT\<close>), with \<open>u64\<close>
  times stored as \<open>i64\<close>. Every trait method is one statement or one \<open>IMMEDIATE\<close> transaction
  on the single writer, so it is one atomic step; any call may fail (pool, I/O, lock) as the
  fault sequence of the state says, and a failed transaction rolls back.

  How \<open>Cid\<close> prints and parses is code of the \<open>cid\<close> crate: \<open>cid_str\<close> and \<open>cid_parse\<close> are
  parameters, and the locale \<open>cid_text\<close> states the one fact used, that parsing undoes
  printing.
\<close>

subsection \<open>SQL on row lists\<close>

definition tbl :: "('r \<Rightarrow> 'k) \<Rightarrow> 'r list \<Rightarrow> 'k \<Rightarrow> 'r option" where
  "tbl key t k = find (\<lambda>r. key r = k) t"

definition insert_or_ignore :: "('r \<Rightarrow> 'k) \<Rightarrow> 'r \<Rightarrow> 'r list \<Rightarrow> nat \<times> 'r list" where
  "insert_or_ignore key r t = (case tbl key t (key r) of Some _ \<Rightarrow> (0, t) | None \<Rightarrow> (1, t @ [r]))"

definition insert_or_replace :: "('r \<Rightarrow> 'k) \<Rightarrow> 'r \<Rightarrow> 'r list \<Rightarrow> 'r list" where
  "insert_or_replace key r t = filter (\<lambda>x. key x \<noteq> key r) t @ [r]"

definition delete_where :: "('r \<Rightarrow> bool) \<Rightarrow> 'r list \<Rightarrow> nat \<times> 'r list" where
  "delete_where P t = (length (filter P t), filter (\<lambda>r. \<not> P r) t)"

definition update_where :: "('r \<Rightarrow> bool) \<Rightarrow> ('r \<Rightarrow> 'r) \<Rightarrow> 'r list \<Rightarrow> nat \<times> 'r list" where
  "update_where P f t = (length (filter P t), map (\<lambda>r. if P r then f r else r) t)"

text \<open>\<open>LIMIT n\<close>: a negative bound is no bound.\<close>

definition limit_rows :: "int \<Rightarrow> 'r list \<Rightarrow> 'r list" where
  "limit_rows n t = (if n < 0 then t else take (nat n) t)"

text \<open>The casts \<open>u64 as i64\<close> and \<open>i64 as u64\<close>.\<close>

definition as_i64 :: "nat \<Rightarrow> int" where
  "as_i64 n = (if n < 2 ^ 63 then int n else int n - 2 ^ 64)"

definition as_u64 :: "int \<Rightarrow> nat" where
  "as_u64 i = nat (i mod 2 ^ 64)"

subsection \<open>The database\<close>

record seq_row =
  sq_seq :: int
  sq_did :: string
  sq_event_type :: string
  sq_event :: bytes
  sq_invalidated :: int
  sq_sequenced_at :: string

record accounts_row =
  ac_did :: string
  ac_handle :: "string option"
  ac_email :: "string option"
  ac_password_argon2 :: string
  ac_created_at :: string
  ac_deactivated_at :: "string option"
  ac_takedown_ref :: "string option"

record invites_row =
  iv_code :: string
  iv_available_uses :: int
  iv_disabled :: int
  iv_for_account :: string
  iv_created_by :: string
  iv_created_at :: string

record blobs_row =
  bl_did :: string
  bl_cid :: string
  bl_mime_type :: string
  bl_size :: int
  bl_bytes :: bytes
  bl_created_at :: string

text \<open>
  A row of an OAuth table carries the text columns as the stored struct has them (its time
  fields are not columns and are zeroed) beside its \<open>INTEGER\<close> columns.
\<close>

type_synonym par_row = "StoredPushedRequest \<times> int"
type_synonym code_row = "AuthCode \<times> int"
type_synonym refresh_row = "RefreshTokenRecord \<times> int \<times> int \<times> int" \<comment> \<open>issued_at, expires_at, used\<close>

record SqliteStore =
  q_blocks :: "(string \<times> bytes) list"
  q_repo_seq :: "seq_row list"
  q_sequence :: int \<comment> \<open>\<open>sqlite_sequence\<close> of the \<open>AUTOINCREMENT\<close> key\<close>
  q_accounts :: "accounts_row list"
  q_keys :: "(string \<times> bytes) list"
  q_invites :: "invites_row list"
  q_invite_uses :: "(string \<times> string \<times> string) list"
  q_repo_roots :: "(string \<times> string \<times> string) list"
  q_preferences :: "(string \<times> string) list"
  q_blobs :: "blobs_row list"
  q_oauth_par :: "par_row list"
  q_oauth_auth_codes :: "code_row list"
  q_oauth_refresh_tokens :: "refresh_row list"
  q_oauth_dpop_jti :: "(string \<times> int) list"
  q_utc_now :: string
  q_faults :: "nat \<Rightarrow> StorageError option" \<comment> \<open>whether the n-th call reaches the database\<close>
  q_calls :: nat

definition sql_open :: "string \<Rightarrow> (nat \<Rightarrow> StorageError option) \<Rightarrow> SqliteStore" where
  "sql_open now faults = \<lparr>q_blocks = [], q_repo_seq = [], q_sequence = 0, q_accounts = [],
     q_keys = [], q_invites = [], q_invite_uses = [], q_repo_roots = [], q_preferences = [],
     q_blobs = [], q_oauth_par = [], q_oauth_auth_codes = [], q_oauth_refresh_tokens = [],
     q_oauth_dpop_jti = [], q_utc_now = now, q_faults = faults, q_calls = 0\<rparr>"

definition tick :: "SqliteStore \<Rightarrow> SqliteStore" where
  "tick q = q\<lparr>q_calls := Suc (q_calls q)\<rparr>"

text \<open>
  A call through the reader pool (\<open>reader()\<close> and \<open>interact\<close>) and one through the writer
  (\<open>writer.call\<close>): either the fault of this call, or the result of the closure. The closure
  of a writer call returns the new tables with its result; an error drops the transaction.
\<close>

definition sql_interact :: "(SqliteStore \<Rightarrow> StorageError + 'a) \<Rightarrow> (SqliteStore, 'a) sop" where
  "sql_interact f q = (case q_faults q (q_calls q) of
     Some e \<Rightarrow> (Err e, tick q) | None \<Rightarrow> (f q, tick q))"

definition sql_call :: "(SqliteStore \<Rightarrow> StorageError + 'a \<times> SqliteStore) \<Rightarrow> (SqliteStore, 'a) sop" where
  "sql_call f q = (case q_faults q (q_calls q) of
     Some e \<Rightarrow> (Err e, tick q)
   | None \<Rightarrow> (case f q of Inl e \<Rightarrow> (Err e, tick q) | Inr (a, q') \<Rightarrow> (Ok a, tick q')))"

subsection \<open>Blocks, sequencer, roots\<close>

definition sql_read_block_bytes :: "(Cid \<Rightarrow> string) \<Rightarrow> Cid \<Rightarrow> (SqliteStore, bytes) sop" where
  "sql_read_block_bytes cid_str cid =
     sql_interact (\<lambda>q. ok_or BlockNotFound (map_option snd (tbl fst (q_blocks q) (cid_str cid))))"

definition sql_put_block :: "(Cid \<Rightarrow> string) \<Rightarrow> Cid \<Rightarrow> bytes \<Rightarrow> (SqliteStore, unit) sop" where
  "sql_put_block cid_str cid b = sql_call (\<lambda>q.
     Ok ((), q\<lparr>q_blocks := snd (insert_or_ignore fst (cid_str cid, b) (q_blocks q))\<rparr>))"

definition sql_max_seq :: "(SqliteStore, int) sop" where
  "sql_max_seq = sql_interact (\<lambda>q. Ok (case map sq_seq (q_repo_seq q) of
     [] \<Rightarrow> 0 | n # ns \<Rightarrow> fold max ns n))"

definition sql_backfill_page :: "int \<Rightarrow> int \<Rightarrow> (SqliteStore, (int \<times> bytes) list) sop" where
  "sql_backfill_page after_seq limit = sql_interact (\<lambda>q.
     Ok (map (\<lambda>r. (sq_seq r, sq_event r)) (limit_rows limit (sort_key sq_seq
       (filter (\<lambda>r. after_seq < sq_seq r \<and> sq_invalidated r = 0) (q_repo_seq q))))))"

definition sql_load_repo_root ::
  "(string \<Rightarrow> Cid option) \<Rightarrow> string \<Rightarrow> (SqliteStore, Cid option) sop" where
  "sql_load_repo_root cid_parse did = sql_call (\<lambda>q. case tbl fst (q_repo_roots q) did of
     None \<Rightarrow> Ok (None, q)
   | Some (_, root_cid, _) \<Rightarrow>
       map_err (\<lambda>_. Crypto ''bad root cid'') (case cid_parse root_cid of
         None \<Rightarrow> Err () | Some cid \<Rightarrow> Ok (Some cid, q)))"

definition sql_update_repo_root ::
  "(Cid \<Rightarrow> string) \<Rightarrow> string \<Rightarrow> Cid \<Rightarrow> (SqliteStore, unit) sop" where
  "sql_update_repo_root cid_str did root = sql_call (\<lambda>q. Ok ((),
     q\<lparr>q_repo_roots := insert_or_replace fst (did, cid_str root, q_utc_now q) (q_repo_roots q)\<rparr>))"

definition sql_commit_blocks ::
  "(Cid \<Rightarrow> string) \<Rightarrow> (Cid \<times> bytes) list \<Rightarrow> string \<Rightarrow> Cid \<Rightarrow> bytes \<Rightarrow> (SqliteStore, int) sop" where
  "sql_commit_blocks cid_str bs did new_root event_body = sql_call (\<lambda>q.
     let now = q_utc_now q;
         seq = q_sequence q + 1
     in Ok (seq, q\<lparr>
       q_blocks := fold (\<lambda>(cid, b) t. snd (insert_or_ignore fst (cid_str cid, b) t)) bs (q_blocks q),
       q_repo_seq := q_repo_seq q @ [\<lparr>sq_seq = seq, sq_did = did, sq_event_type = ''append'',
         sq_event = event_body, sq_invalidated = 0, sq_sequenced_at = now\<rparr>],
       q_sequence := seq,
       q_repo_roots := insert_or_replace fst (did, cid_str new_root, now) (q_repo_roots q)\<rparr>))"

subsection \<open>Accounts, invites, preferences\<close>

text \<open>\<open>INSERT INTO accounts\<close> with the schema's \<open>PRIMARY KEY\<close> on \<open>did\<close> and \<open>UNIQUE\<close> on \<open>handle\<close>.\<close>

definition insert_accounts_row ::
  "string \<Rightarrow> string \<Rightarrow> string option \<Rightarrow> string \<Rightarrow> SqliteStore \<Rightarrow> StorageError + SqliteStore" where
  "insert_accounts_row did handle email phc q =
     (if list_ex (\<lambda>r. ac_did r = did) (q_accounts q)
      then Err (AsyncSqlite ''UNIQUE constraint failed: accounts.did'')
      else if list_ex (\<lambda>r. ac_handle r = Some handle) (q_accounts q)
      then Err (AsyncSqlite ''UNIQUE constraint failed: accounts.handle'')
      else Ok (q\<lparr>q_accounts := q_accounts q @
        [\<lparr>ac_did = did, ac_handle = Some handle, ac_email = email, ac_password_argon2 = phc,
          ac_created_at = q_utc_now q, ac_deactivated_at = None, ac_takedown_ref = None\<rparr>]\<rparr>))"

definition sql_count_accounts :: "(SqliteStore, int) sop" where
  "sql_count_accounts = sql_interact (\<lambda>q. Ok (int (length (q_accounts q))))"

definition sql_insert_account ::
  "string \<Rightarrow> string \<Rightarrow> string option \<Rightarrow> string \<Rightarrow> (SqliteStore, unit) sop" where
  "sql_insert_account did handle email phc = sql_call (\<lambda>q.
     and_then (insert_accounts_row did handle email phc q) (\<lambda>q'. Ok ((), q')))"

definition sql_count_and_insert_account ::
  "string \<Rightarrow> string \<Rightarrow> string option \<Rightarrow> string \<Rightarrow> (SqliteStore, int) sop" where
  "sql_count_and_insert_account did handle email phc = sql_call (\<lambda>q.
     let n = int (length (q_accounts q)) in
     and_then (insert_accounts_row did handle email phc q) (\<lambda>q'. Ok (n, q')))"

definition ac_visible :: "accounts_row \<Rightarrow> bool" where
  "ac_visible r = (ac_deactivated_at r = None \<and> ac_takedown_ref r = None)"

definition sql_get_account_by_handle :: "string \<Rightarrow> (SqliteStore, (string \<times> string) option) sop" where
  "sql_get_account_by_handle h = sql_interact (\<lambda>q. Ok (map_option
     (\<lambda>r. (ac_did r, ac_password_argon2 r))
     (find (\<lambda>r. ac_handle r = Some h \<and> ac_visible r) (q_accounts q))))"

definition sql_get_did_by_handle :: "string \<Rightarrow> (SqliteStore, string option) sop" where
  "sql_get_did_by_handle h = sql_interact (\<lambda>q. Ok (map_option ac_did
     (find (\<lambda>r. ac_handle r = Some h \<and> ac_visible r) (q_accounts q))))"

definition sql_get_handle_by_did :: "string \<Rightarrow> (SqliteStore, string option) sop" where
  "sql_get_handle_by_did did = sql_interact (\<lambda>q. Ok (Option.bind
     (find (\<lambda>r. ac_did r = did \<and> ac_visible r) (q_accounts q)) ac_handle))"

definition sql_list_accounts :: "(SqliteStore, AccountSummary list) sop" where
  "sql_list_accounts = sql_interact (\<lambda>q. Ok (map (\<lambda>r. \<lparr>sum_did = ac_did r, sum_handle = ac_handle r,
       sum_deactivated_at = ac_deactivated_at r, sum_takedown_ref = ac_takedown_ref r,
       sum_created_at = ac_created_at r\<rparr>) (sort_key ac_created_at (q_accounts q))))"

definition update_accounts_row ::
  "string \<Rightarrow> (accounts_row \<Rightarrow> accounts_row) \<Rightarrow> SqliteStore \<Rightarrow> nat \<times> SqliteStore" where
  "update_accounts_row did f q = (case update_where (\<lambda>r. ac_did r = did) f (q_accounts q) of
     (n, t) \<Rightarrow> (n, q\<lparr>q_accounts := t\<rparr>))"

definition sql_update_password :: "string \<Rightarrow> string \<Rightarrow> (SqliteStore, nat) sop" where
  "sql_update_password did phc = sql_call (\<lambda>q.
     Ok (update_accounts_row did (ac_password_argon2_update (\<lambda>_. phc)) q))"

definition sql_set_takedown :: "string \<Rightarrow> string \<Rightarrow> (SqliteStore, nat) sop" where
  "sql_set_takedown did reference = sql_call (\<lambda>q.
     let ref = (if reference = [] then q_utc_now q else reference)
     in Ok (update_accounts_row did (ac_takedown_ref_update (\<lambda>_. Some ref)) q))"

definition sql_clear_takedown :: "string \<Rightarrow> (SqliteStore, nat) sop" where
  "sql_clear_takedown did = sql_call (\<lambda>q.
     Ok (update_accounts_row did (ac_takedown_ref_update (\<lambda>_. None)) q))"

definition sql_insert_invite :: "string \<Rightarrow> int \<Rightarrow> string \<Rightarrow> (SqliteStore, unit) sop" where
  "sql_insert_invite code available_uses for_account = sql_call (\<lambda>q.
     if list_ex (\<lambda>r. iv_code r = code) (q_invites q)
     then Err (AsyncSqlite ''UNIQUE constraint failed: invites.code'')
     else Ok ((), q\<lparr>q_invites := q_invites q @ [\<lparr>iv_code = code, iv_available_uses = available_uses,
       iv_disabled = 0, iv_for_account = for_account, iv_created_by = ''admin'',
       iv_created_at = q_utc_now q\<rparr>]\<rparr>))"

definition sql_consume_invite :: "string \<Rightarrow> string \<Rightarrow> (SqliteStore, bool) sop" where
  "sql_consume_invite code used_by = sql_call (\<lambda>q. case tbl iv_code (q_invites q) code of
     None \<Rightarrow> Ok (False, q)
   | Some row \<Rightarrow>
       if iv_disabled row = 1 then Ok (False, q)
       else if iv_available_uses row = 0 then Ok (False, q)
       else if iv_available_uses row \<le> 0 then Ok (False, q)
       else if 0 < length (filter (\<lambda>(c, u, _). c = code \<and> u = used_by) (q_invite_uses q))
       then Ok (False, q)
       else (case insert_or_ignore (\<lambda>(c, u, _). (c, u)) (code, used_by, q_utc_now q) (q_invite_uses q) of
         (inserted, uses) \<Rightarrow>
           if inserted = 0 then Ok (False, q)
           else Ok (True, q\<lparr>q_invite_uses := uses,
             q_invites := snd (update_where (\<lambda>r. iv_code r = code)
               (iv_available_uses_update (\<lambda>n. n - 1)) (q_invites q))\<rparr>)))"

definition sql_upsert_preferences :: "string \<Rightarrow> string \<Rightarrow> (SqliteStore, unit) sop" where
  "sql_upsert_preferences did p = sql_call (\<lambda>q.
     Ok ((), q\<lparr>q_preferences := insert_or_replace fst (did, p) (q_preferences q)\<rparr>))"

definition sql_get_preferences :: "string \<Rightarrow> (SqliteStore, string option) sop" where
  "sql_get_preferences did = sql_interact (\<lambda>q. Ok (map_option snd (tbl fst (q_preferences q) did)))"

subsection \<open>Keys and blobs\<close>

definition sql_put_key_blob :: "string \<Rightarrow> bytes \<Rightarrow> (SqliteStore, unit) sop" where
  "sql_put_key_blob i ciphertext = sql_call (\<lambda>q.
     Ok ((), q\<lparr>q_keys := insert_or_replace fst (i, ciphertext) (q_keys q)\<rparr>))"

definition sql_get_key_blob :: "string \<Rightarrow> (SqliteStore, bytes option) sop" where
  "sql_get_key_blob i = sql_interact (\<lambda>q. Ok (map_option snd (tbl fst (q_keys q) i)))"

definition blob_key :: "blobs_row \<Rightarrow> string \<times> string" where
  "blob_key r = (bl_did r, bl_cid r)"

definition sql_put_blob ::
  "string \<Rightarrow> string \<Rightarrow> string \<Rightarrow> int \<Rightarrow> bytes \<Rightarrow> (SqliteStore, unit) sop" where
  "sql_put_blob did cid mime_type sz b = sql_call (\<lambda>q.
     Ok ((), q\<lparr>q_blobs := insert_or_replace blob_key \<lparr>bl_did = did, bl_cid = cid,
       bl_mime_type = mime_type, bl_size = sz, bl_bytes = b, bl_created_at = q_utc_now q\<rparr> (q_blobs q)\<rparr>))"

definition sql_get_blob :: "string \<Rightarrow> string \<Rightarrow> (SqliteStore, (string \<times> bytes) option) sop" where
  "sql_get_blob did cid = sql_interact (\<lambda>q.
     Ok (map_option (\<lambda>r. (bl_mime_type r, bl_bytes r)) (tbl blob_key (q_blobs q) (did, cid))))"

definition sql_list_blobs :: "string \<Rightarrow> nat \<Rightarrow> string option \<Rightarrow> (SqliteStore, string list) sop" where
  "sql_list_blobs did limit cursor = sql_interact (\<lambda>q.
     Ok (limit_rows (as_i64 limit) (sort (map bl_cid (filter
       (\<lambda>r. bl_did r = did \<and> (case cursor of None \<Rightarrow> True | Some c \<Rightarrow> c < bl_cid r)) (q_blobs q))))))"

subsection \<open>OAuth state\<close>

definition par_key :: "par_row \<Rightarrow> string" where
  "par_key r = par_request_uri_hash (fst r)"

definition par_of_row :: "par_row \<Rightarrow> StoredPushedRequest" where
  "par_of_row r = (fst r)\<lparr>par_expires_at := as_u64 (snd r)\<rparr>"

definition code_key :: "code_row \<Rightarrow> string" where
  "code_key r = code_hash (fst r)"

definition code_of_row :: "code_row \<Rightarrow> AuthCode" where
  "code_of_row r = (fst r)\<lparr>code_expires_at := as_u64 (snd r)\<rparr>"

definition rt_key :: "refresh_row \<Rightarrow> string" where
  "rt_key r = rt_token_hash (fst r)"

definition rt_of_row :: "refresh_row \<Rightarrow> RefreshTokenRecord" where
  "rt_of_row r = (case r of (t, issued, ex, _) \<Rightarrow>
     t\<lparr>rt_issued_at := as_u64 issued, rt_expires_at := as_u64 ex\<rparr>)"

definition rt_used :: "refresh_row \<Rightarrow> bool" where
  "rt_used r = (case r of (_, _, _, used) \<Rightarrow> used \<noteq> 0)"

definition sql_put_pushed_request :: "StoredPushedRequest \<Rightarrow> (SqliteStore, unit) sop" where
  "sql_put_pushed_request req = sql_call (\<lambda>q. Ok ((), q\<lparr>q_oauth_par :=
     insert_or_replace par_key (req\<lparr>par_expires_at := 0\<rparr>, as_i64 (par_expires_at req)) (q_oauth_par q)\<rparr>))"

definition sql_get_pushed_request ::
  "string \<Rightarrow> nat \<Rightarrow> (SqliteStore, StoredPushedRequest option) sop" where
  "sql_get_pushed_request h now = sql_interact (\<lambda>q. Ok (map_option par_of_row
     (find (\<lambda>r. par_key r = h \<and> as_i64 now < snd r) (q_oauth_par q))))"

definition sql_delete_pushed_request :: "string \<Rightarrow> (SqliteStore, unit) sop" where
  "sql_delete_pushed_request h = sql_call (\<lambda>q.
     Ok ((), q\<lparr>q_oauth_par := snd (delete_where (\<lambda>r. par_key r = h) (q_oauth_par q))\<rparr>))"

definition sql_put_auth_code :: "AuthCode \<Rightarrow> (SqliteStore, unit) sop" where
  "sql_put_auth_code c = sql_call (\<lambda>q. Ok ((), q\<lparr>q_oauth_auth_codes :=
     insert_or_replace code_key (c\<lparr>code_expires_at := 0\<rparr>, as_i64 (code_expires_at c))
       (q_oauth_auth_codes q)\<rparr>))"

definition sql_consume_auth_code :: "string \<Rightarrow> nat \<Rightarrow> (SqliteStore, AuthCode option) sop" where
  "sql_consume_auth_code h now = sql_call (\<lambda>q.
     let row = map_option code_of_row
           (find (\<lambda>r. code_key r = h \<and> as_i64 now < snd r) (q_oauth_auth_codes q))
     in Ok (row, q\<lparr>q_oauth_auth_codes :=
          snd (delete_where (\<lambda>r. code_key r = h) (q_oauth_auth_codes q))\<rparr>))"

definition sql_put_refresh_token :: "RefreshTokenRecord \<Rightarrow> (SqliteStore, unit) sop" where
  "sql_put_refresh_token t = sql_call (\<lambda>q. Ok ((), q\<lparr>q_oauth_refresh_tokens :=
     insert_or_replace rt_key (t\<lparr>rt_issued_at := 0, rt_expires_at := 0\<rparr>,
       as_i64 (rt_issued_at t), as_i64 (rt_expires_at t), 0) (q_oauth_refresh_tokens q)\<rparr>))"

definition rt_expires_col :: "refresh_row \<Rightarrow> int" where
  "rt_expires_col r = (case r of (_, _, ex, _) \<Rightarrow> ex)"

definition rt_mark_used :: "refresh_row \<Rightarrow> refresh_row" where
  "rt_mark_used r = (case r of (t, issued, ex, _) \<Rightarrow> (t, issued, ex, 1))"

definition sql_consume_refresh_token :: "string \<Rightarrow> nat \<Rightarrow> (SqliteStore, ConsumeResult) sop" where
  "sql_consume_refresh_token h now = sql_call (\<lambda>q.
     case find (\<lambda>r. rt_key r = h \<and> as_i64 now < rt_expires_col r) (q_oauth_refresh_tokens q) of
       None \<Rightarrow> Ok (NotFound, q)
     | Some r \<Rightarrow>
         if rt_used r then Ok (Reused (rt_session_id (rt_of_row r)), q)
         else Ok (Consumed (rt_of_row r), q\<lparr>q_oauth_refresh_tokens :=
           snd (update_where (\<lambda>x. rt_key x = h) rt_mark_used (q_oauth_refresh_tokens q))\<rparr>))"

definition sql_revoke_session :: "string \<Rightarrow> (SqliteStore, nat) sop" where
  "sql_revoke_session sid = sql_call (\<lambda>q.
     case delete_where (\<lambda>r. rt_session_id (fst r) = sid) (q_oauth_refresh_tokens q) of
       (n, t) \<Rightarrow> Ok (n, q\<lparr>q_oauth_refresh_tokens := t\<rparr>))"

definition sql_revoke_refresh_token :: "string \<Rightarrow> (SqliteStore, bool) sop" where
  "sql_revoke_refresh_token h = sql_call (\<lambda>q.
     case map_option (rt_session_id \<circ> fst) (tbl rt_key (q_oauth_refresh_tokens q) h) of
       None \<Rightarrow> Ok (False, q)
     | Some sid \<Rightarrow> Ok (True, q\<lparr>q_oauth_refresh_tokens :=
         snd (delete_where (\<lambda>r. rt_session_id (fst r) = sid) (q_oauth_refresh_tokens q))\<rparr>))"

definition sql_list_sessions_for_did ::
  "string \<Rightarrow> nat \<Rightarrow> (SqliteStore, RefreshTokenRecord list) sop" where
  "sql_list_sessions_for_did did now = sql_interact (\<lambda>q.
     Ok (map rt_of_row (sort_key (\<lambda>(_, issued, _, _). - issued) (filter
       (\<lambda>r. rt_did (fst r) = did \<and> as_i64 now < rt_expires_col r \<and> \<not> rt_used r)
       (q_oauth_refresh_tokens q)))))"

definition sql_record_dpop_jti :: "string \<Rightarrow> nat \<Rightarrow> (SqliteStore, bool) sop" where
  "sql_record_dpop_jti jti expires_at = sql_call (\<lambda>q.
     case insert_or_ignore fst (jti, as_i64 expires_at) (q_oauth_dpop_jti q) of
       (n, t) \<Rightarrow> Ok (0 < n, q\<lparr>q_oauth_dpop_jti := t\<rparr>))"

definition sql_purge_expired :: "nat \<Rightarrow> (SqliteStore, nat) sop" where
  "sql_purge_expired now = sql_call (\<lambda>q.
     case delete_where (\<lambda>r. snd r \<le> as_i64 now) (q_oauth_par q) of (n1, t1) \<Rightarrow>
     case delete_where (\<lambda>r. snd r \<le> as_i64 now) (q_oauth_auth_codes q) of (n2, t2) \<Rightarrow>
     case delete_where (\<lambda>r. rt_expires_col r \<le> as_i64 now) (q_oauth_refresh_tokens q) of (n3, t3) \<Rightarrow>
     case delete_where (\<lambda>r. snd r \<le> as_i64 now) (q_oauth_dpop_jti q) of (n4, t4) \<Rightarrow>
       Ok (n1 + n2 + n3 + n4, q\<lparr>q_oauth_par := t1, q_oauth_auth_codes := t2,
         q_oauth_refresh_tokens := t3, q_oauth_dpop_jti := t4\<rparr>))"


subsection \<open>The backend\<close>

definition sqlite_backend ::
  "(Cid \<Rightarrow> string) \<Rightarrow> (string \<Rightarrow> Cid option) \<Rightarrow> SqliteStore StorageBackend" where
  "sqlite_backend cid_str cid_parse = \<lparr>
     repo_ops = \<lparr>read_block_bytes = sql_read_block_bytes cid_str, put_block = sql_put_block cid_str,
       max_seq = sql_max_seq, backfill_page = sql_backfill_page,
       load_repo_root = sql_load_repo_root cid_parse,
       update_repo_root = sql_update_repo_root cid_str,
       commit_blocks = sql_commit_blocks cid_str\<rparr>,
     account_ops = \<lparr>count_accounts = sql_count_accounts, insert_account = sql_insert_account,
       count_and_insert_account = sql_count_and_insert_account,
       get_account_by_handle = sql_get_account_by_handle,
       get_did_by_handle = sql_get_did_by_handle, get_handle_by_did = sql_get_handle_by_did,
       list_accounts = sql_list_accounts, update_password = sql_update_password,
       set_takedown = sql_set_takedown, clear_takedown = sql_clear_takedown,
       insert_invite = sql_insert_invite, consume_invite = sql_consume_invite,
       upsert_preferences = sql_upsert_preferences, get_preferences = sql_get_preferences\<rparr>,
     key_ops = \<lparr>put_key_blob = sql_put_key_blob, get_key_blob = sql_get_key_blob\<rparr>,
     blob_ops = \<lparr>put_blob = sql_put_blob, get_blob = sql_get_blob, list_blobs = sql_list_blobs\<rparr>,
     oauth_ops = \<lparr>put_pushed_request = sql_put_pushed_request,
       get_pushed_request = sql_get_pushed_request,
       delete_pushed_request = sql_delete_pushed_request, put_auth_code = sql_put_auth_code,
       consume_auth_code = sql_consume_auth_code, put_refresh_token = sql_put_refresh_token,
       consume_refresh_token = sql_consume_refresh_token, revoke_session = sql_revoke_session,
       revoke_refresh_token = sql_revoke_refresh_token,
       list_sessions_for_did = sql_list_sessions_for_did,
       record_dpop_jti = sql_record_dpop_jti, purge_expired = sql_purge_expired\<rparr>\<rparr>"

subsection \<open>Tables as maps\<close>

definition tbl_ok :: "('r \<Rightarrow> 'k) \<Rightarrow> 'r list \<Rightarrow> bool" where
  "tbl_ok key t = distinct (map key t)"

lemma tbl_Nil [simp]: "tbl key [] k = None"
  by (simp add: tbl_def)

lemma tbl_Cons [simp]: "tbl key (r # t) k = (if key r = k then Some r else tbl key t k)"
  by (simp add: tbl_def)

lemma tbl_append [simp]:
  "tbl key (t @ u) k = (case tbl key t k of None \<Rightarrow> tbl key u k | Some r \<Rightarrow> Some r)"
  by (induction t) auto

lemma tbl_key: "tbl key t k = Some r \<Longrightarrow> key r = k \<and> r \<in> set t"
  by (auto simp: tbl_def find_Some_iff)

lemma tbl_None: "tbl key t k = None \<longleftrightarrow> (\<forall>r \<in> set t. key r \<noteq> k)"
  by (auto simp: tbl_def find_None_iff)

lemma tbl_no_key [simp]: "k \<notin> key ` set t \<Longrightarrow> tbl key t k = None"
  by (auto simp: tbl_None)

lemma find_no_key [simp]: "k \<notin> key ` set t \<Longrightarrow> find (\<lambda>r. key r = k \<and> P r) t = None"
  by (auto simp: find_None_iff)

lemma tbl_iff: "tbl_ok key t \<Longrightarrow> tbl key t k = Some r \<longleftrightarrow> r \<in> set t \<and> key r = k"
  by (induction t) (auto simp: tbl_ok_def dest: tbl_key)

lemma tbl_filter:
  "tbl_ok key t \<Longrightarrow> tbl key (filter P t) k =
     (case tbl key t k of None \<Rightarrow> None | Some r \<Rightarrow> if P r then Some r else None)"
  by (induction t) (auto simp: tbl_ok_def image_iff split: option.splits)

lemma find_tbl:
  "tbl_ok key t \<Longrightarrow> find (\<lambda>r. key r = k \<and> P r) t =
     (case tbl key t k of None \<Rightarrow> None | Some r \<Rightarrow> if P r then Some r else None)"
  by (induction t) (auto simp: tbl_ok_def split: option.splits)

lemma tbl_insert_or_replace:
  "tbl key (insert_or_replace key r t) k = (if key r = k then Some r else tbl key t k)"
  by (induction t) (auto simp: insert_or_replace_def split: option.splits)

lemma tbl_insert_or_ignore:
  "tbl key (snd (insert_or_ignore key r t)) k =
     (case tbl key t (key r) of None \<Rightarrow> if key r = k then Some r else tbl key t k
      | Some _ \<Rightarrow> tbl key t k)"
  by (auto simp: insert_or_ignore_def split: option.splits)

lemma tbl_update_where:
  assumes "\<And>r. key (f r) = key r"
  shows "tbl key (snd (update_where (\<lambda>r. key r = k') f t)) k =
    (if k = k' then map_option f (tbl key t k) else tbl key t k)"
  using assms by (induction t) (auto simp: update_where_def)

lemma tbl_delete_where:
  "tbl_ok key t \<Longrightarrow> tbl key (snd (delete_where P t)) k =
     (case tbl key t k of None \<Rightarrow> None | Some r \<Rightarrow> if P r then None else Some r)"
  by (auto simp: delete_where_def tbl_filter split: option.splits)

lemma tbl_ok_Nil [simp]: "tbl_ok key []"
  by (simp add: tbl_ok_def)

lemma tbl_ok_insert_or_replace [simp]: "tbl_ok key t \<Longrightarrow> tbl_ok key (insert_or_replace key r t)"
  by (auto simp: tbl_ok_def insert_or_replace_def distinct_map_filter)

lemma tbl_ok_append: "tbl_ok key (t @ [r]) \<longleftrightarrow> tbl_ok key t \<and> tbl key t (key r) = None"
  by (auto simp: tbl_ok_def tbl_None image_iff)

lemma tbl_ok_insert_or_ignore [simp]:
  "tbl_ok key t \<Longrightarrow> tbl_ok key (snd (insert_or_ignore key r t))"
  by (auto simp: insert_or_ignore_def tbl_ok_append split: option.splits)

lemma tbl_ok_delete_where [simp]: "tbl_ok key t \<Longrightarrow> tbl_ok key (snd (delete_where P t))"
  by (simp add: tbl_ok_def delete_where_def distinct_map_filter)

lemma tbl_ok_update_where:
  assumes "\<And>r. key (f r) = key r"
  shows "tbl_ok key (snd (update_where P f t)) = tbl_ok key t"
proof -
  have "map key (snd (update_where P f t)) = map key t"
    using assms by (auto simp: update_where_def)
  then show ?thesis by (simp add: tbl_ok_def)
qed

lemma finite_dom_tbl: "finite (dom (tbl key t))"
  by (rule finite_subset [of _ "key ` set t"]) (auto dest: tbl_key)

lemma card_tbl:
  assumes "tbl_ok key t"
  shows "card {k. \<exists>r. tbl key t k = Some r \<and> P r} = length (filter P t)"
proof -
  have "{k. \<exists>r. tbl key t k = Some r \<and> P r} = set (map key (filter P t))"
    by (auto simp: tbl_iff [OF assms])
  also have "card \<dots> = length (filter P t)"
    using assms by (simp only: distinct_card distinct_map_filter tbl_ok_def) simp
  finally show ?thesis .
qed

lemma length_update_where_pk:
  assumes "tbl_ok key t"
  shows "length (filter (\<lambda>r. key r = k) t) = (case tbl key t k of None \<Rightarrow> 0 | Some _ \<Rightarrow> 1)"
  using assms
  by (induction t) (auto simp: tbl_ok_def filter_empty_conv split: option.splits)

lemma as_u64_i64: "n < 2 ^ 64 \<Longrightarrow> as_u64 (as_i64 n) = n"
  by (auto simp: as_u64_def as_i64_def nat_eq_iff minus_mod_self2)

lemma as_i64_ok: "time_ok n \<Longrightarrow> as_i64 n = int n"
  by (simp add: as_i64_def time_ok_def)

lemma as_u64_i64_ok: "time_ok n \<Longrightarrow> as_u64 (as_i64 n) = n"
  by (simp add: as_u64_i64 time_ok_def)

lemma as_u64_ok: "time_ok n \<Longrightarrow> as_u64 (int n) = n"
  by (simp add: as_u64_def time_ok_def)


subsection \<open>Abstraction and invariant\<close>

definition ac_row :: "accounts_row \<Rightarrow> account_row" where
  "ac_row r = \<lparr>row_handle = ac_handle r, row_email = ac_email r, row_password = ac_password_argon2 r,
     row_created_at = ac_created_at r, row_deactivated_at = ac_deactivated_at r,
     row_takedown_ref = ac_takedown_ref r\<rparr>"

definition seq_view :: "seq_row \<Rightarrow> int \<times> bytes \<times> bool" where
  "seq_view r = (sq_seq r, sq_event r, sq_invalidated r \<noteq> 0)"

definition invite_view :: "invites_row \<Rightarrow> int \<times> bool" where
  "invite_view r = (iv_available_uses r, iv_disabled r = 1)"

definition blob_view :: "blobs_row \<Rightarrow> string \<times> bytes" where
  "blob_view r = (bl_mime_type r, bl_bytes r)"

definition rt_view :: "refresh_row \<Rightarrow> RefreshTokenRecord \<times> bool" where
  "rt_view r = (rt_of_row r, rt_used r)"

definition sql_view :: "(Cid \<Rightarrow> string) \<Rightarrow> (string \<Rightarrow> Cid option) \<Rightarrow> SqliteStore \<Rightarrow> view" where
  "sql_view cs cp q = \<lparr>v_now = q_utc_now q,
     v_blocks = (\<lambda>c. map_option snd (tbl fst (q_blocks q) (cs c))),
     v_log = map seq_view (q_repo_seq q),
     v_roots = (\<lambda>d. Option.bind (tbl fst (q_repo_roots q) d) (\<lambda>(_, c, _). cp c)),
     v_accounts = (\<lambda>d. map_option ac_row (tbl ac_did (q_accounts q) d)),
     v_invites = (\<lambda>c. map_option invite_view (tbl iv_code (q_invites q) c)),
     v_invite_uses = (\<lambda>(c, u, _). (c, u)) ` set (q_invite_uses q),
     v_prefs = (\<lambda>d. map_option snd (tbl fst (q_preferences q) d)),
     v_keys = (\<lambda>i. map_option snd (tbl fst (q_keys q) i)),
     v_blobs = (\<lambda>k. map_option blob_view (tbl blob_key (q_blobs q) k)),
     v_par = (\<lambda>h. map_option par_of_row (tbl par_key (q_oauth_par q) h)),
     v_codes = (\<lambda>h. map_option code_of_row (tbl code_key (q_oauth_auth_codes q) h)),
     v_refresh = (\<lambda>h. map_option rt_view (tbl rt_key (q_oauth_refresh_tokens q) h)),
     v_jti = (\<lambda>j. map_option (as_u64 \<circ> snd) (tbl fst (q_oauth_dpop_jti q) j))\<rparr>"

definition i64_time :: "int \<Rightarrow> bool" where
  "i64_time i = (0 \<le> i \<and> i < 2 ^ 63)"

definition sql_seq_ok :: "SqliteStore \<Rightarrow> bool" where
  "sql_seq_ok q = (q_sequence q = int (length (q_repo_seq q)) \<and>
     map sq_seq (q_repo_seq q) = map int [1..<Suc (length (q_repo_seq q))])"

definition sql_accounts_ok :: "accounts_row list \<Rightarrow> bool" where
  "sql_accounts_ok t = (tbl_ok ac_did t \<and>
     distinct (map ac_handle (filter (\<lambda>r. ac_handle r \<noteq> None) t)))"

definition sql_ok :: "(string \<Rightarrow> Cid option) \<Rightarrow> SqliteStore \<Rightarrow> bool" where
  "sql_ok cp q = (sql_seq_ok q \<and> sql_accounts_ok (q_accounts q) \<and> tbl_ok iv_code (q_invites q) \<and>
     tbl_ok blob_key (q_blobs q) \<and> tbl_ok par_key (q_oauth_par q) \<and>
     tbl_ok code_key (q_oauth_auth_codes q) \<and> tbl_ok rt_key (q_oauth_refresh_tokens q) \<and>
     tbl_ok fst (q_oauth_dpop_jti q) \<and>
     (\<forall>r \<in> set (q_oauth_par q). i64_time (snd r)) \<and>
     (\<forall>r \<in> set (q_oauth_auth_codes q). i64_time (snd r)) \<and>
     (\<forall>(_, issued, ex, _) \<in> set (q_oauth_refresh_tokens q). i64_time issued \<and> i64_time ex) \<and>
     (\<forall>r \<in> set (q_oauth_dpop_jti q). i64_time (snd r)) \<and>
     (\<forall>(_, c, _) \<in> set (q_repo_roots q). cp c \<noteq> None))"

definition sql_up :: "SqliteStore \<Rightarrow> bool" where
  "sql_up q = (\<forall>n. q_calls q \<le> n \<longrightarrow> q_faults q n = None)"

locale cid_text =
  fixes cid_str :: "Cid \<Rightarrow> string" and cid_parse :: "string \<Rightarrow> Cid option"
  assumes cid_parse_str: "cid_parse (cid_str c) = Some c"
begin

lemma cid_str_inj [simp]: "cid_str c = cid_str d \<longleftrightarrow> c = d"
  by (metis cid_parse_str option.inject)

end

lemma sql_view_tick [simp]: "sql_view cs cp (tick q) = sql_view cs cp q"
  by (simp add: sql_view_def tick_def)

lemma sql_ok_tick [simp]: "sql_ok cp (tick q) = sql_ok cp q"
  by (simp add: sql_ok_def sql_seq_ok_def tick_def)

lemma sql_up_tick: "sql_up q \<Longrightarrow> sql_up (tick q)"
  by (simp add: sql_up_def tick_def)

lemma sql_up_no_fault: "sql_up q \<Longrightarrow> q_faults q (q_calls q) = None"
  by (simp add: sql_up_def)

text \<open>
  The closures decide what a call does; the fault sequence decides whether it happens. These
  two rules reduce a call's contract to its closure.
\<close>

lemma sql_interact_meets:
  assumes "\<And>q. sql_ok cp q \<Longrightarrow> R (sql_view cs cp q) (f q) (sql_view cs cp q)"
  shows "meets (sql_ok cp) sql_up (sql_view cs cp) (sql_interact f) R"
  using assms
  by (intro meetsI) (auto simp: sql_interact_def sql_up_tick sql_up_no_fault split: option.splits)

definition same_faults :: "SqliteStore \<Rightarrow> SqliteStore \<Rightarrow> bool" where
  "same_faults q q' = (q_faults q' = q_faults q \<and> q_calls q' = q_calls q)"

lemma sql_call_meets:
  assumes "\<And>q. sql_ok cp q \<Longrightarrow> (case g q of
      Inl e \<Rightarrow> R (sql_view cs cp q) (Inl e) (sql_view cs cp q)
    | Inr (a, q') \<Rightarrow> sql_ok cp q' \<and> same_faults q q' \<and> R (sql_view cs cp q) (Inr a) (sql_view cs cp q'))"
  shows "meets (sql_ok cp) sql_up (sql_view cs cp) (sql_call g) R"
proof (rule meetsI)
  fix q r q' assume ok: "sql_ok cp q" and call: "sql_call g q = (r, q')"
  have up: "sql_up (tick q1)" if "same_faults q q1" "sql_up q" for q1
    using that by (simp add: same_faults_def sql_up_def tick_def)
  show "sql_ok cp q' \<and> (sql_up q \<longrightarrow> sql_up q') \<and> (R (sql_view cs cp q) r (sql_view cs cp q') \<or>
      \<not> sql_up q \<and> is_err r \<and> sql_view cs cp q' = sql_view cs cp q)"
    using assms [OF ok] call ok up
    by (auto simp: sql_call_def sql_up_no_fault sql_up_tick split: option.splits sum.splits prod.splits)
qed

lemma same_faults_upd [simp]:
  "same_faults q q"
  "same_faults q (q'\<lparr>q_blocks := x1\<rparr>) = same_faults q q'"
  "same_faults q (q'\<lparr>q_repo_seq := x2\<rparr>) = same_faults q q'"
  "same_faults q (q'\<lparr>q_sequence := x3\<rparr>) = same_faults q q'"
  "same_faults q (q'\<lparr>q_accounts := x4\<rparr>) = same_faults q q'"
  "same_faults q (q'\<lparr>q_keys := x5\<rparr>) = same_faults q q'"
  "same_faults q (q'\<lparr>q_invites := x6\<rparr>) = same_faults q q'"
  "same_faults q (q'\<lparr>q_invite_uses := x7\<rparr>) = same_faults q q'"
  "same_faults q (q'\<lparr>q_repo_roots := x8\<rparr>) = same_faults q q'"
  "same_faults q (q'\<lparr>q_preferences := x9\<rparr>) = same_faults q q'"
  "same_faults q (q'\<lparr>q_blobs := x10\<rparr>) = same_faults q q'"
  "same_faults q (q'\<lparr>q_oauth_par := x11\<rparr>) = same_faults q q'"
  "same_faults q (q'\<lparr>q_oauth_auth_codes := x12\<rparr>) = same_faults q q'"
  "same_faults q (q'\<lparr>q_oauth_refresh_tokens := x13\<rparr>) = same_faults q q'"
  "same_faults q (q'\<lparr>q_oauth_dpop_jti := x14\<rparr>) = same_faults q q'"
  by (simp_all add: same_faults_def)

lemma sql_view_simps [simp]:
  "v_now (sql_view cs cp q) = q_utc_now q"
  "v_blocks (sql_view cs cp q) c = map_option snd (tbl fst (q_blocks q) (cs c))"
  "v_log (sql_view cs cp q) = map seq_view (q_repo_seq q)"
  "v_roots (sql_view cs cp q) d = Option.bind (tbl fst (q_repo_roots q) d) (\<lambda>(_, c, _). cp c)"
  "v_accounts (sql_view cs cp q) d = map_option ac_row (tbl ac_did (q_accounts q) d)"
  "v_invites (sql_view cs cp q) i = map_option invite_view (tbl iv_code (q_invites q) i)"
  "v_invite_uses (sql_view cs cp q) = (\<lambda>(c, u, _). (c, u)) ` set (q_invite_uses q)"
  "v_prefs (sql_view cs cp q) d = map_option snd (tbl fst (q_preferences q) d)"
  "v_keys (sql_view cs cp q) i = map_option snd (tbl fst (q_keys q) i)"
  "v_blobs (sql_view cs cp q) k = map_option blob_view (tbl blob_key (q_blobs q) k)"
  "v_par (sql_view cs cp q) h = map_option par_of_row (tbl par_key (q_oauth_par q) h)"
  "v_codes (sql_view cs cp q) h = map_option code_of_row (tbl code_key (q_oauth_auth_codes q) h)"
  "v_refresh (sql_view cs cp q) h = map_option rt_view (tbl rt_key (q_oauth_refresh_tokens q) h)"
  "v_jti (sql_view cs cp q) j = map_option (as_u64 \<circ> snd) (tbl fst (q_oauth_dpop_jti q) j)"
  by (simp_all add: sql_view_def)

lemma view_eqI:
  assumes "v_now v = v_now w" "\<And>c. v_blocks v c = v_blocks w c" "v_log v = v_log w"
    "\<And>d. v_roots v d = v_roots w d" "\<And>d. v_accounts v d = v_accounts w d"
    "\<And>i. v_invites v i = v_invites w i" "v_invite_uses v = v_invite_uses w"
    "\<And>d. v_prefs v d = v_prefs w d" "\<And>i. v_keys v i = v_keys w i"
    "\<And>k. v_blobs v k = v_blobs w k" "\<And>h. v_par v h = v_par w h" "\<And>h. v_codes v h = v_codes w h"
    "\<And>h. v_refresh v h = v_refresh w h" "\<And>j. v_jti v j = v_jti w j"
  shows "(v :: view) = w"
  by (rule view.equality) (auto intro!: ext simp: assms)

lemma sql_ok_frame [simp]:
  "sql_ok cp (q\<lparr>q_blocks := x1\<rparr>) = sql_ok cp q" "sql_ok cp (q\<lparr>q_keys := x2\<rparr>) = sql_ok cp q"
  "sql_ok cp (q\<lparr>q_invite_uses := x3\<rparr>) = sql_ok cp q"
  "sql_ok cp (q\<lparr>q_preferences := x4\<rparr>) = sql_ok cp q"
  by (simp_all add: sql_ok_def sql_seq_ok_def)


lemma sql_ok_maps [simp]:
  "sql_ok cp q \<Longrightarrow> tbl_ok blob_key x1 \<Longrightarrow> sql_ok cp (q\<lparr>q_blobs := x1\<rparr>)"
  "sql_ok cp q \<Longrightarrow> tbl_ok iv_code x2 \<Longrightarrow> sql_ok cp (q\<lparr>q_invites := x2\<rparr>)"
  "sql_ok cp q \<Longrightarrow> sql_accounts_ok x3 \<Longrightarrow> sql_ok cp (q\<lparr>q_accounts := x3\<rparr>)"
  "sql_ok cp q \<Longrightarrow> tbl_ok par_key x4 \<Longrightarrow> \<forall>r \<in> set x4. i64_time (snd r) \<Longrightarrow>
     sql_ok cp (q\<lparr>q_oauth_par := x4\<rparr>)"
  "sql_ok cp q \<Longrightarrow> tbl_ok code_key x5 \<Longrightarrow> \<forall>r \<in> set x5. i64_time (snd r) \<Longrightarrow>
     sql_ok cp (q\<lparr>q_oauth_auth_codes := x5\<rparr>)"
  "sql_ok cp q \<Longrightarrow> tbl_ok rt_key x6 \<Longrightarrow>
     \<forall>(_, issued, ex, _) \<in> set x6. i64_time issued \<and> i64_time ex \<Longrightarrow>
     sql_ok cp (q\<lparr>q_oauth_refresh_tokens := x6\<rparr>)"
  "sql_ok cp q \<Longrightarrow> tbl_ok fst x7 \<Longrightarrow> \<forall>r \<in> set x7. i64_time (snd r) \<Longrightarrow>
     sql_ok cp (q\<lparr>q_oauth_dpop_jti := x7\<rparr>)"
  "sql_ok cp q \<Longrightarrow> \<forall>(_, c, _) \<in> set x8. cp c \<noteq> None \<Longrightarrow> sql_ok cp (q\<lparr>q_repo_roots := x8\<rparr>)"
  by (simp_all add: sql_ok_def sql_seq_ok_def)

lemma sql_okD:
  assumes "sql_ok cp q"
  shows "tbl_ok blob_key (q_blobs q)" "tbl_ok iv_code (q_invites q)" "sql_accounts_ok (q_accounts q)"
    "tbl_ok par_key (q_oauth_par q)" "tbl_ok code_key (q_oauth_auth_codes q)"
    "tbl_ok rt_key (q_oauth_refresh_tokens q)" "tbl_ok fst (q_oauth_dpop_jti q)"
    "tbl_ok ac_did (q_accounts q)"
  using assms by (simp_all add: sql_ok_def sql_accounts_ok_def)

lemma sql_ok_times:
  assumes "sql_ok cp q"
  shows "\<forall>r \<in> set (q_oauth_par q). i64_time (snd r)"
    "\<forall>r \<in> set (q_oauth_auth_codes q). i64_time (snd r)"
    "\<forall>(_, issued, ex, _) \<in> set (q_oauth_refresh_tokens q). i64_time issued \<and> i64_time ex"
    "\<forall>r \<in> set (q_oauth_dpop_jti q). i64_time (snd r)"
    "\<forall>(_, c, _) \<in> set (q_repo_roots q). cp c \<noteq> None"
  using assms by (simp_all add: sql_ok_def)

lemma set_insert_or_replace: "set (insert_or_replace key r t) \<subseteq> insert r (set t)"
  by (auto simp: insert_or_replace_def)

lemma ball_insert_or_replace:
  "P r \<Longrightarrow> \<forall>x \<in> set t. P x \<Longrightarrow> \<forall>x \<in> set (insert_or_replace key r t). P x"
  by (auto simp: insert_or_replace_def)

lemma ball_insert_or_ignore:
  "P r \<Longrightarrow> \<forall>x \<in> set t. P x \<Longrightarrow> \<forall>x \<in> set (snd (insert_or_ignore key r t)). P x"
  by (auto simp: insert_or_ignore_def split: option.splits)

lemma ball_delete_where: "\<forall>x \<in> set t. P x \<Longrightarrow> \<forall>x \<in> set (snd (delete_where Q t)). P x"
  by (auto simp: delete_where_def)

lemma i64_time_ok: "i64_time (as_i64 n) = time_ok n" if "n < 2 ^ 64"
  using that by (auto simp: i64_time_def as_i64_def time_ok_def)

lemma i64_time_of: "time_ok n \<Longrightarrow> i64_time (as_i64 n)"
  by (simp add: i64_time_def as_i64_def time_ok_def)

lemma i64_time_u64: "i64_time i \<Longrightarrow> int (as_u64 i) = i"
  by (simp add: i64_time_def as_u64_def)

lemma i64_less: "i64_time i \<Longrightarrow> time_ok now \<Longrightarrow> as_i64 now < i \<longleftrightarrow> now < as_u64 i"
  using i64_time_u64 [of i] by (simp add: as_i64_ok) linarith

lemma i64_le: "i64_time i \<Longrightarrow> time_ok now \<Longrightarrow> i \<le> as_i64 now \<longleftrightarrow> as_u64 i \<le> now"
  using i64_less [of i now] by auto

subsection \<open>Every operation meets its specification\<close>

lemma sql_max_seq_meets: "meets (sql_ok cp) sql_up (sql_view cs cp) sql_max_seq spec_max_seq"
  unfolding sql_max_seq_def spec_max_seq_def
proof (rule sql_interact_meets)
  fix q assume "sql_ok cp q"
  then have seqs: "map sq_seq (q_repo_seq q) = map int [1..<Suc (length (q_repo_seq q))]"
    by (simp add: sql_ok_def sql_seq_ok_def)
  have "(case map int [1..<Suc n] of [] \<Rightarrow> 0 | x # xs \<Rightarrow> fold max xs x) = int n" for n
  proof (cases n)
    case (Suc k)
    then have "map int [1..<Suc n] = 1 # map int [2..<2 + k]"
      by (simp add: upt_conv_Cons numeral_2_eq_2 del: upt_Suc)
    moreover have "fold max (map int [2..<2 + k]) 1 = int (Suc k)"
      by (induction k) (auto simp: max_def)
    ultimately show ?thesis using Suc by simp
  qed simp
  then show "reads (\<lambda>v. int (length (v_log v))) (sql_view cs cp q)
      (Ok (case map sq_seq (q_repo_seq q) of [] \<Rightarrow> 0 | n # ns \<Rightarrow> fold max ns n)) (sql_view cs cp q)"
    unfolding seqs by simp
qed

lemma sql_seq_sorted: "sql_ok cp q \<Longrightarrow> sorted (map sq_seq (q_repo_seq q))"
  by (simp add: sql_ok_def sql_seq_ok_def sorted_wrt_map del: upt_Suc)

lemma sql_backfill_page_meets:
  "0 \<le> k \<Longrightarrow> meets (sql_ok cp) sql_up (sql_view cs cp) (sql_backfill_page n k) (spec_backfill_page n k)"
  unfolding sql_backfill_page_def spec_backfill_page_def
proof (rule sql_interact_meets)
  fix q assume "0 \<le> k" "sql_ok cp q"
  have "sort_key sq_seq (filter P (q_repo_seq q)) = filter P (q_repo_seq q)" for P
    using sql_seq_sorted [OF \<open>sql_ok cp q\<close>] by (simp add: sorted_filter sort_key_id_if_sorted)
  with \<open>0 \<le> k\<close> show "reads (\<lambda>v. take (nat k) (log_after n (v_log v))) (sql_view cs cp q)
      (Ok (map (\<lambda>r. (sq_seq r, sq_event r)) (limit_rows k (sort_key sq_seq
        (filter (\<lambda>r. n < sq_seq r \<and> sq_invalidated r = 0) (q_repo_seq q)))))) (sql_view cs cp q)"
    by (simp add: limit_rows_def log_after_def filter_map take_map comp_def seq_view_def)
qed

lemma ac_row_simps [simp]:
  "row_handle (ac_row r) = ac_handle r" "row_password (ac_row r) = ac_password_argon2 r"
  "active_row (ac_row r) = ac_visible r"
  by (simp_all add: ac_row_def active_row_def ac_visible_def)

lemma sql_accounts_dom: "sql_ok cp q \<Longrightarrow> card (dom (v_accounts (sql_view cs cp q))) = length (q_accounts q)"
  using card_tbl [OF sql_okD(8), of cp q "\<lambda>_. True"] by (simp add: dom_def)

lemma sql_handle_taken:
  "sql_ok cp q \<Longrightarrow> handle_taken (sql_view cs cp q) h \<longleftrightarrow> list_ex (\<lambda>r. ac_handle r = Some h) (q_accounts q)"
  by (fastforce simp: handle_taken_def list_ex_iff tbl_iff [OF sql_okD(8)])

lemma sql_accounts_ok_append:
  assumes "sql_accounts_ok t" "tbl ac_did t (ac_did r) = None" "\<not> list_ex (\<lambda>x. ac_handle x = ac_handle r) t"
  shows "sql_accounts_ok (t @ [r])"
  using assms by (auto simp: sql_accounts_ok_def tbl_ok_append list_ex_iff)

lemma sql_insert_accounts_row:
  assumes ok: "sql_ok cp q"
  shows "case insert_accounts_row d h email phc q of
      Inl e \<Rightarrow> \<not> account_free (sql_view cs cp q) d h
    | Inr q' \<Rightarrow> account_free (sql_view cs cp q) d h \<and> sql_ok cp q' \<and> same_faults q q' \<and>
        sql_view cs cp q' = add_account d h email phc (sql_view cs cp q)"
proof -
  have did: "list_ex (\<lambda>r. ac_did r = d) (q_accounts q) \<longleftrightarrow> tbl ac_did (q_accounts q) d \<noteq> None"
    by (auto simp: tbl_None list_ex_iff)
  show ?thesis
    unfolding insert_accounts_row_def account_free_def sql_handle_taken [OF ok] did
    using sql_okD(3) [OF ok] ok
    by (auto simp: add_account_def new_row_def ac_row_def intro!: view_eqI sql_ok_maps sql_accounts_ok_append split: option.splits)
qed

lemma sql_insert_account_meets:
  "meets (sql_ok cp) sql_up (sql_view cs cp) (sql_insert_account d h email phc) (spec_insert_account d h email phc)"
  unfolding sql_insert_account_def spec_insert_account_def
  by (rule sql_call_meets, drule sql_insert_accounts_row [where d = d and h = h and email = email and phc = phc])
    (auto split: sum.splits)

lemma sql_count_and_insert_account_meets:
  "meets (sql_ok cp) sql_up (sql_view cs cp) (sql_count_and_insert_account d h email phc)
     (spec_count_and_insert_account d h email phc)"
  unfolding sql_count_and_insert_account_def spec_count_and_insert_account_def Let_def
  by (rule sql_call_meets, frule sql_insert_accounts_row [where d = d and h = h and email = email and phc = phc])
    (auto simp: sql_accounts_dom split: sum.splits)

lemma sql_count_accounts_meets:
  "meets (sql_ok cp) sql_up (sql_view cs cp) sql_count_accounts spec_count_accounts"
  unfolding sql_count_accounts_def spec_count_accounts_def
  by (rule sql_interact_meets) (simp add: sql_accounts_dom)

lemma sql_handle_unique:
  assumes "sql_accounts_ok t" "r \<in> set t" "r' \<in> set t" "ac_handle r = Some h" "ac_handle r' = Some h"
  shows "r = r'"
proof -
  have "inj_on ac_handle (set (filter (\<lambda>r. ac_handle r \<noteq> None) t))"
    using assms(1) by (auto simp: sql_accounts_ok_def distinct_map)
  from inj_onD [OF this, of r r'] show ?thesis using assms(2-5) by auto
qed

lemma sql_find_visible:
  assumes ok: "sql_ok cp q"
  shows "visible_by_handle (sql_view cs cp q) h d a \<longleftrightarrow>
    (\<exists>r. find (\<lambda>r. ac_handle r = Some h \<and> ac_visible r) (q_accounts q) = Some r \<and> ac_did r = d \<and> a = ac_row r)"
proof (cases "find (\<lambda>r. ac_handle r = Some h \<and> ac_visible r) (q_accounts q)")
  case None
  then have "\<forall>r \<in> set (q_accounts q). ac_handle r = Some h \<longrightarrow> \<not> ac_visible r" by (auto simp: find_None_iff)
  with None show ?thesis by (auto simp: visible_by_handle_def tbl_iff [OF sql_okD(8) [OF ok]])
next
  case (Some r)
  then have r: "r \<in> set (q_accounts q)" "ac_handle r = Some h" "ac_visible r" by (auto simp: find_Some_iff)
  have uniq: "z = r" if "z \<in> set (q_accounts q)" "ac_handle z = Some h" for z
    by (rule sql_handle_unique [OF sql_okD(3) [OF ok] that(1) r(1) that(2) r(2)])
  have "visible_by_handle (sql_view cs cp q) h d a \<longleftrightarrow>
      (\<exists>z \<in> set (q_accounts q). ac_did z = d \<and> ac_row z = a \<and> ac_handle z = Some h \<and> ac_visible z)"
    by (auto simp: visible_by_handle_def tbl_iff [OF sql_okD(8) [OF ok]])
  also have "\<dots> \<longleftrightarrow> ac_did r = d \<and> a = ac_row r" using r by (blast dest: uniq)
  finally show ?thesis using Some by auto
qed

lemma sql_get_account_by_handle_meets:
  "meets (sql_ok cp) sql_up (sql_view cs cp) (sql_get_account_by_handle h) (spec_get_account_by_handle h)"
  unfolding sql_get_account_by_handle_def
  by (rule sql_interact_meets) (auto simp: spec_get_account_by_handle_def sql_find_visible)

lemma sql_get_did_by_handle_meets:
  "meets (sql_ok cp) sql_up (sql_view cs cp) (sql_get_did_by_handle h) (spec_get_did_by_handle h)"
  unfolding sql_get_did_by_handle_def
  by (rule sql_interact_meets) (auto simp: spec_get_did_by_handle_def sql_find_visible)

lemma sql_get_handle_by_did_meets:
  "meets (sql_ok cp) sql_up (sql_view cs cp) (sql_get_handle_by_did d) (spec_get_handle_by_did d)"
  unfolding sql_get_handle_by_did_def spec_get_handle_by_did_def
  by (rule sql_interact_meets) (auto simp: find_tbl [OF sql_okD(8)] split: option.splits)

lemma sql_list_accounts_meets:
  "meets (sql_ok cp) sql_up (sql_view cs cp) sql_list_accounts spec_list_accounts"
  unfolding sql_list_accounts_def spec_list_accounts_def
proof (rule sql_interact_meets)
  fix q assume ok: "sql_ok cp q"
  let ?s = "\<lambda>r. \<lparr>sum_did = ac_did r, sum_handle = ac_handle r,
       sum_deactivated_at = ac_deactivated_at r, sum_takedown_ref = ac_takedown_ref r,
       sum_created_at = ac_created_at r\<rparr>"
  let ?l = "sort_key ac_created_at (q_accounts q)"
  have s: "?s r = summary_of (ac_did r) (ac_row r)" for r by (simp add: summary_of_def ac_row_def)
  have "distinct (map ac_did ?l)"
    using sql_okD(8) [OF ok] by (simp add: tbl_ok_def distinct_map)
  moreover have "?s ` set ?l = {summary_of d a |d a. v_accounts (sql_view cs cp q) d = Some a}"
    unfolding s by (auto simp: tbl_iff [OF sql_okD(8) [OF ok]])
  ultimately show "lists (\<lambda>v xs. distinct (map sum_did xs) \<and> sorted (map sum_created_at xs) \<and>
      set xs = {summary_of d a |d a. v_accounts v d = Some a}) (sql_view cs cp q) (Ok (map ?s ?l)) (sql_view cs cp q)"
    by (simp add: comp_def)
qed

lemma sql_update_accounts_row:
  assumes ok: "sql_ok cp q"
    and f: "\<And>r. ac_did (f r) = ac_did r" "\<And>r. ac_handle (f r) = ac_handle r" "\<And>r. ac_row (f r) = fr (ac_row r)"
  shows "case update_accounts_row d f q of (n, q') \<Rightarrow> sql_ok cp q' \<and> same_faults q q' \<and>
    update_account d fr (sql_view cs cp q) = (n, sql_view cs cp q')"
proof -
  let ?t = "snd (update_where (\<lambda>r. ac_did r = d) f (q_accounts q))"
  have "map ac_handle (filter (\<lambda>r. ac_handle r \<noteq> None) (map (\<lambda>r. if ac_did r = d then f r else r) t)) =
      map ac_handle (filter (\<lambda>r. ac_handle r \<noteq> None) t)" for t
    by (induction t) (auto simp: f)
  then have "sql_accounts_ok ?t"
    using sql_okD(3) [OF ok] by (simp add: sql_accounts_ok_def tbl_ok_update_where f) (simp add: update_where_def)
  then have "sql_ok cp (q\<lparr>q_accounts := ?t\<rparr>)" using ok by simp
  moreover have "update_account d fr (sql_view cs cp q) =
      (length (filter (\<lambda>r. ac_did r = d) (q_accounts q)), sql_view cs cp (q\<lparr>q_accounts := ?t\<rparr>))"
    using length_update_where_pk [OF sql_okD(8) [OF ok]]
    by (auto simp: update_account_def tbl_update_where f split: option.splits intro!: view_eqI)
  ultimately show ?thesis
    by (simp add: update_accounts_row_def update_where_def)
qed

lemma sql_update_password_meets:
  "meets (sql_ok cp) sql_up (sql_view cs cp) (sql_update_password d phc) (spec_update_password d phc)"
  unfolding sql_update_password_def spec_update_password_def
  by (rule sql_call_meets, drule sql_update_accounts_row [where d = d and
      f = "ac_password_argon2_update (\<lambda>_. phc)" and fr = "row_password_update (\<lambda>_. phc)"])
    (auto simp: ac_row_def split: prod.splits)

lemma sql_takedown_row:
  assumes "sql_ok cp q"
  shows "\<exists>n q'. update_accounts_row d (ac_takedown_ref_update (\<lambda>_. x)) q = (n, q') \<and> sql_ok cp q' \<and>
    same_faults q q' \<and>
    update_account d (row_takedown_ref_update (\<lambda>_. x)) (sql_view cs cp q) = (n, sql_view cs cp q')"
  using sql_update_accounts_row [OF assms, where d = d and f = "ac_takedown_ref_update (\<lambda>_. x)" and
      fr = "row_takedown_ref_update (\<lambda>_. x)" and cs = cs]
  by (auto simp: ac_row_def split: prod.splits)

lemma sql_set_takedown_meets:
  "meets (sql_ok cp) sql_up (sql_view cs cp) (sql_set_takedown d ref) (spec_set_takedown d ref)"
  unfolding sql_set_takedown_def spec_set_takedown_def Let_def
  apply (rule sql_call_meets)
  subgoal for q
    using sql_takedown_row [of cp q d "Some (if ref = [] then q_utc_now q else ref)" cs]
    by (cases "ref = []") auto
  done

lemma sql_clear_takedown_meets:
  "meets (sql_ok cp) sql_up (sql_view cs cp) (sql_clear_takedown d) (spec_clear_takedown d)"
  unfolding sql_clear_takedown_def spec_clear_takedown_def
  apply (rule sql_call_meets)
  subgoal for q using sql_takedown_row [of cp q d None cs] by auto
  done

lemma sql_insert_invite_meets:
  "meets (sql_ok cp) sql_up (sql_view cs cp) (sql_insert_invite c n d) (spec_insert_invite c n)"
proof -
  have ex: "list_ex (\<lambda>r. iv_code r = c) t \<longleftrightarrow> tbl iv_code t c \<noteq> None" for t
    by (auto simp: tbl_None list_ex_iff)
  show ?thesis
    unfolding sql_insert_invite_def spec_insert_invite_def ex
    by (rule sql_call_meets)
      (auto simp: sql_okD tbl_ok_append invite_view_def intro!: view_eqI sql_ok_maps split: option.splits)
qed

lemma sql_consume_invite_meets:
  "meets (sql_ok cp) sql_up (sql_view cs cp) (sql_consume_invite c u) (spec_consume_invite c u)"
proof -
  have used: "0 < length (filter (\<lambda>(c', u', _). c' = c \<and> u' = u) t) \<longleftrightarrow> (c, u) \<in> (\<lambda>(c, u, _). (c, u)) ` set t"
    for t :: "(string \<times> string \<times> string) list"
    by (force simp: filter_empty_conv)
  have ins: "insert_or_ignore (\<lambda>(c, u, _). (c, u)) (c, u, now) t = (1, t @ [(c, u, now)])"
    if "(c, u) \<notin> (\<lambda>(c, u, _). (c, u)) ` set t" for t and now :: string
    using that by (simp add: insert_or_ignore_def)
  show ?thesis
    unfolding sql_consume_invite_def spec_consume_invite_def used
    by (rule sql_call_meets)
      (auto simp: sql_okD ins invite_usable_def invite_view_def tbl_update_where tbl_ok_update_where
        intro!: view_eqI sql_ok_maps split: option.splits)
qed

lemma sql_upsert_preferences_meets:
  "meets (sql_ok cp) sql_up (sql_view cs cp) (sql_upsert_preferences d p) (spec_upsert_preferences d p)"
  unfolding sql_upsert_preferences_def spec_upsert_preferences_def
  by (rule sql_call_meets) (auto simp: tbl_insert_or_replace intro!: view_eqI)

lemma sql_get_preferences_meets:
  "meets (sql_ok cp) sql_up (sql_view cs cp) (sql_get_preferences d) (spec_get_preferences d)"
  unfolding sql_get_preferences_def spec_get_preferences_def
  by (rule sql_interact_meets) simp

lemma sql_put_key_blob_meets:
  "meets (sql_ok cp) sql_up (sql_view cs cp) (sql_put_key_blob i c) (spec_put_key_blob i c)"
  unfolding sql_put_key_blob_def spec_put_key_blob_def
  by (rule sql_call_meets) (auto simp: tbl_insert_or_replace intro!: view_eqI)

lemma sql_get_key_blob_meets:
  "meets (sql_ok cp) sql_up (sql_view cs cp) (sql_get_key_blob i) (spec_get_key_blob i)"
  unfolding sql_get_key_blob_def spec_get_key_blob_def
  by (rule sql_interact_meets) simp

lemma sql_put_blob_meets:
  "meets (sql_ok cp) sql_up (sql_view cs cp) (sql_put_blob d c mime n b) (spec_put_blob d c mime b)"
  unfolding sql_put_blob_def spec_put_blob_def
  by (rule sql_call_meets)
    (auto simp: tbl_insert_or_replace sql_okD blob_key_def blob_view_def intro!: view_eqI sql_ok_maps)

lemma sql_get_blob_meets:
  "meets (sql_ok cp) sql_up (sql_view cs cp) (sql_get_blob d c) (spec_get_blob d c)"
  unfolding sql_get_blob_def spec_get_blob_def
  by (rule sql_interact_meets) (simp add: blob_view_def [abs_def])

lemma sql_list_blobs_meets:
  "time_ok k \<Longrightarrow> meets (sql_ok cp) sql_up (sql_view cs cp) (sql_list_blobs d k cur) (spec_list_blobs d k cur)"
  unfolding sql_list_blobs_def spec_list_blobs_def
proof (rule sql_interact_meets)
  fix q assume k: "time_ok k" and "sql_ok cp q"
  then have ok: "tbl_ok blob_key (q_blobs q)" by (simp add: sql_okD)
  let ?P = "\<lambda>c. case cur of None \<Rightarrow> True | Some x \<Rightarrow> x < c"
  let ?l = "map bl_cid (filter (\<lambda>r. bl_did r = d) (q_blobs q))"
  have split: "map bl_cid (filter (\<lambda>r. bl_did r = d \<and> ?P (bl_cid r)) (q_blobs q)) = filter ?P ?l"
    by (simp add: filter_map comp_def conj_commute)
  have "distinct ?l"
    using ok by (auto simp: tbl_ok_def distinct_map inj_on_def blob_key_def)
  moreover have "set ?l = blob_cids (sql_view cs cp q) d"
    by (force simp: blob_cids_def tbl_None blob_key_def)
  ultimately have "sorted_list_of_set (blob_cids (sql_view cs cp q) d) = sort ?l"
    by (metis sorted_list_of_set_sort_remdups distinct_remdups_id)
  with k show "reads (\<lambda>v. take k (filter ?P (sorted_list_of_set (blob_cids v d)))) (sql_view cs cp q)
      (Ok (limit_rows (as_i64 k) (sort (map bl_cid (filter (\<lambda>r. bl_did r = d \<and> ?P (bl_cid r)) (q_blobs q)))))) (sql_view cs cp q)"
    unfolding split by (simp add: filter_sort limit_rows_def as_i64_ok)
qed

lemma live_map_option:
  "live ex now (map_option f x) = (case x of None \<Rightarrow> None | Some r \<Rightarrow> if now < ex (f r) then Some (f r) else None)"
  by (auto simp: live_def split: option.splits)

lemma of_row_simps [simp]:
  "par_expires_at (par_of_row p) = as_u64 (snd p)" "code_expires_at (code_of_row c) = as_u64 (snd c)"
  "rt_expires_at (rt_of_row r) = as_u64 (rt_expires_col r)" "rt_session_id (rt_of_row r) = rt_session_id (fst r)"
  "rt_did (rt_of_row r) = rt_did (fst r)" "rt_token_hash (rt_of_row r) = rt_key r"
  "par_of_row (q\<lparr>par_expires_at := 0\<rparr>, i) = q\<lparr>par_expires_at := as_u64 i\<rparr>"
  "code_of_row (ac\<lparr>code_expires_at := 0\<rparr>, i) = ac\<lparr>code_expires_at := as_u64 i\<rparr>"
  "par_key (q\<lparr>par_expires_at := 0\<rparr>, i) = par_request_uri_hash q"
  "code_key (ac\<lparr>code_expires_at := 0\<rparr>, i) = code_hash ac"
  "rt_key (t\<lparr>rt_issued_at := 0, rt_expires_at := 0\<rparr>, j) = rt_token_hash t"
  "rt_view (t\<lparr>rt_issued_at := 0, rt_expires_at := 0\<rparr>, i, i', 0) =
     (t\<lparr>rt_issued_at := as_u64 i, rt_expires_at := as_u64 i'\<rparr>, False)"
  "rt_key (rt_mark_used r) = rt_key r" "rt_of_row (rt_mark_used r) = rt_of_row r" "rt_used (rt_mark_used r)"
  by (auto simp: par_of_row_def code_of_row_def rt_of_row_def rt_expires_col_def par_key_def
      code_key_def rt_key_def rt_view_def rt_used_def rt_mark_used_def split: prod.splits)

lemma record_time_id [simp]:
  "par_expires_at q = n \<Longrightarrow> q\<lparr>par_expires_at := n\<rparr> = q"
  "code_expires_at ac = n \<Longrightarrow> ac\<lparr>code_expires_at := n\<rparr> = ac"
  "rt_issued_at t = n \<Longrightarrow> rt_expires_at t = k \<Longrightarrow> t\<lparr>rt_issued_at := n, rt_expires_at := k\<rparr> = t"
  by auto

lemma i64_par: "sql_ok cp q \<Longrightarrow> tbl par_key (q_oauth_par q) h = Some r \<Longrightarrow> i64_time (snd r)"
  using sql_ok_times(1) by (blast dest: tbl_key)

lemma i64_code: "sql_ok cp q \<Longrightarrow> tbl code_key (q_oauth_auth_codes q) h = Some r \<Longrightarrow> i64_time (snd r)"
  using sql_ok_times(2) by (blast dest: tbl_key)

lemma i64_rt:
  assumes "sql_ok cp q" "r \<in> set (q_oauth_refresh_tokens q)"
  shows "i64_time (rt_expires_col r)" "i64_time (fst (snd r))"
  using sql_ok_times(3) [OF assms(1)] assms(2) by (cases r; fastforce simp: rt_expires_col_def)+

lemma ball_mark_used:
  assumes "\<forall>(_, issued, ex, _) \<in> set t. i64_time issued \<and> i64_time ex"
  shows "\<forall>(_, issued, ex, _) \<in> set (snd (update_where P rt_mark_used t)). i64_time issued \<and> i64_time ex"
  using assms by (fastforce simp: update_where_def rt_mark_used_def)

lemma sql_ok_oauth [simp]:
  assumes "sql_ok cp q"
  shows "i64_time (snd p) \<Longrightarrow> sql_ok cp (q\<lparr>q_oauth_par := insert_or_replace par_key p (q_oauth_par q)\<rparr>)"
    "sql_ok cp (q\<lparr>q_oauth_par := snd (delete_where P1 (q_oauth_par q))\<rparr>)"
    "i64_time (snd c) \<Longrightarrow>
      sql_ok cp (q\<lparr>q_oauth_auth_codes := insert_or_replace code_key c (q_oauth_auth_codes q)\<rparr>)"
    "sql_ok cp (q\<lparr>q_oauth_auth_codes := snd (delete_where P2 (q_oauth_auth_codes q))\<rparr>)"
    "i64_time i \<Longrightarrow> i64_time ex \<Longrightarrow> sql_ok cp (q\<lparr>q_oauth_refresh_tokens :=
      insert_or_replace rt_key (t, i, ex, used) (q_oauth_refresh_tokens q)\<rparr>)"
    "sql_ok cp (q\<lparr>q_oauth_refresh_tokens := snd (delete_where P3 (q_oauth_refresh_tokens q))\<rparr>)"
    "i64_time (snd j) \<Longrightarrow>
      sql_ok cp (q\<lparr>q_oauth_dpop_jti := snd (insert_or_ignore fst j (q_oauth_dpop_jti q))\<rparr>)"
    "sql_ok cp (q\<lparr>q_oauth_dpop_jti := snd (delete_where P4 (q_oauth_dpop_jti q))\<rparr>)"
    "sql_ok cp (q\<lparr>q_oauth_refresh_tokens :=
      snd (update_where P5 rt_mark_used (q_oauth_refresh_tokens q))\<rparr>)"
  using assms sql_okD [OF assms] sql_ok_times [OF assms]
  by (intro sql_ok_maps ball_insert_or_replace ball_insert_or_ignore ball_delete_where ball_mark_used;
      simp add: tbl_ok_update_where)+

lemma sql_put_pushed_request_meets:
  "time_ok (par_expires_at req) \<Longrightarrow>
     meets (sql_ok cp) sql_up (sql_view cs cp) (sql_put_pushed_request req) (spec_put_pushed_request req)"
  unfolding sql_put_pushed_request_def spec_put_pushed_request_def
  by (rule sql_call_meets)
    (auto simp: tbl_insert_or_replace as_u64_i64_ok i64_time_of intro!: view_eqI)

lemma sql_get_pushed_request_meets:
  "time_ok now \<Longrightarrow>
     meets (sql_ok cp) sql_up (sql_view cs cp) (sql_get_pushed_request h now) (spec_get_pushed_request h now)"
  unfolding sql_get_pushed_request_def spec_get_pushed_request_def
  by (rule sql_interact_meets)
    (auto simp: find_tbl [OF sql_okD(4)] live_map_option i64_less i64_par split: option.splits)

lemma sql_delete_pushed_request_meets:
  "meets (sql_ok cp) sql_up (sql_view cs cp) (sql_delete_pushed_request h) (spec_delete_pushed_request h)"
  unfolding sql_delete_pushed_request_def spec_delete_pushed_request_def
  by (rule sql_call_meets)
    (auto simp: tbl_delete_where sql_okD intro!: view_eqI split: option.splits dest: tbl_key)

lemma sql_put_auth_code_meets:
  "time_ok (code_expires_at ac) \<Longrightarrow>
     meets (sql_ok cp) sql_up (sql_view cs cp) (sql_put_auth_code ac) (spec_put_auth_code ac)"
  unfolding sql_put_auth_code_def spec_put_auth_code_def
  by (rule sql_call_meets)
    (auto simp: tbl_insert_or_replace as_u64_i64_ok i64_time_of intro!: view_eqI)

lemma sql_consume_auth_code_meets:
  "time_ok now \<Longrightarrow>
     meets (sql_ok cp) sql_up (sql_view cs cp) (sql_consume_auth_code h now) (spec_consume_auth_code h now)"
  unfolding sql_consume_auth_code_def spec_consume_auth_code_def Let_def
  by (rule sql_call_meets)
    (auto simp: find_tbl [OF sql_okD(5)] live_map_option i64_less i64_code tbl_delete_where sql_okD
      intro!: view_eqI split: option.splits dest: tbl_key)

lemma sql_put_refresh_token_meets:
  "time_ok (rt_issued_at t) \<Longrightarrow> time_ok (rt_expires_at t) \<Longrightarrow>
     meets (sql_ok cp) sql_up (sql_view cs cp) (sql_put_refresh_token t) (spec_put_refresh_token t)"
  unfolding sql_put_refresh_token_def spec_put_refresh_token_def
  by (rule sql_call_meets)
    (auto simp: tbl_insert_or_replace as_u64_i64_ok i64_time_of intro!: view_eqI)

lemma i64_rt_tbl:
  "sql_ok cp q \<Longrightarrow> tbl rt_key (q_oauth_refresh_tokens q) h = Some r \<Longrightarrow> i64_time (rt_expires_col r)"
  by (auto dest!: tbl_key i64_rt(1))

lemma sql_consume_refresh_token_meets:
  "time_ok now \<Longrightarrow>
     meets (sql_ok cp) sql_up (sql_view cs cp) (sql_consume_refresh_token h now) (spec_consume_refresh_token h now)"
  unfolding sql_consume_refresh_token_def spec_consume_refresh_token_def
  by (rule sql_call_meets)
    (auto simp: find_tbl [OF sql_okD(6)] live_map_option i64_less i64_rt_tbl tbl_update_where
      rt_view_def [of r for r] intro!: view_eqI split: option.splits bool.splits)

lemma sql_in_session:
  "sql_ok cp q \<Longrightarrow> in_session sid (sql_view cs cp q) =
     {h. \<exists>r. tbl rt_key (q_oauth_refresh_tokens q) h = Some r \<and> rt_session_id (fst r) = sid}"
  by (auto simp: in_session_def rt_view_def)

lemma sql_card_session:
  "sql_ok cp q \<Longrightarrow> card (in_session sid (sql_view cs cp q)) =
     length (filter (\<lambda>r. rt_session_id (fst r) = sid) (q_oauth_refresh_tokens q))"
  by (simp only: sql_in_session card_tbl [OF sql_okD(6)])

lemma sql_drop_session:
  assumes "sql_ok cp q"
  shows "drop_session sid (sql_view cs cp q) = sql_view cs cp (q\<lparr>q_oauth_refresh_tokens :=
    snd (delete_where (\<lambda>r. rt_session_id (fst r) = sid) (q_oauth_refresh_tokens q))\<rparr>)"
  using assms
  by (auto simp: drop_session_def sql_in_session tbl_delete_where [OF sql_okD(6)] restrict_map_def
      intro!: view_eqI split: option.splits)

lemma sql_revoke_session_meets:
  "meets (sql_ok cp) sql_up (sql_view cs cp) (sql_revoke_session sid) (spec_revoke_session sid)"
proof -
  have del: "delete_where P t = (length (filter P t), snd (delete_where P t))" for P and t :: "refresh_row list"
    by (simp add: delete_where_def)
  show ?thesis
    unfolding sql_revoke_session_def spec_revoke_session_def
    by (rule sql_call_meets, subst (1) del)
      (auto simp: sql_drop_session sql_card_session)
qed

lemma sql_revoke_refresh_token_meets:
  "meets (sql_ok cp) sql_up (sql_view cs cp) (sql_revoke_refresh_token h) (spec_revoke_refresh_token h)"
  unfolding sql_revoke_refresh_token_def spec_revoke_refresh_token_def
  by (rule sql_call_meets)
    (auto simp: sql_drop_session rt_view_def split: option.splits)

lemma sql_record_dpop_jti_meets:
  "time_ok ex \<Longrightarrow>
     meets (sql_ok cp) sql_up (sql_view cs cp) (sql_record_dpop_jti j ex) (spec_record_dpop_jti j ex)"
proof -
  assume ex: "time_ok ex"
  have ins: "insert_or_ignore fst (j, i) t =
      (case tbl fst t j of None \<Rightarrow> 1 | Some _ \<Rightarrow> 0, snd (insert_or_ignore fst (j, i) t))" for i and t :: "(string \<times> int) list"
    by (simp add: insert_or_ignore_def split: option.splits)
  have same: "snd (insert_or_ignore fst (j, i) t) = t" if "tbl fst t j = Some x" for i x and t :: "(string \<times> int) list"
    using that by (simp add: insert_or_ignore_def)
  show ?thesis
    unfolding sql_record_dpop_jti_def spec_record_dpop_jti_def
    by (rule sql_call_meets, subst (1) ins)
      (use ex in \<open>auto simp: tbl_insert_or_ignore same i64_time_of as_u64_i64_ok intro!: view_eqI split: option.splits\<close>)
qed

lemma expired_tbl:
  assumes "tbl_ok key t" "time_ok now" "\<And>r. r \<in> set t \<Longrightarrow> i64_time (col r)" "\<And>r. r \<in> set t \<Longrightarrow> ex (f r) = as_u64 (col r)"
    and m: "\<And>k. m k = map_option f (tbl key t k)"
  shows "card (expired ex now m) = length (filter (\<lambda>r. col r \<le> as_i64 now) t)"
    and "(m |` (- expired ex now m)) k = map_option f (tbl key (filter (\<lambda>r. \<not> col r \<le> as_i64 now) t) k)"
proof -
  have le: "ex (f r) \<le> now \<longleftrightarrow> col r \<le> as_i64 now" if "tbl key t k = Some r" for k r
    using that assms(2-4) by (auto simp: i64_le dest!: tbl_key)
  have e: "expired ex now m = {k. \<exists>r. tbl key t k = Some r \<and> col r \<le> as_i64 now}"
    by (auto simp: expired_def m le)
  show "card (expired ex now m) = length (filter (\<lambda>r. col r \<le> as_i64 now) t)"
    unfolding e by (rule card_tbl [OF assms(1)])
  show "(m |` (- expired ex now m)) k = map_option f (tbl key (filter (\<lambda>r. \<not> col r \<le> as_i64 now) t) k)"
    unfolding e by (auto simp: restrict_map_def m tbl_filter [OF assms(1)] split: option.splits)
qed

lemma sql_purge_expired_meets:
  assumes now: "time_ok now"
  shows "meets (sql_ok cp) sql_up (sql_view cs cp) (sql_purge_expired now) (spec_purge_expired now)"
  unfolding sql_purge_expired_def spec_purge_expired_def
  apply (rule sql_call_meets)
  subgoal premises ok for q
  proof -
    note ok = ok(1)
    let ?v = "sql_view cs cp q"
    have rt_ex: "(rt_expires_at \<circ> fst) (rt_view r) = as_u64 (rt_expires_col r)" for r
      by (simp add: rt_view_def)
    note par = expired_tbl [where col = snd and ex = par_expires_at and f = par_of_row and
        m = "v_par (sql_view cs cp q)", OF sql_okD(4) [OF ok] now bspec [OF sql_ok_times(1) [OF ok]]]
    note code = expired_tbl [where col = snd and ex = code_expires_at and f = code_of_row and
        m = "v_codes (sql_view cs cp q)", OF sql_okD(5) [OF ok] now bspec [OF sql_ok_times(2) [OF ok]]]
    note rt = expired_tbl [where col = rt_expires_col and ex = "rt_expires_at \<circ> fst" and f = rt_view and
        m = "v_refresh (sql_view cs cp q)", OF sql_okD(6) [OF ok] now i64_rt(1) [OF ok] rt_ex sql_view_simps(13)]
    note jti = expired_tbl [where col = snd and ex = id and f = "as_u64 \<circ> snd" and
        m = "v_jti (sql_view cs cp q)", OF sql_okD(7) [OF ok] now bspec [OF sql_ok_times(4) [OF ok]]]
    have 1: "sql_ok cp (q\<lparr>q_oauth_par := filter P1 (q_oauth_par q),
        q_oauth_auth_codes := filter P2 (q_oauth_auth_codes q),
        q_oauth_refresh_tokens := filter P3 (q_oauth_refresh_tokens q),
        q_oauth_dpop_jti := filter P4 (q_oauth_dpop_jti q)\<rparr>)" for P1 P2 P3 P4
      using ok by (auto simp: sql_ok_def sql_seq_ok_def tbl_ok_def distinct_map_filter)
    show ?thesis
      by (auto simp: delete_where_def 1 par code rt jti intro!: view_eqI)
  qed
  done

lemma sql_list_sessions_meets:
  assumes now: "time_ok now"
  shows "meets (sql_ok cp) sql_up (sql_view cs cp) (sql_list_sessions_for_did d now) (spec_list_sessions d now)"
  unfolding sql_list_sessions_for_did_def spec_list_sessions_def
proof (rule sql_interact_meets)
  fix q assume ok: "sql_ok cp q"
  let ?P = "\<lambda>r. rt_did (fst r) = d \<and> as_i64 now < rt_expires_col r \<and> \<not> rt_used r"
  let ?k = "\<lambda>(_, issued, _, _). - issued :: int"
  let ?l = "filter ?P (q_oauth_refresh_tokens q)"
  let ?s = "map rt_of_row (sort_key ?k ?l)"
  have "distinct (map rt_key ?l)"
    using sql_okD(6) [OF ok] by (simp add: tbl_ok_def distinct_map_filter)
  then have "distinct (map rt_token_hash ?s)"
    by (simp add: comp_def distinct_map)
  moreover have "set ?s = {t. (\<exists>h. v_refresh (sql_view cs cp q) h = Some (t, False)) \<and> rt_did t = d \<and> now < rt_expires_at t}"
  proof -
    have "set ?s = rt_of_row ` {r \<in> set (q_oauth_refresh_tokens q). \<not> rt_used r \<and> rt_did (rt_of_row r) = d \<and>
        now < rt_expires_at (rt_of_row r)}"
      using i64_less [OF i64_rt(1) [OF ok] now] by auto
    then show ?thesis by (auto simp: tbl_iff [OF sql_okD(6) [OF ok]] rt_view_def)
  qed
  moreover have "sorted (map rt_issued_at (rev ?s))"
  proof -
    have col: "?k r = - int (rt_issued_at (rt_of_row r))" if "r \<in> set ?l" for r
      using i64_rt(2) [OF ok, of r] that
      by (auto simp: rt_of_row_def i64_time_u64 split: prod.splits)
    have eq: "map ?k (sort_key ?k ?l) = map (\<lambda>r. - int (rt_issued_at r)) ?s"
      using col by (simp add: comp_def)
    have "sorted (map ?k (sort_key ?k ?l))" by (rule sorted_sort_key)
    then have "sorted (map (\<lambda>r. - int (rt_issued_at r)) ?s)" unfolding eq .
    then show ?thesis by (simp only: sorted_neg_rev)
  qed
  ultimately show "lists (\<lambda>v xs. distinct (map rt_token_hash xs) \<and> sorted (map rt_issued_at (rev xs)) \<and>
      set xs = {t. (\<exists>h. v_refresh v h = Some (t, False)) \<and> rt_did t = d \<and> now < rt_expires_at t})
      (sql_view cs cp q) (Ok ?s) (sql_view cs cp q)"
    by simp
qed

lemma sql_view_ok:
  assumes ok: "sql_ok cp q"
  shows "view_ok (sql_view cs cp q)"
proof -
  note acc = sql_okD(8) [OF ok]
  have "handles_unique (sql_view cs cp q)"
    unfolding handles_unique_def
  proof (intro allI impI)
    fix d d' a a' h
    assume 1: "v_accounts (sql_view cs cp q) d = Some a" "v_accounts (sql_view cs cp q) d' = Some a'"
      and 2: "row_handle a = Some h" "row_handle a' = Some h"
    from 1 obtain r r' where "r \<in> set (q_accounts q)" "ac_did r = d" "a = ac_row r"
      "r' \<in> set (q_accounts q)" "ac_did r' = d'" "a' = ac_row r'"
      by (auto simp: tbl_iff [OF acc])
    with 2 sql_handle_unique [OF sql_okD(3) [OF ok], of r r' h] show "d = d'" by simp
  qed
  moreover have "log_ok (sql_view cs cp q)"
    using ok by (simp add: sql_ok_def sql_seq_ok_def log_ok_def comp_def seq_view_def)
  moreover have "rt_token_hash r = h" if "v_refresh (sql_view cs cp q) h = Some (r, u)" for h r u
    using that by (auto simp: rt_view_def dest: tbl_key)
  ultimately show ?thesis
    by (auto simp: view_ok_def finite_dom_tbl sql_view_def dom_map_option_comp [unfolded comp_def])
qed

lemmas sql_meets =
  sql_max_seq_meets sql_backfill_page_meets sql_count_accounts_meets sql_insert_account_meets
  sql_count_and_insert_account_meets sql_get_account_by_handle_meets sql_get_did_by_handle_meets
  sql_get_handle_by_did_meets sql_list_accounts_meets sql_update_password_meets
  sql_set_takedown_meets sql_clear_takedown_meets sql_insert_invite_meets sql_consume_invite_meets
  sql_upsert_preferences_meets sql_get_preferences_meets sql_put_key_blob_meets
  sql_get_key_blob_meets sql_put_blob_meets sql_get_blob_meets sql_list_blobs_meets
  sql_put_pushed_request_meets sql_get_pushed_request_meets sql_delete_pushed_request_meets
  sql_put_auth_code_meets sql_consume_auth_code_meets sql_put_refresh_token_meets
  sql_consume_refresh_token_meets sql_revoke_session_meets sql_revoke_refresh_token_meets
  sql_list_sessions_meets sql_record_dpop_jti_meets sql_purge_expired_meets

context cid_text
begin

lemma sql_read_block_meets:
  "meets (sql_ok cid_parse) sql_up (sql_view cid_str cid_parse) (sql_read_block_bytes cid_str c) (spec_read_block c)"
  unfolding sql_read_block_bytes_def
  by (rule sql_interact_meets) (simp add: spec_read_block_def)

lemma put_if_absent_sql:
  "put_if_absent (c, b) (\<lambda>c. map_option snd (tbl fst t (cid_str c))) =
     (\<lambda>x. map_option snd (tbl fst (snd (insert_or_ignore fst (cid_str c, b) t)) (cid_str x)))"
  by (auto simp: fun_eq_iff put_if_absent_def tbl_insert_or_ignore split: option.splits)

lemma fold_put_if_absent_sql:
  "fold put_if_absent bs (\<lambda>c. map_option snd (tbl fst t (cid_str c))) =
     (\<lambda>x. map_option snd (tbl fst (fold (\<lambda>(c, b) t. snd (insert_or_ignore fst (cid_str c, b) t)) bs t) (cid_str x)))"
  by (induction bs arbitrary: t) (auto simp: put_if_absent_sql)

lemma sql_view_blocks:
  "v_blocks (sql_view cid_str cid_parse q) = (\<lambda>c. map_option snd (tbl fst (q_blocks q) (cid_str c)))"
  by (simp add: fun_eq_iff)

lemma sql_put_block_meets:
  "meets (sql_ok cid_parse) sql_up (sql_view cid_str cid_parse) (sql_put_block cid_str c b) (spec_put_block c b)"
  unfolding sql_put_block_def spec_put_block_def
  by (rule sql_call_meets) (auto simp: sql_view_blocks put_if_absent_sql intro!: view_eqI)

lemma sql_load_repo_root_meets:
  "meets (sql_ok cid_parse) sql_up (sql_view cid_str cid_parse) (sql_load_repo_root cid_parse d) (spec_load_repo_root d)"
  unfolding sql_load_repo_root_def spec_load_repo_root_def
proof (rule sql_call_meets)
  fix q assume "sql_ok cid_parse q"
  then have "cid_parse c \<noteq> None" if "tbl fst (q_repo_roots q) d = Some (d', c, t)" for d' c t
    using that by (auto dest!: tbl_key sql_ok_times(5))
  then show "case case tbl fst (q_repo_roots q) d of None \<Rightarrow> Ok (None, q)
      | Some (_, root_cid, _) \<Rightarrow> map_err (\<lambda>_. Crypto ''bad root cid'')
          (case cid_parse root_cid of None \<Rightarrow> Err () | Some cid \<Rightarrow> Ok (Some cid, q)) of
      Inl e \<Rightarrow> reads (\<lambda>v. v_roots v d) (sql_view cid_str cid_parse q) (Inl e) (sql_view cid_str cid_parse q)
    | Inr (a, q') \<Rightarrow> sql_ok cid_parse q' \<and> same_faults q q' \<and>
        reads (\<lambda>v. v_roots v d) (sql_view cid_str cid_parse q) (Inr a) (sql_view cid_str cid_parse q')"
    using \<open>sql_ok cid_parse q\<close> by (auto split: option.splits prod.splits)
qed

lemma sql_roots_ok:
  assumes "sql_ok cid_parse q" "(d', c', t') \<in> set (insert_or_replace fst (d, cid_str c, t) (q_repo_roots q))"
  shows "\<exists>y. cid_parse c' = Some y"
proof -
  have "\<forall>x \<in> set (insert_or_replace fst (d, cid_str c, t) (q_repo_roots q)). case x of (_, c, _) \<Rightarrow> cid_parse c \<noteq> None"
    by (rule ball_insert_or_replace) (use sql_ok_times(5) [OF assms(1)] in \<open>auto simp: cid_parse_str\<close>)
  with assms(2) show ?thesis by auto
qed

lemma sql_update_repo_root_meets:
  "meets (sql_ok cid_parse) sql_up (sql_view cid_str cid_parse) (sql_update_repo_root cid_str d c) (spec_update_repo_root d c)"
  unfolding sql_update_repo_root_def spec_update_repo_root_def
  by (rule sql_call_meets)
    (auto simp: tbl_insert_or_replace cid_parse_str sql_roots_ok intro!: view_eqI sql_ok_maps)

lemma sql_ok_append_seq:
  assumes "sql_ok cp q" "sq_seq r = q_sequence q + 1"
  shows "sql_ok cp (q\<lparr>q_repo_seq := q_repo_seq q @ [r], q_sequence := q_sequence q + 1\<rparr>)"
  using assms by (auto simp: sql_ok_def sql_seq_ok_def)

lemma sql_commit_blocks_meets:
  "meets (sql_ok cid_parse) sql_up (sql_view cid_str cid_parse) (sql_commit_blocks cid_str bs d c ev) (spec_commit_blocks bs d c ev)"
proof -
  have ok: "sql_ok cid_parse (q\<lparr>q_blocks := bl, q_repo_seq := q_repo_seq q @ [r],
      q_sequence := n, q_repo_roots := insert_or_replace fst (d, cid_str c, t) (q_repo_roots q)\<rparr>)"
    if "sql_ok cid_parse q" "sq_seq r = n" "n = q_sequence q + 1" for q bl r t n
    using sql_ok_append_seq [of cid_parse "q\<lparr>q_blocks := bl\<rparr>" r] that
    by (auto intro!: sql_ok_maps dest: sql_roots_ok)
  have seq: "q_sequence q = int (length (q_repo_seq q))" if "sql_ok cid_parse q" for q
    using that by (simp add: sql_ok_def sql_seq_ok_def)
  show ?thesis
    unfolding sql_commit_blocks_def spec_commit_blocks_def
    by (rule sql_call_meets)
      (auto simp: Let_def ok seq sql_view_blocks fold_put_if_absent_sql tbl_insert_or_replace cid_parse_str
        seq_view_def intro!: view_eqI)
qed

sublocale sql: storage_backend "sqlite_backend cid_str cid_parse" "sql_ok cid_parse" sql_up "sql_view cid_str cid_parse"
  by unfold_locales (simp_all add: sqlite_backend_def sql_meets sql_view_ok
    sql_read_block_meets sql_put_block_meets sql_load_repo_root_meets sql_update_repo_root_meets
    sql_commit_blocks_meets)

end

text \<open>
  A codec that satisfies the law: the fields in unary and the digest bytes as characters.
  It stands for the crate's base-32 form where a concrete database is run.
\<close>

definition unary_cid_str :: "Cid \<Rightarrow> string" where
  "unary_cid_str c = replicate (cid_codec c) CHR ''c'' @ ''h'' @ replicate (cid_hash c) CHR ''c'' @ ''h'' @
     from_bytes (cid_digest c)"

definition unary_cid_parse :: "string \<Rightarrow> Cid option" where
  "unary_cid_parse s = (case split_once CHR ''h'' s of None \<Rightarrow> None
   | Some (a, r) \<Rightarrow> (case split_once CHR ''h'' r of None \<Rightarrow> None
     | Some (b, d) \<Rightarrow> Some (Cid (length a) (length b) (as_bytes d))))"

lemma split_once_replicate:
  "x \<noteq> d \<Longrightarrow> split_once d (replicate n x @ d # s) = Some (replicate n x, s)"
  by (induction n) auto

interpretation unary: cid_text unary_cid_str unary_cid_parse
  by unfold_locales
    (simp add: unary_cid_parse_def unary_cid_str_def split_once_replicate)

end
