(* ===== verification/Store_Calls.thy ===== *)
theory Store_Calls
  imports Memory_Store Sqlite_Store
begin

text \<open>
  Sequences of storage calls. A \<open>store_call\<close> is one trait method with its arguments (the
  surface of \<open>dyn StorageBackend\<close>), \<open>exec\<close> runs it on a backend, \<open>exec_all\<close> a sequence of them, each at
  its own wall-clock time. The laws below hold for every sequence on every backend that meets the
  contracts; they are then stated for the two backends of the repository.
\<close>

datatype store_call =
    ReadBlock Cid | PutBlock Cid bytes | MaxSeq | BackfillPage int int | LoadRoot string
  | UpdateRoot string Cid | CommitBlocks "(Cid \<times> bytes) list" string Cid bytes
  | CountAccounts | InsertAccount string string "string option" string
  | CountAndInsert string string "string option" string | AccountByHandle string
  | DidByHandle string | HandleByDid string | ListAccounts | UpdatePassword string string
  | SetTakedown string string | ClearTakedown string | InsertInvite string int string
  | ConsumeInvite string string | UpsertPrefs string string | GetPrefs string
  | PutKey string bytes | GetKey string | PutBlob string string string int bytes
  | GetBlob string string | ListBlobs string nat "string option"
  | PutPar StoredPushedRequest | GetPar string nat | DeletePar string
  | PutCode AuthCode | ConsumeCode string nat | PutRefresh RefreshTokenRecord
  | ConsumeRefresh string nat | RevokeSession string | RevokeRefresh string
  | ListSessions string nat | RecordJti string nat | PurgeExpired nat

datatype store_value =
    VUnit unit | VInt int | VNat nat | VBool bool | VBytes bytes | VEvents "(int \<times> bytes) list"
  | VCid "Cid option" | VAccount "(string \<times> string) option" | VText "string option"
  | VAccounts "AccountSummary list" | VBytesOpt "bytes option" | VBlob "(string \<times> bytes) option"
  | VTexts "string list" | VPar "StoredPushedRequest option" | VCode "AuthCode option"
  | VConsume ConsumeResult | VSessions "RefreshTokenRecord list"

definition lift_op :: "('a \<Rightarrow> store_value) \<Rightarrow> ('s, 'a) sop \<Rightarrow> ('s, store_value) sop" where
  "lift_op f op s = map_prod (map_sum id f) id (op s)"

fun exec :: "'s StorageBackend \<Rightarrow> store_call \<Rightarrow> ('s, store_value) sop" where
  "exec B (ReadBlock c) = lift_op VBytes (read_block_bytes (repo_ops B) c)"
| "exec B (PutBlock c b) = lift_op VUnit (put_block (repo_ops B) c b)"
| "exec B MaxSeq = lift_op VInt (max_seq (repo_ops B))"
| "exec B (BackfillPage n k) = lift_op VEvents (backfill_page (repo_ops B) n k)"
| "exec B (LoadRoot d) = lift_op VCid (load_repo_root (repo_ops B) d)"
| "exec B (UpdateRoot d c) = lift_op VUnit (update_repo_root (repo_ops B) d c)"
| "exec B (CommitBlocks bs d c ev) = lift_op VInt (commit_blocks (repo_ops B) bs d c ev)"
| "exec B CountAccounts = lift_op VInt (count_accounts (account_ops B))"
| "exec B (InsertAccount d h e p) = lift_op VUnit (insert_account (account_ops B) d h e p)"
| "exec B (CountAndInsert d h e p) = lift_op VInt (count_and_insert_account (account_ops B) d h e p)"
| "exec B (AccountByHandle h) = lift_op VAccount (get_account_by_handle (account_ops B) h)"
| "exec B (DidByHandle h) = lift_op VText (get_did_by_handle (account_ops B) h)"
| "exec B (HandleByDid d) = lift_op VText (get_handle_by_did (account_ops B) d)"
| "exec B ListAccounts = lift_op VAccounts (list_accounts (account_ops B))"
| "exec B (UpdatePassword d p) = lift_op VNat (update_password (account_ops B) d p)"
| "exec B (SetTakedown d r) = lift_op VNat (set_takedown (account_ops B) d r)"
| "exec B (ClearTakedown d) = lift_op VNat (clear_takedown (account_ops B) d)"
| "exec B (InsertInvite c n d) = lift_op VUnit (insert_invite (account_ops B) c n d)"
| "exec B (ConsumeInvite c u) = lift_op VBool (consume_invite (account_ops B) c u)"
| "exec B (UpsertPrefs d p) = lift_op VUnit (upsert_preferences (account_ops B) d p)"
| "exec B (GetPrefs d) = lift_op VText (get_preferences (account_ops B) d)"
| "exec B (PutKey i c) = lift_op VUnit (put_key_blob (key_ops B) i c)"
| "exec B (GetKey i) = lift_op VBytesOpt (get_key_blob (key_ops B) i)"
| "exec B (PutBlob d c m n b) = lift_op VUnit (put_blob (blob_ops B) d c m n b)"
| "exec B (GetBlob d c) = lift_op VBlob (get_blob (blob_ops B) d c)"
| "exec B (ListBlobs d k cur) = lift_op VTexts (list_blobs (blob_ops B) d k cur)"
| "exec B (PutPar q) = lift_op VUnit (put_pushed_request (oauth_ops B) q)"
| "exec B (GetPar h now) = lift_op VPar (get_pushed_request (oauth_ops B) h now)"
| "exec B (DeletePar h) = lift_op VUnit (delete_pushed_request (oauth_ops B) h)"
| "exec B (PutCode c) = lift_op VUnit (put_auth_code (oauth_ops B) c)"
| "exec B (ConsumeCode h now) = lift_op VCode (consume_auth_code (oauth_ops B) h now)"
| "exec B (PutRefresh t) = lift_op VUnit (put_refresh_token (oauth_ops B) t)"
| "exec B (ConsumeRefresh h now) = lift_op VConsume (consume_refresh_token (oauth_ops B) h now)"
| "exec B (RevokeSession sid) = lift_op VNat (revoke_session (oauth_ops B) sid)"
| "exec B (RevokeRefresh h) = lift_op VBool (revoke_refresh_token (oauth_ops B) h)"
| "exec B (ListSessions d now) = lift_op VSessions (list_sessions_for_did (oauth_ops B) d now)"
| "exec B (RecordJti j ex) = lift_op VBool (record_dpop_jti (oauth_ops B) j ex)"
| "exec B (PurgeExpired now) = lift_op VNat (purge_expired (oauth_ops B) now)"

text \<open>A call whose times fit SQLite's \<open>i64\<close> column and whose page size is not negative, and a blob whose CID text has no slash.\<close>

fun call_ok :: "store_call \<Rightarrow> bool" where
  "call_ok (BackfillPage n k) = (0 \<le> k)"
| "call_ok (PutBlob d c m n b) = (CHR ''/'' \<notin> set c)"
| "call_ok (ListBlobs d k cur) = time_ok k"
| "call_ok (PutPar q) = time_ok (par_expires_at q)"
| "call_ok (GetPar h now) = time_ok now"
| "call_ok (PutCode c) = time_ok (code_expires_at c)"
| "call_ok (ConsumeCode h now) = time_ok now"
| "call_ok (PutRefresh t) = (time_ok (rt_issued_at t) \<and> time_ok (rt_expires_at t))"
| "call_ok (ConsumeRefresh h now) = time_ok now"
| "call_ok (ListSessions d now) = time_ok now"
| "call_ok (RecordJti j ex) = time_ok ex"
| "call_ok (PurgeExpired now) = time_ok now"
| "call_ok _ = True"

definition lift_spec :: "('a \<Rightarrow> store_value) \<Rightarrow> 'a vspec \<Rightarrow> store_value vspec" where
  "lift_spec f R v r v' = (\<exists>r0. R v r0 v' \<and> r = map_sum id f r0)"

fun spec_call :: "store_call \<Rightarrow> store_value vspec" where
  "spec_call (ReadBlock c) = lift_spec VBytes (spec_read_block c)"
| "spec_call (PutBlock c b) = lift_spec VUnit (spec_put_block c b)"
| "spec_call MaxSeq = lift_spec VInt spec_max_seq"
| "spec_call (BackfillPage n k) = lift_spec VEvents (spec_backfill_page n k)"
| "spec_call (LoadRoot d) = lift_spec VCid (spec_load_repo_root d)"
| "spec_call (UpdateRoot d c) = lift_spec VUnit (spec_update_repo_root d c)"
| "spec_call (CommitBlocks bs d c ev) = lift_spec VInt (spec_commit_blocks bs d c ev)"
| "spec_call CountAccounts = lift_spec VInt spec_count_accounts"
| "spec_call (InsertAccount d h e p) = lift_spec VUnit (spec_insert_account d h e p)"
| "spec_call (CountAndInsert d h e p) = lift_spec VInt (spec_count_and_insert_account d h e p)"
| "spec_call (AccountByHandle h) = lift_spec VAccount (spec_get_account_by_handle h)"
| "spec_call (DidByHandle h) = lift_spec VText (spec_get_did_by_handle h)"
| "spec_call (HandleByDid d) = lift_spec VText (spec_get_handle_by_did d)"
| "spec_call ListAccounts = lift_spec VAccounts spec_list_accounts"
| "spec_call (UpdatePassword d p) = lift_spec VNat (spec_update_password d p)"
| "spec_call (SetTakedown d r) = lift_spec VNat (spec_set_takedown d r)"
| "spec_call (ClearTakedown d) = lift_spec VNat (spec_clear_takedown d)"
| "spec_call (InsertInvite c n d) = lift_spec VUnit (spec_insert_invite c n)"
| "spec_call (ConsumeInvite c u) = lift_spec VBool (spec_consume_invite c u)"
| "spec_call (UpsertPrefs d p) = lift_spec VUnit (spec_upsert_preferences d p)"
| "spec_call (GetPrefs d) = lift_spec VText (spec_get_preferences d)"
| "spec_call (PutKey i c) = lift_spec VUnit (spec_put_key_blob i c)"
| "spec_call (GetKey i) = lift_spec VBytesOpt (spec_get_key_blob i)"
| "spec_call (PutBlob d c m n b) = lift_spec VUnit (spec_put_blob d c m b)"
| "spec_call (GetBlob d c) = lift_spec VBlob (spec_get_blob d c)"
| "spec_call (ListBlobs d k cur) = lift_spec VTexts (spec_list_blobs d k cur)"
| "spec_call (PutPar q) = lift_spec VUnit (spec_put_pushed_request q)"
| "spec_call (GetPar h now) = lift_spec VPar (spec_get_pushed_request h now)"
| "spec_call (DeletePar h) = lift_spec VUnit (spec_delete_pushed_request h)"
| "spec_call (PutCode c) = lift_spec VUnit (spec_put_auth_code c)"
| "spec_call (ConsumeCode h now) = lift_spec VCode (spec_consume_auth_code h now)"
| "spec_call (PutRefresh t) = lift_spec VUnit (spec_put_refresh_token t)"
| "spec_call (ConsumeRefresh h now) = lift_spec VConsume (spec_consume_refresh_token h now)"
| "spec_call (RevokeSession sid) = lift_spec VNat (spec_revoke_session sid)"
| "spec_call (RevokeRefresh h) = lift_spec VBool (spec_revoke_refresh_token h)"
| "spec_call (ListSessions d now) = lift_spec VSessions (spec_list_sessions d now)"
| "spec_call (RecordJti j ex) = lift_spec VBool (spec_record_dpop_jti j ex)"
| "spec_call (PurgeExpired now) = lift_spec VNat (spec_purge_expired now)"

lemma is_err_map_sum [simp]: "is_err (map_sum id f r) = is_err r"
  by (cases r) auto

lemma lift_op_eq: "lift_op f op s = (r, s') \<longleftrightarrow> (\<exists>r0. op s = (r0, s') \<and> r = map_sum id f r0)"
  by (cases "op s") (auto simp: lift_op_def)

lemma lift_meets:
  assumes "meets good up \<alpha> op R"
  shows "meets good up \<alpha> (lift_op f op) (lift_spec f R)"
proof (rule meetsI)
  fix s r s' assume "good s" "lift_op f op s = (r, s')"
  then obtain r0 where "op s = (r0, s')" and r: "r = map_sum id f r0" by (auto simp: lift_op_eq)
  from meets_step [OF assms \<open>good s\<close> this(1)]
  show "good s' \<and> (up s \<longrightarrow> up s') \<and> (lift_spec f R (\<alpha> s) r (\<alpha> s') \<or> \<not> up s \<and> is_err r \<and> \<alpha> s' = \<alpha> s)"
    by (auto simp: lift_spec_def r)
qed

context storage_backend
begin

lemmas op_meets =
  repo.read_block repo.put_block repo.max_seq repo.backfill_page repo.load_repo_root
  repo.update_repo_root repo.commit_blocks account.count_accounts account.insert_account
  account.count_and_insert_account account.get_account_by_handle account.get_did_by_handle
  account.get_handle_by_did account.list_accounts account.update_password account.set_takedown
  account.clear_takedown account.insert_invite account.consume_invite account.upsert_preferences
  account.get_preferences key.put_key_blob key.get_key_blob blob.put_blob blob.get_blob
  blob.list_blobs oauth.put_pushed_request oauth.get_pushed_request oauth.delete_pushed_request
  oauth.put_auth_code oauth.consume_auth_code oauth.put_refresh_token oauth.consume_refresh_token
  oauth.revoke_session oauth.revoke_refresh_token oauth.list_sessions oauth.record_dpop_jti
  oauth.purge_expired

lemma exec_meets: "call_ok c \<Longrightarrow> meets good up \<alpha> (exec B c) (spec_call c)"
  by (cases c) (simp_all add: lift_meets op_meets)

end


text \<open>What a call determines: every answer but the order of equal keys in two listings.\<close>

fun same_answer :: "StorageError + store_value \<Rightarrow> StorageError + store_value \<Rightarrow> bool" where
  "same_answer (Inl _) (Inl _) = True"
| "same_answer (Inr (VAccounts xs)) (Inr (VAccounts ys)) =
     (distinct (map sum_did xs) \<and> distinct (map sum_did ys) \<and> set xs = set ys \<and>
      sorted (map sum_created_at xs) \<and> sorted (map sum_created_at ys))"
| "same_answer (Inr (VSessions xs)) (Inr (VSessions ys)) =
     (distinct (map rt_token_hash xs) \<and> distinct (map rt_token_hash ys) \<and> set xs = set ys \<and>
      sorted (map rt_issued_at (rev xs)) \<and> sorted (map rt_issued_at (rev ys)))"
| "same_answer (Inr a) (Inr b) = (a = b)"
| "same_answer _ _ = False"

definition listing :: "store_value \<Rightarrow> bool" where
  "listing x = (case x of VAccounts _ \<Rightarrow> True | VSessions _ \<Rightarrow> True | _ \<Rightarrow> False)"

lemma same_answer_refl: "\<not> listing x \<Longrightarrow> same_answer (Inr x) (Inr x)"
  by (cases x) (auto simp: listing_def)

lemma option_pair_determined:
  "(\<forall>d p. x = Some (d, p) \<longleftrightarrow> Q d p) \<Longrightarrow> (\<forall>d p. y = Some (d, p) \<longleftrightarrow> Q d p) \<Longrightarrow> x = y"
  by (cases x; cases y) auto

lemma option_determined: "(\<forall>d. x = Some d \<longleftrightarrow> Q d) \<Longrightarrow> (\<forall>d. y = Some d \<longleftrightarrow> Q d) \<Longrightarrow> x = y"
  by (cases x; cases y) auto

lemma det_reads:
  assumes "lift_spec f (reads g) v r v1" "lift_spec f (reads g) v r' v2" "\<And>a. \<not> listing (f a)"
  shows "same_answer r r' \<and> v1 = v2"
  using assms by (auto simp: lift_spec_def reads_def intro: same_answer_refl)

lemma det_writes:
  assumes "lift_spec f (writes g) v r v1" "lift_spec f (writes g) v r' v2" "\<And>a. \<not> listing (f a)"
  shows "same_answer r r' \<and> v1 = v2"
proof -
  from assms(1,2) obtain r0 r0' where "writes g v r0 v1" "writes g v r0' v2"
    and "r = map_sum id f r0" "r' = map_sum id f r0'" by (auto simp: lift_spec_def)
  then show ?thesis using assms(3) by (cases r0; cases r0') (auto intro: same_answer_refl)
qed

lemma det_account_by_handle:
  assumes "lift_spec f (spec_get_account_by_handle h) v r v1"
    "lift_spec f (spec_get_account_by_handle h) v r' v2" "\<And>a. \<not> listing (f a)"
  shows "same_answer r r' \<and> v1 = v2"
proof -
  let ?Q = "\<lambda>d p. \<exists>a. visible_by_handle v h d a \<and> row_password a = p"
  from assms(1,2) obtain x y where "v1 = v" "v2 = v" "r = Inr (f x)" "r' = Inr (f y)"
    and "\<forall>d p. x = Some (d, p) \<longleftrightarrow> ?Q d p" "\<forall>d p. y = Some (d, p) \<longleftrightarrow> ?Q d p"
    by (auto simp: lift_spec_def spec_get_account_by_handle_def)
  then show ?thesis
    using option_pair_determined [of x ?Q y] assms(3) by (auto intro: same_answer_refl)
qed

lemma det_did_by_handle:
  assumes "lift_spec f (spec_get_did_by_handle h) v r v1"
    "lift_spec f (spec_get_did_by_handle h) v r' v2" "\<And>a. \<not> listing (f a)"
  shows "same_answer r r' \<and> v1 = v2"
proof -
  let ?Q = "\<lambda>d. \<exists>a. visible_by_handle v h d a"
  from assms(1,2) obtain x y where "v1 = v" "v2 = v" "r = Inr (f x)" "r' = Inr (f y)"
    and "\<forall>d. x = Some d \<longleftrightarrow> ?Q d" "\<forall>d. y = Some d \<longleftrightarrow> ?Q d"
    by (auto simp: lift_spec_def spec_get_did_by_handle_def)
  then show ?thesis
    using option_determined [of x ?Q y] assms(3) by (auto intro: same_answer_refl)
qed

lemma det_read_block:
  assumes "lift_spec f (spec_read_block c) v r v1" "lift_spec f (spec_read_block c) v r' v2"
    "\<And>a. \<not> listing (f a)"
  shows "same_answer r r' \<and> v1 = v2"
  using assms by (cases "v_blocks v c") (auto simp: lift_spec_def spec_read_block_def intro: same_answer_refl)

lemma det_list_accounts:
  "lift_spec VAccounts spec_list_accounts v r v1 \<Longrightarrow> lift_spec VAccounts spec_list_accounts v r' v2 \<Longrightarrow>
   same_answer r r' \<and> v1 = v2"
  by (auto simp: lift_spec_def spec_list_accounts_def lists_def)

lemma det_list_sessions:
  "lift_spec VSessions (spec_list_sessions d now) v r v1 \<Longrightarrow>
   lift_spec VSessions (spec_list_sessions d now) v r' v2 \<Longrightarrow> same_answer r r' \<and> v1 = v2"
  by (auto simp: lift_spec_def spec_list_sessions_def lists_def)

lemmas det_rules =
  det_reads det_writes det_account_by_handle det_did_by_handle det_read_block
  det_list_accounts det_list_sessions

lemmas spec_defs =
  spec_put_block_def spec_max_seq_def spec_backfill_page_def spec_load_repo_root_def
  spec_update_repo_root_def spec_commit_blocks_def spec_count_accounts_def spec_insert_account_def
  spec_count_and_insert_account_def spec_get_handle_by_did_def
  spec_update_password_def spec_set_takedown_def spec_clear_takedown_def spec_insert_invite_def
  spec_consume_invite_def spec_upsert_preferences_def spec_get_preferences_def
  spec_put_key_blob_def spec_get_key_blob_def spec_put_blob_def spec_get_blob_def spec_list_blobs_def
  spec_put_pushed_request_def spec_get_pushed_request_def spec_delete_pushed_request_def
  spec_put_auth_code_def spec_consume_auth_code_def spec_put_refresh_token_def
  spec_consume_refresh_token_def spec_revoke_session_def spec_revoke_refresh_token_def
  spec_record_dpop_jti_def spec_purge_expired_def

lemma spec_call_determined:
  assumes "spec_call c v r v1" "spec_call c v r' v2"
  shows "same_answer r r' \<and> v1 = v2"
  using assms
  apply (cases c)
  apply (simp_all only: spec_call.simps spec_defs)
  apply (erule (1) det_rules, (simp add: listing_def)?)+
  done

end
