(* ===== verification/Storage_Laws.thy ===== *)
theory Storage_Laws
  imports Store_Calls
begin

text \<open>
  Laws of whole call sequences. \<open>exec_all\<close> runs a sequence, each call at its own wall-clock
  time; \<open>trace\<close> is what the specification allows of it, a failed call included. Every run of a
  backend that meets the contracts is a trace (\<open>exec_all_trace\<close>), so the single-use, counting
  and visibility laws are proved once, by rule induction over traces.
\<close>

fun exec_all :: "'s StorageBackend \<Rightarrow> (string \<Rightarrow> 's \<Rightarrow> 's) \<Rightarrow> (string \<times> store_call) list \<Rightarrow> 's \<Rightarrow>
    (StorageError + store_value) list \<times> 's" where
  "exec_all B at_time [] s = ([], s)"
| "exec_all B at_time ((t, c) # cs) s =
     (case exec B c (at_time t s) of (r, s1) \<Rightarrow>
      case exec_all B at_time cs s1 of (rs, s2) \<Rightarrow> (r # rs, s2))"

definition mem_at :: "string \<Rightarrow> Inner \<Rightarrow> Inner" where
  "mem_at t g = g\<lparr>m_utc_now := t\<rparr>"

definition sql_at :: "string \<Rightarrow> SqliteStore \<Rightarrow> SqliteStore" where
  "sql_at t q = q\<lparr>q_utc_now := t\<rparr>"

definition calls_ok :: "(string \<times> store_call) list \<Rightarrow> bool" where
  "calls_ok cs = list_all (\<lambda>(t, c). call_ok c) cs"

inductive trace ::
  "view \<Rightarrow> (string \<times> store_call) list \<Rightarrow> (StorageError + store_value) list \<Rightarrow> view \<Rightarrow> bool" where
  trace_done: "trace v [] [] v"
| trace_call: "spec_call c (v\<lparr>v_now := t\<rparr>) r v1 \<Longrightarrow> trace v1 cs rs v2 \<Longrightarrow> trace v ((t, c) # cs) (r # rs) v2"
| trace_fail: "is_err r \<Longrightarrow> trace (v\<lparr>v_now := t\<rparr>) cs rs v2 \<Longrightarrow> trace v ((t, c) # cs) (r # rs) v2"

inductive_cases trace_Nil: "trace v [] rs v'"
inductive_cases trace_Cons: "trace v ((t, c) # cs) rs v'"

locale clocked_backend = storage_backend +
  fixes at_time :: "string \<Rightarrow> 's \<Rightarrow> 's"
  assumes at_good: "good s \<Longrightarrow> good (at_time t s)"
    and at_up: "up s \<Longrightarrow> up (at_time t s)"
    and at_view: "\<alpha> (at_time t s) = (\<alpha> s)\<lparr>v_now := t\<rparr>"
begin

lemma exec_step:
  assumes "call_ok c" "good s" "exec B c (at_time t s) = (r, s')"
  shows "good s' \<and> (up s \<longrightarrow> up s') \<and> (spec_call c ((\<alpha> s)\<lparr>v_now := t\<rparr>) r (\<alpha> s') \<or>
    \<not> up s \<and> is_err r \<and> \<alpha> s' = (\<alpha> s)\<lparr>v_now := t\<rparr>)"
  using meets_step [OF exec_meets [OF assms(1)] at_good [OF assms(2)] assms(3)] at_up
  by (auto simp: at_view)

lemma exec_all_trace:
  assumes "calls_ok cs" "good s" "exec_all B at_time cs s = (rs, s')"
  shows "good s' \<and> trace (\<alpha> s) cs rs (\<alpha> s')"
  using assms
proof (induction cs arbitrary: s rs)
  case (Cons tc cs)
  obtain t c where tc: "tc = (t, c)" by (cases tc)
  obtain r s1 rs1 where step: "exec B c (at_time t s) = (r, s1)" "exec_all B at_time cs s1 = (rs1, s')" "rs = r # rs1"
    using Cons.prems(3) by (auto simp: tc split: prod.splits)
  have ok: "call_ok c" "calls_ok cs" using Cons.prems(1) by (auto simp: tc calls_ok_def)
  from exec_step [OF ok(1) Cons.prems(2) step(1)] Cons.IH [OF ok(2) _ step(2)]
  show ?case by (auto simp: tc step(3) intro: trace_call trace_fail)
qed (auto intro: trace_done)

end

lemma mem_clocked: "clocked_backend mem_backend mem_ok mem_up mem_view mem_at"
  by unfold_locales (simp_all add: mem_at_def mem_up_def mem_view_def)

interpretation mem_clock: clocked_backend mem_backend mem_ok mem_up mem_view mem_at
  by (rule mem_clocked)

context cid_text
begin

lemma sql_clocked_backend: "clocked_backend (sqlite_backend cid_str cid_parse) (sql_ok cid_parse) sql_up
    (sql_view cid_str cid_parse) sql_at"
  by unfold_locales (simp_all add: sql_at_def sql_ok_def sql_seq_ok_def sql_up_def sql_view_def)

sublocale sql_clock: clocked_backend "sqlite_backend cid_str cid_parse" "sql_ok cid_parse" sql_up
  "sql_view cid_str cid_parse" sql_at
  by (rule sql_clocked_backend)

end

lemmas sql_clocked = cid_text.sql_clocked_backend
lemmas exec_step_of = clocked_backend.exec_step
lemmas exec_all_trace_of = clocked_backend.exec_all_trace

subsection \<open>The two backends answer alike\<close>

lemma clocked_agree:
  assumes "clocked_backend B1 good1 up1 \<alpha>1 at1" "clocked_backend B2 good2 up2 \<alpha>2 at2"
    and "calls_ok cs" "good1 s1" "good2 s2" "up1 s1" "up2 s2" "\<alpha>1 s1 = \<alpha>2 s2"
    and "exec_all B1 at1 cs s1 = (rs1, s1')" "exec_all B2 at2 cs s2 = (rs2, s2')"
  shows "list_all2 same_answer rs1 rs2 \<and> \<alpha>1 s1' = \<alpha>2 s2'"
  using assms(3-)
proof (induction cs arbitrary: s1 s2 rs1 rs2)
  case (Cons tc cs)
  obtain t c where tc: "tc = (t, c)" by (cases tc)
  obtain r1 t1 rs1' where 1: "exec B1 c (at1 t s1) = (r1, t1)" "exec_all B1 at1 cs t1 = (rs1', s1')" "rs1 = r1 # rs1'"
    using Cons.prems(7) by (auto simp: tc split: prod.splits)
  obtain r2 t2 rs2' where 2: "exec B2 c (at2 t s2) = (r2, t2)" "exec_all B2 at2 cs t2 = (rs2', s2')" "rs2 = r2 # rs2'"
    using Cons.prems(8) by (auto simp: tc split: prod.splits)
  have ok: "call_ok c" "calls_ok cs" using Cons.prems(1) by (auto simp: tc calls_ok_def)
  have s1: "good1 t1" "up1 t1" "spec_call c ((\<alpha>1 s1)\<lparr>v_now := t\<rparr>) r1 (\<alpha>1 t1)"
    using exec_step_of [OF assms(1) ok(1) Cons.prems(2) 1(1)] Cons.prems(4) by auto
  have s2: "good2 t2" "up2 t2" "spec_call c ((\<alpha>1 s1)\<lparr>v_now := t\<rparr>) r2 (\<alpha>2 t2)"
    using exec_step_of [OF assms(2) ok(1) Cons.prems(3) 2(1)] Cons.prems(5,6) by auto
  have step: "same_answer r1 r2" "\<alpha>1 t1 = \<alpha>2 t2"
    using spec_call_determined [OF s1(3) s2(3)] by auto
  from Cons.IH [OF ok(2) s1(1) s2(1) s1(2) s2(2) step(2) 1(2) 2(2)] step
  show ?case by (simp add: 1(3) 2(3))
qed auto



subsection \<open>Single use\<close>

definition wins ::
  "(store_call \<Rightarrow> StorageError + store_value \<Rightarrow> bool) \<Rightarrow> (string \<times> store_call) list \<Rightarrow>
   (StorageError + store_value) list \<Rightarrow> nat" where
  "wins W cs rs = length (filter (\<lambda>((_, c), r). W c r) (zip cs rs))"

lemma wins_simps [simp]:
  "wins W [] rs = 0" "wins W ((t, c) # cs) (r # rs) = (if W c r then Suc (wins W cs rs) else wins W cs rs)"
  by (simp_all add: wins_def)

text \<open>A call that redeemed the authorization code with this hash.\<close>

fun code_redeemed :: "string \<Rightarrow> store_call \<Rightarrow> StorageError + store_value \<Rightarrow> bool" where
  "code_redeemed h (ConsumeCode h' now) (Inr (VCode (Some _))) = (h' = h)"
| "code_redeemed h _ _ = False"

fun mints_code :: "string \<Rightarrow> store_call \<Rightarrow> bool" where
  "mints_code h (PutCode c) = (code_hash c = h)"
| "mints_code h _ = False"

fun refresh_consumed :: "string \<Rightarrow> store_call \<Rightarrow> StorageError + store_value \<Rightarrow> bool" where
  "refresh_consumed h (ConsumeRefresh h' now) (Inr (VConsume (Consumed _))) = (h' = h)"
| "refresh_consumed h _ _ = False"

fun mints_refresh :: "string \<Rightarrow> store_call \<Rightarrow> bool" where
  "mints_refresh h (PutRefresh t) = (rt_token_hash t = h)"
| "mints_refresh h _ = False"

lemma lift_specD: "lift_spec f R v r v' \<Longrightarrow> (\<And>a. r = Inr (f a) \<Longrightarrow> R v (Inr a) v' \<Longrightarrow> P) \<Longrightarrow>
    (\<And>e. r = Inl e \<Longrightarrow> R v (Inl e) v' \<Longrightarrow> P) \<Longrightarrow> P"
  unfolding lift_spec_def by (elim exE conjE) (case_tac r0, auto)

lemmas spec_call_simps =
  spec_defs spec_read_block_def spec_get_account_by_handle_def spec_get_did_by_handle_def
  spec_list_accounts_def spec_list_sessions_def Let_def update_account_def add_account_def drop_session_def
  restrict_map_def

lemma spec_codes_frame:
  assumes "spec_call c v r v'" "v_codes v h = None" "\<not> mints_code h c"
  shows "v_codes v' h = None"
  using assms
  by (cases c)
    (auto simp: spec_call_simps elim!: lift_specD split: if_splits option.splits prod.splits bool.splits)

lemma spec_code_redeemed:
  assumes "spec_call c v r v'" "code_redeemed h c r"
  shows "v_codes v h \<noteq> None \<and> v_codes v' h = None"
  using assms
  by (cases "(h, c, r)" rule: code_redeemed.cases)
    (auto simp: spec_consume_auth_code_def live_def elim!: lift_specD split: option.splits)

definition none_of :: "(store_call \<Rightarrow> bool) \<Rightarrow> (string \<times> store_call) list \<Rightarrow> bool" where
  "none_of P cs = list_all (\<lambda>(_, c). \<not> P c) cs"

lemma is_err_no_win [simp]:
  "is_err r \<Longrightarrow> \<not> code_redeemed h c r" "is_err r \<Longrightarrow> \<not> refresh_consumed h c r"
  by (cases r; auto elim: code_redeemed.elims refresh_consumed.elims)+

lemma trace_code_once:
  assumes "trace v cs rs v'" "none_of (mints_code h) cs"
  shows "wins (code_redeemed h) cs rs \<le> (if v_codes v h = None then 0 else 1)"
  using assms
proof (induction rule: trace.induct)
  case (trace_call c t v r v1 cs rs v2)
  then have IH: "wins (code_redeemed h) cs rs \<le> (if v_codes v1 h = None then 0 else 1)"
    and c: "\<not> mints_code h c" by (auto simp: none_of_def)
  show ?case
  proof (cases "code_redeemed h c r")
    case True
    with spec_code_redeemed [OF trace_call.hyps(1)] IH show ?thesis by auto
  next
    case False
    with spec_codes_frame [OF trace_call.hyps(1) _ c] IH show ?thesis by (auto split: if_splits)
  qed
qed (auto simp: none_of_def)

lemma spec_refresh_frame:
  assumes "spec_call c v r v'" "\<forall>t. v_refresh v h \<noteq> Some (t, False)" "\<not> mints_refresh h c"
  shows "v_refresh v' h \<noteq> Some (t, False)"
  using assms
  by (cases c)
    (auto simp: spec_call_simps elim!: lift_specD split: if_splits option.splits prod.splits bool.splits)

lemma spec_refresh_consumed:
  assumes "spec_call c v r v'" "refresh_consumed h c r"
  shows "(\<exists>t. v_refresh v h = Some (t, False)) \<and> (\<exists>t. v_refresh v' h = Some (t, True))"
  using assms
  by (cases "(h, c, r)" rule: refresh_consumed.cases)
    (auto simp: spec_consume_refresh_token_def live_def elim!: lift_specD split: option.splits bool.splits if_splits)

lemma trace_refresh_once:
  assumes "trace v cs rs v'" "none_of (mints_refresh h) cs"
  shows "wins (refresh_consumed h) cs rs \<le> (if \<exists>t. v_refresh v h = Some (t, False) then 1 else 0)"
  using assms
proof (induction rule: trace.induct)
  case (trace_call c t v r v1 cs rs v2)
  then have IH: "wins (refresh_consumed h) cs rs \<le> (if \<exists>t. v_refresh v1 h = Some (t, False) then 1 else 0)"
    and c: "\<not> mints_refresh h c" by (auto simp: none_of_def)
  show ?case
  proof (cases "refresh_consumed h c r")
    case True
    with spec_refresh_consumed [OF trace_call.hyps(1) True] IH show ?thesis by auto
  next
    case False
    with spec_refresh_frame [OF trace_call.hyps(1) _ c] IH show ?thesis by (auto split: if_splits)
  qed
qed (auto simp: none_of_def)

subsection \<open>Invites\<close>

fun invite_won :: "string \<Rightarrow> store_call \<Rightarrow> StorageError + store_value \<Rightarrow> bool" where
  "invite_won i (ConsumeInvite i' u) (Inr (VBool True)) = (i' = i)"
| "invite_won i _ _ = False"

fun invite_user :: "store_call \<Rightarrow> string" where
  "invite_user (ConsumeInvite i u) = u"
| "invite_user _ = []"

definition redeemers ::
  "string \<Rightarrow> (string \<times> store_call) list \<Rightarrow> (StorageError + store_value) list \<Rightarrow> string list" where
  "redeemers i cs rs = map (\<lambda>((_, c), _). invite_user c) (filter (\<lambda>((_, c), r). invite_won i c r) (zip cs rs))"

lemma redeemers_simps [simp]:
  "redeemers i [] rs = []"
  "redeemers i ((t, c) # cs) (r # rs) =
     (if invite_won i c r then invite_user c # redeemers i cs rs else redeemers i cs rs)"
  by (simp_all add: redeemers_def)

lemma is_err_no_invite [simp]: "is_err r \<Longrightarrow> \<not> invite_won i c r"
  by (cases r; auto elim: invite_won.elims)

lemma spec_invite_step:
  assumes "spec_call c v r v'" "v_invites v i = Some (n, dis)"
  shows "if invite_won i c r
    then 0 < n \<and> (i, invite_user c) \<notin> v_invite_uses v \<and> v_invites v' i = Some (n - 1, dis) \<and>
      v_invite_uses v' = insert (i, invite_user c) (v_invite_uses v)
    else v_invites v' i = Some (n, dis) \<and> v_invite_uses v \<subseteq> v_invite_uses v'"
  using assms
  by (cases c)
    (auto simp: spec_call_simps invite_usable_def elim!: lift_specD split: if_splits option.splits prod.splits bool.splits)

lemma trace_invites:
  assumes "trace v cs rs v'" "v_invites v i = Some (n, dis)"
  shows "v_invites v' i = Some (n - int (length (redeemers i cs rs)), dis) \<and>
    int (length (redeemers i cs rs)) \<le> max 0 n \<and> distinct (redeemers i cs rs) \<and>
    (\<forall>u \<in> set (redeemers i cs rs). (i, u) \<notin> v_invite_uses v \<and> (i, u) \<in> v_invite_uses v') \<and>
    v_invite_uses v \<subseteq> v_invite_uses v'"
  using assms
proof (induction arbitrary: n rule: trace.induct)
  case (trace_call c t v r v1 cs rs v2)
  then have inv: "v_invites (v\<lparr>v_now := t\<rparr>) i = Some (n, dis)" by simp
  show ?case
  proof (cases "invite_won i c r")
    case True
    with spec_invite_step [OF trace_call.hyps(1) inv] trace_call.IH [of "n - 1"] show ?thesis by auto
  next
    case False
    with spec_invite_step [OF trace_call.hyps(1) inv] trace_call.IH [of n] show ?thesis by auto
  qed
qed auto


subsection \<open>Takedown\<close>

text \<open>Taking an account down hides it from every lookup of the authentication path; clearing the
  takedown puts the account back as it was.\<close>

lemma takedown_view:
  assumes "writes (\<lambda>v. Some (update_account d (row_takedown_ref_update (\<lambda>_. Some x)) v)) v (Inr n) v'"
    "v_accounts v d = Some a"
  shows "n = 1 \<and> v' = v\<lparr>v_accounts := (v_accounts v)(d \<mapsto> a\<lparr>row_takedown_ref := Some x\<rparr>)\<rparr>"
  using assms by (auto simp: update_account_def)

lemma account_by_handle_visible:
  assumes "spec_get_account_by_handle h v (Inr (Some (d, p))) v'"
  shows "\<exists>a. visible_by_handle v h d a \<and> row_password a = p"
proof -
  have "\<forall>d' p'. Some (d, p) = Some (d', p') \<longleftrightarrow> (\<exists>a. visible_by_handle v h d' a \<and> row_password a = p')"
    using assms unfolding spec_get_account_by_handle_def by blast
  from this [rule_format, of d p] show ?thesis by simp
qed

lemma did_by_handle_visible:
  assumes "spec_get_did_by_handle h v (Inr (Some d)) v'"
  shows "\<exists>a. visible_by_handle v h d a"
proof -
  have "\<forall>d'. Some d = Some d' \<longleftrightarrow> (\<exists>a. visible_by_handle v h d' a)"
    using assms unfolding spec_get_did_by_handle_def by blast
  from this [rule_format, of d] show ?thesis by simp
qed

lemma not_visible_taken_down:
  "v_accounts v d = Some a \<Longrightarrow> row_takedown_ref a \<noteq> None \<Longrightarrow> \<not> visible_by_handle v h d b"
  by (auto simp: visible_by_handle_def active_row_def)


subsection \<open>Failure, purging\<close>

lemma spec_call_err: "spec_call c v (Inl e) v' \<Longrightarrow> v' = v"
  by (cases c)
    (auto simp: spec_call_simps elim!: lift_specD split: if_splits option.splits prod.splits bool.splits)

lemma live_restrict:
  "now \<le> now' \<Longrightarrow> live ex now' ((m |` (- expired ex now m)) k) = live ex now' (m k)"
  by (auto simp: live_def restrict_map_def expired_def split: option.splits)

fun expiry_filtered :: "nat \<Rightarrow> store_call \<Rightarrow> bool" where
  "expiry_filtered now (GetPar h now') = (now \<le> now')"
| "expiry_filtered now (ConsumeCode h now') = (now \<le> now')"
| "expiry_filtered now (ConsumeRefresh h now') = (now \<le> now')"
| "expiry_filtered now (ListSessions d now') = (now \<le> now')"
| "expiry_filtered now _ = False"

lemma purge_same_answer:
  assumes "spec_purge_expired now v (Inr n) v1" "expiry_filtered now c"
    and "spec_call c v r w" "spec_call c v1 r1 w1"
  shows "same_answer r r1"
proof -
  have v1: "v1 = v\<lparr>v_par := v_par v |` (- expired par_expires_at now (v_par v)),
        v_codes := v_codes v |` (- expired code_expires_at now (v_codes v)),
        v_refresh := v_refresh v |` (- expired (rt_expires_at \<circ> fst) now (v_refresh v)),
        v_jti := v_jti v |` (- expired id now (v_jti v))\<rparr>"
    using assms(1) by (simp add: spec_purge_expired_def)
  consider (par) h t where "c = GetPar h t" "now \<le> t" | (code) h t where "c = ConsumeCode h t" "now \<le> t"
    | (rt) h t where "c = ConsumeRefresh h t" "now \<le> t" | (ls) d t where "c = ListSessions d t" "now \<le> t"
    using assms(2) by (cases c) auto
  then show ?thesis
  proof cases
    case ls
    have "(\<exists>h. v_refresh v1 h = Some (x, False)) \<and> t < rt_expires_at x \<longleftrightarrow>
        (\<exists>h. v_refresh v h = Some (x, False)) \<and> t < rt_expires_at x" for x
      using ls(2) by (force simp: v1 restrict_map_def expired_def)
    then have "{x. (\<exists>h. v_refresh v1 h = Some (x, False)) \<and> rt_did x = d \<and> t < rt_expires_at x} =
        {x. (\<exists>h. v_refresh v h = Some (x, False)) \<and> rt_did x = d \<and> t < rt_expires_at x}" by blast
    then show ?thesis
      using assms(3,4) by (auto simp: ls(1) spec_list_sessions_def elim!: lift_specD)
  qed (use assms(3,4) in \<open>auto simp: v1 spec_get_pushed_request_def spec_consume_auth_code_def
      spec_consume_refresh_token_def live_restrict elim!: lift_specD split: option.splits prod.splits bool.splits\<close>)
qed

subsection \<open>The laws on the SQLite backend\<close>

lemma sql_ok_open [simp]: "sql_ok cp (sql_open now f)"
  by (simp add: sql_ok_def sql_open_def sql_seq_ok_def sql_accounts_ok_def)

lemma sql_up_open [simp]: "sql_up (sql_open now (\<lambda>_. None))"
  by (simp add: sql_up_def sql_open_def)

lemma sql_exec_step:
  assumes "cid_text cs cp" "call_ok c" "sql_ok cp q" "exec (sqlite_backend cs cp) c q = (r, q')"
  shows "sql_ok cp q' \<and> (sql_up q \<longrightarrow> sql_up q') \<and> (spec_call c (sql_view cs cp q) r (sql_view cs cp q') \<or>
    \<not> sql_up q \<and> is_err r \<and> sql_view cs cp q' = sql_view cs cp q)"
  using meets_step [OF storage_backend.exec_meets [OF clocked_backend.axioms(1) [OF sql_clocked [OF assms(1)]] assms(2)] assms(3,4)] .


text \<open>C5: however an authorization code is presented, and however the calls of concurrent requests and
  database failures interleave, one stored code is redeemed at most once until a code with the same
  hash is stored again.\<close>

theorem sqlite_auth_code_single_use:
  assumes "cid_text cs cp" "calls_ok calls" "sql_ok cp q" "none_of (mints_code h) calls"
    and "exec_all (sqlite_backend cs cp) sql_at calls q = (rs, q')"
  shows "wins (code_redeemed h) calls rs \<le> 1"
proof -
  have "trace (sql_view cs cp q) calls rs (sql_view cs cp q')"
    using exec_all_trace_of [OF sql_clocked [OF assms(1)] assms(2,3,5)] by blast
  from trace_code_once [OF this assms(4)] show ?thesis by (simp split: if_splits)
qed

text \<open>A refresh token is consumed at most once: over any sequence of storage calls that does not
  store a token with the same hash again, at most one presentation is answered \<open>Consumed\<close>, and none
  is if the token was already spent.\<close>

theorem sqlite_refresh_token_single_use:
  assumes "cid_text cs cp" "calls_ok calls" "sql_ok cp q" "none_of (mints_refresh h) calls"
    and "exec_all (sqlite_backend cs cp) sql_at calls q = (rs, q')"
  shows "wins (refresh_consumed h) calls rs \<le> 1 \<and>
    (\<forall>t. v_refresh (sql_view cs cp q) h = Some (t, True) \<longrightarrow> wins (refresh_consumed h) calls rs = 0)"
proof -
  have "trace (sql_view cs cp q) calls rs (sql_view cs cp q')"
    using exec_all_trace_of [OF sql_clocked [OF assms(1)] assms(2,3,5)] by blast
  from trace_refresh_once [OF this assms(4)] show ?thesis by (auto split: if_splits)
qed

text \<open>C19: invites are conserved. Over any sequence of storage calls the remaining uses of a code drop by
  exactly the number of redemptions that succeeded, there are never more of those than the code had
  uses, no user redeems it twice, and nobody who had redeemed it before does so again.\<close>

theorem sqlite_invites_conserved:
  assumes "cid_text cs cp" "calls_ok calls" "sql_ok cp q"
    and "v_invites (sql_view cs cp q) i = Some (n, dis)"
    and "exec_all (sqlite_backend cs cp) sql_at calls q = (rs, q')"
  shows "v_invites (sql_view cs cp q') i = Some (n - int (length (redeemers i calls rs)), dis) \<and>
    int (length (redeemers i calls rs)) \<le> max 0 n \<and> distinct (redeemers i calls rs) \<and>
    (\<forall>u \<in> set (redeemers i calls rs). (i, u) \<notin> v_invite_uses (sql_view cs cp q) \<and>
      (i, u) \<in> v_invite_uses (sql_view cs cp q'))"
proof -
  have "trace (sql_view cs cp q) calls rs (sql_view cs cp q')"
    using exec_all_trace_of [OF sql_clocked [OF assms(1)] assms(2,3,5)] by blast
  from trace_invites [OF this assms(4)] show ?thesis by blast
qed

text \<open>Purging expired OAuth rows is invisible to every lookup that filters on expiry: a pushed
  request, an authorization code, a refresh token or a session list asked for at the purge time or
  later is answered the same whether or not the purge ran.\<close>

theorem sqlite_purge_unobservable:
  assumes "cid_text cs cp" "sql_ok cp q" "sql_up q" "time_ok now" "call_ok c" "expiry_filtered now c"
    and "exec (sqlite_backend cs cp) (PurgeExpired now) q = (Ok x, q1)"
  shows "same_answer (fst (exec (sqlite_backend cs cp) c q)) (fst (exec (sqlite_backend cs cp) c q1))"
proof -
  have 1: "sql_ok cp q1" "sql_up q1" "spec_call (PurgeExpired now) (sql_view cs cp q) (Ok x) (sql_view cs cp q1)"
    using sql_exec_step [OF assms(1) _ assms(2,7)] assms(3,4) by auto
  obtain r q2 r1 q3 where 2: "exec (sqlite_backend cs cp) c q = (r, q2)" "exec (sqlite_backend cs cp) c q1 = (r1, q3)"
    by (meson surj_pair)
  have "spec_call c (sql_view cs cp q) r (sql_view cs cp q2)" "spec_call c (sql_view cs cp q1) r1 (sql_view cs cp q3)"
    using sql_exec_step [OF assms(1,5,2) 2(1)] sql_exec_step [OF assms(1,5) 1(1) 2(2)] assms(3) 1(2) by auto
  with 1(3) show ?thesis
    by (auto simp: 2 elim!: lift_specD intro: purge_same_answer [OF _ assms(6)])
qed


lemma sql_exec_up:
  assumes "cid_text cs cp" "call_ok c" "sql_ok cp q" "sql_up q"
  shows "spec_call c (sql_view cs cp q) (fst (exec (sqlite_backend cs cp) c q))
      (sql_view cs cp (snd (exec (sqlite_backend cs cp) c q)))"
    "sql_ok cp (snd (exec (sqlite_backend cs cp) c q))" "sql_up (snd (exec (sqlite_backend cs cp) c q))"
  using sql_exec_step [OF assms(1-3)] assms(4) by (cases "exec (sqlite_backend cs cp) c q"; auto)+

text \<open>Taking an account down hides it from every lookup the authentication path uses (by handle, with
  and without the password hash, and by DID), reports one affected row, and clearing the takedown of
  an account that was not taken down before restores the store exactly.\<close>

theorem sqlite_takedown_hides:
  assumes "cid_text cs cp" "sql_ok cp q" "sql_up q" "v_accounts (sql_view cs cp q) d = Some a"
    and "exec (sqlite_backend cs cp) (SetTakedown d ref) q = (r, q1)"
  shows "r = Ok (VNat 1) \<and>
    (\<forall>h p. fst (exec (sqlite_backend cs cp) (AccountByHandle h) q1) \<noteq> Ok (VAccount (Some (d, p)))) \<and>
    (\<forall>h. fst (exec (sqlite_backend cs cp) (DidByHandle h) q1) \<noteq> Ok (VText (Some d))) \<and>
    fst (exec (sqlite_backend cs cp) (HandleByDid d) q1) = Ok (VText None) \<and>
    (row_takedown_ref a = None \<longrightarrow>
      sql_view cs cp (snd (exec (sqlite_backend cs cp) (ClearTakedown d) q1)) = sql_view cs cp q)"
proof -
  let ?B = "sqlite_backend cs cp"
  let ?a = "a\<lparr>row_takedown_ref := Some (if ref = [] then v_now (sql_view cs cp q) else ref)\<rparr>"
  have q1: "sql_ok cp q1" "sql_up q1" "spec_call (SetTakedown d ref) (sql_view cs cp q) r (sql_view cs cp q1)"
    using sql_exec_step [OF assms(1) _ assms(2,5)] assms(3) by auto
  then have r: "r = Ok (VNat 1)"
    and v1: "sql_view cs cp q1 = (sql_view cs cp q)\<lparr>v_accounts := (v_accounts (sql_view cs cp q))(d \<mapsto> ?a)\<rparr>"
    using assms(4)
    by (auto simp: spec_set_takedown_def update_account_def simp del: sql_view_simps elim!: lift_specD)
  have acc: "v_accounts (sql_view cs cp q1) d = Some ?a" by (simp add: v1)
  have hidden: "\<not> visible_by_handle (sql_view cs cp q1) h d b" for h b
    by (rule not_visible_taken_down [OF acc]) simp
  note ans = sql_exec_up(1) [OF assms(1) _ q1(1,2)]
  have "sql_view cs cp (snd (exec ?B (ClearTakedown d) q1)) = sql_view cs cp q" if "row_takedown_ref a = None"
    using ans [of "ClearTakedown d"] that assms(4) acc
    by (auto simp: spec_clear_takedown_def update_account_def v1 fun_upd_idem simp del: sql_view_simps exec.simps
        elim!: lift_specD)
  moreover have "fst (exec ?B (AccountByHandle h) q1) \<noteq> Ok (VAccount (Some (d, p)))" for h p
  proof
    assume "fst (exec ?B (AccountByHandle h) q1) = Ok (VAccount (Some (d, p)))"
    with ans [of "AccountByHandle h"]
    have "spec_get_account_by_handle h (sql_view cs cp q1) (Inr (Some (d, p)))
        (sql_view cs cp (snd (exec ?B (AccountByHandle h) q1)))"
      by (auto simp del: exec.simps elim!: lift_specD)
    from account_by_handle_visible [OF this] have "\<exists>b. visible_by_handle (sql_view cs cp q1) h d b" by blast
    with hidden show False by blast
  qed
  moreover have "fst (exec ?B (DidByHandle h) q1) \<noteq> Ok (VText (Some d))" for h
  proof
    assume "fst (exec ?B (DidByHandle h) q1) = Ok (VText (Some d))"
    with ans [of "DidByHandle h"]
    have "spec_get_did_by_handle h (sql_view cs cp q1) (Inr (Some d))
        (sql_view cs cp (snd (exec ?B (DidByHandle h) q1)))"
      by (auto simp del: exec.simps elim!: lift_specD)
    from did_by_handle_visible [OF this] hidden show False by blast
  qed
  moreover have "fst (exec ?B (HandleByDid d) q1) = Ok (VText None)"
    using ans [of "HandleByDid d"] acc
    by (auto simp: spec_get_handle_by_did_def active_row_def simp del: sql_view_simps exec.simps elim!: lift_specD)
  ultimately show ?thesis using r by blast
qed

lemma put_if_absent_keeps: "m c = Some b \<Longrightarrow> put_if_absent p m c = Some b"
  by (auto simp: put_if_absent_def split: option.splits prod.splits)

lemma fold_put_if_absent_keeps: "m c = Some b \<Longrightarrow> fold put_if_absent bs m c = Some b"
  by (induction bs arbitrary: m) (auto simp: put_if_absent_keeps)

lemma fold_put_if_absent_present:
  "c \<in> fst ` set bs \<Longrightarrow> \<exists>b. fold put_if_absent bs m c = Some b"
proof (induction bs arbitrary: m)
  case (Cons p bs)
  show ?case
  proof (cases "c = fst p")
    case True
    then have "\<exists>b. put_if_absent p m c = Some b"
      by (cases p) (auto simp: put_if_absent_def split: option.splits)
    then show ?thesis using fold_put_if_absent_keeps by fastforce
  next
    case False
    with Cons show ?thesis by auto
  qed
qed simp

text \<open>C26: a commit is sequenced and visible at once. The sequence number returned is the next one of a log
  numbered 1, 2, 3, ... without gaps; reading the log from just before it gives back exactly the
  committed event; the repository root is the new one; every block of the commit can be read and no
  block that was already stored has changed.\<close>

theorem sqlite_commit_sequenced:
  assumes "cid_text cs cp" "sql_ok cp q" "sql_up q" "0 < k"
    and "exec (sqlite_backend cs cp) (CommitBlocks bs d root ev) q = (r, q1)"
  shows "let n = int (length (v_log (sql_view cs cp q))) + 1; B = sqlite_backend cs cp in
    r = Ok (VInt n) \<and> fst (exec B MaxSeq q1) = Ok (VInt n) \<and>
    map fst (v_log (sql_view cs cp q1)) = map int [1..<Suc (nat n)] \<and>
    fst (exec B (BackfillPage (n - 1) k) q1) = Ok (VEvents [(n, ev)]) \<and>
    fst (exec B (LoadRoot d) q1) = Ok (VCid (Some root)) \<and>
    (\<forall>c \<in> fst ` set bs. \<exists>b. fst (exec B (ReadBlock c) q1) = Ok (VBytes b)) \<and>
    (\<forall>c b. v_blocks (sql_view cs cp q) c = Some b \<longrightarrow> fst (exec B (ReadBlock c) q1) = Ok (VBytes b))"
proof -
  let ?B = "sqlite_backend cs cp" and ?n = "int (length (v_log (sql_view cs cp q))) + 1"
  have q1: "sql_ok cp q1" "sql_up q1" "spec_call (CommitBlocks bs d root ev) (sql_view cs cp q) r (sql_view cs cp q1)"
    using sql_exec_step [OF assms(1) _ assms(2,5)] assms(3) by auto
  then have r: "r = Ok (VInt ?n)"
    and v1: "sql_view cs cp q1 = (sql_view cs cp q)\<lparr>v_blocks := fold put_if_absent bs (v_blocks (sql_view cs cp q)),
       v_log := v_log (sql_view cs cp q) @ [(?n, ev, False)], v_roots := (v_roots (sql_view cs cp q))(d \<mapsto> root)\<rparr>"
    by (auto simp: spec_commit_blocks_def Let_def simp del: sql_view_simps elim!: lift_specD)
  have log: "map fst (v_log (sql_view cs cp q)) = map int [1..<Suc (length (v_log (sql_view cs cp q)))]"
    "map fst (v_log (sql_view cs cp q1)) = map int [1..<Suc (nat ?n)]"
    using sql_view_ok [OF assms(2), of cs] sql_view_ok [OF q1(1), of cs]
    by (simp_all add: view_ok_def log_ok_def v1 nat_add_distrib del: sql_view_simps upt_Suc)
  have "m \<le> int (length (v_log (sql_view cs cp q)))" if "(m, e) \<in> set (v_log (sql_view cs cp q))" for m e
  proof -
    have "m \<in> set (map fst (v_log (sql_view cs cp q)))"
      unfolding set_map using that by (rule rev_image_eqI) simp
    then show ?thesis unfolding log(1) by auto
  qed
  then have old: "log_after (?n - 1) (v_log (sql_view cs cp q)) = []"
    by (force simp: log_after_def filter_empty_conv simp del: sql_view_simps)
  note ans = sql_exec_up(1) [OF assms(1) _ q1(1,2)]
  have "fst (exec ?B MaxSeq q1) = Ok (VInt ?n)"
    using ans [of MaxSeq] by (auto simp: spec_max_seq_def v1 simp del: sql_view_simps exec.simps elim!: lift_specD)
  moreover have "fst (exec ?B (BackfillPage (?n - 1) k) q1) = Ok (VEvents [(?n, ev)])"
    using ans [of "BackfillPage (?n - 1) k"] assms(4) old
    by (auto simp: spec_backfill_page_def v1 log_after_def simp del: sql_view_simps exec.simps elim!: lift_specD)
  moreover have "fst (exec ?B (LoadRoot d) q1) = Ok (VCid (Some root))"
    using ans [of "LoadRoot d"] by (auto simp: spec_load_repo_root_def v1 simp del: sql_view_simps exec.simps elim!: lift_specD)
  moreover have "fst (exec ?B (ReadBlock c) q1) = Ok (VBytes b)"
    if "fold put_if_absent bs (v_blocks (sql_view cs cp q)) c = Some b" for c b
    using ans [of "ReadBlock c"] that
    by (auto simp: spec_read_block_def v1 simp del: sql_view_simps exec.simps elim!: lift_specD)
  ultimately show ?thesis
    using r log(2) fold_put_if_absent_present fold_put_if_absent_keeps unfolding Let_def by meson
qed


subsection \<open>The laws at work\<close>

text \<open>A fresh database, a fresh in-memory store, and a short history on each.\<close>

definition wit_db :: SqliteStore where
  "wit_db = sql_open ''t0'' (\<lambda>_. None)"

abbreviation wit_sqlite :: "SqliteStore StorageBackend" where
  "wit_sqlite \<equiv> sqlite_backend unary_cid_str unary_cid_parse"

definition wit_code :: AuthCode where
  "wit_code = \<lparr>code_hash = ''h'', code_did = ''did:a'', code_client_id = ''c'', code_redirect_uri = ''r'',
     code_scope = ''atproto'', code_challenge = ''x'', code_dpop_jkt = None, code_expires_at = 100\<rparr>"

definition wit_token :: RefreshTokenRecord where
  "wit_token = \<lparr>rt_token_hash = ''h'', rt_session_id = ''s'', rt_did = ''did:a'', rt_client_id = ''c'',
     rt_scope = ''atproto'', rt_dpop_jkt = ''j'', rt_issued_at = 1, rt_expires_at = 100\<rparr>"

definition wit_calls :: "(string \<times> store_call) list" where
  "wit_calls = [(''t1'', InsertInvite ''i'' 1 ''admin''), (''t2'', ConsumeInvite ''i'' ''did:a''),
     (''t3'', ConsumeInvite ''i'' ''did:b''), (''t4'', PutCode wit_code), (''t5'', ConsumeCode ''h'' 5),
     (''t6'', ConsumeCode ''h'' 6)]"

lemmas sql_run_defs =
  wit_db_def sql_open_def sqlite_backend_def lift_op_def sql_call_def sql_interact_def tick_def sql_at_def
  insert_or_replace_def insert_or_ignore_def delete_where_def update_where_def as_i64_def as_u64_def



theorem sqlite_auth_code_single_use_witness:
  "wins (code_redeemed ''h'') [(''t1'', ConsumeCode ''h'' 5), (''t2'', ConsumeCode ''h'' 6)]
     (fst (exec_all wit_sqlite sql_at [(''t1'', ConsumeCode ''h'' 5), (''t2'', ConsumeCode ''h'' 6)]
       (snd (exec wit_sqlite (PutCode wit_code) wit_db)))) \<le> 1"
  by (rule sqlite_auth_code_single_use [OF unary.cid_text_axioms _ sql_exec_up(2) [OF unary.cid_text_axioms] _ prod.collapse [symmetric]])
    (simp_all add: calls_ok_def none_of_def wit_code_def time_ok_def wit_db_def)

theorem sqlite_refresh_token_single_use_witness:
  "wins (refresh_consumed ''h'') [(''t1'', ConsumeRefresh ''h'' 5), (''t2'', ConsumeRefresh ''h'' 6)]
     (fst (exec_all wit_sqlite sql_at [(''t1'', ConsumeRefresh ''h'' 5), (''t2'', ConsumeRefresh ''h'' 6)]
       (snd (exec wit_sqlite (PutRefresh wit_token) wit_db)))) \<le> 1"
  using sqlite_refresh_token_single_use [OF unary.cid_text_axioms _ sql_exec_up(2) [OF unary.cid_text_axioms] _ prod.collapse [symmetric],
      of "[(''t1'', ConsumeRefresh ''h'' 5), (''t2'', ConsumeRefresh ''h'' 6)]" "PutRefresh wit_token" wit_db "''h''"]
  by (simp add: calls_ok_def none_of_def wit_token_def time_ok_def wit_db_def del: exec.simps exec_all.simps)

theorem sqlite_invites_conserved_witness:
  "v_invites (sql_view unary_cid_str unary_cid_parse (snd (exec_all wit_sqlite sql_at
      [(''t2'', ConsumeInvite ''i'' ''did:a''), (''t3'', ConsumeInvite ''i'' ''did:b'')]
      (snd (exec wit_sqlite (InsertInvite ''i'' 1 ''admin'') wit_db))))) ''i'' = Some (0, False)"
proof -
  let ?q = "snd (exec wit_sqlite (InsertInvite ''i'' 1 ''admin'') wit_db)"
  let ?cs = "[(''t2'', ConsumeInvite ''i'' ''did:a''), (''t3'', ConsumeInvite ''i'' ''did:b'')]"
  have inv: "v_invites (sql_view unary_cid_str unary_cid_parse ?q) ''i'' = Some (1, False)"
    by (simp add: sql_run_defs sql_insert_invite_def sql_view_def invite_view_def)
  have red: "redeemers ''i'' ?cs (fst (exec_all wit_sqlite sql_at ?cs ?q)) = [''did:a'']"
    by (simp add: sql_run_defs sql_insert_invite_def sql_consume_invite_def)
  have ok: "sql_ok unary_cid_parse ?q"
    by (rule sql_exec_up(2) [OF unary.cid_text_axioms]) (simp_all add: wit_db_def)
  have cs: "calls_ok ?cs" by (simp add: calls_ok_def)
  from sqlite_invites_conserved [OF unary.cid_text_axioms cs ok inv prod.collapse [symmetric]]
  show ?thesis unfolding red by simp
qed

theorem sqlite_purge_unobservable_witness:
  "same_answer (fst (exec wit_sqlite (GetPar ''h'' 7) wit_db))
     (fst (exec wit_sqlite (GetPar ''h'' 7) (snd (exec wit_sqlite (PurgeExpired 7) wit_db))))"
proof -
  have run: "exec wit_sqlite (PurgeExpired 7) wit_db = (Ok (VNat 0), snd (exec wit_sqlite (PurgeExpired 7) wit_db))"
    by (simp add: sql_run_defs sql_purge_expired_def)
  show ?thesis
    by (rule sqlite_purge_unobservable [OF unary.cid_text_axioms _ _ _ _ _ run])
      (simp_all add: wit_db_def time_ok_def)
qed

theorem sqlite_takedown_hides_witness:
  "fst (exec wit_sqlite (HandleByDid ''did:a'') (snd (exec wit_sqlite (SetTakedown ''did:a'' [])
     (snd (exec wit_sqlite (InsertAccount ''did:a'' ''a.test'' None ''phc'') wit_db))))) = Ok (VText None)"
proof -
  let ?q = "snd (exec wit_sqlite (InsertAccount ''did:a'' ''a.test'' None ''phc'') wit_db)"
  have ok: "sql_ok unary_cid_parse ?q" "sql_up ?q"
    by (rule sql_exec_up(2,3) [OF unary.cid_text_axioms]; simp add: wit_db_def)+
  have acc: "v_accounts (sql_view unary_cid_str unary_cid_parse ?q) ''did:a'' = Some
      \<lparr>row_handle = Some ''a.test'', row_email = None, row_password = ''phc'', row_created_at = ''t0'',
       row_deactivated_at = None, row_takedown_ref = None\<rparr>"
    by (simp add: sql_run_defs sql_insert_account_def insert_accounts_row_def sql_view_def ac_row_def)
  from sqlite_takedown_hides [OF unary.cid_text_axioms ok acc prod.collapse [symmetric]]
  show ?thesis by blast
qed

theorem sqlite_commit_sequenced_witness:
  "fst (exec wit_sqlite (CommitBlocks [(Cid 1 2 [3], [4])] ''did:a'' (Cid 1 2 [3]) [5]) wit_db) = Ok (VInt 1)"
  using sqlite_commit_sequenced [OF unary.cid_text_axioms _ _ zero_less_one prod.collapse [symmetric],
      of wit_db "[(Cid 1 2 [3], [4])]" "''did:a''" "Cid 1 2 [3]" "[5]"]
  by (simp add: Let_def wit_db_def del: exec.simps) (simp add: sql_open_def)

end
