(* ===== verification/PDS_World.thy ===== *)
theory PDS_World
  imports Storage_Laws
begin

text \<open>
  What a request handler runs in: the store, the system clock (\<open>now_unix\<close>, and its readings in
  microseconds and as RFC 3339 text), the operating system's random source (\<open>OsRng\<close>), read
  sequentially, and the two pieces of process state handlers share, the cache of decrypted signing
  keys and the firehose broadcast channel (every event sent so far). A storage call is one atomic
  step of the shared state (\<open>db\<close>); so are a reading of the clock, a draw of random bytes, an access
  of the cache and a send on the channel.

  \<open>prims\<close> holds the functions of third-party crates the code calls: digests, text encodings,
  the password hash, the key derivation and the AEAD. What the sources rely on of them is stated
  as named hypotheses where it is used.
\<close>

record 's world =
  w_store :: 's
  w_clock :: nat
  w_rng :: "nat \<Rightarrow> byte"
  w_rng_pos :: nat
  w_micros :: nat
  w_rfc3339 :: string
  w_key_cache :: "(string, bytes) hashmap"
  w_published :: "(int \<times> bytes) list" \<comment> \<open>sequence number and frame, oldest first\<close>

definition db :: "('s, 'a) sop \<Rightarrow> ('s world, StorageError + 'a) async" where
  "db op = atomic (\<lambda>w. case op (w_store w) of (r, s') \<Rightarrow> (r, w\<lparr>w_store := s'\<rparr>))"

definition now_unix :: "('s world, nat) async" where
  "now_unix = atomic (\<lambda>w. (w_clock w, w))"

definition draw :: "nat \<Rightarrow> 's world \<Rightarrow> bytes" where
  "draw n w = map (w_rng w) [w_rng_pos w..<w_rng_pos w + n]"

definition fill_bytes :: "nat \<Rightarrow> ('s world, bytes) async" where
  "fill_bytes n = atomic (\<lambda>w. (draw n w, w\<lparr>w_rng_pos := w_rng_pos w + n\<rparr>))"

record prims =
  sha256 :: "bytes \<Rightarrow> bytes"
  b64url_encode :: "bytes \<Rightarrow> string"
  b64url_decode :: "string \<Rightarrow> bytes option"
  hexlower :: "bytes \<Rightarrow> string"
  argon2_into :: "bytes \<Rightarrow> bytes \<Rightarrow> string + bytes" \<comment> \<open>passphrase, salt\<close>
  aes_gcm_encrypt :: "bytes \<Rightarrow> bytes \<Rightarrow> bytes \<Rightarrow> bytes option" \<comment> \<open>key, nonce, message\<close>
  aes_gcm_decrypt :: "bytes \<Rightarrow> bytes \<Rightarrow> bytes \<Rightarrow> bytes option"

definition random_token :: "'x prims_scheme \<Rightarrow> nat \<Rightarrow> ('s world, string) async" where
  "random_token P n = abind (fill_bytes n) (\<lambda>b. Ready (b64url_encode P b))"

lemma length_draw [simp]: "length (draw n w) = n"
  by (simp add: draw_def)

lemma run_db [async_simps]:
  "run (db op) w = (case op (w_store w) of (r, s') \<Rightarrow> (r, w\<lparr>w_store := s'\<rparr>))"
  by (simp add: db_def async_simps)

lemma run_now_unix [async_simps]: "run now_unix w = (w_clock w, w)"
  by (simp add: now_unix_def async_simps)

lemma run_fill_bytes [async_simps]:
  "run (fill_bytes n) w = (draw n w, w\<lparr>w_rng_pos := w_rng_pos w + n\<rparr>)"
  by (simp add: fill_bytes_def async_simps)

lemma run_random_token [async_simps]:
  "run (random_token P n) w = (b64url_encode P (draw n w), w\<lparr>w_rng_pos := w_rng_pos w + n\<rparr>)"
  by (simp add: random_token_def async_simps)

lemma keeps_now_unix [intro, simp]: "keeps I now_unix"
  by (simp add: now_unix_def keeps_atomic)

end
