(* ===== verification/OAuth_Core.thy ===== *)
theory OAuth_Core
  imports PDS_World
begin

text \<open>
  The base of the OAuth server's protocol layer (\<open>rust-core/src/oauth/mod.rs\<close>, \<open>store.rs\<close>,
  \<open>scope.rs\<close>, \<open>pkce.rs\<close>): errors and what of them reaches a client, constant-time comparison,
  the hash under which secrets are stored, scope sets and PKCE.
\<close>

unbundle bit_operations_syntax

subsection \<open>Errors\<close>

datatype OAuthError =
    InvalidRequest string
  | InvalidClient string
  | InvalidGrant string
  | InvalidScope string
  | UnauthorizedClient string
  | UnsupportedGrantType string
  | AccessDenied string
  | InvalidDpopProof string
  | UseDpopNonce string
  | InvalidToken string
  | UnsupportedAlgorithm string
  | Storage StorageError
  | Internal string

fun error_code :: "OAuthError \<Rightarrow> string" where
  "error_code (InvalidRequest _) = ''invalid_request''"
| "error_code (InvalidClient _) = ''invalid_client''"
| "error_code (InvalidGrant _) = ''invalid_grant''"
| "error_code (InvalidScope _) = ''invalid_scope''"
| "error_code (UnauthorizedClient _) = ''unauthorized_client''"
| "error_code (UnsupportedGrantType _) = ''unsupported_grant_type''"
| "error_code (AccessDenied _) = ''access_denied''"
| "error_code (InvalidDpopProof _) = ''invalid_dpop_proof''"
| "error_code (UseDpopNonce _) = ''use_dpop_nonce''"
| "error_code (InvalidToken _) = ''invalid_token''"
| "error_code (UnsupportedAlgorithm _) = ''invalid_request''"
| "error_code (Storage _) = ''server_error''"
| "error_code (Internal _) = ''server_error''"

text \<open>The \<open>Display\<close> texts; a storage error shows its own, which is not part of the model.\<close>

fun display_error :: "(StorageError \<Rightarrow> string) \<Rightarrow> OAuthError \<Rightarrow> string" where
  "display_error st (InvalidRequest m) = ''invalid_request: '' @ m"
| "display_error st (InvalidClient m) = ''invalid_client: '' @ m"
| "display_error st (InvalidGrant m) = ''invalid_grant: '' @ m"
| "display_error st (InvalidScope m) = ''invalid_scope: '' @ m"
| "display_error st (UnauthorizedClient m) = ''unauthorized_client: '' @ m"
| "display_error st (UnsupportedGrantType m) = ''unsupported_grant_type: '' @ m"
| "display_error st (AccessDenied m) = ''access_denied: '' @ m"
| "display_error st (InvalidDpopProof m) = ''invalid_dpop_proof: '' @ m"
| "display_error st (UseDpopNonce m) = ''use_dpop_nonce: '' @ m"
| "display_error st (InvalidToken m) = ''invalid_token: '' @ m"
| "display_error st (UnsupportedAlgorithm m) = ''unsupported algorithm: '' @ m"
| "display_error st (Storage e) = ''storage error: '' @ st e"
| "display_error st (Internal m) = ''server_error: '' @ m"

fun public_description :: "(StorageError \<Rightarrow> string) \<Rightarrow> OAuthError \<Rightarrow> string" where
  "public_description st (Storage _) = ''internal server error''"
| "public_description st (Internal _) = ''internal server error''"
| "public_description st other = display_error st other"

subsection \<open>Secrets\<close>

definition constant_time_eq :: "string \<Rightarrow> string \<Rightarrow> bool" where
  "constant_time_eq a b =
     (let a = as_bytes a; b = as_bytes b in
      if length a \<noteq> length b then False
      else fold (\<lambda>(x, y) diff. diff OR (x XOR y)) (zip a b) (0 :: byte) = 0)"

definition hash_secret :: "'x prims_scheme \<Rightarrow> string \<Rightarrow> string" where
  "hash_secret P secret = hexlower P (sha256 P (as_bytes secret))"

lemma fold_or_xor_zero:
  "length a = length b \<Longrightarrow>
   fold (\<lambda>(x, y) diff. diff OR (x XOR y)) (zip a b) (d :: byte) = 0 \<longleftrightarrow> d = 0 \<and> a = b"
proof (induction a b arbitrary: d rule: list_induct2)
  case (Cons x xs y ys)
  have "d OR (x XOR y) = 0 \<longleftrightarrow> d = 0 \<and> x = y"
    by (metis or_eq_0_iff xor_self_eq bit.xor_left_self xor.right_neutral)
  then show ?case by (simp add: Cons.IH)
qed simp

text \<open>The constant-time comparison used on every bearer secret decides equality.\<close>

lemma constant_time_eq_iff [simp]: "constant_time_eq a b \<longleftrightarrow> a = b"
proof (cases "length a = length b")
  case True
  then have "fold (\<lambda>(x, y) diff. diff OR (x XOR y)) (zip (as_bytes a) (as_bytes b)) (0 :: byte) = 0 \<longleftrightarrow> a = b"
    by (subst fold_or_xor_zero) auto
  with True show ?thesis by (simp add: constant_time_eq_def)
qed (auto simp: constant_time_eq_def)


subsection \<open>Scopes\<close>

definition ATPROTO :: string where
  "ATPROTO = ''atproto''"

definition SUPPORTED :: "string list" where
  "SUPPORTED = [ATPROTO, ''transition:generic'', ''transition:chat.bsky'', ''transition:email'']"

text \<open>A \<open>BTreeSet<String>\<close>: the elements in ascending order, each once.\<close>

type_synonym Scope = "string list"

definition btree_insert :: "string \<Rightarrow> string list \<Rightarrow> string list" where
  "btree_insert x s = (if x \<in> set s then s else insort x s)"

definition is_ascii_whitespace :: "char \<Rightarrow> bool" where
  "is_ascii_whitespace c = (c \<in> {CHR '' '', CHR 0x09, CHR 0x0A, CHR 0x0C, CHR 0x0D})"

text \<open>\<open>str::split_ascii_whitespace\<close>: the maximal runs of other characters.\<close>

fun split_ws :: "string \<Rightarrow> string \<Rightarrow> string list" where
  "split_ws w [] = (if w = [] then [] else [w])"
| "split_ws w (c # cs) =
     (if is_ascii_whitespace c then (if w = [] then split_ws [] cs else w # split_ws [] cs)
      else split_ws (w @ [c]) cs)"

definition split_ascii_whitespace :: "string \<Rightarrow> string list" where
  "split_ascii_whitespace s = split_ws [] s"

fun scope_collect :: "string list \<Rightarrow> Scope \<Rightarrow> OAuthError + Scope" where
  "scope_collect [] acc = Ok acc"
| "scope_collect (token # ts) acc =
     (if token \<notin> set SUPPORTED then Err (InvalidScope (''unknown scope: '' @ token))
      else scope_collect ts (btree_insert token acc))"

definition Scope_parse :: "string \<Rightarrow> OAuthError + Scope" where
  "Scope_parse s = and_then (scope_collect (split_ascii_whitespace s) []) (\<lambda>acc.
     if acc = [] then Err (InvalidScope ''scope is required'')
     else if ATPROTO \<notin> set acc then Err (InvalidScope ''the `atproto` scope is required'')
     else Ok acc)"

definition Scope_contains :: "Scope \<Rightarrow> string \<Rightarrow> bool" where
  "Scope_contains sc x = (x \<in> set sc)"

definition Scope_is_subset_of :: "Scope \<Rightarrow> Scope \<Rightarrow> bool" where
  "Scope_is_subset_of a b = list_all (\<lambda>x. x \<in> set b) a"

definition Scope_to_string :: "Scope \<Rightarrow> string" where
  "Scope_to_string sc = join_with '' '' sc"

definition scope_ok :: "Scope \<Rightarrow> bool" where
  "scope_ok sc = (sorted sc \<and> distinct sc \<and> set sc \<subseteq> set SUPPORTED \<and> ATPROTO \<in> set sc)"

lemma set_btree_insert [simp]: "set (btree_insert x s) = insert x (set s)"
  by (auto simp: btree_insert_def set_insort_key)

lemma btree_insert_ok: "sorted s \<Longrightarrow> distinct s \<Longrightarrow> sorted (btree_insert x s) \<and> distinct (btree_insert x s)"
  by (auto simp: btree_insert_def sorted_insort distinct_insort)

lemma scope_collect_Ok:
  "scope_collect ts acc = Ok sc \<Longrightarrow> sorted acc \<Longrightarrow> distinct acc \<Longrightarrow>
   sorted sc \<and> distinct sc \<and> set sc = set acc \<union> set ts \<and> set ts \<subseteq> set SUPPORTED"
proof (induction ts arbitrary: acc)
  case (Cons t ts)
  then have t: "t \<in> set SUPPORTED" and rest: "scope_collect ts (btree_insert t acc) = Ok sc"
    by (auto split: if_splits)
  from Cons.IH [OF rest] btree_insert_ok [OF Cons.prems(2,3), of t] t show ?case by auto
qed simp

lemma scope_collect_total:
  "set ts \<subseteq> set SUPPORTED \<Longrightarrow> \<exists>sc. scope_collect ts acc = Ok sc"
  by (induction ts arbitrary: acc) auto

lemma Scope_parse_Ok:
  assumes "Scope_parse s = Ok sc"
  shows "scope_ok sc \<and> set sc = set (split_ascii_whitespace s)"
  using assms scope_collect_Ok [of "split_ascii_whitespace s" "[]" sc]
  by (auto simp: Scope_parse_def and_then_Ok_iff scope_ok_def split: if_splits)

lemma split_ws_join:
  assumes "\<forall>w \<in> set ws. w \<noteq> [] \<and> list_all (\<lambda>c. \<not> is_ascii_whitespace c) w"
  shows "split_ascii_whitespace (join_with '' '' ws) = ws"
proof -
  have run: "split_ws a (w @ r) = split_ws (a @ w) r" if "list_all (\<lambda>c. \<not> is_ascii_whitespace c) w" for a w r
    using that by (induction w arbitrary: a) auto
  have sp: "is_ascii_whitespace CHR '' ''" by (simp add: is_ascii_whitespace_def)
  show ?thesis
    using assms unfolding split_ascii_whitespace_def
  proof (induction ws)
    case (Cons w ws)
    then show ?case
      by (cases ws) (auto simp: run sp run [where r = "[]", simplified])
  qed simp
qed

lemma supported_words: "w \<in> set SUPPORTED \<Longrightarrow> w \<noteq> [] \<and> list_all (\<lambda>c. \<not> is_ascii_whitespace c) w"
  by (auto simp: SUPPORTED_def ATPROTO_def is_ascii_whitespace_def)

lemma scope_roundtrip:
  assumes "scope_ok sc"
  shows "Scope_parse (Scope_to_string sc) = Ok sc"
proof -
  have split: "split_ascii_whitespace (Scope_to_string sc) = sc"
    unfolding Scope_to_string_def
    by (rule split_ws_join) (use assms supported_words in \<open>auto simp: scope_ok_def\<close>)
  obtain sc' where c: "scope_collect sc [] = Ok sc'"
    using scope_collect_total [of sc "[]"] assms by (auto simp: scope_ok_def)
  have "sc' = sc"
    using scope_collect_Ok [OF c] assms by (auto simp: scope_ok_def intro: sorted_distinct_set_unique)
  with c assms show ?thesis
    by (auto simp: Scope_parse_def split scope_ok_def)
qed

text \<open>Scope strings. A parse succeeds exactly when every word is a scope this server supports and
  \<open>atproto\<close> is among them; the result then holds exactly those words, in canonical order, so that
  printing and parsing again gives the same grant and two strings with the same words give the same
  printed form.\<close>

theorem scope_parse_correct:
  "(is_ok (Scope_parse s) \<longleftrightarrow>
      set (split_ascii_whitespace s) \<subseteq> set SUPPORTED \<and> ATPROTO \<in> set (split_ascii_whitespace s)) \<and>
   (\<forall>sc. Scope_parse s = Ok sc \<longrightarrow> set sc = set (split_ascii_whitespace s) \<and>
      Scope_parse (Scope_to_string sc) = Ok sc \<and>
      (\<forall>s' sc'. Scope_parse s' = Ok sc' \<longrightarrow> set (split_ascii_whitespace s') = set (split_ascii_whitespace s) \<longrightarrow>
         Scope_to_string sc' = Scope_to_string sc))"
proof -
  have fwd: "set (split_ascii_whitespace s) \<subseteq> set SUPPORTED \<and> ATPROTO \<in> set (split_ascii_whitespace s)"
    if "Scope_parse s = Ok sc" for sc
    using Scope_parse_Ok [OF that] by (auto simp: scope_ok_def)
  have bwd: "is_ok (Scope_parse s)"
    if sup: "set (split_ascii_whitespace s) \<subseteq> set SUPPORTED" and at: "ATPROTO \<in> set (split_ascii_whitespace s)"
  proof -
    obtain sc where c: "scope_collect (split_ascii_whitespace s) [] = Ok sc"
      using scope_collect_total [OF sup, of "[]"] by blast
    have "ATPROTO \<in> set sc" using scope_collect_Ok [OF c] at by auto
    with c show ?thesis by (auto simp: Scope_parse_def)
  qed
  have uniq: "sc' = sc" if "Scope_parse s = Ok sc" "Scope_parse s' = Ok sc'"
    "set (split_ascii_whitespace s') = set (split_ascii_whitespace s)" for sc s' sc'
    using Scope_parse_Ok [OF that(1)] Scope_parse_Ok [OF that(2)] that(3)
    by (auto simp: scope_ok_def intro: sorted_distinct_set_unique)
  show ?thesis
    using fwd bwd Scope_parse_Ok scope_roundtrip arg_cong [OF uniq, where f = Scope_to_string]
    unfolding is_ok_iff by blast
qed

theorem scope_parse_correct_witness:
  "Scope_parse ''transition:generic  atproto'' = Ok [''atproto'', ''transition:generic''] \<and>
   Scope_parse (Scope_to_string [''atproto'', ''transition:generic'']) = Ok [''atproto'', ''transition:generic'']"
proof -
  have p: "Scope_parse ''transition:generic  atproto'' = Ok [''atproto'', ''transition:generic'']"
    by (simp add: Scope_parse_def split_ascii_whitespace_def is_ascii_whitespace_def SUPPORTED_def
        ATPROTO_def btree_insert_def less_eq_char_def)
  with scope_parse_correct [of "''transition:generic  atproto''"] show ?thesis by blast
qed

subsection \<open>PKCE\<close>

record CodeChallenge =
  challenge :: string

definition CodeChallenge_parse :: "'x prims_scheme \<Rightarrow> string \<Rightarrow> string option \<Rightarrow> OAuthError + CodeChallenge" where
  "CodeChallenge_parse P ch method = (case method of
     None \<Rightarrow> Err (InvalidRequest ''code_challenge_method is required and must be S256'')
   | Some m \<Rightarrow>
       if m \<noteq> ''S256'' then Err (InvalidRequest (''unsupported code_challenge_method: '' @ m @ '' (only S256 is allowed)''))
       else if length ch \<noteq> 43 then Err (InvalidRequest ''code_challenge must be a base64url-encoded SHA-256 digest'')
       else if b64url_decode P ch = None then Err (InvalidRequest ''code_challenge is not valid base64url'')
       else Ok \<lparr>challenge = ch\<rparr>)"

definition pkce_unreserved :: "char \<Rightarrow> bool" where
  "pkce_unreserved c = (is_ascii_alphanumeric c \<or> c \<in> {CHR ''-'', CHR ''.'', CHR ''_'', CHR ''~''})"

definition CodeChallenge_verify :: "'x prims_scheme \<Rightarrow> CodeChallenge \<Rightarrow> string \<Rightarrow> OAuthError + unit" where
  "CodeChallenge_verify P self code_verifier =
     (if \<not> (43 \<le> length code_verifier \<and> length code_verifier \<le> 128)
      then Err (InvalidGrant ''code_verifier must be 43-128 characters'')
      else if \<not> list_all pkce_unreserved code_verifier
      then Err (InvalidGrant ''code_verifier contains characters outside the unreserved set'')
      else let computed = b64url_encode P (sha256 P (as_bytes code_verifier)) in
        if constant_time_eq computed (challenge self) then Ok ()
        else Err (InvalidGrant ''code_verifier does not match code_challenge''))"

lemma CodeChallenge_verify_Ok:
  "CodeChallenge_verify P ch v = Ok () \<longleftrightarrow> 43 \<le> length v \<and> length v \<le> 128 \<and> list_all pkce_unreserved v \<and>
     b64url_encode P (sha256 P (as_bytes v)) = challenge ch"
  by (auto simp: CodeChallenge_verify_def Let_def)

lemma CodeChallenge_parse_Ok:
  "CodeChallenge_parse P ch m = Ok c \<longleftrightarrow> m = Some ''S256'' \<and> length ch = 43 \<and>
     b64url_decode P ch \<noteq> None \<and> c = \<lparr>challenge = ch\<rparr>"
  by (auto simp: CodeChallenge_parse_def split: option.splits)

end
