(* ===== verification/Key_Crypto.thy ===== *)
theory Key_Crypto
  imports PDS_World
begin

text \<open>
  At-rest key encryption and the portable export format (\<open>rust-core/src/storage/crypto.rs\<close>).
  Argon2id and AES-256-GCM are the parameters \<open>argon2_into\<close>, \<open>aes_gcm_encrypt\<close> and
  \<open>aes_gcm_decrypt\<close>; the layouts, the bounds checks and the order of the checks are the code's.
  \<open>run_blocking\<close> runs its closure on another thread and yields its result; none of the closures
  here panics, so its \<open>None\<close> case does not arise.

  Parsing of an export blob is modelled with \<open>usize\<close> at an explicit width and with slicing and
  \<open>unwrap\<close> as partial operations, so that a panic is visible (\<open>None\<close>).
\<close>

definition encrypt_key :: "'x prims_scheme \<Rightarrow> bytes \<Rightarrow> bytes \<Rightarrow> ('s world, StorageError + bytes) async" where
  "encrypt_key P plaintext passphrase =
     abind (fill_bytes 16) (\<lambda>salt. abind (fill_bytes 12) (\<lambda>nonce.
       try_ok (map_err Crypto (argon2_into P passphrase salt)) (\<lambda>key.
       try_ok (ok_or (Crypto ''AES-GCM encrypt failed'') (aes_gcm_encrypt P key nonce plaintext)) (\<lambda>ciphertext.
       Ready (Ok (salt @ nonce @ ciphertext))))))"

definition decrypt_key :: "'x prims_scheme \<Rightarrow> bytes \<Rightarrow> bytes \<Rightarrow> StorageError + bytes" where
  "decrypt_key P blob passphrase =
     (if length blob < 28 then Err (Crypto ''blob too short'')
      else let salt = take 16 blob; rest = drop 16 blob; nonce = take 12 rest; ciphertext = drop 12 rest in
        and_then (map_err Crypto (argon2_into P passphrase salt)) (\<lambda>key.
        ok_or (Crypto ''wrong passphrase or corrupted key'') (aes_gcm_decrypt P key nonce ciphertext)))"

definition store_key ::
  "'x prims_scheme \<Rightarrow> 's KeyStore \<Rightarrow> string \<Rightarrow> bytes \<Rightarrow> bytes \<Rightarrow> ('s world, StorageError + unit) async" where
  "store_key P K i plaintext passphrase =
     await_ok (encrypt_key P plaintext passphrase) (\<lambda>blob. db (put_key_blob K i blob))"

definition load_key ::
  "'x prims_scheme \<Rightarrow> 's KeyStore \<Rightarrow> string \<Rightarrow> bytes \<Rightarrow> ('s world, StorageError + bytes) async" where
  "load_key P K i passphrase = await_ok (db (get_key_blob K i)) (\<lambda>r. case r of
     None \<Rightarrow> Ready (Err (Crypto ''key not found''))
   | Some b \<Rightarrow> Ready (decrypt_key P b passphrase))"

definition u32_le_bytes :: "nat \<Rightarrow> bytes" where
  "u32_le_bytes n = [of_nat n, of_nat (n div 256), of_nat (n div 65536), of_nat (n div 16777216)]"

definition u32_of_le_bytes :: "bytes \<Rightarrow> nat" where
  "u32_of_le_bytes bs = (case bs of
     [a, b, c, d] \<Rightarrow> unat a + 256 * unat b + 65536 * unat c + 16777216 * unat d | _ \<Rightarrow> 0)"

definition export_keys ::
  "'x prims_scheme \<Rightarrow> 's KeyStore \<Rightarrow> string \<Rightarrow> bytes \<Rightarrow> ('s world, StorageError + bytes) async" where
  "export_keys P K i passphrase =
     await_ok (db (get_key_blob K i)) (\<lambda>r.
     try_ok (ok_or (Crypto ''key not found'') r) (\<lambda>ciphertext.
     try_ok (decrypt_key P ciphertext passphrase) (\<lambda>_.
     let id_bytes = as_bytes i in
     Ready (Ok (u32_le_bytes (length id_bytes) @ id_bytes @
       u32_le_bytes (length ciphertext) @ ciphertext)))))"

definition checked_add :: "nat \<Rightarrow> nat \<Rightarrow> nat \<Rightarrow> nat option" where
  "checked_add w a b = (if a + b < 2 ^ w then Some (a + b) else None)"

definition wrapping_add :: "nat \<Rightarrow> nat \<Rightarrow> nat \<Rightarrow> nat" where
  "wrapping_add w a b = (a + b) mod 2 ^ w"

text \<open>\<open>&xs[a..b]\<close>; \<open>None\<close> is the panic.\<close>

definition slice_range :: "nat \<Rightarrow> nat \<Rightarrow> 'a list \<Rightarrow> 'a list option" where
  "slice_range a b xs = (if a \<le> b \<and> b \<le> length xs then Some (take (b - a) (drop a xs)) else None)"

text \<open>\<open>u32::from_le_bytes(xs[a..b].try_into().unwrap()) as usize\<close>.\<close>

definition read_u32 :: "nat \<Rightarrow> nat \<Rightarrow> bytes \<Rightarrow> nat option" where
  "read_u32 a b xs = (case slice_range a b xs of None \<Rightarrow> None
     | Some s \<Rightarrow> if length s = 4 then Some (u32_of_le_bytes s) else None)"

text \<open>The parsing part of \<open>import_keys\<close>, on a target whose \<open>usize\<close> has \<open>w\<close> bits.\<close>

definition parse_export :: "nat \<Rightarrow> bytes \<Rightarrow> (StorageError + bytes) option" where
  "parse_export w export_blob =
     (if length export_blob < 8 then Some (Err (Crypto ''export blob too short''))
      else case read_u32 0 4 export_blob of None \<Rightarrow> None | Some id_len \<Rightarrow>
      case checked_add w 4 id_len of
        None \<Rightarrow> Some (Err (Crypto ''export blob id length overflows''))
      | Some id_end \<Rightarrow>
      if length export_blob < wrapping_add w id_end 4
      then Some (Err (Crypto ''export blob truncated at id''))
      else case read_u32 id_end (wrapping_add w id_end 4) export_blob of None \<Rightarrow> None | Some cipher_len \<Rightarrow>
      let cipher_start = wrapping_add w id_end 4 in
      case checked_add w cipher_start cipher_len of
        None \<Rightarrow> Some (Err (Crypto ''export blob cipher length overflows''))
      | Some cipher_end \<Rightarrow>
      if length export_blob < cipher_end
      then Some (Err (Crypto ''export blob truncated at ciphertext''))
      else map_option Inr (slice_range cipher_start cipher_end export_blob))"

definition import_keys ::
  "nat \<Rightarrow> prims \<Rightarrow> 's KeyStore \<Rightarrow> string \<Rightarrow> bytes \<Rightarrow> bytes \<Rightarrow> ('s world, (StorageError + unit) option) async" where
  "import_keys w P K i export_blob passphrase =
     (case parse_export w export_blob of
        None \<Rightarrow> Ready None
      | Some (Inl e) \<Rightarrow> Ready (Some (Err e))
      | Some (Inr ciphertext) \<Rightarrow>
          (case decrypt_key P ciphertext passphrase of
             Inl e \<Rightarrow> Ready (Some (Err e))
           | Inr _ \<Rightarrow> abind (db (put_key_blob K i ciphertext)) (\<lambda>r. Ready (Some r))))"

subsection \<open>Layouts\<close>

lemma length_u32_le_bytes [simp]: "length (u32_le_bytes n) = 4"
  by (simp add: u32_le_bytes_def)

lemma unat_byte_of_nat: "unat (of_nat n :: byte) = n mod 256"
  by (simp add: unat_of_nat take_bit_eq_mod)

lemma u32_le_bytes_roundtrip:
  assumes "n < 2 ^ 32"
  shows "u32_of_le_bytes (u32_le_bytes n) = n"
proof -
  have "n = n mod 256 + 256 * (n div 256)" by simp
  moreover have "n div 256 = n div 256 mod 256 + 256 * (n div 65536)"
    using div_mult2_eq [of n 256 256] by simp
  moreover have "n div 65536 = n div 65536 mod 256 + 256 * (n div 16777216)"
    using div_mult2_eq [of n 65536 256] by simp
  moreover have "n div 16777216 mod 256 = n div 16777216"
    using assms by (simp add: div_less_iff_less_mult)
  moreover have "u32_of_le_bytes (u32_le_bytes n) = n mod 256 + 256 * (n div 256 mod 256) +
      65536 * (n div 65536 mod 256) + 16777216 * (n div 16777216 mod 256)"
    by (simp add: u32_of_le_bytes_def u32_le_bytes_def unat_byte_of_nat)
  ultimately show ?thesis by linarith
qed

lemma u32_of_le_bytes_less: "u32_of_le_bytes bs < 2 ^ 32"
proof -
  have b: "unat x \<le> 255" for x :: byte
    using unsigned_less [of x, where 'a = nat] by simp
  have "unat p + 256 * unat q + 65536 * unat r + 16777216 * unat t < 2 ^ 32" for p q r t :: byte
    using b [of p] b [of q] b [of r] b [of t] by simp
  then show ?thesis by (simp add: u32_of_le_bytes_def split: list.splits)
qed

lemma slice_range_mid: "slice_range (length a) (length a + length b) (a @ b @ c) = Some b"
  by (simp add: slice_range_def)

lemma read_u32_mid:
  "n < 2 ^ 32 \<Longrightarrow> read_u32 (length a) (length a + 4) (a @ u32_le_bytes n @ c) = Some n"
  using slice_range_mid [of a "u32_le_bytes n" c] by (simp add: read_u32_def u32_le_bytes_roundtrip)

text \<open>On a 64-bit target the parser inverts the export layout and never panics, whatever it is given.\<close>

lemma parse_export_roundtrip:
  assumes "length i < 2 ^ 32" "length ct < 2 ^ 32"
  shows "parse_export 64 (u32_le_bytes (length i) @ i @ u32_le_bytes (length ct) @ ct) = Some (Ok ct)"
proof -
  let ?b = "u32_le_bytes (length i) @ i @ u32_le_bytes (length ct) @ ct"
  have 1: "read_u32 0 4 ?b = Some (length i)"
    using read_u32_mid [OF assms(1), of "[]"] by simp
  have 2: "read_u32 (4 + length i) (4 + length i + 4) ?b = Some (length ct)"
    using read_u32_mid [OF assms(2), of "u32_le_bytes (length i) @ i"] by simp
  have 3: "slice_range (4 + length i + 4) (4 + length i + 4 + length ct) ?b = Some ct"
    using slice_range_mid [of "u32_le_bytes (length i) @ i @ u32_le_bytes (length ct)" ct "[]"]
    by (simp add: add.assoc)
  show ?thesis
    using assms 1 2 3 by (simp add: parse_export_def checked_add_def wrapping_add_def Let_def add.assoc)
qed

lemma parse_export_no_panic: "parse_export 64 b \<noteq> None"
proof (cases "length b < 8")
  case False
  have lt: "n < 2 ^ 32" if "read_u32 x y b = Some n" for x y n
    using that u32_of_le_bytes_less by (auto simp: read_u32_def split: option.splits if_splits)
  have r: "\<exists>n. read_u32 x (x + 4) b = Some n" if "x + 4 \<le> length b" for x
    using that by (simp add: read_u32_def slice_range_def)
  obtain n where n: "read_u32 0 4 b = Some n" using r [of 0] False by auto
  note nlt = lt [OF n]
  show ?thesis
  proof (cases "length b < n + 8")
    case short: True
    with n nlt False show ?thesis
      by (simp add: parse_export_def checked_add_def wrapping_add_def)
  next
    case long: False
    then obtain m where m: "read_u32 (4 + n) (4 + n + 4) b = Some m" using r [of "4 + n"] by auto
    note mlt = lt [OF m]
    show ?thesis
      using n nlt m mlt False long
      by (simp add: parse_export_def checked_add_def wrapping_add_def slice_range_def Let_def)
  qed
qed (simp add: parse_export_def)

text \<open>Where \<open>usize\<close> has 32 bits the unchecked \<open>id_end + 4\<close> wraps, and a hostile length panics the parser.\<close>

lemma parse_export_panics_32:
  "parse_export 32 ([251, 255, 255, 255] @ [0, 0, 0, 0]) = None"
  by (simp add: parse_export_def read_u32_def slice_range_def u32_of_le_bytes_def checked_add_def wrapping_add_def)


subsection \<open>Storing, loading, moving keys\<close>

text \<open>
  What the AEAD promises: decryption under the key and nonce of an encryption gives the message
  back, and a ciphertext is the message and a 16-byte tag.
\<close>

definition aead_ok :: "'x prims_scheme \<Rightarrow> bool" where
  "aead_ok P = (\<forall>k n m c. aes_gcm_encrypt P k n m = Some c \<longrightarrow>
     aes_gcm_decrypt P k n c = Some m \<and> length c = length m + 16)"

lemma run_encrypt_key:
  assumes "aead_ok P" "run (encrypt_key P m pass) w = (Ok blob, w')"
  shows "decrypt_key P blob pass = Ok m \<and> length blob = length m + 44 \<and> w_store w' = w_store w"
  using assms
  by (auto simp: encrypt_key_def decrypt_key_def async_simps aead_ok_def Let_def and_then_def ok_or_def
      split: sum.splits option.splits)

lemma encrypt_key_Err: "run (encrypt_key P m pass) w = (Err e, w') \<Longrightarrow> w_store w' = w_store w"
  by (auto simp: encrypt_key_def async_simps split: sum.splits)

context key_store
begin

lemma get_after_put:
  assumes "good s" "up s" "put_key_blob K i c s = (r, s')"
  shows "r = Ok () \<and> good s' \<and> up s' \<and> (\<exists>s2. get_key_blob K i s' = (Ok (Some c), s2))"
proof -
  have 1: "good s'" "up s'" "spec_put_key_blob i c (\<alpha> s) r (\<alpha> s')"
    using meets_up [OF put_key_blob assms] by auto
  obtain r2 s2 where 2: "get_key_blob K i s' = (r2, s2)" by (cases "get_key_blob K i s'")
  have "spec_get_key_blob i (\<alpha> s') r2 (\<alpha> s2)"
    using meets_up [OF get_key_blob 1(1,2) 2] by auto
  with 1 2 show ?thesis
    by (auto simp: spec_put_key_blob_def spec_get_key_blob_def writes_def reads_def)
qed

lemma store_then_load:
  assumes "aead_ok P" "good (w_store w)" "up (w_store w)"
    and "run (store_key P K i m pass) w = (Ok (), w')"
  shows "good (w_store w') \<and> up (w_store w') \<and> fst (run (load_key P K i pass) w') = Ok m \<and>
    (\<exists>c s2. get_key_blob K i (w_store w') = (Ok (Some c), s2) \<and> decrypt_key P c pass = Ok m \<and> length c = length m + 44)"
proof -
  obtain blob w1 where enc: "run (encrypt_key P m pass) w = (Ok blob, w1)"
    and put: "run (db (put_key_blob K i blob)) w1 = (Ok (), w')"
    using assms(4) unfolding store_key_def by (elim await_ok_run_Ok) blast
  note dec = run_encrypt_key [OF assms(1) enc]
  obtain s' where s': "put_key_blob K i blob (w_store w1) = (Ok (), s')" "w' = w1\<lparr>w_store := s'\<rparr>"
    using put by (auto simp: async_simps split: prod.splits)
  from get_after_put [OF _ _ s'(1)] dec assms(2,3) s'(2) show ?thesis
    by (auto simp: load_key_def async_simps)
qed

end

text \<open>A key survives storage and moving house. What \<open>store_key\<close> writes, \<open>load_key\<close> with the same
  passphrase reads back; \<open>export_keys\<close> then yields a blob that \<open>import_keys\<close> accepts into any other
  backend under any slot, and loading it there gives the same key. This is for any two backends that
  meet the key-store contract, any key that fits the \<open>u32\<close> length fields, and any AEAD that
  decrypts what it encrypted.\<close>

theorem key_export_import_portable:
  assumes "aead_ok P" "key_store K1 good1 up1 \<alpha>1" "key_store K2 good2 up2 \<alpha>2"
    and "good1 (w_store w1)" "up1 (w_store w1)" "good2 (w_store w2)" "up2 (w_store w2)"
    and "run (store_key P K1 i m pass) w1 = (Ok (), w1')"
    and "length i < 2 ^ 32" "length m < 2 ^ 32 - 44"
  shows "fst (run (load_key P K1 i pass) w1') = Ok m \<and>
    (\<exists>blob. fst (run (export_keys P K1 i pass) w1') = Ok blob \<and>
      fst (run (import_keys 64 P K2 j blob pass) w2) = Some (Ok ()) \<and>
      fst (run (load_key P K2 j pass) (snd (run (import_keys 64 P K2 j blob pass) w2))) = Ok m)"
proof -
  from key_store.store_then_load [OF assms(2,1,4,5,8)] obtain c s2 where
    load: "fst (run (load_key P K1 i pass) w1') = Ok m"
    and get: "get_key_blob K1 i (w_store w1') = (Ok (Some c), s2)"
    and dec: "decrypt_key P c pass = Ok m" and len: "length c = length m + 44" by blast
  let ?blob = "u32_le_bytes (length i) @ as_bytes i @ u32_le_bytes (length c) @ c"
  have exp: "fst (run (export_keys P K1 i pass) w1') = Ok ?blob"
    using get dec by (simp add: export_keys_def async_simps Let_def)
  have parse: "parse_export 64 ?blob = Some (Ok c)"
    using parse_export_roundtrip [of "as_bytes i" c] assms(9,10) len by simp
  obtain r s' where put: "put_key_blob K2 j c (w_store w2) = (r, s')"
    by (cases "put_key_blob K2 j c (w_store w2)")
  from key_store.get_after_put [OF assms(3,6,7) put] obtain s3 where
    "r = Ok ()" "get_key_blob K2 j s' = (Ok (Some c), s3)" by blast
  then have "run (import_keys 64 P K2 j ?blob pass) w2 = (Some (Ok ()), w2\<lparr>w_store := s'\<rparr>)"
    "fst (run (load_key P K2 j pass) (w2\<lparr>w_store := s'\<rparr>)) = Ok m"
    using put parse dec by (simp_all add: import_keys_def load_key_def async_simps)
  with load exp show ?thesis by auto
qed

text \<open>Importing never panics on a 64-bit target and never writes anything it could not open: whatever
  bytes and passphrase are given, the call returns, and unless the blob parses and its ciphertext
  decrypts under the passphrase the result is a \<open>Crypto\<close> error with the store untouched.\<close>

theorem import_keys_safe:
  assumes "run (import_keys 64 P K i blob pass) w = (r, w')"
  shows "r \<noteq> None \<and>
    ((\<exists>c m. parse_export 64 blob = Some (Ok c) \<and> decrypt_key P c pass = Ok m \<and>
        (r, w') = map_prod Some id (run (db (put_key_blob K i c)) w)) \<or>
     (\<exists>e. r = Some (Err (Crypto e)) \<and> w' = w))"
proof -
  have perr: "\<exists>m. e = Crypto m" if "parse_export 64 blob = Some (Err e)" for e
    using that by (auto simp: parse_export_def Let_def split: if_splits option.splits)
  have derr: "\<exists>m. e = Crypto m" if "decrypt_key P c pass = Err e" for c e
    using that by (auto simp: decrypt_key_def Let_def ok_or_def and_then_def map_err_def
        split: if_splits option.splits sum.splits)
  show ?thesis
    using assms parse_export_no_panic [of blob] perr derr
    by (fastforce simp: import_keys_def async_simps split: option.splits sum.splits prod.splits)
qed


subsection \<open>Witnesses\<close>

text \<open>A toy suite of primitives under which the hypotheses hold: the AEAD appends a tag made of the key.\<close>

definition wit_prims :: prims where
  "wit_prims = \<lparr>sha256 = (\<lambda>b. b), b64url_encode = from_bytes, b64url_decode = (\<lambda>s. Some (as_bytes s)),
     hexlower = from_bytes, argon2_into = (\<lambda>pw salt. Ok pw),
     aes_gcm_encrypt = (\<lambda>k n m. Some (m @ take 16 (k @ replicate 16 0))),
     aes_gcm_decrypt = (\<lambda>k n c. if 16 \<le> length c \<and> drop (length c - 16) c = take 16 (k @ replicate 16 0)
       then Some (take (length c - 16) c) else None)\<rparr>"

lemma aead_wit: "aead_ok wit_prims"
  by (auto simp: aead_ok_def wit_prims_def)

definition wit_world :: "'s \<Rightarrow> 's world" where
  "wit_world s = \<lparr>w_store = s, w_clock = 1000, w_rng = (\<lambda>n. of_nat n), w_rng_pos = 0,
     w_micros = 1000000000, w_rfc3339 = ''1970-01-01T00:16:40+00:00'', w_key_cache = [], w_published = []\<rparr>"

theorem key_export_import_portable_witness:
  "\<exists>blob. fst (run (export_keys wit_prims (key_ops mem_backend) ''signing'' [7])
      (snd (run (store_key wit_prims (key_ops mem_backend) ''signing'' [1, 2] [7]) (wit_world (mem_new ''t''))))) = Ok blob \<and>
    fst (run (import_keys 64 wit_prims (key_ops wit_sqlite) ''moved'' blob [7]) (wit_world wit_db)) = Some (Ok ()) \<and>
    fst (run (load_key wit_prims (key_ops wit_sqlite) ''moved'' [7])
      (snd (run (import_keys 64 wit_prims (key_ops wit_sqlite) ''moved'' blob [7]) (wit_world wit_db)))) = Ok [1, 2]"
proof -
  let ?w = "wit_world (mem_new ''t'')"
  have st: "run (store_key wit_prims (key_ops mem_backend) ''signing'' [1, 2] [7]) ?w =
      (Ok (), snd (run (store_key wit_prims (key_ops mem_backend) ''signing'' [1, 2] [7]) ?w))"
    by (simp add: store_key_def encrypt_key_def async_simps wit_prims_def mem_put_key_blob_def)
  from key_export_import_portable [OF aead_wit mem.key.key_store_axioms unary.sql.key.key_store_axioms _ _ _ _ st, of "wit_world wit_db" "''moved''"]
  show ?thesis by (simp add: wit_world_def mem_ok_new mem_up_def wit_db_def)
qed

theorem import_keys_safe_witness:
  "fst (run (import_keys 64 wit_prims (key_ops mem_backend) ''k'' [1, 2, 3] []) (wit_world (mem_new ''t''))) \<noteq> None"
  using import_keys_safe [OF prod.collapse [symmetric], of wit_prims "key_ops mem_backend" "''k''" "[1, 2, 3]" "[]" "wit_world (mem_new ''t'')"]
  by blast

end
