(* ===== verification/OAuth_Jose.thy ===== *)
theory OAuth_Jose
  imports OAuth_Core Key_Crypto
begin

text \<open>
  Keys and signed tokens (\<open>rust-core/src/oauth/jwk.rs\<close>, \<open>jws.rs\<close>, \<open>token.rs\<close>): JSON Web Keys on the two
  permitted curves, compact JWS signing and verification, and the access tokens made of them.

  \<open>oauth_prims\<close> adds the third-party functions this layer calls: \<open>serde_json\<close> and the derived
  (de)serialisers of the claim types, and the elliptic-curve operations of \<open>p256\<close> and \<open>k256\<close>.
\<close>

subsection \<open>JSON values\<close>

text \<open>\<open>serde_json::Value\<close>. An object is an association list; \<open>get\<close> on another variant is \<open>None\<close>.\<close>

datatype json =
    Null
  | Bool bool
  | Number int
  | Float string
  | String string
  | Array "json list"
  | Object "(string \<times> json) list"

fun as_object :: "json \<Rightarrow> (string \<times> json) list option" where
  "as_object (Object kvs) = Some kvs"
| "as_object _ = None"

fun as_str :: "json \<Rightarrow> string option" where
  "as_str (String s) = Some s"
| "as_str _ = None"

definition json_get :: "json \<Rightarrow> string \<Rightarrow> json option" where
  "json_get v k = (case as_object v of None \<Rightarrow> None | Some kvs \<Rightarrow> map_of kvs k)"

subsection \<open>Algorithms and keys\<close>

datatype Alg = ES256 | ES256K

fun Alg_as_str :: "Alg \<Rightarrow> string" where
  "Alg_as_str ES256 = ''ES256''"
| "Alg_as_str ES256K = ''ES256K''"

definition Alg_parse :: "string \<Rightarrow> OAuthError + Alg" where
  "Alg_parse s = (if s = ''ES256'' then Ok ES256 else if s = ''ES256K'' then Ok ES256K
     else Err (UnsupportedAlgorithm s))"

fun Alg_curve :: "Alg \<Rightarrow> string" where
  "Alg_curve ES256 = ''P-256''"
| "Alg_curve ES256K = ''secp256k1''"

record PublicJwk =
  jwk_kty :: string
  jwk_crv :: string
  jwk_x :: string
  jwk_y :: string
  jwk_kid :: "string option"
  jwk_alg :: "string option"
  jwk_use :: "string option"

record Cnf =
  cnf_jkt :: string

record AccessTokenClaims =
  at_iss :: string
  at_sub :: string
  at_aud :: string
  at_client_id :: string
  at_scope :: string
  at_jti :: string
  at_iat :: nat
  at_exp :: nat
  at_cnf :: Cnf

record DpopClaims =
  dc_jti :: string
  dc_htm :: string
  dc_htu :: string
  dc_iat :: nat
  dc_nonce :: "string option"
  dc_ath :: "string option"

text \<open>
  The signing key of the \<open>p256\<close> crate is its scalar. \<open>p256_random\<close> reads the random source from a
  position on and says where it stopped.
\<close>

record oauth_prims = prims +
  json_from_slice :: "bytes \<Rightarrow> json option"
  json_to_vec :: "json \<Rightarrow> string + bytes"
  jwk_from_value :: "json \<Rightarrow> string + PublicJwk"
  access_from_slice :: "bytes \<Rightarrow> string + AccessTokenClaims"
  access_to_vec :: "AccessTokenClaims \<Rightarrow> string + bytes"
  dpop_from_slice :: "bytes \<Rightarrow> string + DpopClaims"
  ec_point_ok :: "Alg \<Rightarrow> bytes \<Rightarrow> bool" \<comment> \<open>\<open>VerifyingKey::from_sec1_bytes\<close>\<close>
  ec_sig_ok :: "Alg \<Rightarrow> bytes \<Rightarrow> bool" \<comment> \<open>\<open>Signature::from_slice\<close>\<close>
  ec_verify :: "Alg \<Rightarrow> bytes \<Rightarrow> bytes \<Rightarrow> bytes \<Rightarrow> bool" \<comment> \<open>point, message, signature\<close>
  p256_random :: "(nat \<Rightarrow> byte) \<Rightarrow> nat \<Rightarrow> bytes \<times> nat"
  p256_scalar_ok :: "bytes \<Rightarrow> bool" \<comment> \<open>\<open>SigningKey::from_slice\<close>\<close>
  p256_xy :: "bytes \<Rightarrow> bytes \<times> bytes" \<comment> \<open>coordinates of the public point\<close>
  p256_sign :: "bytes \<Rightarrow> bytes \<Rightarrow> bytes" \<comment> \<open>scalar, message\<close>

definition PRIVATE_MEMBERS :: "string list" where
  "PRIVATE_MEMBERS = [''d'', ''p'', ''q'', ''dp'', ''dq'', ''qi'', ''oth'']"

definition reject_if_private :: "json \<Rightarrow> OAuthError + unit" where
  "reject_if_private v = (case as_object v of
     None \<Rightarrow> Ok ()
   | Some obj \<Rightarrow>
       if list_ex (\<lambda>m. map_of obj m \<noteq> None) PRIVATE_MEMBERS
       then Err (InvalidDpopProof ''embedded JWK contains private key material'') else Ok ())"

definition PublicJwk_alg :: "PublicJwk \<Rightarrow> OAuthError + Alg" where
  "PublicJwk_alg k =
     (if jwk_kty k \<noteq> ''EC'' then Err (UnsupportedAlgorithm (''unsupported kty: '' @ jwk_kty k))
      else and_then
        (if jwk_crv k = ''P-256'' then Ok ES256
         else if jwk_crv k = ''secp256k1'' then Ok ES256K
         else Err (UnsupportedAlgorithm (''unsupported crv: '' @ jwk_crv k)))
        (\<lambda>from_curve. case jwk_alg k of
           None \<Rightarrow> Ok from_curve
         | Some declared \<Rightarrow> and_then (Alg_parse declared) (\<lambda>declared.
             if declared \<noteq> from_curve
             then Err (UnsupportedAlgorithm (''JWK declares alg '' @ Alg_as_str declared @ '' but crv '' @
               jwk_crv k @ '' implies '' @ Alg_as_str from_curve))
             else Ok from_curve)))"

definition sec1_uncompressed :: "'x prims_scheme \<Rightarrow> PublicJwk \<Rightarrow> OAuthError + bytes" where
  "sec1_uncompressed P k =
     and_then (ok_or (InvalidDpopProof ''JWK x is not base64url'') (b64url_decode P (jwk_x k))) (\<lambda>x.
     and_then (ok_or (InvalidDpopProof ''JWK y is not base64url'') (b64url_decode P (jwk_y k))) (\<lambda>y.
       if length x \<noteq> 32 \<or> length y \<noteq> 32
       then Err (InvalidDpopProof ''JWK coordinates must be 32 bytes'')
       else Ok (0x04 # x @ y)))"

definition bad_sig :: OAuthError where
  "bad_sig = InvalidDpopProof ''signature verification failed''"

definition PublicJwk_verify :: "'x oauth_prims_scheme \<Rightarrow> PublicJwk \<Rightarrow> bytes \<Rightarrow> bytes \<Rightarrow> OAuthError + unit" where
  "PublicJwk_verify P k message signature =
     and_then (sec1_uncompressed P k) (\<lambda>point.
     and_then (PublicJwk_alg k) (\<lambda>alg.
       if \<not> ec_point_ok P alg point
       then Err (InvalidDpopProof (case alg of ES256 \<Rightarrow> ''invalid P-256 point'' | ES256K \<Rightarrow> ''invalid secp256k1 point''))
       else if \<not> ec_sig_ok P alg signature then Err bad_sig
       else if ec_verify P alg point message signature then Ok () else Err bad_sig))"

definition thumbprint :: "'x prims_scheme \<Rightarrow> PublicJwk \<Rightarrow> string" where
  "thumbprint P k =
     (let canonical = ''{\"crv\":\"'' @ jwk_crv k @ ''\",\"kty\":\"'' @ jwk_kty k @
        ''\",\"x\":\"'' @ jwk_x k @ ''\",\"y\":\"'' @ jwk_y k @ ''\"}''
      in b64url_encode P (sha256 P (as_bytes canonical)))"

subsection \<open>The server's signing key\<close>

record SigningKey =
  sk_inner :: bytes
  sk_kid :: string

definition public_jwk_without_kid :: "'x oauth_prims_scheme \<Rightarrow> bytes \<Rightarrow> PublicJwk" where
  "public_jwk_without_kid P inner = \<lparr>jwk_kty = ''EC'', jwk_crv = ''P-256'',
     jwk_x = b64url_encode P (fst (p256_xy P inner)), jwk_y = b64url_encode P (snd (p256_xy P inner)),
     jwk_kid = None, jwk_alg = None, jwk_use = None\<rparr>"

definition with_derived_kid :: "'x oauth_prims_scheme \<Rightarrow> bytes \<Rightarrow> SigningKey" where
  "with_derived_kid P inner = \<lparr>sk_inner = inner, sk_kid = thumbprint P (public_jwk_without_kid P inner)\<rparr>"

definition SigningKey_generate :: "'x oauth_prims_scheme \<Rightarrow> ('s world, SigningKey) async" where
  "SigningKey_generate P = atomic (\<lambda>w.
     case p256_random P (w_rng w) (w_rng_pos w) of (scalar, pos) \<Rightarrow>
       (with_derived_kid P scalar, w\<lparr>w_rng_pos := pos\<rparr>))"

definition SigningKey_import :: "'x oauth_prims_scheme \<Rightarrow> bytes \<Rightarrow> OAuthError + SigningKey" where
  "SigningKey_import P scalar = (if p256_scalar_ok P scalar then Ok (with_derived_kid P scalar)
     else Err (Internal ''invalid P-256 signing key scalar''))"

definition SigningKey_export :: "SigningKey \<Rightarrow> bytes" where
  "SigningKey_export k = sk_inner k"

definition bare_public_jwk :: "'x oauth_prims_scheme \<Rightarrow> SigningKey \<Rightarrow> PublicJwk" where
  "bare_public_jwk P k = public_jwk_without_kid P (sk_inner k)"

definition public_jwk :: "'x oauth_prims_scheme \<Rightarrow> SigningKey \<Rightarrow> PublicJwk" where
  "public_jwk P k = (public_jwk_without_kid P (sk_inner k))
     \<lparr>jwk_kid := Some (sk_kid k), jwk_alg := Some ''ES256'', jwk_use := Some ''sig''\<rparr>"

definition SigningKey_sign :: "'x oauth_prims_scheme \<Rightarrow> SigningKey \<Rightarrow> bytes \<Rightarrow> bytes" where
  "SigningKey_sign P k message = p256_sign P (sk_inner k) message"

subsection \<open>Compact JWS\<close>

record Unverified =
  uv_header :: json
  uv_payload_bytes :: bytes
  uv_signing_input :: string
  uv_signature :: bytes

definition malformed :: "string \<Rightarrow> OAuthError" where
  "malformed what = InvalidDpopProof (''malformed JWS: '' @ what)"

definition Unverified_parse :: "'x oauth_prims_scheme \<Rightarrow> string \<Rightarrow> OAuthError + Unverified" where
  "Unverified_parse P token = (case split_on CHR ''.'' token of
     [h, p, s] \<Rightarrow>
       and_then (ok_or (malformed ''header is not base64url'') (b64url_decode P h)) (\<lambda>header_bytes.
       and_then (ok_or (malformed ''payload is not base64url'') (b64url_decode P p)) (\<lambda>payload_bytes.
       and_then (ok_or (malformed ''signature is not base64url'') (b64url_decode P s)) (\<lambda>signature.
       and_then (ok_or (malformed ''header is not JSON'') (json_from_slice P header_bytes)) (\<lambda>header.
         Ok \<lparr>uv_header = header, uv_payload_bytes = payload_bytes,
             uv_signing_input = h @ ''.'' @ p, uv_signature = signature\<rparr>))))
   | _ \<Rightarrow> Err (malformed ''expected exactly three segments''))"

definition header_str :: "Unverified \<Rightarrow> string \<Rightarrow> string option" where
  "header_str u key = Option.bind (json_get (uv_header u) key) as_str"

definition Unverified_alg :: "Unverified \<Rightarrow> OAuthError + Alg" where
  "Unverified_alg u = and_then (ok_or (InvalidDpopProof ''JWS header has no alg'') (header_str u ''alg'')) Alg_parse"

text \<open>\<open>verify_with\<close> and \<open>payload_unverified\<close> are generic in the claim type; \<open>de\<close> is its deserialiser.\<close>

definition payload_unverified :: "(bytes \<Rightarrow> string + 'c) \<Rightarrow> Unverified \<Rightarrow> OAuthError + 'c" where
  "payload_unverified de u =
     map_err (\<lambda>e. InvalidDpopProof (''payload is not valid JSON: '' @ e)) (de (uv_payload_bytes u))"

definition verify_with ::
  "'x oauth_prims_scheme \<Rightarrow> (bytes \<Rightarrow> string + 'c) \<Rightarrow> Unverified \<Rightarrow> PublicJwk \<Rightarrow> OAuthError + 'c" where
  "verify_with P de u jwk =
     and_then (PublicJwk_alg jwk) (\<lambda>key_alg.
     and_then (Unverified_alg u) (\<lambda>alg.
       if alg \<noteq> key_alg then Err (InvalidDpopProof ''JWS alg does not match the key's curve'')
       else and_then (PublicJwk_verify P jwk (as_bytes (uv_signing_input u)) (uv_signature u)) (\<lambda>_.
         map_err (\<lambda>e. InvalidDpopProof (''payload is not valid JSON: '' @ e)) (de (uv_payload_bytes u)))))"

definition jws_sign ::
  "'x oauth_prims_scheme \<Rightarrow> ('c \<Rightarrow> string + bytes) \<Rightarrow> SigningKey \<Rightarrow> string \<Rightarrow> 'c \<Rightarrow> OAuthError + string" where
  "jws_sign P ser key typ claims =
     (let header = Object [(''typ'', String typ), (''alg'', String ''ES256''), (''kid'', String (sk_kid key))] in
      and_then (map_err (\<lambda>e. Internal (''encode JWS header: '' @ e)) (json_to_vec P header)) (\<lambda>hv.
      let header_b64 = b64url_encode P hv in
      and_then (map_err (\<lambda>e. Internal (''encode JWS payload: '' @ e)) (ser claims)) (\<lambda>pv.
      let payload_b64 = b64url_encode P pv;
          signing_input = header_b64 @ ''.'' @ payload_b64;
          sig = SigningKey_sign P key (as_bytes signing_input)
      in Ok (signing_input @ ''.'' @ b64url_encode P sig))))"

definition jws_verify ::
  "'x oauth_prims_scheme \<Rightarrow> (bytes \<Rightarrow> string + 'c) \<Rightarrow> SigningKey \<Rightarrow> string \<Rightarrow> string \<Rightarrow> OAuthError + 'c" where
  "jws_verify P de key expected_typ token =
     and_then (map_err (\<lambda>_. InvalidToken ''malformed token'') (Unverified_parse P token)) (\<lambda>unverified.
       if header_str unverified ''typ'' \<noteq> Some expected_typ
       then Err (InvalidToken (''expected typ '' @ expected_typ))
       else map_err (\<lambda>_. InvalidToken ''signature verification failed'')
         (verify_with P de unverified (public_jwk P key)))"

subsection \<open>Access tokens\<close>

definition ACCESS_TOKEN_TTL_SECS :: nat where
  "ACCESS_TOKEN_TTL_SECS = 3600"

definition REFRESH_TOKEN_TTL_SECS :: nat where
  "REFRESH_TOKEN_TTL_SECS = 90 * 24 * 3600"

definition AUTH_CODE_TTL_SECS :: nat where
  "AUTH_CODE_TTL_SECS = 60"

definition PAR_TTL_SECS :: nat where
  "PAR_TTL_SECS = 300"

definition claims_scope :: "AccessTokenClaims \<Rightarrow> OAuthError + Scope" where
  "claims_scope c = Scope_parse (at_scope c)"

record TokenIssuer =
  ti_key :: SigningKey
  ti_issuer :: string
  ti_audience :: string

definition TokenIssuer_new :: "SigningKey \<Rightarrow> string \<Rightarrow> string \<Rightarrow> TokenIssuer" where
  "TokenIssuer_new key issuer audience = \<lparr>ti_key = key, ti_issuer = issuer, ti_audience = audience\<rparr>"

definition issue_access_token ::
  "'x oauth_prims_scheme \<Rightarrow> TokenIssuer \<Rightarrow> string \<Rightarrow> string \<Rightarrow> Scope \<Rightarrow> string \<Rightarrow>
     ('s world, OAuthError + (string \<times> nat)) async" where
  "issue_access_token P ti did client_id scope jkt =
     abind now_unix (\<lambda>now.
     abind (random_token P 16) (\<lambda>jti.
     let claims = \<lparr>at_iss = ti_issuer ti, at_sub = did, at_aud = ti_audience ti, at_client_id = client_id,
           at_scope = Scope_to_string scope, at_jti = jti, at_iat = now, at_exp = now + ACCESS_TOKEN_TTL_SECS,
           at_cnf = \<lparr>cnf_jkt = jkt\<rparr>\<rparr> in
     try_ok (jws_sign P (access_to_vec P) (ti_key ti) ''at+jwt'' claims) (\<lambda>token.
     Ready (Ok (token, ACCESS_TOKEN_TTL_SECS)))))"

definition verify_access_token ::
  "'x oauth_prims_scheme \<Rightarrow> TokenIssuer \<Rightarrow> string \<Rightarrow> ('s world, OAuthError + AccessTokenClaims) async" where
  "verify_access_token P ti token =
     try_ok (jws_verify P (access_from_slice P) (ti_key ti) ''at+jwt'' token) (\<lambda>claims.
     abind now_unix (\<lambda>now.
       Ready (if at_exp claims \<le> now then Err (InvalidToken ''access token has expired'')
         else if at_iss claims \<noteq> ti_issuer ti then Err (InvalidToken ''access token issuer does not match'')
         else if at_aud claims \<noteq> ti_audience ti then Err (InvalidToken ''access token audience does not match'')
         else Ok claims)))"


subsection \<open>Verification is sound\<close>

lemma Alg_parse_Ok [simp]: "Alg_parse s = Ok a \<longleftrightarrow> s = Alg_as_str a"
  by (cases a) (auto simp: Alg_parse_def)

lemma Alg_parse_as_str [simp]: "Alg_parse (Alg_as_str a) = Ok a"
  by simp

lemma Alg_inj [simp]: "Alg_as_str a = Alg_as_str b \<longleftrightarrow> a = b" "Alg_curve a = Alg_curve b \<longleftrightarrow> a = b"
  by (cases a; cases b; simp)+

lemma PublicJwk_alg_Ok:
  "PublicJwk_alg k = Ok a \<longleftrightarrow> jwk_kty k = ''EC'' \<and> jwk_crv k = Alg_curve a \<and> jwk_alg k \<in> {None, Some (Alg_as_str a)}"
  by (cases a) (auto simp: PublicJwk_alg_def and_then_Ok_iff split: option.splits)

lemma sec1_uncompressed_Ok:
  "sec1_uncompressed P k = Ok pt \<longleftrightarrow> (\<exists>x y. b64url_decode P (jwk_x k) = Some x \<and> b64url_decode P (jwk_y k) = Some y \<and>
     length x = 32 \<and> length y = 32 \<and> pt = 0x04 # x @ y)"
  by (auto simp: sec1_uncompressed_def and_then_Ok_iff)

lemma PublicJwk_verify_Ok:
  "PublicJwk_verify P k m sig = Ok () \<longleftrightarrow> (\<exists>pt a. sec1_uncompressed P k = Ok pt \<and> PublicJwk_alg k = Ok a \<and>
     ec_point_ok P a pt \<and> ec_sig_ok P a sig \<and> ec_verify P a pt m sig)"
  by (auto simp: PublicJwk_verify_def and_then_Ok_iff)

lemma Unverified_parse_Ok:
  "Unverified_parse P token = Ok u \<longleftrightarrow> (\<exists>h p s hb. split_on CHR ''.'' token = [h, p, s] \<and>
     uv_signing_input u = h @ ''.'' @ p \<and> b64url_decode P h = Some hb \<and> json_from_slice P hb = Some (uv_header u) \<and>
     b64url_decode P p = Some (uv_payload_bytes u) \<and> b64url_decode P s = Some (uv_signature u))"
  by (cases u) (fastforce simp: Unverified_parse_def and_then_Ok_iff split: list.splits)

text \<open>What a verified signature stands for. \<open>verify_with\<close> returns claims exactly when the key is an EC
  key on one of the two curves whose declared algorithm, if any, is the curve's, the token's own
  \<open>alg\<close> is that algorithm too, the key's coordinates are a point of that curve, and the signature over
  the signing input verifies under that curve's primitive; the claims are the payload's. The token has
  no say in which primitive is used, and an \<open>alg\<close> of \<open>none\<close> (or any other) is never accepted.\<close>

theorem verify_with_exact:
  "verify_with P de u jwk = Ok c \<longleftrightarrow>
     (\<exists>alg x y. jwk_kty jwk = ''EC'' \<and> jwk_crv jwk = Alg_curve alg \<and> jwk_alg jwk \<in> {None, Some (Alg_as_str alg)} \<and>
        header_str u ''alg'' = Some (Alg_as_str alg) \<and>
        b64url_decode P (jwk_x jwk) = Some x \<and> b64url_decode P (jwk_y jwk) = Some y \<and> length x = 32 \<and> length y = 32 \<and>
        ec_point_ok P alg (0x04 # x @ y) \<and> ec_sig_ok P alg (uv_signature u) \<and>
        ec_verify P alg (0x04 # x @ y) (as_bytes (uv_signing_input u)) (uv_signature u) \<and>
        de (uv_payload_bytes u) = Ok c)"
proof -
  have "Unverified_alg u = Ok a \<longleftrightarrow> header_str u ''alg'' = Some (Alg_as_str a)" for a
    by (simp add: Unverified_alg_def and_then_Ok_iff)
  then show ?thesis
    by (auto simp: verify_with_def and_then_Ok_iff PublicJwk_verify_Ok sec1_uncompressed_Ok PublicJwk_alg_Ok)
qed

lemma verify_with_OkI:
  assumes "PublicJwk_alg jwk = Ok a" "header_str u ''alg'' = Some (Alg_as_str a)"
    and "PublicJwk_verify P jwk (as_bytes (uv_signing_input u)) (uv_signature u) = Ok ()"
    and "de (uv_payload_bytes u) = Ok c"
  shows "verify_with P de u jwk = Ok c"
  using assms by (simp add: verify_with_def Unverified_alg_def)

subsection \<open>Signing and verifying again\<close>

text \<open>What the crates promise: base64url text decodes to what was encoded and has no dot; a JSON object
  of strings prints to text that parses to an object with the same members; \<open>p256\<close> accepts its own
  signatures under the uncompressed encoding of its own public point.\<close>

definition b64_ok :: "'x prims_scheme \<Rightarrow> bool" where
  "b64_ok P = (\<forall>b. b64url_decode P (b64url_encode P b) = Some b \<and> CHR ''.'' \<notin> set (b64url_encode P b))"

definition json_ok :: "'x oauth_prims_scheme \<Rightarrow> bool" where
  "json_ok P = (\<forall>kvs. distinct (map fst kvs) \<longrightarrow> (\<exists>bs v. json_to_vec P (Object (map (map_prod id String) kvs)) = Ok bs \<and>
     json_from_slice P bs = Some v \<and> (\<forall>k. json_get v k = map_option String (map_of kvs k))))"

definition ecdsa_ok :: "'x oauth_prims_scheme \<Rightarrow> bytes \<Rightarrow> bool" where
  "ecdsa_ok P d = (case p256_xy P d of (x, y) \<Rightarrow> length x = 32 \<and> length y = 32 \<and> ec_point_ok P ES256 (0x04 # x @ y) \<and>
     (\<forall>m. ec_sig_ok P ES256 (p256_sign P d m) \<and> ec_verify P ES256 (0x04 # x @ y) m (p256_sign P d m)))"

definition serde_ok :: "('c \<Rightarrow> string + bytes) \<Rightarrow> (bytes \<Rightarrow> string + 'c) \<Rightarrow> bool" where
  "serde_ok ser de = (\<forall>c bs. ser c = Ok bs \<longrightarrow> de bs = Ok c)"

lemma sec1_public_jwk:
  assumes "b64_ok P" "ecdsa_ok P (sk_inner k)"
  shows "PublicJwk_verify P (public_jwk P k) m (SigningKey_sign P k m) = Ok ()"
  using assms
  by (auto simp: PublicJwk_verify_Ok sec1_uncompressed_Ok PublicJwk_alg_Ok public_jwk_def public_jwk_without_kid_def
      b64_ok_def ecdsa_ok_def SigningKey_sign_def split: prod.splits intro!: exI [of _ ES256])

lemma jws_roundtrip:
  assumes ok: "b64_ok P" "json_ok P" "ecdsa_ok P (sk_inner key)" "serde_ok ser de"
    and ser: "ser c = Ok pv"
  shows "\<exists>tok. jws_sign P ser key typ c = Ok tok \<and> jws_verify P de key typ tok = Ok c"
proof -
  let ?kvs = "[(''typ'', typ), (''alg'', ''ES256''), (''kid'', sk_kid key)]"
  let ?hdr = "Object [(''typ'', String typ), (''alg'', String ''ES256''), (''kid'', String (sk_kid key))]"
  have "distinct (map fst ?kvs)" by simp
  then obtain hv v where "json_to_vec P (Object (map (map_prod id String) ?kvs)) = Ok hv"
    and v: "json_from_slice P hv = Some v" "\<And>k. json_get v k = map_option String (map_of ?kvs k)"
    using ok(2) unfolding json_ok_def by blast
  then have hv: "json_to_vec P ?hdr = Ok hv" by simp
  let ?inp = "b64url_encode P hv @ ''.'' @ b64url_encode P pv"
  let ?sig = "SigningKey_sign P key (as_bytes ?inp)"
  let ?u = "\<lparr>uv_header = v, uv_payload_bytes = pv, uv_signing_input = ?inp, uv_signature = ?sig\<rparr>"
  have "split_on CHR ''.'' (?inp @ ''.'' @ b64url_encode P ?sig) =
      [b64url_encode P hv, b64url_encode P pv, b64url_encode P ?sig]"
    using ok(1) by (simp add: b64_ok_def split_on_append split_on_fresh)
  then have "Unverified_parse P (?inp @ ''.'' @ b64url_encode P ?sig) = Ok ?u"
    using ok(1) v(1) by (auto simp: Unverified_parse_Ok b64_ok_def)
  moreover have "verify_with P de ?u (public_jwk P key) = Ok c"
    using sec1_public_jwk [OF ok(1,3)] v(2) ok(4) ser
    by (intro verify_with_OkI [where a = ES256])
      (simp_all add: PublicJwk_alg_Ok public_jwk_def public_jwk_without_kid_def header_str_def serde_ok_def)
  moreover have "header_str ?u ''typ'' = Some typ" using v(2) by (simp add: header_str_def)
  ultimately show ?thesis
    using hv ser by (simp add: jws_sign_def jws_verify_def Let_def)
qed

lemma issued_token_verifies:
  assumes "b64_ok P" "json_ok P" "ecdsa_ok P (sk_inner (ti_key ti))" "serde_ok (access_to_vec P) (access_from_slice P)"
    and "run (issue_access_token P ti did client_id scope jkt) w = (Ok (tok, ttl), w1)"
  shows "ttl = 3600 \<and> w_store w1 = w_store w \<and>
    (\<exists>c. at_iss c = ti_issuer ti \<and> at_aud c = ti_audience ti \<and> at_sub c = did \<and> at_client_id c = client_id \<and>
      at_scope c = Scope_to_string scope \<and> cnf_jkt (at_cnf c) = jkt \<and> at_iat c = w_clock w \<and> at_exp c = w_clock w + ttl \<and>
      (\<forall>w2 :: 'v world. run (verify_access_token P ti tok) w2 =
        (if w_clock w2 < w_clock w + ttl then Ok c else Err (InvalidToken ''access token has expired''), w2)))"
proof -
  let ?c = "\<lparr>at_iss = ti_issuer ti, at_sub = did, at_aud = ti_audience ti, at_client_id = client_id,
           at_scope = Scope_to_string scope, at_jti = b64url_encode P (draw 16 w), at_iat = w_clock w,
           at_exp = w_clock w + ACCESS_TOKEN_TTL_SECS, at_cnf = \<lparr>cnf_jkt = jkt\<rparr>\<rparr>"
  have sign: "jws_sign P (access_to_vec P) (ti_key ti) ''at+jwt'' ?c = Ok tok"
    and ttl: "ttl = 3600" and st: "w_store w1 = w_store w"
    using assms(5) by (auto simp: issue_access_token_def async_simps Let_def ACCESS_TOKEN_TTL_SECS_def split: sum.splits)
  from sign obtain pv where "access_to_vec P ?c = Ok pv"
    by (auto simp: jws_sign_def Let_def and_then_Ok_iff)
  from jws_roundtrip [OF assms(1-4) this, of "''at+jwt''"] sign
  have ver: "jws_verify P (access_from_slice P) (ti_key ti) ''at+jwt'' tok = Ok ?c" by auto
  show ?thesis
    using ttl st by (intro conjI exI [of _ ?c]) (simp_all add: verify_access_token_def ver async_simps ACCESS_TOKEN_TTL_SECS_def not_less)
qed

text \<open>C29: an access token says what it was issued for. Whatever \<open>issue_access_token\<close> mints, the same issuer
  accepts at any clock reading before the hour is up, and the claims it gets back are the issuer,
  audience, account, client, scope string and key thumbprint of the call, with expiry one hour after
  issue; from the hour on the same token is refused. Hypotheses are round trips of the encodings, of the
  claims' serialisation and of the signature scheme.\<close>

theorem access_token_roundtrip:
  assumes "b64_ok P" "json_ok P" "ecdsa_ok P (sk_inner (ti_key ti))" "serde_ok (access_to_vec P) (access_from_slice P)"
    and "run (issue_access_token P ti did client_id scope jkt) w = (Ok (tok, ttl), w1)"
  shows "ttl = 3600 \<and> w_store w1 = w_store w \<and>
    (\<exists>c. at_iss c = ti_issuer ti \<and> at_aud c = ti_audience ti \<and> at_sub c = did \<and> at_client_id c = client_id \<and>
      at_scope c = Scope_to_string scope \<and> cnf_jkt (at_cnf c) = jkt \<and> at_iat c = w_clock w \<and> at_exp c = w_clock w + ttl \<and>
      (\<forall>w2 :: 'v world. run (verify_access_token P ti tok) w2 =
        (if w_clock w2 < w_clock w + ttl then Ok c else Err (InvalidToken ''access token has expired''), w2)))"
  using issued_token_verifies [OF assms] .

text \<open>Nothing else is accepted. A token the issuer accepts is three dot-separated base64url parts whose
  header has \<open>typ\<close> \<open>at+jwt\<close> and \<open>alg\<close> \<open>ES256\<close>, signed over the first two parts by the issuer's own
  key; its claims name this issuer and this audience and have not expired. Every refusal is an
  \<open>invalid_token\<close> error, and verification changes nothing.\<close>

theorem verify_access_token_sound:
  assumes "run (verify_access_token P ti tok) w = (r, w')"
  shows "w' = w \<and> (case r of Inl e \<Rightarrow> (\<exists>m. e = InvalidToken m)
    | Inr c \<Rightarrow> at_iss c = ti_issuer ti \<and> at_aud c = ti_audience ti \<and> w_clock w < at_exp c \<and>
        (\<exists>h p s hdr hb pb sig x y. tok = h @ ''.'' @ p @ ''.'' @ s \<and>
           b64url_decode P h = Some hb \<and> json_from_slice P hb = Some hdr \<and>
           json_get hdr ''typ'' = Some (String ''at+jwt'') \<and> json_get hdr ''alg'' = Some (String ''ES256'') \<and>
           b64url_decode P p = Some pb \<and> access_from_slice P pb = Ok c \<and> b64url_decode P s = Some sig \<and>
           sec1_uncompressed P (public_jwk P (ti_key ti)) = Ok (0x04 # x @ y) \<and>
           ec_verify P ES256 (0x04 # x @ y) (as_bytes (h @ ''.'' @ p)) sig))"
proof (cases r)
  case (Inl e)
  then show ?thesis
    using assms by (auto simp: verify_access_token_def async_simps jws_verify_def and_then_def map_err_def
        split: sum.splits if_splits)
next
  case (Inr c)
  have st: "as_str v = Some s \<longleftrightarrow> v = String s" for v s by (cases v) auto
  have hs: "header_str u k = Some s \<longleftrightarrow> json_get (uv_header u) k = Some (String s)" for u k s
    by (auto simp: header_str_def st bind_eq_Some_conv)
  have "jws_verify P (access_from_slice P) (ti_key ti) ''at+jwt'' tok = Ok c" and w: "w' = w"
    and c: "at_iss c = ti_issuer ti" "at_aud c = ti_audience ti" "w_clock w < at_exp c"
    using assms Inr by (auto simp: verify_access_token_def async_simps split: sum.splits if_splits)
  then obtain u where u: "Unverified_parse P tok = Ok u" "header_str u ''typ'' = Some ''at+jwt''"
    and v: "verify_with P (access_from_slice P) u (public_jwk P (ti_key ti)) = Ok c"
    by (auto simp: jws_verify_def and_then_Ok_iff split: if_splits)
  from v obtain a x y where a: "PublicJwk_alg (public_jwk P (ti_key ti)) = Ok a"
    "header_str u ''alg'' = Some (Alg_as_str a)"
    "sec1_uncompressed P (public_jwk P (ti_key ti)) = Ok (0x04 # x @ y)"
    "ec_verify P a (0x04 # x @ y) (as_bytes (uv_signing_input u)) (uv_signature u)"
    "access_from_slice P (uv_payload_bytes u) = Ok c"
    by (auto simp: verify_with_def Unverified_alg_def and_then_Ok_iff PublicJwk_verify_Ok sec1_uncompressed_Ok split: if_splits)
  have "a = ES256" using a(1) by (cases a) (auto simp: PublicJwk_alg_Ok public_jwk_def public_jwk_without_kid_def)
  with a u(2) show ?thesis
    using u(1) Inr w c
    apply (auto simp: Unverified_parse_Ok hs dest!: split_three)
    apply blast
    done
qed

subsection \<open>Witnesses\<close>

text \<open>
  A toy suite under which the hypotheses above hold: base64url is two letters per nibble pair, JSON
  objects of strings and claim records are packed field by field, and a signature is the public
  coordinate and the message. The byte string \<open>[1]\<close>, which packs nothing, parses to the header value
  given as argument.
\<close>

definition wit_hex :: "bytes \<Rightarrow> string" where
  "wit_hex bs = concat (map (\<lambda>b. [char_of (97 + unat b div 16), char_of (97 + unat b mod 16)]) bs)"

fun wit_unhex :: "string \<Rightarrow> bytes option" where
  "wit_unhex [] = Some []"
| "wit_unhex [c] = None"
| "wit_unhex (c # d # r) = map_option ((#) (of_nat ((of_char c - 97) * 16 + (of_char d - 97)))) (wit_unhex r)"

definition pack1 :: "string \<Rightarrow> bytes" where
  "pack1 s = concat (map (\<lambda>b. [1, b]) (as_bytes s)) @ [0]"

fun unpack :: "bytes \<Rightarrow> string \<Rightarrow> string list" where
  "unpack [] acc = []"
| "unpack [b] acc = (if b = 0 then [acc] else [])"
| "unpack (b # c # r) acc = (if b = 0 then acc # unpack (c # r) [] else unpack r (acc @ [char_of (unat c)]))"

definition pack :: "string list \<Rightarrow> bytes" where
  "pack ss = concat (map pack1 ss)"

fun nat_text :: "nat \<Rightarrow> string" where
  "nat_text n = (if n = 0 then [] else (if odd n then CHR ''1'' else CHR ''0'') # nat_text (n div 2))"

fun text_nat :: "string \<Rightarrow> nat" where
  "text_nat [] = 0"
| "text_nat (c # s) = (if c = CHR ''1'' then 1 else 0) + 2 * text_nat s"

fun pairs :: "string list \<Rightarrow> (string \<times> string) list" where
  "pairs (k # v # r) = (k, v) # pairs r"
| "pairs _ = []"

fun unpairs :: "(string \<times> string) list \<Rightarrow> string list" where
  "unpairs [] = []"
| "unpairs ((k, v) # r) = k # v # unpairs r"

fun wit_str :: "json \<Rightarrow> string" where
  "wit_str (String s) = s"
| "wit_str _ = []"

fun wit_json_to_vec :: "json \<Rightarrow> string + bytes" where
  "wit_json_to_vec (Object kvs) = Ok (pack (unpairs (map (map_prod id wit_str) kvs)))"
| "wit_json_to_vec _ = Err ''unsupported''"

definition wit_access_to_vec :: "AccessTokenClaims \<Rightarrow> string + bytes" where
  "wit_access_to_vec c = Ok (pack [at_iss c, at_sub c, at_aud c, at_client_id c, at_scope c, at_jti c,
     nat_text (at_iat c), nat_text (at_exp c), cnf_jkt (at_cnf c)])"

definition wit_access_from_slice :: "bytes \<Rightarrow> string + AccessTokenClaims" where
  "wit_access_from_slice bs = (case unpack bs [] of
     [i, s, a, c, sc, j, t, e, k] \<Rightarrow> Ok \<lparr>at_iss = i, at_sub = s, at_aud = a, at_client_id = c, at_scope = sc, at_jti = j,
        at_iat = text_nat t, at_exp = text_nat e, at_cnf = \<lparr>cnf_jkt = k\<rparr>\<rparr>
   | _ \<Rightarrow> Err ''fields'')"

definition wit_dpop_from_slice :: "bytes \<Rightarrow> string + DpopClaims" where
  "wit_dpop_from_slice bs = (case unpack bs [] of
     [j, m, u, i, n, a] \<Rightarrow> Ok \<lparr>dc_jti = j, dc_htm = m, dc_htu = u, dc_iat = text_nat i,
        dc_nonce = (if n = [] then None else Some n), dc_ath = (if a = [] then None else Some a)\<rparr>
   | _ \<Rightarrow> Err ''fields'')"

definition wit_jwk_from_value :: "json \<Rightarrow> string + PublicJwk" where
  "wit_jwk_from_value v = (let f = (\<lambda>k. Option.bind (json_get v k) as_str) in
     case (f ''kty'', f ''crv'', f ''x'', f ''y'') of
       (Some t, Some c, Some x, Some y) \<Rightarrow> Ok \<lparr>jwk_kty = t, jwk_crv = c, jwk_x = x, jwk_y = y,
          jwk_kid = f ''kid'', jwk_alg = f ''alg'', jwk_use = f ''use''\<rparr>
     | _ \<Rightarrow> Err ''missing field'')"

definition wit_coord :: "bytes \<Rightarrow> bytes" where
  "wit_coord d = take 32 (d @ replicate 32 0)"

definition wit_oauth :: "json \<Rightarrow> oauth_prims" where
  "wit_oauth hdr = prims.extend (wit_prims\<lparr>b64url_encode := wit_hex, b64url_decode := wit_unhex\<rparr>)
     (oauth_prims.fields
       (\<lambda>bs. if bs = [1] then Some hdr else Some (Object (map (map_prod id String) (pairs (unpack bs [])))))
       wit_json_to_vec wit_jwk_from_value wit_access_from_slice wit_access_to_vec wit_dpop_from_slice
       (\<lambda>a p. True) (\<lambda>a s. True) (\<lambda>a p m s. s = take 32 (drop 1 p) @ m)
       (\<lambda>rng pos. (map rng [pos..<pos + 32], pos + 32)) (\<lambda>d. length d = 32)
       (\<lambda>d. (wit_coord d, replicate 32 0)) (\<lambda>d m. wit_coord d @ m))"

lemma wit_oauth_sel [simp]:
  "sha256 (wit_oauth h) = (\<lambda>b. b)" "b64url_encode (wit_oauth h) = wit_hex" "b64url_decode (wit_oauth h) = wit_unhex"
  "hexlower (wit_oauth h) = from_bytes"
  "json_from_slice (wit_oauth h) = (\<lambda>bs. if bs = [1] then Some h else Some (Object (map (map_prod id String) (pairs (unpack bs [])))))"
  "json_to_vec (wit_oauth h) = wit_json_to_vec" "jwk_from_value (wit_oauth h) = wit_jwk_from_value"
  "access_from_slice (wit_oauth h) = wit_access_from_slice" "access_to_vec (wit_oauth h) = wit_access_to_vec"
  "dpop_from_slice (wit_oauth h) = wit_dpop_from_slice" "ec_point_ok (wit_oauth h) = (\<lambda>a p. True)"
  "ec_sig_ok (wit_oauth h) = (\<lambda>a s. True)" "ec_verify (wit_oauth h) = (\<lambda>a p m s. s = take 32 (drop 1 p) @ m)"
  "p256_xy (wit_oauth h) = (\<lambda>d. (wit_coord d, replicate 32 0))" "p256_sign (wit_oauth h) = (\<lambda>d m. wit_coord d @ m)"
  by (simp_all add: wit_oauth_def wit_prims_def prims.defs oauth_prims.defs)

lemma unpack_pack: "unpack (pack ss) [] = ss"
proof -
  have 0: "unpack (0 # r) acc = acc # unpack r []" for r acc by (cases r) auto
  have 1: "unpack (concat (map (\<lambda>b. [1, b]) bs) @ [0] @ r) acc = (acc @ from_bytes bs) # unpack r []" for bs r acc
    by (induction bs arbitrary: acc) (auto simp: from_bytes_def 0)
  show ?thesis
    by (induction ss) (use 1 in \<open>auto simp: pack_def pack1_def\<close>)
qed

lemma text_nat_text: "text_nat (nat_text n) = n"
proof (induction n rule: less_induct)
  case (less n)
  have IH: "n \<noteq> 0 \<Longrightarrow> text_nat (nat_text (n div 2)) = n div 2" using less by simp
  show ?case
    by (subst nat_text.simps) (use IH in \<open>auto simp del: nat_text.simps elim!: oddE evenE\<close>)
qed

lemma pairs_unpairs: "pairs (unpairs kvs) = kvs"
  by (induction kvs rule: unpairs.induct) auto

lemma nibble_char: "n < 16 \<Longrightarrow> (of_char (char_of (97 + n) :: char) :: nat) = 97 + n \<and> char_of (97 + n) \<noteq> (CHR ''.'' :: char)"
  by (auto simp: take_bit_eq_mod dest: arg_cong [where f = "of_char :: char \<Rightarrow> nat"])

lemma byte_div_16: "unat (b :: byte) div 16 < 16"
  using unsigned_less [of b, where 'a = nat] by simp

lemma b64_wit: "b64_ok (wit_oauth h)"
proof -
  have 0: "(of_nat (unat a div 16 * 16 + unat a mod 16) :: byte) = a" for a :: byte
    by (simp del: of_nat_add of_nat_mult)
  have 1: "wit_unhex (wit_hex b) = Some b" for b
    by (induction b) (simp_all add: wit_hex_def nibble_char byte_div_16 0 del: of_char_of of_nat_add of_nat_mult)
  have 2: "CHR ''.'' \<notin> set (wit_hex b)" for b
  proof (induction b)
    case (Cons a b)
    with nibble_char [OF byte_div_16 [of a]] nibble_char [of "unat a mod 16"] show ?case
      by (auto simp del: of_char_of simp: wit_hex_def dest: sym)
  qed (simp add: wit_hex_def)
  show ?thesis using 1 2 by (simp add: b64_ok_def)
qed

lemma json_wit: "json_ok (wit_oauth h)"
proof -
  have nb: "pack ss \<noteq> [1]" for ss
    by (cases ss) (auto simp: pack_def pack1_def append_eq_Cons_conv concat_eq_Nil_conv)
  have m: "map (map_prod id wit_str) (map (map_prod id String) kvs) = kvs" for kvs
    by (induction kvs) auto
  have "json_get (Object (map (map_prod id String) kvs)) k = map_option String (map_of kvs k)" for kvs k
    by (induction kvs) (auto simp: json_get_def)
  then show ?thesis
    by (auto simp: json_ok_def nb unpack_pack pairs_unpairs m simp flip: map_map)
qed

lemma ecdsa_wit: "ecdsa_ok (wit_oauth h) d"
  by (auto simp: ecdsa_ok_def wit_coord_def min_def)

lemma serde_wit: "serde_ok (access_to_vec (wit_oauth h)) (access_from_slice (wit_oauth h))"
  by (auto simp: serde_ok_def wit_access_to_vec_def wit_access_from_slice_def unpack_pack text_nat_text simp del: nat_text.simps)

definition wit_issuer :: TokenIssuer where
  "wit_issuer = \<lparr>ti_key = \<lparr>sk_inner = [3, 1, 4], sk_kid = ''k1''\<rparr>, ti_issuer = ''https://pds.test'', ti_audience = ''did:web:pds.test''\<rparr>"

theorem access_token_roundtrip_witness:
  "\<exists>tok c. fst (run (issue_access_token (wit_oauth Null) wit_issuer ''did:plc:a'' ''https://app.test'' [''atproto''] ''jkt'') (wit_world ())) = Ok (tok, 3600) \<and>
     at_sub c = ''did:plc:a'' \<and> at_exp c = 4600 \<and>
     fst (run (verify_access_token (wit_oauth Null) wit_issuer tok) (wit_world ())) = Ok c"
proof -
  let ?i = "issue_access_token (wit_oauth Null) wit_issuer ''did:plc:a'' ''https://app.test'' [''atproto''] ''jkt''"
  obtain tok ttl where ok: "run ?i (wit_world ()) = (Ok (tok, ttl), snd (run ?i (wit_world ())))"
    by (simp add: issue_access_token_def async_simps jws_sign_def wit_access_to_vec_def Let_def del: nat_text.simps)
  from access_token_roundtrip [OF b64_wit json_wit ecdsa_wit serde_wit ok] obtain c where
    "ttl = 3600" "at_sub c = ''did:plc:a''" "at_exp c = w_clock (wit_world ()) + ttl"
    "run (verify_access_token (wit_oauth Null) wit_issuer tok) (wit_world ()) =
       (if w_clock (wit_world ()) < w_clock (wit_world ()) + ttl then Ok c else Err (InvalidToken ''access token has expired''), wit_world ())"
    by blast
  with arg_cong [OF ok, of fst] show ?thesis
    by (intro exI [of _ tok] exI [of _ c]) (simp add: wit_world_def)
qed

theorem verify_access_token_sound_witness:
  "\<exists>tok c h p s sig x y. fst (run (verify_access_token (wit_oauth Null) wit_issuer tok) (wit_world ())) = Ok c \<and>
     tok = h @ ''.'' @ p @ ''.'' @ s \<and> b64url_decode (wit_oauth Null) s = Some sig \<and>
     ec_verify (wit_oauth Null) ES256 (0x04 # x @ y) (as_bytes (h @ ''.'' @ p)) sig"
proof -
  define c where "c = \<lparr>at_iss = ti_issuer wit_issuer, at_sub = ''did:plc:a'', at_aud = ti_audience wit_issuer, at_client_id = ''c'',
    at_scope = ''atproto'', at_jti = ''j'', at_iat = 1000, at_exp = 4600, at_cnf = \<lparr>cnf_jkt = ''t''\<rparr>\<rparr>"
  obtain pv where pv: "access_to_vec (wit_oauth Null) c = Ok pv" by (simp add: wit_access_to_vec_def del: nat_text.simps)
  obtain tok where
    "jws_verify (wit_oauth Null) (access_from_slice (wit_oauth Null)) (ti_key wit_issuer) ''at+jwt'' tok = Ok c"
    using jws_roundtrip [OF b64_wit json_wit ecdsa_wit [of Null "sk_inner (ti_key wit_issuer)"] serde_wit pv, of "''at+jwt''"]
    by (elim exE conjE)
  then have "run (verify_access_token (wit_oauth Null) wit_issuer tok) (wit_world ()) = (Ok c, wit_world ())"
    by (simp add: verify_access_token_def async_simps wit_world_def c_def)
  from verify_access_token_sound [OF this] arg_cong [OF this, of fst] show ?thesis
    unfolding sum.case fst_conv by blast
qed

end
