(* ===== verification/OAuth_Dpop.thy ===== *)
theory OAuth_Dpop
  imports OAuth_Jose
begin

text \<open>
  DPoP proofs of possession (\<open>rust-core/src/oauth/dpop.rs\<close>) and device-approval challenges
  (\<open>rust-core/src/oauth/device.rs\<close>). \<open>DpopVerifier_verify\<close> is an asynchronous program: it reads the
  clock once for freshness and once more for the nonce, and its only effect is the replay cache.
\<close>

text \<open>A storage call whose error is converted by \<open>From<StorageError> for OAuthError\<close>.\<close>

definition odb :: "('s, 'a) sop \<Rightarrow> ('s world, OAuthError + 'a) async" where
  "odb op = abind (db op) (\<lambda>r. Ready (map_err Storage r))"

lemma run_odb [async_simps]:
  "run (odb op) w = (case op (w_store w) of (r, s') \<Rightarrow> (map_err Storage r, w\<lparr>w_store := s'\<rparr>))"
  by (simp add: odb_def async_simps split: prod.splits)

definition NONCE_WINDOW_SECS :: nat where
  "NONCE_WINDOW_SECS = 300"

definition MAX_PROOF_AGE_SECS :: nat where
  "MAX_PROOF_AGE_SECS = 300"

record DpopProof =
  dp_jkt :: string
  dp_jti :: string
  dp_htm :: string
  dp_htu :: string
  dp_iat :: nat
  dp_ath :: "string option"

record DpopVerifier =
  nonce_secret :: bytes

definition u64_be_bytes :: "nat \<Rightarrow> bytes" where
  "u64_be_bytes n = map (\<lambda>i. of_nat (n div 256 ^ (7 - i))) [0..<8]"

definition nonce_for_window :: "'x prims_scheme \<Rightarrow> DpopVerifier \<Rightarrow> nat \<Rightarrow> string" where
  "nonce_for_window P v window = b64url_encode P (sha256 P (nonce_secret v @ u64_be_bytes window))"

definition current_nonce :: "'x prims_scheme \<Rightarrow> DpopVerifier \<Rightarrow> ('s world, string) async" where
  "current_nonce P v = abind now_unix (\<lambda>now. Ready (nonce_for_window P v (now div NONCE_WINDOW_SECS)))"

definition nonce_is_valid :: "'x prims_scheme \<Rightarrow> DpopVerifier \<Rightarrow> string \<Rightarrow> ('s world, bool) async" where
  "nonce_is_valid P v nonce = abind now_unix (\<lambda>now.
     let window = now div NONCE_WINDOW_SECS in
     Ready (constant_time_eq nonce (nonce_for_window P v window) \<or>
       constant_time_eq nonce (nonce_for_window P v (window - 1))))"

text \<open>Every slice of \<open>normalize_htu\<close> starts or ends at a match of an ASCII pattern, so none can panic.\<close>

definition strip_default_port :: "string \<Rightarrow> string \<Rightarrow> string" where
  "strip_default_port scheme authority =
     (if scheme = ''https'' then (case strip_suffix authority '':443'' of Some a \<Rightarrow> a | None \<Rightarrow> authority)
      else if scheme = ''http'' then (case strip_suffix authority '':80'' of Some a \<Rightarrow> a | None \<Rightarrow> authority)
      else authority)"

definition normalize_htu :: "string \<Rightarrow> string" where
  "normalize_htu uri =
     (let without_fragment = hd (split_on CHR ''#'' uri);
          base = hd (split_on CHR ''?'' without_fragment)
      in case find_str base ''://'' of
           None \<Rightarrow> base
         | Some scheme_end \<Rightarrow>
             let scheme = take scheme_end base;
                 rest = drop 3 (drop scheme_end base);
                 (authority, path) = (case find_char rest CHR ''/'' of Some i \<Rightarrow> (take i rest, drop i rest) | None \<Rightarrow> (rest, []));
                 scheme = to_ascii_lowercase scheme;
                 authority = strip_default_port scheme (to_ascii_lowercase authority);
                 path = (if path = ''/'' then [] else path)
             in scheme @ ''://'' @ authority @ path)"

definition abs_diff :: "nat \<Rightarrow> nat \<Rightarrow> nat" where
  "abs_diff a b = (if a < b then b - a else a - b)"

definition check_nonce :: "'x prims_scheme \<Rightarrow> DpopVerifier \<Rightarrow> bool \<Rightarrow> string option \<Rightarrow> ('s world, OAuthError + unit) async" where
  "check_nonce P v require_nonce nonce =
     (if \<not> require_nonce then Ready (Ok ())
      else case nonce of
        None \<Rightarrow> Ready (Err (UseDpopNonce ''a DPoP nonce is required''))
      | Some n \<Rightarrow> abind (nonce_is_valid P v n) (\<lambda>ok.
          Ready (if \<not> ok then Err (UseDpopNonce ''the supplied DPoP nonce is stale or unrecognised'') else Ok ())))"

definition check_ath :: "'x prims_scheme \<Rightarrow> string option \<Rightarrow> string option \<Rightarrow> OAuthError + unit" where
  "check_ath P access_token ath = (case (access_token, ath) of
     (Some token, Some ath) \<Rightarrow>
       (let expected = b64url_encode P (sha256 P (as_bytes token)) in
        if \<not> constant_time_eq ath expected
        then Err (InvalidDpopProof ''DPoP ath does not match the presented access token'') else Ok ())
   | (Some _, None) \<Rightarrow> Err (InvalidDpopProof ''DPoP proof must carry ath when an access token is presented'')
   | (None, _) \<Rightarrow> Ok ())"

text \<open>Checks (2) to (7) of \<open>verify\<close>: the embedded key and the claims it signed.\<close>

definition dpop_signed :: "'x oauth_prims_scheme \<Rightarrow> string \<Rightarrow> OAuthError + (PublicJwk \<times> DpopClaims)" where
  "dpop_signed P proof =
     and_then (Unverified_parse P proof) (\<lambda>unverified.
       if header_str unverified ''typ'' \<noteq> Some ''dpop+jwt''
       then Err (InvalidDpopProof ''DPoP proof must have typ=dpop+jwt'')
       else
         and_then (ok_or (InvalidDpopProof ''DPoP proof header has no jwk'') (json_get (uv_header unverified) ''jwk'')) (\<lambda>jwk_value.
         and_then (reject_if_private jwk_value) (\<lambda>_.
         and_then (map_err (\<lambda>e. InvalidDpopProof (''DPoP proof jwk is not a supported EC key: '' @ e)) (jwk_from_value P jwk_value)) (\<lambda>jwk.
         and_then (verify_with P (dpop_from_slice P) unverified jwk) (\<lambda>claims.
           Ok (jwk, claims))))))"

definition DpopVerifier_verify ::
  "'x oauth_prims_scheme \<Rightarrow> DpopVerifier \<Rightarrow> 's OAuthStore \<Rightarrow> string \<Rightarrow> string \<Rightarrow> string \<Rightarrow> string option \<Rightarrow> bool \<Rightarrow>
     ('s world, OAuthError + DpopProof) async" where
  "DpopVerifier_verify P v Z proof mthd uri access_token require_nonce =
     try_ok (dpop_signed P proof) (\<lambda>(jwk, claims).
       if \<not> eq_ignore_ascii_case (dc_htm claims) mthd
       then Ready (Err (InvalidDpopProof ''DPoP htm does not match the request method''))
       else if normalize_htu (dc_htu claims) \<noteq> normalize_htu uri
       then Ready (Err (InvalidDpopProof ''DPoP htu does not match the request URI''))
       else abind now_unix (\<lambda>now.
         let age = abs_diff now (dc_iat claims) in
         if age > MAX_PROOF_AGE_SECS
         then Ready (Err (InvalidDpopProof ''DPoP proof iat is outside the acceptable window''))
         else await_ok (check_nonce P v require_nonce (dc_nonce claims)) (\<lambda>_.
           try_ok (check_ath P access_token (dc_ath claims)) (\<lambda>_.
           let jti_expires = now + MAX_PROOF_AGE_SECS in
           await_ok (odb (record_dpop_jti Z (dc_jti claims) jti_expires)) (\<lambda>fresh.
             Ready (if \<not> fresh then Err (InvalidDpopProof ''DPoP proof jti has already been used'')
               else Ok \<lparr>dp_jkt = thumbprint P jwk, dp_jti = dc_jti claims, dp_htm = dc_htm claims,
                        dp_htu = dc_htu claims, dp_iat = dc_iat claims, dp_ath = dc_ath claims\<rparr>))))))"

subsection \<open>The comparison form of a URI\<close>

lemma find_str_first:
  assumes "p0 \<notin> set a"
  shows "find_str (a @ (p0 # p) @ b) (p0 # p) = Some (length a)"
  using assms by (induction a) (auto simp: starts_with_def)

lemma find_char_first [simp]: "c \<notin> set a \<Longrightarrow> find_char (a @ c # b) c = Some (length a)"
  using find_str_first [of c a "[]"] by (simp add: find_char_def)

lemma find_char_none [simp]: "c \<notin> set a \<Longrightarrow> find_char a c = None"
  by (induction a) (auto simp: find_char_def starts_with_def)

lemma hd_split_on_takeWhile: "hd (split_on d s) = takeWhile (\<lambda>c. c \<noteq> d) s"
  by (induction s) (auto split: list.splits dest: arg_cong [where f = hd] simp: split_on_join)

definition canonical_authority :: "string \<Rightarrow> string \<Rightarrow> string" where
  "canonical_authority scheme a = strip_default_port (to_ascii_lowercase scheme) (to_ascii_lowercase a)"

definition uri_parts :: "string \<Rightarrow> string \<Rightarrow> string \<Rightarrow> bool" where
  "uri_parts scheme auth path \<longleftrightarrow> set scheme \<inter> set '':?#'' = {} \<and> set auth \<inter> set ''/?#'' = {} \<and>
     set path \<inter> set ''?#'' = {} \<and> (path = [] \<or> hd path = CHR ''/'')"

definition uri_tail :: "string \<Rightarrow> bool" where
  "uri_tail t \<longleftrightarrow> t = [] \<or> hd t \<in> {CHR ''?'', CHR ''#''}"

lemma normalize_htu_tail:
  assumes "set u \<inter> set ''?#'' = {}" "uri_tail t"
  shows "hd (split_on CHR ''?'' (hd (split_on CHR ''#'' (u @ t)))) = u"
proof -
  have all: "takeWhile (\<lambda>c. c \<noteq> d) u = u" if "d \<notin> set u" for d
    using that by (auto simp: takeWhile_eq_all_conv)
  have cut: "takeWhile (\<lambda>c. c \<noteq> d) (u @ c # r) = u @ (if c = d then [] else c # takeWhile (\<lambda>c. c \<noteq> d) r)"
    if "d \<notin> set u" for d c r
    using that by (subst takeWhile_append2) auto
  show ?thesis
    using assms by (cases t) (auto simp: hd_split_on_takeWhile uri_tail_def all cut)
qed

lemma normalize_htu_parts:
  assumes "uri_parts s a p" "uri_tail t"
  shows "normalize_htu (s @ ''://'' @ a @ p @ t) =
    to_ascii_lowercase s @ ''://'' @ canonical_authority s a @ (if p = ''/'' then [] else p)"
proof -
  have base: "hd (split_on CHR ''?'' (hd (split_on CHR ''#'' ((s @ ''://'' @ a @ p) @ t)))) = s @ ''://'' @ a @ p"
    using assms by (intro normalize_htu_tail) (auto simp: uri_parts_def)
  have scheme: "find_str (s @ ''://'' @ a @ p) ''://'' = Some (length s)"
    using assms(1) find_str_first [of "CHR '':''" s "''//''" "a @ p"] by (auto simp: uri_parts_def)
  have cut: "(case find_char (a @ p) CHR ''/'' of Some i \<Rightarrow> (take i (a @ p), drop i (a @ p)) | None \<Rightarrow> (a @ p, [])) = (a, p)"
    using assms(1) by (cases p) (auto simp: uri_parts_def)
  show ?thesis
    using base scheme cut by (simp add: normalize_htu_def Let_def canonical_authority_def)
qed

lemma sep_eq_iff:
  "d \<notin> set a \<Longrightarrow> d \<notin> set b \<Longrightarrow> a @ d # x = b @ d # y \<longleftrightarrow> a = b \<and> x = y"
proof (induction a arbitrary: b)
  case Nil
  then show ?case by (cases b) auto
next
  case (Cons c a)
  then show ?case by (cases b) auto
qed

lemma lower_char_upper: "is_ascii_upper c \<Longrightarrow> is_ascii_lower (char_of (of_char c + 32 :: nat))"
  by (auto simp: ascii_class_defs less_eq_char_def take_bit_eq_mod)

lemma lower_char_other:
  "\<not> is_ascii_lower d \<Longrightarrow> \<not> is_ascii_upper d \<Longrightarrow> to_ascii_lower_char c = d \<longleftrightarrow> c = d"
  using lower_char_upper [of c] by (auto simp: to_ascii_lower_char_def)

lemma sep_not_lowered [simp]:
  "CHR '':'' \<in> set (to_ascii_lowercase s) \<longleftrightarrow> CHR '':'' \<in> set s"
  "CHR ''/'' \<in> set (to_ascii_lowercase s) \<longleftrightarrow> CHR ''/'' \<in> set s"
proof -
  have "\<not> is_ascii_lower CHR '':''" "\<not> is_ascii_upper CHR '':''" "\<not> is_ascii_lower CHR ''/''" "\<not> is_ascii_upper CHR ''/''"
    by (simp_all add: ascii_class_defs less_eq_char_def)
  from lower_char_other [OF this(1,2)] lower_char_other [OF this(3,4)] show "CHR '':'' \<in> set (to_ascii_lowercase s) \<longleftrightarrow> CHR '':'' \<in> set s"
    "CHR ''/'' \<in> set (to_ascii_lowercase s) \<longleftrightarrow> CHR ''/'' \<in> set s"
    by (simp_all add: to_ascii_lowercase_def image_iff eq_commute)
qed

lemma set_strip_default_port: "set (strip_default_port s a) \<subseteq> set a"
  by (auto simp: strip_default_port_def strip_suffix_def dest: in_set_takeD)


text \<open>The request URI a proof is bound to. On URIs of a scheme, an authority, an absolute or empty path and
  any query and fragment, two normalised forms are equal exactly when the schemes agree up to ASCII
  case, the authorities agree up to ASCII case and the scheme's default port, and the paths are the same
  text, an empty path counting as \<open>/\<close>. Query and fragment never matter, and nothing else is ignored.\<close>

theorem normalize_htu_exact:
  assumes "uri_parts s a p" "uri_tail t" "uri_parts s' a' p'" "uri_tail t'"
  shows "normalize_htu (s @ ''://'' @ a @ p @ t) = normalize_htu (s' @ ''://'' @ a' @ p' @ t') \<longleftrightarrow>
    eq_ignore_ascii_case s s' \<and> canonical_authority s a = canonical_authority s' a' \<and>
    (if p = [] then ''/'' else p) = (if p' = [] then ''/'' else p')"
proof -
  have no: "CHR '':'' \<notin> set (to_ascii_lowercase s)" "CHR '':'' \<notin> set (to_ascii_lowercase s')"
    "CHR ''/'' \<notin> set (canonical_authority s a)" "CHR ''/'' \<notin> set (canonical_authority s' a')"
    using assms set_strip_default_port by (fastforce simp: uri_parts_def canonical_authority_def)+
  have path: "a @ q = b @ q' \<longleftrightarrow> a = b \<and> q = q'"
    if "CHR ''/'' \<notin> set a" "CHR ''/'' \<notin> set b" "q = [] \<or> hd q = CHR ''/''" "q' = [] \<or> hd q' = CHR ''/''"
    for a b q q' :: string
    using that sep_eq_iff [of "CHR ''/''" a b "tl q" "tl q'"] by (cases q; cases q') auto
  let ?q = "if p = ''/'' then [] else p" and ?q' = "if p' = ''/'' then [] else p'"
  have "?q = [] \<or> hd ?q = CHR ''/''" "?q' = [] \<or> hd ?q' = CHR ''/''"
    using assms by (auto simp: uri_parts_def)
  note eq = path [OF no(3,4) this]
  have "normalize_htu (s @ ''://'' @ a @ p @ t) = normalize_htu (s' @ ''://'' @ a' @ p' @ t') \<longleftrightarrow>
      to_ascii_lowercase s = to_ascii_lowercase s' \<and> canonical_authority s a @ ?q = canonical_authority s' a' @ ?q'"
    unfolding normalize_htu_parts [OF assms(1,2)] normalize_htu_parts [OF assms(3,4)]
    using sep_eq_iff [OF no(1,2)] by simp
  then show ?thesis unfolding eq by (auto simp: eq_ignore_ascii_case_def)
qed

theorem normalize_htu_exact_witness:
  "normalize_htu ''HTTPS://Pds.Test:443/x?q=1#f'' = normalize_htu ''https://pds.test/x'' \<and>
   normalize_htu ''https://pds.test/x'' \<noteq> normalize_htu ''https://pds.test/X''"
proof -
  have "normalize_htu (''HTTPS'' @ ''://'' @ ''Pds.Test:443'' @ ''/x'' @ ''?q=1#f'') =
      normalize_htu (''https'' @ ''://'' @ ''pds.test'' @ ''/x'' @ [])"
  proof (subst normalize_htu_exact)
    have "to_ascii_lowercase ''HTTPS'' = ''https''" "to_ascii_lowercase ''https'' = ''https''"
      "to_ascii_lowercase ''Pds.Test:443'' = ''pds.test:443''" "to_ascii_lowercase ''pds.test'' = ''pds.test''"
      by code_simp+
    then show "eq_ignore_ascii_case ''HTTPS'' ''https'' \<and>
        canonical_authority ''HTTPS'' ''Pds.Test:443'' = canonical_authority ''https'' ''pds.test'' \<and>
        (if ''/x'' = [] then ''/'' else ''/x'') = (if ''/x'' = [] then ''/'' else ''/x'')"
      by (simp add: eq_ignore_ascii_case_def canonical_authority_def strip_default_port_def strip_suffix_def ends_with_def)
  qed (simp_all add: uri_parts_def uri_tail_def)
  moreover have "normalize_htu (''https'' @ ''://'' @ ''pds.test'' @ ''/x'' @ []) \<noteq>
      normalize_htu (''https'' @ ''://'' @ ''pds.test'' @ ''/X'' @ [])"
    by (subst normalize_htu_exact) (simp_all add: uri_parts_def uri_tail_def)
  ultimately show ?thesis by simp
qed

subsection \<open>What an accepted proof stands for\<close>

lemma dpop_signed_Ok:
  "dpop_signed P proof = Ok (jwk, c) \<longleftrightarrow>
     (\<exists>u v. Unverified_parse P proof = Ok u \<and> header_str u ''typ'' = Some ''dpop+jwt'' \<and>
        json_get (uv_header u) ''jwk'' = Some v \<and> reject_if_private v = Ok () \<and> jwk_from_value P v = Ok jwk \<and>
        verify_with P (dpop_from_slice P) u jwk = Ok c)"
  by (auto simp: dpop_signed_def and_then_Ok_iff)

lemma reject_if_private_Ok:
  "reject_if_private v = Ok () \<longleftrightarrow> (\<forall>m \<in> set PRIVATE_MEMBERS. json_get v m = None)"
  by (auto simp: reject_if_private_def json_get_def list_ex_iff split: option.splits)

lemma run_check_nonce:
  "run (check_nonce P v rn n) w = (r, w') \<Longrightarrow> w' = w \<and> (r = Ok () \<longleftrightarrow>
     (rn \<longrightarrow> n \<in> {Some (nonce_for_window P v (w_clock w div 300)), Some (nonce_for_window P v (w_clock w div 300 - 1))}))"
  by (auto simp: check_nonce_def nonce_is_valid_def async_simps NONCE_WINDOW_SECS_def Let_def split: if_splits option.splits)

lemma check_ath_Ok:
  "check_ath P tok ath = Ok () \<longleftrightarrow> (\<forall>t. tok = Some t \<longrightarrow> ath = Some (b64url_encode P (sha256 P (as_bytes t))))"
  by (auto simp: check_ath_def Let_def split: option.splits)

lemma abs_diff_le: "abs_diff a b \<le> n \<longleftrightarrow> a \<le> b + n \<and> b \<le> a + n"
  by (auto simp: abs_diff_def)

text \<open>The checks before the replay cache, as one condition on the clock and the request.\<close>

definition dpop_checks ::
  "'x oauth_prims_scheme \<Rightarrow> DpopVerifier \<Rightarrow> nat \<Rightarrow> DpopClaims \<Rightarrow> string \<Rightarrow> string \<Rightarrow> string option \<Rightarrow> bool \<Rightarrow> bool" where
  "dpop_checks P v now c mthd uri tok rn \<longleftrightarrow>
     eq_ignore_ascii_case (dc_htm c) mthd \<and> normalize_htu (dc_htu c) = normalize_htu uri \<and>
     now \<le> dc_iat c + 300 \<and> dc_iat c \<le> now + 300 \<and>
     (rn \<longrightarrow> dc_nonce c \<in> {Some (nonce_for_window P v (now div 300)), Some (nonce_for_window P v (now div 300 - 1))}) \<and>
     (\<forall>t. tok = Some t \<longrightarrow> dc_ath c = Some (b64url_encode P (sha256 P (as_bytes t))))"

lemma dpop_checksI:
  assumes "eq_ignore_ascii_case (dc_htm c) mthd" "normalize_htu (dc_htu c) = normalize_htu uri"
    and "abs_diff now (dc_iat c) \<le> MAX_PROOF_AGE_SECS" "w_clock w = now"
    and "fst (run (check_nonce P v rn (dc_nonce c)) w) = Ok ()" "check_ath P tok (dc_ath c) = Ok ()"
  shows "dpop_checks P v now c mthd uri tok rn"
  using assms run_check_nonce [OF prod.collapse [symmetric], of P v rn "dc_nonce c" w]
  by (auto simp: dpop_checks_def abs_diff_le check_ath_Ok MAX_PROOF_AGE_SECS_def)

lemma run_dpop_verify:
  assumes "run (DpopVerifier_verify P v Z proof mthd uri tok rn) w = (r, w')"
  shows "(is_err r \<and> w' = w) \<or>
    (\<exists>jwk c x s'. dpop_signed P proof = Ok (jwk, c) \<and> dpop_checks P v (w_clock w) c mthd uri tok rn \<and>
       record_dpop_jti Z (dc_jti c) (w_clock w + 300) (w_store w) = (x, s') \<and> w' = w\<lparr>w_store := s'\<rparr> \<and>
       r = (case x of Inl e \<Rightarrow> Err (Storage e)
            | Inr fresh \<Rightarrow> if \<not> fresh then Err (InvalidDpopProof ''DPoP proof jti has already been used'')
                else Ok \<lparr>dp_jkt = thumbprint P jwk, dp_jti = dc_jti c, dp_htm = dc_htm c,
                        dp_htu = dc_htu c, dp_iat = dc_iat c, dp_ath = dc_ath c\<rparr>))"
proof (cases "dpop_signed P proof")
  case (Inr jc)
  obtain jwk c where jc: "jc = (jwk, c)" by (cases jc)
  obtain n w1 where n: "run (check_nonce P v rn (dc_nonce c)) w = (n, w1)"
    by (cases "run (check_nonce P v rn (dc_nonce c)) w")
  obtain x s' where x: "record_dpop_jti Z (dc_jti c) (w_clock w + MAX_PROOF_AGE_SECS) (w_store w) = (x, s')"
    by (cases "record_dpop_jti Z (dc_jti c) (w_clock w + MAX_PROOF_AGE_SECS) (w_store w)")
  have w1: "w1 = w" using run_check_nonce [OF n] by simp
  show ?thesis
  proof (cases "eq_ignore_ascii_case (dc_htm c) mthd \<and> normalize_htu (dc_htu c) = normalize_htu uri \<and>
      abs_diff (w_clock w) (dc_iat c) \<le> MAX_PROOF_AGE_SECS \<and> n = Ok () \<and> check_ath P tok (dc_ath c) = Ok ()")
    case True
    then have "dpop_checks P v (w_clock w) c mthd uri tok rn"
      using n by (intro dpop_checksI [where w = w]) auto
    then show ?thesis
      using assms True x n w1 Inr jc
      by (auto simp: DpopVerifier_verify_def async_simps Let_def MAX_PROOF_AGE_SECS_def split: sum.splits if_splits)
  next
    case False
    then have "is_err r \<and> w' = w"
      using assms n w1 Inr jc
      by (auto simp: DpopVerifier_verify_def async_simps Let_def not_le split: sum.splits if_splits)
    then show ?thesis ..
  qed
qed (use assms in \<open>auto simp: DpopVerifier_verify_def async_simps\<close>)

text \<open>C11: holding a verified proof is evidence of every check. When \<open>verify\<close> accepts, the token's header has
  \<open>typ\<close> \<open>dpop+jwt\<close> and an embedded key with no private member; that key verified the signature; the
  proof's \<open>jkt\<close> is that key's thumbprint; method, normalised URI, age (at most 300 seconds either way),
  nonce (this or the previous window, where one is required) and access-token hash all match the request;
  and the store had not seen the \<open>jti\<close> before and now has. A refusal leaves the store untouched unless the
  replay cache itself was what refused.\<close>

theorem dpop_verify_sound:
  assumes "run (DpopVerifier_verify P v Z proof mthd uri tok rn) w = (r, w')"
  shows "case r of
      Inr prf \<Rightarrow> \<exists>u jv jwk c. Unverified_parse P proof = Ok u \<and> header_str u ''typ'' = Some ''dpop+jwt'' \<and>
        json_get (uv_header u) ''jwk'' = Some jv \<and> (\<forall>m \<in> set PRIVATE_MEMBERS. json_get jv m = None) \<and>
        jwk_from_value P jv = Ok jwk \<and> verify_with P (dpop_from_slice P) u jwk = Ok c \<and>
        dpop_checks P v (w_clock w) c mthd uri tok rn \<and>
        dp_jkt prf = thumbprint P jwk \<and> dp_jti prf = dc_jti c \<and> dp_ath prf = dc_ath c \<and> dp_iat prf = dc_iat c \<and>
        run (odb (record_dpop_jti Z (dc_jti c) (w_clock w + 300))) w = (Ok True, w')
    | Inl e \<Rightarrow> w' = w \<or> (\<exists>jwk c x. dpop_signed P proof = Ok (jwk, c) \<and> dpop_checks P v (w_clock w) c mthd uri tok rn \<and>
        run (odb (record_dpop_jti Z (dc_jti c) (w_clock w + 300))) w = (x, w') \<and> x \<noteq> Ok True)"
proof (cases "is_err r \<and> w' = w")
  case False
  with run_dpop_verify [OF assms] obtain jwk c x s' where
    sgn: "dpop_signed P proof = Ok (jwk, c)" and chk: "dpop_checks P v (w_clock w) c mthd uri tok rn"
    and rec: "record_dpop_jti Z (dc_jti c) (w_clock w + 300) (w_store w) = (x, s')" "w' = w\<lparr>w_store := s'\<rparr>"
    and r: "r = (case x of Inl e \<Rightarrow> Err (Storage e)
            | Inr fresh \<Rightarrow> if \<not> fresh then Err (InvalidDpopProof ''DPoP proof jti has already been used'')
                else Ok \<lparr>dp_jkt = thumbprint P jwk, dp_jti = dc_jti c, dp_htm = dc_htm c,
                        dp_htu = dc_htu c, dp_iat = dc_iat c, dp_ath = dc_ath c\<rparr>)"
    by blast
  have odb: "run (odb (record_dpop_jti Z (dc_jti c) (w_clock w + 300))) w = (map_err Storage x, w')"
    using rec by (simp add: async_simps)
  show ?thesis
  proof (cases "x = Ok True")
    case True
    with sgn r odb chk show ?thesis
      unfolding dpop_signed_Ok reject_if_private_Ok by auto
  next
    case False
    then have "is_err r" "map_err Storage x \<noteq> Ok True" using r by (auto split: sum.splits)
    with sgn chk odb show ?thesis by (cases r) auto
  qed
qed (cases r; simp)

lemma dpop_verify_complete:
  assumes "dpop_signed P proof = Ok (jwk, c)" "dpop_checks P v (w_clock w) c mthd uri tok rn"
    and "record_dpop_jti Z (dc_jti c) (w_clock w + 300) (w_store w) = (Ok True, s')"
  shows "run (DpopVerifier_verify P v Z proof mthd uri tok rn) w =
    (Ok \<lparr>dp_jkt = thumbprint P jwk, dp_jti = dc_jti c, dp_htm = dc_htm c, dp_htu = dc_htu c, dp_iat = dc_iat c,
       dp_ath = dc_ath c\<rparr>, w\<lparr>w_store := s'\<rparr>)"
proof -
  have "run (check_nonce P v rn (dc_nonce c)) w = (Ok (), w)"
    using assms(2) run_check_nonce [OF prod.collapse [symmetric], of P v rn "dc_nonce c" w]
    by (auto simp: dpop_checks_def prod_eq_iff)
  moreover have "check_ath P tok (dc_ath c) = Ok ()" "\<not> MAX_PROOF_AGE_SECS < abs_diff (w_clock w) (dc_iat c)"
    using assms(2) by (auto simp: dpop_checks_def check_ath_Ok not_less abs_diff_le MAX_PROOF_AGE_SECS_def)
  ultimately show ?thesis
    using assms by (simp add: DpopVerifier_verify_def async_simps Let_def dpop_checks_def MAX_PROOF_AGE_SECS_def)
qed

subsection \<open>Replay\<close>

lemma run_dpop_verify_Ok:
  assumes "run (DpopVerifier_verify P v Z proof mthd uri tok rn) w = (Ok prf, w')"
  obtains jwk c s' where "dpop_signed P proof = Ok (jwk, c)" "dpop_checks P v (w_clock w) c mthd uri tok rn"
    "record_dpop_jti Z (dc_jti c) (w_clock w + 300) (w_store w) = (Ok True, s')" "w' = w\<lparr>w_store := s'\<rparr>"
    "dp_jkt prf = thumbprint P jwk" "dp_jti prf = dc_jti c"
proof -
  from run_dpop_verify [OF assms] obtain jwk c x s' where f: "dpop_signed P proof = Ok (jwk, c)"
    "dpop_checks P v (w_clock w) c mthd uri tok rn"
    "record_dpop_jti Z (dc_jti c) (w_clock w + 300) (w_store w) = (x, s')" "w' = w\<lparr>w_store := s'\<rparr>"
    and res: "Ok prf = (case x of Inl e \<Rightarrow> Err (Storage e)
            | Inr fresh \<Rightarrow> if \<not> fresh then Err (InvalidDpopProof ''DPoP proof jti has already been used'')
                else Ok \<lparr>dp_jkt = thumbprint P jwk, dp_jti = dc_jti c, dp_htm = dc_htm c,
                        dp_htu = dc_htu c, dp_iat = dc_iat c, dp_ath = dc_ath c\<rparr>)"
    by auto
  from res have "x = Ok True" "dp_jkt prf = thumbprint P jwk" "dp_jti prf = dc_jti c"
    by (auto split: sum.splits if_splits)
  with f show ?thesis by (intro that) auto
qed

fun forgets_jti :: "nat \<Rightarrow> store_call \<Rightarrow> bool" where
  "forgets_jti ex (PurgeExpired now) = (ex \<le> now)"
| "forgets_jti ex _ = False"

lemma spec_jti_frame:
  assumes "spec_call c v r v'" "v_jti v j = Some ex" "\<not> forgets_jti ex c"
  shows "v_jti v' j = Some ex"
  using assms
  by (cases c)
    (auto simp: spec_call_simps expired_def elim!: lift_specD split: if_splits option.splits prod.splits bool.splits)

lemma trace_jti_kept:
  assumes "trace v cs rs v'" "v_jti v j = Some ex" "none_of (forgets_jti ex) cs"
  shows "v_jti v' j = Some ex"
  using assms by (induction rule: trace.induct) (auto simp: none_of_def dest: spec_jti_frame)

context clocked_backend
begin

lemma replay_refused:
  assumes good: "good (w_store w)"
    and first: "run (DpopVerifier_verify P v (oauth_ops B) proof m u tok rn) w = (Ok prf, w1)"
    and between: "calls_ok cs" "none_of (forgets_jti (w_clock w + 300)) cs" "exec_all B at_time cs (w_store w1) = (rs, s2)"
    and clocks: "time_ok (w_clock w + 300)" "time_ok (w_clock w2 + 300)"
    and second: "w_store w2 = s2" "dpop_signed P proof2 = Ok (jwk2, c2)" "dc_jti c2 = dp_jti prf"
      "run (DpopVerifier_verify P v (oauth_ops B) proof2 m2 u2 tok2 rn2) w2 = (r, w3)"
  shows "\<exists>e. r = Err e"
proof -
  from first obtain c :: DpopClaims and s1 where
    rec: "record_dpop_jti (oauth_ops B) (dc_jti c) (w_clock w + 300) (w_store w) = (Ok True, s1)"
    and w1: "w1 = w\<lparr>w_store := s1\<rparr>" and j: "dp_jti prf = dc_jti c"
    by (rule run_dpop_verify_Ok) blast
  have s1: "good s1" "v_jti (\<alpha> s1) (dc_jti c) = Some (w_clock w + 300)"
    using meets_Ok [OF oauth.record_dpop_jti [OF clocks(1)] good rec]
    by (auto simp: spec_record_dpop_jti_def writes_def split: option.splits)
  have s2: "good s2" "v_jti (\<alpha> s2) (dc_jti c) = Some (w_clock w + 300)"
    using exec_all_trace [OF between(1) s1(1)] between(3) trace_jti_kept [OF _ s1(2) between(2)] w1 by auto
  show ?thesis
  proof (cases r)
    case (Inr prf2)
    with second(4) have "run (DpopVerifier_verify P v (oauth_ops B) proof2 m2 u2 tok2 rn2) w2 = (Ok prf2, w3)" by simp
    then obtain s3 where "record_dpop_jti (oauth_ops B) (dc_jti c2) (w_clock w2 + 300) s2 = (Ok True, s3)"
      by (rule run_dpop_verify_Ok) (use second(1,2) in auto)
    from meets_Ok [OF oauth.record_dpop_jti [OF clocks(2)] s2(1) this] s2(2) second(3) j
    show ?thesis by (auto simp: spec_record_dpop_jti_def)
  qed simp
qed

end

lemmas replay_refused_of = clocked_backend.replay_refused

text \<open>C28: a proof works once. After \<open>verify\<close> accepted a proof, and whatever storage calls any requests make in
  between, as long as none purges at or after the cached expiry, verifying any proof that carries the same
  \<open>jti\<close> is an error, on every backend that meets the storage contracts.\<close>

theorem dpop_replay_refused:
  assumes "clocked_backend B good up \<alpha> at_time" "good (w_store w)"
    and "run (DpopVerifier_verify P v (oauth_ops B) proof m u tok rn) w = (Ok prf, w1)"
    and "calls_ok cs" "none_of (forgets_jti (w_clock w + 300)) cs" "exec_all B at_time cs (w_store w1) = (rs, s2)"
    and "time_ok (w_clock w + 300)" "time_ok (w_clock w2 + 300)"
    and "w_store w2 = s2" "dpop_signed P proof2 = Ok (jwk2, c2)" "dc_jti c2 = dp_jti prf"
  shows "\<exists>e. fst (run (DpopVerifier_verify P v (oauth_ops B) proof2 m2 u2 tok2 rn2) w2) = Err e"
  using replay_refused_of [OF assms prod.collapse [symmetric], of m2 u2 tok2 rn2] .

subsection \<open>Device approval\<close>

datatype SigninStatus = Pending | Approved | Denied | Expired

fun SigninStatus_as_str :: "SigninStatus \<Rightarrow> string" where
  "SigninStatus_as_str Pending = ''pending''"
| "SigninStatus_as_str Approved = ''approved''"
| "SigninStatus_as_str Denied = ''denied''"
| "SigninStatus_as_str Expired = ''expired''"

definition approval_challenge :: "string \<Rightarrow> string \<Rightarrow> bytes" where
  "approval_challenge request_id user_code =
     as_bytes ''stelyph-signin-approval:v1:'' @ as_bytes request_id @ as_bytes '':'' @ as_bytes user_code"

text \<open>\<open>verify_signature\<close> of \<open>atrium_crypto\<close> is the parameter: did:key, message, signature.\<close>

definition verify_approval ::
  "(string \<Rightarrow> bytes \<Rightarrow> bytes \<Rightarrow> bool) \<Rightarrow> string \<Rightarrow> string \<Rightarrow> string \<Rightarrow> bytes \<Rightarrow> bool" where
  "verify_approval verify_signature device_did_key request_id user_code signature =
     (let challenge = approval_challenge request_id user_code in verify_signature device_did_key challenge signature)"

lemma as_bytes_append: "as_bytes (a @ b) = as_bytes a @ as_bytes b"
  by (simp add: as_bytes_def)

text \<open>A challenge belongs to one request as long as request ids have no colon; with colons two requests share one.\<close>

lemma approval_challenge_inj:
  assumes "CHR '':'' \<notin> set r" "CHR '':'' \<notin> set r'"
  shows "approval_challenge r c = approval_challenge r' c' \<longleftrightarrow> r = r' \<and> c = c'"
  using sep_eq_iff [OF assms, of c c']
  by (simp add: approval_challenge_def flip: as_bytes_append)

lemma approval_challenge_ambiguous:
  "approval_challenge ''a:b'' ''c'' = approval_challenge ''a'' ''b:c''"
  by (simp add: approval_challenge_def as_bytes_def)

subsection \<open>Witnesses\<close>

definition wit_header :: "bytes \<Rightarrow> json" where
  "wit_header d = Object [(''typ'', String ''dpop+jwt''), (''alg'', String ''ES256''),
     (''jwk'', Object [(''kty'', String ''EC''), (''crv'', String ''P-256''),
        (''x'', String (wit_hex (wit_coord d))), (''y'', String (wit_hex (replicate 32 0)))])]"

definition wit_proof :: "bytes \<Rightarrow> string list \<Rightarrow> string" where
  "wit_proof d fs = (let inp = wit_hex [1] @ ''.'' @ wit_hex (pack fs)
     in inp @ ''.'' @ wit_hex (wit_coord d @ as_bytes inp))"

definition wit_jwk :: "bytes \<Rightarrow> PublicJwk" where
  "wit_jwk d = \<lparr>jwk_kty = ''EC'', jwk_crv = ''P-256'', jwk_x = wit_hex (wit_coord d), jwk_y = wit_hex (replicate 32 0),
    jwk_kid = None, jwk_alg = None, jwk_use = None\<rparr>"

lemma wit_signed:
  assumes "wit_dpop_from_slice (pack fs) = Ok c"
  shows "dpop_signed (wit_oauth (wit_header d)) (wit_proof d fs) = Ok (wit_jwk d, c)"
proof -
  let ?P = "wit_oauth (wit_header d)"
  let ?inp = "wit_hex [1] @ ''.'' @ wit_hex (pack fs)"
  let ?sig = "wit_coord d @ as_bytes ?inp"
  let ?u = "\<lparr>uv_header = wit_header d, uv_payload_bytes = pack fs, uv_signing_input = ?inp, uv_signature = ?sig\<rparr>"
  have b: "wit_unhex (wit_hex x) = Some x" "CHR ''.'' \<notin> set (wit_hex x)" for x
    using b64_wit [of Null] by (auto simp: b64_ok_def)
  have len: "length (wit_coord d) = 32" by (simp add: wit_coord_def min_def)
  have "split_on CHR ''.'' (wit_proof d fs) = [wit_hex [1], wit_hex (pack fs), wit_hex ?sig]"
    by (simp add: wit_proof_def Let_def split_on_append split_on_fresh b)
  then have parse: "Unverified_parse ?P (wit_proof d fs) = Ok ?u"
    by (auto simp: Unverified_parse_Ok b)
  have "verify_with ?P (dpop_from_slice ?P) ?u (wit_jwk d) = Ok c"
    using assms len
    by (intro verify_with_OkI [where a = ES256])
      (simp_all add: wit_jwk_def PublicJwk_alg_Ok header_str_def wit_header_def json_get_def PublicJwk_verify_Ok sec1_uncompressed_Ok b exI [of _ ES256])
  with parse show ?thesis
    unfolding dpop_signed_Ok
    by (intro exI [of _ ?u])
      (simp add: wit_jwk_def header_str_def wit_header_def json_get_def reject_if_private_def PRIVATE_MEMBERS_def wit_jwk_from_value_def)
qed

definition wit_dpop :: DpopVerifier where
  "wit_dpop = \<lparr>nonce_secret = [5, 5]\<rparr>"

definition wit_claims :: "nat \<Rightarrow> DpopClaims" where
  "wit_claims t = \<lparr>dc_jti = ''j1'', dc_htm = ''POST'', dc_htu = ''https://pds.test/oauth/token'', dc_iat = t,
     dc_nonce = Some (nonce_for_window (wit_oauth Null) wit_dpop 3), dc_ath = None\<rparr>"

definition wit_dpop_proof :: "nat \<Rightarrow> string" where
  "wit_dpop_proof t = wit_proof [9] [''j1'', ''POST'', ''https://pds.test/oauth/token'', nat_text t,
     nonce_for_window (wit_oauth Null) wit_dpop 3, []]"

abbreviation wit_suite :: oauth_prims where
  "wit_suite \<equiv> wit_oauth (wit_header [9])"

lemma wit_nonce: "nonce_for_window (wit_oauth h) v n = nonce_for_window (wit_oauth h') v n"
  by (simp add: nonce_for_window_def)

lemma wit_dpop_signed: "\<exists>jwk. dpop_signed wit_suite (wit_dpop_proof t) = Ok (jwk, wit_claims t)"
  unfolding wit_dpop_proof_def
proof (rule exI, rule wit_signed)
  have "nonce_for_window (wit_oauth Null) wit_dpop 3 \<noteq> []"
    by (simp add: nonce_for_window_def wit_hex_def wit_dpop_def)
  then show "wit_dpop_from_slice (pack [''j1'', ''POST'', ''https://pds.test/oauth/token'', nat_text t,
     nonce_for_window (wit_oauth Null) wit_dpop 3, []]) = Ok (wit_claims t)"
    by (simp add: wit_dpop_from_slice_def unpack_pack text_nat_text wit_claims_def del: nat_text.simps)
qed

lemma wit_dpop_checks:
  "t \<in> {1000, 1300} \<Longrightarrow> now \<in> {1000, 1300} \<Longrightarrow>
   dpop_checks wit_suite wit_dpop now (wit_claims t) ''POST'' ''https://pds.test/oauth/token'' None True"
  by (auto simp: dpop_checks_def wit_claims_def eq_ignore_ascii_case_def wit_nonce [of "wit_header [9]" _ _ Null])

definition wit_at :: "nat \<Rightarrow> Inner \<Rightarrow> Inner world" where
  "wit_at now s = (wit_world s)\<lparr>w_clock := now\<rparr>"

lemma wit_dpop_accepts:
  assumes "t \<in> {1000, 1300}" "now \<in> {1000, 1300}" "hm_get (m_oauth_jti g) ''j1'' = None"
  shows "\<exists>prf. run (DpopVerifier_verify wit_suite wit_dpop (oauth_ops mem_backend) (wit_dpop_proof t) ''POST''
      ''https://pds.test/oauth/token'' None True) (wit_at now g) =
    (Ok prf, wit_at now (g\<lparr>m_oauth_jti := hm_insert ''j1'' (now + 300) (m_oauth_jti g)\<rparr>)) \<and> dp_jti prf = ''j1''"
proof -
  obtain jwk where "dpop_signed wit_suite (wit_dpop_proof t) = Ok (jwk, wit_claims t)"
    using wit_dpop_signed by blast
  from dpop_verify_complete [OF this, of wit_dpop "wit_at now g"] wit_dpop_checks [OF assms(1,2)] assms(3)
  show ?thesis
    by (simp add: wit_at_def wit_world_def mem_record_dpop_jti_def wit_claims_def hm_contains_key_def)
qed


abbreviation wit_verify :: "nat \<Rightarrow> (Inner world, OAuthError + DpopProof) async" where
  "wit_verify t \<equiv> DpopVerifier_verify wit_suite wit_dpop (oauth_ops mem_backend) (wit_dpop_proof t) ''POST''
     ''https://pds.test/oauth/token'' None True"

theorem dpop_verify_sound_witness:
  "\<exists>prf c jwk. fst (run (wit_verify 1000) (wit_at 1000 (mem_new ''t''))) = Ok prf \<and>
     dpop_checks wit_suite wit_dpop 1000 c ''POST'' ''https://pds.test/oauth/token'' None True \<and>
     dp_jkt prf = thumbprint wit_suite jwk"
proof -
  obtain pf s' where r: "run (wit_verify 1000) (wit_at 1000 (mem_new ''t'')) = (Ok pf, s')"
    using wit_dpop_accepts [of 1000 1000 "mem_new ''t''"] by (auto simp: mem_new_def)
  from dpop_verify_sound [OF r] arg_cong [OF r, of fst] show ?thesis
    unfolding sum.case fst_conv by (force simp: wit_at_def)
qed

theorem dpop_replay_refused_witness:
  "\<exists>prf w1 e. run (wit_verify 1000) (wit_at 1000 (mem_new ''t'')) = (Ok prf, w1) \<and>
     fst (run (wit_verify 1000) (wit_at 1100 (snd (exec_all mem_backend mem_at [(''u'', PurgeExpired 1100)] (w_store w1))))) = Err e"
proof -
  obtain pf w1 where r: "run (wit_verify 1000) (wit_at 1000 (mem_new ''t'')) = (Ok pf, w1)" "dp_jti pf = ''j1''"
    using wit_dpop_accepts [of 1000 1000 "mem_new ''t''"] by (auto simp: mem_new_def)
  obtain jwk where j: "dpop_signed wit_suite (wit_dpop_proof 1000) = Ok (jwk, wit_claims 1000)"
    using wit_dpop_signed by blast
  let ?cs = "[(''u'', PurgeExpired 1100)]"
  have "\<exists>e. fst (run (wit_verify 1000) (wit_at 1100 (snd (exec_all mem_backend mem_at ?cs (w_store w1))))) = Err e"
    by (rule dpop_replay_refused [OF mem_clocked _ r(1), of ?cs "fst (exec_all mem_backend mem_at ?cs (w_store w1))"
          "snd (exec_all mem_backend mem_at ?cs (w_store w1))" "wit_at 1100 (snd (exec_all mem_backend mem_at ?cs (w_store w1)))"
          "wit_dpop_proof 1000" jwk "wit_claims 1000"])
      (simp_all add: wit_at_def wit_world_def mem_ok_new calls_ok_def none_of_def time_ok_def j r(2), simp add: wit_claims_def)
  with r(1) show ?thesis by blast
qed

text \<open>
  The cache forgets a \<open>jti\<close> 300 seconds after it was recorded, but a proof dated in the future stays
  fresh until 300 seconds after its own \<open>iat\<close>: with a purge in between, one proof is accepted twice.
\<close>

lemma dpop_future_iat_replay:
  "\<exists>p1 w1 p2 w2. run (wit_verify 1300) (wit_at 1000 (mem_new ''t'')) = (Ok p1, w1) \<and>
     run (wit_verify 1300) (wit_at 1300 (snd (purge_expired (oauth_ops mem_backend) 1300 (w_store w1)))) = (Ok p2, w2)"
proof -
  let ?g1 = "(mem_new ''t'')\<lparr>m_oauth_jti := hm_insert ''j1'' 1300 []\<rparr>"
  obtain p1 where 1: "run (wit_verify 1300) (wit_at 1000 (mem_new ''t'')) = (Ok p1, wit_at 1000 ?g1)"
    using wit_dpop_accepts [of 1300 1000 "mem_new ''t''"] by (auto simp: mem_new_def)
  have "hm_get (m_oauth_jti (snd (mem_purge_expired 1300 ?g1))) ''j1'' = None"
    by (simp add: mem_purge_expired_def Let_def hm_insert_def hm_retain_def hm_get_def)
  from wit_dpop_accepts [of 1300 1300, OF _ _ this] 1 show ?thesis
    by (fastforce simp: wit_at_def wit_world_def)
qed

end
