(* ===== verification/OAuth_Client.thy ===== *)
theory OAuth_Client
  imports OAuth_Dpop
begin

text \<open>
  Clients and authorization requests (\<open>rust-core/src/oauth/client.rs\<close>, \<open>request.rs\<close>, \<open>metadata.rs\<close>): which URLs
  may be a \<open>client_id\<close>, what a client-metadata document must say, how a pushed authorization request is
  validated into what is stored, and the discovery documents.

  \<open>Url\<close> has the components the \<open>url\<close> crate's accessors return; parsing a text into it is a parameter.
\<close>

subsection \<open>Client identifiers\<close>

datatype Host = Domain string | Ipv4 nat | Ipv6 nat

record Url =
  url_text :: string \<comment> \<open>\<open>as_str\<close>\<close>
  url_scheme :: string
  url_username :: string
  url_password :: "string option"
  url_host :: "Host option"
  url_port :: "nat option" \<comment> \<open>\<open>None\<close> for the scheme's default\<close>
  url_path :: string
  url_query :: "string option"
  url_query_pairs :: "(string \<times> string) list"
  url_fragment :: "string option"

datatype ClientId =
    Web Url
  | Loopback (lb_redirect_uris: "string list") (lb_scope: "string option") (lb_raw: string)

definition parse_web :: "Url \<Rightarrow> OAuthError + ClientId" where
  "parse_web url =
     and_then (case url_host url of
         Some (Domain d) \<Rightarrow>
           if d = ''localhost'' \<or> ends_with d ''.localhost''
           then Err (InvalidClient ''localhost clients must use the http:// loopback form'') else Ok ()
       | Some _ \<Rightarrow> Err (InvalidClient ''client_id host must be a domain name, not an IP address'')
       | None \<Rightarrow> Err (InvalidClient ''client_id must have a host'')) (\<lambda>_.
       if url_port url \<noteq> None then Err (InvalidClient ''client_id must not specify a port'')
       else if url_path url = [] \<or> url_path url = ''/''
       then Err (InvalidClient ''client_id must include a path to the metadata document'')
       else if url_query url \<noteq> None then Err (InvalidClient ''client_id must not contain a query string'')
       else Ok (Web url))"

fun loopback_params ::
  "(string \<times> string) list \<Rightarrow> string list \<Rightarrow> string option \<Rightarrow> OAuthError + (string list \<times> string option)" where
  "loopback_params [] uris sc = Ok (uris, sc)"
| "loopback_params ((k, v) # r) uris sc =
     (if k = ''redirect_uri'' then loopback_params r (uris @ [v]) sc
      else if k = ''scope'' then loopback_params r uris (Some v)
      else Err (InvalidClient (''unsupported localhost client_id parameter: '' @ k)))"

definition parse_loopback :: "string \<Rightarrow> Url \<Rightarrow> OAuthError + ClientId" where
  "parse_loopback raw url =
     (if url_host url \<noteq> Some (Domain ''localhost'')
      then Err (InvalidClient ''http client_id is only permitted for localhost'')
      else if url_port url \<noteq> None then Err (InvalidClient ''localhost client_id must not specify a port'')
      else if \<not> (url_path url = [] \<or> url_path url = ''/'')
      then Err (InvalidClient ''localhost client_id must not have a path'')
      else and_then (loopback_params (url_query_pairs url) [] None) (\<lambda>(redirect_uris, scope).
        let redirect_uris = (if redirect_uris = [] then [''http://127.0.0.1/'', ''http://[::1]/''] else redirect_uris) in
        Ok (Loopback redirect_uris scope raw)))"

definition ClientId_parse :: "(string \<Rightarrow> string + Url) \<Rightarrow> string \<Rightarrow> OAuthError + ClientId" where
  "ClientId_parse url_parse raw =
     and_then (map_err (\<lambda>e. InvalidClient (''client_id is not a URL: '' @ e)) (url_parse raw)) (\<lambda>url.
       if url_username url \<noteq> [] \<or> url_password url \<noteq> None
       then Err (InvalidClient ''client_id must not contain credentials'')
       else if url_fragment url \<noteq> None then Err (InvalidClient ''client_id must not contain a fragment'')
       else if url_scheme url = ''http'' then parse_loopback raw url
       else if url_scheme url = ''https'' then parse_web url
       else Err (InvalidClient (''client_id scheme must be https (or http for localhost), got '' @ url_scheme url)))"

fun ClientId_as_str :: "ClientId \<Rightarrow> string" where
  "ClientId_as_str (Web u) = url_text u"
| "ClientId_as_str (Loopback _ _ raw) = raw"

fun is_loopback :: "ClientId \<Rightarrow> bool" where
  "is_loopback (Loopback _ _ _) = True"
| "is_loopback (Web _) = False"

subsection \<open>Client metadata\<close>

record ClientMetadata =
  cm_client_id :: string
  cm_client_name :: "string option"
  cm_redirect_uris :: "string list"
  cm_grant_types :: "string list"
  cm_response_types :: "string list"
  cm_scope :: string
  cm_token_endpoint_auth_method :: string
  cm_dpop_bound_access_tokens :: bool
  cm_application_type :: "string option"
  cm_jwks_uri :: "string option"
  cm_jwks :: "json option"
  cm_client_uri :: "string option"
  cm_logo_uri :: "string option"
  cm_policy_uri :: "string option"
  cm_tos_uri :: "string option"

fun loopback_metadata :: "ClientId \<Rightarrow> ClientMetadata option" where
  "loopback_metadata (Web _) = None"
| "loopback_metadata (Loopback redirect_uris scope raw) = Some
     \<lparr>cm_client_id = raw, cm_client_name = Some ''Local development client'', cm_redirect_uris = redirect_uris,
      cm_grant_types = [''authorization_code'', ''refresh_token''], cm_response_types = [''code''],
      cm_scope = (case scope of Some s \<Rightarrow> s | None \<Rightarrow> ''atproto''),
      cm_token_endpoint_auth_method = ''none'', cm_dpop_bound_access_tokens = True,
      cm_application_type = Some ''native'', cm_jwks_uri = None, cm_jwks = None, cm_client_uri = None,
      cm_logo_uri = None, cm_policy_uri = None, cm_tos_uri = None\<rparr>"

definition ClientMetadata_validate :: "ClientMetadata \<Rightarrow> ClientId \<Rightarrow> OAuthError + unit" where
  "ClientMetadata_validate m client_id =
     (if cm_client_id m \<noteq> ClientId_as_str client_id
      then Err (InvalidClient (''client metadata declares client_id '' @ cm_client_id m @ '' but was fetched as '' @ ClientId_as_str client_id))
      else if \<not> cm_dpop_bound_access_tokens m
      then Err (InvalidClient ''client metadata must set dpop_bound_access_tokens to true'')
      else if \<not> list_ex (\<lambda>g. g = ''authorization_code'') (cm_grant_types m)
      then Err (InvalidClient ''client metadata must include the authorization_code grant type'')
      else if \<not> list_ex (\<lambda>r. r = ''code'') (cm_response_types m)
      then Err (InvalidClient ''client metadata must include the `code` response type'')
      else if cm_redirect_uris m = []
      then Err (InvalidClient ''client metadata must declare at least one redirect_uri'')
      else and_then
        (if cm_token_endpoint_auth_method m = ''none'' then Ok ()
         else if cm_token_endpoint_auth_method m = ''private_key_jwt''
         then (if cm_jwks_uri m = None \<and> cm_jwks m = None
               then Err (InvalidClient ''a private_key_jwt client must publish jwks or jwks_uri'') else Ok ())
         else Err (InvalidClient (''unsupported token_endpoint_auth_method: '' @ cm_token_endpoint_auth_method m)))
        (\<lambda>_. if cm_scope m \<noteq> [] then and_then (Scope_parse (cm_scope m)) (\<lambda>_. Ok ()) else Ok ()))"

definition allows_redirect_uri :: "ClientMetadata \<Rightarrow> string \<Rightarrow> bool" where
  "allows_redirect_uri m uri = list_ex (\<lambda>u. u = uri) (cm_redirect_uris m)"

subsection \<open>Authorization requests\<close>

record PushedRequest =
  pr_client_id :: string
  pr_response_type :: string
  pr_redirect_uri :: "string option"
  pr_scope :: "string option"
  pr_state :: "string option"
  pr_code_challenge :: "string option"
  pr_code_challenge_method :: "string option"
  pr_login_hint :: "string option"

record AuthorizationRequest =
  ar_request_uri :: string
  ar_stored :: StoredPushedRequest
  ar_client :: ClientMetadata

definition REQUEST_URI_PREFIX :: string where
  "REQUEST_URI_PREFIX = ''urn:ietf:params:oauth:request_uri:''"

text \<open>The checks of \<open>validate\<close>, before the handle is drawn.\<close>

definition PushedRequest_check ::
  "'x prims_scheme \<Rightarrow> PushedRequest \<Rightarrow> ClientMetadata \<Rightarrow> OAuthError + (string \<times> string \<times> Scope \<times> CodeChallenge)" where
  "PushedRequest_check P self client =
     (if pr_response_type self \<noteq> ''code'' then Err (InvalidRequest ''response_type must be `code`'')
      else and_then (case pr_state self of
          Some s \<Rightarrow> if s \<noteq> [] then Ok s else Err (InvalidRequest ''state is required'')
        | None \<Rightarrow> Err (InvalidRequest ''state is required'')) (\<lambda>state.
      and_then (ok_or (InvalidRequest ''redirect_uri is required'') (pr_redirect_uri self)) (\<lambda>redirect_uri.
      if \<not> allows_redirect_uri client redirect_uri
      then Err (InvalidRequest ''redirect_uri is not registered for this client'')
      else and_then (Scope_parse (case pr_scope self of Some s \<Rightarrow> s | None \<Rightarrow> [])) (\<lambda>requested.
      and_then
        (if cm_scope client \<noteq> [] then and_then (Scope_parse (cm_scope client)) (\<lambda>declared.
           if \<not> Scope_is_subset_of requested declared
           then Err (InvalidScope ''requested scope exceeds the client's registered scope'') else Ok ())
         else Ok ()) (\<lambda>_.
      and_then (ok_or (InvalidRequest ''code_challenge is required'') (pr_code_challenge self)) (\<lambda>ch.
      and_then (CodeChallenge_parse P ch (pr_code_challenge_method self)) (\<lambda>challenge.
        Ok (state, redirect_uri, requested, challenge))))))))"

definition PushedRequest_validate ::
  "'x prims_scheme \<Rightarrow> PushedRequest \<Rightarrow> ClientId \<Rightarrow> ClientMetadata \<Rightarrow> string option \<Rightarrow>
     ('s world, OAuthError + AuthorizationRequest) async" where
  "PushedRequest_validate P self client_id client dpop_jkt =
     try_ok (PushedRequest_check P self client) (\<lambda>(state, redirect_uri, requested, chal).
     abind (random_token P 32) (\<lambda>handle.
     let request_uri = REQUEST_URI_PREFIX @ handle in
     abind now_unix (\<lambda>now.
     Ready (Ok \<lparr>ar_request_uri = request_uri,
       ar_stored = \<lparr>par_request_uri_hash = hash_secret P request_uri, par_client_id = ClientId_as_str client_id,
         par_redirect_uri = redirect_uri, par_scope = Scope_to_string requested, par_state = state,
         par_code_challenge = challenge chal, par_dpop_jkt = dpop_jkt, par_login_hint = pr_login_hint self,
         par_expires_at = now + PAR_TTL_SECS\<rparr>,
       ar_client = client\<rparr>))))"

definition validate_request_uri :: "string \<Rightarrow> OAuthError + unit" where
  "validate_request_uri request_uri =
     (if \<not> starts_with request_uri REQUEST_URI_PREFIX
      then Err (InvalidRequest ''request_uri is not a recognised pushed-request handle'') else Ok ())"

subsection \<open>Discovery documents\<close>

record AuthorizationServerMetadata =
  as_issuer :: string
  as_authorization_endpoint :: string
  as_token_endpoint :: string
  as_pushed_authorization_request_endpoint :: string
  as_revocation_endpoint :: string
  as_jwks_uri :: string
  as_scopes_supported :: "string list"
  as_response_types_supported :: "string list"
  as_grant_types_supported :: "string list"
  as_code_challenge_methods_supported :: "string list"
  as_token_endpoint_auth_methods_supported :: "string list"
  as_token_endpoint_auth_signing_alg_values_supported :: "string list"
  as_require_pushed_authorization_requests :: bool
  as_dpop_signing_alg_values_supported :: "string list"
  as_require_request_uri_registration :: bool
  as_client_id_metadata_document_supported :: bool
  as_authorization_response_iss_parameter_supported :: bool

definition AuthorizationServerMetadata_new :: "string \<Rightarrow> AuthorizationServerMetadata" where
  "AuthorizationServerMetadata_new issuer =
     (let issuer = trim_end_matches CHR ''/'' issuer in
      \<lparr>as_issuer = issuer,
       as_authorization_endpoint = issuer @ ''/oauth/authorize'',
       as_token_endpoint = issuer @ ''/oauth/token'',
       as_pushed_authorization_request_endpoint = issuer @ ''/oauth/par'',
       as_revocation_endpoint = issuer @ ''/oauth/revoke'',
       as_jwks_uri = issuer @ ''/oauth/jwks'',
       as_scopes_supported = SUPPORTED,
       as_response_types_supported = [''code''],
       as_grant_types_supported = [''authorization_code'', ''refresh_token''],
       as_code_challenge_methods_supported = [''S256''],
       as_token_endpoint_auth_methods_supported = [''none'', ''private_key_jwt''],
       as_token_endpoint_auth_signing_alg_values_supported = [''ES256''],
       as_require_pushed_authorization_requests = True,
       as_dpop_signing_alg_values_supported = [''ES256'', ''ES256K''],
       as_require_request_uri_registration = False,
       as_client_id_metadata_document_supported = True,
       as_authorization_response_iss_parameter_supported = True\<rparr>)"

record ProtectedResourceMetadata =
  prm_resource :: string
  prm_authorization_servers :: "string list"
  prm_scopes_supported :: "string list"
  prm_bearer_methods_supported :: "string list"
  prm_resource_documentation :: string

definition ProtectedResourceMetadata_new :: "string \<Rightarrow> ProtectedResourceMetadata" where
  "ProtectedResourceMetadata_new resource =
     (let resource = trim_end_matches CHR ''/'' resource in
      \<lparr>prm_resource = resource, prm_authorization_servers = [resource], prm_scopes_supported = SUPPORTED,
       prm_bearer_methods_supported = [''DPoP''], prm_resource_documentation = ''https://atproto.com''\<rparr>)"

subsection \<open>Which clients exist\<close>

lemma loopback_params_Ok:
  "loopback_params ps uris sc = Ok (u, s) \<longleftrightarrow> set (map fst ps) \<subseteq> {''redirect_uri'', ''scope''} \<and>
     u = uris @ map snd (filter (\<lambda>p. fst p = ''redirect_uri'') ps) \<and>
     s = (case rev (filter (\<lambda>p. fst p = ''scope'') ps) of [] \<Rightarrow> sc | p # _ \<Rightarrow> Some (snd p))"
  by (induction ps uris sc rule: loopback_params.induct) (auto split: list.splits)

definition loopback_uris :: "Url \<Rightarrow> string list" where
  "loopback_uris u = (let given = map snd (filter (\<lambda>p. fst p = ''redirect_uri'') (url_query_pairs u))
     in if given = [] then [''http://127.0.0.1/'', ''http://[::1]/''] else given)"

definition loopback_scope :: "Url \<Rightarrow> string option" where
  "loopback_scope u = (case rev (filter (\<lambda>p. fst p = ''scope'') (url_query_pairs u)) of [] \<Rightarrow> None | p # _ \<Rightarrow> Some (snd p))"

text \<open>What may call itself a client. \<open>ClientId::parse\<close> accepts a web client exactly for an https URL on a
  domain name that is not localhost, with the default port, a path, and no credentials, query or fragment;
  and a loopback client exactly for http on the name localhost, default port, no path, whose only query
  parameters are \<open>redirect_uri\<close> and \<open>scope\<close>; its redirect URIs are those given, in order, or the two
  loopback addresses, so never empty. Every refusal is an \<open>invalid_client\<close> error.\<close>

theorem client_id_exact:
  "(ClientId_parse up raw = Ok cid \<longleftrightarrow>
     (\<exists>u. up raw = Ok u \<and> url_username u = [] \<and> url_password u = None \<and> url_fragment u = None \<and> url_port u = None \<and>
       (case cid of
          Web u' \<Rightarrow> u' = u \<and> url_scheme u = ''https'' \<and> url_query u = None \<and> url_path u \<notin> {[], ''/''} \<and>
            (\<exists>d. url_host u = Some (Domain d) \<and> d \<noteq> ''localhost'' \<and> \<not> ends_with d ''.localhost'')
        | Loopback uris sc raw' \<Rightarrow> raw' = raw \<and> url_scheme u = ''http'' \<and> url_host u = Some (Domain ''localhost'') \<and>
            url_path u \<in> {[], ''/''} \<and> fst ` set (url_query_pairs u) \<subseteq> {''redirect_uri'', ''scope''} \<and>
            uris = loopback_uris u \<and>
            sc = loopback_scope u))) \<and>
   (\<exists>c e. ClientId_parse up raw = Ok c \<or> ClientId_parse up raw = Err (InvalidClient e))"
proof -
  have lp: "\<exists>m. e = InvalidClient m" if "loopback_params ps us sc = Err e" for ps us sc e
    using that by (induction ps us sc rule: loopback_params.induct) (auto split: if_splits)
  have web: "parse_web u = Ok cid \<longleftrightarrow> cid = Web u \<and> url_port u = None \<and> url_query u = None \<and> url_path u \<notin> {[], ''/''} \<and>
      (\<exists>d. url_host u = Some (Domain d) \<and> d \<noteq> ''localhost'' \<and> \<not> ends_with d ''.localhost'')" for u
    by (auto simp: parse_web_def split: option.splits Host.splits)
  have loop: "parse_loopback raw u = Ok cid \<longleftrightarrow> (\<exists>uris sc. cid = Loopback uris sc raw \<and>
      url_host u = Some (Domain ''localhost'') \<and> url_port u = None \<and> url_path u \<in> {[], ''/''} \<and>
      fst ` set (url_query_pairs u) \<subseteq> {''redirect_uri'', ''scope''} \<and>
      uris = loopback_uris u \<and>
      sc = loopback_scope u)" for u
    by (auto simp: parse_loopback_def and_then_Ok_iff loopback_params_Ok Let_def loopback_uris_def loopback_scope_def)
  have err: "\<exists>c e. parse_web u = Ok c \<or> parse_web u = Err (InvalidClient e)"
    "\<exists>c e. parse_loopback raw u = Ok c \<or> parse_loopback raw u = Err (InvalidClient e)" for u
    by (auto simp: parse_web_def parse_loopback_def and_then_def dest: lp split: option.splits Host.splits sum.splits)
  have parse: "ClientId_parse up raw = Ok cid \<longleftrightarrow>
     (\<exists>u. up raw = Ok u \<and> url_username u = [] \<and> url_password u = None \<and> url_fragment u = None \<and>
       (url_scheme u = ''http'' \<and> parse_loopback raw u = Ok cid \<or> url_scheme u = ''https'' \<and> parse_web u = Ok cid))"
    by (cases "up raw") (auto simp: ClientId_parse_def)
  have res: "\<exists>c e. ClientId_parse up raw = Ok c \<or> ClientId_parse up raw = Err (InvalidClient e)"
    using err by (cases "up raw") (auto simp: ClientId_parse_def)
  show ?thesis
    unfolding parse web loop by (intro conjI res) (cases cid; simp; blast)
qed

subsection \<open>Which requests are stored\<close>

lemma allows_redirect_uri_iff: "allows_redirect_uri m u \<longleftrightarrow> u \<in> set (cm_redirect_uris m)"
  by (auto simp: allows_redirect_uri_def list_ex_iff)

lemma PushedRequest_check_Ok:
  "PushedRequest_check P q m = Ok (st, ru, sc, ch) \<longleftrightarrow>
     pr_response_type q = ''code'' \<and> pr_state q = Some st \<and> st \<noteq> [] \<and>
     pr_redirect_uri q = Some ru \<and> ru \<in> set (cm_redirect_uris m) \<and>
     Scope_parse (case pr_scope q of Some s \<Rightarrow> s | None \<Rightarrow> []) = Ok sc \<and>
     (cm_scope m = [] \<or> (\<exists>d. Scope_parse (cm_scope m) = Ok d \<and> set sc \<subseteq> set d)) \<and>
     pr_code_challenge_method q = Some ''S256'' \<and> pr_code_challenge q = Some (challenge ch) \<and>
     length (challenge ch) = 43 \<and> b64url_decode P (challenge ch) \<noteq> None"
  by (cases ch)
    (auto simp: PushedRequest_check_def and_then_Ok_iff allows_redirect_uri_iff CodeChallenge_parse_Ok Scope_is_subset_of_def
      list_all_iff Scope_contains_def list_ex_iff subset_iff split: option.splits if_splits)


text \<open>
  Whatever slashes end the configured origin, the advertised issuer ends in none, and the protected-resource
  document names the same issuer as its only authorization server: the byte-wise comparison clients make
  cannot fail on a slash.
\<close>

lemma trim_start_matches_hd: "trim_start_matches d s = [] \<or> hd (trim_start_matches d s) \<noteq> d"
  by (induction s) auto

lemma trim_start_matches_replicate: "trim_start_matches d (replicate n d @ s) = trim_start_matches d s"
  by (induction n) auto

lemma metadata_issuer_canonical:
  "as_issuer (AuthorizationServerMetadata_new x) = [] \<or> last (as_issuer (AuthorizationServerMetadata_new x)) \<noteq> CHR ''/''"
  "AuthorizationServerMetadata_new (x @ replicate n CHR ''/'') = AuthorizationServerMetadata_new x"
  "prm_authorization_servers (ProtectedResourceMetadata_new x) = [as_issuer (AuthorizationServerMetadata_new x)]"
  using trim_start_matches_hd [of "CHR ''/''" "rev x"]
  by (auto simp: AuthorizationServerMetadata_new_def ProtectedResourceMetadata_new_def trim_end_matches_def Let_def
      last_rev trim_start_matches_replicate)

subsection \<open>Witnesses\<close>

definition wit_request :: PushedRequest where
  "wit_request = \<lparr>pr_client_id = ''https://app.test/c.json'', pr_response_type = ''code'',
     pr_redirect_uri = Some ''https://app.test/cb'', pr_scope = Some ''atproto'', pr_state = Some ''s1'',
     pr_code_challenge = Some ''aaaaaaaaaaaaaaaaaaaaaaaaaaaaaaaaaaaaaaaaaaa'', pr_code_challenge_method = Some ''S256'',
     pr_login_hint = None\<rparr>"

definition wit_client_id :: ClientId where
  "wit_client_id = Web \<lparr>url_text = ''https://app.test/c.json'', url_scheme = ''https'', url_username = [], url_password = None,
     url_host = Some (Domain ''app.test''), url_port = None, url_path = ''/c.json'', url_query = None, url_query_pairs = [],
     url_fragment = None\<rparr>"

definition wit_metadata :: ClientMetadata where
  "wit_metadata = \<lparr>cm_client_id = ''https://app.test/c.json'', cm_client_name = None, cm_redirect_uris = [''https://app.test/cb''],
     cm_grant_types = [''authorization_code''], cm_response_types = [''code''], cm_scope = ''atproto'',
     cm_token_endpoint_auth_method = ''none'', cm_dpop_bound_access_tokens = True, cm_application_type = None,
     cm_jwks_uri = None, cm_jwks = None, cm_client_uri = None, cm_logo_uri = None, cm_policy_uri = None, cm_tos_uri = None\<rparr>"

lemma wit_scope: "Scope_parse ''atproto'' = Ok [''atproto'']"
  by (simp add: Scope_parse_def split_ascii_whitespace_def is_ascii_whitespace_def SUPPORTED_def ATPROTO_def btree_insert_def)

lemma wit_check: "PushedRequest_check wit_prims wit_request wit_metadata =
    Ok (''s1'', ''https://app.test/cb'', [''atproto''], \<lparr>challenge = ''aaaaaaaaaaaaaaaaaaaaaaaaaaaaaaaaaaaaaaaaaaa''\<rparr>)"
  by (simp add: PushedRequest_check_Ok wit_request_def wit_metadata_def wit_scope wit_prims_def)


end
