(* ===== verification/Auth_Jwt.thy ===== *)
theory Auth_Jwt
  imports OAuth_Client
begin

text \<open>
  Sessions and passwords (\<open>rust-core/src/auth/jwt.rs\<close>, \<open>service_auth.rs\<close>, \<open>rust-core/src/error.rs\<close>) and the
  errors the XRPC layer answers with (\<open>rust-pds/src/xrpc/error.rs\<close>).

  \<open>auth_prims\<close> adds what the code calls of \<open>argon2\<close> (PHC strings), \<open>jsonwebtoken\<close> (HS256, which checks
  \<open>exp\<close> against the clock itself), \<open>uuid\<close> and \<open>atrium_crypto\<close> (secp256k1 keypairs).
\<close>

subsection \<open>Errors\<close>

datatype CoreError = ExpiredToken | InvalidToken | Internal string

datatype XrpcError =
    ExpiredToken | InvalidToken | AuthRequired | AccountTakedown
  | InvalidHandle | HandleNotAvailable | InvalidInviteCode | UnsupportedDomain
  | UnresolvableDid | IncompatibleDidDoc | InvalidSwap | HandleNotFound
  | MethodNotImplemented | InvalidRequest string | UpstreamFailure string | Internal string

fun xrpc_status :: "XrpcError \<Rightarrow> nat" where
  "xrpc_status XrpcError.ExpiredToken = 401"
| "xrpc_status XrpcError.InvalidToken = 401"
| "xrpc_status AuthRequired = 401"
| "xrpc_status AccountTakedown = 401"
| "xrpc_status InvalidHandle = 400"
| "xrpc_status HandleNotAvailable = 400"
| "xrpc_status InvalidInviteCode = 400"
| "xrpc_status UnsupportedDomain = 400"
| "xrpc_status UnresolvableDid = 400"
| "xrpc_status IncompatibleDidDoc = 400"
| "xrpc_status InvalidSwap = 400"
| "xrpc_status HandleNotFound = 404"
| "xrpc_status MethodNotImplemented = 404"
| "xrpc_status (XrpcError.InvalidRequest _) = 400"
| "xrpc_status (UpstreamFailure _) = 502"
| "xrpc_status (XrpcError.Internal _) = 500"

fun xrpc_name :: "XrpcError \<Rightarrow> string" where
  "xrpc_name XrpcError.ExpiredToken = ''ExpiredToken''"
| "xrpc_name XrpcError.InvalidToken = ''InvalidToken''"
| "xrpc_name AuthRequired = ''AuthRequired''"
| "xrpc_name AccountTakedown = ''AccountTakedown''"
| "xrpc_name InvalidHandle = ''InvalidHandle''"
| "xrpc_name HandleNotAvailable = ''HandleNotAvailable''"
| "xrpc_name InvalidInviteCode = ''InvalidInviteCode''"
| "xrpc_name UnsupportedDomain = ''UnsupportedDomain''"
| "xrpc_name UnresolvableDid = ''UnresolvableDid''"
| "xrpc_name IncompatibleDidDoc = ''IncompatibleDidDoc''"
| "xrpc_name InvalidSwap = ''InvalidSwap''"
| "xrpc_name HandleNotFound = ''HandleNotFound''"
| "xrpc_name MethodNotImplemented = ''MethodNotImplemented''"
| "xrpc_name (XrpcError.InvalidRequest _) = ''InvalidRequest''"
| "xrpc_name (UpstreamFailure _) = ''UpstreamFailure''"
| "xrpc_name (XrpcError.Internal _) = ''InternalServerError''"

fun xrpc_message :: "XrpcError \<Rightarrow> string" where
  "xrpc_message XrpcError.ExpiredToken = ''Token has expired''"
| "xrpc_message XrpcError.InvalidToken = ''Token could not be verified''"
| "xrpc_message AuthRequired = ''Authentication required''"
| "xrpc_message AccountTakedown = ''Account has been taken down''"
| "xrpc_message InvalidHandle = ''Invalid handle''"
| "xrpc_message HandleNotAvailable = ''Handle not available''"
| "xrpc_message InvalidInviteCode = ''Invalid invite code''"
| "xrpc_message UnsupportedDomain = ''Unsupported domain''"
| "xrpc_message UnresolvableDid = ''DID cannot be resolved''"
| "xrpc_message IncompatibleDidDoc = ''Incompatible DID document''"
| "xrpc_message InvalidSwap = ''Swap commit mismatch''"
| "xrpc_message HandleNotFound = ''Handle not found''"
| "xrpc_message MethodNotImplemented = ''Method not implemented''"
| "xrpc_message (XrpcError.InvalidRequest m) = m"
| "xrpc_message (UpstreamFailure _) = ''Upstream service error''"
| "xrpc_message (XrpcError.Internal _) = ''Internal error''"

text \<open>The two \<open>From\<close> conversions; a storage error's own text is not part of the model.\<close>

definition xrpc_of_storage :: "StorageError \<Rightarrow> XrpcError" where
  "xrpc_of_storage e = XrpcError.Internal ''storage error''"

fun xrpc_of_core :: "CoreError \<Rightarrow> XrpcError" where
  "xrpc_of_core CoreError.ExpiredToken = XrpcError.ExpiredToken"
| "xrpc_of_core CoreError.InvalidToken = XrpcError.InvalidToken"
| "xrpc_of_core (CoreError.Internal m) = XrpcError.Internal m"

definition xdb :: "('s, 'a) sop \<Rightarrow> ('s world, XrpcError + 'a) async" where
  "xdb op = abind (db op) (\<lambda>r. Ready (map_err xrpc_of_storage r))"

lemma run_xdb [async_simps]:
  "run (xdb op) w = (case op (w_store w) of (r, s') \<Rightarrow> (map_err xrpc_of_storage r, w\<lparr>w_store := s'\<rparr>))"
  by (simp add: xdb_def async_simps split: prod.splits)

subsection \<open>Passwords\<close>

record AuthClaims =
  ac_sub :: string
  ac_scope :: string
  ac_exp :: nat
  ac_iat :: nat
  ac_jti :: "string option"

datatype jwt_error = ExpiredSignature | OtherJwtError

record auth_prims = oauth_prims +
  phc_hash :: "string \<Rightarrow> bytes \<Rightarrow> string + string" \<comment> \<open>password, 16 bytes of salt\<close>
  phc_verify :: "string \<Rightarrow> string \<Rightarrow> string + bool" \<comment> \<open>password, PHC string\<close>
  jwt_encode :: "bytes \<Rightarrow> AuthClaims \<Rightarrow> string + string" \<comment> \<open>secret, claims\<close>
  jwt_decode :: "nat \<Rightarrow> bytes \<Rightarrow> string \<Rightarrow> jwt_error + AuthClaims" \<comment> \<open>clock, secret, token\<close>
  uuid_v4 :: "bytes \<Rightarrow> string"
  k256_random :: "(nat \<Rightarrow> byte) \<Rightarrow> nat \<Rightarrow> bytes \<times> nat"
  k256_did :: "bytes \<Rightarrow> string" \<comment> \<open>\<open>did:key\<close> of a scalar\<close>
  k256_sign :: "bytes \<Rightarrow> bytes \<Rightarrow> string + bytes"

definition hash_password :: "'x auth_prims_scheme \<Rightarrow> string \<Rightarrow> ('s world, CoreError + string) async" where
  "hash_password P password = abind (fill_bytes 16) (\<lambda>salt.
     Ready (map_err (\<lambda>e. CoreError.Internal (''argon2 hash error: '' @ e)) (phc_hash P password salt)))"

definition verify_password :: "'x auth_prims_scheme \<Rightarrow> string \<Rightarrow> string \<Rightarrow> CoreError + bool" where
  "verify_password P password phc =
     map_err (\<lambda>e. CoreError.Internal (''malformed PHC string: '' @ e)) (phc_verify P password phc)"

subsection \<open>Session tokens\<close>

definition encode_access_jwt_at :: "'x auth_prims_scheme \<Rightarrow> string \<Rightarrow> bytes \<Rightarrow> nat \<Rightarrow> CoreError + string" where
  "encode_access_jwt_at P did secret now =
     (let claims = \<lparr>ac_sub = did, ac_scope = ''com.atproto.access'', ac_exp = now + 7200, ac_iat = now, ac_jti = None\<rparr>
      in map_err (\<lambda>e. CoreError.Internal (''JWT encode error: '' @ e)) (jwt_encode P secret claims))"

definition encode_access_jwt :: "'x auth_prims_scheme \<Rightarrow> string \<Rightarrow> bytes \<Rightarrow> ('s world, CoreError + string) async" where
  "encode_access_jwt P did secret = abind now_unix (\<lambda>now. Ready (encode_access_jwt_at P did secret now))"

definition encode_refresh_jwt_at :: "'x auth_prims_scheme \<Rightarrow> string \<Rightarrow> bytes \<Rightarrow> nat \<Rightarrow> ('s world, CoreError + string) async" where
  "encode_refresh_jwt_at P did secret now = abind (fill_bytes 16) (\<lambda>b.
     let claims = \<lparr>ac_sub = did, ac_scope = ''com.atproto.refresh'', ac_exp = now + 7776000, ac_iat = now,
           ac_jti = Some (uuid_v4 P b)\<rparr>
     in Ready (map_err (\<lambda>e. CoreError.Internal (''JWT encode error: '' @ e)) (jwt_encode P secret claims)))"

definition encode_refresh_jwt :: "'x auth_prims_scheme \<Rightarrow> string \<Rightarrow> bytes \<Rightarrow> ('s world, CoreError + string) async" where
  "encode_refresh_jwt P did secret = abind now_unix (\<lambda>now. encode_refresh_jwt_at P did secret now)"

definition decode_jwt :: "'x auth_prims_scheme \<Rightarrow> string \<Rightarrow> bytes \<Rightarrow> ('s world, CoreError + AuthClaims) async" where
  "decode_jwt P token secret = abind now_unix (\<lambda>now.
     Ready (map_err (\<lambda>e. case e of ExpiredSignature \<Rightarrow> CoreError.ExpiredToken | OtherJwtError \<Rightarrow> CoreError.InvalidToken)
       (jwt_decode P now secret token)))"

subsection \<open>Service tokens\<close>

definition mint_service_auth_jwt_at ::
  "'x auth_prims_scheme \<Rightarrow> bytes \<Rightarrow> string \<Rightarrow> string \<Rightarrow> string option \<Rightarrow> nat \<Rightarrow> nat \<Rightarrow> ('s world, string + string) async" where
  "mint_service_auth_jwt_at P signing_key iss aud lxm exp_unix now =
     abind (fill_bytes 16) (\<lambda>r.
     let jti = hexlower P r;
         header_json = as_bytes ''{\"typ\":\"JWT\",\"alg\":\"ES256K\"}'';
         claims = [(''iss'', String iss), (''aud'', String aud)] @
           (case lxm of Some l \<Rightarrow> [(''lxm'', String l)] | None \<Rightarrow> []) @
           [(''exp'', Number (int exp_unix)), (''iat'', Number (int now)), (''jti'', String jti)]
     in try_ok (json_to_vec P (Object claims)) (\<lambda>claims_json.
     let h = b64url_encode P header_json;
         p = b64url_encode P claims_json;
         signing_input = h @ ''.'' @ p
     in try_ok (map_err (\<lambda>e. ''ES256K sign: '' @ e) (k256_sign P signing_key (as_bytes signing_input))) (\<lambda>sig_bytes.
     Ready (Ok (signing_input @ ''.'' @ b64url_encode P sig_bytes)))))"

definition mint_service_auth_jwt_with ::
  "'x auth_prims_scheme \<Rightarrow> bytes \<Rightarrow> string \<Rightarrow> string \<Rightarrow> string option \<Rightarrow> nat \<Rightarrow> ('s world, string + string) async" where
  "mint_service_auth_jwt_with P signing_key iss aud lxm exp_unix =
     abind now_unix (\<lambda>now. mint_service_auth_jwt_at P signing_key iss aud lxm exp_unix now)"

definition mint_service_auth_jwt ::
  "'x auth_prims_scheme \<Rightarrow> bytes \<Rightarrow> string \<Rightarrow> string \<Rightarrow> string \<Rightarrow> ('s world, string + string) async" where
  "mint_service_auth_jwt P signing_key iss aud lxm =
     abind now_unix (\<lambda>now. mint_service_auth_jwt_with P signing_key iss aud (Some lxm) (now + 60))"

subsection \<open>Runs\<close>

lemma run_hash_password [async_simps]:
  "run (hash_password P pw) w =
     (map_err (\<lambda>e. CoreError.Internal (''argon2 hash error: '' @ e)) (phc_hash P pw (draw 16 w)), w\<lparr>w_rng_pos := w_rng_pos w + 16\<rparr>)"
  by (simp add: hash_password_def async_simps)

lemma run_encode_access_jwt [async_simps]:
  "run (encode_access_jwt P did sec) w = (encode_access_jwt_at P did sec (w_clock w), w)"
  by (simp add: encode_access_jwt_def async_simps)

lemma run_encode_refresh_jwt:
  "run (encode_refresh_jwt P did sec) w = (r, w') \<Longrightarrow> w' = w\<lparr>w_rng_pos := w_rng_pos w + 16\<rparr> \<and>
     (\<exists>j. r = map_err (\<lambda>e. CoreError.Internal (''JWT encode error: '' @ e)) (jwt_encode P sec
       \<lparr>ac_sub = did, ac_scope = ''com.atproto.refresh'', ac_exp = w_clock w + 7776000, ac_iat = w_clock w, ac_jti = Some j\<rparr>))"
  by (auto simp: encode_refresh_jwt_def encode_refresh_jwt_at_def async_simps Let_def)

lemma run_decode_jwt [async_simps]:
  "run (decode_jwt P t sec) w =
     (map_err (\<lambda>e. case e of ExpiredSignature \<Rightarrow> CoreError.ExpiredToken | OtherJwtError \<Rightarrow> CoreError.InvalidToken)
       (jwt_decode P (w_clock w) sec t), w)"
  by (simp add: decode_jwt_def async_simps)

end
