(* ===== verification/Identity.thy ===== *)
theory Identity
  imports Auth_Jwt
begin

text \<open>
  Identities: the did:plc genesis operation (\<open>rust-core/src/identity/plc.rs\<close>), did:web documents
  (\<open>identity/web.rs\<close>), where another host serves a did:web document
  (\<open>rust-pds/src/identity/web_resolver.rs\<close>), service endpoints (\<open>identity/service.rs\<close>) and the handle
  syntax (\<open>validate_handle\<close> of \<open>rust-pds/src/xrpc/server.rs\<close>).

  DAG-CBOR and base32 are third-party encodings; a keypair is its secret scalar.
\<close>

subsection \<open>did:plc\<close>

record PlcService =
  ps_service_type :: string
  ps_endpoint :: string

record PlcGenesisOpUnsigned =
  op_type :: string
  rotation_keys :: "string list"
  verification_methods :: "(string \<times> string) list" \<comment> \<open>\<open>BTreeMap\<close>, in key order\<close>
  also_known_as :: "string list"
  services :: "(string \<times> PlcService) list"
  op_prev :: "string option"

record PlcGenesisOpSigned = PlcGenesisOpUnsigned +
  op_sig :: string

record id_prims = auth_prims +
  cbor_plc_unsigned :: "PlcGenesisOpUnsigned \<Rightarrow> string + bytes"
  cbor_plc_signed :: "PlcGenesisOpSigned \<Rightarrow> string + bytes"
  k256_import :: "bytes \<Rightarrow> string + bytes" \<comment> \<open>a scalar it accepts, unchanged\<close>
  base32_nopad :: "bytes \<Rightarrow> string"
  from_utf8_lossy :: "bytes \<Rightarrow> string"

type_synonym 's PlcClient = "string \<Rightarrow> PlcGenesisOpSigned \<Rightarrow> ('s world, CoreError + unit) async"

definition plc_unsigned :: "'x id_prims_scheme \<Rightarrow> string \<Rightarrow> string \<Rightarrow> bytes \<Rightarrow> bytes \<Rightarrow> PlcGenesisOpUnsigned" where
  "plc_unsigned P handle pds_endpoint signing_key rotation_key =
     \<lparr>op_type = ''plc_operation'', rotation_keys = [k256_did P rotation_key],
      verification_methods = [(''atproto'', k256_did P signing_key)], also_known_as = [''at://'' @ handle],
      services = [(''atproto_pds'', \<lparr>ps_service_type = ''AtprotoPersonalDataServer'', ps_endpoint = pds_endpoint\<rparr>)],
      op_prev = None\<rparr>"

text \<open>The digest is 32 bytes, so its base32 text is longer than the 24 characters taken.\<close>

definition register_did_plc ::
  "'x id_prims_scheme \<Rightarrow> string \<Rightarrow> string \<Rightarrow> bytes \<Rightarrow> bytes \<Rightarrow> 's PlcClient \<Rightarrow> ('s world, CoreError + string) async" where
  "register_did_plc P handle pds_endpoint signing_key rotation_key post_operation =
     (let unsigned = plc_unsigned P handle pds_endpoint signing_key rotation_key in
      try_ok (map_err (\<lambda>e. CoreError.Internal (''dag-cbor encode unsigned: '' @ e)) (cbor_plc_unsigned P unsigned)) (\<lambda>unsigned_cbor.
      try_ok (map_err (\<lambda>e. CoreError.Internal (''secp256k1 sign error: '' @ e)) (k256_sign P rotation_key unsigned_cbor)) (\<lambda>sig_bytes.
      let signed = PlcGenesisOpUnsigned.extend unsigned (PlcGenesisOpSigned.fields (b64url_encode P sig_bytes)) in
      try_ok (map_err (\<lambda>e. CoreError.Internal (''dag-cbor encode signed: '' @ e)) (cbor_plc_signed P signed)) (\<lambda>signed_cbor.
      let b32 = to_ascii_lowercase (base32_nopad P (sha256 P signed_cbor));
          did = ''did:plc:'' @ take 24 b32 in
      await_ok (post_operation did signed) (\<lambda>_. Ready (Ok did))))))"

subsection \<open>did:web documents\<close>

record VerificationMethod =
  vm_id :: string
  vm_type :: string
  vm_controller :: string
  vm_public_key_multibase :: string

record ServiceEntry =
  se_id :: string
  se_service_type :: string
  se_service_endpoint :: string

record DidDocument =
  dd_context :: "string list"
  dd_id :: string
  dd_also_known_as :: "string list"
  dd_verification_method :: "VerificationMethod list"
  dd_service :: "ServiceEntry list"

definition did_web :: "string \<Rightarrow> string" where
  "did_web hostname = ''did:web:'' @ hostname"

definition did_web_document :: "'x auth_prims_scheme \<Rightarrow> string \<Rightarrow> bytes \<Rightarrow> string \<Rightarrow> DidDocument" where
  "did_web_document P hostname signing_key pds_endpoint =
     (let did = did_web hostname;
          key_did = k256_did P signing_key;
          public_key_multibase = (case strip_prefix key_did ''did:key:'' of Some m \<Rightarrow> m | None \<Rightarrow> key_did) in
      \<lparr>dd_context = [''https://www.w3.org/ns/did/v1'', ''https://w3id.org/security/multikey/v1''],
       dd_id = did, dd_also_known_as = [],
       dd_verification_method = [\<lparr>vm_id = did @ ''#atproto'', vm_type = ''Multikey'', vm_controller = did,
         vm_public_key_multibase = public_key_multibase\<rparr>],
       dd_service = [\<lparr>se_id = ''#atproto_pds'', se_service_type = ''AtprotoPersonalDataServer'',
         se_service_endpoint = pds_endpoint\<rparr>]\<rparr>)"

subsection \<open>Service endpoints\<close>

definition is_host_char :: "char \<Rightarrow> bool" where
  "is_host_char c = (is_ascii_alphanumeric c \<or> c = CHR ''.'' \<or> c = CHR ''-'')"

definition did_web_endpoint :: "string \<Rightarrow> string + string" where
  "did_web_endpoint did =
     and_then (ok_or ''not a did:web'' (strip_prefix did ''did:web:'')) (\<lambda>host.
       if host = [] \<or> \<not> list_all is_host_char host then Err (''unsupported did:web host: '' @ host)
       else Ok (''https://'' @ host))"

text \<open>\<open>Value\<close> indexed by a key: \<open>Null\<close> where there is none.\<close>

definition json_index :: "json \<Rightarrow> string \<Rightarrow> json" where
  "json_index v k = (case json_get v k of Some x \<Rightarrow> x | None \<Rightarrow> Null)"

fun as_array :: "json \<Rightarrow> json list option" where
  "as_array (Array xs) = Some xs"
| "as_array _ = None"

fun find_map :: "('a \<Rightarrow> 'b option) \<Rightarrow> 'a list \<Rightarrow> 'b option" where
  "find_map f [] = None"
| "find_map f (x # xs) = (case f x of None \<Rightarrow> find_map f xs | Some y \<Rightarrow> Some y)"

definition service_endpoint_from_doc :: "json \<Rightarrow> string \<Rightarrow> string \<Rightarrow> string option" where
  "service_endpoint_from_doc doc did fragment =
     Option.bind (as_array (json_index doc ''service'')) (find_map (\<lambda>svc.
       Option.bind (as_str (json_index svc ''id'')) (\<lambda>i.
       if i = ''#'' @ fragment \<or> i = did @ ''#'' @ fragment
       then as_str (json_index svc ''serviceEndpoint'') else None)))"

subsection \<open>Where a did:web document is served\<close>

fun hex_digit :: "char \<Rightarrow> nat option" where
  "hex_digit c = (if is_ascii_digit c then Some (of_char c - 48)
     else if CHR ''a'' \<le> c \<and> c \<le> CHR ''f'' then Some (of_char c - 87)
     else if CHR ''A'' \<le> c \<and> c \<le> CHR ''F'' then Some (of_char c - 55) else None)"

text \<open>
  \<open>u8::from_str_radix\<close> on two bytes in base 16: it also takes a leading plus sign.
\<close>

definition from_hex2 :: "char \<Rightarrow> char \<Rightarrow> nat option" where
  "from_hex2 a b = (if a = CHR ''+'' then hex_digit b
     else case (hex_digit a, hex_digit b) of (Some x, Some y) \<Rightarrow> Some (16 * x + y) | _ \<Rightarrow> None)"

text \<open>The loop of \<open>percent_decode\<close>; an escape needs two bytes after the percent sign.\<close>

fun percent_bytes :: "string \<Rightarrow> string" where
  "percent_bytes (c # a # b # cs) =
     (if c = CHR ''%'' then
        (case from_hex2 a b of Some n \<Rightarrow> char_of n # percent_bytes cs | None \<Rightarrow> c # percent_bytes (a # b # cs))
      else c # percent_bytes (a # b # cs))"
| "percent_bytes cs = cs"

definition percent_decode :: "'x id_prims_scheme \<Rightarrow> string \<Rightarrow> string" where
  "percent_decode P s = from_utf8_lossy P (as_bytes (percent_bytes s))"

definition did_web_to_url :: "'x id_prims_scheme \<Rightarrow> string \<Rightarrow> bool \<Rightarrow> CoreError + string" where
  "did_web_to_url P did http_dev =
     and_then (ok_or (CoreError.Internal (''did_web_to_url: not a did:web DID: '' @ did)) (strip_prefix did ''did:web:'')) (\<lambda>rest.
     if rest = [] then Err (CoreError.Internal ''did_web_to_url: empty did:web identifier'')
     else let scheme = if http_dev then ''http'' else ''https'';
              segments = map (percent_decode P) (split_on CHR '':'' rest) in
       case segments of
         [] \<Rightarrow> Err (CoreError.Internal ''did_web_to_url: no host in did:web DID'')
       | host # path \<Rightarrow>
           if host = [] then Err (CoreError.Internal ''did_web_to_url: empty host in did:web DID'')
           else if path = [] then Ok (scheme @ ''://'' @ host @ ''/.well-known/did.json'')
           else Ok (scheme @ ''://'' @ host @ ''/'' @ join_with ''/'' path @ ''/did.json''))"

subsection \<open>Handles\<close>

definition handle_segment_ok :: "string \<Rightarrow> bool" where
  "handle_segment_ok seg = (seg \<noteq> [] \<and> \<not> starts_with seg ''-'' \<and> \<not> ends_with seg ''-'' \<and>
     list_all (\<lambda>c. is_ascii_alphanumeric c \<or> c = CHR ''-'') seg)"

definition validate_handle :: "string \<Rightarrow> XrpcError + unit" where
  "validate_handle handle =
     (if handle = [] \<or> length handle > 253 then Err InvalidHandle
      else let segments = split_on CHR ''.'' handle in
        if length segments < 2 then Err InvalidHandle
        else if \<not> list_all handle_segment_ok segments then Err InvalidHandle
        else Ok ())"

end
