(* ===== verification/OAuth_Server.thy ===== *)
theory OAuth_Server
  imports Identity
begin

text \<open>
  The HTTP layer of the authorization server (\<open>rust-pds/src/xrpc/oauth/\<close>): start-up, client resolution, the
  pushed-request, authorize, token and revoke endpoints. Every handler is an asynchronous program over the
  shared state; each storage call, clock reading and draw of random bytes is one atomic step.

  A page is the tuple of values it is rendered from (\<open>OAuth_Pages\<close> renders it). HTTP itself is a parameter.
\<close>

subsection \<open>Requests and responses\<close>

text \<open>Header names are lower case, as the \<open>http\<close> crate keeps them.\<close>

type_synonym HeaderMap = "(string \<times> string) list"

definition header_get_all :: "HeaderMap \<Rightarrow> string \<Rightarrow> string list" where
  "header_get_all h n = map snd (filter (\<lambda>kv. fst kv = n) h)"

definition header_get :: "HeaderMap \<Rightarrow> string \<Rightarrow> string option" where
  "header_get h n = map_of h n"

text \<open>\<open>HeaderValue::to_str\<close> and \<open>from_str\<close>: visible ASCII and tab.\<close>

definition is_visible_ascii :: "char \<Rightarrow> bool" where
  "is_visible_ascii c = (CHR '' '' \<le> c \<and> c \<le> CHR ''~'' \<or> c = CHR 0x09)"

definition header_str_of :: "string \<Rightarrow> string option" where
  "header_str_of v = (if list_all is_visible_ascii v then Some v else None)"

record TokenForm =
  tf_grant_type :: string
  tf_client_id :: string
  tf_code :: "string option"
  tf_redirect_uri :: "string option"
  tf_code_verifier :: "string option"
  tf_refresh_token :: "string option"
  tf_scope :: "string option"

record TokenResponse =
  tr_access_token :: string
  tr_token_type :: string
  tr_expires_in :: nat
  tr_refresh_token :: string
  tr_scope :: string
  tr_sub :: string

record ParForm =
  pf_client_id :: string
  pf_response_type :: string
  pf_redirect_uri :: "string option"
  pf_scope :: "string option"
  pf_state :: "string option"
  pf_code_challenge :: "string option"
  pf_code_challenge_method :: "string option"
  pf_login_hint :: "string option"

record ParResponse =
  prs_request_uri :: string
  prs_expires_in :: nat

record AuthorizeQuery =
  aq_request_uri :: string
  aq_client_id :: "string option"

record AuthorizeForm =
  af_request_uri :: string
  af_username :: string
  af_password :: string
  af_action :: string

record RevokeForm =
  rf_token :: string
  rf_token_type_hint :: "string option"

datatype body =
    TokenBody TokenResponse
  | ParBody ParResponse
  | ErrorJson string string
  | AuthorizePage string string string "string list" "string option" "string option"
  | ErrorPage string string
  | Empty

record Response =
  rs_status :: nat
  rs_headers :: HeaderMap
  rs_body :: body

subsection \<open>Errors on the wire\<close>

fun oauth_status :: "OAuthError \<Rightarrow> nat" where
  "oauth_status (UseDpopNonce _) = 400"
| "oauth_status (InvalidClient _) = 401"
| "oauth_status (OAuthError.InvalidToken _) = 401"
| "oauth_status (InvalidDpopProof _) = 401"
| "oauth_status (AccessDenied _) = 403"
| "oauth_status (Storage _) = 500"
| "oauth_status (OAuthError.Internal _) = 500"
| "oauth_status _ = 400"

definition nonce_headers :: "string \<Rightarrow> HeaderMap" where
  "nonce_headers nonce = (if header_str_of nonce \<noteq> None
     then [(''dpop-nonce'', nonce), (''access-control-expose-headers'', ''DPoP-Nonce'')] else [])"

text \<open>\<open>st\<close> shows a storage error, as in \<open>public_description\<close>.\<close>

definition oauth_error_response :: "(StorageError \<Rightarrow> string) \<Rightarrow> OAuthError \<Rightarrow> string option \<Rightarrow> Response" where
  "oauth_error_response st e nonce =
     (let status = oauth_status e in
      \<lparr>rs_status = status,
       rs_headers = (case nonce of Some n \<Rightarrow> nonce_headers n | None \<Rightarrow> []) @
         (if status = 401 then [(''www-authenticate'', ''DPoP algs=\"ES256 ES256K\"'')] else []),
       rs_body = ErrorJson (error_code e) (public_description st e)\<rparr>)"

subsection \<open>State and start-up\<close>

record server_prims = id_prims +
  url_parse :: "string \<Rightarrow> string + Url"
  client_metadata_from_slice :: "bytes \<Rightarrow> string + ClientMetadata"
  display_storage_error :: "StorageError \<Rightarrow> string"
  display_status :: "nat \<Rightarrow> string"

record 's OAuthState =
  os_issuer :: TokenIssuer
  os_dpop :: DpopVerifier
  os_resolve :: "ClientId \<Rightarrow> ('s world, OAuthError + ClientMetadata) async" \<comment> \<open>\<open>client_resolver\<close>\<close>
  os_issuer_url :: string

datatype ProxyMethod = Get | Post

record UpstreamRequest =
  up_method :: ProxyMethod
  up_base_url :: string
  up_nsid :: string
  up_query :: string
  up_body :: bytes
  up_content_type :: "string option"
  up_jwt :: string
  up_accept_labelers :: "string option"

record UpstreamResponse =
  ur_status :: nat
  ur_body :: bytes
  ur_content_type :: "string option"
  ur_content_labelers :: "string option"

text \<open>
  The immutable part of \<open>AppState\<close>; a client is the program its method runs. The key cache and the
  broadcast channel are in the world; \<open>did_locks\<close> only serialises the writers of one repository.
\<close>

record 's AppState =
  st_store :: "'s StorageBackend"
  st_jwt_secret :: bytes
  st_hostname :: string
  st_pds_endpoint :: string
  st_open_registration :: bool
  st_plc_client :: "'s PlcClient"
  st_did_web_resolver :: "string \<Rightarrow> ('s world, CoreError + json) async"
  st_key_passphrase :: bytes
  st_relay_client :: "string \<Rightarrow> string \<Rightarrow> ('s world, XrpcError + unit) async"
  st_relay_url :: string
  st_appview_client :: "UpstreamRequest \<Rightarrow> ('s world, XrpcError + UpstreamResponse) async"
  st_appview_url :: string
  st_appview_did :: string
  st_service_resolver :: "string \<Rightarrow> string \<Rightarrow> ('s world, XrpcError + string) async"
  st_oauth :: "'s OAuthState"

definition AS_SIGNING_KEY_ID :: string where
  "AS_SIGNING_KEY_ID = ''oauth#as-signing''"

definition endpoint_url :: "'s OAuthState \<Rightarrow> string \<Rightarrow> string" where
  "endpoint_url os path = os_issuer_url os @ path"

definition derive_nonce_secret :: "'x prims_scheme \<Rightarrow> bytes \<Rightarrow> bytes" where
  "derive_nonce_secret P jwt_secret = sha256 P (as_bytes ''stelyph-oauth-dpop-nonce-v1'' @ jwt_secret)"

definition load_or_create_signing_key ::
  "'x server_prims_scheme \<Rightarrow> 's StorageBackend \<Rightarrow> bytes \<Rightarrow> ('s world, OAuthError + SigningKey) async" where
  "load_or_create_signing_key P B passphrase =
     abind (load_key P (key_ops B) AS_SIGNING_KEY_ID passphrase) (\<lambda>r.
       case r of
         Inr scalar \<Rightarrow> Ready (SigningKey_import P scalar)
       | Inl _ \<Rightarrow>
           abind (SigningKey_generate P) (\<lambda>key.
           abind (store_key P (key_ops B) AS_SIGNING_KEY_ID (SigningKey_export key) passphrase) (\<lambda>r.
             Ready (case r of
                Inl e \<Rightarrow> Err (OAuthError.Internal (''could not persist the OAuth signing key: '' @ display_storage_error P e))
              | Inr _ \<Rightarrow> Ok key))))"

definition OAuthState_bootstrap ::
  "'x server_prims_scheme \<Rightarrow> 's StorageBackend \<Rightarrow> bytes \<Rightarrow> bytes \<Rightarrow> string \<Rightarrow> string \<Rightarrow>
     (ClientId \<Rightarrow> ('s world, OAuthError + ClientMetadata) async) \<Rightarrow> ('s world, OAuthError + 's OAuthState) async" where
  "OAuthState_bootstrap P B key_passphrase jwt_secret issuer_url service_did client_resolver =
     await_ok (load_or_create_signing_key P B key_passphrase) (\<lambda>key.
     let issuer_url = trim_end_matches CHR ''/'' issuer_url in
     Ready (Ok \<lparr>os_issuer = TokenIssuer_new key issuer_url service_did,
       os_dpop = \<lparr>nonce_secret = derive_nonce_secret P jwt_secret\<rparr>,
       os_resolve = client_resolver, os_issuer_url = issuer_url\<rparr>))"

subsection \<open>Resolving clients\<close>

definition MAX_METADATA_BYTES :: nat where
  "MAX_METADATA_BYTES = 64 * 1024"

record HttpResponse =
  hr_status :: nat
  hr_content_length :: "nat option"
  hr_bytes :: "string + bytes"

definition resolve_loopback :: "ClientId \<Rightarrow> (OAuthError + ClientMetadata) option" where
  "resolve_loopback client_id = (case loopback_metadata client_id of
     Some metadata \<Rightarrow> Some (and_then (ClientMetadata_validate metadata client_id) (\<lambda>_. Ok metadata))
   | None \<Rightarrow> None)"

definition HttpClientResolver_resolve ::
  "'x server_prims_scheme \<Rightarrow> (string \<Rightarrow> ('s world, string + HttpResponse) async) \<Rightarrow> ClientId \<Rightarrow>
     ('s world, OAuthError + ClientMetadata) async" where
  "HttpClientResolver_resolve P http_get client_id = (case resolve_loopback client_id of
     Some r \<Rightarrow> Ready r
   | None \<Rightarrow>
       abind (http_get (ClientId_as_str client_id)) (\<lambda>r.
       try_ok (map_err (\<lambda>e. InvalidClient (''could not fetch client metadata: '' @ e)) r) (\<lambda>resp.
       if \<not> (200 \<le> hr_status resp \<and> hr_status resp < 300)
       then Ready (Err (InvalidClient (''client metadata request returned HTTP '' @ display_status P (hr_status resp))))
       else if (case hr_content_length resp of Some len \<Rightarrow> len > MAX_METADATA_BYTES | None \<Rightarrow> False)
       then Ready (Err (InvalidClient ''client metadata document is too large''))
       else try_ok (map_err (\<lambda>e. InvalidClient (''could not read client metadata: '' @ e)) (hr_bytes resp)) (\<lambda>bs.
       if length bs > MAX_METADATA_BYTES
       then Ready (Err (InvalidClient ''client metadata document is too large''))
       else try_ok (map_err (\<lambda>e. InvalidClient (''client metadata is not valid JSON: '' @ e)) (client_metadata_from_slice P bs)) (\<lambda>metadata.
       try_ok (ClientMetadata_validate metadata client_id) (\<lambda>_. Ready (Ok metadata)))))))"

definition StaticClientResolver_resolve ::
  "(string \<times> ClientMetadata) list \<Rightarrow> ClientId \<Rightarrow> ('s world, OAuthError + ClientMetadata) async" where
  "StaticClientResolver_resolve clients client_id = (case resolve_loopback client_id of
     Some r \<Rightarrow> Ready r
   | None \<Rightarrow> Ready
       (and_then (ok_or (InvalidClient ''unknown client'') (map_of clients (ClientId_as_str client_id))) (\<lambda>found.
        and_then (ClientMetadata_validate found client_id) (\<lambda>_. Ok found))))"

subsection \<open>\<open>/oauth/par\<close>\<close>

definition par_handle ::
  "'x server_prims_scheme \<Rightarrow> ('s, 'z) AppState_scheme \<Rightarrow> HeaderMap \<Rightarrow> ParForm \<Rightarrow> ('s world, OAuthError + ParResponse) async" where
  "par_handle P state headers form =
     try_ok (ClientId_parse (url_parse P) (pf_client_id form)) (\<lambda>client_id.
     await_ok (os_resolve (st_oauth state) client_id) (\<lambda>resolved.
     await_ok
       (case Option.bind (header_get headers ''dpop'') header_str_of of
          Some proof \<Rightarrow>
            await_ok (DpopVerifier_verify P (os_dpop (st_oauth state)) (oauth_ops (st_store state)) proof ''POST''
              (endpoint_url (st_oauth state) ''/oauth/par'') None False) (\<lambda>verified.
            Ready (Ok (Some (dp_jkt verified))))
        | None \<Rightarrow> Ready (Ok None)) (\<lambda>dpop_jkt.
     let request = \<lparr>pr_client_id = pf_client_id form, pr_response_type = pf_response_type form,
           pr_redirect_uri = pf_redirect_uri form, pr_scope = pf_scope form, pr_state = pf_state form,
           pr_code_challenge = pf_code_challenge form, pr_code_challenge_method = pf_code_challenge_method form,
           pr_login_hint = pf_login_hint form\<rparr> in
     await_ok (PushedRequest_validate P request client_id resolved dpop_jkt) (\<lambda>validated.
     abind now_unix (\<lambda>now.
     let expires_in = par_expires_at (ar_stored validated) - now in
     await_ok (odb (put_pushed_request (oauth_ops (st_store state)) (ar_stored validated))) (\<lambda>_.
     Ready (Ok \<lparr>prs_request_uri = ar_request_uri validated, prs_expires_in = expires_in\<rparr>)))))))"

definition pushed_authorization_request ::
  "'x server_prims_scheme \<Rightarrow> ('s, 'z) AppState_scheme \<Rightarrow> HeaderMap \<Rightarrow> ParForm \<Rightarrow> ('s world, Response) async" where
  "pushed_authorization_request P state headers form =
     abind (current_nonce P (os_dpop (st_oauth state))) (\<lambda>nonce.
     abind (par_handle P state headers form) (\<lambda>r.
     Ready (case r of
       Inr b \<Rightarrow> \<lparr>rs_status = 201, rs_headers = nonce_headers nonce, rs_body = ParBody b\<rparr>
     | Inl e \<Rightarrow> oauth_error_response (display_storage_error P) e (Some nonce))))"

subsection \<open>\<open>/oauth/token\<close>\<close>

definition verify_dpop ::
  "'x server_prims_scheme \<Rightarrow> ('s, 'z) AppState_scheme \<Rightarrow> HeaderMap \<Rightarrow> ('s world, OAuthError + DpopProof) async" where
  "verify_dpop P state headers = (case header_get_all headers ''dpop'' of
     [] \<Rightarrow> Ready (Err (InvalidDpopProof ''a DPoP proof is required''))
   | proof # rest \<Rightarrow>
       if rest \<noteq> [] then Ready (Err (InvalidDpopProof ''exactly one DPoP header is permitted''))
       else try_ok (ok_or (InvalidDpopProof ''DPoP header is not valid ASCII'') (header_str_of proof)) (\<lambda>proof.
         let url = endpoint_url (st_oauth state) ''/oauth/token'' in
         DpopVerifier_verify P (os_dpop (st_oauth state)) (oauth_ops (st_store state)) proof ''POST'' url None True))"

definition issue ::
  "'x server_prims_scheme \<Rightarrow> ('s, 'z) AppState_scheme \<Rightarrow> string \<Rightarrow> string \<Rightarrow> Scope \<Rightarrow> string \<Rightarrow> string option \<Rightarrow>
     ('s world, OAuthError + TokenResponse) async" where
  "issue P state did client_id scope jkt session_id =
     await_ok (issue_access_token P (os_issuer (st_oauth state)) did client_id scope jkt) (\<lambda>(access_token, expires_in).
     abind (random_token P 32) (\<lambda>refresh_token.
     abind now_unix (\<lambda>now.
     abind (case session_id of Some s \<Rightarrow> Ready s | None \<Rightarrow> random_token P 16) (\<lambda>session_id.
     await_ok (odb (put_refresh_token (oauth_ops (st_store state))
       \<lparr>rt_token_hash = hash_secret P refresh_token, rt_session_id = session_id, rt_did = did, rt_client_id = client_id,
        rt_scope = Scope_to_string scope, rt_dpop_jkt = jkt, rt_issued_at = now,
        rt_expires_at = now + REFRESH_TOKEN_TTL_SECS\<rparr>)) (\<lambda>_.
     Ready (Ok \<lparr>tr_access_token = access_token, tr_token_type = ''DPoP'', tr_expires_in = expires_in,
       tr_refresh_token = refresh_token, tr_scope = Scope_to_string scope, tr_sub = did\<rparr>))))))"

definition authorization_code_grant ::
  "'x server_prims_scheme \<Rightarrow> ('s, 'z) AppState_scheme \<Rightarrow> TokenForm \<Rightarrow> DpopProof \<Rightarrow> ('s world, OAuthError + TokenResponse) async" where
  "authorization_code_grant P state form proof =
     try_ok (ok_or (OAuthError.InvalidRequest ''code is required'') (tf_code form)) (\<lambda>code.
     abind now_unix (\<lambda>now.
     await_ok (odb (consume_auth_code (oauth_ops (st_store state)) (hash_secret P code) now)) (\<lambda>found.
     try_ok (ok_or (InvalidGrant ''authorization code is invalid, expired, or already used'') found) (\<lambda>record.
     if code_client_id record \<noteq> tf_client_id form
     then Ready (Err (InvalidGrant ''authorization code was issued to a different client''))
     else try_ok (ok_or (OAuthError.InvalidRequest ''redirect_uri is required'') (tf_redirect_uri form)) (\<lambda>redirect_uri.
     if redirect_uri \<noteq> code_redirect_uri record
     then Ready (Err (InvalidGrant ''redirect_uri does not match''))
     else try_ok (ok_or (OAuthError.InvalidRequest ''code_verifier is required'') (tf_code_verifier form)) (\<lambda>verifier.
     try_ok (CodeChallenge_verify P \<lparr>challenge = code_challenge record\<rparr> verifier) (\<lambda>_.
     if (case code_dpop_jkt record of Some expected \<Rightarrow> expected \<noteq> dp_jkt proof | None \<Rightarrow> False)
     then Ready (Err (InvalidGrant ''DPoP key does not match the key bound at authorization time''))
     else try_ok (Scope_parse (code_scope record)) (\<lambda>scope.
     issue P state (code_did record) (code_client_id record) scope (dp_jkt proof) None))))))))"

definition refresh_token_grant ::
  "'x server_prims_scheme \<Rightarrow> ('s, 'z) AppState_scheme \<Rightarrow> TokenForm \<Rightarrow> DpopProof \<Rightarrow> ('s world, OAuthError + TokenResponse) async" where
  "refresh_token_grant P state form proof =
     try_ok (ok_or (OAuthError.InvalidRequest ''refresh_token is required'') (tf_refresh_token form)) (\<lambda>presented.
     abind now_unix (\<lambda>now.
     await_ok (odb (consume_refresh_token (oauth_ops (st_store state)) (hash_secret P presented) now)) (\<lambda>res.
     case res of
       Reused session_id \<Rightarrow>
         await_ok (odb (revoke_session (oauth_ops (st_store state)) session_id)) (\<lambda>revoked.
         Ready (Err (InvalidGrant ''refresh token has already been used; the session has been revoked'')))
     | NotFound \<Rightarrow> Ready (Err (InvalidGrant ''refresh token is invalid or expired''))
     | Consumed record \<Rightarrow>
         if rt_client_id record \<noteq> tf_client_id form
         then Ready (Err (InvalidGrant ''refresh token was issued to a different client''))
         else if rt_dpop_jkt record \<noteq> dp_jkt proof
         then Ready (Err (InvalidGrant ''DPoP key does not match the key this refresh token is bound to''))
         else try_ok (Scope_parse (rt_scope record)) (\<lambda>granted.
         try_ok (case tf_scope form of
             None \<Rightarrow> Ok granted
           | Some requested \<Rightarrow> and_then (Scope_parse requested) (\<lambda>requested.
               if \<not> Scope_is_subset_of requested granted
               then Err (InvalidScope ''requested scope exceeds the originally granted scope'') else Ok requested)) (\<lambda>scope.
         issue P state (rt_did record) (rt_client_id record) scope (dp_jkt proof) (Some (rt_session_id record)))))))"

definition token_handle ::
  "'x server_prims_scheme \<Rightarrow> ('s, 'z) AppState_scheme \<Rightarrow> HeaderMap \<Rightarrow> TokenForm \<Rightarrow> ('s world, OAuthError + TokenResponse) async" where
  "token_handle P state headers form =
     await_ok (verify_dpop P state headers) (\<lambda>proof.
       if tf_grant_type form = ''authorization_code'' then authorization_code_grant P state form proof
       else if tf_grant_type form = ''refresh_token'' then refresh_token_grant P state form proof
       else Ready (Err (UnsupportedGrantType (tf_grant_type form))))"

definition token ::
  "'x server_prims_scheme \<Rightarrow> ('s, 'z) AppState_scheme \<Rightarrow> HeaderMap \<Rightarrow> TokenForm \<Rightarrow> ('s world, Response) async" where
  "token P state headers form =
     abind (current_nonce P (os_dpop (st_oauth state))) (\<lambda>nonce.
     abind (token_handle P state headers form) (\<lambda>r.
     Ready (case r of
       Inr b \<Rightarrow> \<lparr>rs_status = 200, rs_headers = nonce_headers nonce @
           [(''cache-control'', ''no-store''), (''pragma'', ''no-cache'')], rs_body = TokenBody b\<rparr>
     | Inl e \<Rightarrow> oauth_error_response (display_storage_error P) e (Some nonce))))"

subsection \<open>\<open>/oauth/revoke\<close>\<close>

definition revoke ::
  "'x server_prims_scheme \<Rightarrow> ('s, 'z) AppState_scheme \<Rightarrow> RevokeForm \<Rightarrow> ('s world, Response) async" where
  "revoke P state form =
     abind (odb (revoke_refresh_token (oauth_ops (st_store state)) (hash_secret P (rf_token form)))) (\<lambda>_.
     Ready \<lparr>rs_status = 200, rs_headers = [], rs_body = Empty\<rparr>)"

end
