(* ===== verification/OAuth_Authorize.thy ===== *)
theory OAuth_Authorize
  imports OAuth_Server
begin

text \<open>
  The front channel (\<open>rust-pds/src/xrpc/oauth/authorize.rs\<close>): the login and consent endpoint that turns a pushed
  request and a password into an authorization code, with the query-string encoding of its redirects, and the
  discovery endpoints (\<open>jwks.rs\<close>, \<open>metadata.rs\<close>).
\<close>

subsection \<open>Text\<close>

text \<open>\<open>str::trim\<close>: the UTF-8 encodings of the characters with the Unicode property White_Space.\<close>

definition utf8_spaces :: "string list" where
  "utf8_spaces = map (\<lambda>c. [c]) [CHR 0x09, CHR 0x0A, CHR 0x0B, CHR 0x0C, CHR 0x0D, CHR 0x20] @
     [[CHR 0xC2, CHR 0x85], [CHR 0xC2, CHR 0xA0], [CHR 0xE1, CHR 0x9A, CHR 0x80]] @
     map (\<lambda>c. [CHR 0xE2, CHR 0x80, c])
       [CHR 0x80, CHR 0x81, CHR 0x82, CHR 0x83, CHR 0x84, CHR 0x85, CHR 0x86, CHR 0x87, CHR 0x88, CHR 0x89, CHR 0x8A,
        CHR 0xA8, CHR 0xA9, CHR 0xAF] @
     [[CHR 0xE2, CHR 0x81, CHR 0x9F], [CHR 0xE3, CHR 0x80, CHR 0x80]]"

function trim_with :: "string list \<Rightarrow> string \<Rightarrow> string" where
  "trim_with ps s = (case find (\<lambda>p. p \<noteq> [] \<and> starts_with s p) ps of
     None \<Rightarrow> s | Some p \<Rightarrow> trim_with ps (drop (length p) s))"
  by auto
termination
proof (relation "measure (\<lambda>(ps, s). length s)")
  fix ps :: "string list" and s p
  assume "find (\<lambda>p. p \<noteq> [] \<and> starts_with s p) ps = Some p"
  then have "p \<noteq> []" "take (length p) s = p" by (auto simp: find_Some_iff starts_with_def)
  then show "((ps, drop (length p) s), (ps, s)) \<in> measure (\<lambda>(ps, s). length s)"
    by (cases s) auto
qed simp

definition str_trim :: "string \<Rightarrow> string" where
  "str_trim s = rev (trim_with (map rev utf8_spaces) (rev (trim_with utf8_spaces s)))"

definition display_name :: "ClientMetadata \<Rightarrow> string" where
  "display_name m = (case cm_client_name m of
     Some n \<Rightarrow> if str_trim n \<noteq> [] then n else cm_client_id m
   | None \<Rightarrow> cm_client_id m)"

definition hex_upper :: "nat \<Rightarrow> char" where
  "hex_upper n = ''0123456789ABCDEF'' ! n"

definition urlencode_byte :: "char \<Rightarrow> string" where
  "urlencode_byte b =
     (if pkce_unreserved b then [b]
      else let n = of_char b in [CHR ''%'', hex_upper (n div 16), hex_upper (n mod 16)])"

definition urlencode :: "string \<Rightarrow> string" where
  "urlencode s = concat (map urlencode_byte s)"

fun push_params :: "char \<Rightarrow> (string \<times> string) list \<Rightarrow> string \<Rightarrow> string" where
  "push_params sep [] url = url"
| "push_params sep ((k, v) # ps) url =
     push_params CHR ''&'' ps (url @ [sep] @ urlencode k @ ''='' @ urlencode v)"

definition append_query :: "string \<Rightarrow> (string \<times> string) list \<Rightarrow> string" where
  "append_query base params =
     push_params (if CHR ''?'' \<in> set base then CHR ''&'' else CHR ''?'') params base"

definition redirect_to :: "string \<Rightarrow> Response" where
  "redirect_to location = \<lparr>rs_status = 303, rs_headers = [(''location'', location)], rs_body = Empty\<rparr>"

definition redirect_error :: "StoredPushedRequest \<Rightarrow> string \<Rightarrow> string \<Rightarrow> Response" where
  "redirect_error stored code description = redirect_to (append_query (par_redirect_uri stored)
     [(''error'', code), (''error_description'', description), (''state'', par_state stored)])"

definition error_html :: "nat \<Rightarrow> string \<Rightarrow> string \<Rightarrow> Response" where
  "error_html status title message = \<lparr>rs_status = status, rs_headers = [], rs_body = ErrorPage title message\<rparr>"

subsection \<open>\<open>/oauth/authorize\<close>\<close>

definition load_request ::
  "'x server_prims_scheme \<Rightarrow> ('s, 'z) AppState_scheme \<Rightarrow> string \<Rightarrow> ('s world, Response + StoredPushedRequest) async" where
  "load_request P state request_uri =
     (if is_err (validate_request_uri request_uri)
      then Ready (Err (error_html 400 ''Invalid request'' ''This authorization request is not recognised.''))
      else let hash = hash_secret P request_uri in
        abind now_unix (\<lambda>now.
        abind (db (get_pushed_request (oauth_ops (st_store state)) hash now)) (\<lambda>r.
        Ready (case r of
          Inr (Some stored) \<Rightarrow> Ok stored
        | Inr None \<Rightarrow> Err (error_html 400 ''Request expired''
            ''This authorization request has expired or has already been used. Please start again from the application.'')
        | Inl _ \<Rightarrow> Err (error_html 500 ''Server error'' ''Something went wrong. Please try again.'')))))"

definition GENERIC :: string where
  "GENERIC = ''Incorrect handle or password.''"

definition oauth_authenticate ::
  "'x server_prims_scheme \<Rightarrow> ('s, 'z) AppState_scheme \<Rightarrow> string \<Rightarrow> string \<Rightarrow> ('s world, string + string) async" where
  "oauth_authenticate P state username password =
     (let handle = to_ascii_lowercase (trim_start_matches CHR ''@'' (str_trim username)) in
      abind (db (get_account_by_handle (account_ops (st_store state)) handle)) (\<lambda>r.
      Ready (case r of
        Inr (Some (did, phc)) \<Rightarrow>
          (case verify_password P password phc of
             Inr ok \<Rightarrow> if ok then Ok did else Err GENERIC
           | Inl _ \<Rightarrow> Err ''Something went wrong. Please try again.'')
      | Inr None \<Rightarrow> Err GENERIC
      | Inl _ \<Rightarrow> Err ''Something went wrong. Please try again.'')))"

definition issue_code ::
  "'x server_prims_scheme \<Rightarrow> ('s, 'z) AppState_scheme \<Rightarrow> StoredPushedRequest \<Rightarrow> string \<Rightarrow> ('s world, OAuthError + Response) async" where
  "issue_code P state stored did =
     abind (random_token P 32) (\<lambda>code.
     abind now_unix (\<lambda>now.
     await_ok (odb (put_auth_code (oauth_ops (st_store state))
       \<lparr>code_hash = hash_secret P code, code_did = did, code_client_id = par_client_id stored,
        code_redirect_uri = par_redirect_uri stored, code_scope = par_scope stored,
        code_challenge = par_code_challenge stored, code_dpop_jkt = par_dpop_jkt stored,
        code_expires_at = now + AUTH_CODE_TTL_SECS\<rparr>)) (\<lambda>_.
     await_ok (odb (delete_pushed_request (oauth_ops (st_store state)) (par_request_uri_hash stored))) (\<lambda>_.
     let location = append_query (par_redirect_uri stored)
       [(''code'', code), (''state'', par_state stored), (''iss'', os_issuer_url (st_oauth state))]
     in Ready (Ok (redirect_to location))))))"

definition render_page ::
  "'x server_prims_scheme \<Rightarrow> ('s, 'z) AppState_scheme \<Rightarrow> string \<Rightarrow> StoredPushedRequest \<Rightarrow> string option \<Rightarrow> ('s world, Response) async" where
  "render_page P state request_uri stored err =
     abind (case ClientId_parse (url_parse P) (par_client_id stored) of
         Inr i \<Rightarrow> abind (os_resolve (st_oauth state) i) (\<lambda>r.
           Ready (case r of Inr md \<Rightarrow> display_name md | Inl _ \<Rightarrow> par_client_id stored))
       | Inl _ \<Rightarrow> Ready (par_client_id stored)) (\<lambda>client_name.
     let scopes = (case Scope_parse (par_scope stored) of Inr s \<Rightarrow> s | Inl _ \<Rightarrow> []) in
     Ready \<lparr>rs_status = 200, rs_headers = [],
       rs_body = AuthorizePage request_uri client_name (par_client_id stored) scopes (par_login_hint stored) err\<rparr>)"

definition authorize_page ::
  "'x server_prims_scheme \<Rightarrow> ('s, 'z) AppState_scheme \<Rightarrow> AuthorizeQuery \<Rightarrow> ('s world, Response) async" where
  "authorize_page P state q =
     abind (load_request P state (aq_request_uri q)) (\<lambda>r. case r of
       Inl page \<Rightarrow> Ready page
     | Inr stored \<Rightarrow>
         if (case aq_client_id q of Some client_id \<Rightarrow> client_id \<noteq> par_client_id stored | None \<Rightarrow> False)
         then Ready (error_html 400 ''Invalid request'' ''The client_id does not match this authorization request.'')
         else render_page P state (aq_request_uri q) stored None)"

definition authorize_submit ::
  "'x server_prims_scheme \<Rightarrow> ('s, 'z) AppState_scheme \<Rightarrow> AuthorizeForm \<Rightarrow> ('s world, Response) async" where
  "authorize_submit P state form =
     abind (load_request P state (af_request_uri form)) (\<lambda>r. case r of
       Inl page \<Rightarrow> Ready page
     | Inr stored \<Rightarrow>
         if af_action form \<noteq> ''accept''
         then abind (db (delete_pushed_request (oauth_ops (st_store state)) (par_request_uri_hash stored))) (\<lambda>_.
           Ready (redirect_error stored ''access_denied'' ''The user denied the request.''))
         else abind (oauth_authenticate P state (af_username form) (af_password form)) (\<lambda>r. case r of
           Inl message \<Rightarrow> render_page P state (af_request_uri form) stored (Some message)
         | Inr did \<Rightarrow>
             abind (issue_code P state stored did) (\<lambda>r. Ready (case r of
               Inr redirect \<Rightarrow> redirect
             | Inl e \<Rightarrow> redirect_error stored (error_code e) (public_description (display_storage_error P) e)))))"

subsection \<open>Discovery\<close>

definition jwks :: "'x oauth_prims_scheme \<Rightarrow> ('s, 'z) AppState_scheme \<Rightarrow> PublicJwk list" where
  "jwks P state = [public_jwk P (ti_key (os_issuer (st_oauth state)))]"

definition authorization_server_metadata :: "('s, 'z) AppState_scheme \<Rightarrow> AuthorizationServerMetadata" where
  "authorization_server_metadata state = AuthorizationServerMetadata_new (os_issuer_url (st_oauth state))"

definition protected_resource_metadata :: "('s, 'z) AppState_scheme \<Rightarrow> ProtectedResourceMetadata" where
  "protected_resource_metadata state = ProtectedResourceMetadata_new (os_issuer_url (st_oauth state))"

end
