(* ===== verification/OAuth_Laws.thy ===== *)
theory OAuth_Laws
  imports OAuth_Authorize
begin

text \<open>
  Laws of the authorization server's endpoints, over any storage backend that meets the contracts: what a
  successful exchange is evidence of, what it leaves in the store, and what a refusal leaves.
\<close>

subsection \<open>Storage steps of a handler\<close>

lemma live_Some: "live ex now x = Some a \<longleftrightarrow> x = Some a \<and> now < ex a"
  by (auto simp: live_def split: option.splits)

lemma odb_step:
  assumes "meets good up \<alpha> op R" "good (w_store w)" "run (odb op) w = (r, w')"
  shows "\<exists>x s'. r = map_err Storage x \<and> w' = w\<lparr>w_store := s'\<rparr> \<and> good s' \<and> (up (w_store w) \<longrightarrow> up s') \<and>
    (R (\<alpha> (w_store w)) x (\<alpha> s') \<or> \<not> up (w_store w) \<and> is_err x \<and> \<alpha> s' = \<alpha> (w_store w))"
  using meets_step [OF assms(1,2)] assms(3) by (auto simp: async_simps split: prod.splits)

text \<open>An operation that always succeeds on the view: it does so, or the database is unreachable and nothing changes.\<close>

lemma odb_writes:
  assumes "meets good up \<alpha> op (writes (\<lambda>v. Some (f v)))" "good (w_store w)" "run (odb op) w = (r, w')"
  obtains s' where "w' = w\<lparr>w_store := s'\<rparr>" "good s'" "up (w_store w) \<longrightarrow> up s'"
    "(r, \<alpha> s') = map_prod Ok id (f (\<alpha> (w_store w))) \<or> \<not> up (w_store w) \<and> is_err r \<and> \<alpha> s' = \<alpha> (w_store w)"
proof -
  from odb_step [OF assms] obtain x s' where x: "r = map_err Storage x" "w' = w\<lparr>w_store := s'\<rparr>" "good s'"
    "up (w_store w) \<longrightarrow> up s'"
    "writes (\<lambda>v. Some (f v)) (\<alpha> (w_store w)) x (\<alpha> s') \<or> \<not> up (w_store w) \<and> is_err x \<and> \<alpha> s' = \<alpha> (w_store w)" by blast
  then have "(r, \<alpha> s') = map_prod Ok id (f (\<alpha> (w_store w))) \<or> \<not> up (w_store w) \<and> is_err r \<and> \<alpha> s' = \<alpha> (w_store w)"
    by (cases x) (auto simp: map_prod_def split: prod.splits)
  with x show ?thesis by (intro that) auto
qed

lemma run_issue_access_token:
  "run (issue_access_token P ti did cid sc jkt) w = (r, w') \<Longrightarrow> w' = w\<lparr>w_rng_pos := w_rng_pos w + 16\<rparr>"
  by (auto simp: issue_access_token_def async_simps Let_def split: sum.splits)

text \<open>The refresh token a successful \<open>issue\<close> stores.\<close>

definition issued_record ::
  "'x prims_scheme \<Rightarrow> string \<Rightarrow> string \<Rightarrow> string \<Rightarrow> string \<Rightarrow> Scope \<Rightarrow> string \<Rightarrow> nat \<Rightarrow> RefreshTokenRecord" where
  "issued_record P refresh sid did cid sc jkt now =
     \<lparr>rt_token_hash = hash_secret P refresh, rt_session_id = sid, rt_did = did, rt_client_id = cid,
      rt_scope = Scope_to_string sc, rt_dpop_jkt = jkt, rt_issued_at = now, rt_expires_at = now + 7776000\<rparr>"

context oauth_store
begin

lemma run_issue:
  assumes st: "oauth_ops (st_store st) = Z" and good: "good (w_store w)" and time: "time_ok (w_clock w + 7776000)"
    and run: "run (issue P st did cid sc jkt sid) w = (r, w')"
  shows "good (w_store w') \<and> w_clock w' = w_clock w \<and> (up (w_store w) \<longrightarrow> up (w_store w')) \<and>
    (case r of
       Inl e \<Rightarrow> \<alpha> (w_store w') = \<alpha> (w_store w)
     | Inr resp \<Rightarrow> tr_token_type resp = ''DPoP'' \<and> tr_sub resp = did \<and> tr_scope resp = Scope_to_string sc \<and>
         fst (run (issue_access_token P (os_issuer (st_oauth st)) did cid sc jkt) w) = Ok (tr_access_token resp, tr_expires_in resp) \<and>
         (\<exists>s. (\<forall>x. sid = Some x \<longrightarrow> s = x) \<and> (let t = issued_record P (tr_refresh_token resp) s did cid sc jkt (w_clock w) in
            \<alpha> (w_store w') = (\<alpha> (w_store w))\<lparr>v_refresh := (v_refresh (\<alpha> (w_store w)))(rt_token_hash t \<mapsto> (t, False))\<rparr>)))"
proof -
  obtain a w1 where a: "run (issue_access_token P (os_issuer (st_oauth st)) did cid sc jkt) w = (a, w1)"
    by (cases "run (issue_access_token P (os_issuer (st_oauth st)) did cid sc jkt) w")
  note w1 = run_issue_access_token [OF a]
  show ?thesis
  proof (cases a)
    case (Inl e)
    with run a w1 good show ?thesis by (auto simp: issue_def async_simps)
  next
    case (Inr tok)
    let ?ref = "b64url_encode P (draw 32 w1)"
    let ?w2 = "w1\<lparr>w_rng_pos := w_rng_pos w1 + 32\<rparr>"
    obtain s w3 where s: "run (case sid of Some s \<Rightarrow> Ready s | None \<Rightarrow> random_token P 16) ?w2 = (s, w3)"
      "\<forall>x. sid = Some x \<longrightarrow> s = x" "w_store w3 = w_store w" "w_clock w3 = w_clock w"
      using w1 by (cases sid) (auto simp: async_simps)
    let ?t = "issued_record P ?ref s did cid sc jkt (w_clock w)"
    have "time_ok (rt_issued_at ?t)" "time_ok (rt_expires_at ?t)"
      using time by (auto simp: issued_record_def time_ok_def)
    note put = put_refresh_token [OF this]
    obtain x w4 where x: "run (odb (put_refresh_token Z ?t)) w3 = (x, w4)" by (cases "run (odb (put_refresh_token Z ?t)) w3")
    have r: "(r, w') = (case x of Inl e \<Rightarrow> (Inl e, w4) | Inr _ \<Rightarrow>
        (Ok \<lparr>tr_access_token = fst tok, tr_token_type = ''DPoP'', tr_expires_in = snd tok, tr_refresh_token = ?ref,
          tr_scope = Scope_to_string sc, tr_sub = did\<rparr>, w4))"
      using run a Inr w1 s x st
      by (auto simp: issue_def async_simps issued_record_def REFRESH_TOKEN_TTL_SECS_def split: prod.splits sum.splits)
    from odb_step [OF put _ x] good s(3) obtain x0 s' where "x = map_err Storage x0" "w4 = w3\<lparr>w_store := s'\<rparr>" "good s'"
      "up (w_store w) \<longrightarrow> up s'" "spec_put_refresh_token ?t (\<alpha> (w_store w)) x0 (\<alpha> s') \<or>
         \<not> up (w_store w) \<and> is_err x0 \<and> \<alpha> s' = \<alpha> (w_store w)"
      by auto
    with r s a Inr show ?thesis
      by (cases x0) (auto simp: spec_put_refresh_token_def writes_def Let_def issued_record_def)
  qed
qed

lemma run_code_grant:
  assumes st: "oauth_ops (st_store st) = Z" and good: "good (w_store w)" and time: "time_ok (w_clock w + 7776000)"
    and run: "run (authorization_code_grant P st form pf) w = (r, w')" and code: "tf_code form = Some code"
  obtains s1 where "good s1" "up (w_store w) \<longrightarrow> up s1" "good (w_store w')" "up (w_store w) \<longrightarrow> up (w_store w')"
    "is_err r \<and> \<alpha> (w_store w') = \<alpha> s1 \<and> (\<alpha> s1 = \<alpha> (w_store w) \<and> \<not> up (w_store w) \<or>
       \<alpha> s1 = (\<alpha> (w_store w))\<lparr>v_codes := (v_codes (\<alpha> (w_store w)))(hash_secret P code := None)\<rparr>)"
  | s1 c ver sc where "good s1" "live code_expires_at (w_clock w) (v_codes (\<alpha> (w_store w)) (hash_secret P code)) = Some c"
    "code_client_id c = tf_client_id form" "tf_redirect_uri form = Some (code_redirect_uri c)"
    "tf_code_verifier form = Some ver" "CodeChallenge_verify P \<lparr>challenge = code_challenge c\<rparr> ver = Ok ()"
    "code_dpop_jkt c \<in> {None, Some (dp_jkt pf)}" "Scope_parse (code_scope c) = Ok sc"
    "\<alpha> s1 = (\<alpha> (w_store w))\<lparr>v_codes := (v_codes (\<alpha> (w_store w)))(hash_secret P code := None)\<rparr>"
    "up (w_store w) \<longrightarrow> up s1"
    "run (issue P st (code_did c) (code_client_id c) sc (dp_jkt pf) None) (w\<lparr>w_store := s1\<rparr>) = (r, w')"
proof -
  have t: "time_ok (w_clock w)" using time by (simp add: time_ok_def)
  obtain x w1 where x: "run (odb (consume_auth_code Z (hash_secret P code) (w_clock w))) w = (x, w1)"
    by (cases "run (odb (consume_auth_code Z (hash_secret P code) (w_clock w))) w")
  note c = consume_auth_code [OF t, of "hash_secret P code", unfolded spec_consume_auth_code_def]
  from odb_writes [OF c good x] obtain s1 where s1: "w1 = w\<lparr>w_store := s1\<rparr>" "good s1" "up (w_store w) \<longrightarrow> up s1"
    "(x, \<alpha> s1) = map_prod Ok id (live code_expires_at (w_clock w) (v_codes (\<alpha> (w_store w)) (hash_secret P code)),
       (\<alpha> (w_store w))\<lparr>v_codes := (v_codes (\<alpha> (w_store w)))(hash_secret P code := None)\<rparr>) \<or>
     \<not> up (w_store w) \<and> is_err x \<and> \<alpha> s1 = \<alpha> (w_store w)" by blast
  have body: "is_err r \<and> w' = w1 \<or> (\<exists>c ver sc. x = Ok (Some c) \<and> code_client_id c = tf_client_id form \<and>
      tf_redirect_uri form = Some (code_redirect_uri c) \<and> tf_code_verifier form = Some ver \<and>
      CodeChallenge_verify P \<lparr>challenge = code_challenge c\<rparr> ver = Ok () \<and> code_dpop_jkt c \<in> {None, Some (dp_jkt pf)} \<and>
      Scope_parse (code_scope c) = Ok sc \<and>
      run (issue P st (code_did c) (code_client_id c) sc (dp_jkt pf) None) w1 = (r, w'))"
    using run x code st unfolding authorization_code_grant_def
    by (auto simp: async_simps ok_or_def split: sum.splits option.splits if_splits prod.splits)
  show ?thesis
  proof (cases "is_err r \<and> w' = w1")
    case True
    with s1 show ?thesis by (intro that(1) [of s1]) auto
  next
    case False
    with body obtain c ver sc where "x = Ok (Some c)" "code_client_id c = tf_client_id form"
      "tf_redirect_uri form = Some (code_redirect_uri c)" "tf_code_verifier form = Some ver"
      "CodeChallenge_verify P \<lparr>challenge = code_challenge c\<rparr> ver = Ok ()" "code_dpop_jkt c \<in> {None, Some (dp_jkt pf)}"
      "Scope_parse (code_scope c) = Ok sc"
      "run (issue P st (code_did c) (code_client_id c) sc (dp_jkt pf) None) w1 = (r, w')" by blast
    with s1 show ?thesis by (intro that(2) [of s1 c ver sc]) auto
  qed
qed

lemma run_refresh_grant:
  assumes st: "oauth_ops (st_store st) = Z" and good: "good (w_store w)" and time: "time_ok (w_clock w + 7776000)"
    and run: "run (refresh_token_grant P st form pf) w = (r, w')" and tok: "tf_refresh_token form = Some tok"
  obtains "good (w_store w')" "is_err r" "\<not> up (w_store w)" "\<alpha> (w_store w') = \<alpha> (w_store w)"
  | "good (w_store w')" "is_err r" "live (rt_expires_at \<circ> fst) (w_clock w) (v_refresh (\<alpha> (w_store w)) (hash_secret P tok)) = None"
    "\<alpha> (w_store w') = \<alpha> (w_store w)"
  | t where "good (w_store w')" "is_err r"
    "live (rt_expires_at \<circ> fst) (w_clock w) (v_refresh (\<alpha> (w_store w)) (hash_secret P tok)) = Some (t, True)"
    "\<alpha> (w_store w') = drop_session (rt_session_id t) (\<alpha> (w_store w)) \<or> \<not> up (w_store w) \<and> \<alpha> (w_store w') = \<alpha> (w_store w)"
  | t s1 where "good s1" "up (w_store w) \<longrightarrow> up s1"
    "live (rt_expires_at \<circ> fst) (w_clock w) (v_refresh (\<alpha> (w_store w)) (hash_secret P tok)) = Some (t, False)"
    "\<alpha> s1 = (\<alpha> (w_store w))\<lparr>v_refresh := (v_refresh (\<alpha> (w_store w)))(hash_secret P tok \<mapsto> (t, True))\<rparr>"
    "is_err r \<and> w_store w' = s1 \<or> (\<exists>granted sc. rt_client_id t = tf_client_id form \<and> rt_dpop_jkt t = dp_jkt pf \<and>
       Scope_parse (rt_scope t) = Ok granted \<and> set sc \<subseteq> set granted \<and>
       (case tf_scope form of None \<Rightarrow> sc = granted | Some q \<Rightarrow> Scope_parse q = Ok sc) \<and>
       run (issue P st (rt_did t) (rt_client_id t) sc (dp_jkt pf) (Some (rt_session_id t))) (w\<lparr>w_store := s1\<rparr>) = (r, w'))"
proof -
  let ?v = "\<alpha> (w_store w)" and ?h = "hash_secret P tok"
  have t: "time_ok (w_clock w)" using time by (simp add: time_ok_def)
  obtain x w1 where x: "run (odb (consume_refresh_token Z ?h (w_clock w))) w = (x, w1)"
    by (cases "run (odb (consume_refresh_token Z ?h (w_clock w))) w")
  note c = consume_refresh_token [OF t, of ?h, unfolded spec_consume_refresh_token_def]
  from odb_writes [OF c good x] obtain s1 where s1: "w1 = w\<lparr>w_store := s1\<rparr>" "good s1" "up (w_store w) \<longrightarrow> up s1"
    and res: "(x, \<alpha> s1) = map_prod Ok id (case live (rt_expires_at \<circ> fst) (w_clock w) (v_refresh ?v ?h) of
        None \<Rightarrow> (NotFound, ?v) | Some (t, True) \<Rightarrow> (Reused (rt_session_id t), ?v)
      | Some (t, False) \<Rightarrow> (Consumed t, ?v\<lparr>v_refresh := (v_refresh ?v)(?h \<mapsto> (t, True))\<rparr>)) \<or>
      \<not> up (w_store w) \<and> is_err x \<and> \<alpha> s1 = ?v" by blast
  have sub: "Scope_is_subset_of a b \<longleftrightarrow> set a \<subseteq> set b" for a b
    by (auto simp: Scope_is_subset_of_def list_all_iff Scope_contains_def list_ex_iff)
  have body: "(case x of
      Inl e \<Rightarrow> is_err r \<and> w' = w1
    | Inr NotFound \<Rightarrow> is_err r \<and> w' = w1
    | Inr (Reused sid) \<Rightarrow> is_err r \<and> w' = snd (run (odb (revoke_session Z sid)) w1)
    | Inr (Consumed t) \<Rightarrow> is_err r \<and> w' = w1 \<or> (\<exists>granted sc. rt_client_id t = tf_client_id form \<and> rt_dpop_jkt t = dp_jkt pf \<and>
       Scope_parse (rt_scope t) = Ok granted \<and> set sc \<subseteq> set granted \<and>
       (case tf_scope form of None \<Rightarrow> sc = granted | Some q \<Rightarrow> Scope_parse q = Ok sc) \<and>
       run (issue P st (rt_did t) (rt_client_id t) sc (dp_jkt pf) (Some (rt_session_id t))) w1 = (r, w')))"
    using run x tok st unfolding refresh_token_grant_def
    by (auto simp: async_simps sub and_then_def split: sum.splits option.splits if_splits prod.splits ConsumeResult.splits)
  show ?thesis
  proof (cases "is_err x")
    case True
    with body res s1 show ?thesis by (intro that(1)) (auto simp: is_err_def split: sum.splits option.splits bool.splits)
  next
    case False
    show ?thesis
    proof (cases "live (rt_expires_at \<circ> fst) (w_clock w) (v_refresh ?v ?h)")
      case None
      with False body res s1 show ?thesis by (intro that(2)) auto
    next
      case (Some tu)
      then obtain t u where tu: "live (rt_expires_at \<circ> fst) (w_clock w) (v_refresh ?v ?h) = Some (t, u)" by (cases tu) auto
      show ?thesis
      proof (cases u)
        case True
        obtain y w2 where y: "run (odb (revoke_session Z (rt_session_id t))) w1 = (y, w2)"
          by (cases "run (odb (revoke_session Z (rt_session_id t))) w1")
        have good1: "good (w_store w1)" using s1 by simp
        from odb_writes [OF revoke_session [of "rt_session_id t", unfolded spec_revoke_session_def] good1 y]
        obtain s2 where s2: "w2 = w1\<lparr>w_store := s2\<rparr>" "good s2"
          "(y, \<alpha> s2) = map_prod Ok id (card (in_session (rt_session_id t) (\<alpha> (w_store w1))), drop_session (rt_session_id t) (\<alpha> (w_store w1))) \<or>
            \<not> up (w_store w1) \<and> is_err y \<and> \<alpha> s2 = \<alpha> (w_store w1)" by blast
        have "is_err r" "w' = w2" "\<alpha> s1 = ?v" using False body res tu True y by auto
        with s2 s1 tu True show ?thesis by (intro that(3) [of t]) auto
      next
        case unused: False
        have "x = Ok (Consumed t)" "\<alpha> s1 = ?v\<lparr>v_refresh := (v_refresh ?v)(?h \<mapsto> (t, True))\<rparr>"
          using False res tu unused by auto
        with body s1 tu unused show ?thesis by (intro that(4) [of s1 t]) auto
      qed
    qed
  qed
qed

end

subsection \<open>The token endpoint\<close>

text \<open>C2: a code buys tokens only for whom it was issued to. When the authorization-code grant succeeds, the store
  held that code, unexpired, for this very client, redirect URI and (when bound) DPoP key, and the presented
  verifier hashes to its challenge; the tokens are for the code's account and scope, bound to the proof's key,
  and the store changes in exactly two places: the code is gone and one fresh unused refresh token is there. When
  it fails, no refresh token appears, and the code is spent all the same if the store was reachable.\<close>

theorem code_grant_sound:
  assumes "oauth_store (oauth_ops (st_store st)) good up \<alpha>" "good (w_store w)" "time_ok (w_clock w + 7776000)"
    and "run (authorization_code_grant P st form pf) w = (r, w')" "tf_code form = Some code"
  shows "good (w_store w') \<and>
    (case r of
       Inr resp \<Rightarrow> \<exists>c verifier sc sid. v_codes (\<alpha> (w_store w)) (hash_secret P code) = Some c \<and> w_clock w < code_expires_at c \<and>
         code_client_id c = tf_client_id form \<and> tf_redirect_uri form = Some (code_redirect_uri c) \<and>
         tf_code_verifier form = Some verifier \<and> b64url_encode P (sha256 P (as_bytes verifier)) = code_challenge c \<and>
         43 \<le> length verifier \<and> length verifier \<le> 128 \<and> code_dpop_jkt c \<in> {None, Some (dp_jkt pf)} \<and>
         Scope_parse (code_scope c) = Ok sc \<and> tr_sub resp = code_did c \<and> tr_scope resp = Scope_to_string sc \<and>
         tr_token_type resp = ''DPoP'' \<and>
         (let t = issued_record P (tr_refresh_token resp) sid (code_did c) (code_client_id c) sc (dp_jkt pf) (w_clock w) in
          \<alpha> (w_store w') = (\<alpha> (w_store w))
            \<lparr>v_codes := (v_codes (\<alpha> (w_store w)))(hash_secret P code := None),
             v_refresh := (v_refresh (\<alpha> (w_store w)))(rt_token_hash t \<mapsto> (t, False))\<rparr>)
     | Inl e \<Rightarrow> v_refresh (\<alpha> (w_store w')) = v_refresh (\<alpha> (w_store w)) \<and>
         (up (w_store w) \<longrightarrow> \<alpha> (w_store w') = (\<alpha> (w_store w))
            \<lparr>v_codes := (v_codes (\<alpha> (w_store w)))(hash_secret P code := None)\<rparr>))"
  using assms(5)
proof (cases rule: oauth_store.run_code_grant [OF assms(1) refl assms(2-4), of code, case_names c fail ok])
  case (fail s1)
  then show ?thesis by (cases r) auto
next
  case (ok s1 c ver sc)
  have "good (w_store (w\<lparr>w_store := s1\<rparr>))" "time_ok (w_clock (w\<lparr>w_store := s1\<rparr>) + 7776000)"
    using ok assms(3) by auto
  note oauth_store.run_issue [OF assms(1) refl this ok(11)]
  then show ?thesis
    using ok by (cases r) (auto simp: CodeChallenge_verify_Ok Let_def live_Some)
qed

lemma in_session_dropped: "in_session sid (drop_session sid v) = {}"
  by (auto simp: in_session_def drop_session_def restrict_map_def split: if_splits)

text \<open>C7: rotation keeps a session what it was. When the refresh grant succeeds, the store held the token unused and
  unexpired, for this client and this proof's key; the granted scope is within the original one; the old token is
  now marked used and exactly one fresh token stands beside it, for the same session, account, client and key.
  When it fails no unused token appears, and presenting a token that was already used empties its whole session.\<close>

theorem refresh_grant_sound:
  assumes "oauth_store (oauth_ops (st_store st)) good up \<alpha>" "good (w_store w)" "time_ok (w_clock w + 7776000)"
    and "run (refresh_token_grant P st form pf) w = (r, w')" "tf_refresh_token form = Some tok"
  shows "good (w_store w') \<and>
    (case r of
       Inr resp \<Rightarrow> \<exists>old granted sc. v_refresh (\<alpha> (w_store w)) (hash_secret P tok) = Some (old, False) \<and>
         w_clock w < rt_expires_at old \<and> rt_client_id old = tf_client_id form \<and> rt_dpop_jkt old = dp_jkt pf \<and>
         Scope_parse (rt_scope old) = Ok granted \<and> set sc \<subseteq> set granted \<and>
         (case tf_scope form of None \<Rightarrow> sc = granted | Some q \<Rightarrow> Scope_parse q = Ok sc) \<and>
         tr_sub resp = rt_did old \<and> tr_scope resp = Scope_to_string sc \<and>
         (let t = issued_record P (tr_refresh_token resp) (rt_session_id old) (rt_did old) (rt_client_id old) sc
                (rt_dpop_jkt old) (w_clock w) in
          \<alpha> (w_store w') = (\<alpha> (w_store w))
            \<lparr>v_refresh := (v_refresh (\<alpha> (w_store w)))(hash_secret P tok \<mapsto> (old, True), rt_token_hash t \<mapsto> (t, False))\<rparr>)
     | Inl e \<Rightarrow>
         (\<forall>h t. v_refresh (\<alpha> (w_store w')) h = Some (t, False) \<longrightarrow> v_refresh (\<alpha> (w_store w)) h = Some (t, False)) \<and>
         (\<forall>old. up (w_store w) \<longrightarrow> v_refresh (\<alpha> (w_store w)) (hash_secret P tok) = Some (old, True) \<longrightarrow>
            w_clock w < rt_expires_at old \<longrightarrow> in_session (rt_session_id old) (\<alpha> (w_store w')) = {}))"
  using assms(5)
proof (cases rule: oauth_store.run_refresh_grant [OF assms(1) refl assms(2-4), of tok, case_names tok down missing reused fresh])
  case down
  then show ?thesis by (cases r) auto
next
  case missing
  then show ?thesis by (cases r) (auto simp: live_def split: option.splits)
next
  case (reused t)
  then show ?thesis
    by (cases r) (auto simp: live_Some in_session_dropped, auto simp: drop_session_def restrict_map_def split: if_splits)
next
  case (fresh t s1)
  show ?thesis
  proof (cases "is_err r \<and> w_store w' = s1")
    case True
    with fresh show ?thesis by (cases r) (auto simp: live_Some)
  next
    case False
    with fresh(5) obtain granted sc where g: "rt_client_id t = tf_client_id form" "rt_dpop_jkt t = dp_jkt pf"
       "Scope_parse (rt_scope t) = Ok granted" "set sc \<subseteq> set granted"
       "case tf_scope form of None \<Rightarrow> sc = granted | Some q \<Rightarrow> Scope_parse q = Ok sc"
       "run (issue P st (rt_did t) (rt_client_id t) sc (dp_jkt pf) (Some (rt_session_id t))) (w\<lparr>w_store := s1\<rparr>) = (r, w')" by blast
    have "good (w_store (w\<lparr>w_store := s1\<rparr>))" "time_ok (w_clock (w\<lparr>w_store := s1\<rparr>) + 7776000)"
      using fresh assms(3) by auto
    note oauth_store.run_issue [OF assms(1) refl this g(6)]
    with fresh g show ?thesis by (cases r) (auto simp: Let_def live_Some)
  qed
qed

text \<open>What both grants come down to: a successful request ran \<open>issue\<close> once, for the proof's key.\<close>

lemma grant_issues:
  assumes os: "oauth_store (oauth_ops (st_store st)) good up \<alpha>" "good (w_store w)" "time_ok (w_clock w + 7776000)"
    and g: "run (authorization_code_grant P st form pf) w = (Ok resp, w') \<or> run (refresh_token_grant P st form pf) w = (Ok resp, w')"
  obtains s1 did cid sc sid where "good s1" "v_jti (\<alpha> s1) = v_jti (\<alpha> (w_store w))"
    "run (issue P st did cid sc (dp_jkt pf) sid) (w\<lparr>w_store := s1\<rparr>) = (Ok resp, w')"
  using g
proof
  assume r: "run (authorization_code_grant P st form pf) w = (Ok resp, w')"
  then obtain code where c: "tf_code form = Some code"
    by (auto simp: authorization_code_grant_def async_simps ok_or_def split: option.splits)
  show ?thesis
    using c by (cases rule: oauth_store.run_code_grant [OF os(1) refl os(2,3) r, of code, case_names c fail ok])
      (auto intro: that)
next
  assume r: "run (refresh_token_grant P st form pf) w = (Ok resp, w')"
  then obtain tok where t: "tf_refresh_token form = Some tok"
    by (auto simp: refresh_token_grant_def async_simps ok_or_def split: option.splits)
  show ?thesis
    using t by (cases rule: oauth_store.run_refresh_grant [OF os(1) refl os(2,3) r, of tok, case_names tok down missing reused fresh])
      (auto intro: that)
qed

text \<open>C8: every token is bound to the key that asked for it. A successful token request carried exactly one DPoP header; its
  proof was signed by the embedded key for this endpoint's own URL, fresh, with a nonce of this server, and its
  \<open>jti\<close> is now in the replay cache; the refresh token just stored is bound to that key's thumbprint, and the access
  token verifies, until it expires, to claims confirming the same thumbprint. No grant type gets around this.\<close>

theorem token_endpoint_bound:
  assumes "oauth_store (oauth_ops (st_store st)) good up \<alpha>" "good (w_store w)" "time_ok (w_clock w + 7776000)"
    and "b64_ok P" "json_ok P" "ecdsa_ok P (sk_inner (ti_key (os_issuer (st_oauth st))))"
      "serde_ok (access_to_vec P) (access_from_slice P)"
    and "run (token_handle P st headers form) w = (Ok resp, w')"
  shows "\<exists>proof jwk c t. header_get_all headers ''dpop'' = [proof] \<and> dpop_signed P proof = Ok (jwk, c) \<and>
     dpop_checks P (os_dpop (st_oauth st)) (w_clock w) c ''POST'' (os_issuer_url (st_oauth st) @ ''/oauth/token'') None True \<and>
     v_jti (\<alpha> (w_store w)) (dc_jti c) = None \<and> v_jti (\<alpha> (w_store w')) (dc_jti c) = Some (w_clock w + 300) \<and>
     v_refresh (\<alpha> (w_store w')) (hash_secret P (tr_refresh_token resp)) = Some (t, False) \<and> rt_dpop_jkt t = thumbprint P jwk \<and>
     rt_did t = tr_sub resp \<and>
     (\<exists>claims. cnf_jkt (at_cnf claims) = thumbprint P jwk \<and> at_sub claims = tr_sub resp \<and> at_scope claims = tr_scope resp \<and>
       (\<forall>w2 :: 's world. w_clock w2 < w_clock w + tr_expires_in resp \<longrightarrow>
          fst (run (verify_access_token P (os_issuer (st_oauth st)) (tr_access_token resp)) w2) = Ok claims))"
proof -
  from assms(8) obtain pf w1 where pf: "run (verify_dpop P st headers) w = (Ok pf, w1)"
    and g: "run (authorization_code_grant P st form pf) w1 = (Ok resp, w') \<or> run (refresh_token_grant P st form pf) w1 = (Ok resp, w')"
    unfolding token_handle_def by (elim await_ok_run_Ok) (auto split: if_splits)
  obtain proof_text where p: "header_get_all headers ''dpop'' = [proof_text]"
    "run (DpopVerifier_verify P (os_dpop (st_oauth st)) (oauth_ops (st_store st)) proof_text ''POST''
       (os_issuer_url (st_oauth st) @ ''/oauth/token'') None True) w = (Ok pf, w1)"
    using pf unfolding verify_dpop_def
    by (auto simp: async_simps endpoint_url_def ok_or_def header_str_of_def split: list.splits if_splits option.splits)
  from p(2) obtain jwk c s1 where d: "dpop_signed P proof_text = Ok (jwk, c)"
    "dpop_checks P (os_dpop (st_oauth st)) (w_clock w) c ''POST'' (os_issuer_url (st_oauth st) @ ''/oauth/token'') None True"
    and rec: "record_dpop_jti (oauth_ops (st_store st)) (dc_jti c) (w_clock w + 300) (w_store w) = (Ok True, s1)"
    and w1: "w1 = w\<lparr>w_store := s1\<rparr>" and jkt: "dp_jkt pf = thumbprint P jwk" by (rule run_dpop_verify_Ok)
  have "time_ok (w_clock w + 300)" using assms(3) by (simp add: time_ok_def)
  from meets_Ok [OF oauth_store.record_dpop_jti [OF assms(1) this] assms(2) rec]
  have j: "good s1" "v_jti (\<alpha> (w_store w)) (dc_jti c) = None" "v_jti (\<alpha> s1) (dc_jti c) = Some (w_clock w + 300)"
    by (auto simp: spec_record_dpop_jti_def writes_def split: option.splits)
  have "good (w_store w1)" "time_ok (w_clock w1 + 7776000)" using j w1 assms(3) by auto
  then obtain s2 did cid sc sid where s2: "good s2" "v_jti (\<alpha> s2) = v_jti (\<alpha> (w_store w1))"
    and iss: "run (issue P st did cid sc (dp_jkt pf) sid) (w1\<lparr>w_store := s2\<rparr>) = (Ok resp, w')"
    by (rule grant_issues [OF assms(1) _ _ g])
  have "good (w_store (w1\<lparr>w_store := s2\<rparr>))" "time_ok (w_clock (w1\<lparr>w_store := s2\<rparr>) + 7776000)" using s2 w1 assms(3) by auto
  from oauth_store.run_issue [OF assms(1) refl this iss] obtain s where
    resp: "tr_sub resp = did" "tr_scope resp = Scope_to_string sc"
    and tok: "fst (run (issue_access_token P (os_issuer (st_oauth st)) did cid sc (dp_jkt pf)) (w1\<lparr>w_store := s2\<rparr>)) =
       Ok (tr_access_token resp, tr_expires_in resp)"
    and v: "let t = issued_record P (tr_refresh_token resp) s did cid sc (dp_jkt pf) (w_clock w) in
       \<alpha> (w_store w') = (\<alpha> s2)\<lparr>v_refresh := (v_refresh (\<alpha> s2))(rt_token_hash t \<mapsto> (t, False))\<rparr>"
    using w1 by auto
  from tok have "run (issue_access_token P (os_issuer (st_oauth st)) did cid sc (dp_jkt pf)) (w1\<lparr>w_store := s2\<rparr>) =
       (Ok (tr_access_token resp, tr_expires_in resp),
        snd (run (issue_access_token P (os_issuer (st_oauth st)) did cid sc (dp_jkt pf)) (w1\<lparr>w_store := s2\<rparr>)))"
    by (simp add: prod_eq_iff)
  from issued_token_verifies [where ?'v = 's, OF assms(4-7) this] w1 obtain claims where
    "at_sub claims = did" "at_scope claims = Scope_to_string sc" "cnf_jkt (at_cnf claims) = dp_jkt pf"
    "\<And>w2 :: 's world. w_clock w2 < w_clock w + tr_expires_in resp \<Longrightarrow>
       fst (run (verify_access_token P (os_issuer (st_oauth st)) (tr_access_token resp)) w2) = Ok claims"
    by auto
  with p(1) d j s2 w1 resp v jkt show ?thesis
    by (intro exI [of _ proof_text] exI [of _ jwk] exI [of _ c]
        exI [of _ "issued_record P (tr_refresh_token resp) s did cid sc (dp_jkt pf) (w_clock w)"])
      (auto simp: issued_record_def Let_def)
qed

subsection \<open>Witnesses\<close>

text \<open>The toy suite, extended: a PHC string is the password, a session token packs the secret and the claims.\<close>

definition wit_jwt_encode :: "bytes \<Rightarrow> AuthClaims \<Rightarrow> string + string" where
  "wit_jwt_encode sec c = Ok (wit_hex (pack [from_bytes sec, ac_sub c, ac_scope c, nat_text (ac_exp c), nat_text (ac_iat c),
     (case ac_jti c of None \<Rightarrow> [] | Some j \<Rightarrow> CHR ''j'' # j)]))"

definition wit_jwt_decode :: "nat \<Rightarrow> bytes \<Rightarrow> string \<Rightarrow> jwt_error + AuthClaims" where
  "wit_jwt_decode now sec tok = (case wit_unhex tok of
     None \<Rightarrow> Err OtherJwtError
   | Some bs \<Rightarrow> (case unpack bs [] of
       [k, sub, sc, e, i, j] \<Rightarrow>
         if as_bytes k \<noteq> sec then Err OtherJwtError
         else if text_nat e + 60 < now then Err ExpiredSignature
         else Ok \<lparr>ac_sub = sub, ac_scope = sc, ac_exp = text_nat e, ac_iat = text_nat i,
           ac_jti = (case j of [] \<Rightarrow> None | _ # j \<Rightarrow> Some j)\<rparr>
     | _ \<Rightarrow> Err OtherJwtError))"

definition wit_server :: "json \<Rightarrow> server_prims" where
  "wit_server hdr = id_prims.extend (auth_prims.extend
     (oauth_prims.extend (wit_oauth hdr) (auth_prims.fields
       (\<lambda>pw salt. Ok pw) (\<lambda>pw phc. Ok (pw = phc)) wit_jwt_encode wit_jwt_decode from_bytes
       (\<lambda>rng pos. (map rng [pos..<pos + 32], pos + 32)) (\<lambda>d. ''did:key:z'' @ wit_hex d) (\<lambda>d m. Ok (d @ m))))
     (id_prims.fields (\<lambda>op. Ok (as_bytes (concat (also_known_as op)))) (\<lambda>op. Ok (as_bytes (op_sig op)))
       (\<lambda>d. if length d = 32 then Ok d else Err ''scalar'') wit_hex from_bytes))
     (server_prims.fields (\<lambda>u. Err ''no network'') (\<lambda>b. Err ''no network'') (\<lambda>e. ''storage error'') (\<lambda>n. ''status''))"

lemma wit_server_sel [simp]:
  "sha256 (wit_server h) = sha256 (wit_oauth h)" "b64url_encode (wit_server h) = b64url_encode (wit_oauth h)"
  "b64url_decode (wit_server h) = b64url_decode (wit_oauth h)" "hexlower (wit_server h) = hexlower (wit_oauth h)"
  "json_from_slice (wit_server h) = json_from_slice (wit_oauth h)" "json_to_vec (wit_server h) = json_to_vec (wit_oauth h)"
  "jwk_from_value (wit_server h) = jwk_from_value (wit_oauth h)"
  "access_from_slice (wit_server h) = access_from_slice (wit_oauth h)" "access_to_vec (wit_server h) = access_to_vec (wit_oauth h)"
  "dpop_from_slice (wit_server h) = dpop_from_slice (wit_oauth h)" "ec_point_ok (wit_server h) = ec_point_ok (wit_oauth h)"
  "ec_sig_ok (wit_server h) = ec_sig_ok (wit_oauth h)" "ec_verify (wit_server h) = ec_verify (wit_oauth h)"
  "p256_xy (wit_server h) = p256_xy (wit_oauth h)" "p256_sign (wit_server h) = p256_sign (wit_oauth h)"
  "phc_hash (wit_server h) = (\<lambda>pw salt. Ok pw)" "phc_verify (wit_server h) = (\<lambda>pw phc. Ok (pw = phc))"
  "jwt_encode (wit_server h) = wit_jwt_encode" "jwt_decode (wit_server h) = wit_jwt_decode" "uuid_v4 (wit_server h) = from_bytes"
  "k256_random (wit_server h) = (\<lambda>rng pos. (map rng [pos..<pos + 32], pos + 32))"
  "k256_import (wit_server h) = (\<lambda>d. if length d = 32 then Ok d else Err ''scalar'')"
  "cbor_plc_unsigned (wit_server h) = (\<lambda>op. Ok (as_bytes (concat (also_known_as op))))"
  "cbor_plc_signed (wit_server h) = (\<lambda>op. Ok (as_bytes (op_sig op)))" "base32_nopad (wit_server h) = wit_hex"
  "argon2_into (wit_server h) = argon2_into wit_prims" "aes_gcm_encrypt (wit_server h) = aes_gcm_encrypt wit_prims"
  "aes_gcm_decrypt (wit_server h) = aes_gcm_decrypt wit_prims"
  "k256_did (wit_server h) = (\<lambda>d. ''did:key:z'' @ wit_hex d)" "k256_sign (wit_server h) = (\<lambda>d m. Ok (d @ m))"
  by (simp_all add: wit_server_def wit_oauth_def oauth_prims.defs auth_prims.defs id_prims.defs server_prims.defs prims.defs)

lemma wit_server_ok:
  "b64_ok (wit_server h)" "json_ok (wit_server h)" "ecdsa_ok (wit_server h) d"
  "serde_ok (access_to_vec (wit_server h)) (access_from_slice (wit_server h))"
proof -
  have "b64_ok (wit_server h) = b64_ok (wit_oauth h)" "json_ok (wit_server h) = json_ok (wit_oauth h)"
    "ecdsa_ok (wit_server h) d = ecdsa_ok (wit_oauth h) d"
    by (simp_all only: b64_ok_def json_ok_def ecdsa_ok_def wit_server_sel)
  then show "b64_ok (wit_server h)" "json_ok (wit_server h)" "ecdsa_ok (wit_server h) d"
    "serde_ok (access_to_vec (wit_server h)) (access_from_slice (wit_server h))"
    using b64_wit json_wit ecdsa_wit serde_wit by (simp_all only: wit_server_sel)
qed

lemma wit_server_dpop: "dpop_signed (wit_server h) p = dpop_signed (wit_oauth h) p"
  by (simp only: dpop_signed_def Unverified_parse_def verify_with_def PublicJwk_verify_def sec1_uncompressed_def wit_server_sel)

lemma wit_server_checks: "dpop_checks (wit_server h) v n c m u t r = dpop_checks (wit_oauth h) v n c m u t r"
  by (simp only: dpop_checks_def nonce_for_window_def wit_server_sel)

definition wit_state :: "Inner AppState" where
  "wit_state = \<lparr>st_store = mem_backend, st_jwt_secret = [1, 2], st_hostname = ''pds.test'', st_pds_endpoint = ''https://pds.test'',
     st_open_registration = False, st_plc_client = (\<lambda>did op. Ready (Ok ())),
     st_did_web_resolver = (\<lambda>did. Ready (Ok (Object [(''id'', String did)]))), st_key_passphrase = [3],
     st_relay_client = (\<lambda>u h. Ready (Ok ())), st_relay_url = ''https://relay.test'',
     st_appview_client = (\<lambda>r. Ready (Ok \<lparr>ur_status = 200, ur_body = [], ur_content_type = None, ur_content_labelers = None\<rparr>)),
     st_appview_url = ''https://api.test'', st_appview_did = ''did:web:api.test'',
     st_service_resolver = (\<lambda>d f. Ready (Ok ''https://svc.test'')),
     st_oauth = \<lparr>os_issuer = wit_issuer, os_dpop = wit_dpop,
     os_resolve = StaticClientResolver_resolve [(''https://app.test/c.json'', wit_metadata)], os_issuer_url = ''https://pds.test''\<rparr>\<rparr>"

abbreviation wit_sp :: server_prims where
  "wit_sp \<equiv> wit_server (wit_header [9])"

definition wit_pf :: DpopProof where
  "wit_pf = \<lparr>dp_jkt = ''jkt'', dp_jti = ''j1'', dp_htm = ''POST'', dp_htu = ''u'', dp_iat = 1000, dp_ath = None\<rparr>"

definition wit_verifier :: string where
  "wit_verifier = replicate 50 CHR ''v''"

definition wit_auth_code :: AuthCode where
  "wit_auth_code = \<lparr>code_hash = hash_secret wit_sp ''code'', code_did = ''did:plc:a'', code_client_id = ''https://app.test/c.json'',
     code_redirect_uri = ''https://app.test/cb'', code_scope = ''atproto'',
     code_challenge = b64url_encode wit_sp (sha256 wit_sp (as_bytes wit_verifier)), code_dpop_jkt = None, code_expires_at = 1060\<rparr>"

definition wit_coded :: Inner where
  "wit_coded = (mem_new ''t'')\<lparr>m_oauth_codes := [(code_hash wit_auth_code, wit_auth_code)]\<rparr>"

definition wit_form :: TokenForm where
  "wit_form = \<lparr>tf_grant_type = ''authorization_code'', tf_client_id = ''https://app.test/c.json'', tf_code = Some ''code'',
     tf_redirect_uri = Some ''https://app.test/cb'', tf_code_verifier = Some wit_verifier, tf_refresh_token = None, tf_scope = None\<rparr>"

lemma wit_pkce: "CodeChallenge_verify wit_sp \<lparr>challenge = code_challenge wit_auth_code\<rparr> wit_verifier = Ok ()"
  by (simp add: CodeChallenge_verify_Ok wit_auth_code_def wit_verifier_def list_all_iff pkce_unreserved_def ascii_class_defs less_eq_char_def)

lemma wit_issues:
  "\<exists>resp w'. run (issue wit_sp wit_state did cid sc jkt sid) (w :: Inner world) = (Ok resp, w')"
  by (simp add: issue_def issue_access_token_def jws_sign_def async_simps Let_def wit_state_def mem_put_refresh_token_def
      wit_access_to_vec_def del: nat_text.simps split: option.splits)

lemma wit_coded_ok: "mem_ok wit_coded"
  by (simp add: wit_coded_def mem_new_def mem_ok_def hm_ok_def mem_seq_ok_def mem_accounts_ok_def)

lemma wit_mem_oauth: "oauth_store (oauth_ops (st_store wit_state)) mem_ok mem_up mem_view"
  using mem.oauth.oauth_store_axioms by (simp add: wit_state_def)

lemma wit_state_ops [simp]:
  "st_store wit_state = mem_backend" "os_issuer (st_oauth wit_state) = wit_issuer" "os_dpop (st_oauth wit_state) = wit_dpop"
  "os_issuer_url (st_oauth wit_state) = ''https://pds.test''"
  by (simp_all add: wit_state_def)

lemma wit_code_grant:
  assumes "m_oauth_codes g = [(code_hash wit_auth_code, wit_auth_code)]"
  shows "\<exists>resp w'. run (authorization_code_grant wit_sp wit_state wit_form pf) (wit_at 1000 g) = (Ok resp, w')"
proof -
  obtain g1 where "mem_consume_auth_code (hash_secret wit_sp ''code'') 1000 g = (Ok (Some wit_auth_code), g1)"
    using assms by (simp add: mem_consume_auth_code_def wit_auth_code_def hm_get_def)
  moreover have "code_client_id wit_auth_code = ''https://app.test/c.json''" "code_redirect_uri wit_auth_code = ''https://app.test/cb''"
    "code_dpop_jkt wit_auth_code = None" "code_scope wit_auth_code = ''atproto''"
    by (simp_all add: wit_auth_code_def)
  moreover obtain resp w' where "run (issue wit_sp wit_state (code_did wit_auth_code) ''https://app.test/c.json'' [''atproto'']
      (dp_jkt pf) None) (wit_at 1000 g1) = (Ok resp, w')" using wit_issues by blast
  ultimately show ?thesis
    by (simp add: authorization_code_grant_def async_simps wit_form_def wit_pkce wit_scope wit_at_def wit_world_def)
qed

theorem code_grant_sound_witness:
  "\<exists>resp w'. run (authorization_code_grant wit_sp wit_state wit_form wit_pf) (wit_at 1000 wit_coded) = (Ok resp, w') \<and>
     tr_sub resp = ''did:plc:a'' \<and> v_codes (mem_view (w_store w')) (hash_secret wit_sp ''code'') = None"
proof -
  obtain resp w' where r: "run (authorization_code_grant wit_sp wit_state wit_form wit_pf) (wit_at 1000 wit_coded) = (Ok resp, w')"
    using wit_code_grant [of wit_coded wit_pf] by (auto simp: wit_coded_def)
  have "mem_ok (w_store (wit_at 1000 wit_coded))" "time_ok (w_clock (wit_at 1000 wit_coded) + 7776000)" "tf_code wit_form = Some ''code''"
    by (simp_all add: wit_at_def wit_world_def wit_coded_ok time_ok_def wit_form_def)
  note code_grant_sound [OF wit_mem_oauth this(1,2) r this(3)]
  moreover have "v_codes (mem_view wit_coded) (hash_secret wit_sp ''code'') = Some wit_auth_code"
    by (simp add: mem_view_def wit_coded_def hm_get_def wit_auth_code_def)
  ultimately show ?thesis
    using r by (auto simp: Let_def wit_at_def wit_world_def wit_auth_code_def simp del: mem_view_simps)
qed

definition wit_refresh :: RefreshTokenRecord where
  "wit_refresh = \<lparr>rt_token_hash = hash_secret wit_sp ''tok'', rt_session_id = ''s1'', rt_did = ''did:plc:a'',
     rt_client_id = ''https://app.test/c.json'', rt_scope = ''atproto'', rt_dpop_jkt = ''jkt'', rt_issued_at = 900, rt_expires_at = 5000\<rparr>"

definition wit_refreshable :: Inner where
  "wit_refreshable = (mem_new ''t'')\<lparr>m_oauth_refresh := [(rt_token_hash wit_refresh, (wit_refresh, False))]\<rparr>"

definition wit_refresh_form :: TokenForm where
  "wit_refresh_form = wit_form\<lparr>tf_grant_type := ''refresh_token'', tf_refresh_token := Some ''tok''\<rparr>"

lemma wit_refresh_grant:
  "\<exists>resp w'. run (refresh_token_grant wit_sp wit_state wit_refresh_form wit_pf) (wit_at 1000 wit_refreshable) = (Ok resp, w')"
proof -
  obtain g1 where "mem_consume_refresh_token (hash_secret wit_sp ''tok'') 1000 wit_refreshable = (Ok (Consumed wit_refresh), g1)"
    by (simp add: mem_consume_refresh_token_def wit_refreshable_def wit_refresh_def hm_get_def)
  moreover have "rt_client_id wit_refresh = ''https://app.test/c.json''" "rt_dpop_jkt wit_refresh = ''jkt''"
    "rt_scope wit_refresh = ''atproto''" "dp_jkt wit_pf = ''jkt''"
    by (simp_all add: wit_refresh_def wit_pf_def)
  moreover obtain resp w' where "run (issue wit_sp wit_state (rt_did wit_refresh) ''https://app.test/c.json'' [''atproto'']
      ''jkt'' (Some (rt_session_id wit_refresh))) (wit_at 1000 g1) = (Ok resp, w')" using wit_issues by blast
  ultimately show ?thesis
    by (simp add: refresh_token_grant_def async_simps wit_refresh_form_def wit_form_def wit_scope wit_at_def wit_world_def)
qed

theorem refresh_grant_sound_witness:
  "\<exists>resp w'. run (refresh_token_grant wit_sp wit_state wit_refresh_form wit_pf) (wit_at 1000 wit_refreshable) = (Ok resp, w') \<and>
     tr_sub resp = ''did:plc:a'' \<and> tr_scope resp = ''atproto''"
proof -
  obtain resp w' where r: "run (refresh_token_grant wit_sp wit_state wit_refresh_form wit_pf) (wit_at 1000 wit_refreshable) = (Ok resp, w')"
    using wit_refresh_grant by blast
  have "mem_ok (w_store (wit_at 1000 wit_refreshable))" "time_ok (w_clock (wit_at 1000 wit_refreshable) + 7776000)"
    "tf_refresh_token wit_refresh_form = Some ''tok''"
    by (simp_all add: wit_at_def wit_world_def wit_refreshable_def mem_new_def mem_ok_def hm_ok_def mem_seq_ok_def mem_accounts_ok_def
        time_ok_def wit_refresh_form_def)
  note refresh_grant_sound [OF wit_mem_oauth this(1,2) r this(3)]
  moreover have "v_refresh (mem_view wit_refreshable) (hash_secret wit_sp ''tok'') = Some (wit_refresh, False)"
    by (simp add: mem_view_def wit_refreshable_def hm_get_def wit_refresh_def)
  ultimately show ?thesis
    using r by (auto simp: Let_def wit_at_def wit_world_def wit_refresh_def wit_scope wit_refresh_form_def wit_form_def Scope_to_string_def)
qed

lemma wit_hex_letters: "list_all (\<lambda>c. CHR ''a'' \<le> c \<and> c \<le> CHR ''p'') (wit_hex bs)"
proof (induction bs)
  case (Cons b bs)
  have "n < 16 \<Longrightarrow> CHR ''a'' \<le> char_of (97 + n) \<and> char_of (97 + n) \<le> CHR ''p''" for n :: nat
    by (simp add: less_eq_char_def take_bit_eq_mod)
  then have "CHR ''a'' \<le> char_of (97 + unat b div 16) \<and> char_of (97 + unat b div 16) \<le> CHR ''p''"
    "CHR ''a'' \<le> char_of (97 + unat b mod 16) \<and> char_of (97 + unat b mod 16) \<le> CHR ''p''"
    using byte_div_16 by auto
  then show ?case using Cons by (simp add: wit_hex_def)
qed (simp add: wit_hex_def)

lemma wit_proof_visible: "header_str_of (wit_proof d fs) = Some (wit_proof d fs)"
proof -
  have "CHR ''a'' \<le> c \<and> c \<le> CHR ''p'' \<Longrightarrow> is_visible_ascii c" for c
    by (auto simp: is_visible_ascii_def less_eq_char_def)
  then have "list_all is_visible_ascii (wit_hex bs)" for bs using wit_hex_letters [of bs] by (auto simp: list_all_iff)
  moreover have "is_visible_ascii CHR ''.''" by (simp add: is_visible_ascii_def less_eq_char_def)
  ultimately show ?thesis by (simp add: header_str_of_def wit_proof_def Let_def)
qed

lemma wit_verify_dpop:
  "hm_get (m_oauth_jti g) ''j1'' = None \<Longrightarrow>
   \<exists>pf. run (verify_dpop wit_sp wit_state [(''dpop'', wit_dpop_proof 1000)]) (wit_at 1000 g) =
     (Ok pf, wit_at 1000 (g\<lparr>m_oauth_jti := hm_insert ''j1'' 1300 (m_oauth_jti g)\<rparr>))"
proof -
  assume fresh: "hm_get (m_oauth_jti g) ''j1'' = None"
  obtain jwk where d: "dpop_signed wit_sp (wit_dpop_proof 1000) = Ok (jwk, wit_claims 1000)"
    using wit_dpop_signed wit_server_dpop by metis
  have c: "dpop_checks wit_sp wit_dpop (w_clock (wit_at 1000 g)) (wit_claims 1000) ''POST'' ''https://pds.test/oauth/token'' None True"
    using wit_dpop_checks [of 1000 1000] by (simp add: wit_server_checks wit_at_def)
  have "record_dpop_jti (oauth_ops mem_backend) (dc_jti (wit_claims 1000)) (w_clock (wit_at 1000 g) + 300) (w_store (wit_at 1000 g)) =
     (Ok True, g\<lparr>m_oauth_jti := hm_insert ''j1'' 1300 (m_oauth_jti g)\<rparr>)"
    using fresh by (simp add: mem_record_dpop_jti_def hm_contains_key_def wit_at_def wit_world_def wit_claims_def)
  from dpop_verify_complete [OF d c this] show ?thesis
    by (simp add: verify_dpop_def header_get_all_def async_simps wit_dpop_proof_def wit_proof_visible endpoint_url_def wit_at_def wit_world_def)
qed

theorem token_endpoint_bound_witness:
  "\<exists>resp w' jwk c t. run (token_handle wit_sp wit_state [(''dpop'', wit_dpop_proof 1000)] wit_form) (wit_at 1000 wit_coded) = (Ok resp, w') \<and>
     dpop_signed wit_sp (wit_dpop_proof 1000) = Ok (jwk, c) \<and>
     v_refresh (mem_view (w_store w')) (hash_secret wit_sp (tr_refresh_token resp)) = Some (t, False) \<and> rt_dpop_jkt t = thumbprint wit_sp jwk"
proof -
  let ?g = "wit_coded\<lparr>m_oauth_jti := hm_insert ''j1'' 1300 (m_oauth_jti wit_coded)\<rparr>"
  obtain pf where pf: "run (verify_dpop wit_sp wit_state [(''dpop'', wit_dpop_proof 1000)]) (wit_at 1000 wit_coded) = (Ok pf, wit_at 1000 ?g)"
    using wit_verify_dpop [of wit_coded] by (auto simp: wit_coded_def mem_new_def)
  obtain resp w' where "run (authorization_code_grant wit_sp wit_state wit_form pf) (wit_at 1000 ?g) = (Ok resp, w')"
    using wit_code_grant [of ?g pf] by (auto simp: wit_coded_def)
  with pf have r: "run (token_handle wit_sp wit_state [(''dpop'', wit_dpop_proof 1000)] wit_form) (wit_at 1000 wit_coded) = (Ok resp, w')"
    by (simp add: token_handle_def async_simps wit_form_def)
  have "mem_ok (w_store (wit_at 1000 wit_coded))" "time_ok (w_clock (wit_at 1000 wit_coded) + 7776000)"
    by (simp_all add: wit_at_def wit_world_def wit_coded_ok time_ok_def)
  from token_endpoint_bound [OF wit_mem_oauth this wit_server_ok r] r show ?thesis
    by (auto simp: header_get_all_def)
qed

end
