(* ===== verification/Auth_Sessions.thy ===== *)
theory Auth_Sessions
  imports OAuth_Laws
begin

text \<open>
  Who a request speaks for and how accounts come to be: the \<open>Authorization\<close> header
  (\<open>rust-pds/src/auth/extractor.rs\<close>), the server methods (\<open>rust-pds/src/xrpc/server.rs\<close>: sessions, service
  tokens, account creation), the identity endpoints (\<open>xrpc/identity.rs\<close>), the cached signing key
  (\<open>load_signing_key_cached\<close> of \<open>xrpc/repo.rs\<close>) and preferences (\<open>xrpc/preferences.rs\<close>).

  A handler that takes an \<open>AccessAuth\<close> or \<open>RefreshAuth\<close> argument runs that extractor first.
\<close>

subsection \<open>The \<open>Authorization\<close> header\<close>

datatype AuthScheme = Bearer | Dpop

record Parts =
  pa_headers :: HeaderMap
  pa_method :: string
  pa_path :: string

definition authorization :: "HeaderMap \<Rightarrow> XrpcError + AuthScheme \<times> string" where
  "authorization headers =
     and_then (ok_or AuthRequired (header_get headers ''authorization'')) (\<lambda>value.
     and_then (ok_or XrpcError.InvalidToken (header_str_of value)) (\<lambda>header.
     and_then (ok_or XrpcError.InvalidToken (split_once CHR '' '' header)) (\<lambda>(scheme, token).
     let token = str_trim token in
     if token = [] then Err XrpcError.InvalidToken
     else if eq_ignore_ascii_case scheme ''bearer'' then Ok (Bearer, token)
     else if eq_ignore_ascii_case scheme ''dpop'' then Ok (Dpop, token)
     else Err XrpcError.InvalidToken)))"

definition bearer_token :: "HeaderMap \<Rightarrow> XrpcError + string" where
  "bearer_token headers = and_then (authorization headers) (\<lambda>(scheme, token).
     case scheme of Bearer \<Rightarrow> Ok token | Dpop \<Rightarrow> Err XrpcError.InvalidToken)"

definition authenticate_access :: "'x auth_prims_scheme \<Rightarrow> HeaderMap \<Rightarrow> bytes \<Rightarrow> ('s world, XrpcError + string) async" where
  "authenticate_access P headers secret =
     try_ok (bearer_token headers) (\<lambda>token.
     abind (decode_jwt P token secret) (\<lambda>r.
     try_ok (map_err xrpc_of_core r) (\<lambda>claims.
     if ac_scope claims \<noteq> ''com.atproto.access'' then Ready (Err XrpcError.InvalidToken)
     else Ready (Ok (ac_sub claims)))))"

definition authenticate_refresh :: "'x auth_prims_scheme \<Rightarrow> HeaderMap \<Rightarrow> bytes \<Rightarrow> ('s world, XrpcError + string) async" where
  "authenticate_refresh P headers secret =
     try_ok (bearer_token headers) (\<lambda>token.
     abind (decode_jwt P token secret) (\<lambda>r.
     try_ok (map_err xrpc_of_core r) (\<lambda>claims.
     if ac_scope claims \<noteq> ''com.atproto.refresh'' then Ready (Err XrpcError.InvalidToken)
     else Ready (Ok (ac_sub claims)))))"

definition authenticate_dpop ::
  "'x server_prims_scheme \<Rightarrow> ('s, 'z) AppState_scheme \<Rightarrow> Parts \<Rightarrow> string \<Rightarrow> ('s world, XrpcError + string) async" where
  "authenticate_dpop P state parts access_token = (case header_get_all (pa_headers parts) ''dpop'' of
     [] \<Rightarrow> Ready (Err AuthRequired)
   | proof # rest \<Rightarrow>
       if rest \<noteq> [] then Ready (Err XrpcError.InvalidToken)
       else try_ok (ok_or XrpcError.InvalidToken (header_str_of proof)) (\<lambda>proof.
         abind (verify_access_token P (os_issuer (st_oauth state)) access_token) (\<lambda>r.
         try_ok (map_err (\<lambda>_. XrpcError.InvalidToken) r) (\<lambda>claims.
         let url = endpoint_url (st_oauth state) (pa_path parts) in
         abind (DpopVerifier_verify P (os_dpop (st_oauth state)) (oauth_ops (st_store state)) proof (pa_method parts) url
           (Some access_token) True) (\<lambda>r.
         try_ok (map_err (\<lambda>_. XrpcError.InvalidToken) r) (\<lambda>verified.
         if dp_jkt verified \<noteq> cnf_jkt (at_cnf claims) then Ready (Err XrpcError.InvalidToken)
         else Ready (Ok (at_sub claims))))))))"

definition AccessAuth ::
  "'x server_prims_scheme \<Rightarrow> ('s, 'z) AppState_scheme \<Rightarrow> Parts \<Rightarrow> ('s world, XrpcError + string) async" where
  "AccessAuth P state parts = try_ok (authorization (pa_headers parts)) (\<lambda>(scheme, token). case scheme of
     Bearer \<Rightarrow> authenticate_access P (pa_headers parts) (st_jwt_secret state)
   | Dpop \<Rightarrow> authenticate_dpop P state parts token)"

definition RefreshAuth ::
  "'x server_prims_scheme \<Rightarrow> ('s, 'z) AppState_scheme \<Rightarrow> Parts \<Rightarrow> ('s world, XrpcError + string) async" where
  "RefreshAuth P state parts = authenticate_refresh P (pa_headers parts) (st_jwt_secret state)"

subsection \<open>The cached signing key\<close>

definition load_signing_key_cached ::
  "'x server_prims_scheme \<Rightarrow> ('s, 'z) AppState_scheme \<Rightarrow> string \<Rightarrow> ('s world, XrpcError + bytes) async" where
  "load_signing_key_cached P state did =
     (let key_id = did @ ''#signing'';
          import = (\<lambda>b. Ready (map_err (\<lambda>e. XrpcError.Internal (''failed to import signing key: '' @ e)) (k256_import P b))) in
      abind (atomic (\<lambda>w. (hm_get (w_key_cache w) key_id, w))) (\<lambda>hit. case hit of
        Some cached \<Rightarrow> import cached
      | None \<Rightarrow>
          abind (load_key P (key_ops (st_store state)) key_id (st_key_passphrase state)) (\<lambda>r.
          try_ok (map_err (\<lambda>e. XrpcError.Internal (''failed to load signing key: '' @ display_storage_error P e)) r) (\<lambda>key_bytes.
          abind (atomic (\<lambda>w. ((), w\<lparr>w_key_cache := hm_insert key_id key_bytes (w_key_cache w)\<rparr>))) (\<lambda>_.
          import key_bytes)))))"

subsection \<open>describeServer, sessions, service tokens\<close>

record DescribeServerResponse =
  ds_did :: string
  ds_available_user_domains :: "string list"
  ds_invite_code_required :: bool

definition describe_server :: "('s, 'z) AppState_scheme \<Rightarrow> XrpcError + DescribeServerResponse" where
  "describe_server state = Ok \<lparr>ds_did = ''did:web:'' @ st_hostname state,
     ds_available_user_domains = [''.'' @ st_hostname state], ds_invite_code_required = (\<not> st_open_registration state)\<rparr>"

record CreateSessionInput =
  cs_identifier :: string
  cs_password :: string

record SessionResponse =
  sr_access_jwt :: string
  sr_refresh_jwt :: string
  sr_handle :: string
  sr_did :: string
  sr_active :: bool

text \<open>\<open>encode_access_jwt(..)?\<close> then \<open>encode_refresh_jwt(..)?\<close>, as the three handlers that open a session do.\<close>

definition session_jwts ::
  "'x auth_prims_scheme \<Rightarrow> string \<Rightarrow> bytes \<Rightarrow> (string \<times> string \<Rightarrow> ('s world, XrpcError + 'a) async) \<Rightarrow> ('s world, XrpcError + 'a) async" where
  "session_jwts P did secret k =
     abind (encode_access_jwt P did secret) (\<lambda>r. try_ok (map_err xrpc_of_core r) (\<lambda>access.
     abind (encode_refresh_jwt P did secret) (\<lambda>r. try_ok (map_err xrpc_of_core r) (\<lambda>refresh.
     k (access, refresh)))))"

definition create_session ::
  "'x server_prims_scheme \<Rightarrow> ('s, 'z) AppState_scheme \<Rightarrow> CreateSessionInput \<Rightarrow> ('s world, XrpcError + SessionResponse) async" where
  "create_session P state input =
     await_ok (xdb (get_account_by_handle (account_ops (st_store state)) (cs_identifier input))) (\<lambda>found.
     try_ok (ok_or (XrpcError.InvalidRequest ''invalid identifier or password'') found) (\<lambda>(did, phc).
     try_ok (map_err xrpc_of_core (verify_password P (cs_password input) phc)) (\<lambda>verified.
     if \<not> verified then Ready (Err (XrpcError.InvalidRequest ''invalid identifier or password''))
     else session_jwts P did (st_jwt_secret state) (\<lambda>(access, refresh).
       Ready (Ok \<lparr>sr_access_jwt = access, sr_refresh_jwt = refresh, sr_handle = cs_identifier input, sr_did = did,
         sr_active = True\<rparr>)))))"

definition refresh_session ::
  "'x server_prims_scheme \<Rightarrow> ('s, 'z) AppState_scheme \<Rightarrow> Parts \<Rightarrow> ('s world, XrpcError + SessionResponse) async" where
  "refresh_session P state parts =
     await_ok (RefreshAuth P state parts) (\<lambda>did.
     await_ok (xdb (get_handle_by_did (account_ops (st_store state)) did)) (\<lambda>found.
     try_ok (ok_or AccountTakedown found) (\<lambda>handle.
     session_jwts P did (st_jwt_secret state) (\<lambda>(access, refresh).
       Ready (Ok \<lparr>sr_access_jwt = access, sr_refresh_jwt = refresh, sr_handle = handle, sr_did = did, sr_active = True\<rparr>)))))"

record GetSessionResponse =
  gs_handle :: string
  gs_did :: string
  gs_active :: bool

definition get_session ::
  "'x server_prims_scheme \<Rightarrow> ('s, 'z) AppState_scheme \<Rightarrow> Parts \<Rightarrow> ('s world, XrpcError + GetSessionResponse) async" where
  "get_session P state parts =
     await_ok (AccessAuth P state parts) (\<lambda>did.
     await_ok (xdb (get_handle_by_did (account_ops (st_store state)) did)) (\<lambda>found.
     try_ok (ok_or AccountTakedown found) (\<lambda>handle.
     Ready (Ok \<lparr>gs_handle = handle, gs_did = did, gs_active = True\<rparr>))))"

definition delete_session :: nat where
  "delete_session = 200"

record GetServiceAuthParams =
  ga_aud :: string
  ga_lxm :: "string option"
  ga_exp :: "64 word option" \<comment> \<open>\<open>i64\<close>\<close>

text \<open>\<open>now\<close> is a \<open>u64\<close>; a signed \<open>exp\<close> is cast to one.\<close>

definition service_auth_exp :: "64 word option \<Rightarrow> 64 word \<Rightarrow> 64 word" where
  "service_auth_exp requested now =
     (let max_exp = now + 1800 in
      case requested of
        Some e \<Rightarrow> if e > now then min e max_exp else now + 60
      | None \<Rightarrow> now + 60)"

definition get_service_auth ::
  "'x server_prims_scheme \<Rightarrow> ('s, 'z) AppState_scheme \<Rightarrow> Parts \<Rightarrow> GetServiceAuthParams \<Rightarrow> ('s world, XrpcError + string) async" where
  "get_service_auth P state parts params =
     await_ok (AccessAuth P state parts) (\<lambda>did.
     await_ok (load_signing_key_cached P state did) (\<lambda>signing.
     abind now_unix (\<lambda>now.
     let exp = service_auth_exp (ga_exp params) (of_nat now) in
     abind (mint_service_auth_jwt_with P signing did (ga_aud params) (ga_lxm params) (unat exp)) (\<lambda>r.
     Ready (map_err XrpcError.Internal r)))))"

subsection \<open>createAccount\<close>

record CreateAccountInput =
  ca_handle :: string
  ca_email :: "string option"
  ca_password :: "string option"
  ca_invite_code :: "string option"
  ca_did :: "string option"
  ca_recovery_key :: "string option"

record CreateAccountResponse =
  car_access_jwt :: string
  car_refresh_jwt :: string
  car_handle :: string
  car_did :: string

definition keypair_create :: "'x auth_prims_scheme \<Rightarrow> ('s world, bytes) async" where
  "keypair_create P = atomic (\<lambda>w. case k256_random P (w_rng w) (w_rng_pos w) of (k, pos) \<Rightarrow> (k, w\<lparr>w_rng_pos := pos\<rparr>))"

text \<open>Step 4: whether an invite was consumed.\<close>

definition invite_gate ::
  "('s, 'z) AppState_scheme \<Rightarrow> CreateAccountInput \<Rightarrow> string \<Rightarrow> ('s world, XrpcError + bool) async" where
  "invite_gate state input handle =
     await_ok (xdb (count_accounts (account_ops (st_store state)))) (\<lambda>preliminary_n.
     if preliminary_n = 0 then Ready (Ok False)
     else if st_open_registration state then Ready (Ok False)
     else try_ok (ok_or InvalidInviteCode (ca_invite_code input)) (\<lambda>code.
       await_ok (xdb (consume_invite (account_ops (st_store state)) code handle)) (\<lambda>consumed.
       if \<not> consumed then Ready (Err InvalidInviteCode) else Ready (Ok True))))"

text \<open>Step 6: the account's DID.\<close>

definition account_did ::
  "'x server_prims_scheme \<Rightarrow> ('s, 'z) AppState_scheme \<Rightarrow> CreateAccountInput \<Rightarrow> string \<Rightarrow> bytes \<Rightarrow> bytes \<Rightarrow>
     ('s world, XrpcError + string) async" where
  "account_did P state input handle signing rotation =
     (let plc = abind (register_did_plc P handle (st_pds_endpoint state) signing rotation (st_plc_client state))
            (\<lambda>r. Ready (map_err xrpc_of_core r)) in
      case ca_did input of
        Some d \<Rightarrow>
          if starts_with d ''did:web:'' then
            abind (st_did_web_resolver state d) (\<lambda>r.
            try_ok (map_err (\<lambda>_. UnresolvableDid) r) (\<lambda>doc.
            if Option.bind (json_get doc ''id'') as_str \<noteq> Some d then Ready (Err UnresolvableDid)
            else Ready (Ok d)))
          else plc
      | None \<Rightarrow> plc)"

definition create_account_inner ::
  "'x server_prims_scheme \<Rightarrow> ('s, 'z) AppState_scheme \<Rightarrow> CreateAccountInput \<Rightarrow> ('s world, XrpcError + CreateAccountResponse) async" where
  "create_account_inner P state input =
     (let handle = to_ascii_lowercase (ca_handle input) in
      try_ok (validate_handle handle) (\<lambda>_.
      if handle \<noteq> st_hostname state \<and> \<not> ends_with handle (''.'' @ st_hostname state)
      then Ready (Err UnsupportedDomain)
      else await_ok (xdb (get_account_by_handle (account_ops (st_store state)) handle)) (\<lambda>taken.
      if taken \<noteq> None then Ready (Err HandleNotAvailable)
      else await_ok (invite_gate state input handle) (\<lambda>invite_consumed.
      abind (keypair_create P) (\<lambda>signing.
      abind (keypair_create P) (\<lambda>rotation.
      await_ok (account_did P state input handle signing rotation) (\<lambda>did.
      try_ok (ok_or (XrpcError.InvalidRequest ''password is required'')
        (case ca_password input of Some p \<Rightarrow> if p \<noteq> [] then Some p else None | None \<Rightarrow> None)) (\<lambda>password.
      if length password < 8 then Ready (Err (XrpcError.InvalidRequest ''password must be at least 8 characters''))
      else abind (hash_password P password) (\<lambda>r. try_ok (map_err xrpc_of_core r) (\<lambda>phc.
      await_ok (xdb (count_and_insert_account (account_ops (st_store state)) did handle (ca_email input) phc)) (\<lambda>count_before.
      if count_before > 0 \<and> \<not> st_open_registration state \<and> \<not> invite_consumed
      then Ready (Err InvalidInviteCode)
      else abind (store_key P (key_ops (st_store state)) (did @ ''#signing'') signing (st_key_passphrase state)) (\<lambda>r.
      try_ok (map_err xrpc_of_storage r) (\<lambda>_.
      abind (store_key P (key_ops (st_store state)) (did @ ''#rotation'') rotation (st_key_passphrase state)) (\<lambda>r.
      try_ok (map_err xrpc_of_storage r) (\<lambda>_.
      session_jwts P did (st_jwt_secret state) (\<lambda>(access, refresh).
      Ready (Ok \<lparr>car_access_jwt = access, car_refresh_jwt = refresh, car_handle = handle, car_did = did\<rparr>)))))))))))))))))"

subsection \<open>Identity endpoints\<close>

definition resolve_handle ::
  "('s, 'z) AppState_scheme \<Rightarrow> string option \<Rightarrow> ('s world, XrpcError + string) async" where
  "resolve_handle state param =
     try_ok (ok_or (XrpcError.InvalidRequest ''missing required query param: handle'') param) (\<lambda>handle.
     await_ok (xdb (get_did_by_handle (account_ops (st_store state)) handle)) (\<lambda>found.
     Ready (ok_or HandleNotFound found)))"

definition well_known_atproto_did :: "('s, 'z) AppState_scheme \<Rightarrow> ('s world, XrpcError + string) async" where
  "well_known_atproto_did state =
     await_ok (xdb (get_did_by_handle (account_ops (st_store state)) (st_hostname state))) (\<lambda>found.
     Ready (ok_or HandleNotFound found))"

definition well_known_did_json ::
  "'x server_prims_scheme \<Rightarrow> ('s, 'z) AppState_scheme \<Rightarrow> ('s world, XrpcError + DidDocument) async" where
  "well_known_did_json P state =
     (let did = did_web (st_hostname state) in
      abind (load_key P (key_ops (st_store state)) (did @ ''#signing'') (st_key_passphrase state)) (\<lambda>r.
      try_ok (map_err (\<lambda>_. HandleNotFound) r) (\<lambda>key_bytes.
      try_ok (map_err (\<lambda>e. XrpcError.Internal (''bad signing key: '' @ e)) (k256_import P key_bytes)) (\<lambda>signing.
      Ready (Ok (did_web_document P (st_hostname state) signing (st_pds_endpoint state)))))))"

subsection \<open>Preferences\<close>

text \<open>\<open>serde_json\<close> on the array of preferences.\<close>

record prefs_prims = server_prims +
  prefs_from_str :: "string \<Rightarrow> string + json list"
  prefs_to_string :: "json list \<Rightarrow> string + string"

definition xrpc_get_preferences ::
  "'x prefs_prims_scheme \<Rightarrow> ('s, 'z) AppState_scheme \<Rightarrow> Parts \<Rightarrow> ('s world, XrpcError + json list) async" where
  "xrpc_get_preferences P state parts =
     await_ok (AccessAuth P state parts) (\<lambda>did.
     await_ok (xdb (get_preferences (account_ops (st_store state)) did)) (\<lambda>found.
     case found of
       None \<Rightarrow> Ready (Ok [])
     | Some json_str \<Rightarrow> Ready (map_err (\<lambda>e. XrpcError.Internal (''prefs decode: '' @ e)) (prefs_from_str P json_str))))"

definition xrpc_put_preferences ::
  "'x prefs_prims_scheme \<Rightarrow> ('s, 'z) AppState_scheme \<Rightarrow> Parts \<Rightarrow> json list \<Rightarrow> ('s world, XrpcError + nat) async" where
  "xrpc_put_preferences P state parts preferences =
     await_ok (AccessAuth P state parts) (\<lambda>did.
     try_ok (map_err (\<lambda>e. XrpcError.Internal (''prefs encode: '' @ e)) (prefs_to_string P preferences)) (\<lambda>json_str.
     await_ok (xdb (upsert_preferences (account_ops (st_store state)) did json_str)) (\<lambda>_. Ready (Ok 200))))"

end
