(* ===== verification/Session_Laws.thy ===== *)
theory Session_Laws
  imports Auth_Sessions
begin

text \<open>
  Laws of authentication and accounts: what an opened session is evidence of, that access and refresh tokens
  cannot stand in for each other, what a DPoP-bound access token needs, how a new account enters the store, the
  syntax of handles, the lifetime of service tokens, and that the key cache is invisible.
\<close>

subsection \<open>Storage steps\<close>

lemma xdb_step:
  assumes "meets good up \<alpha> op R" "good (w_store w)" "run (xdb op) w = (r, w')"
  obtains x s' where "r = map_err xrpc_of_storage x" "w' = w\<lparr>w_store := s'\<rparr>" "good s'" "up (w_store w) \<longrightarrow> up s'"
    "R (\<alpha> (w_store w)) x (\<alpha> s') \<or> \<not> up (w_store w) \<and> is_err x \<and> \<alpha> s' = \<alpha> (w_store w)"
  using meets_step [OF assms(1,2)] assms(3) by (auto simp: async_simps split: prod.splits)

lemma map_err_is_err [simp]: "is_err (map_err f r) = is_err r" "Inr a = map_err f r \<longleftrightarrow> r = Inr a"
  by (cases r; auto)+

lemma xdb_Ok:
  assumes "meets good up \<alpha> op R" "good (w_store w)" "run (xdb op) w = (Inr a, w')"
  obtains s' where "w' = w\<lparr>w_store := s'\<rparr>" "good s'" "up (w_store w) \<longrightarrow> up s'" "R (\<alpha> (w_store w)) (Inr a) (\<alpha> s')"
  using assms by (elim xdb_step) auto

text \<open>Taking a successful run apart.\<close>

lemma abind_run:
  assumes "run (abind p k) s = (b, s'')"
  obtains a s' where "run p s = (a, s')" "run (k a) s' = (b, s'')"
  using assms by (auto simp: run_abind split: prod.splits)

lemma try_ok_run:
  assumes "run (try_ok r k) s = (Inr b, s')"
  obtains a where "r = Inr a" "run (k a) s = (Inr b, s')"
  using assms by (cases r) (auto simp: async_simps)

lemma guard_run:
  assumes "run (if c then Ready (Inl e) else p) s = (Inr b, s')"
  obtains "\<not> c" "run p s = (Inr b, s')"
  using assms by (auto split: if_splits)

lemmas run_elims = await_ok_run_Ok try_ok_run guard_run abind_run

subsection \<open>Sessions\<close>

text \<open>The claims \<open>encode_access_jwt\<close> and \<open>encode_refresh_jwt\<close> sign.\<close>

definition session_claims :: "string \<Rightarrow> bool \<Rightarrow> nat \<Rightarrow> AuthClaims \<Rightarrow> bool" where
  "session_claims did access now c \<longleftrightarrow> ac_sub c = did \<and> ac_iat c = now \<and>
     ac_scope c = (if access then ''com.atproto.access'' else ''com.atproto.refresh'') \<and>
     ac_exp c = now + (if access then 7200 else 7776000)"

lemma run_session_jwts:
  assumes "run (session_jwts P did secret (\<lambda>(a, b). Ready (Ok (g a b)))) w = (r, w')"
  shows "w_store w' = w_store w \<and> w_clock w' = w_clock w \<and> w_key_cache w' = w_key_cache w \<and> (case r of
      Inl e \<Rightarrow> \<exists>m c. e = XrpcError.Internal m \<and> is_err (jwt_encode P secret c)
    | Inr x \<Rightarrow> \<exists>a b c1 c2. x = g a b \<and> jwt_encode P secret c1 = Ok a \<and> session_claims did True (w_clock w) c1 \<and>
        jwt_encode P secret c2 = Ok b \<and> session_claims did False (w_clock w) c2)"
proof -
  let ?c1 = "\<lparr>ac_sub = did, ac_scope = ''com.atproto.access'', ac_exp = w_clock w + 7200, ac_iat = w_clock w, ac_jti = None\<rparr>"
  obtain x w1 where x: "run (encode_refresh_jwt P did secret) w = (x, w1)" by (cases "run (encode_refresh_jwt P did secret) w")
  from run_encode_refresh_jwt [OF x] obtain j where w1: "w1 = w\<lparr>w_rng_pos := w_rng_pos w + 16\<rparr>"
    and j: "x = map_err (\<lambda>e. CoreError.Internal (''JWT encode error: '' @ e)) (jwt_encode P secret
       \<lparr>ac_sub = did, ac_scope = ''com.atproto.refresh'', ac_exp = w_clock w + 7776000, ac_iat = w_clock w, ac_jti = Some j\<rparr>)"
    by blast
  let ?c2 = "\<lparr>ac_sub = did, ac_scope = ''com.atproto.refresh'', ac_exp = w_clock w + 7776000, ac_iat = w_clock w, ac_jti = Some j\<rparr>"
  have "session_claims did True (w_clock w) ?c1" "session_claims did False (w_clock w) ?c2" by (simp_all add: session_claims_def)
  moreover have "(r, w') = (case jwt_encode P secret ?c1 of
      Inl e \<Rightarrow> (Err (XrpcError.Internal (''JWT encode error: '' @ e)), w)
    | Inr a \<Rightarrow> (case jwt_encode P secret ?c2 of
        Inl e \<Rightarrow> (Err (XrpcError.Internal (''JWT encode error: '' @ e)), w1) | Inr b \<Rightarrow> (Ok (g a b), w1)))"
    using assms x j by (auto simp: session_jwts_def async_simps encode_access_jwt_at_def Let_def split: sum.splits)
  ultimately show ?thesis using w1
    by (auto split: sum.splits) (metis is_ok_simps(3))+
qed


context storage_backend
begin

lemma run_create_session:
  assumes st: "st_store st = B" and good: "good (w_store w)" and run: "run (create_session P st input) w = (r, w')"
  shows "good (w_store w') \<and> \<alpha> (w_store w') = \<alpha> (w_store w) \<and> (case r of
      Inr resp \<Rightarrow> (\<exists>a c1 c2. visible_by_handle (\<alpha> (w_store w)) (cs_identifier input) (sr_did resp) a \<and>
        phc_verify P (cs_password input) (row_password a) = Ok True \<and> sr_handle resp = cs_identifier input \<and>
        jwt_encode P (st_jwt_secret st) c1 = Ok (sr_access_jwt resp) \<and> session_claims (sr_did resp) True (w_clock w) c1 \<and>
        jwt_encode P (st_jwt_secret st) c2 = Ok (sr_refresh_jwt resp) \<and> session_claims (sr_did resp) False (w_clock w) c2)
    | Inl e \<Rightarrow> xrpc_status e = 500 \<or> e = XrpcError.InvalidRequest ''invalid identifier or password'' \<and>
        \<not> (\<exists>d a. visible_by_handle (\<alpha> (w_store w)) (cs_identifier input) d a \<and>
            phc_verify P (cs_password input) (row_password a) = Ok True))"
proof -
  let ?v = "\<alpha> (w_store w)"
  obtain x w1 where x: "run (xdb (get_account_by_handle (account_ops B) (cs_identifier input))) w = (x, w1)"
    by (cases "run (xdb (get_account_by_handle (account_ops B) (cs_identifier input))) w")
  from xdb_step [OF account.get_account_by_handle good x] obtain x0 s1 where x0: "x = map_err xrpc_of_storage x0"
    and w1: "w1 = w\<lparr>w_store := s1\<rparr>" "good s1"
    and sp: "spec_get_account_by_handle (cs_identifier input) ?v x0 (\<alpha> s1) \<or> \<not> up (w_store w) \<and> is_err x0 \<and> \<alpha> s1 = ?v"
    by metis
  have v1: "\<alpha> s1 = ?v" using sp by (auto simp: spec_get_account_by_handle_def)
  show ?thesis
  proof (cases x0)
    case (Inl e)
    then show ?thesis using run x x0 w1 v1 st by (auto simp: create_session_def async_simps xrpc_of_storage_def)
  next
    case (Inr found)
    with sp have vis: "found = Some (d, p) \<longleftrightarrow> (\<exists>a. visible_by_handle ?v (cs_identifier input) d a \<and> row_password a = p)" for d p
      by (auto simp: spec_get_account_by_handle_def)
    show ?thesis
    proof (cases found)
      case None
      then have "\<not> visible_by_handle ?v (cs_identifier input) d a" for d a using vis by (metis option.distinct(1))
      with None show ?thesis using run x x0 w1 v1 st Inr by (auto simp: create_session_def async_simps)
    next
      case (Some dp)
      then obtain d p where dp: "found = Some (d, p)" by (cases dp) auto
      then obtain a where a: "visible_by_handle ?v (cs_identifier input) d a" "row_password a = p" using vis by blast
      have only: "visible_by_handle ?v (cs_identifier input) d' a' \<Longrightarrow> row_password a' = p" for d' a'
        using vis [of d' "row_password a'"] dp by auto
      let ?k = "session_jwts P d (st_jwt_secret st) (\<lambda>(access, refresh).
         Ready (Ok \<lparr>sr_access_jwt = access, sr_refresh_jwt = refresh, sr_handle = cs_identifier input, sr_did = d, sr_active = True\<rparr>))"
      have r: "(r, w') = (case phc_verify P (cs_password input) p of
          Inl e \<Rightarrow> (Err (XrpcError.Internal (''malformed PHC string: '' @ e)), w1)
        | Inr ok \<Rightarrow> if \<not> ok then (Err (XrpcError.InvalidRequest ''invalid identifier or password''), w1) else run ?k w1)"
        using run x x0 Inr dp st
        by (auto simp: create_session_def async_simps verify_password_def split: sum.splits)
      show ?thesis
      proof (cases "phc_verify P (cs_password input) p = Ok True")
        case True
        with r have "run ?k w1 = (r, w')" by simp
        from run_session_jwts [OF this] True a w1 v1 show ?thesis by (auto split: sum.splits) blast+
      next
        case False
        with r a only w1 v1 show ?thesis by (auto split: sum.splits if_splits)
      qed
    qed
  qed
qed

lemma run_refresh_session:
  assumes st: "st_store st = B" and good: "good (w_store w)" and run: "run (refresh_session P st parts) w = (Ok resp, w')"
  shows "good (w_store w') \<and> \<alpha> (w_store w') = \<alpha> (w_store w) \<and>
    run (RefreshAuth P st parts) w = (Ok (sr_did resp), w) \<and>
    (\<exists>a c1 c2. v_accounts (\<alpha> (w_store w)) (sr_did resp) = Some a \<and> active_row a \<and> row_handle a = Some (sr_handle resp) \<and>
      jwt_encode P (st_jwt_secret st) c1 = Ok (sr_access_jwt resp) \<and> session_claims (sr_did resp) True (w_clock w) c1 \<and>
      jwt_encode P (st_jwt_secret st) c2 = Ok (sr_refresh_jwt resp) \<and> session_claims (sr_did resp) False (w_clock w) c2)"
proof -
  let ?k = "\<lambda>did handle. session_jwts P did (st_jwt_secret st) (\<lambda>(access, refresh).
    Ready (Ok \<lparr>sr_access_jwt = access, sr_refresh_jwt = refresh, sr_handle = handle, sr_did = did, sr_active = True\<rparr>))"
  from run obtain did w1 found w2 where au: "run (RefreshAuth P st parts) w = (Ok did, w1)"
    and f: "run (xdb (get_handle_by_did (account_ops (st_store st)) did)) w1 = (Ok found, w2)"
    and k: "run (try_ok (ok_or AccountTakedown found) (?k did)) w2 = (Ok resp, w')"
    unfolding refresh_session_def by (elim await_ok_run_Ok)
  have w1: "w1 = w" using au by (auto simp: RefreshAuth_def authenticate_refresh_def async_simps split: sum.splits if_splits)
  from k obtain handle where h: "found = Some handle" "run (?k did handle) w2 = (Ok resp, w')"
    by (cases found) (auto simp: async_simps)
  from f [unfolded w1 st] obtain s' where s': "w2 = w\<lparr>w_store := s'\<rparr>" "good s'"
    "spec_get_handle_by_did did (\<alpha> (w_store w)) (Inr found) (\<alpha> s')"
    by (rule xdb_Ok [OF account.get_handle_by_did good])
  from run_session_jwts [OF h(2)] s' h(1) au w1 show ?thesis
    by (auto simp: spec_get_handle_by_did_def split: option.splits if_splits)
qed

end

text \<open>C22: a session is opened only for a live account and its password. createSession answers with tokens exactly for
  an account the handle is visible under (neither deactivated nor taken down) whose stored hash the password
  verifies against; both tokens are for that account's DID, with the access and the refresh scope; it changes
  nothing in the store, and the one client error it gives does not say which of the two was wrong.\<close>

theorem create_session_sound:
  assumes "storage_backend (st_store st) good up \<alpha>" "good (w_store w)" "run (create_session P st input) w = (r, w')"
  shows "\<alpha> (w_store w') = \<alpha> (w_store w) \<and> (case r of
      Inr resp \<Rightarrow> (\<exists>a c1 c2. visible_by_handle (\<alpha> (w_store w)) (cs_identifier input) (sr_did resp) a \<and>
        phc_verify P (cs_password input) (row_password a) = Ok True \<and> sr_handle resp = cs_identifier input \<and>
        jwt_encode P (st_jwt_secret st) c1 = Ok (sr_access_jwt resp) \<and> session_claims (sr_did resp) True (w_clock w) c1 \<and>
        jwt_encode P (st_jwt_secret st) c2 = Ok (sr_refresh_jwt resp) \<and> session_claims (sr_did resp) False (w_clock w) c2)
    | Inl e \<Rightarrow> xrpc_status e = 500 \<or> e = XrpcError.InvalidRequest ''invalid identifier or password'' \<and>
        \<not> (\<exists>d a. visible_by_handle (\<alpha> (w_store w)) (cs_identifier input) d a \<and>
            phc_verify P (cs_password input) (row_password a) = Ok True))"
  using storage_backend.run_create_session [OF assms(1) refl assms(2,3)] by blast

text \<open>A taken-down account cannot renew its session. refreshSession succeeds only for a DID whose account is active
  when it runs, whatever the refresh token says, and then renews that very account's tokens under its current handle.\<close>

theorem refresh_session_sound:
  assumes "storage_backend (st_store st) good up \<alpha>" "good (w_store w)" "run (refresh_session P st parts) w = (Ok resp, w')"
  shows "\<alpha> (w_store w') = \<alpha> (w_store w) \<and> run (RefreshAuth P st parts) w = (Ok (sr_did resp), w) \<and>
    (\<exists>a c1 c2. v_accounts (\<alpha> (w_store w)) (sr_did resp) = Some a \<and> active_row a \<and> row_handle a = Some (sr_handle resp) \<and>
      jwt_encode P (st_jwt_secret st) c1 = Ok (sr_access_jwt resp) \<and> session_claims (sr_did resp) True (w_clock w) c1 \<and>
      jwt_encode P (st_jwt_secret st) c2 = Ok (sr_refresh_jwt resp) \<and> session_claims (sr_did resp) False (w_clock w) c2)"
  using storage_backend.run_refresh_session [OF assms(1) refl assms(2,3)] by blast

subsection \<open>Access and refresh\<close>

text \<open>
  What \<open>jsonwebtoken\<close> documents of HS256 with its default validation: a token it signed decodes under the same
  secret until 60 seconds (the default leeway) after \<open>exp\<close>, and its text is printable ASCII without blanks.
\<close>

definition is_graphic :: "char \<Rightarrow> bool" where
  "is_graphic c = (CHR ''!'' \<le> c \<and> c \<le> CHR ''~'')"

definition jwt_ok :: "'x auth_prims_scheme \<Rightarrow> bool" where
  "jwt_ok P = (\<forall>secret c t. jwt_encode P secret c = Ok t \<longrightarrow> t \<noteq> [] \<and> list_all is_graphic t \<and>
     (\<forall>now. jwt_decode P now secret t = (if now \<le> ac_exp c + 60 then Ok c else Err ExpiredSignature)))"

lemma trim_with_graphic:
  assumes "list_all is_graphic s" "\<forall>p \<in> set ps. p \<noteq> [] \<longrightarrow> \<not> is_graphic (hd p)"
  shows "trim_with ps s = s"
proof -
  have "\<not> (p \<noteq> [] \<and> starts_with s p)" if "p \<in> set ps" for p
  proof
    assume "p \<noteq> [] \<and> starts_with s p"
    then obtain c p' s' where "p = c # p'" "s = c # s'"
      by (cases p; cases s) (auto simp: starts_with_def)
    with assms that show False by auto
  qed
  then have "find (\<lambda>p. p \<noteq> [] \<and> starts_with s p) ps = None" by (simp add: find_None_iff)
  then show ?thesis by (subst trim_with.simps) (simp only: option.case)
qed

lemma str_trim_graphic: "list_all is_graphic s \<Longrightarrow> str_trim s = s"
  using trim_with_graphic [of "rev s" "map rev utf8_spaces"] trim_with_graphic [of s utf8_spaces]
  by (simp add: str_trim_def utf8_spaces_def is_graphic_def less_eq_char_def list_all_rev)

text \<open>A request that presents \<open>t\<close> as a bearer token.\<close>

definition bearer_parts :: "string \<Rightarrow> string \<Rightarrow> string \<Rightarrow> Parts" where
  "bearer_parts m p t = \<lparr>pa_headers = [(''authorization'', ''Bearer '' @ t)], pa_method = m, pa_path = p\<rparr>"

lemma bearer_header:
  assumes "list_all is_graphic t" "t \<noteq> []"
  shows "authorization (pa_headers (bearer_parts m p t)) = Ok (Bearer, t)"
proof -
  have "is_graphic c \<Longrightarrow> is_visible_ascii c" for c
    by (auto simp: is_graphic_def is_visible_ascii_def less_eq_char_def)
  then have "list_all is_visible_ascii (''Bearer '' @ t)"
    using assms(1) by (simp add: list_all_iff is_visible_ascii_def less_eq_char_def)
  moreover have "eq_ignore_ascii_case ''Bearer'' ''bearer''" by code_simp
  ultimately show ?thesis using assms
    by (simp add: bearer_parts_def authorization_def header_get_def header_str_of_def str_trim_graphic)
qed

lemma bearer_auth:
  assumes "jwt_ok P" "jwt_encode P (st_jwt_secret st) c = Ok t"
  shows "run (AccessAuth P st (bearer_parts m p t)) w =
      (if ac_exp c + 60 < w_clock w then Err XrpcError.ExpiredToken
       else if ac_scope c = ''com.atproto.access'' then Ok (ac_sub c) else Err XrpcError.InvalidToken, w)" (is ?a)
    and "run (RefreshAuth P st (bearer_parts m p t)) w =
      (if ac_exp c + 60 < w_clock w then Err XrpcError.ExpiredToken
       else if ac_scope c = ''com.atproto.refresh'' then Ok (ac_sub c) else Err XrpcError.InvalidToken, w)" (is ?b)
proof -
  from assms have t: "list_all is_graphic t" "t \<noteq> []"
    and d: "jwt_decode P now (st_jwt_secret st) t = (if now \<le> ac_exp c + 60 then Ok c else Err ExpiredSignature)" for now
    by (auto simp: jwt_ok_def)
  note h = bearer_header [OF t]
  show ?a by (simp add: AccessAuth_def authenticate_access_def bearer_token_def h async_simps d)
  show ?b by (simp add: RefreshAuth_def authenticate_refresh_def bearer_token_def h async_simps d)
qed

text \<open>C31: the two tokens of a session do what they are for and cannot be swapped. Presented as bearer tokens, the access
  token authenticates its account wherever an access token is asked for until its two hours (plus the decoder's
  minute of leeway) are over, the refresh token authenticates it for refreshSession for ninety days, each is refused
  as invalid on the other's path, and both are reported as expired afterwards.\<close>

theorem session_tokens_separate:
  assumes "jwt_ok P" "storage_backend (st_store st) good up \<alpha>" "good (w_store w)"
    and "run (create_session P st input) w = (Ok resp, w')"
  shows "fst (run (AccessAuth P st (bearer_parts m p (sr_access_jwt resp))) w2) =
      (if w_clock w2 \<le> w_clock w + 7260 then Ok (sr_did resp) else Err XrpcError.ExpiredToken) \<and>
    fst (run (RefreshAuth P st (bearer_parts m p (sr_access_jwt resp))) w2) =
      Err (if w_clock w2 \<le> w_clock w + 7260 then XrpcError.InvalidToken else XrpcError.ExpiredToken) \<and>
    fst (run (RefreshAuth P st (bearer_parts m p (sr_refresh_jwt resp))) w2) =
      (if w_clock w2 \<le> w_clock w + 7776060 then Ok (sr_did resp) else Err XrpcError.ExpiredToken) \<and>
    fst (run (AccessAuth P st (bearer_parts m p (sr_refresh_jwt resp))) w2) =
      Err (if w_clock w2 \<le> w_clock w + 7776060 then XrpcError.InvalidToken else XrpcError.ExpiredToken)"
proof -
  from storage_backend.run_create_session [OF assms(2) refl assms(3,4)] obtain c1 c2 where
    "jwt_encode P (st_jwt_secret st) c1 = Ok (sr_access_jwt resp)" "session_claims (sr_did resp) True (w_clock w) c1"
    "jwt_encode P (st_jwt_secret st) c2 = Ok (sr_refresh_jwt resp)" "session_claims (sr_did resp) False (w_clock w) c2"
    by auto
  then show ?thesis
    by (simp add: bearer_auth [OF assms(1)] session_claims_def not_le)
qed


subsection \<open>DPoP-bound access\<close>

text \<open>C32: an OAuth access token speaks for its account only in the hands of the key it is bound to. A request under the
  DPoP scheme is authenticated only when its one proof is signed by the very key whose thumbprint the token
  carries, covers this token, method and URI, is fresh and was not seen before (it is on record afterwards), and
  the token itself verifies against this server's key, issuer, audience and clock.\<close>

theorem dpop_access_sound:
  assumes "run (AccessAuth P st parts) w = (Ok did, w')" "authorization (pa_headers parts) = Ok (Dpop, tok)"
  shows "\<exists>proof jwk c claims. header_get_all (pa_headers parts) ''dpop'' = [proof] \<and> dpop_signed P proof = Ok (jwk, c) \<and>
    run (verify_access_token P (os_issuer (st_oauth st)) tok) w = (Ok claims, w) \<and> at_sub claims = did \<and>
    cnf_jkt (at_cnf claims) = thumbprint P jwk \<and>
    dpop_checks P (os_dpop (st_oauth st)) (w_clock w) c (pa_method parts) (os_issuer_url (st_oauth st) @ pa_path parts) (Some tok) True \<and>
    record_dpop_jti (oauth_ops (st_store st)) (dc_jti c) (w_clock w + 300) (w_store w) = (Ok True, w_store w')"
proof -
  from assms have run: "run (authenticate_dpop P st parts tok) w = (Ok did, w')" by (simp add: AccessAuth_def)
  obtain x w1 where x: "run (verify_access_token P (os_issuer (st_oauth st)) tok) w = (x, w1)"
    by (cases "run (verify_access_token P (os_issuer (st_oauth st)) tok) w")
  have w1: "w1 = w" using x by (auto simp: verify_access_token_def async_simps split: sum.splits if_splits)
  let ?u = "os_issuer_url (st_oauth st) @ pa_path parts"
  from run x w1 obtain pr claims pf where h: "header_get_all (pa_headers parts) ''dpop'' = [pr]" and c: "x = Ok claims"
    and d: "run (DpopVerifier_verify P (os_dpop (st_oauth st)) (oauth_ops (st_store st)) pr (pa_method parts) ?u (Some tok) True) w = (Ok pf, w')"
    and k: "dp_jkt pf = cnf_jkt (at_cnf claims)" "at_sub claims = did"
    by (auto simp: authenticate_dpop_def async_simps endpoint_url_def ok_or_def header_str_of_def
        split: list.splits if_splits option.splits sum.splits prod.splits)
  from d show ?thesis
    by (rule run_dpop_verify_Ok) (use h c k x w1 in auto)
qed

subsection \<open>Service tokens\<close>

text \<open>C33: a service token never outlives half an hour and is never stale. Whatever signed 64-bit expiry the caller asks
  for, negative ones included, the minted one is later than now and at most 1800 seconds ahead; an acceptable
  request within that window is honoured to the second.\<close>

theorem service_auth_exp_bounds:
  assumes "unat now + 1800 < 2 ^ 64"
  shows "unat now < unat (service_auth_exp requested now) \<and> unat (service_auth_exp requested now) \<le> unat now + 1800 \<and>
    (\<forall>e. requested = Some e \<and> sint e = int (unat e) \<and> now < e \<and> unat e \<le> unat now + 1800 \<longrightarrow> service_auth_exp requested now = e)"
proof -
  have a: "unat (now + 1800) = unat now + 1800" "unat (now + 60) = unat now + 60"
    using assms by (simp_all add: unat_word_ariths)
  show ?thesis
    using a by (auto simp: service_auth_exp_def Let_def word_less_nat_alt word_le_nat_alt min_def split: option.splits)
qed

subsection \<open>Handles\<close>

text \<open>The atproto handle syntax: at least two labels of letters, digits and inner hyphens, 253 characters in all.\<close>

definition handle_label :: "string \<Rightarrow> bool" where
  "handle_label l = (l \<noteq> [] \<and> (\<forall>c \<in> set l. is_ascii_alphanumeric c \<or> c = CHR ''-'') \<and> hd l \<noteq> CHR ''-'' \<and> last l \<noteq> CHR ''-'')"

lemma ends_with_single: "ends_with s [c] \<longleftrightarrow> s \<noteq> [] \<and> last s = c"
  by (cases s rule: rev_cases) (auto simp: ends_with_def)

lemma starts_with_single: "starts_with s [c] \<longleftrightarrow> s \<noteq> [] \<and> hd s = c"
  by (cases s) (auto simp: starts_with_def)

lemma handle_segment_label: "handle_segment_ok seg = handle_label seg"
  by (auto simp: handle_segment_ok_def handle_label_def ends_with_single starts_with_single list_all_iff)

lemma split_on_join_back:
  "ls \<noteq> [] \<Longrightarrow> \<forall>l \<in> set ls. d \<notin> set l \<Longrightarrow> split_on d (join_with [d] ls) = ls"
proof (induction ls rule: induct_list012)
  case (3 x y zs)
  then show ?case by (simp add: split_on_append)
qed (simp_all add: split_on_fresh)

text \<open>\<open>validate_handle\<close> accepts exactly the handles of the atproto grammar: two or more dot-separated labels, each
  of letters, digits and hyphens that neither starts nor ends with a hyphen, at most 253 bytes in all.\<close>

theorem validate_handle_exact:
  "validate_handle h = Ok () \<longleftrightarrow>
     length h \<le> 253 \<and> (\<exists>ls. 2 \<le> length ls \<and> list_all handle_label ls \<and> h = join_with ''.'' ls)"
proof -
  have nodot: "handle_label l \<Longrightarrow> CHR ''.'' \<notin> set l" for l
    by (auto simp: handle_label_def ascii_class_defs less_eq_char_def)
  have "(\<exists>ls. 2 \<le> length ls \<and> list_all handle_label ls \<and> h = join_with ''.'' ls) \<longleftrightarrow>
      2 \<le> length (split_on CHR ''.'' h) \<and> list_all handle_label (split_on CHR ''.'' h)" (is "?l \<longleftrightarrow> ?r")
  proof
    assume ?l
    then obtain ls where ls: "2 \<le> length ls" "list_all handle_label ls" "h = join_with ''.'' ls" by blast
    then have "split_on CHR ''.'' h = ls" using nodot by (auto simp: list_all_iff intro!: split_on_join_back)
    with ls show ?r by (simp add: list_all_iff)
  next
    assume ?r
    then show ?l using split_on_join [of "CHR ''.''" h] by (intro exI [of _ "split_on CHR ''.'' h"]) (auto simp: list_all_iff)
  qed
  moreover have "handle_segment_ok = handle_label" by (rule ext) (rule handle_segment_label)
  ultimately show ?thesis by (auto simp: validate_handle_def Let_def)
qed

subsection \<open>The key cache\<close>

text \<open>The cache agrees with the store: what it holds is what decrypting the stored blob gives.\<close>

definition cache_ok :: "'x prims_scheme \<Rightarrow> 's KeyStore \<Rightarrow> bytes \<Rightarrow> 's world \<Rightarrow> bool" where
  "cache_ok P K pass w \<longleftrightarrow> (\<forall>i b. hm_get (w_key_cache w) i = Some b \<longrightarrow> (\<exists>c s. get_key_blob K i (w_store w) = (Ok (Some c), s) \<and> decrypt_key P c pass = Ok b))"

context key_store
begin

lemma get_key_blob_stable:
  assumes "good s" "up s" "get_key_blob K i s = (r, s')"
  shows "good s' \<and> up s' \<and> (\<exists>s''. get_key_blob K j s' = (fst (get_key_blob K j s), s''))"
proof -
  have 1: "good s'" "up s'" "spec_get_key_blob i (\<alpha> s) r (\<alpha> s')"
    using meets_step [OF get_key_blob assms(1,3)] assms(2) by auto
  obtain r1 s1 r2 s2 where j: "get_key_blob K j s = (r1, s1)" "get_key_blob K j s' = (r2, s2)"
    by (cases "get_key_blob K j s"; cases "get_key_blob K j s'")
  have "spec_get_key_blob j (\<alpha> s) r1 (\<alpha> s1)" "spec_get_key_blob j (\<alpha> s') r2 (\<alpha> s2)"
    using meets_step [OF get_key_blob assms(1) j(1)] meets_step [OF get_key_blob 1(1) j(2)] assms(2) 1(2) by auto
  then have "r1 = r2" using 1(3) by (cases r1; cases r2; cases r) (auto simp: spec_get_key_blob_def)
  with 1 j show ?thesis by simp
qed

end

text \<open>C34: the signing-key cache is invisible. While it agrees with the store, \<open>load_signing_key_cached\<close> returns exactly
  what loading and decrypting the stored key would, hit or miss, and it leaves the cache in agreement.\<close>

theorem key_cache_refines_store:
  assumes "key_store (key_ops (st_store st)) good up \<alpha>" "good (w_store w)" "up (w_store w)"
    and "cache_ok P (key_ops (st_store st)) (st_key_passphrase st) w"
    and "run (load_signing_key_cached P st did) w = (r, w')"
  shows "good (w_store w') \<and> cache_ok P (key_ops (st_store st)) (st_key_passphrase st) w' \<and>
    (case fst (run (load_key P (key_ops (st_store st)) (did @ ''#signing'') (st_key_passphrase st)) w) of
       Inl e \<Rightarrow> r = Err (XrpcError.Internal (''failed to load signing key: '' @ display_storage_error P e))
     | Inr b \<Rightarrow> r = map_err (\<lambda>e. XrpcError.Internal (''failed to import signing key: '' @ e)) (k256_import P b))"
proof -
  let ?K = "key_ops (st_store st)" and ?i = "did @ ''#signing''"
  obtain x s1 where g: "get_key_blob ?K ?i (w_store w) = (x, s1)" by (cases "get_key_blob ?K ?i (w_store w)")
  note stable = key_store.get_key_blob_stable [OF assms(1-3) g]
  show ?thesis
  proof (cases "hm_get (w_key_cache w) ?i")
    case (Some b)
    with assms(4) g obtain c where "x = Ok (Some c)" "decrypt_key P c (st_key_passphrase st) = Ok b"
      unfolding cache_ok_def by fastforce
    with Some assms(2,4,5) g show ?thesis
      by (auto simp: load_signing_key_cached_def load_key_def async_simps Let_def)
  next
    case None
    have "cache_ok P ?K (st_key_passphrase st) (w\<lparr>w_store := s1\<rparr>)"
      using assms(4) stable unfolding cache_ok_def by simp (metis fst_conv)
    moreover have "cache_ok P ?K (st_key_passphrase st) (w\<lparr>w_store := s1, w_key_cache := hm_insert ?i b (w_key_cache w)\<rparr>)"
      if "x = Ok (Some c)" "decrypt_key P c (st_key_passphrase st) = Ok b" for b c
      using assms(4) stable that g unfolding cache_ok_def
      by (simp add: hm_get_insert) (metis fst_conv)
    ultimately show ?thesis using None assms(5) g stable
      by (auto simp: load_signing_key_cached_def load_key_def async_simps Let_def split: sum.splits option.splits)
  qed
qed


subsection \<open>Accounts\<close>

text \<open>A program that leaves the store and the clock alone, as an HTTP client does.\<close>

definition quiet :: "('s world, 'a) async \<Rightarrow> bool" where
  "quiet p = (\<forall>w. w_store (snd (run p w)) = w_store w \<and> w_clock (snd (run p w)) = w_clock w)"

lemma quietD: "quiet p \<Longrightarrow> run p w = (r, w') \<Longrightarrow> w_store w' = w_store w \<and> w_clock w' = w_clock w"
  unfolding quiet_def by (metis snd_conv)

text \<open>The DID an account may get: the did:web the caller named, or the digest of the signed PLC operation.\<close>

definition did_of_keys :: "'x id_prims_scheme \<Rightarrow> string \<Rightarrow> string \<Rightarrow> bytes \<Rightarrow> bytes \<Rightarrow> string \<Rightarrow> bool" where
  "did_of_keys P handle endpoint signing rotation did \<longleftrightarrow> (\<exists>msg sig cbor. cbor_plc_unsigned P (plc_unsigned P handle endpoint signing rotation) = Ok msg \<and>
     k256_sign P rotation msg = Ok sig \<and>
     cbor_plc_signed P (PlcGenesisOpUnsigned.extend (plc_unsigned P handle endpoint signing rotation) (PlcGenesisOpSigned.fields (b64url_encode P sig))) = Ok cbor \<and>
     did = ''did:plc:'' @ take 24 (to_ascii_lowercase (base32_nopad P (sha256 P cbor))))"

lemma run_account_did:
  assumes "\<And>d op. quiet (st_plc_client st d op)" "\<And>d. quiet (st_did_web_resolver st d)"
    and "run (account_did P st input handle signing rotation) w = (Ok did, w')"
  shows "w_store w' = w_store w \<and> w_clock w' = w_clock w \<and>
    (starts_with did ''did:web:'' \<and> ca_did input = Some did \<or> did_of_keys P handle (st_pds_endpoint st) signing rotation did)"
proof (cases "\<exists>d. ca_did input = Some d \<and> starts_with d ''did:web:''")
  case True
  then obtain d where "ca_did input = Some d" "starts_with d ''did:web:''" by blast
  with assms(3) show ?thesis
    by (auto simp: account_did_def async_simps split: prod.splits sum.splits if_splits dest: quietD [OF assms(2)])
next
  case False
  then have "run (register_did_plc P handle (st_pds_endpoint st) signing rotation (st_plc_client st)) w = (Ok did, w')"
    using assms(3) by (auto simp: account_did_def async_simps Let_def split: option.splits prod.splits if_splits)
  then show ?thesis
    by (auto simp: register_did_plc_def did_of_keys_def Let_def async_simps split: prod.splits sum.splits dest: quietD [OF assms(1)])
qed

context key_store
begin

lemma run_store_key:
  assumes "aead_ok P" "good (w_store w)" "run (store_key P K i m pass) w = (Ok (), w')"
  obtains c where "decrypt_key P c pass = Ok m" "good (w_store w')" "up (w_store w) \<longrightarrow> up (w_store w')"
    "\<alpha> (w_store w') = (\<alpha> (w_store w))\<lparr>v_keys := (v_keys (\<alpha> (w_store w)))(i \<mapsto> c)\<rparr>"
proof -
  obtain blob w1 where enc: "run (encrypt_key P m pass) w = (Ok blob, w1)"
    and put: "run (db (put_key_blob K i blob)) w1 = (Ok (), w')"
    using assms(3) unfolding store_key_def by (elim await_ok_run_Ok) blast
  note dec = run_encrypt_key [OF assms(1) enc]
  obtain s' where s': "put_key_blob K i blob (w_store w) = (Ok (), s')" "w' = w1\<lparr>w_store := s'\<rparr>"
    using put dec by (auto simp: async_simps split: prod.splits)
  from meets_Ok [OF put_key_blob assms(2) s'(1)] dec s'(2) show ?thesis
    by (intro that [of blob]) (auto simp: spec_put_key_blob_def)
qed

end

lemma consume_invite_frame:
  assumes "spec_consume_invite c u v r v'"
  shows "v_accounts v' = v_accounts v \<and> v_keys v' = v_keys v \<and> v_now v' = v_now v \<and> (r = Ok True \<longrightarrow> (c, u) \<in> v_invite_uses v')"
  using assms by (cases r) (auto simp: spec_consume_invite_def writes_def split: if_splits)

context storage_backend
begin

text \<open>Through the gate without an invite only into an empty or open server.\<close>

lemma run_invite_gate:
  assumes st: "st_store st = B" and good: "good (w_store w)" and run: "run (invite_gate st input h) w = (Ok used, w')"
  shows "good (w_store w') \<and> (up (w_store w) \<longrightarrow> up (w_store w')) \<and> w_clock w' = w_clock w \<and>
    (\<not> used \<and> \<alpha> (w_store w') = \<alpha> (w_store w) \<and> (v_accounts (\<alpha> (w_store w)) = Map.empty \<or> st_open_registration st) \<or>
     used \<and> (\<exists>code. ca_invite_code input = Some code \<and> invite_usable (\<alpha> (w_store w)) code h \<and>
       spec_consume_invite code h (\<alpha> (w_store w)) (Ok True) (\<alpha> (w_store w'))))"
proof -
  from run obtain n w1 where n: "run (xdb (count_accounts (account_ops (st_store st)))) w = (Ok n, w1)"
    and k: "run (if n = 0 then Ready (Ok False)
     else if st_open_registration st then Ready (Ok False)
     else try_ok (ok_or InvalidInviteCode (ca_invite_code input)) (\<lambda>code.
       await_ok (xdb (consume_invite (account_ops (st_store st)) code h)) (\<lambda>consumed.
       if \<not> consumed then Ready (Err InvalidInviteCode) else Ready (Ok True)))) w1 = (Ok used, w')"
    unfolding invite_gate_def by (elim await_ok_run_Ok)
  from n [unfolded st] obtain s1 where s1: "w1 = w\<lparr>w_store := s1\<rparr>" "good s1" "up (w_store w) \<longrightarrow> up s1"
    "spec_count_accounts (\<alpha> (w_store w)) (Inr n) (\<alpha> s1)" by (rule xdb_Ok [OF account.count_accounts good])
  have v1: "\<alpha> s1 = \<alpha> (w_store w)" "n = int (card (dom (v_accounts (\<alpha> (w_store w)))))" using s1(4) by (auto simp: spec_count_accounts_def)
  have fin: "finite (dom (v_accounts (\<alpha> (w_store w))))" using account.account_view_ok [OF good] by (simp add: view_ok_def)
  show ?thesis
  proof (cases "n = 0 \<or> st_open_registration st")
    case True
    with k s1 v1 fin show ?thesis by (auto split: if_splits simp: card_eq_0_iff)
  next
    case False
    with k obtain code x where c: "ca_invite_code input = Some code" "used"
      "run (xdb (consume_invite (account_ops B) code h)) w1 = (Ok True, w')"
      by (auto simp: async_simps st ok_or_def split: option.splits sum.splits prod.splits if_splits)
    have g1: "good (w_store w1)" using s1 by simp
    from c(3) obtain s2 where s2: "w' = w1\<lparr>w_store := s2\<rparr>" "good s2" "up (w_store w1) \<longrightarrow> up s2"
      "spec_consume_invite code h (\<alpha> (w_store w1)) (Inr True) (\<alpha> s2)" by (rule xdb_Ok [OF account.consume_invite g1])
    with c s1 v1 show ?thesis by (auto simp: spec_consume_invite_def split: if_splits)
  qed
qed

lemma run_create_account:
  assumes st: "st_store st = B" and good: "good (w_store w)" and aead: "aead_ok P"
    and quiet: "\<And>d op. quiet (st_plc_client st d op)" "\<And>d. quiet (st_did_web_resolver st d)"
    and run: "run (create_account_inner P st input) w = (Ok resp, w')"
  shows "let h = to_ascii_lowercase (ca_handle input); did = car_did resp; v = \<alpha> (w_store w); v' = \<alpha> (w_store w') in
    car_handle resp = h \<and> validate_handle h = Ok () \<and> (h = st_hostname st \<or> ends_with h (''.'' @ st_hostname st)) \<and>
    account_free v did h \<and>
    (v_accounts v = Map.empty \<or> st_open_registration st \<or> (\<exists>code. ca_invite_code input = Some code \<and> invite_usable v code h \<and>
       (code, h) \<in> v_invite_uses v')) \<and>
    (\<exists>pw salt phc c1 c2 signing rotation. ca_password input = Some pw \<and> 8 \<le> length pw \<and> phc_hash P pw salt = Ok phc \<and>
       v_accounts v' = (v_accounts v)(did \<mapsto> new_row v h (ca_email input) phc) \<and>
       v_keys v' = (v_keys v)(did @ ''#signing'' \<mapsto> c1, did @ ''#rotation'' \<mapsto> c2) \<and>
       decrypt_key P c1 (st_key_passphrase st) = Ok signing \<and> decrypt_key P c2 (st_key_passphrase st) = Ok rotation \<and>
       (starts_with did ''did:web:'' \<and> ca_did input = Some did \<or> did_of_keys P h (st_pds_endpoint st) signing rotation did))"
proof -
  let ?h = "to_ascii_lowercase (ca_handle input)" and ?A = "account_ops B" and ?K = "key_ops B"
  have valid: "validate_handle ?h = Ok ()" "?h = st_hostname st \<or> ends_with ?h (''.'' @ st_hostname st)"
    using run by (cases "validate_handle ?h"; auto simp: create_account_inner_def Let_def split: if_splits)+
  from run obtain taken w1 used w2 sk w3 rk w4 did w5 pw r6 w6 phc n w7 r8 w8 r9 w9 where
    free: "run (xdb (get_account_by_handle (account_ops (st_store st)) ?h)) w = (Ok taken, w1)" "\<not> taken \<noteq> None"
    and gate: "run (invite_gate st input ?h) w1 = (Ok used, w2)"
    and sk: "run (keypair_create P) w2 = (sk, w3)" and rk: "run (keypair_create P) w3 = (rk, w4)"
    and did: "run (account_did P st input ?h sk rk) w4 = (Ok did, w5)"
    and pw: "ok_or (XrpcError.InvalidRequest ''password is required'')
        (case ca_password input of Some p \<Rightarrow> if p \<noteq> [] then Some p else None | None \<Rightarrow> None) = Ok pw" "\<not> length pw < 8"
    and phc: "run (hash_password P pw) w5 = (r6, w6)" "map_err xrpc_of_core r6 = Ok phc"
    and ins: "run (xdb (count_and_insert_account (account_ops (st_store st)) did ?h (ca_email input) phc)) w6 = (Ok n, w7)"
    and k1: "run (store_key P (key_ops (st_store st)) (did @ ''#signing'') sk (st_key_passphrase st)) w7 = (r8, w8)"
      "map_err xrpc_of_storage r8 = Ok ()"
    and k2: "run (store_key P (key_ops (st_store st)) (did @ ''#rotation'') rk (st_key_passphrase st)) w8 = (r9, w9)"
      "map_err xrpc_of_storage r9 = Ok ()"
    and jwts: "run (session_jwts P did (st_jwt_secret st) (\<lambda>(access, refresh).
        Ready (Ok \<lparr>car_access_jwt = access, car_refresh_jwt = refresh, car_handle = ?h, car_did = did\<rparr>))) w9 = (Ok resp, w')"
    unfolding create_account_inner_def Let_def
    by (elim run_elims) auto
  from free(1) [unfolded st] obtain s1 where w1: "w1 = w\<lparr>w_store := s1\<rparr>" "good s1"
    "spec_get_account_by_handle ?h (\<alpha> (w_store w)) (Inr taken) (\<alpha> s1)" by (rule xdb_Ok [OF account.get_account_by_handle good])
  have v1: "\<alpha> (w_store w1) = \<alpha> (w_store w)" "good (w_store w1)" using w1 by (auto simp: spec_get_account_by_handle_def)
  note g = run_invite_gate [OF st v1(2) gate]
  have w4: "w_store w4 = w_store w2" using sk rk by (auto simp: keypair_create_def async_simps split: prod.splits)
  note d = run_account_did [OF quiet did]
  have w6: "w_store w6 = w_store w2" using phc(1) d w4 by (auto simp: async_simps)
  have good6: "good (w_store w6)" using g w6 by simp
  from ins [unfolded st] obtain s7 where s7: "w7 = w6\<lparr>w_store := s7\<rparr>" "good s7"
    "spec_count_and_insert_account did ?h (ca_email input) phc (\<alpha> (w_store w6)) (Inr n) (\<alpha> s7)"
    by (rule xdb_Ok [OF account.count_and_insert_account good6])
  have good7: "good (w_store w7)" using s7 by simp
  from k1 k2 have k: "run (store_key P (key_ops B) (did @ ''#signing'') sk (st_key_passphrase st)) w7 = (Ok (), w8)"
    "run (store_key P (key_ops B) (did @ ''#rotation'') rk (st_key_passphrase st)) w8 = (Ok (), w9)" using st by auto
  from k(1) obtain c1 where c1: "decrypt_key P c1 (st_key_passphrase st) = Ok sk" "good (w_store w8)"
    "\<alpha> (w_store w8) = (\<alpha> (w_store w7))\<lparr>v_keys := (v_keys (\<alpha> (w_store w7)))(did @ ''#signing'' \<mapsto> c1)\<rparr>"
    by (rule key.run_store_key [OF aead good7])
  from k(2) obtain c2 where c2: "decrypt_key P c2 (st_key_passphrase st) = Ok rk"
    "\<alpha> (w_store w9) = (\<alpha> (w_store w8))\<lparr>v_keys := (v_keys (\<alpha> (w_store w8)))(did @ ''#rotation'' \<mapsto> c2)\<rparr>"
    by (rule key.run_store_key [OF aead c1(2)])
  have j: "w_store w' = w_store w9" "car_did resp = did" "car_handle resp = ?h" using run_session_jwts [OF jwts] by auto
  have v2: "v_accounts (\<alpha> (w_store w2)) = v_accounts (\<alpha> (w_store w))" "v_keys (\<alpha> (w_store w2)) = v_keys (\<alpha> (w_store w))"
    "v_now (\<alpha> (w_store w2)) = v_now (\<alpha> (w_store w))"
    using g v1 by (auto dest: consume_invite_frame)
  have v7: "account_free (\<alpha> (w_store w2)) did ?h" "\<alpha> s7 = add_account did ?h (ca_email input) phc (\<alpha> (w_store w2))"
    using s7(3) w6 by (auto simp: spec_count_and_insert_account_def split: if_splits)
  have s7': "w_store w7 = s7" using s7 by simp
  obtain salt where salt: "phc_hash P pw salt = Ok phc" using phc by (auto simp: async_simps)
  have "ca_password input = Some pw" "8 \<le> length pw" using pw by (auto split: option.splits if_splits)
  moreover have "(code, ?h) \<in> v_invite_uses (\<alpha> (w_store w'))" if "spec_consume_invite code ?h (\<alpha> (w_store w1)) (Ok True) (\<alpha> (w_store w2))" for code
    using consume_invite_frame [OF that] c1 c2 v7 s7' j by (auto simp: add_account_def)
  ultimately show ?thesis
    using valid j v2 v7 s7' c1 c2 d g v1 salt
    unfolding Let_def by (auto simp: add_account_def account_free_def handle_taken_def new_row_def intro!: exI)
qed

end

text \<open>C20: how an account comes to be. A successful createAccount stored exactly one new account, under the lower-cased
  handle (a valid handle under this server's domain that no account had) and a DID no account had, which is the
  did:web the caller named and this server resolved, or the digest of the PLC operation signed for the two keys it
  generated; both keys are stored, encrypted under the server's passphrase; the password had at least eight bytes
  and only its hash is stored; and the server was empty or open, or an invite was usable and is used up.\<close>

theorem create_account_sound:
  assumes "storage_backend (st_store st) good up \<alpha>" "good (w_store w)" "aead_ok P"
    and "\<And>d op. quiet (st_plc_client st d op)" "\<And>d. quiet (st_did_web_resolver st d)"
    and "run (create_account_inner P st input) w = (Ok resp, w')"
  shows "let h = to_ascii_lowercase (ca_handle input); did = car_did resp; v = \<alpha> (w_store w); v' = \<alpha> (w_store w') in
    car_handle resp = h \<and> validate_handle h = Ok () \<and> (h = st_hostname st \<or> ends_with h (''.'' @ st_hostname st)) \<and>
    account_free v did h \<and>
    (v_accounts v = Map.empty \<or> st_open_registration st \<or> (\<exists>code. ca_invite_code input = Some code \<and> invite_usable v code h \<and>
       (code, h) \<in> v_invite_uses v')) \<and>
    (\<exists>pw salt phc c1 c2 signing rotation. ca_password input = Some pw \<and> 8 \<le> length pw \<and> phc_hash P pw salt = Ok phc \<and>
       v_accounts v' = (v_accounts v)(did \<mapsto> new_row v h (ca_email input) phc) \<and>
       v_keys v' = (v_keys v)(did @ ''#signing'' \<mapsto> c1, did @ ''#rotation'' \<mapsto> c2) \<and>
       decrypt_key P c1 (st_key_passphrase st) = Ok signing \<and> decrypt_key P c2 (st_key_passphrase st) = Ok rotation \<and>
       (starts_with did ''did:web:'' \<and> ca_did input = Some did \<or> did_of_keys P h (st_pds_endpoint st) signing rotation did))"
  using storage_backend.run_create_account [OF assms(1) refl assms(2-6)] .

subsection \<open>Witnesses\<close>

definition wit_account :: Account where
  "wit_account = \<lparr>acc_did = ''did:plc:a'', acc_handle = Some ''alice.pds.test'', acc_email = None, acc_password_phc = ''password1'',
     acc_created_at = ''t'', acc_deactivated_at = None, acc_takedown_ref = None, acc_ordinal = 0\<rparr>"

definition wit_home :: Inner where
  "wit_home = (mem_new ''t'')\<lparr>m_accounts := [(''did:plc:a'', wit_account)]\<rparr>"

lemma wit_home_ok: "mem_ok wit_home"
  by (simp add: wit_home_def wit_account_def mem_new_def mem_ok_def hm_ok_def mem_seq_ok_def mem_accounts_ok_def)

lemma wit_backend: "storage_backend (st_store wit_state) mem_ok mem_up mem_view"
  using mem.storage_backend_axioms by simp

abbreviation wit_login :: CreateSessionInput where
  "wit_login \<equiv> \<lparr>cs_identifier = ''alice.pds.test'', cs_password = ''password1''\<rparr>"

lemma wit_session: "\<exists>resp w'. run (create_session wit_sp wit_state wit_login) (wit_at 1000 wit_home) = (Ok resp, w') \<and> sr_did resp = ''did:plc:a''"
  by (simp add: create_session_def session_jwts_def async_simps encode_access_jwt_at_def encode_refresh_jwt_def encode_refresh_jwt_at_def
      verify_password_def wit_jwt_encode_def Let_def wit_at_def wit_world_def wit_home_def mem_get_account_by_handle_def
      mem_active_by_handle_def hm_values_def wit_account_def acc_active_def del: nat_text.simps)

theorem create_session_sound_witness:
  "\<exists>resp w' a. run (create_session wit_sp wit_state wit_login) (wit_at 1000 wit_home) = (Ok resp, w') \<and>
     visible_by_handle (mem_view wit_home) ''alice.pds.test'' (sr_did resp) a"
proof -
  obtain resp w' where r: "run (create_session wit_sp wit_state wit_login) (wit_at 1000 wit_home) = (Ok resp, w')"
    using wit_session by blast
  have "mem_ok (w_store (wit_at 1000 wit_home))" by (simp add: wit_at_def wit_world_def wit_home_ok)
  from create_session_sound [OF wit_backend this r] r show ?thesis by (auto simp: wit_at_def wit_world_def)
qed

lemma wit_jwt_ok: "jwt_ok (wit_server h)"
proof -
  have u: "wit_unhex (wit_hex b) = Some b" for b using b64_wit [of Null] by (auto simp: b64_ok_def)
  have "list_all is_graphic (wit_hex b)" for b
    using wit_hex_letters [of b] by (auto simp: list_all_iff is_graphic_def less_eq_char_def)
  moreover have "wit_hex (pack (x # xs)) \<noteq> []" for x xs by (auto simp: wit_hex_def pack_def pack1_def)
  ultimately show ?thesis
    by (auto simp: jwt_ok_def wit_jwt_encode_def wit_jwt_decode_def u unpack_pack text_nat_text
        split: option.splits simp del: nat_text.simps intro!: AuthClaims.equality)
qed

theorem session_tokens_separate_witness:
  "\<exists>resp w'. run (create_session wit_sp wit_state wit_login) (wit_at 1000 wit_home) = (Ok resp, w') \<and>
     fst (run (AccessAuth wit_sp wit_state (bearer_parts ''GET'' ''/'' (sr_access_jwt resp))) (wit_at 8000 wit_home)) = Ok ''did:plc:a'' \<and>
     fst (run (RefreshAuth wit_sp wit_state (bearer_parts ''GET'' ''/'' (sr_access_jwt resp))) (wit_at 8000 wit_home)) = Err XrpcError.InvalidToken"
proof -
  obtain resp w' where r: "run (create_session wit_sp wit_state wit_login) (wit_at 1000 wit_home) = (Ok resp, w')" "sr_did resp = ''did:plc:a''"
    using wit_session by blast
  have "mem_ok (w_store (wit_at 1000 wit_home))" by (simp add: wit_at_def wit_world_def wit_home_ok)
  from session_tokens_separate [OF wit_jwt_ok wit_backend this r(1) , of "''GET''" "''/''" "wit_at 8000 wit_home"] r show ?thesis
    by (auto simp: wit_at_def wit_world_def)
qed


theorem refresh_session_sound_witness:
  "\<exists>t resp w' a. run (refresh_session wit_sp wit_state (bearer_parts ''POST'' ''/'' t)) (wit_at 1000 wit_home) = (Ok resp, w') \<and>
     v_accounts (mem_view wit_home) (sr_did resp) = Some a \<and> active_row a"
proof -
  define c where "c = \<lparr>ac_sub = ''did:plc:a'', ac_scope = ''com.atproto.refresh'', ac_exp = 2000, ac_iat = 500, ac_jti = None\<rparr>"
  obtain t where t: "jwt_encode wit_sp (st_jwt_secret wit_state) c = Ok t" by (simp add: wit_jwt_encode_def del: nat_text.simps)
  have auth: "run (RefreshAuth wit_sp wit_state (bearer_parts ''POST'' ''/'' t)) w = (Ok ''did:plc:a'', w)" if "w_clock w = 1000" for w :: "Inner world"
    using bearer_auth(2) [OF wit_jwt_ok t] that by (simp add: c_def)
  obtain resp w' where r: "run (refresh_session wit_sp wit_state (bearer_parts ''POST'' ''/'' t)) (wit_at 1000 wit_home) = (Ok resp, w')"
    by (simp add: refresh_session_def async_simps auth session_jwts_def encode_access_jwt_at_def encode_refresh_jwt_def encode_refresh_jwt_at_def
        wit_jwt_encode_def Let_def wit_at_def wit_world_def wit_home_def mem_get_handle_by_did_def mem_active_def hm_get_def
        wit_account_def acc_active_def del: nat_text.simps)
  have "mem_ok (w_store (wit_at 1000 wit_home))" by (simp add: wit_at_def wit_world_def wit_home_ok)
  from refresh_session_sound [OF wit_backend this r] r show ?thesis by (auto simp: wit_at_def wit_world_def)
qed

theorem service_auth_exp_bounds_witness:
  "unat (1000 :: 64 word) < unat (service_auth_exp (Some (- 1)) 1000) \<and> unat (service_auth_exp (Some (- 1)) 1000) \<le> 2800"
  using service_auth_exp_bounds [of 1000 "Some (- 1)"] by simp

definition wit_keyed :: Inner where
  "wit_keyed = (mem_new ''t'')\<lparr>m_keys := [(''did:plc:a#signing'', replicate 28 0 @ [8] @ take 16 ([3] @ replicate 16 0))]\<rparr>"

theorem key_cache_refines_store_witness:
  "fst (run (load_signing_key_cached wit_sp wit_state ''did:plc:a'') (wit_at 1000 wit_keyed)) =
     map_err (\<lambda>e. XrpcError.Internal (''failed to import signing key: '' @ e)) (k256_import wit_sp [8])"
proof -
  have l: "fst (run (load_key wit_sp (key_ops mem_backend) ''did:plc:a#signing'' (st_key_passphrase wit_state)) (wit_at 1000 wit_keyed)) = Ok [8]"
    by (simp add: load_key_def async_simps wit_at_def wit_world_def wit_keyed_def mem_get_key_blob_def hm_get_def decrypt_key_def
        wit_prims_def wit_state_def Let_def)
  obtain r w' where r: "run (load_signing_key_cached wit_sp wit_state ''did:plc:a'') (wit_at 1000 wit_keyed) = (r, w')"
    by (cases "run (load_signing_key_cached wit_sp wit_state ''did:plc:a'') (wit_at 1000 wit_keyed)")
  have "key_store (key_ops (st_store wit_state)) mem_ok mem_up mem_view" using mem.key.key_store_axioms by simp
  moreover have "mem_ok (w_store (wit_at 1000 wit_keyed))" "mem_up (w_store (wit_at 1000 wit_keyed))"
    by (simp_all add: wit_at_def wit_world_def wit_keyed_def mem_new_def mem_ok_def hm_ok_def mem_seq_ok_def mem_accounts_ok_def mem_up_def)
  moreover have "cache_ok wit_sp (key_ops (st_store wit_state)) (st_key_passphrase wit_state) (wit_at 1000 wit_keyed)"
    by (simp add: cache_ok_def wit_at_def wit_world_def)
  ultimately show ?thesis using key_cache_refines_store [OF _ _ _ _ r] l r by simp
qed

lemma wit_aead: "aead_ok (wit_server h)"
  using aead_wit by (simp add: aead_ok_def)

definition wit_signup :: CreateAccountInput where
  "wit_signup = \<lparr>ca_handle = ''Alice.pds.test'', ca_email = None, ca_password = Some ''password1'', ca_invite_code = None,
     ca_did = Some ''did:web:alice.test'', ca_recovery_key = None\<rparr>"

theorem create_account_sound_witness:
  "\<exists>resp w'. run (create_account_inner wit_sp wit_state wit_signup) (wit_at 1000 (mem_new ''t'')) = (Ok resp, w') \<and>
     v_accounts (mem_view (w_store w')) (car_did resp) = Some (new_row (mem_view (mem_new ''t'')) ''alice.pds.test'' None ''password1'')"
proof -
  have lower: "to_ascii_lowercase ''Alice.pds.test'' = ''alice.pds.test''" by code_simp
  have valid: "validate_handle ''alice.pds.test'' = Ok ()" "ends_with ''alice.pds.test'' ''.pds.test''" by code_simp+
  obtain resp w' where r: "run (create_account_inner wit_sp wit_state wit_signup) (wit_at 1000 (mem_new ''t'')) = (Ok resp, w')"
    by (simp add: create_account_inner_def wit_signup_def lower valid Let_def async_simps wit_state_def wit_at_def wit_world_def
        invite_gate_def keypair_create_def account_did_def starts_with_def json_get_def store_key_def encrypt_key_def session_jwts_def
        encode_access_jwt_at_def encode_refresh_jwt_def encode_refresh_jwt_at_def wit_jwt_encode_def wit_prims_def
        mem_new_def mem_get_account_by_handle_def mem_active_by_handle_def hm_values_def mem_count_accounts_def
        mem_count_and_insert_account_def insert_account_locked_def hm_contains_key_def mem_put_key_blob_def del: nat_text.simps)
  have q: "quiet (st_plc_client wit_state d op)" "quiet (st_did_web_resolver wit_state d)" for d op
    by (simp_all add: quiet_def wit_state_def)
  have "mem_ok (w_store (wit_at 1000 (mem_new ''t'')))" by (simp add: wit_at_def wit_world_def mem_ok_new)
  from create_account_sound [OF wit_backend this wit_aead q r] r show ?thesis
    by (auto simp: Let_def wit_signup_def lower wit_at_def wit_world_def simp del: mem_view_simps)
qed

lemma wit_token_graphic:
  assumes "run (issue_access_token wit_sp ti did cid sc jkt) w = (Ok (tok, ttl), w1)"
  shows "tok \<noteq> [] \<and> list_all is_graphic tok"
proof -
  have "list_all is_graphic (wit_hex b)" for b
    using wit_hex_letters [of b] by (auto simp: list_all_iff is_graphic_def less_eq_char_def)
  moreover have "is_graphic CHR ''.''" by (simp add: is_graphic_def less_eq_char_def)
  ultimately show ?thesis using assms
    by (auto simp: issue_access_token_def async_simps jws_sign_def wit_access_to_vec_def Let_def simp del: nat_text.simps)
qed

theorem dpop_access_sound_witness:
  "\<exists>parts tok proof jwk c. fst (run (AccessAuth wit_sp wit_state parts) (wit_at 1000 (mem_new ''t''))) = Ok ''did:plc:a'' \<and>
     authorization (pa_headers parts) = Ok (Dpop, tok) \<and> dpop_signed wit_sp proof = Ok (jwk, c) \<and>
     dpop_checks wit_sp wit_dpop 1000 c (pa_method parts) (''https://pds.test'' @ pa_path parts) (Some tok) True"
proof -
  let ?w = "wit_at 1000 (mem_new ''t'')" and ?jkt = "thumbprint wit_sp (wit_jwk [9])"
  let ?nonce = "nonce_for_window (wit_oauth Null) wit_dpop 3" and ?u = "''https://pds.test/xrpc/x''"
  obtain tok ttl w1 where tok: "run (issue_access_token wit_sp wit_issuer ''did:plc:a'' ''https://app.test'' [''atproto''] ?jkt) ?w = (Ok (tok, ttl), w1)"
    by (simp add: issue_access_token_def async_simps jws_sign_def wit_access_to_vec_def Let_def del: nat_text.simps)
  note g = wit_token_graphic [OF tok]
  from issued_token_verifies [OF wit_server_ok tok] obtain cl where cl: "at_sub cl = ''did:plc:a''" "cnf_jkt (at_cnf cl) = ?jkt"
    and ttl: "ttl = 3600" and ver: "\<forall>w2 :: Inner world. run (verify_access_token wit_sp wit_issuer tok) w2 =
      (if w_clock w2 < w_clock ?w + ttl then Ok cl else Err (OAuthError.InvalidToken ''access token has expired''), w2)" by metis
  have cl3: "run (verify_access_token wit_sp wit_issuer tok) ?w = (Ok cl, ?w)" using ver ttl by simp
  define c where "c = \<lparr>dc_jti = ''j1'', dc_htm = ''GET'', dc_htu = ?u, dc_iat = 1000, dc_nonce = Some ?nonce, dc_ath = Some (wit_hex (as_bytes tok))\<rparr>"
  define pr where "pr = wit_proof [9] [''j1'', ''GET'', ?u, nat_text 1000, ?nonce, wit_hex (as_bytes tok)]"
  have ne: "?nonce \<noteq> []" "wit_hex (as_bytes tok) \<noteq> []"
    using g by (auto simp: nonce_for_window_def wit_hex_def wit_dpop_def as_bytes_def)
  have "wit_dpop_from_slice (pack [''j1'', ''GET'', ?u, nat_text 1000, ?nonce, wit_hex (as_bytes tok)]) = Ok c"
    using ne by (simp add: wit_dpop_from_slice_def unpack_pack text_nat_text c_def del: nat_text.simps)
  then have d: "dpop_signed wit_sp pr = Ok (wit_jwk [9], c)" by (simp only: wit_server_dpop pr_def wit_signed)
  have chk: "dpop_checks wit_sp wit_dpop (w_clock ?w) c ''GET'' ?u (Some tok) True"
    by (simp add: wit_server_checks dpop_checks_def c_def eq_ignore_ascii_case_def wit_at_def nonce_for_window_def)
  have "record_dpop_jti (oauth_ops mem_backend) (dc_jti c) (w_clock ?w + 300) (w_store ?w) =
      (Ok True, (mem_new ''t'')\<lparr>m_oauth_jti := hm_insert ''j1'' 1300 []\<rparr>)"
    by (simp add: mem_record_dpop_jti_def hm_contains_key_def wit_at_def wit_world_def mem_new_def c_def)
  from dpop_verify_complete [OF d chk this] obtain pf w2 where v: "run (DpopVerifier_verify wit_sp wit_dpop (oauth_ops mem_backend) pr ''GET'' ?u (Some tok) True) ?w = (Ok pf, w2)"
    "dp_jkt pf = ?jkt" by auto
  let ?parts = "\<lparr>pa_headers = [(''authorization'', ''DPoP '' @ tok), (''dpop'', pr)], pa_method = ''GET'', pa_path = ''/xrpc/x''\<rparr>"
  have "is_graphic ch \<Longrightarrow> is_visible_ascii ch" for ch by (auto simp: is_graphic_def is_visible_ascii_def less_eq_char_def)
  then have "list_all is_visible_ascii (''DPoP '' @ tok)"
    using g by (simp add: list_all_iff is_visible_ascii_def less_eq_char_def)
  moreover have "\<not> eq_ignore_ascii_case ''DPoP'' ''bearer''" "eq_ignore_ascii_case ''DPoP'' ''dpop''" by code_simp+
  ultimately have a: "authorization (pa_headers ?parts) = Ok (Dpop, tok)"
    using g by (simp add: authorization_def header_get_def header_str_of_def str_trim_graphic)
  have r: "run (AccessAuth wit_sp wit_state ?parts) ?w = (Ok ''did:plc:a'', w2)"
    using a v cl cl3 by (simp add: AccessAuth_def authenticate_dpop_def header_get_all_def pr_def wit_proof_visible async_simps endpoint_url_def)
  show ?thesis
    using dpop_access_sound [OF r a] r a
    by - (rule exI [of _ ?parts], rule exI [of _ tok], auto simp: wit_at_def simp del: append.simps)
qed

end
