(* ===== verification/OAuth_Pages.thy ===== *)
theory OAuth_Pages
  imports Session_Laws
begin

text \<open>
  The pages the front channel renders (\<open>rust-pds/src/xrpc/oauth/html.rs\<close>) and what keeps attacker-supplied text
  from becoming markup there or extra parameters in a redirect (\<open>urlencode\<close>, \<open>append_query\<close>).
\<close>

subsection \<open>Rendering\<close>

definition unlines :: "string list \<Rightarrow> string" where
  "unlines ls = join_with [CHR 0x0A] ls"

definition escape_char :: "char \<Rightarrow> string" where
  "escape_char c = (if c = CHR ''&'' then ''&amp;'' else if c = CHR ''<'' then ''&lt;'' else if c = CHR ''>'' then ''&gt;''
     else if c = CHR 0x22 then ''&quot;'' else if c = CHR 0x27 then ''&#x27;'' else [c])"

definition escape :: "string \<Rightarrow> string" where
  "escape s = concat (map escape_char s)"

definition STYLE :: string where
  "STYLE = unlines
    ['''',
     '':root { color-scheme: light dark; }'',
     ''* { box-sizing: border-box; }'',
     ''body {'',
     ''  font: 15px/1.5 system-ui, -apple-system, \"Segoe UI\", sans-serif;'',
     ''  margin: 0; padding: 2rem 1rem;'',
     ''  display: flex; justify-content: center;'',
     ''  background: Canvas; color: CanvasText;'',
     ''}'',
     ''main { width: 100%; max-width: 26rem; }'',
     ''h1 { font-size: 1.25rem; margin: 0 0 .25rem; }'',
     ''.sub { color: GrayText; margin: 0 0 1.5rem; font-size: .9rem; }'',
     ''.card {'',
     ''  border: 1px solid color-mix(in srgb, CanvasText 15%, transparent);'',
     ''  border-radius: 10px; padding: 1.25rem; margin-bottom: 1.25rem;'',
     ''}'',
     ''.client { font-weight: 600; }'',
     ''.client-id { font-family: ui-monospace, monospace; font-size: .8rem;'',
     ''             color: GrayText; word-break: break-all; }'',
     ''ul.scopes { margin: .75rem 0 0; padding-left: 1.1rem; }'',
     ''ul.scopes li { margin: .2rem 0; }'',
     ''label { display: block; margin: .85rem 0 .3rem; font-weight: 500; }'',
     ''input[type=text], input[type=password] {'',
     ''  width: 100%; padding: .55rem .65rem; font-size: 1rem;'',
     ''  border: 1px solid color-mix(in srgb, CanvasText 25%, transparent);'',
     ''  border-radius: 6px; background: Field; color: FieldText;'',
     ''}'',
     ''.actions { display: flex; gap: .6rem; margin-top: 1.25rem; }'',
     ''button { flex: 1; padding: .6rem; font-size: 1rem; font-weight: 500;'',
     ''         border-radius: 6px; cursor: pointer; border: 1px solid transparent; }'',
     ''button.primary { background: AccentColor; color: AccentColorText; }'',
     ''button.secondary { background: transparent; color: CanvasText;'',
     ''                   border-color: color-mix(in srgb, CanvasText 25%, transparent); }'',
     ''.error { padding: .6rem .75rem; border-radius: 6px; margin-bottom: 1rem;'',
     ''         background: color-mix(in srgb, #d33 15%, Canvas); color: CanvasText; }'',
     '''']"

definition describe_scope :: "string \<Rightarrow> string" where
  "describe_scope scope =
     (if scope = ''atproto'' then ''Know which account you are''
      else if scope = ''transition:generic'' then ''Read and write your posts, follows, likes, and profile''
      else if scope = ''transition:chat.bsky'' then ''Read and send your direct messages''
      else if scope = ''transition:email'' then ''See your email address''
      else scope)"

definition authorize_page_html ::
  "string \<Rightarrow> string \<Rightarrow> string \<Rightarrow> string list \<Rightarrow> string option \<Rightarrow> string option \<Rightarrow> string" where
  "authorize_page_html request_uri client_name client_id scopes login_hint err =
     (let scope_items = concat (map (\<lambda>s. ''<li>'' @ escape (describe_scope s) @ ''</li>'') scopes);
          error_block = (case err of Some e \<Rightarrow> ''<div class=\"error\">'' @ escape e @ ''</div>'' | None \<Rightarrow> []);
          client_name_esc = escape client_name; client_id_esc = escape client_id; request_uri_esc = escape request_uri;
          hint_esc = escape (case login_hint of Some h \<Rightarrow> h | None \<Rightarrow> []) in
      unlines
     [''<!doctype html>'',
      ''<html lang=\"en\">'',
      ''<head>'',
      ''<meta charset=\"utf-8\">'',
      ''<meta name=\"viewport\" content=\"width=device-width, initial-scale=1\">'',
      ''<title>Authorize '' @ client_name_esc @ ''</title>'',
      ''<style>'' @ STYLE @ ''</style>'',
      ''</head>'',
      ''<body>'',
      ''<main>'',
      ''  <h1>Authorize application</h1>'',
      ''  <p class=\"sub\">Sign in to grant access to your account.</p>'',
      ''  '' @ error_block,
      ''  <form method=\"post\" action=\"/oauth/authorize\" autocomplete=\"on\">'',
      ''    <input type=\"hidden\" name=\"request_uri\" value=\"'' @ request_uri_esc @ ''\">'',
      ''    <div class=\"card\">'',
      ''      <div class=\"client\">'' @ client_name_esc @ ''</div>'',
      ''      <div class=\"client-id\">'' @ client_id_esc @ ''</div>'',
      ''      <ul class=\"scopes\">'' @ scope_items @ ''</ul>'',
      ''    </div>'',
      ''    <div class=\"card\">'',
      ''      <label for=\"username\">Handle or email</label>'',
      ''      <input id=\"username\" name=\"username\" type=\"text\" autocomplete=\"username\"'',
      ''             autocapitalize=\"none\" autocorrect=\"off\" spellcheck=\"false\"'',
      ''             required value=\"'' @ hint_esc @ ''\">'',
      ''      <label for=\"password\">Password</label>'',
      ''      <input id=\"password\" name=\"password\" type=\"password\"'',
      ''             autocomplete=\"current-password\" required>'',
      ''      <div class=\"actions\">'',
      ''        <button class=\"secondary\" type=\"submit\" name=\"action\" value=\"deny\">Deny</button>'',
      ''        <button class=\"primary\" type=\"submit\" name=\"action\" value=\"accept\">Authorize</button>'',
      ''      </div>'',
      ''    </div>'',
      ''  </form>'',
      ''</main>'',
      ''</body>'',
      ''</html>''])"

definition error_page_html :: "string \<Rightarrow> string \<Rightarrow> string" where
  "error_page_html title message =
     (let title_esc = escape title; message_esc = escape message in
      unlines
     [''<!doctype html>'',
      ''<html lang=\"en\">'',
      ''<head>'',
      ''<meta charset=\"utf-8\">'',
      ''<meta name=\"viewport\" content=\"width=device-width, initial-scale=1\">'',
      ''<title>'' @ title_esc @ ''</title>'',
      ''<style>'' @ STYLE @ ''</style>'',
      ''</head>'',
      ''<body>'',
      ''<main>'',
      ''  <h1>'' @ title_esc @ ''</h1>'',
      ''  <div class=\"card\">'' @ message_esc @ ''</div>'',
      ''</main>'',
      ''</body>'',
      ''</html>''])"

subsection \<open>No markup from outside\<close>

definition markup :: "char \<Rightarrow> bool" where
  "markup c = (c \<in> {CHR ''<'', CHR ''>'', CHR 0x22, CHR 0x27})"

fun unescape :: "string \<Rightarrow> string" where
  "unescape [] = []"
| "unescape (c # s) =
     (if c \<noteq> CHR ''&'' then c # unescape s
      else if starts_with s ''amp;'' then CHR ''&'' # unescape (drop 4 s)
      else if starts_with s ''lt;'' then CHR ''<'' # unescape (drop 3 s)
      else if starts_with s ''gt;'' then CHR ''>'' # unescape (drop 3 s)
      else if starts_with s ''quot;'' then CHR 0x22 # unescape (drop 5 s)
      else if starts_with s ''#x27;'' then CHR 0x27 # unescape (drop 5 s)
      else c # unescape s)"

lemma unescape_escape: "unescape (escape s) = s"
  by (induction s) (auto simp: escape_def escape_char_def starts_with_def)

lemma escape_no_markup: "filter markup (escape s) = []"
  by (auto simp: escape_def escape_char_def markup_def filter_concat comp_def filter_empty_conv split: if_splits)

lemma filter_unlines: "filter markup (unlines ls) = concat (map (filter markup) ls)"
proof -
  have "\<not> markup CHR 0x0A" by (simp add: markup_def)
  then have "filter markup (join_with [CHR 0x0A] ls) = concat (map (filter markup) ls)"
    by (induction "[CHR 0x0A]" ls rule: join_with.induct) auto
  then show ?thesis by (simp add: unlines_def)
qed

text \<open>C35: no client can write markup into the consent page. The angle brackets and quotes of the rendered page, in their
  order, are those of the page rendered for empty texts: they depend on the number of scopes and on whether an error
  is shown, never on the client's name or id, the request URI, the login hint, the scopes or the error text. The
  same holds of the error page, and escaping loses nothing: undoing it gives the text back.\<close>

theorem consent_page_markup_fixed:
  "filter markup (authorize_page_html uri name cid scopes hint err) =
     filter markup (authorize_page_html [] [] [] (map (\<lambda>_. []) scopes) None (map_option (\<lambda>_. []) err)) \<and>
   filter markup (error_page_html title message) = filter markup (error_page_html [] []) \<and>
   unescape (escape s) = s"
proof -
  have "escape [] = []" "describe_scope [] = []" by (simp_all add: escape_def describe_scope_def)
  moreover have "filter markup (concat (map (\<lambda>s. ''<li>'' @ escape (describe_scope s) @ ''</li>'') scopes)) =
     filter markup (concat (map (\<lambda>s. ''<li>'' @ escape (describe_scope s) @ ''</li>'') (map (\<lambda>_. []) scopes)))"
    by (induction scopes) (simp_all add: escape_no_markup del: append.simps)
  ultimately show ?thesis
    unfolding authorize_page_html_def error_page_html_def Let_def
    by (simp add: filter_unlines escape_no_markup unescape_escape del: append.simps split: option.split)
qed

subsection \<open>No parameters from outside\<close>

text \<open>How a client reads a query string: \<open>application/x-www-form-urlencoded\<close>.\<close>

fun form_decode :: "string \<Rightarrow> string" where
  "form_decode (c # a # b # cs) =
     (if c = CHR ''%'' then
        (case (hex_digit a, hex_digit b) of (Some x, Some y) \<Rightarrow> char_of (16 * x + y) # form_decode cs
         | _ \<Rightarrow> c # form_decode (a # b # cs))
      else (if c = CHR ''+'' then CHR '' '' else c) # form_decode (a # b # cs))"
| "form_decode (c # cs) = (if c = CHR ''+'' then CHR '' '' else c) # form_decode cs"
| "form_decode [] = []"

definition form_pair :: "string \<Rightarrow> string \<times> string" where
  "form_pair s = (case split_once CHR ''='' s of Some (k, v) \<Rightarrow> (form_decode k, form_decode v) | None \<Rightarrow> (form_decode s, []))"

definition form_parse :: "string \<Rightarrow> (string \<times> string) list" where
  "form_parse q = map form_pair (filter (\<lambda>s. s \<noteq> []) (split_on CHR ''&'' q))"

definition query_of :: "string \<Rightarrow> (string \<times> string) list" where
  "query_of url = (case split_once CHR ''?'' url of Some (_, q) \<Rightarrow> form_parse q | None \<Rightarrow> [])"

lemma hex_upper_digit: "n < 16 \<Longrightarrow> hex_digit (hex_upper n) = Some n"
proof -
  have "\<forall>n \<in> set [0..<16]. hex_digit (hex_upper n) = Some n" by code_simp
  then show "n < 16 \<Longrightarrow> hex_digit (hex_upper n) = Some n" by simp
qed

lemma hex_upper_alnum: "n < 16 \<Longrightarrow> is_ascii_alphanumeric (hex_upper n)"
proof -
  have "\<forall>n \<in> set [0..<16]. is_ascii_alphanumeric (hex_upper n)" by code_simp
  then show "n < 16 \<Longrightarrow> is_ascii_alphanumeric (hex_upper n)" by simp
qed

lemma char_nibbles: "of_char c div 16 < (16 :: nat)" "of_char c mod 16 < (16 :: nat)"
  using nat_of_char_less_256 [of c] by (auto simp del: nat_of_char_less_256 intro!: less_mult_imp_div_less)

declare hex_digit.simps [simp del]

lemma unreserved_plain:
  "pkce_unreserved c \<Longrightarrow> c \<notin> {CHR ''%'', CHR ''+'', CHR ''&'', CHR ''='', CHR ''?'', CHR ''#''}"
  by (auto simp: pkce_unreserved_def ascii_class_defs less_eq_char_def)

lemma form_decode_plain: "c \<noteq> CHR ''%'' \<Longrightarrow> c \<noteq> CHR ''+'' \<Longrightarrow> form_decode (c # s) = c # form_decode s"
  by (cases s rule: list.exhaust [case_product list.exhaust [of "tl s"]]) auto

lemma form_decode_urlencode_byte: "form_decode (urlencode_byte c @ s) = c # form_decode s"
proof (cases "pkce_unreserved c")
  case True
  then show ?thesis using unreserved_plain [OF True] by (simp add: urlencode_byte_def form_decode_plain)
next
  case False
  have "hex_digit (hex_upper (of_char c div 16)) = Some (of_char c div 16)"
    "hex_digit (hex_upper (of_char c mod 16)) = Some (of_char c mod 16)"
    by (rule hex_upper_digit [OF char_nibbles(1)], rule hex_upper_digit [OF char_nibbles(2)])
  moreover have "char_of (16 * (of_char c div 16) + of_char c mod 16 :: nat) = c" by simp
  ultimately show ?thesis using False by (simp add: urlencode_byte_def Let_def)
qed

lemma form_decode_urlencode: "form_decode (urlencode s) = s"
  by (induction s) (simp_all add: urlencode_def form_decode_urlencode_byte)

lemma urlencode_chars: "c \<in> set (urlencode s) \<Longrightarrow> pkce_unreserved c \<or> c = CHR ''%''"
  using hex_upper_alnum [OF char_nibbles(1)] hex_upper_alnum [OF char_nibbles(2)]
  by (auto simp: urlencode_def urlencode_byte_def Let_def pkce_unreserved_def split: if_splits)

lemma split_once_append: "d \<notin> set a \<Longrightarrow> split_once d (a @ d # b) = Some (a, b)"
  by (induction a) auto

lemma form_pair_encoded: "form_pair (urlencode k @ ''='' @ urlencode v) = (k, v)"
proof -
  have "CHR ''='' \<notin> set (urlencode k)" using urlencode_chars [of _ k] unreserved_plain by fastforce
  then show ?thesis by (simp add: form_pair_def split_once_append form_decode_urlencode)
qed

text \<open>The text of the parameters after the first separator.\<close>

definition encoded_params :: "(string \<times> string) list \<Rightarrow> string" where
  "encoded_params ps = join_with ''&'' (map (\<lambda>(k, v). urlencode k @ ''='' @ urlencode v) ps)"

lemma push_params_text:
  "push_params sep (p # ps) url = url @ [sep] @ encoded_params (p # ps)"
proof (induction ps arbitrary: sep p url)
  case Nil
  then show ?case by (cases p) (simp add: encoded_params_def)
next
  case (Cons q ps)
  obtain k v where "p = (k, v)" by (cases p)
  then have "push_params sep (p # q # ps) url = push_params CHR ''&'' (q # ps) (url @ [sep] @ urlencode k @ ''='' @ urlencode v)"
    by (cases q) simp
  then show ?case by (simp add: Cons.IH \<open>p = (k, v)\<close> encoded_params_def)
qed

lemma split_encoded:
  "ps \<noteq> [] \<Longrightarrow> split_on CHR ''&'' (encoded_params ps) = map (\<lambda>(k, v). urlencode k @ ''='' @ urlencode v) ps"
  unfolding encoded_params_def
proof (rule split_on_join_back)
  show "\<forall>l \<in> set (map (\<lambda>(k, v). urlencode k @ ''='' @ urlencode v) ps). CHR ''&'' \<notin> set l"
    using urlencode_chars unreserved_plain by fastforce
qed simp

lemma split_on_two: "split_on d (a @ d # b) = split_on d a @ split_on d b"
proof (induction a)
  case (Cons c a)
  then show ?case using split_on_join [of d a] by (cases "split_on d a") auto
qed simp

lemma form_parse_append: "form_parse (a @ CHR ''&'' # b) = form_parse a @ form_parse b"
  by (simp add: form_parse_def split_on_two)

lemma form_parse_encoded: "ps \<noteq> [] \<Longrightarrow> form_parse (encoded_params ps) = ps"
  using form_pair_encoded
  by (auto simp: form_parse_def split_encoded filter_map comp_def case_prod_beta intro!: map_idI)

text \<open>Nothing can be smuggled into a redirect. Read back the way a client reads a query string, the URL that
  \<open>append_query\<close> builds has exactly the parameters the registered redirect URI had, followed by exactly the pairs
  appended, whatever bytes their names and values contain; and the URI itself is an unchanged prefix.\<close>

theorem append_query_no_injection:
  "query_of (append_query base ps) = query_of base @ ps \<and> take (length base) (append_query base ps) = base"
proof (cases ps)
  case Nil
  then show ?thesis by (simp add: append_query_def)
next
  case (Cons p qs)
  then have t: "append_query base ps = base @ [if CHR ''?'' \<in> set base then CHR ''&'' else CHR ''?''] @ encoded_params ps"
    by (simp only: append_query_def push_params_text)
  show ?thesis
  proof (cases "CHR ''?'' \<in> set base")
    case True
    then obtain a b where ab: "base = a @ CHR ''?'' # b" "CHR ''?'' \<notin> set a" by (metis split_list_first)
    have "split_once CHR ''?'' (append_query base ps) = Some (a, b @ CHR ''&'' # encoded_params ps)"
      using t ab split_once_append [OF ab(2), of "b @ CHR ''&'' # encoded_params ps"] True by simp
    then show ?thesis using ab Cons t
      by (simp add: query_of_def split_once_append form_parse_append form_parse_encoded)
  next
    case False
    then have "split_once CHR ''?'' base = None" by (induction base) auto
    moreover have "split_once CHR ''?'' (append_query base ps) = Some (base, encoded_params ps)"
      using t False split_once_append [OF False, of "encoded_params ps"] by simp
    ultimately show ?thesis using Cons t by (simp add: query_of_def form_parse_encoded)
  qed
qed

end
