(* ===== verification/Authorize_Laws.thy ===== *)
theory Authorize_Laws
  imports OAuth_Pages
begin

text \<open>
  Laws of the front channel: when the consent form mints an authorization code and what that code says, and the
  whole authorization-code flow from the code to the tokens.
\<close>

subsection \<open>The steps of the consent form\<close>

lemma db_step:
  assumes "meets good up \<alpha> op R" "good (w_store w)" "run (db op) w = (x, w')"
  obtains s' where "w' = w\<lparr>w_store := s'\<rparr>" "good s'" "up (w_store w) \<longrightarrow> up s'"
    "R (\<alpha> (w_store w)) x (\<alpha> s') \<or> \<not> up (w_store w) \<and> is_err x \<and> \<alpha> s' = \<alpha> (w_store w)"
  using meets_step [OF assms(1,2)] assms(3) by (auto simp: async_simps split: prod.splits)

text \<open>The code \<open>issue_code\<close> stores for a pushed request.\<close>

definition code_for :: "'x prims_scheme \<Rightarrow> StoredPushedRequest \<Rightarrow> string \<Rightarrow> string \<Rightarrow> nat \<Rightarrow> AuthCode" where
  "code_for P q did code now =
     \<lparr>code_hash = hash_secret P code, code_did = did, code_client_id = par_client_id q, code_redirect_uri = par_redirect_uri q,
      code_scope = par_scope q, code_challenge = par_code_challenge q, code_dpop_jkt = par_dpop_jkt q, code_expires_at = now + 60\<rparr>"

definition login_handle :: "string \<Rightarrow> string" where
  "login_handle username = to_ascii_lowercase (trim_start_matches CHR ''@'' (str_trim username))"

context storage_backend
begin

lemma run_load_request:
  assumes st: "st_store st = B" and good: "good (w_store w)" and time: "time_ok (w_clock w)"
    and run: "run (load_request P st uri) w = (r, w')"
  shows "good (w_store w') \<and> (up (w_store w) \<longrightarrow> up (w_store w')) \<and> \<alpha> (w_store w') = \<alpha> (w_store w) \<and> w_clock w' = w_clock w \<and>
    (case r of Inr q \<Rightarrow> is_ok (validate_request_uri uri) \<and> v_par (\<alpha> (w_store w)) (hash_secret P uri) = Some q \<and> w_clock w < par_expires_at q
     | Inl resp \<Rightarrow> rs_headers resp = [])"
proof (cases "is_err (validate_request_uri uri)")
  case True
  then show ?thesis using run good by (auto simp: load_request_def error_html_def)
next
  case False
  obtain x w1 where x: "run (db (get_pushed_request (oauth_ops B) (hash_secret P uri) (w_clock w))) w = (x, w1)"
    by (cases "run (db (get_pushed_request (oauth_ops B) (hash_secret P uri) (w_clock w))) w")
  from oauth.get_pushed_request [OF time] good x obtain s' where s': "w1 = w\<lparr>w_store := s'\<rparr>" "good s'" "up (w_store w) \<longrightarrow> up s'"
    "spec_get_pushed_request (hash_secret P uri) (w_clock w) (\<alpha> (w_store w)) x (\<alpha> s') \<or> \<not> up (w_store w) \<and> is_err x \<and> \<alpha> s' = \<alpha> (w_store w)"
    by (rule db_step)
  with run x False st show ?thesis
    by (cases x) (auto simp: load_request_def async_simps error_html_def spec_get_pushed_request_def live_Some is_err_def
        split: option.splits)
qed

lemma run_oauth_authenticate:
  assumes st: "st_store st = B" and good: "good (w_store w)" and run: "run (oauth_authenticate P st user pw) w = (r, w')"
  shows "good (w_store w') \<and> (up (w_store w) \<longrightarrow> up (w_store w')) \<and> \<alpha> (w_store w') = \<alpha> (w_store w) \<and> w_clock w' = w_clock w \<and>
    (\<forall>did. r = Ok did \<longrightarrow> (\<exists>a. visible_by_handle (\<alpha> (w_store w)) (login_handle user) did a \<and> phc_verify P pw (row_password a) = Ok True))"
proof -
  let ?h = "login_handle user"
  obtain x w1 where x: "run (db (get_account_by_handle (account_ops B) ?h)) w = (x, w1)"
    by (cases "run (db (get_account_by_handle (account_ops B) ?h)) w")
  from account.get_account_by_handle good x obtain s' where s': "w1 = w\<lparr>w_store := s'\<rparr>" "good s'" "up (w_store w) \<longrightarrow> up s'"
    "spec_get_account_by_handle ?h (\<alpha> (w_store w)) x (\<alpha> s') \<or> \<not> up (w_store w) \<and> is_err x \<and> \<alpha> s' = \<alpha> (w_store w)"
    by (rule db_step)
  have r: "(r, w') = (case x of
        Inr (Some (did, phc)) \<Rightarrow> (case verify_password P pw phc of
             Inr ok \<Rightarrow> if ok then Ok did else Err GENERIC | Inl _ \<Rightarrow> Err ''Something went wrong. Please try again.'')
      | Inr None \<Rightarrow> Err GENERIC | Inl _ \<Rightarrow> Err ''Something went wrong. Please try again.'', w1)"
    using run x st by (simp add: oauth_authenticate_def async_simps login_handle_def)
  with s' show ?thesis
    by (auto simp: spec_get_account_by_handle_def verify_password_def split: sum.splits option.splits if_splits)
qed

lemma run_issue_code:
  assumes st: "st_store st = B" and good: "good (w_store w)" and time: "time_ok (w_clock w + 60)"
    and run: "run (issue_code P st q did) w = (r, w')"
  obtains "\<alpha> (w_store w') = \<alpha> (w_store w)" "is_err r" "\<not> up (w_store w)"
  | code c where "c = code_for P q did code (w_clock w)" "is_err r" "\<not> up (w_store w)"
      "\<alpha> (w_store w') = (\<alpha> (w_store w))\<lparr>v_codes := (v_codes (\<alpha> (w_store w)))(code_hash c \<mapsto> c)\<rparr>"
  | code c where "c = code_for P q did code (w_clock w)"
      "r = Ok (redirect_to (append_query (par_redirect_uri q)
         [(''code'', code), (''state'', par_state q), (''iss'', os_issuer_url (st_oauth st))]))"
      "\<alpha> (w_store w') = (\<alpha> (w_store w))\<lparr>v_codes := (v_codes (\<alpha> (w_store w)))(code_hash c \<mapsto> c),
         v_par := (v_par (\<alpha> (w_store w)))(par_request_uri_hash q := None)\<rparr>"
proof -
  let ?code = "b64url_encode P (draw 32 w)" and ?w0 = "w\<lparr>w_rng_pos := w_rng_pos w + 32\<rparr>"
  let ?c = "code_for P q did ?code (w_clock w)"
  obtain x w1 where x: "run (odb (put_auth_code (oauth_ops B) ?c)) ?w0 = (x, w1)" by (cases "run (odb (put_auth_code (oauth_ops B) ?c)) ?w0")
  have "time_ok (code_expires_at ?c)" "good (w_store ?w0)" using time good by (simp_all add: code_for_def)
  from odb_writes [OF oauth.put_auth_code [OF this(1), unfolded spec_put_auth_code_def] this(2) x] obtain s1 where
    s1: "w1 = ?w0\<lparr>w_store := s1\<rparr>" "good s1" "up (w_store w) \<longrightarrow> up s1"
    "(x, \<alpha> s1) = map_prod Ok id ((), (\<alpha> (w_store w))\<lparr>v_codes := (v_codes (\<alpha> (w_store w)))(code_hash ?c \<mapsto> ?c)\<rparr>) \<or>
       \<not> up (w_store w) \<and> is_err x \<and> \<alpha> s1 = \<alpha> (w_store w)" by auto
  obtain y w2 where y: "run (odb (delete_pushed_request (oauth_ops B) (par_request_uri_hash q))) w1 = (y, w2)"
    by (cases "run (odb (delete_pushed_request (oauth_ops B) (par_request_uri_hash q))) w1")
  have g1: "good (w_store w1)" using s1 by simp
  from odb_writes [OF oauth.delete_pushed_request [unfolded spec_delete_pushed_request_def] g1 y] obtain s2 where
    s2: "w2 = w1\<lparr>w_store := s2\<rparr>" "good s2"
    "(y, \<alpha> s2) = map_prod Ok id ((), (\<alpha> (w_store w1))\<lparr>v_par := (v_par (\<alpha> (w_store w1)))(par_request_uri_hash q := None)\<rparr>) \<or>
       \<not> up (w_store w1) \<and> is_err y \<and> \<alpha> s2 = \<alpha> (w_store w1)" by blast
  have r: "(r, w') = (case x of Inl e \<Rightarrow> (Inl e, w1) | Inr _ \<Rightarrow> (case y of Inl e \<Rightarrow> (Inl e, w2) | Inr _ \<Rightarrow>
      (Ok (redirect_to (append_query (par_redirect_uri q)
           [(''code'', ?code), (''state'', par_state q), (''iss'', os_issuer_url (st_oauth st))])), w2)))"
    using run x y st by (auto simp: issue_code_def code_for_def async_simps AUTH_CODE_TTL_SECS_def split: sum.splits)
  show ?thesis
  proof (cases x)
    case (Inl e)
    with r s1 show ?thesis by (intro that(1)) auto
  next
    case (Inr u)
    with s1 have v1: "\<alpha> (w_store w1) = (\<alpha> (w_store w))\<lparr>v_codes := (v_codes (\<alpha> (w_store w)))(code_hash ?c \<mapsto> ?c)\<rparr>" by simp
    have up1: "up (w_store w) \<longrightarrow> up (w_store w1)" using s1 by simp
    show ?thesis
    proof (cases y)
      case (Inl e)
      with r Inr s2 v1 up1 show ?thesis by (intro that(2) [OF refl]) auto
    next
      case y: (Inr u)
      with r Inr s2 v1 show ?thesis by (intro that(3) [OF refl]) auto
    qed
  qed
qed

lemma run_authorize_submit:
  assumes st: "st_store st = B" and good: "good (w_store w)" and time: "time_ok (w_clock w + 60)"
    and quiet: "\<And>i. quiet (os_resolve (st_oauth st) i)" and run: "run (authorize_submit P st form) w = (resp, w')"
  obtains h where "\<alpha> (w_store w') = (\<alpha> (w_store w))\<lparr>v_par := h\<rparr>"
  | q did a code h where "is_ok (validate_request_uri (af_request_uri form))" "v_par (\<alpha> (w_store w)) (hash_secret P (af_request_uri form)) = Some q"
       "w_clock w < par_expires_at q" "af_action form = ''accept''"
       "visible_by_handle (\<alpha> (w_store w)) (login_handle (af_username form)) did a" "phc_verify P (af_password form) (row_password a) = Ok True"
       "\<alpha> (w_store w') = (\<alpha> (w_store w))\<lparr>v_codes := (v_codes (\<alpha> (w_store w)))(hash_secret P code \<mapsto> code_for P q did code (w_clock w)), v_par := h\<rparr>"
       "up (w_store w) \<longrightarrow> h = (v_par (\<alpha> (w_store w)))(par_request_uri_hash q := None) \<and>
          resp = redirect_to (append_query (par_redirect_uri q)
            [(''code'', code), (''state'', par_state q), (''iss'', os_issuer_url (st_oauth st))])"
proof -
  have t0: "time_ok (w_clock w)" using time by (simp add: time_ok_def)
  obtain x w1 where x: "run (load_request P st (af_request_uri form)) w = (x, w1)"
    by (cases "run (load_request P st (af_request_uri form)) w")
  note l = run_load_request [OF st good t0 x]
  have page: "w_store w2 = w_store w3" if "run (render_page P st u q e) w3 = (r, w2)" for u q e r w2 w3
    using that quietD [OF quiet] by (auto simp: render_page_def async_simps Let_def split: sum.splits prod.splits)
  note unchanged = that(1)
  have same: thesis if "\<alpha> (w_store w') = \<alpha> (w_store w)" using that by (intro unchanged [of "v_par (\<alpha> (w_store w))"]) simp
  show ?thesis
  proof (cases x)
    case (Inl p)
    then have "w' = w1" using run x by (auto simp: authorize_submit_def async_simps)
    with l show ?thesis by (intro same) simp
  next
    case (Inr q)
    have g1: "good (w_store w1)" "\<alpha> (w_store w1) = \<alpha> (w_store w)" using l by auto
    show ?thesis
    proof (cases "af_action form = ''accept''")
      case False
      obtain d w2 where d: "run (db (delete_pushed_request (oauth_ops B) (par_request_uri_hash q))) w1 = (d, w2)"
        by (cases "run (db (delete_pushed_request (oauth_ops B) (par_request_uri_hash q))) w1")
      have w2: "w' = w2" using run x Inr False d st by (auto simp: authorize_submit_def async_simps)
      from oauth.delete_pushed_request g1(1) d obtain s2 where s2: "w2 = w1\<lparr>w_store := s2\<rparr>"
        "spec_delete_pushed_request (par_request_uri_hash q) (\<alpha> (w_store w1)) d (\<alpha> s2) \<or> \<not> up (w_store w1) \<and> is_err d \<and> \<alpha> s2 = \<alpha> (w_store w1)"
        by (rule db_step)
      then have "\<alpha> (w_store w') = \<alpha> (w_store w) \<or> \<alpha> (w_store w') = (\<alpha> (w_store w))\<lparr>v_par := (v_par (\<alpha> (w_store w)))(par_request_uri_hash q := None)\<rparr>"
        using w2 g1(2) by (cases d) (auto simp: spec_delete_pushed_request_def)
      then show ?thesis using same unchanged by blast
    next
      case True
      obtain y w2 where y: "run (oauth_authenticate P st (af_username form) (af_password form)) w1 = (y, w2)"
        by (cases "run (oauth_authenticate P st (af_username form) (af_password form)) w1")
      note au = run_oauth_authenticate [OF st g1(1) y]
      show ?thesis
      proof (cases y)
        case (Inl m)
        then have "run (render_page P st (af_request_uri form) q (Some m)) w2 = (resp, w')"
          using run x Inr True y by (auto simp: authorize_submit_def async_simps)
        with page have "w_store w' = w_store w2" by blast
        with au g1(2) show ?thesis by (intro same) simp
      next
        case did: (Inr did)
        obtain z where z: "run (issue_code P st q did) w2 = (z, w')"
          and resp: "resp = (case z of Inr redirect \<Rightarrow> redirect
             | Inl e \<Rightarrow> redirect_error q (error_code e) (public_description (display_storage_error P) e))"
          using run x Inr True y did by (auto simp: authorize_submit_def async_simps split: prod.splits)
        obtain a where a: "visible_by_handle (\<alpha> (w_store w)) (login_handle (af_username form)) did a"
          "phc_verify P (af_password form) (row_password a) = Ok True" using au did g1(2) by auto
        have w2: "good (w_store w2)" "\<alpha> (w_store w2) = \<alpha> (w_store w)" "w_clock w2 = w_clock w" "up (w_store w) \<longrightarrow> up (w_store w2)"
          using au l g1(2) by auto
        have t2: "time_ok (w_clock w2 + 60)" using time w2 by simp
        have pre: "is_ok (validate_request_uri (af_request_uri form))" "v_par (\<alpha> (w_store w)) (hash_secret P (af_request_uri form)) = Some q"
          "w_clock w < par_expires_at q" using l Inr by auto
        show ?thesis
        proof (rule run_issue_code [OF st w2(1) t2 z])
          assume "\<alpha> (w_store w') = \<alpha> (w_store w2)"
          then show ?thesis using w2 by (intro same) simp
        next
          fix code c
          assume c: "c = code_for P q did code (w_clock w2)" "is_err z" "\<not> up (w_store w2)"
            "\<alpha> (w_store w') = (\<alpha> (w_store w2))\<lparr>v_codes := (v_codes (\<alpha> (w_store w2)))(code_hash c \<mapsto> c)\<rparr>"
          then show ?thesis
            using w2 by (intro that(2) [where code = code and h = "v_par (\<alpha> (w_store w))", OF pre True a]) (auto simp: code_for_def)
        next
          fix code c
          assume c: "c = code_for P q did code (w_clock w2)"
            "z = Ok (redirect_to (append_query (par_redirect_uri q)
               [(''code'', code), (''state'', par_state q), (''iss'', os_issuer_url (st_oauth st))]))"
            "\<alpha> (w_store w') = (\<alpha> (w_store w2))\<lparr>v_codes := (v_codes (\<alpha> (w_store w2)))(code_hash c \<mapsto> c),
               v_par := (v_par (\<alpha> (w_store w2)))(par_request_uri_hash q := None)\<rparr>"
          then show ?thesis
            using w2 resp by (intro that(2) [where code = code, OF pre True a]) (auto simp: code_for_def)
        qed
      qed
    qed
  qed
qed

end

subsection \<open>Consent\<close>

text \<open>C6: a code is minted only by consent. Submitting the authorization form adds an authorization code to the store only
  when a live pushed request stands behind the request URI, the user accepted, and the password verifies for the
  visible account named; the code then carries that account and exactly the client, redirect URI, scope, challenge and
  key of the pushed request and lives for a minute. Every other answer leaves the codes alone, and a redirect that
  carries a code has used the pushed request up.\<close>

theorem authorize_submit_sound:
  assumes "storage_backend (st_store st) good up \<alpha>" "good (w_store w)" "time_ok (w_clock w + 60)"
    and "\<And>i. quiet (os_resolve (st_oauth st) i)"
    and "run (authorize_submit P st form) w = (resp, w')"
  shows "let v = \<alpha> (w_store w); v' = \<alpha> (w_store w') in
    v' = v\<lparr>v_codes := v_codes v', v_par := v_par v'\<rparr> \<and>
    (v_codes v' = v_codes v \<or>
     (\<exists>q did a code. is_ok (validate_request_uri (af_request_uri form)) \<and> v_par v (hash_secret P (af_request_uri form)) = Some q \<and>
       w_clock w < par_expires_at q \<and> af_action form = ''accept'' \<and>
       visible_by_handle v (login_handle (af_username form)) did a \<and> phc_verify P (af_password form) (row_password a) = Ok True \<and>
       v_codes v' = (v_codes v)(hash_secret P code \<mapsto> code_for P q did code (w_clock w)) \<and>
       (up (w_store w) \<longrightarrow> v_par v' = (v_par v)(par_request_uri_hash q := None) \<and>
          resp = redirect_to (append_query (par_redirect_uri q)
            [(''code'', code), (''state'', par_state q), (''iss'', os_issuer_url (st_oauth st))]))))"
  by (rule storage_backend.run_authorize_submit [OF assms(1) refl assms(2-5)]; unfold Let_def; fastforce)

subsection \<open>The whole flow\<close>

context storage_backend
begin

lemma issue_completes:
  assumes st: "st_store st = B" and w: "good (w_store w)" "up (w_store w)" "time_ok (w_clock w + 7776000)"
    and tok: "is_ok (fst (run (issue_access_token P (os_issuer (st_oauth st)) did cid sc jkt) w))"
  shows "\<exists>resp w'. run (issue P st did cid sc jkt sid) w = (Ok resp, w') \<and> tr_sub resp = did \<and> tr_scope resp = Scope_to_string sc"
proof -
  obtain a ttl w1 where t: "run (issue_access_token P (os_issuer (st_oauth st)) did cid sc jkt) w = (Ok (a, ttl), w1)"
    using tok by (cases "run (issue_access_token P (os_issuer (st_oauth st)) did cid sc jkt) w") (auto simp: is_ok_iff)
  note w1 = run_issue_access_token [OF t]
  have put: "\<exists>s'. put_refresh_token (oauth_ops B) (issued_record P tok ses did cid sc jkt (w_clock w)) (w_store w) = (Ok (), s')"
    for tok ses
  proof -
    let ?t = "issued_record P tok ses did cid sc jkt (w_clock w)"
    have "time_ok (rt_issued_at ?t)" "time_ok (rt_expires_at ?t)" using w(3) by (auto simp: issued_record_def time_ok_def)
    note put = oauth.put_refresh_token [OF this]
    obtain x s' where x: "put_refresh_token (oauth_ops B) ?t (w_store w) = (x, s')" by (cases "put_refresh_token (oauth_ops B) ?t (w_store w)")
    from meets_up [OF put w(1,2) x] have "x = Ok ()" by (cases x) (auto simp: spec_put_refresh_token_def)
    with x show ?thesis by blast
  qed
  obtain ses w3 where ses: "run (case sid of Some s \<Rightarrow> Ready s | None \<Rightarrow> random_token P 16) (w1\<lparr>w_rng_pos := w_rng_pos w1 + 32\<rparr>) = (ses, w3)"
    "w_store w3 = w_store w"
    using w1 by (cases sid) (auto simp: async_simps)
  obtain s' where s': "put_refresh_token (oauth_ops B) (issued_record P (b64url_encode P (draw 32 w1)) ses did cid sc jkt (w_clock w)) (w_store w) = (Ok (), s')"
    using put by blast
  have "w_clock w1 = w_clock w" using w1 by simp
  with s' ses t st show ?thesis
    by (auto simp: issue_def async_simps issued_record_def REFRESH_TOKEN_TTL_SECS_def simp del: add.assoc)
qed

lemma code_grant_completes:
  assumes st: "st_store st = B" and w: "good (w_store w)" "up (w_store w)" "time_ok (w_clock w + 7776000)"
    and tok: "\<And>did cid sc jkt w. is_ok (fst (run (issue_access_token P (os_issuer (st_oauth st)) did cid sc jkt) (w :: 's world)))"
    and c: "v_codes (\<alpha> (w_store w)) (hash_secret P code) = Some c" "w_clock w < code_expires_at c"
    and form: "tf_code form = Some code" "tf_client_id form = code_client_id c" "tf_redirect_uri form = Some (code_redirect_uri c)"
      "tf_code_verifier form = Some ver" "CodeChallenge_verify P \<lparr>challenge = code_challenge c\<rparr> ver = Ok ()"
      "code_dpop_jkt c \<in> {None, Some (dp_jkt pf)}" "Scope_parse (code_scope c) = Ok sc"
  shows "\<exists>resp w'. run (authorization_code_grant P st form pf) w = (Ok resp, w') \<and> tr_sub resp = code_did c \<and> tr_scope resp = Scope_to_string sc"
proof -
  have t: "time_ok (w_clock w)" using w(3) by (simp add: time_ok_def)
  obtain x s1 where x: "consume_auth_code (oauth_ops B) (hash_secret P code) (w_clock w) (w_store w) = (x, s1)"
    by (cases "consume_auth_code (oauth_ops B) (hash_secret P code) (w_clock w) (w_store w)")
  from meets_up [OF oauth.consume_auth_code [OF t] w(1,2) x] c have s1: "good s1" "up s1" "x = Ok (Some c)"
    by (cases x; auto simp: spec_consume_auth_code_def live_def)+
  have "good (w_store (w\<lparr>w_store := s1\<rparr>))" "up (w_store (w\<lparr>w_store := s1\<rparr>))" "time_ok (w_clock (w\<lparr>w_store := s1\<rparr>) + 7776000)"
    using s1 w(3) by auto
  from issue_completes [OF st this tok] obtain resp w' where "run (issue P st (code_did c) (code_client_id c) sc (dp_jkt pf) None) (w\<lparr>w_store := s1\<rparr>) = (Ok resp, w')"
    "tr_sub resp = code_did c" "tr_scope resp = Scope_to_string sc" by blast
  with x s1 st form show ?thesis
    by (auto simp: authorization_code_grant_def async_simps split: option.splits)
qed

end


subsection \<open>Witnesses\<close>

definition wit_uri :: string where
  "wit_uri = REQUEST_URI_PREFIX @ ''r1''"

definition wit_pushed :: StoredPushedRequest where
  "wit_pushed = \<lparr>par_request_uri_hash = hash_secret wit_sp wit_uri, par_client_id = ''https://app.test/c.json'',
     par_redirect_uri = ''https://app.test/cb'', par_scope = ''atproto'', par_state = ''st'',
     par_code_challenge = code_challenge wit_auth_code, par_dpop_jkt = None, par_login_hint = None, par_expires_at = 1300\<rparr>"

definition wit_asked :: Inner where
  "wit_asked = wit_home\<lparr>m_oauth_par := [(par_request_uri_hash wit_pushed, wit_pushed)]\<rparr>"

definition wit_consent :: AuthorizeForm where
  "wit_consent = \<lparr>af_request_uri = wit_uri, af_username = ''@Alice.pds.test'', af_password = ''password1'', af_action = ''accept''\<rparr>"

lemma wit_asked_ok: "mem_ok wit_asked"
  by (simp add: wit_asked_def wit_home_def wit_account_def mem_new_def mem_ok_def hm_ok_def mem_seq_ok_def mem_accounts_ok_def)

lemma wit_quiet: "quiet (os_resolve (st_oauth wit_state) i)"
  by (simp add: quiet_def wit_state_def StaticClientResolver_resolve_def split: option.splits)

definition wit_minted :: AuthCode where
  "wit_minted = code_for wit_sp wit_pushed ''did:plc:a'' (b64url_encode wit_sp (draw 32 (wit_at 1000 wit_asked))) 1000"

definition wit_consented :: Inner where
  "wit_consented = wit_asked\<lparr>m_oauth_codes := hm_insert (code_hash wit_minted) wit_minted (m_oauth_codes wit_asked),
     m_oauth_par := hm_remove (par_request_uri_hash wit_pushed) (m_oauth_par wit_asked)\<rparr>"

lemma wit_authenticates:
  "run (oauth_authenticate wit_sp wit_state ''@Alice.pds.test'' ''password1'') (wit_at 1000 wit_asked) = (Ok ''did:plc:a'', wit_at 1000 wit_asked)"
proof -
  have h: "to_ascii_lowercase (trim_start_matches CHR ''@'' (str_trim ''@Alice.pds.test'')) = ''alice.pds.test''" by code_simp
  have "mem_get_account_by_handle ''alice.pds.test'' wit_asked = (Ok (Some (''did:plc:a'', ''password1'')), wit_asked)"
    by (simp add: mem_get_account_by_handle_def mem_active_by_handle_def hm_values_def wit_asked_def wit_home_def wit_account_def acc_active_def)
  then show ?thesis
    by (simp add: oauth_authenticate_def h async_simps verify_password_def wit_at_def wit_world_def)
qed

lemma wit_submit:
  "\<exists>resp w'. run (authorize_submit wit_sp wit_state wit_consent) (wit_at 1000 wit_asked) = (resp, w') \<and> w_store w' = wit_consented"
proof -
  have "run (load_request wit_sp wit_state wit_uri) (wit_at 1000 wit_asked) = (Inr wit_pushed, wit_at 1000 wit_asked)"
    by (simp add: load_request_def validate_request_uri_def async_simps mem_get_pushed_request_def wit_at_def wit_world_def
        wit_asked_def wit_uri_def starts_with_def hm_get_def wit_pushed_def is_err_def)
  with wit_authenticates show ?thesis
    by (simp add: authorize_submit_def wit_consent_def async_simps issue_code_def wit_consented_def wit_minted_def
        mem_put_auth_code_def mem_delete_pushed_request_def wit_at_def wit_world_def code_for_def AUTH_CODE_TTL_SECS_def)
qed

lemma wit_consented_view:
  "mem_ok wit_consented" "v_codes (mem_view wit_asked) = Map.empty" "v_codes (mem_view wit_consented) (code_hash wit_minted) = Some wit_minted"
  "v_par (mem_view wit_asked) (hash_secret wit_sp wit_uri) = Some wit_pushed"
  by (auto simp: wit_consented_def wit_asked_def wit_home_def wit_account_def mem_new_def mem_ok_def hm_ok_def mem_seq_ok_def
      mem_accounts_ok_def mem_view_def hm_get_insert hm_insert_def hm_remove_def hm_get_def wit_pushed_def fun_eq_iff)

theorem authorize_submit_sound_witness:
  "\<exists>resp w' q did a code. run (authorize_submit wit_sp wit_state wit_consent) (wit_at 1000 wit_asked) = (resp, w') \<and>
     visible_by_handle (mem_view wit_asked) (login_handle ''@Alice.pds.test'') did a \<and>
     v_codes (mem_view (w_store w')) (hash_secret wit_sp code) = Some (code_for wit_sp q did code 1000)"
proof -
  obtain resp w' where r: "run (authorize_submit wit_sp wit_state wit_consent) (wit_at 1000 wit_asked) = (resp, w')"
    "w_store w' = wit_consented" using wit_submit by blast
  have "mem_ok (w_store (wit_at 1000 wit_asked))" "time_ok (w_clock (wit_at 1000 wit_asked) + 60)"
    by (simp_all add: wit_at_def wit_world_def wit_asked_ok time_ok_def)
  from authorize_submit_sound [OF wit_backend this wit_quiet r(1)] wit_consented_view(2,3) r(2) obtain q did a code where
    "visible_by_handle (mem_view wit_asked) (login_handle ''@Alice.pds.test'') did a"
    "v_codes (mem_view (w_store w')) = (v_codes (mem_view wit_asked))(hash_secret wit_sp code \<mapsto> code_for wit_sp q did code 1000)"
    by (auto simp: Let_def wit_at_def wit_world_def wit_consent_def simp del: mem_view_simps)
  with r(1) show ?thesis by (metis fun_upd_same)
qed


end
