(* ===== verification/Repo_Core.thy ===== *)
theory Repo_Core
  imports Authorize_Laws
begin

text \<open>
  The base of repositories: record keys and collections (\<open>repo/util.rs\<close>), content addressing and
  the block-store adapter (\<open>storage/adapter.rs\<close>), blobs (\<open>blob.rs\<close>), firehose frames
  (\<open>firehose/frame.rs\<close>) and the interface of the repository crate the writer and the readers call.

  That crate (\<open>atrium_repo\<close>) is not part of the sources. What it does to the store it does through
  the two block-store traits, so each of its functions is a program over them (\<open>bs\<close>): it reads a
  block, writes a block, fails with a message or is done. \<open>run_bs\<close> runs such a program on the
  adapter, inside the \<open>DiffBlockStore\<close> that remembers what was written. The programs themselves,
  the encodings and the CAR writer are fields of \<open>repo_prims\<close>.
\<close>

subsection \<open>Record keys and collections\<close>

definition validate_rkey :: "string \<Rightarrow> string + unit" where
  "validate_rkey rkey =
     (if rkey = [] \<or> length rkey > 512 then Err (''rkey must be 1'' @ [CHR 0xE2, CHR 0x80, CHR 0x93] @ ''512 chars'')
      else if CHR ''/'' \<in> set rkey \<or> CHR 0x00 \<in> set rkey then Err ''rkey must not contain '/' or NUL''
      else if \<not> list_all (\<lambda>b. 0x21 \<le> b \<and> b \<le> 0x7e) (as_bytes rkey)
      then Err ''rkey must contain only printable ASCII characters''
      else Ok ())"

fun validate_segments :: "string list \<Rightarrow> string + unit" where
  "validate_segments [] = Ok ()"
| "validate_segments (seg # segs) =
     (if seg = [] then Err ''collection segment must not be empty''
      else if \<not> is_ascii_alphabetic (hd seg) then Err ''collection segment must start with a letter''
      else if \<not> list_all (\<lambda>c. is_ascii_alphanumeric c \<or> c = CHR ''-'') seg
      then Err ''collection segment must contain only alphanumeric chars or hyphens''
      else validate_segments segs)"

definition validate_collection :: "string \<Rightarrow> string + unit" where
  "validate_collection collection =
     (if collection = [] \<or> CHR 0x00 \<in> set collection \<or> CHR ''/'' \<in> set collection
      then Err ''collection must be a valid NSID (e.g. app.bsky.feed.post)''
      else let segments = split_on CHR ''.'' collection in
        if length segments < 2 then Err ''collection must have at least two dot-separated segments''
        else validate_segments segments)"

text \<open>The loop fills the thirteen places from the last one down; \<open>u64\<close> shifts drop the high bits.\<close>

definition TID_ALPHABET :: string where
  "TID_ALPHABET = ''234567abcdefghijklmnopqrstuvwxyz''"

fun tid_digits :: "nat \<Rightarrow> 64 word \<Rightarrow> string \<Rightarrow> string" where
  "tid_digits 0 val acc = acc"
| "tid_digits (Suc i) val acc = tid_digits i (drop_bit 5 val) (TID_ALPHABET ! unat (and val 0x1f) # acc)"

definition tid_from_micros :: "64 word \<Rightarrow> string" where
  "tid_from_micros us = (let n = push_bit 10 us in tid_digits 13 n [])"

subsection \<open>Frames\<close>

record RepoOp =
  op_action :: string
  op_path :: string
  op_cid :: "Cid option"

record CommitBody =
  cb_seq :: int
  cb_rebase :: bool
  cb_too_big :: bool
  cb_repo :: string
  cb_commit :: Cid
  cb_rev :: string
  cb_since :: "string option"
  cb_blocks :: bytes
  cb_ops :: "RepoOp list"
  cb_blobs :: "Cid list"
  cb_time :: string
  cb_prev_data :: "Cid option"

subsection \<open>The repository crate\<close>

text \<open>An IPLD value, with the constructors of the data model; a float is its 64 bits.\<close>

datatype Ipld =
    INull | IBool bool | IInteger int | IFloat "64 word" | IString string | IBytes bytes
  | IList "Ipld list" | IMap "(string \<times> Ipld) list" | ILink Cid

datatype BlockstoreError = CidNotFound | UnsupportedHash nat | OtherError StorageError

datatype 'a bs =
    BsDone 'a
  | BsFail string
  | BsRead Cid "BlockstoreError + bytes \<Rightarrow> 'a bs"
  | BsWrite nat nat bytes "BlockstoreError + Cid \<Rightarrow> 'a bs" \<comment> \<open>codec, hash, contents\<close>

text \<open>The entries of a tree, read lazily and in order: getting at the next one may read blocks.\<close>

datatype entries =
    EntriesDone
  | EntriesFail string
  | EntriesItem string Cid entries
  | EntriesRead Cid "BlockstoreError + bytes \<Rightarrow> entries"

text \<open>An open repository: its latest commit and that commit's tree.\<close>

record Repository =
  rp_root :: Cid
  rp_data :: Cid

text \<open>A commit that is not signed yet.\<close>

record CommitBuilder =
  bld_did :: string
  bld_data :: Cid
  bld_rev :: string
  bld_prev :: "Cid option"

record UnsignedCommit =
  uc_did :: string
  uc_version :: int
  uc_data :: Cid
  uc_rev :: string
  uc_prev :: "Cid option"

record SignedCommit = UnsignedCommit +
  sc_sig :: bytes

record repo_prims = server_prims +
  dagcbor_of_json :: "json \<Rightarrow> string + bytes"
  dagcbor_to_json :: "bytes \<Rightarrow> string + json"
  dagcbor_of_ipld :: "Ipld \<Rightarrow> string + bytes"
  dagcbor_to_ipld :: "bytes \<Rightarrow> string + Ipld"
  cbor_message_header :: "int \<Rightarrow> string \<Rightarrow> string + bytes"
  cbor_error_header :: "int \<Rightarrow> string + bytes"
  cbor_error_body :: "string \<Rightarrow> string option \<Rightarrow> string + bytes"
  cbor_commit_body :: "CommitBody \<Rightarrow> string + bytes"
  cbor_to_commit_body :: "bytes \<Rightarrow> string + CommitBody"
  cbor_unsigned_commit :: "UnsignedCommit \<Rightarrow> string + bytes"
  cbor_signed_commit :: "SignedCommit \<Rightarrow> string + bytes"
  cbor_commit_rev :: "bytes \<Rightarrow> string + string" \<comment> \<open>the \<open>rev\<close> of a commit block\<close>
  cid_to_string :: "Cid \<Rightarrow> string"
  did_from_str :: "string \<Rightarrow> string + string"
  display_bs_error :: "BlockstoreError \<Rightarrow> string"
  tid_now :: "nat \<Rightarrow> string" \<comment> \<open>\<open>Tid::now\<close> with clock id 0, from the clock's microseconds\<close>
  diff_blocks :: "Cid list \<Rightarrow> Cid list" \<comment> \<open>\<open>DiffBlockStore::blocks\<close>, from what was written\<close>
  repo_open :: "Cid \<Rightarrow> Repository bs"
  repo_create :: "string \<Rightarrow> nat \<Rightarrow> CommitBuilder bs" \<comment> \<open>DID, clock\<close>
  repo_create_finalize :: "CommitBuilder \<Rightarrow> bytes \<Rightarrow> Repository bs"
  builder_bytes :: "CommitBuilder \<Rightarrow> bytes"
  builder_finalize :: "CommitBuilder \<Rightarrow> bytes \<Rightarrow> Cid bs"
  repo_add_raw :: "Repository \<Rightarrow> nat \<Rightarrow> string \<Rightarrow> Ipld \<Rightarrow> (CommitBuilder \<times> Cid) bs"
  repo_update_raw :: "Repository \<Rightarrow> nat \<Rightarrow> string \<Rightarrow> Ipld \<Rightarrow> (CommitBuilder \<times> Cid) bs"
  repo_delete_raw :: "Repository \<Rightarrow> nat \<Rightarrow> string \<Rightarrow> CommitBuilder bs"
  repo_export :: "Repository \<Rightarrow> Cid list bs"
  tree_get :: "Repository \<Rightarrow> string \<Rightarrow> Cid option bs"
  tree_entries :: "Repository \<Rightarrow> entries"
  tree_entries_prefixed :: "Repository \<Rightarrow> string \<Rightarrow> entries"
  mst_add :: "Cid \<Rightarrow> string \<Rightarrow> Cid \<Rightarrow> Cid bs" \<comment> \<open>tree, key, value to the new tree\<close>
  mst_update :: "Cid \<Rightarrow> string \<Rightarrow> Cid \<Rightarrow> Cid bs"
  mst_delete :: "Cid \<Rightarrow> string \<Rightarrow> Cid bs"
  car_new :: "Cid list \<Rightarrow> bytes"
  car_write :: "bytes \<Rightarrow> Cid \<Rightarrow> bytes \<Rightarrow> string + bytes"
  car_finish :: "bytes \<Rightarrow> string + bytes"

abbreviation RARROW :: string where
  "RARROW \<equiv> [CHR 0xE2, CHR 0x86, CHR 0x92]"

definition json_value_to_ipld :: "'x repo_prims_scheme \<Rightarrow> json \<Rightarrow> string + Ipld" where
  "json_value_to_ipld P value =
     and_then (map_err (\<lambda>e. ''json'' @ RARROW @ ''dagcbor encode failed: '' @ e) (dagcbor_of_json P value)) (\<lambda>cbor_bytes.
     map_err (\<lambda>e. ''dagcbor'' @ RARROW @ ''ipld decode failed: '' @ e) (dagcbor_to_ipld P cbor_bytes))"

text \<open>\<open>expect\<close> panics on an error; encoding one of these structs to memory does not fail.\<close>

abbreviation expect :: "string + 'a \<Rightarrow> 'a" where
  "expect \<equiv> projr"

definition encode_message_frame :: "'x repo_prims_scheme \<Rightarrow> string \<Rightarrow> CommitBody \<Rightarrow> bytes" where
  "encode_message_frame P t body =
     (let header = expect (cbor_message_header P 1 t); body_bytes = expect (cbor_commit_body P body) in header @ body_bytes)"

definition encode_error_frame :: "'x repo_prims_scheme \<Rightarrow> string \<Rightarrow> string option \<Rightarrow> bytes" where
  "encode_error_frame P err message =
     (let header = expect (cbor_error_header P (- 1)); body = expect (cbor_error_body P err message) in header @ body)"

subsection \<open>Content addressing and the adapter\<close>

definition SHA2_256 :: nat where
  "SHA2_256 = 0x12"

definition DAG_CBOR :: nat where
  "DAG_CBOR = 0x71"

definition cid_of :: "'x prims_scheme \<Rightarrow> nat \<Rightarrow> bytes \<Rightarrow> Cid" where
  "cid_of P codec contents = Cid codec SHA2_256 (sha256 P contents)"

definition read_block_into :: "'s StorageBackend \<Rightarrow> Cid \<Rightarrow> ('s world, BlockstoreError + bytes) async" where
  "read_block_into B cid = abind (db (read_block_bytes (repo_ops B) cid)) (\<lambda>r. Ready (case r of
     Inr b \<Rightarrow> Ok b
   | Inl e \<Rightarrow> if e = BlockNotFound then Err CidNotFound else Err (OtherError e)))"

definition write_block :: "'x prims_scheme \<Rightarrow> 's StorageBackend \<Rightarrow> nat \<Rightarrow> nat \<Rightarrow> bytes \<Rightarrow> ('s world, BlockstoreError + Cid) async" where
  "write_block P B codec hash contents =
     (if hash \<noteq> SHA2_256 then Ready (Err (UnsupportedHash hash))
      else let cid = cid_of P codec contents in
        abind (db (put_block (repo_ops B) cid contents)) (\<lambda>r. Ready (map_err OtherError (and_then r (\<lambda>_. Ok cid)))))"

text \<open>A program of the repository crate on the adapter; the list is what was written so far.\<close>

primrec run_bs :: "'x prims_scheme \<Rightarrow> 's StorageBackend \<Rightarrow> 'a bs \<Rightarrow> Cid list \<Rightarrow> ('s world, string + 'a \<times> Cid list) async" where
  "run_bs P B (BsDone a) written = Ready (Ok (a, written))"
| "run_bs P B (BsFail e) written = Ready (Err e)"
| "run_bs P B (BsRead c k) written = abind (read_block_into B c) (\<lambda>r. run_bs P B (k r) written)"
| "run_bs P B (BsWrite codec hash contents k) written = abind (write_block P B codec hash contents) (\<lambda>r.
     run_bs P B (k r) (case r of Inr c \<Rightarrow> written @ [c] | Inl _ \<Rightarrow> written))"

subsection \<open>Blobs\<close>

definition MAX_BLOB_BYTES :: nat where
  "MAX_BLOB_BYTES = 2 * 1024 * 1024"

definition RAW_CODEC :: nat where
  "RAW_CODEC = 0x55"

definition blob_cid :: "'x prims_scheme \<Rightarrow> bytes \<Rightarrow> Cid" where
  "blob_cid P bs = Cid RAW_CODEC SHA2_256 (sha256 P bs)"

record BlobRef =
  bl_cid :: Cid
  bl_mime_type :: string
  bl_size :: int

definition to_lex_json :: "'x repo_prims_scheme \<Rightarrow> BlobRef \<Rightarrow> json" where
  "to_lex_json P b = Object
     [(''$type'', String ''blob''), (''ref'', Object [(''$link'', String (cid_to_string P (bl_cid b)))]),
      (''mimeType'', String (bl_mime_type b)), (''size'', Number (bl_size b))]"

datatype BlobError = EmptyBlob | TooLarge nat | BlobStorage StorageError

definition store_blob ::
  "'x repo_prims_scheme \<Rightarrow> 's BlobStore \<Rightarrow> string \<Rightarrow> string \<Rightarrow> bytes \<Rightarrow> ('s world, BlobError + BlobRef) async" where
  "store_blob P Z did mime_type bs =
     (if bs = [] then Ready (Err EmptyBlob)
      else if length bs > MAX_BLOB_BYTES then Ready (Err (TooLarge (length bs)))
      else let cid = blob_cid P bs; size = int (length bs) in
        abind (db (put_blob Z did (cid_to_string P cid) mime_type size bs)) (\<lambda>r.
        try_ok (map_err BlobStorage r) (\<lambda>_.
        Ready (Ok \<lparr>bl_cid = cid, bl_mime_type = mime_type, bl_size = size\<rparr>))))"

subsection \<open>Errors\<close>

datatype RepoError = RepoStorage StorageError | RepoRepo string | RepoCrypto string

end
