(* ===== verification/Repo_Writer.thy ===== *)
theory Repo_Writer
  imports Repo_Core
begin

text \<open>
  The repository writer (\<open>repo/writer.rs\<close>). A writer is stateless between calls: it opens the
  repository from the stored root, applies its operations, signs, and persists the new blocks, the
  event and the root with one \<open>commit_blocks\<close>. \<open>w_published\<close> is the broadcast channel.

  \<open>write_lock\<close> is a mutex per DID held for the whole of a commit. It carries no data; what it gives
  the code is that no other task moves this DID's root meanwhile, and that is how it appears: the
  laws of \<open>commit_op\<close> hold under any interference of other tasks that leaves this DID's root alone.
\<close>

datatype Publish = Broadcast | Never

record 's RepoWriter =
  rw_store :: "'s StorageBackend"
  rw_signing_key :: bytes
  rw_did :: string

datatype WriteOp = Create string Ipld | Update string Ipld | Delete string

record WriteOutcome =
  wo_action :: string
  wo_key :: string
  wo_record_cid :: "Cid option"
  wo_commit_cid :: Cid
  wo_rev :: string

definition rdb :: "('s, 'a) sop \<Rightarrow> ('s world, RepoError + 'a) async" where
  "rdb op = abind (db op) (\<lambda>r. Ready (map_err RepoStorage r))"

definition rbs :: "'x prims_scheme \<Rightarrow> 's StorageBackend \<Rightarrow> 'a bs \<Rightarrow> Cid list \<Rightarrow> ('s world, RepoError + 'a \<times> Cid list) async" where
  "rbs P B p written = abind (run_bs P B p written) (\<lambda>r. Ready (map_err RepoRepo r))"

definition now_micros :: "('s world, nat) async" where
  "now_micros = atomic (\<lambda>w. (w_micros w, w))"

definition now_rfc3339 :: "('s world, string) async" where
  "now_rfc3339 = atomic (\<lambda>w. (w_rfc3339 w, w))"

definition firehose_send :: "int \<Rightarrow> bytes \<Rightarrow> ('s world, unit) async" where
  "firehose_send seq frame = atomic (\<lambda>w. ((), w\<lparr>w_published := w_published w @ [(seq, frame)]\<rparr>))"

definition sign :: "'x repo_prims_scheme \<Rightarrow> 's RepoWriter \<Rightarrow> bytes \<Rightarrow> RepoError + bytes" where
  "sign P W msg = map_err RepoCrypto (k256_sign P (rw_signing_key W) msg)"

subsection \<open>The commit core\<close>

text \<open>Open the stored root, or create, sign and finish an empty repository.\<close>

definition open_or_create ::
  "'x repo_prims_scheme \<Rightarrow> 's RepoWriter \<Rightarrow> Cid option \<Rightarrow> ('s world, RepoError + Repository \<times> Cid list) async" where
  "open_or_create P W maybe_root = (case maybe_root of
     Some root \<Rightarrow> rbs P (rw_store W) (repo_open P root) []
   | None \<Rightarrow>
       abind now_micros (\<lambda>now.
       await_ok (rbs P (rw_store W) (repo_create P (rw_did W) now) []) (\<lambda>(builder, written).
       try_ok (sign P W (builder_bytes P builder)) (\<lambda>sig.
       rbs P (rw_store W) (repo_create_finalize P builder sig) written))))"

text \<open>Chain the builder to the previous commit, sign it and finish it.\<close>

definition finish_commit ::
  "'x repo_prims_scheme \<Rightarrow> 's RepoWriter \<Rightarrow> Cid \<Rightarrow> CommitBuilder \<Rightarrow> Cid list \<Rightarrow> ('s world, RepoError + Cid \<times> Cid list) async" where
  "finish_commit P W prev_cid cb written =
     (let cb = cb\<lparr>bld_prev := Some prev_cid\<rparr> in
      try_ok (sign P W (builder_bytes P cb)) (\<lambda>sig.
      rbs P (rw_store W) (builder_finalize P cb sig) written))"

definition apply_op ::
  "'x repo_prims_scheme \<Rightarrow> 's RepoWriter \<Rightarrow> Repository \<Rightarrow> WriteOp \<Rightarrow> Cid list \<Rightarrow>
     ('s world, RepoError + (string \<times> string \<times> Cid option \<times> Cid) \<times> Cid list) async" where
  "apply_op P W repo op written =
     (let prev_cid = rp_root repo in
      abind now_micros (\<lambda>now. case op of
        Create key record \<Rightarrow>
          await_ok (rbs P (rw_store W) (repo_add_raw P repo now key record) written) (\<lambda>((cb, cid), written).
          await_ok (finish_commit P W prev_cid cb written) (\<lambda>(commit_cid, written).
          Ready (Ok ((''create'', key, Some cid, commit_cid), written))))
      | Update key record \<Rightarrow>
          await_ok (rbs P (rw_store W) (repo_update_raw P repo now key record) written) (\<lambda>((cb, cid), written).
          await_ok (finish_commit P W prev_cid cb written) (\<lambda>(commit_cid, written).
          Ready (Ok ((''update'', key, Some cid, commit_cid), written))))
      | Delete key \<Rightarrow>
          await_ok (rbs P (rw_store W) (repo_delete_raw P repo now key) written) (\<lambda>(cb, written).
          await_ok (finish_commit P W prev_cid cb written) (\<lambda>(commit_cid, written).
          Ready (Ok ((''delete'', key, None, commit_cid), written))))))"

fun read_blocks :: "'s StorageBackend \<Rightarrow> Cid list \<Rightarrow> ('s world, RepoError + (Cid \<times> bytes) list) async" where
  "read_blocks B [] = Ready (Ok [])"
| "read_blocks B (cid # cids) =
     await_ok (rdb (read_block_bytes (repo_ops B) cid)) (\<lambda>bs.
     await_ok (read_blocks B cids) (\<lambda>blocks.
     Ready (Ok ((cid, bs) # blocks))))"

fun car_write_all :: "'x repo_prims_scheme \<Rightarrow> bytes \<Rightarrow> (Cid \<times> bytes) list \<Rightarrow> string + bytes" where
  "car_write_all P buf [] = car_finish P buf"
| "car_write_all P buf ((cid, bs) # blocks) = and_then (car_write P buf cid bs) (\<lambda>buf. car_write_all P buf blocks)"

definition car_of :: "'x repo_prims_scheme \<Rightarrow> Cid \<Rightarrow> (Cid \<times> bytes) list \<Rightarrow> string + bytes" where
  "car_of P root blocks = car_write_all P (car_new P [root]) blocks"

definition rev_of :: "'x repo_prims_scheme \<Rightarrow> 's StorageBackend \<Rightarrow> string \<Rightarrow> Cid \<Rightarrow> ('s world, RepoError + string) async" where
  "rev_of P B what cid =
     await_ok (rdb (read_block_bytes (repo_ops B) cid)) (\<lambda>bs.
     Ready (map_err (\<lambda>e. RepoRepo (what @ e)) (cbor_commit_rev P bs)))"

definition commit_body :: "'s RepoWriter \<Rightarrow> Cid \<Rightarrow> string \<Rightarrow> string option \<Rightarrow> bytes \<Rightarrow> RepoOp list \<Rightarrow> string \<Rightarrow> CommitBody" where
  "commit_body W commit_cid rv since car_buf ops time =
     \<lparr>cb_seq = 0, cb_rebase = False, cb_too_big = False, cb_repo = rw_did W, cb_commit = commit_cid, cb_rev = rv,
      cb_since = since, cb_blocks = car_buf, cb_ops = ops, cb_blobs = [], cb_time = time, cb_prev_data = None\<rparr>"

definition commit_op ::
  "'x repo_prims_scheme \<Rightarrow> 's RepoWriter \<Rightarrow> WriteOp \<Rightarrow> Publish \<Rightarrow> ('s world, RepoError + WriteOutcome \<times> CommitBody) async" where
  "commit_op P W op publish =
     await_ok (rdb (load_repo_root (repo_ops (rw_store W)) (rw_did W))) (\<lambda>maybe_root.
     await_ok (open_or_create P W maybe_root) (\<lambda>(repo, written).
     await_ok (apply_op P W repo op written) (\<lambda>((action, key, record_cid, commit_cid), written).
     let new_cids = diff_blocks P written in
     await_ok (read_blocks (rw_store W) new_cids) (\<lambda>blocks.
     try_ok (map_err RepoRepo (car_of P commit_cid blocks)) (\<lambda>car_buf.
     await_ok (rev_of P (rw_store W) ''decode commit block for rev/prev: '' commit_cid) (\<lambda>rev.
     await_ok (if maybe_root \<noteq> None
       then await_ok (rev_of P (rw_store W) ''decode prev commit block for since: '' (rp_root repo)) (\<lambda>r. Ready (Ok (Some r)))
       else Ready (Ok None)) (\<lambda>since.
     abind now_rfc3339 (\<lambda>time.
     let ops = [\<lparr>op_action = action, op_path = key, op_cid = record_cid\<rparr>];
         body = commit_body W commit_cid rev since car_buf ops time in
     try_ok (map_err (\<lambda>e. RepoRepo (''encode event body: '' @ e)) (cbor_commit_body P body)) (\<lambda>event_body.
     await_ok (rdb (commit_blocks (repo_ops (rw_store W)) blocks (rw_did W) commit_cid event_body)) (\<lambda>seq.
     let body = body\<lparr>cb_seq := seq\<rparr> in
     abind (case publish of
         Broadcast \<Rightarrow> firehose_send seq (encode_message_frame P ''#commit'' body)
       | Never \<Rightarrow> Ready ()) (\<lambda>_.
     Ready (Ok (\<lparr>wo_action = action, wo_key = key, wo_record_cid = record_cid, wo_commit_cid = commit_cid, wo_rev = rev\<rparr>,
       body)))))))))))))"

definition apply_one :: "'x repo_prims_scheme \<Rightarrow> 's RepoWriter \<Rightarrow> WriteOp \<Rightarrow> ('s world, RepoError + WriteOutcome) async" where
  "apply_one P W op = await_ok (commit_op P W op Broadcast) (\<lambda>(outcome, _). Ready (Ok outcome))"

definition apply_one_parts ::
  "'x repo_prims_scheme \<Rightarrow> 's RepoWriter \<Rightarrow> WriteOp \<Rightarrow> ('s world, RepoError + WriteOutcome \<times> CommitBody) async" where
  "apply_one_parts P W op = commit_op P W op Never"

text \<open>\<open>expect\<close> on the record CID: a create always has one.\<close>

definition writer_create_record ::
  "'x repo_prims_scheme \<Rightarrow> 's RepoWriter \<Rightarrow> string \<Rightarrow> Ipld \<Rightarrow> ('s world, RepoError + Cid \<times> Cid) async" where
  "writer_create_record P W key record =
     await_ok (apply_one P W (Create key record)) (\<lambda>outcome.
     Ready (Ok (the (wo_record_cid outcome), wo_commit_cid outcome)))"

subsection \<open>Batches\<close>

record Prepared =
  pr_action :: string
  pr_key :: string
  pr_cid :: "Cid option"

text \<open>Encode and store one record through the \<open>DiffBlockStore\<close>.\<close>

definition put_record_block ::
  "'x repo_prims_scheme \<Rightarrow> 's RepoWriter \<Rightarrow> Ipld \<Rightarrow> Cid list \<Rightarrow> ('s world, RepoError + Cid \<times> Cid list) async" where
  "put_record_block P W record written =
     try_ok (map_err (\<lambda>e. RepoRepo (''encode record: '' @ e)) (dagcbor_of_ipld P record)) (\<lambda>bs.
     abind (write_block P (rw_store W) DAG_CBOR SHA2_256 bs) (\<lambda>r.
     try_ok (map_err (\<lambda>e. RepoRepo (display_bs_error P e)) r) (\<lambda>cid.
     Ready (Ok (cid, written @ [cid])))))"

fun prepare ::
  "'x repo_prims_scheme \<Rightarrow> 's RepoWriter \<Rightarrow> WriteOp list \<Rightarrow> Cid list \<Rightarrow> ('s world, RepoError + Prepared list \<times> Cid list) async" where
  "prepare P W [] written = Ready (Ok ([], written))"
| "prepare P W (Create key record # ops) written =
     await_ok (put_record_block P W record written) (\<lambda>(cid, written).
     await_ok (prepare P W ops written) (\<lambda>(ps, written).
     Ready (Ok (\<lparr>pr_action = ''create'', pr_key = key, pr_cid = Some cid\<rparr> # ps, written))))"
| "prepare P W (Update key record # ops) written =
     await_ok (put_record_block P W record written) (\<lambda>(cid, written).
     await_ok (prepare P W ops written) (\<lambda>(ps, written).
     Ready (Ok (\<lparr>pr_action = ''update'', pr_key = key, pr_cid = Some cid\<rparr> # ps, written))))"
| "prepare P W (Delete key # ops) written =
     await_ok (prepare P W ops written) (\<lambda>(ps, written).
     Ready (Ok (\<lparr>pr_action = ''delete'', pr_key = key, pr_cid = None\<rparr> # ps, written)))"

definition mst_apply :: "'x repo_prims_scheme \<Rightarrow> Cid \<Rightarrow> Prepared \<Rightarrow> Cid bs" where
  "mst_apply P tree p = (case pr_cid p of
     Some cid \<Rightarrow> if pr_action p = ''create'' then mst_add P tree (pr_key p) cid
       else if pr_action p = ''update'' then mst_update P tree (pr_key p) cid else mst_delete P tree (pr_key p)
   | None \<Rightarrow> mst_delete P tree (pr_key p))"

fun mst_apply_all ::
  "'x repo_prims_scheme \<Rightarrow> 's RepoWriter \<Rightarrow> Cid \<Rightarrow> Prepared list \<Rightarrow> Cid list \<Rightarrow> ('s world, RepoError + Cid \<times> Cid list) async" where
  "mst_apply_all P W tree [] written = Ready (Ok (tree, written))"
| "mst_apply_all P W tree (p # ps) written =
     abind (run_bs P (rw_store W) (mst_apply P tree p) written) (\<lambda>r.
     try_ok (map_err (\<lambda>e. RepoRepo (''mst '' @ pr_action p @ '' '' @ pr_key p @ '': '' @ e)) r) (\<lambda>(tree, written).
     mst_apply_all P W tree ps written))"

definition apply_many_parts ::
  "'x repo_prims_scheme \<Rightarrow> 's RepoWriter \<Rightarrow> WriteOp list \<Rightarrow> ('s world, RepoError + WriteOutcome list \<times> CommitBody) async" where
  "apply_many_parts P W ops =
     (if ops = [] then Ready (Err (RepoRepo ''applyWrites with no writes'')) else
     await_ok (rdb (load_repo_root (repo_ops (rw_store W)) (rw_did W))) (\<lambda>maybe_root.
     await_ok (open_or_create P W maybe_root) (\<lambda>(repo, written).
     let prev_cid = rp_root repo; base_mst = rp_data repo in
     await_ok (prepare P W ops written) (\<lambda>(prepared, written).
     await_ok (mst_apply_all P W base_mst prepared written) (\<lambda>(new_data, written).
     abind now_micros (\<lambda>now.
     let rev = tid_now P now;
         unsigned = \<lparr>uc_did = rw_did W, uc_version = 3, uc_data = new_data, uc_rev = rev, uc_prev = Some prev_cid\<rparr> in
     try_ok (map_err (\<lambda>e. RepoRepo (''encode commit: '' @ e)) (cbor_unsigned_commit P unsigned)) (\<lambda>preimage.
     try_ok (sign P W preimage) (\<lambda>sig.
     let signed = UnsignedCommit.extend unsigned (SignedCommit.fields sig) in
     try_ok (map_err (\<lambda>e. RepoRepo (''encode signed commit: '' @ e)) (cbor_signed_commit P signed)) (\<lambda>commit_bytes.
     abind (write_block P (rw_store W) DAG_CBOR SHA2_256 commit_bytes) (\<lambda>r.
     try_ok (map_err (\<lambda>e. RepoRepo (display_bs_error P e)) r) (\<lambda>commit_cid.
     let new_cids = diff_blocks P (written @ [commit_cid]) in
     await_ok (read_blocks (rw_store W) new_cids) (\<lambda>blocks.
     try_ok (map_err RepoRepo (car_of P commit_cid blocks)) (\<lambda>car_buf.
     await_ok (if maybe_root \<noteq> None
       then await_ok (rev_of P (rw_store W) ''decode prev commit: '' prev_cid) (\<lambda>r. Ready (Ok (Some r)))
       else Ready (Ok None)) (\<lambda>since.
     abind now_rfc3339 (\<lambda>time.
     let firehose_ops = map (\<lambda>p. \<lparr>op_action = pr_action p, op_path = pr_key p, op_cid = pr_cid p\<rparr>) prepared;
         body = commit_body W commit_cid rev since car_buf firehose_ops time in
     try_ok (map_err (\<lambda>e. RepoRepo (''encode event body: '' @ e)) (cbor_commit_body P body)) (\<lambda>event_body.
     await_ok (rdb (commit_blocks (repo_ops (rw_store W)) blocks (rw_did W) commit_cid event_body)) (\<lambda>seq.
     Ready (Ok (map (\<lambda>p. \<lparr>wo_action = pr_action p, wo_key = pr_key p, wo_record_cid = pr_cid p,
                       wo_commit_cid = commit_cid, wo_rev = rev\<rparr>) prepared,
       body\<lparr>cb_seq := seq\<rparr>)))))))))))))))))))"

definition current_mst_root :: "'x repo_prims_scheme \<Rightarrow> 's RepoWriter \<Rightarrow> ('s world, RepoError + Cid option) async" where
  "current_mst_root P W =
     await_ok (rdb (load_repo_root (repo_ops (rw_store W)) (rw_did W))) (\<lambda>root. case root of
       None \<Rightarrow> Ready (Ok None)
     | Some r \<Rightarrow> await_ok (rbs P (rw_store W) (repo_open P r) []) (\<lambda>(repo, _). Ready (Ok (Some (rp_data repo)))))"

end
