(* ===== verification/Repo_Read.thy ===== *)
theory Repo_Read
  imports Repo_Writer
begin

text \<open>
  Repository reads (\<open>repo/read.rs\<close>): one record, a page of a collection, the collections, the
  latest commit and the CAR export. A stream of entries is consumed one \<open>try_next\<close> at a time; the
  loops below are the \<open>while let\<close> loops of the source, by recursion on the stream.
\<close>

record RecordEntry =
  re_key :: string
  re_cid :: Cid
  re_value :: json

record RecordPage =
  pg_records :: "RecordEntry list"
  pg_cursor :: "string option"

definition decode_record :: "'x repo_prims_scheme \<Rightarrow> Cid \<Rightarrow> bytes \<Rightarrow> RepoError + json" where
  "decode_record P cid bs = map_err (\<lambda>e. RepoRepo (''decode record '' @ cid_to_string P cid @ '': '' @ e)) (dagcbor_to_json P bs)"

definition get_record ::
  "'x repo_prims_scheme \<Rightarrow> 's StorageBackend \<Rightarrow> string \<Rightarrow> string \<Rightarrow> ('s world, RepoError + RecordEntry option) async" where
  "get_record P B did mst_key =
     await_ok (rdb (load_repo_root (repo_ops B) did)) (\<lambda>root. case root of
       None \<Rightarrow> Ready (Ok None)
     | Some root \<Rightarrow>
         await_ok (rbs P B (repo_open P root) []) (\<lambda>(repo, diff).
         await_ok (rbs P B (tree_get P repo mst_key) diff) (\<lambda>(found, _). case found of
           None \<Rightarrow> Ready (Ok None)
         | Some cid \<Rightarrow>
             await_ok (rdb (read_block_bytes (repo_ops B) cid)) (\<lambda>bs.
             try_ok (decode_record P cid bs) (\<lambda>value.
             Ready (Ok (Some \<lparr>re_key = mst_key, re_cid = cid, re_value = value\<rparr>)))))))"

text \<open>\<open>records\<close> are the entries of this page so far. The loop breaks once there are \<open>limit\<close> of them.\<close>

primrec list_loop ::
  "'x repo_prims_scheme \<Rightarrow> 's StorageBackend \<Rightarrow> nat \<Rightarrow> string option \<Rightarrow> entries \<Rightarrow> RecordEntry list \<Rightarrow>
     ('s world, RepoError + RecordEntry list) async" where
  "list_loop P B limit cursor EntriesDone records = Ready (Ok records)"
| "list_loop P B limit cursor (EntriesFail e) records = Ready (Err (RepoRepo e))"
| "list_loop P B limit cursor (EntriesRead c k) records =
     abind (read_block_into B c) (\<lambda>r. list_loop P B limit cursor (k r) records)"
| "list_loop P B limit cursor (EntriesItem key cid rest) records =
     (if (case cursor of Some c \<Rightarrow> key \<le> c | None \<Rightarrow> False) then list_loop P B limit cursor rest records
      else
        await_ok (rdb (read_block_bytes (repo_ops B) cid)) (\<lambda>bs.
        try_ok (decode_record P cid bs) (\<lambda>value.
        let records = records @ [\<lparr>re_key = key, re_cid = cid, re_value = value\<rparr>] in
        if length records \<ge> limit then Ready (Ok records) else list_loop P B limit cursor rest records)))"

definition list_records ::
  "'x repo_prims_scheme \<Rightarrow> 's StorageBackend \<Rightarrow> string \<Rightarrow> string \<Rightarrow> nat \<Rightarrow> string option \<Rightarrow> ('s world, RepoError + RecordPage) async" where
  "list_records P B did collection limit cursor =
     (let limit = min (max limit 1) 100 in
      await_ok (rdb (load_repo_root (repo_ops B) did)) (\<lambda>root. case root of
        None \<Rightarrow> Ready (Ok \<lparr>pg_records = [], pg_cursor = None\<rparr>)
      | Some root \<Rightarrow>
          await_ok (rbs P B (repo_open P root) []) (\<lambda>(repo, _).
          let prefix = collection @ ''/'' in
          await_ok (list_loop P B limit cursor (tree_entries_prefixed P repo prefix) []) (\<lambda>records.
          let next = (if length records = limit then map_option re_key (if records = [] then None else Some (last records)) else None) in
          Ready (Ok \<lparr>pg_records = records, pg_cursor = next\<rparr>)))))"

primrec collections_loop ::
  "'s StorageBackend \<Rightarrow> entries \<Rightarrow> string list \<Rightarrow> ('s world, RepoError + string list) async" where
  "collections_loop B EntriesDone out = Ready (Ok out)"
| "collections_loop B (EntriesFail e) out = Ready (Err (RepoRepo e))"
| "collections_loop B (EntriesRead c k) out = abind (read_block_into B c) (\<lambda>r. collections_loop B (k r) out)"
| "collections_loop B (EntriesItem key cid rest) out =
     collections_loop B rest (case split_once CHR ''/'' key of
       Some (collection, _) \<Rightarrow> if out = [] \<or> last out \<noteq> collection then out @ [collection] else out
     | None \<Rightarrow> out)"

definition list_collections ::
  "'x repo_prims_scheme \<Rightarrow> 's StorageBackend \<Rightarrow> string \<Rightarrow> ('s world, RepoError + string list) async" where
  "list_collections P B did =
     await_ok (rdb (load_repo_root (repo_ops B) did)) (\<lambda>root. case root of
       None \<Rightarrow> Ready (Ok [])
     | Some root \<Rightarrow>
         await_ok (rbs P B (repo_open P root) []) (\<lambda>(repo, _).
         collections_loop B (tree_entries P repo) []))"

record RepoExport =
  ex_root :: Cid
  ex_rev :: string
  ex_car :: bytes

definition commit_rev :: "'x repo_prims_scheme \<Rightarrow> 's StorageBackend \<Rightarrow> Cid \<Rightarrow> ('s world, RepoError + string) async" where
  "commit_rev P B commit = rev_of P B (''decode commit '' @ cid_to_string P commit @ '': '') commit"

definition latest_commit ::
  "'x repo_prims_scheme \<Rightarrow> 's StorageBackend \<Rightarrow> string \<Rightarrow> ('s world, RepoError + (Cid \<times> string) option) async" where
  "latest_commit P B did =
     await_ok (rdb (load_repo_root (repo_ops B) did)) (\<lambda>root. case root of
       None \<Rightarrow> Ready (Ok None)
     | Some root \<Rightarrow> await_ok (commit_rev P B root) (\<lambda>rev. Ready (Ok (Some (root, rev)))))"

text \<open>A set of CIDs in \<open>BTreeSet\<close> order: version 1 throughout, then codec, then multihash.\<close>

definition cid_less_eq :: "Cid \<Rightarrow> Cid \<Rightarrow> bool" where
  "cid_less_eq a b = (cid_codec a < cid_codec b \<or> cid_codec a = cid_codec b \<and>
     (cid_hash a < cid_hash b \<or> cid_hash a = cid_hash b \<and> map unat (cid_digest a) \<le> map unat (cid_digest b)))"

fun btree_insert :: "Cid \<Rightarrow> Cid list \<Rightarrow> Cid list" where
  "btree_insert x [] = [x]"
| "btree_insert x (y # ys) = (if x = y then y # ys else if cid_less_eq x y then x # y # ys else y # btree_insert x ys)"

fun export_loop :: "'x repo_prims_scheme \<Rightarrow> 's StorageBackend \<Rightarrow> Cid list \<Rightarrow> bytes \<Rightarrow> ('s world, RepoError + bytes) async" where
  "export_loop P B [] car = Ready (map_err (\<lambda>e. RepoRepo (''car finish: '' @ e)) (car_finish P car))"
| "export_loop P B (cid # cids) car =
     await_ok (rdb (read_block_bytes (repo_ops B) cid)) (\<lambda>bs.
     try_ok (map_err (\<lambda>e. RepoRepo (''car write '' @ cid_to_string P cid @ '': '' @ e)) (car_write P car cid bs)) (\<lambda>car.
     export_loop P B cids car))"

definition export_car ::
  "'x repo_prims_scheme \<Rightarrow> 's StorageBackend \<Rightarrow> string \<Rightarrow> ('s world, RepoError + RepoExport option) async" where
  "export_car P B did =
     await_ok (rdb (load_repo_root (repo_ops B) did)) (\<lambda>root. case root of
       None \<Rightarrow> Ready (Ok None)
     | Some root \<Rightarrow>
         await_ok (commit_rev P B root) (\<lambda>rev.
         await_ok (rbs P B (repo_open P root) []) (\<lambda>(repo, diff).
         await_ok (rbs P B (repo_export P repo) diff) (\<lambda>(exported, _).
         let cids = fold btree_insert exported [] in
         await_ok (export_loop P B cids (car_new P [root])) (\<lambda>car.
         Ready (Ok (Some \<lparr>ex_root = root, ex_rev = rev, ex_car = car\<rparr>)))))))"

end
