(* ===== verification/Repo_Handlers.thy ===== *)
theory Repo_Handlers
  imports Repo_Read
begin

text \<open>
  The repository endpoints (\<open>xrpc/repo.rs\<close>): createRecord, applyWrites, putRecord, getRecord,
  deleteRecord, describeRepo, uploadBlob, getBlob, getRepo and listRecords. The text of an internal
  error never reaches a client, so only its kind is kept.
\<close>

subsection \<open>Shared helpers\<close>

definition xrpc_of_repo :: "RepoError \<Rightarrow> XrpcError" where
  "xrpc_of_repo e = XrpcError.Internal ''repo error''"

definition xrepo :: "('s world, RepoError + 'a) async \<Rightarrow> ('s world, XrpcError + 'a) async" where
  "xrepo p = abind p (\<lambda>r. Ready (map_err xrpc_of_repo r))"

text \<open>A repository-crate program or a block read whose error is wrapped as internal.\<close>

definition xbs ::
  "'x prims_scheme \<Rightarrow> 's StorageBackend \<Rightarrow> string \<Rightarrow> 'a bs \<Rightarrow> Cid list \<Rightarrow> ('s world, XrpcError + 'a \<times> Cid list) async" where
  "xbs P B what p written = abind (run_bs P B p written) (\<lambda>r. Ready (map_err (\<lambda>e. XrpcError.Internal (what @ e)) r))"

definition xread :: "'x repo_prims_scheme \<Rightarrow> 's StorageBackend \<Rightarrow> string \<Rightarrow> Cid \<Rightarrow> ('s world, XrpcError + bytes) async" where
  "xread P B what cid = abind (db (read_block_bytes (repo_ops B) cid)) (\<lambda>r.
     Ready (map_err (\<lambda>e. XrpcError.Internal (what @ cid_to_string P cid @ '': '' @ display_storage_error P e)) r))"

definition xdecode :: "'x repo_prims_scheme \<Rightarrow> Cid \<Rightarrow> bytes \<Rightarrow> XrpcError + json" where
  "xdecode P cid bs =
     map_err (\<lambda>e. XrpcError.Internal (''dagcbor decode for record '' @ cid_to_string P cid @ '': '' @ e)) (dagcbor_to_json P bs)"

definition xrpc_validate_rkey :: "string \<Rightarrow> XrpcError + unit" where
  "xrpc_validate_rkey rkey = map_err XrpcError.InvalidRequest (validate_rkey rkey)"

definition xrpc_validate_collection :: "string \<Rightarrow> XrpcError + unit" where
  "xrpc_validate_collection collection = map_err XrpcError.InvalidRequest (validate_collection collection)"

definition xrpc_json_value_to_ipld :: "'x repo_prims_scheme \<Rightarrow> json \<Rightarrow> XrpcError + Ipld" where
  "xrpc_json_value_to_ipld P value = map_err XrpcError.Internal (json_value_to_ipld P value)"

text \<open>Signing key through the cache, the DID as its type, and the per-DID lock.\<close>

definition build_writer ::
  "'x repo_prims_scheme \<Rightarrow> ('s, 'z) AppState_scheme \<Rightarrow> string \<Rightarrow> ('s world, XrpcError + 's RepoWriter) async" where
  "build_writer P state did =
     await_ok (load_signing_key_cached P state did) (\<lambda>signing.
     try_ok (map_err (\<lambda>e. XrpcError.Internal (''invalid DID: '' @ e)) (did_from_str P did)) (\<lambda>did_typed.
     Ready (Ok \<lparr>rw_store = st_store state, rw_signing_key = signing, rw_did = did_typed\<rparr>)))"

definition lookup_record_cid ::
  "'x repo_prims_scheme \<Rightarrow> ('s, 'z) AppState_scheme \<Rightarrow> string \<Rightarrow> string \<Rightarrow> ('s world, XrpcError + Cid option) async" where
  "lookup_record_cid P state did mst_key =
     await_ok (xdb (load_repo_root (repo_ops (st_store state)) did)) (\<lambda>root. case root of
       None \<Rightarrow> Ready (Ok None)
     | Some root_cid \<Rightarrow>
         await_ok (xbs P (st_store state) ''failed to open repo: '' (repo_open P root_cid) []) (\<lambda>(repo, diff).
         await_ok (xbs P (st_store state) ''MST get error: '' (tree_get P repo mst_key) diff) (\<lambda>(found, _).
         Ready (Ok found))))"

definition resolve_repo_did :: "('s, 'z) AppState_scheme \<Rightarrow> string \<Rightarrow> ('s world, XrpcError + string) async" where
  "resolve_repo_did state repo =
     (if starts_with repo ''did:'' then Ready (Ok repo)
      else await_ok (xdb (get_did_by_handle (account_ops (st_store state)) repo)) (\<lambda>found.
        Ready (ok_or (XrpcError.InvalidRequest (''could not resolve repo: '' @ repo)) found)))"

text \<open>The key given, or a fresh one from the clock (\<open>as_micros() as u64\<close>).\<close>

definition rkey_or_tid :: "string option \<Rightarrow> ('s world, string) async" where
  "rkey_or_tid rkey = (case rkey of
     Some r \<Rightarrow> Ready r
   | None \<Rightarrow> abind now_micros (\<lambda>now_us. Ready (tid_from_micros (of_nat now_us))))"

definition at_uri :: "string \<Rightarrow> string \<Rightarrow> string" where
  "at_uri did key = ''at://'' @ did @ ''/'' @ key"

subsection \<open>createRecord\<close>

record CreateRecordInput =
  cr_repo :: string
  cr_collection :: string
  cr_record :: json
  cr_rkey :: "string option"

record CreateRecordOutput =
  cro_uri :: string
  cro_cid :: string

definition create_record ::
  "'x repo_prims_scheme \<Rightarrow> ('s, 'z) AppState_scheme \<Rightarrow> Parts \<Rightarrow> CreateRecordInput \<Rightarrow> ('s world, XrpcError + CreateRecordOutput) async" where
  "create_record P state parts input =
     await_ok (AccessAuth P state parts) (\<lambda>did.
     if cr_repo input \<noteq> did then Ready (Err (XrpcError.InvalidRequest ''repo must match the authenticated DID''))
     else try_ok (xrpc_validate_collection (cr_collection input)) (\<lambda>_.
     try_ok (case cr_rkey input of Some rkey \<Rightarrow> xrpc_validate_rkey rkey | None \<Rightarrow> Ok ()) (\<lambda>_.
     await_ok (build_writer P state did) (\<lambda>writer.
     abind (rkey_or_tid (cr_rkey input)) (\<lambda>rkey.
     let mst_key = cr_collection input @ ''/'' @ rkey in
     try_ok (xrpc_json_value_to_ipld P (cr_record input)) (\<lambda>ipld.
     await_ok (xrepo (writer_create_record P writer mst_key ipld)) (\<lambda>(record_cid, _).
     Ready (Ok \<lparr>cro_uri = at_uri did (cr_collection input @ ''/'' @ rkey), cro_cid = cid_to_string P record_cid\<rparr>))))))))"

subsection \<open>applyWrites\<close>

datatype ApplyWritesWrite =
    AwCreate string "string option" json
  | AwUpdate string string json
  | AwDelete string string

record ApplyWritesInput =
  aw_repo :: string
  aw_writes :: "ApplyWritesWrite list"

record CommitMeta =
  cm_cid :: string
  cm_rev :: string

record ApplyWritesOutput =
  awo_commit :: "CommitMeta option"
  awo_results :: "json list"

definition write_result :: "'x repo_prims_scheme \<Rightarrow> string \<Rightarrow> string \<Rightarrow> Cid option \<Rightarrow> json" where
  "write_result P type uri cid = Object
     [(''$type'', String (''com.atproto.repo.applyWrites#'' @ type)), (''uri'', String uri),
      (''cid'', case cid of Some c \<Rightarrow> String (cid_to_string P c) | None \<Rightarrow> Null), (''validationStatus'', String ''unknown'')]"

definition apply_write ::
  "'x repo_prims_scheme \<Rightarrow> 's RepoWriter \<Rightarrow> string \<Rightarrow> ApplyWritesWrite \<Rightarrow> ('s world, XrpcError + WriteOutcome \<times> json) async" where
  "apply_write P writer did write = (case write of
     AwCreate collection rkey value \<Rightarrow>
       try_ok (xrpc_validate_collection collection) (\<lambda>_.
       try_ok (case rkey of Some rk \<Rightarrow> xrpc_validate_rkey rk | None \<Rightarrow> Ok ()) (\<lambda>_.
       abind (rkey_or_tid rkey) (\<lambda>rkey.
       let mst_key = collection @ ''/'' @ rkey in
       try_ok (xrpc_json_value_to_ipld P value) (\<lambda>ipld.
       await_ok (xrepo (apply_one P writer (Create mst_key ipld))) (\<lambda>outcome.
       Ready (Ok (outcome, write_result P ''createResult'' (at_uri did mst_key) (wo_record_cid outcome))))))))
   | AwUpdate collection rkey value \<Rightarrow>
       try_ok (xrpc_validate_collection collection) (\<lambda>_.
       try_ok (xrpc_validate_rkey rkey) (\<lambda>_.
       let mst_key = collection @ ''/'' @ rkey in
       try_ok (xrpc_json_value_to_ipld P value) (\<lambda>ipld.
       await_ok (xrepo (apply_one P writer (Update mst_key ipld))) (\<lambda>outcome.
       Ready (Ok (outcome, write_result P ''updateResult'' (at_uri did mst_key) (wo_record_cid outcome)))))))
   | AwDelete collection rkey \<Rightarrow>
       try_ok (xrpc_validate_collection collection) (\<lambda>_.
       try_ok (xrpc_validate_rkey rkey) (\<lambda>_.
       let mst_key = collection @ ''/'' @ rkey in
       await_ok (xrepo (apply_one P writer (Delete mst_key))) (\<lambda>outcome.
       Ready (Ok (outcome, Object [(''$type'', String ''com.atproto.repo.applyWrites#deleteResult'')]))))))"

fun apply_writes_loop ::
  "'x repo_prims_scheme \<Rightarrow> 's RepoWriter \<Rightarrow> string \<Rightarrow> ApplyWritesWrite list \<Rightarrow> json list \<Rightarrow> CommitMeta option \<Rightarrow>
     ('s world, XrpcError + ApplyWritesOutput) async" where
  "apply_writes_loop P writer did [] results last_commit = Ready (Ok \<lparr>awo_commit = last_commit, awo_results = results\<rparr>)"
| "apply_writes_loop P writer did (write # ws) results last_commit =
     await_ok (apply_write P writer did write) (\<lambda>(outcome, result).
     apply_writes_loop P writer did ws (results @ [result])
       (Some \<lparr>cm_cid = cid_to_string P (wo_commit_cid outcome), cm_rev = wo_rev outcome\<rparr>))"

definition apply_writes ::
  "'x repo_prims_scheme \<Rightarrow> ('s, 'z) AppState_scheme \<Rightarrow> Parts \<Rightarrow> ApplyWritesInput \<Rightarrow> ('s world, XrpcError + ApplyWritesOutput) async" where
  "apply_writes P state parts input =
     await_ok (AccessAuth P state parts) (\<lambda>did.
     if aw_repo input \<noteq> did then Ready (Err (XrpcError.InvalidRequest ''repo must match the authenticated DID''))
     else if aw_writes input = [] then Ready (Ok \<lparr>awo_commit = None, awo_results = []\<rparr>)
     else await_ok (build_writer P state did) (\<lambda>writer.
     apply_writes_loop P writer did (aw_writes input) [] None))"

subsection \<open>putRecord, getRecord, deleteRecord\<close>

record PutRecordInput =
  pi_repo :: string
  pi_collection :: string
  pi_rkey :: string
  pi_record :: json

record PutRecordOutput =
  po_uri :: string
  po_cid :: string
  po_commit :: "CommitMeta option"

definition put_record ::
  "'x repo_prims_scheme \<Rightarrow> ('s, 'z) AppState_scheme \<Rightarrow> Parts \<Rightarrow> PutRecordInput \<Rightarrow> ('s world, XrpcError + PutRecordOutput) async" where
  "put_record P state parts input =
     await_ok (AccessAuth P state parts) (\<lambda>did.
     if pi_repo input \<noteq> did then Ready (Err (XrpcError.InvalidRequest ''repo must match the authenticated DID''))
     else try_ok (xrpc_validate_collection (pi_collection input)) (\<lambda>_.
     try_ok (xrpc_validate_rkey (pi_rkey input)) (\<lambda>_.
     let mst_key = pi_collection input @ ''/'' @ pi_rkey input in
     await_ok (lookup_record_cid P state did mst_key) (\<lambda>found.
     try_ok (xrpc_json_value_to_ipld P (pi_record input)) (\<lambda>ipld.
     await_ok (build_writer P state did) (\<lambda>writer.
     let op = (if found \<noteq> None then Update mst_key ipld else Create mst_key ipld) in
     await_ok (xrepo (apply_one P writer op)) (\<lambda>outcome.
     Ready (Ok \<lparr>po_uri = at_uri did (pi_collection input @ ''/'' @ pi_rkey input),
       po_cid = (case wo_record_cid outcome of Some c \<Rightarrow> cid_to_string P c | None \<Rightarrow> []),
       po_commit = Some \<lparr>cm_cid = cid_to_string P (wo_commit_cid outcome), cm_rev = wo_rev outcome\<rparr>\<rparr>))))))))"

record GetRecordParams =
  gp_repo :: string
  gp_collection :: string
  gp_rkey :: string

record GetRecordOutput =
  go_uri :: string
  go_cid :: string
  go_value :: json

definition xrpc_get_record ::
  "'x repo_prims_scheme \<Rightarrow> ('s, 'z) AppState_scheme \<Rightarrow> GetRecordParams \<Rightarrow> ('s world, XrpcError + GetRecordOutput) async" where
  "xrpc_get_record P state params =
     await_ok (resolve_repo_did state (gp_repo params)) (\<lambda>did.
     let mst_key = gp_collection params @ ''/'' @ gp_rkey params in
     await_ok (lookup_record_cid P state did mst_key) (\<lambda>found.
     try_ok (ok_or (XrpcError.InvalidRequest ''record not found'') found) (\<lambda>cid.
     await_ok (xread P (st_store state) ''read_block_bytes for '' cid) (\<lambda>bs.
     try_ok (xdecode P cid bs) (\<lambda>value.
     Ready (Ok \<lparr>go_uri = at_uri did (gp_collection params @ ''/'' @ gp_rkey params), go_cid = cid_to_string P cid,
       go_value = value\<rparr>))))))"

record DeleteRecordInput =
  dr_repo :: string
  dr_collection :: string
  dr_rkey :: string

definition delete_record ::
  "'x repo_prims_scheme \<Rightarrow> ('s, 'z) AppState_scheme \<Rightarrow> Parts \<Rightarrow> DeleteRecordInput \<Rightarrow> ('s world, XrpcError + CommitMeta option) async" where
  "delete_record P state parts input =
     await_ok (AccessAuth P state parts) (\<lambda>did.
     if dr_repo input \<noteq> did then Ready (Err (XrpcError.InvalidRequest ''repo must match the authenticated DID''))
     else try_ok (xrpc_validate_collection (dr_collection input)) (\<lambda>_.
     try_ok (xrpc_validate_rkey (dr_rkey input)) (\<lambda>_.
     let mst_key = dr_collection input @ ''/'' @ dr_rkey input in
     await_ok (lookup_record_cid P state did mst_key) (\<lambda>found.
     if found = None then Ready (Ok None)
     else await_ok (build_writer P state did) (\<lambda>writer.
     await_ok (xrepo (apply_one P writer (Delete mst_key))) (\<lambda>outcome.
     Ready (Ok (Some \<lparr>cm_cid = cid_to_string P (wo_commit_cid outcome), cm_rev = wo_rev outcome\<rparr>))))))))"

subsection \<open>describeRepo\<close>

record DescribeRepoOutput =
  dro_handle :: string
  dro_did :: string
  dro_did_doc :: DidDocument
  dro_collections :: "string list"
  dro_handle_is_correct :: bool

text \<open>\<open>BTreeSet<String>\<close>: sorted without repetition.\<close>

primrec collections_set ::
  "'s StorageBackend \<Rightarrow> entries \<Rightarrow> string list \<Rightarrow> ('s world, XrpcError + string list) async" where
  "collections_set B EntriesDone acc = Ready (Ok acc)"
| "collections_set B (EntriesFail e) acc = Ready (Err (XrpcError.Internal (''MST stream error: '' @ e)))"
| "collections_set B (EntriesRead c k) acc = abind (read_block_into B c) (\<lambda>r. collections_set B (k r) acc)"
| "collections_set B (EntriesItem key cid rest) acc =
     collections_set B rest (case split_once CHR ''/'' key of
       Some (collection, _) \<Rightarrow> (if collection \<in> set acc then acc else insort collection acc)
     | None \<Rightarrow> acc)"

definition xrpc_list_collections ::
  "'x repo_prims_scheme \<Rightarrow> ('s, 'z) AppState_scheme \<Rightarrow> string \<Rightarrow> ('s world, XrpcError + string list) async" where
  "xrpc_list_collections P state did =
     await_ok (xdb (load_repo_root (repo_ops (st_store state)) did)) (\<lambda>root. case root of
       None \<Rightarrow> Ready (Ok [])
     | Some root_cid \<Rightarrow>
         await_ok (xbs P (st_store state) ''failed to open repo: '' (repo_open P root_cid) []) (\<lambda>(repo, _).
         collections_set (st_store state) (tree_entries_prefixed P repo []) []))"

definition build_did_doc ::
  "'x repo_prims_scheme \<Rightarrow> ('s, 'z) AppState_scheme \<Rightarrow> string \<Rightarrow> string \<Rightarrow> ('s world, XrpcError + DidDocument) async" where
  "build_did_doc P state did handle =
     await_ok (load_signing_key_cached P state did) (\<lambda>signing.
     let key_did = k256_did P signing;
         public_key_multibase = (case strip_prefix key_did ''did:key:'' of Some m \<Rightarrow> m | None \<Rightarrow> key_did) in
     Ready (Ok
       \<lparr>dd_context = [''https://www.w3.org/ns/did/v1'', ''https://w3id.org/security/multikey/v1''],
        dd_id = did, dd_also_known_as = [''at://'' @ handle],
        dd_verification_method = [\<lparr>vm_id = did @ ''#atproto'', vm_type = ''Multikey'', vm_controller = did,
          vm_public_key_multibase = public_key_multibase\<rparr>],
        dd_service = [\<lparr>se_id = ''#atproto_pds'', se_service_type = ''AtprotoPersonalDataServer'',
          se_service_endpoint = st_pds_endpoint state\<rparr>]\<rparr>))"

definition describe_repo ::
  "'x repo_prims_scheme \<Rightarrow> ('s, 'z) AppState_scheme \<Rightarrow> string \<Rightarrow> ('s world, XrpcError + DescribeRepoOutput) async" where
  "describe_repo P state repo =
     await_ok (resolve_repo_did state repo) (\<lambda>did.
     await_ok (xdb (get_handle_by_did (account_ops (st_store state)) did)) (\<lambda>found.
     try_ok (ok_or (XrpcError.InvalidRequest (''repo not found: '' @ repo)) found) (\<lambda>handle.
     await_ok (xrpc_list_collections P state did) (\<lambda>collections.
     await_ok (build_did_doc P state did handle) (\<lambda>did_doc.
     Ready (Ok \<lparr>dro_handle = handle, dro_did = did, dro_did_doc = did_doc, dro_collections = collections,
       dro_handle_is_correct = True\<rparr>))))))"

subsection \<open>Blobs\<close>

record UploadedBlob =
  ub_type :: string
  ub_link :: string
  ub_mime_type :: string
  ub_size :: int

definition upload_blob ::
  "'x repo_prims_scheme \<Rightarrow> ('s, 'z) AppState_scheme \<Rightarrow> Parts \<Rightarrow> bytes \<Rightarrow> ('s world, XrpcError + UploadedBlob) async" where
  "upload_blob P state parts body =
     await_ok (AccessAuth P state parts) (\<lambda>did.
     if body = [] then Ready (Err (XrpcError.InvalidRequest ''empty blob''))
     else
       let mime_type = (case Option.bind (header_get (pa_headers parts) ''content-type'') header_str_of of
             Some v \<Rightarrow> v | None \<Rightarrow> ''application/octet-stream'');
           cid = Cid 0x55 SHA2_256 (sha256 P body);
           cid_str = cid_to_string P cid;
           size = int (length body) in
       await_ok (xdb (put_blob (blob_ops (st_store state)) did cid_str mime_type size body)) (\<lambda>_.
       Ready (Ok \<lparr>ub_type = ''blob'', ub_link = cid_str, ub_mime_type = mime_type, ub_size = size\<rparr>)))"

text \<open>The content type and the body of the answer.\<close>

definition xrpc_get_blob ::
  "('s, 'z) AppState_scheme \<Rightarrow> string \<Rightarrow> string \<Rightarrow> ('s world, XrpcError + string \<times> bytes) async" where
  "xrpc_get_blob state did cid =
     await_ok (xdb (get_blob (blob_ops (st_store state)) did cid)) (\<lambda>found.
     Ready (ok_or (XrpcError.InvalidRequest ''blob not found'') found))"

subsection \<open>getRepo and listRecords\<close>

fun get_repo_loop :: "'x repo_prims_scheme \<Rightarrow> 's StorageBackend \<Rightarrow> Cid list \<Rightarrow> bytes \<Rightarrow> ('s world, XrpcError + bytes) async" where
  "get_repo_loop P B [] buf = Ready (map_err (\<lambda>e. XrpcError.Internal (''CarWriter::finish failed: '' @ e)) (car_finish P buf))"
| "get_repo_loop P B (cid # cids) buf =
     await_ok (xread P B ''read_block_bytes failed for '' cid) (\<lambda>bs.
     try_ok (map_err (\<lambda>e. XrpcError.Internal (''CarWriter::write failed: '' @ e)) (car_write P buf cid bs)) (\<lambda>buf.
     get_repo_loop P B cids buf))"

definition get_repo ::
  "'x repo_prims_scheme \<Rightarrow> ('s, 'z) AppState_scheme \<Rightarrow> string option \<Rightarrow> ('s world, XrpcError + string \<times> bytes) async" where
  "get_repo P state param =
     try_ok (ok_or (XrpcError.InvalidRequest ''missing required query param: did'') param) (\<lambda>did.
     await_ok (xdb (load_repo_root (repo_ops (st_store state)) did)) (\<lambda>root.
     try_ok (ok_or (XrpcError.InvalidRequest (''repo not found for did: '' @ did)) root) (\<lambda>root_cid.
     await_ok (xbs P (st_store state) ''failed to open repo: '' (repo_open P root_cid) []) (\<lambda>(repo, diff).
     await_ok (xbs P (st_store state) ''repo export failed: '' (repo_export P repo) diff) (\<lambda>(cids, _).
     await_ok (get_repo_loop P (st_store state) cids (car_new P [root_cid])) (\<lambda>buf.
     Ready (Ok (''application/vnd.ipld.car'', buf))))))))"

record ListRecordsParams =
  lp_repo :: string
  lp_collection :: string
  lp_limit :: "nat option"
  lp_cursor :: "string option"

record ListedRecord =
  lr_uri :: string
  lr_cid :: string
  lr_value :: json

record ListRecordsOutput =
  lro_records :: "ListedRecord list"
  lro_cursor :: "string option"

primrec xrpc_list_loop ::
  "'x repo_prims_scheme \<Rightarrow> 's StorageBackend \<Rightarrow> string \<Rightarrow> nat \<Rightarrow> string option \<Rightarrow> entries \<Rightarrow> ListedRecord list \<Rightarrow>
     ('s world, XrpcError + ListedRecord list) async" where
  "xrpc_list_loop P B did limit cursor EntriesDone records = Ready (Ok records)"
| "xrpc_list_loop P B did limit cursor (EntriesFail e) records = Ready (Err (XrpcError.Internal (''MST stream error: '' @ e)))"
| "xrpc_list_loop P B did limit cursor (EntriesRead c k) records =
     abind (read_block_into B c) (\<lambda>r. xrpc_list_loop P B did limit cursor (k r) records)"
| "xrpc_list_loop P B did limit cursor (EntriesItem key cid rest) records =
     (if (case cursor of Some c \<Rightarrow> key \<le> c | None \<Rightarrow> False) then xrpc_list_loop P B did limit cursor rest records
      else
        await_ok (xread P B ''read_block_bytes for '' cid) (\<lambda>bs.
        try_ok (xdecode P cid bs) (\<lambda>value.
        let records = records @ [\<lparr>lr_uri = at_uri did key, lr_cid = cid_to_string P cid, lr_value = value\<rparr>] in
        if length records \<ge> limit then Ready (Ok records) else xrpc_list_loop P B did limit cursor rest records)))"

definition xrpc_list_records ::
  "'x repo_prims_scheme \<Rightarrow> ('s, 'z) AppState_scheme \<Rightarrow> ListRecordsParams \<Rightarrow> ('s world, XrpcError + ListRecordsOutput) async" where
  "xrpc_list_records P state params =
     (let limit = (case lp_limit params of Some l \<Rightarrow> min (max l 1) 100 | None \<Rightarrow> 50); did = lp_repo params in
      await_ok (xdb (load_repo_root (repo_ops (st_store state)) did)) (\<lambda>root.
      try_ok (ok_or (XrpcError.InvalidRequest (''repo not found for did: '' @ did)) root) (\<lambda>root_cid.
      await_ok (xbs P (st_store state) ''failed to open repo: '' (repo_open P root_cid) []) (\<lambda>(repo, _).
      let prefix = lp_collection params @ ''/'' in
      await_ok (xrpc_list_loop P (st_store state) did limit (lp_cursor params) (tree_entries_prefixed P repo prefix) []) (\<lambda>records.
      let next_cursor = (if length records = limit \<and> records \<noteq> [] then
            Some (case strip_prefix (lr_uri (last records)) (at_uri did []) of Some k \<Rightarrow> k | None \<Rightarrow> []) else None) in
      Ready (Ok \<lparr>lro_records = records, lro_cursor = next_cursor\<rparr>))))))"

end
