(* ===== verification/Interference.thy ===== *)
theory Interference
  imports PDS_World
begin

text \<open>
  A program among others. \<open>amid R p s tr a s'\<close> runs \<open>p\<close> from \<open>s\<close> to its result \<open>a\<close> in \<open>s'\<close>, where
  before each of its atomic operations the other tasks may have moved the state along \<open>R\<close>; \<open>tr\<close>
  lists the program's own operations, each as the state before and after it. With equality for \<open>R\<close>
  this is \<open>run\<close>.
\<close>

inductive amid :: "('s \<Rightarrow> 's \<Rightarrow> bool) \<Rightarrow> ('s, 'a) async \<Rightarrow> 's \<Rightarrow> ('s \<times> 's) list \<Rightarrow> 'a \<Rightarrow> 's \<Rightarrow> bool" for R where
  amid_done: "amid R (Ready a) s [] a s"
| amid_step: "R s s1 \<Longrightarrow> f s1 = (p, s2) \<Longrightarrow> amid R p s2 tr a s' \<Longrightarrow> amid R (Await f) s ((s1, s2) # tr) a s'"

inductive_simps amid_Ready [simp]: "amid R (Ready a) s tr b s'"
inductive_cases amid_AwaitE: "amid R (Await f) s tr b s'"

lemma amid_Await:
  "amid R (Await f) s tr b s' \<longleftrightarrow>
     (\<exists>s1 tr'. R s s1 \<and> tr = (s1, snd (f s1)) # tr' \<and> amid R (fst (f s1)) (snd (f s1)) tr' b s')"
proof
  assume "amid R (Await f) s tr b s'"
  then show "\<exists>s1 tr'. R s s1 \<and> tr = (s1, snd (f s1)) # tr' \<and> amid R (fst (f s1)) (snd (f s1)) tr' b s'"
    by (rule amid_AwaitE) auto
next
  assume "\<exists>s1 tr'. R s s1 \<and> tr = (s1, snd (f s1)) # tr' \<and> amid R (fst (f s1)) (snd (f s1)) tr' b s'"
  then obtain s1 tr' where "R s s1" "tr = (s1, snd (f s1)) # tr'" "amid R (fst (f s1)) (snd (f s1)) tr' b s'" by blast
  then show "amid R (Await f) s tr b s'" using amid_step [of R s s1 f "fst (f s1)" "snd (f s1)"] by simp
qed

lemma amid_abind:
  "amid R (abind p k) s tr b s'' \<longleftrightarrow>
     (\<exists>tr1 a s' tr2. amid R p s tr1 a s' \<and> amid R (k a) s' tr2 b s'' \<and> tr = tr1 @ tr2)"
proof (induction p arbitrary: s tr)
  case (Await f)
  have "amid R (abind (Await f) k) s tr b s'' \<longleftrightarrow> (\<exists>s1 tr'. R s s1 \<and> tr = (s1, snd (f s1)) # tr' \<and>
      amid R (abind (fst (f s1)) k) (snd (f s1)) tr' b s'')"
    by (simp add: amid_Await)
  also have "\<dots> \<longleftrightarrow> (\<exists>s1 tr1 a s' tr2. R s s1 \<and> tr = (s1, snd (f s1)) # tr1 @ tr2 \<and>
      amid R (fst (f s1)) (snd (f s1)) tr1 a s' \<and> amid R (k a) s' tr2 b s'')"
    unfolding Await by blast
  also have "\<dots> \<longleftrightarrow> (\<exists>tr1 a s' tr2. amid R (Await f) s tr1 a s' \<and> amid R (k a) s' tr2 b s'' \<and> tr = tr1 @ tr2)"
    unfolding amid_Await by (safe; (metis append_Cons | fastforce))
  finally show ?case .
qed simp

lemma amid_atomic: "amid R (atomic f) s tr a s' \<longleftrightarrow> (\<exists>s1. R s s1 \<and> f s1 = (a, s') \<and> tr = [(s1, s')])"
proof -
  have "amid R (atomic f) s tr a s' \<longleftrightarrow> (\<exists>s1. R s s1 \<and> tr = [(s1, snd (f s1))] \<and> a = fst (f s1) \<and> s' = snd (f s1))"
    by (auto simp: atomic_def amid_Await case_prod_beta)
  then show ?thesis by (metis fst_conv prod.collapse snd_conv)
qed

lemma amid_await_okE:
  assumes "amid R (await_ok p k) s tr b s''"
  obtains e where "amid R p s tr (Inl e) s''" "b = Inl e"
  | tr1 a s' tr2 where "amid R p s tr1 (Inr a) s'" "amid R (k a) s' tr2 b s''" "tr = tr1 @ tr2"
proof -
  from assms obtain tr1 r s' tr2 where "amid R p s tr1 r s'"
    "amid R (case r of Inl e \<Rightarrow> Ready (Inl e) | Inr a \<Rightarrow> k a) s' tr2 b s''" "tr = tr1 @ tr2"
    unfolding await_ok_def amid_abind by blast
  then show ?thesis using that by (cases r) auto
qed

lemma amid_dbE:
  assumes "amid R (db op) w tr r w'"
  obtains w1 s where "R w w1" "op (w_store w1) = (r, s)" "w' = w1\<lparr>w_store := s\<rparr>" "tr = [(w1, w')]"
proof -
  from assms obtain w1 where w1: "R w w1" "(case op (w_store w1) of (r, s') \<Rightarrow> (r, w1\<lparr>w_store := s'\<rparr>)) = (r, w')" "tr = [(w1, w')]"
    unfolding db_def amid_atomic by blast
  then show ?thesis using that [of w1 "snd (op (w_store w1))"] by (cases "op (w_store w1)") auto
qed

lemma amid_run:
  assumes "\<And>s. R s s"
  shows "run p s = (a, s') \<Longrightarrow> \<exists>tr. amid R p s tr a s'"
proof (induction p arbitrary: s)
  case (Await f)
  obtain p s2 where p: "f s = (p, s2)" by (cases "f s")
  with Await.prems have "run p s2 = (a, s')" by (simp add: run_Await)
  with Await.IH [of s s2] p obtain tr where "amid R p s2 tr a s'" by auto
  with p assms show ?case by (blast intro: amid_step)
qed auto

text \<open>
  Reasoning about a program under interference. \<open>guards\<close> says that from a state satisfying \<open>A\<close> every
  operation of the program is one of \<open>G\<close>, and the result and the final state satisfy \<open>Q\<close>.
\<close>

definition guards ::
  "('s \<Rightarrow> 's \<Rightarrow> bool) \<Rightarrow> ('s \<Rightarrow> 's \<Rightarrow> bool) \<Rightarrow> ('s \<Rightarrow> bool) \<Rightarrow> ('s, 'a) async \<Rightarrow> ('a \<Rightarrow> 's \<Rightarrow> bool) \<Rightarrow> bool" where
  "guards R G A p Q = (\<forall>s tr a s'. A s \<and> amid R p s tr a s' \<longrightarrow> list_all (\<lambda>(s1, s2). G s1 s2) tr \<and> Q a s')"

lemma guardsD: "guards R G A p Q \<Longrightarrow> amid R p s tr a s' \<Longrightarrow> A s \<Longrightarrow> list_all (\<lambda>(s1, s2). G s1 s2) tr \<and> Q a s'"
  by (auto simp: guards_def)

lemma guardsI:
  "(\<And>s tr a s'. A s \<Longrightarrow> amid R p s tr a s' \<Longrightarrow> list_all (\<lambda>(s1, s2). G s1 s2) tr \<and> Q a s') \<Longrightarrow> guards R G A p Q"
  unfolding guards_def by blast

lemma guards_weaken:
  assumes "guards R G A p Q" "\<And>s. A' s \<Longrightarrow> A s" "\<And>a s. Q a s \<Longrightarrow> Q' a s"
  shows "guards R G A' p Q'"
  by (rule guardsI) (use guardsD [OF assms(1)] assms(2,3) in blast)

lemma guards_pre: "guards R G A p Q \<Longrightarrow> (\<And>s. A' s \<Longrightarrow> A s) \<Longrightarrow> guards R G A' p Q"
  by (rule guards_weaken)

lemma guards_Ready: "(\<And>s. A s \<Longrightarrow> Q a s) \<Longrightarrow> guards R G A (Ready a) Q"
  by (auto simp: guards_def)

lemma guards_abind:
  assumes "guards R G A p Q" "\<And>a. guards R G (Q a) (k a) Q'"
  shows "guards R G A (abind p k) Q'"
proof (rule guardsI)
  fix s tr b s'
  assume "A s" "amid R (abind p k) s tr b s'"
  then obtain tr1 a s1 tr2 where e: "amid R p s tr1 a s1" "amid R (k a) s1 tr2 b s'" "tr = tr1 @ tr2"
    unfolding amid_abind by blast
  from guardsD [OF assms(1) e(1) \<open>A s\<close>] guardsD [OF assms(2) e(2)] e(3)
  show "list_all (\<lambda>(s1, s2). G s1 s2) tr \<and> Q' b s'" by simp
qed

lemma guards_await_ok:
  assumes "guards R G A p Q" "\<And>a. guards R G (Q (Inr a)) (k a) Q'" "\<And>e s. Q (Inl e) s \<Longrightarrow> Q' (Inl e) s"
  shows "guards R G A (await_ok p k) Q'"
  unfolding await_ok_def using assms by (intro guards_abind [OF assms(1)]) (auto intro: guards_Ready split: sum.split)

lemma guards_try_ok:
  assumes "\<And>a. r = Inr a \<Longrightarrow> guards R G A (k a) Q" "\<And>e s. r = Inl e \<Longrightarrow> A s \<Longrightarrow> Q (Inl e) s"
  shows "guards R G A (try_ok r k) Q"
  using assms by (cases r) (auto intro: guards_Ready)

lemma guards_atomic:
  assumes "\<And>s s1. A s \<Longrightarrow> R s s1 \<Longrightarrow> G s1 (snd (f s1)) \<and> Q (fst (f s1)) (snd (f s1))"
  shows "guards R G A (atomic f) Q"
proof (rule guardsI)
  fix s tr a s'
  assume "A s" "amid R (atomic f) s tr a s'"
  then obtain s1 where "R s s1" "f s1 = (a, s')" "tr = [(s1, s')]" unfolding amid_atomic by blast
  with assms [OF \<open>A s\<close>, of s1] show "list_all (\<lambda>(s1, s2). G s1 s2) tr \<and> Q a s'" by simp
qed

lemma guards_pure: "(F \<Longrightarrow> guards R G A p Q) \<Longrightarrow> guards R G (\<lambda>s. F \<and> A s) p Q"
  by (auto simp: guards_def)

text \<open>What neither the program nor its surroundings can undo stays true.\<close>

lemma amid_stable:
  assumes "amid R p s tr a s'" "list_all (\<lambda>(s1, s2). G s1 s2) tr" "F s"
    and "\<And>s s'. F s \<Longrightarrow> R s s' \<Longrightarrow> F s'" "\<And>s s'. F s \<Longrightarrow> G s s' \<Longrightarrow> F s'"
  shows "F s'"
  using assms(1-3)
proof induction
  case (amid_step s s1 f p s2 tr a s')
  then have "F s2" using assms(4,5) by (metis case_prod_conv list.pred_inject(2))
  with amid_step show ?case by simp
qed

lemma guards_frame:
  assumes "guards R G A p Q" "\<And>s s'. F s \<Longrightarrow> R s s' \<Longrightarrow> F s'" "\<And>s s'. F s \<Longrightarrow> G s s' \<Longrightarrow> F s'"
  shows "guards R G (\<lambda>s. A s \<and> F s) p (\<lambda>a s. Q a s \<and> F s)"
proof (rule guardsI)
  fix s tr a s'
  assume s: "A s \<and> F s" and e: "amid R p s tr a s'"
  with guardsD [OF assms(1) e] have g: "list_all (\<lambda>(s1, s2). G s1 s2) tr" "Q a s'" by auto
  have "F s'" by (rule amid_stable [of R p s tr a s' G F, OF e g(1)]) (use s assms(2,3) in blast)+
  with g show "list_all (\<lambda>(s1, s2). G s1 s2) tr \<and> Q a s' \<and> F s'" by blast
qed

end
