(* ===== verification/Repo_Laws.thy ===== *)
theory Repo_Laws
  imports Repo_Handlers Interference
begin

text \<open>
  Laws of the repository writer among other tasks. \<open>others\<close> is what the rest of the server may do
  while a commit holds its DID's lock: anything that keeps the store in order, loses no block and
  leaves this DID's root alone. \<open>stages\<close> is what the writer's own operations do before the commit
  lands: they add blocks and change nothing else.
\<close>

definition others :: "('s \<Rightarrow> bool) \<Rightarrow> ('s \<Rightarrow> view) \<Rightarrow> string \<Rightarrow> 's world \<Rightarrow> 's world \<Rightarrow> bool" where
  "others good \<alpha> did w w' = (good (w_store w) \<longrightarrow> good (w_store w') \<and>
     v_roots (\<alpha> (w_store w')) did = v_roots (\<alpha> (w_store w)) did \<and> v_blocks (\<alpha> (w_store w)) \<subseteq>\<^sub>m v_blocks (\<alpha> (w_store w')))"

definition stages :: "('s \<Rightarrow> bool) \<Rightarrow> ('s \<Rightarrow> view) \<Rightarrow> 's world \<Rightarrow> 's world \<Rightarrow> bool" where
  "stages good \<alpha> w w' = (good (w_store w) \<longrightarrow> good (w_store w') \<and> v_log (\<alpha> (w_store w')) = v_log (\<alpha> (w_store w)) \<and>
     v_roots (\<alpha> (w_store w')) = v_roots (\<alpha> (w_store w)) \<and> v_blocks (\<alpha> (w_store w)) \<subseteq>\<^sub>m v_blocks (\<alpha> (w_store w')) \<and>
     w_published w' = w_published w)"

text \<open>The results a program of the repository crate can have, over all answers of the block store.\<close>

primrec bs_yields :: "'a bs \<Rightarrow> 'a \<Rightarrow> bool" where
  "bs_yields (BsDone a) b = (b = a)"
| "bs_yields (BsFail e) b = False"
| "bs_yields (BsRead c k) b = (\<exists>r. bs_yields (k r) b)"
| "bs_yields (BsWrite codec hash contents k) b = (\<exists>r. bs_yields (k r) b)"

lemma others_refl: "others good \<alpha> did w w"
  by (simp add: others_def)

lemma stages_others: "stages good \<alpha> w w' \<Longrightarrow> others good \<alpha> did w w'"
  by (simp add: stages_def others_def)

subsection \<open>Sequencing\<close>

lemma abind_assoc: "abind (abind p f) g = abind p (\<lambda>a. abind (f a) g)"
  by (induction p) (auto simp: fun_eq_iff map_prod_def case_prod_beta)

lemma await_ok_await_ok [simp]: "await_ok (await_ok p k) h = await_ok p (\<lambda>a. await_ok (k a) h)"
  by (auto simp: await_ok_def abind_assoc intro!: arg_cong [where f = "abind p"] split: sum.splits)

lemma await_ok_abind [simp]: "await_ok (abind p k) h = abind p (\<lambda>a. await_ok (k a) h)"
  by (simp add: await_ok_def abind_assoc)

lemma await_ok_try_ok [simp]: "await_ok (try_ok r k) h = try_ok r (\<lambda>a. await_ok (k a) h)"
  by (cases r) (simp_all add: await_ok_def)

lemma await_ok_Ready [simp]: "await_ok (Ready r) h = try_ok r h"
  by (simp add: await_ok_def try_ok_def)

context storage_backend
begin

text \<open>A fallible program that only stages, from states satisfying \<open>A\<close>: the store stays in order, and
  if the program succeeds its value and the state it ends in satisfy \<open>Q\<close>.\<close>

definition quietly :: "string \<Rightarrow> ('s world \<Rightarrow> bool) \<Rightarrow> ('s world, 'e + 'a) async \<Rightarrow> ('a \<Rightarrow> 's world \<Rightarrow> bool) \<Rightarrow> bool" where
  "quietly did A p Q = guards (others good \<alpha> did) (stages good \<alpha>) (\<lambda>w. good (w_store w) \<and> A w) p
     (\<lambda>r w. good (w_store w) \<and> (\<forall>a. r = Inr a \<longrightarrow> Q a w))"

lemma quietly_conseq:
  "quietly did A p Q \<Longrightarrow> (\<And>w. A' w \<Longrightarrow> A w) \<Longrightarrow> (\<And>a w. Q a w \<Longrightarrow> Q' a w) \<Longrightarrow> quietly did A' p Q'"
  unfolding quietly_def by (erule guards_weaken) auto

lemma quietly_pre: "quietly did A p Q \<Longrightarrow> (\<And>w. A' w \<Longrightarrow> A w) \<Longrightarrow> quietly did A' p Q"
  by (rule quietly_conseq)

lemma quietly_any: "quietly did (\<lambda>_. True) p Q \<Longrightarrow> quietly did A p Q"
  by (erule quietly_pre) simp

lemma quietly_pure: "(\<And>w. A w \<Longrightarrow> F) \<Longrightarrow> (F \<Longrightarrow> quietly did A p Q) \<Longrightarrow> quietly did A p Q"
  unfolding quietly_def guards_def by blast

lemma quietly_Ready: "(\<And>a w. r = Inr a \<Longrightarrow> A w \<Longrightarrow> Q a w) \<Longrightarrow> quietly did A (Ready r) Q"
  unfolding quietly_def by (rule guards_Ready) auto

lemma quietly_await:
  assumes "quietly did A p Q" "\<And>a. quietly did (Q a) (k a) Q'"
  shows "quietly did A (await_ok p k) Q'"
  unfolding quietly_def
  by (rule guards_await_ok [OF assms(1) [unfolded quietly_def]], rule guards_pre [OF assms(2) [unfolded quietly_def]]) auto

lemma quietly_try: "(\<And>a. r = Inr a \<Longrightarrow> quietly did A (k a) Q) \<Longrightarrow> quietly did A (try_ok r k) Q"
  by (cases r) (auto intro: quietly_Ready)

lemma quietly_case_prod2: "(\<And>x y. a = (x, y) \<Longrightarrow> quietly did A (f x y z) Q) \<Longrightarrow> quietly did A ((case a of (x, y) \<Rightarrow> f x y) z) Q"
  by (cases a) simp

lemma quietly_case_prod: "(\<And>x y. a = (x, y) \<Longrightarrow> quietly did A (f x y) Q) \<Longrightarrow> quietly did A (case a of (x, y) \<Rightarrow> f x y) Q"
  by (cases a) simp

lemma quietly_abind:
  assumes "guards (others good \<alpha> did) (stages good \<alpha>) (\<lambda>w. good (w_store w) \<and> A w) p (\<lambda>r w. good (w_store w) \<and> Q r w)"
    "\<And>a. quietly did (Q a) (k a) Q'"
  shows "quietly did A (abind p k) Q'"
  unfolding quietly_def by (rule guards_abind [OF assms(1)], rule assms(2) [unfolded quietly_def])

lemma quietly_framed:
  assumes "quietly did (\<lambda>_. True) p Q" and "\<And>w w'. good (w_store w) \<Longrightarrow> F w \<Longrightarrow> others good \<alpha> did w w' \<Longrightarrow> F w'"
  shows "quietly did F p (\<lambda>r w. Q r w \<and> F w)"
  unfolding quietly_def
proof (rule guards_weaken [OF guards_frame [OF assms(1) [unfolded quietly_def], where F = "\<lambda>w. good (w_store w) \<and> F w"]], goal_cases)
  case (1 w w')
  then show ?case using assms(2) by (auto simp: others_def)
next
  case (2 w w')
  then show ?case using assms(2) [of w w'] stages_others [of good \<alpha> w w' did] by (auto simp: stages_def)
qed auto

subsection \<open>The writer's steps\<close>

lemma quietly_db:
  assumes "meets good up \<alpha> op S"
    and "\<And>v r v'. S v r v' \<Longrightarrow> v_log v' = v_log v \<and> v_roots v' = v_roots v \<and> v_blocks v \<subseteq>\<^sub>m v_blocks v'"
  shows "quietly did (\<lambda>_. True) (db op) (\<lambda>a w. \<exists>v. S v (Ok a) (\<alpha> (w_store w)))"
  unfolding db_def quietly_def
proof (rule guards_atomic, goal_cases)
  case (1 w w1)
  then have g: "good (w_store w1)" by (simp add: others_def)
  obtain r s where r: "op (w_store w1) = (r, s)" by (cases "op (w_store w1)")
  from meets_step [OF assms(1) g r] assms(2) [of "\<alpha> (w_store w1)" r "\<alpha> s"] r show ?case
    by (auto simp: stages_def)
qed

text \<open>An operation whose result is only looked at, whatever it is.\<close>

lemma quietly_then:
  assumes "quietly did A p Q" "\<And>r. quietly did (\<lambda>w. \<forall>a. r = Inr a \<longrightarrow> Q a w) (k r) Q'"
  shows "quietly did A (abind p k) Q'"
  by (rule quietly_abind [OF assms(1) [unfolded quietly_def] assms(2)])

lemma quietly_rdb:
  assumes "meets good up \<alpha> op S"
    and "\<And>v r v'. S v r v' \<Longrightarrow> v_log v' = v_log v \<and> v_roots v' = v_roots v \<and> v_blocks v \<subseteq>\<^sub>m v_blocks v'"
  shows "quietly did (\<lambda>_. True) (rdb op) (\<lambda>a w. \<exists>v. S v (Ok a) (\<alpha> (w_store w)))"
  unfolding rdb_def
  by (rule quietly_then [OF quietly_db [OF assms]], assumption+, rule quietly_Ready) (auto simp: map_err_def split: sum.splits)

lemma quietly_read:
  "quietly did (\<lambda>_. True) (rdb (read_block_bytes (repo_ops B) c)) (\<lambda>b w. v_blocks (\<alpha> (w_store w)) c = Some b)"
  by (rule quietly_conseq [OF quietly_rdb [OF repo.read_block]]) (auto simp: spec_read_block_def ok_or_def split: option.splits)

lemma quietly_read_into: "quietly did (\<lambda>_. True) (read_block_into B c) (\<lambda>_ _. True)"
  unfolding read_block_into_def
  by (rule quietly_then [OF quietly_db [OF repo.read_block]]) (auto simp: spec_read_block_def intro: quietly_Ready)

lemma quietly_write_block:
  "quietly did (\<lambda>_. True) (write_block P B codec hash contents) (\<lambda>c _. c = cid_of P codec contents)"
proof -
  have "quietly did (\<lambda>_. True) (db (put_block (repo_ops B) c b)) (\<lambda>r w. True)" for c b
    by (rule quietly_conseq [OF quietly_db [OF repo.put_block]])
      (auto simp: spec_put_block_def writes_def put_if_absent_def map_le_def split: option.splits)
  note put = this
  show ?thesis
    unfolding write_block_def Let_def
    by (auto simp: map_err_def and_then_Ok_iff split: sum.splits intro!: quietly_Ready quietly_then [OF put])
qed

lemma quietly_run_bs: "quietly did (\<lambda>_. True) (run_bs P B p written) (\<lambda>(a, written') _. bs_yields p a)"
proof (induction p arbitrary: written)
  case (BsRead c k)
  show ?case
    unfolding run_bs.simps
    by (rule quietly_then [OF quietly_read_into], rule quietly_conseq [OF BsRead [OF rangeI]]) auto
next
  case (BsWrite codec hash contents k)
  show ?case
    unfolding run_bs.simps
    by (rule quietly_then [OF quietly_write_block], rule quietly_conseq [OF BsWrite [OF rangeI]]) auto
qed (auto intro: quietly_Ready)

lemma quietly_rbs: "quietly did (\<lambda>_. True) (rbs P B p written) (\<lambda>(a, written') _. bs_yields p a)"
  unfolding rbs_def
  by (rule quietly_then [OF quietly_run_bs], rule quietly_Ready) (auto simp: map_err_def split: sum.splits)

lemma quietly_clock:
  "(\<And>a. quietly did (\<lambda>_. True) (k a) Q) \<Longrightarrow> quietly did A (abind now_micros k) Q"
  "(\<And>a. quietly did (\<lambda>_. True) (k' a) Q) \<Longrightarrow> quietly did A (abind now_rfc3339 k') Q"
  unfolding now_micros_def now_rfc3339_def
  by (rule quietly_abind [where Q = "\<lambda>_ _. True"], rule guards_atomic; auto simp: others_def stages_def)+

lemma quietly_read_blocks:
  "quietly did (\<lambda>_. True) (read_blocks B cids) (\<lambda>bs w.
     map fst bs = cids \<and> (\<forall>(c, b) \<in> set bs. v_blocks (\<alpha> (w_store w)) c = Some b))"
proof (induction cids)
  case (Cons c cids)
  show ?case
    unfolding read_blocks.simps
  proof (rule quietly_await [OF quietly_read], rule quietly_await [OF quietly_framed [OF Cons.IH]], goal_cases)
    case (1 b w w')
    then show ?case by (auto simp: others_def map_le_def dom_def)
  next
    case (2 b bs)
    then show ?case by (rule quietly_Ready) auto
  qed
qed (auto intro: quietly_Ready)

lemma quietly_rev_of:
  "quietly did (\<lambda>_. True) (rev_of P B what c) (\<lambda>rv w. \<exists>b. v_blocks (\<alpha> (w_store w)) c = Some b \<and> cbor_commit_rev P b = Ok rv)"
  unfolding rev_of_def by (rule quietly_await [OF quietly_read], rule quietly_Ready) (auto simp: map_err_def split: sum.splits)

end

subsection \<open>What the commit is made of\<close>

text \<open>How a repository came to be open: from its root, or freshly created and signed.\<close>

definition opened :: "'x repo_prims_scheme \<Rightarrow> 's RepoWriter \<Rightarrow> Cid option \<Rightarrow> Repository \<Rightarrow> bool" where
  "opened P W root repo = (case root of
     Some c \<Rightarrow> bs_yields (repo_open P c) repo
   | None \<Rightarrow> \<exists>now b sig. bs_yields (repo_create P (rw_did W) now) b \<and> k256_sign P (rw_signing_key W) (builder_bytes P b) = Ok sig \<and>
       bs_yields (repo_create_finalize P b sig) repo)"

text \<open>What a single write asks the repository crate for, and the commit that comes of it: chained to the
  commit it started from and signed with the account's key.\<close>

primrec op_name :: "WriteOp \<Rightarrow> string \<times> string" where
  "op_name (Create key record) = (''create'', key)"
| "op_name (Update key record) = (''update'', key)"
| "op_name (Delete key) = (''delete'', key)"

definition built :: "'x repo_prims_scheme \<Rightarrow> Repository \<Rightarrow> WriteOp \<Rightarrow> Cid option \<Rightarrow> CommitBuilder \<Rightarrow> bool" where
  "built P repo op record_cid cb = (\<exists>now. case op of
     Create key record \<Rightarrow> \<exists>c. record_cid = Some c \<and> bs_yields (repo_add_raw P repo now key record) (cb, c)
   | Update key record \<Rightarrow> \<exists>c. record_cid = Some c \<and> bs_yields (repo_update_raw P repo now key record) (cb, c)
   | Delete key \<Rightarrow> record_cid = None \<and> bs_yields (repo_delete_raw P repo now key) cb)"

definition chained :: "'x repo_prims_scheme \<Rightarrow> 's RepoWriter \<Rightarrow> Repository \<Rightarrow> CommitBuilder \<Rightarrow> Cid \<Rightarrow> bool" where
  "chained P W repo cb commit = (\<exists>sig. let cb = cb\<lparr>bld_prev := Some (rp_root repo)\<rparr> in
     k256_sign P (rw_signing_key W) (builder_bytes P cb) = Ok sig \<and> bs_yields (builder_finalize P cb sig) commit)"

text \<open>A write, its outcome and the event body that reports it.\<close>

definition single_write :: "'x repo_prims_scheme \<Rightarrow> 's RepoWriter \<Rightarrow> WriteOp \<Rightarrow> Cid option \<Rightarrow> Repository \<Rightarrow> WriteOutcome \<Rightarrow> CommitBody \<Rightarrow> bool" where
  "single_write P W op root repo out body = (opened P W root repo \<and> op_name op = (wo_action out, wo_key out) \<and>
     (\<exists>cb. built P repo op (wo_record_cid out) cb \<and> chained P W repo cb (cb_commit body)) \<and>
     wo_commit_cid out = cb_commit body \<and> wo_rev out = cb_rev body \<and>
     cb_ops body = [\<lparr>op_action = wo_action out, op_path = wo_key out, op_cid = wo_record_cid out\<rparr>])"

lemma sign_Ok: "sign P W m = Ok sig \<longleftrightarrow> k256_sign P (rw_signing_key W) m = Ok sig"
  by (auto simp: sign_def map_err_def split: sum.splits)

context storage_backend
begin

lemma quietly_open:
  assumes W: "rw_store W = B"
  shows "quietly did (\<lambda>_. True) (open_or_create P W root) (\<lambda>(repo, written) _. opened P W root repo)"
proof (cases root)
  case None
  show ?thesis
    unfolding open_or_create_def None option.case W
  proof (rule quietly_clock(1), rule quietly_await [OF quietly_rbs], rule quietly_case_prod, goal_cases)
    case (1 now a b written)
    show ?case
    proof (rule quietly_pure [where F = "bs_yields (repo_create P (rw_did W) now) b"])
      show "\<And>w. (case a of (b, written') \<Rightarrow> \<lambda>_. bs_yields (repo_create P (rw_did W) now) b) w \<Longrightarrow> bs_yields (repo_create P (rw_did W) now) b"
        using 1 by simp
    next
      assume "bs_yields (repo_create P (rw_did W) now) b"
      then show "quietly did (case a of (b, written') \<Rightarrow> \<lambda>_. bs_yields (repo_create P (rw_did W) now) b)
          (try_ok (sign P W (builder_bytes P b)) (\<lambda>sig. rbs P B (repo_create_finalize P b sig) written))
          (\<lambda>(repo, written) _. opened P W None repo)"
        by (intro quietly_try quietly_conseq [OF quietly_rbs]) (auto simp: opened_def sign_Ok)
    qed
  qed

qed (auto simp: open_or_create_def opened_def W intro: quietly_conseq [OF quietly_rbs])

lemma quietly_finish:
  assumes "rw_store W = B"
  shows "quietly did (\<lambda>_. True) (finish_commit P W (rp_root repo) cb written) (\<lambda>(c, written) _. chained P W repo cb c)"
  unfolding finish_commit_def Let_def assms
  by (rule quietly_try, rule quietly_conseq [OF quietly_rbs]) (auto simp: chained_def sign_Ok)

lemma quietly_apply_op:
  assumes W: "rw_store W = B"
  shows "quietly did (\<lambda>_. True) (apply_op P W repo op written) (\<lambda>(x, written) _. case x of (action, key, record_cid, commit) \<Rightarrow>
     op_name op = (action, key) \<and> (\<exists>cb. built P repo op record_cid cb \<and> chained P W repo cb commit))"
proof -
  have fin: "quietly did A
      (await_ok (finish_commit P W (rp_root repo) cb written) (\<lambda>(commit_cid, written). Ready (Ok ((act, k, c, commit_cid), written))))
      (\<lambda>(x, written) _. case x of (action, key, record_cid, commit) \<Rightarrow>
         op_name op = (action, key) \<and> (\<exists>cb. built P repo op record_cid cb \<and> chained P W repo cb commit))"
    if A: "\<And>w. A w \<Longrightarrow> built P repo op c cb" and n: "op_name op = (act, k)" for A c cb written act k
    by (rule quietly_pure [OF A], assumption, rule quietly_any, rule quietly_await [OF quietly_finish [OF W]])
      (auto intro!: quietly_Ready simp: n)
  show ?thesis
  proof (cases op)
    case (Create key rc)
    show ?thesis
      unfolding apply_op_def Let_def W Create WriteOp.case
      by (rule quietly_clock(1), rule quietly_await [OF quietly_rbs], (rule quietly_case_prod quietly_case_prod2)+, rule fin [unfolded Create])
        (auto simp: built_def)
  next
    case (Update key rc)
    show ?thesis
      unfolding apply_op_def Let_def W Update WriteOp.case
      by (rule quietly_clock(1), rule quietly_await [OF quietly_rbs], (rule quietly_case_prod quietly_case_prod2)+, rule fin [unfolded Update])
        (auto simp: built_def)
  next
    case (Delete key)
    show ?thesis
      unfolding apply_op_def Let_def W Delete WriteOp.case
      by (rule quietly_clock(1), rule quietly_await [OF quietly_rbs], (rule quietly_case_prod quietly_case_prod2)+, rule fin [unfolded Delete])
        (auto simp: built_def)
  qed
qed

end

text \<open>What the event of a commit says: the CAR of the new blocks as stored, rooted at the commit, and the
  revision of the commit before it.\<close>

definition since_ok :: "'x repo_prims_scheme \<Rightarrow> Cid option \<Rightarrow> Cid \<Rightarrow> string option \<Rightarrow> view \<Rightarrow> bool" where
  "since_ok P root prev since v = (case root of None \<Rightarrow> since = None
     | Some _ \<Rightarrow> \<exists>b rv. v_blocks v prev = Some b \<and> cbor_commit_rev P b = Ok rv \<and> since = Some rv)"

definition event_ok :: "'x repo_prims_scheme \<Rightarrow> 's RepoWriter \<Rightarrow> Cid option \<Rightarrow> Cid \<Rightarrow> CommitBody \<Rightarrow> (Cid \<times> bytes) list \<Rightarrow> bytes \<Rightarrow> view \<Rightarrow> bool" where
  "event_ok P W root prev body blocks ev v = (cb_seq body = 0 \<and> cb_repo body = rw_did W \<and>
     car_of P (cb_commit body) blocks = Ok (cb_blocks body) \<and> list_all (\<lambda>(c, b). v_blocks v c = Some b) blocks \<and>
     since_ok P root prev (cb_since body) v \<and> cbor_commit_body P body = Ok ev)"

lemma since_ok_mono: "since_ok P root prev since v \<Longrightarrow> v_blocks v \<subseteq>\<^sub>m v_blocks v' \<Longrightarrow> since_ok P root prev since v'"
  by (auto simp: since_ok_def map_le_def dom_def split: option.splits)

lemma blocks_mono: "list_all (\<lambda>(c, b). m c = Some b) bs \<Longrightarrow> m \<subseteq>\<^sub>m m' \<Longrightarrow> list_all (\<lambda>(c, b). m' c = Some b) bs"
  by (auto simp: list_all_iff map_le_def dom_def)

lemma put_present: "list_all (\<lambda>(c, b). m c = Some b) bs \<Longrightarrow> fold put_if_absent bs m = m"
  by (induction bs) (auto simp: put_if_absent_def)

text \<open>\<open>commit_op\<close> up to its one transaction.\<close>

definition stage_commit ::
  "'x repo_prims_scheme \<Rightarrow> 's RepoWriter \<Rightarrow> WriteOp \<Rightarrow> ('s world, RepoError + WriteOutcome \<times> CommitBody \<times> (Cid \<times> bytes) list \<times> bytes) async" where
  "stage_commit P W op =
     await_ok (rdb (load_repo_root (repo_ops (rw_store W)) (rw_did W))) (\<lambda>maybe_root.
     await_ok (open_or_create P W maybe_root) (\<lambda>(repo, written).
     await_ok (apply_op P W repo op written) (\<lambda>((action, key, record_cid, commit_cid), written).
     await_ok (read_blocks (rw_store W) (diff_blocks P written)) (\<lambda>blocks.
     try_ok (map_err RepoRepo (car_of P commit_cid blocks)) (\<lambda>car_buf.
     await_ok (rev_of P (rw_store W) ''decode commit block for rev/prev: '' commit_cid) (\<lambda>rev.
     await_ok (if maybe_root \<noteq> None
       then await_ok (rev_of P (rw_store W) ''decode prev commit block for since: '' (rp_root repo)) (\<lambda>r. Ready (Ok (Some r)))
       else Ready (Ok None)) (\<lambda>since.
     abind now_rfc3339 (\<lambda>time.
     let body = commit_body W commit_cid rev since car_buf [\<lparr>op_action = action, op_path = key, op_cid = record_cid\<rparr>] time in
     try_ok (map_err (\<lambda>e. RepoRepo (''encode event body: '' @ e)) (cbor_commit_body P body)) (\<lambda>event_body.
     Ready (Ok (\<lparr>wo_action = action, wo_key = key, wo_record_cid = record_cid, wo_commit_cid = commit_cid, wo_rev = rev\<rparr>,
       body, blocks, event_body)))))))))))"

lemma commit_op_staged:
  "commit_op P W op publish =
     await_ok (stage_commit P W op) (\<lambda>(out, body, blocks, event_body).
     await_ok (rdb (commit_blocks (repo_ops (rw_store W)) blocks (rw_did W) (cb_commit body) event_body)) (\<lambda>seq.
     abind (case publish of
         Broadcast \<Rightarrow> firehose_send seq (encode_message_frame P ''#commit'' (body\<lparr>cb_seq := seq\<rparr>))
       | Never \<Rightarrow> Ready ()) (\<lambda>_.
     Ready (Ok (out, body\<lparr>cb_seq := seq\<rparr>)))))"
  by (cases publish) (simp_all add: commit_op_def stage_commit_def Let_def case_prod_unfold commit_body_def)

context storage_backend
begin

lemma quietly_clock_stable:
  assumes "\<And>w w'. good (w_store w) \<Longrightarrow> A w \<Longrightarrow> others good \<alpha> did w w' \<Longrightarrow> A w'" "\<And>a. quietly did A (k a) Q"
  shows "quietly did A (abind now_rfc3339 k) Q"
  unfolding now_rfc3339_def
  by (rule quietly_abind [where Q = "\<lambda>_. A"], rule guards_atomic) (use assms in \<open>auto simp: others_def stages_def\<close>)

lemma quietly_since:
  "quietly did (\<lambda>_. True) (if root \<noteq> None then await_ok (rev_of P B what prev) (\<lambda>r. Ready (Ok (Some r))) else Ready (Ok None))
     (\<lambda>since w. since_ok P root prev since (\<alpha> (w_store w)))"
proof (cases root)
  case (Some c)
  show ?thesis
    unfolding Some by (simp, rule quietly_await [OF quietly_rev_of], rule quietly_Ready) (auto simp: since_ok_def)
qed (auto simp: since_ok_def intro: quietly_Ready)

text \<open>The end of the stage, shared by single commits and batches: blocks, CAR, previous revision, event.\<close>

lemma quietly_event:
  assumes "\<And>since car_buf time ev. Ok ev = cbor_commit_body P (commit_body W commit rv since car_buf ops time) \<Longrightarrow> g since car_buf time ev = Ready (Ok (out, commit_body W commit rv since car_buf ops time, blocks, ev))"
    and "car_of P commit blocks = Ok car_buf"
  shows "quietly did (\<lambda>w. list_all (\<lambda>(c, b). v_blocks (\<alpha> (w_store w)) c = Some b) blocks)
    (await_ok (if root \<noteq> None then await_ok (rev_of P B what prev) (\<lambda>r. Ready (Ok (Some r))) else Ready (Ok None)) (\<lambda>since.
     abind now_rfc3339 (\<lambda>time.
     try_ok (map_err (\<lambda>e. RepoRepo (msg @ e)) (cbor_commit_body P (commit_body W commit rv since car_buf ops time)))
       (\<lambda>ev. g since car_buf time ev))))
    (\<lambda>(o', body, bs, ev) w. o' = out \<and> bs = blocks \<and> cb_commit body = commit \<and> cb_rev body = rv \<and> cb_ops body = ops \<and>
       event_ok P W root prev body blocks ev (\<alpha> (w_store w)))"
proof (rule quietly_await [OF quietly_framed [OF quietly_since]], goal_cases)
  case (1 w w')
  then show ?case by (auto simp: others_def intro: blocks_mono)
next
  case (2 since)
  show ?case
  proof (rule quietly_clock_stable, goal_cases)
    case (1 w w')
    then show ?case by (auto simp: others_def intro: blocks_mono since_ok_mono)
  next
    case (2 time)
    show ?case
    proof (rule quietly_try, goal_cases)
      case (1 ev)
      then have ev: "cbor_commit_body P (commit_body W commit rv since car_buf ops time) = Ok ev"
        by (auto simp: map_err_def split: sum.splits)
      show ?case unfolding assms(1) [OF ev [symmetric]]
        by (rule quietly_Ready) (use ev assms(2) in \<open>auto simp: event_ok_def commit_body_def\<close>)
    qed
  qed
qed

lemma quietly_root:
  "quietly did (\<lambda>_. True) (rdb (load_repo_root (repo_ops B) did')) (\<lambda>root w. v_roots (\<alpha> (w_store w)) did' = root)"
  by (rule quietly_conseq [OF quietly_rdb [OF repo.load_repo_root]]) (auto simp: spec_load_repo_root_def reads_def)

lemma quietly_blocks:
  "quietly did (\<lambda>_. True) (read_blocks B cids) (\<lambda>bs w. map fst bs = cids \<and> list_all (\<lambda>(c, b). v_blocks (\<alpha> (w_store w)) c = Some b) bs)"
  by (rule quietly_conseq [OF quietly_read_blocks]) (auto simp: list_all_iff)

lemma quietly_await_pair:
  assumes "quietly did A p (\<lambda>(x, y) _. F x y)" "\<And>x y. F x y \<Longrightarrow> quietly did (\<lambda>_. True) (k x y) Q"
  shows "quietly did A (await_ok p (\<lambda>(x, y). k x y)) Q"
proof (rule quietly_await [OF assms(1)], rule quietly_case_prod, goal_cases)
  case (1 a x y)
  show ?case by (rule quietly_pure [where F = "F x y"]) (use 1 in \<open>auto intro: quietly_any assms(2)\<close>)
qed

lemma quietly_keep:
  assumes "quietly did (\<lambda>_. True) p (\<lambda>a w. F w \<longrightarrow> Q a w)"
    and "\<And>w w'. good (w_store w) \<Longrightarrow> F w \<Longrightarrow> others good \<alpha> did w w' \<Longrightarrow> F w'"
  shows "quietly did F p Q"
  by (rule quietly_conseq [OF quietly_framed [OF assms]]) auto

lemma quietly_stage:
  assumes W: "rw_store W = B"
  shows "quietly (rw_did W) (\<lambda>_. True) (stage_commit P W op) (\<lambda>(out, body, blocks, ev) w. \<exists>repo.
     single_write P W op (v_roots (\<alpha> (w_store w)) (rw_did W)) repo out body \<and>
     event_ok P W (v_roots (\<alpha> (w_store w)) (rw_did W)) (rp_root repo) body blocks ev (\<alpha> (w_store w)))"
  unfolding stage_commit_def Let_def W
proof (rule quietly_await [OF quietly_root], rule quietly_keep, rule quietly_await_pair [OF quietly_open [OF W]],
    rule quietly_await_pair [OF quietly_apply_op [OF W]], (rule quietly_case_prod2)+, rule quietly_await [OF quietly_blocks],
    rule quietly_try, rule quietly_await [OF quietly_framed [OF quietly_rev_of]], goal_cases)
  case (1 root repo written x written2 action x' key x'' record_cid commit blocks car_buf w w')
  then show ?case by (auto simp: others_def intro: blocks_mono)
next
  case (2 root repo written x written2 action x' key x'' record_cid commit blocks car_buf rv)
  then have car: "car_of P commit blocks = Ok car_buf" by (auto simp: map_err_def split: sum.splits)
  show ?case
    by (rule quietly_conseq [OF quietly_event [OF refl car]]) (use 2 in \<open>fastforce simp: single_write_def\<close>)+
next
  case (3 root w w')
  then show ?case by (auto simp: others_def)
qed

lemma root_kept:
  assumes "amid (others good \<alpha> did) p w tr a w'" "list_all (\<lambda>(w1, w2). stages good \<alpha> w1 w2) tr" "good (w_store w)"
  shows "v_roots (\<alpha> (w_store w')) did = v_roots (\<alpha> (w_store w)) did"
proof -
  have "good (w_store w') \<and> v_roots (\<alpha> (w_store w')) did = v_roots (\<alpha> (w_store w)) did"
    by (rule amid_stable [OF assms(1,2), where F = "\<lambda>u. good (w_store u) \<and> v_roots (\<alpha> (w_store u)) did = v_roots (\<alpha> (w_store w)) did"])
      (use assms(3) in \<open>auto simp: others_def stages_def\<close>)
  then show ?thesis ..
qed

lemma commit_step:
  assumes "event_ok P W root prev body blocks ev (\<alpha> (w_store w))" "good (w_store w)" "v_roots (\<alpha> (w_store w)) did = root"
    and "amid (others good \<alpha> did) (rdb (commit_blocks (repo_ops B) blocks d c ev)) w tr r w'"
  obtains e w1 where "r = Inl e" "tr = [(w1, w')]" "stages good \<alpha> w1 w'"
  | seq w1 where "r = Inr seq" "tr = [(w1, w')]" "event_ok P W root prev body blocks ev (\<alpha> (w_store w1))" "v_roots (\<alpha> (w_store w1)) did = root"
      "seq = int (length (v_log (\<alpha> (w_store w1)))) + 1"
      "\<alpha> (w_store w') = (\<alpha> (w_store w1))\<lparr>v_log := v_log (\<alpha> (w_store w1)) @ [(seq, ev, False)], v_roots := (v_roots (\<alpha> (w_store w1)))(d \<mapsto> c)\<rparr>"
      "w_published w' = w_published w1"
proof -
  from assms(4) obtain w1 x s where w1: "others good \<alpha> did w w1" "commit_blocks (repo_ops B) blocks d c ev (w_store w1) = (x, s)"
    "r = map_err RepoStorage x" "w' = w1\<lparr>w_store := s\<rparr>" "tr = [(w1, w')]"
    unfolding rdb_def amid_abind by (auto elim!: amid_dbE)
  have ev: "event_ok P W root prev body blocks ev (\<alpha> (w_store w1))" "v_roots (\<alpha> (w_store w1)) did = root" "good (w_store w1)"
    using w1(1) assms(1-3) by (auto simp: others_def event_ok_def intro: blocks_mono since_ok_mono)
  from meets_step [OF repo.commit_blocks ev(3) w1(2)] consider
    "is_err x" "good s" "\<alpha> s = \<alpha> (w_store w1)" | "spec_commit_blocks blocks d c ev (\<alpha> (w_store w1)) x (\<alpha> s)" by blast
  then show ?thesis
  proof cases
    case 1
    then obtain e where "x = Inl e" by (cases x) (auto simp: is_err_def is_ok_def)
    with 1 w1 show ?thesis by (intro that(1)) (auto simp: stages_def)
  next
    case 2
    then have "x = Inr (int (length (v_log (\<alpha> (w_store w1)))) + 1)"
      "\<alpha> s = (\<alpha> (w_store w1))\<lparr>v_blocks := fold put_if_absent blocks (v_blocks (\<alpha> (w_store w1))),
          v_log := v_log (\<alpha> (w_store w1)) @ [(int (length (v_log (\<alpha> (w_store w1)))) + 1, ev, False)],
          v_roots := (v_roots (\<alpha> (w_store w1)))(d \<mapsto> c)\<rparr>"
      by (auto simp: spec_commit_blocks_def writes_def Let_def)
    with ev w1 show ?thesis by (intro that(2)) (auto simp: event_ok_def put_present)
  qed
qed

lemma staged_lands:
  assumes stage: "quietly (rw_did W) (\<lambda>_. True) p (\<lambda>(x, body, blocks, ev) w. \<exists>repo. S (v_roots (\<alpha> (w_store w)) (rw_did W)) repo x body \<and>
      event_ok P W (v_roots (\<alpha> (w_store w)) (rw_did W)) (rp_root repo) body blocks ev (\<alpha> (w_store w)))"
    and w: "good (w_store w)"
    and run: "amid (others good \<alpha> (rw_did W)) (await_ok p (\<lambda>(x, body, blocks, ev).
      await_ok (rdb (commit_blocks (repo_ops B) blocks (rw_did W) (cb_commit body) ev)) (k x body))) w tr r w'"
  obtains e where "r = Inl e" "list_all (\<lambda>(w1, w2). stages good \<alpha> w1 w2) tr"
  | tr1 w1 w2 tr2 x body repo blocks ev seq where "tr = tr1 @ [(w1, w2)] @ tr2" "list_all (\<lambda>(w1, w2). stages good \<alpha> w1 w2) tr1"
      "amid (others good \<alpha> (rw_did W)) (k x body seq) w2 tr2 r w'" "S (v_roots (\<alpha> (w_store w)) (rw_did W)) repo x body"
      "seq = int (length (v_log (\<alpha> (w_store w1)))) + 1" "v_roots (\<alpha> (w_store w1)) (rw_did W) = v_roots (\<alpha> (w_store w)) (rw_did W)"
      "\<alpha> (w_store w2) = (\<alpha> (w_store w1))\<lparr>v_log := v_log (\<alpha> (w_store w1)) @ [(seq, ev, False)],
         v_roots := (v_roots (\<alpha> (w_store w1)))(rw_did W \<mapsto> cb_commit body)\<rparr>"
      "event_ok P W (v_roots (\<alpha> (w_store w)) (rw_did W)) (rp_root repo) body blocks ev (\<alpha> (w_store w1))"
      "w_published w2 = w_published w1"
  using run
proof (rule amid_await_okE)
  fix e
  assume p: "amid (others good \<alpha> (rw_did W)) p w tr (Inl e) w'" "r = Inl e"
  from guardsD [OF stage [unfolded quietly_def] p(1)] w p(2) show thesis by (intro that(1)) auto
next
  fix tr1 y w1 tr2
  assume p: "amid (others good \<alpha> (rw_did W)) p w tr1 (Inr y) w1" "tr = tr1 @ tr2"
    "amid (others good \<alpha> (rw_did W)) (case y of (x, body, blocks, ev) \<Rightarrow>
      await_ok (rdb (commit_blocks (repo_ops B) blocks (rw_did W) (cb_commit body) ev)) (k x body)) w1 tr2 r w'"
  obtain x body blocks ev where y: "y = (x, body, blocks, ev)" by (cases y)
  from guardsD [OF stage [unfolded quietly_def] p(1)] w have g: "list_all (\<lambda>(w1, w2). stages good \<alpha> w1 w2) tr1" "good (w_store w1)" by auto
  note root = root_kept [OF p(1) g(1) w]
  from guardsD [OF stage [unfolded quietly_def] p(1)] w y obtain repo where S: "S (v_roots (\<alpha> (w_store w)) (rw_did W)) repo x body"
    and ev: "event_ok P W (v_roots (\<alpha> (w_store w)) (rw_did W)) (rp_root repo) body blocks ev (\<alpha> (w_store w1))" by (auto simp: root)
  from p(3) show thesis
    unfolding y prod.case
  proof (rule amid_await_okE)
    fix e
    assume c: "amid (others good \<alpha> (rw_did W)) (rdb (commit_blocks (repo_ops B) blocks (rw_did W) (cb_commit body) ev)) w1 tr2 (Inl e) w'" "r = Inl e"
    show thesis by (rule commit_step [OF ev g(2) root c(1)]; rule that(1)) (use c(2) p(2) g in simp_all)
  next
    fix tr3 seq w2 tr4
    assume c: "amid (others good \<alpha> (rw_did W)) (rdb (commit_blocks (repo_ops B) blocks (rw_did W) (cb_commit body) ev)) w1 tr3 (Inr seq) w2"
      "amid (others good \<alpha> (rw_did W)) (k x body seq) w2 tr4 r w'" "tr2 = tr3 @ tr4"
    show thesis
    proof (rule commit_step [OF ev g(2) root c(1)])
      fix seq' w3
      assume "Inr seq = Inr seq'" "tr3 = [(w3, w2)]" "event_ok P W (v_roots (\<alpha> (w_store w)) (rw_did W)) (rp_root repo) body blocks ev (\<alpha> (w_store w3))"
        "v_roots (\<alpha> (w_store w3)) (rw_did W) = v_roots (\<alpha> (w_store w)) (rw_did W)" "seq' = int (length (v_log (\<alpha> (w_store w3)))) + 1"
        "\<alpha> (w_store w2) = (\<alpha> (w_store w3))\<lparr>v_log := v_log (\<alpha> (w_store w3)) @ [(seq', ev, False)],
           v_roots := (v_roots (\<alpha> (w_store w3)))(rw_did W \<mapsto> cb_commit body)\<rparr>" "w_published w2 = w_published w3"
      then show thesis using p(2) c(2,3) g(1) S by (intro that(2) [of tr1 w3 w2 tr4 x body seq repo ev blocks]) auto
    qed simp
  qed
qed

end

subsection \<open>Commits among other tasks\<close>

lemma commit_op_lands:
  assumes "storage_backend (rw_store W) good up \<alpha>" "good (w_store w)"
    and "amid (others good \<alpha> (rw_did W)) (commit_op P W op publish) w tr r w'"
  shows "case r of Inl e \<Rightarrow> list_all (\<lambda>(w1, w2). stages good \<alpha> w1 w2) tr
    | Inr (out, body) \<Rightarrow> \<exists>tr1 w1 w2 tr2 repo blocks ev. tr = tr1 @ [(w1, w2)] @ tr2 \<and>
        list_all (\<lambda>(w1, w2). stages good \<alpha> w1 w2) tr1 \<and>
        (let v = \<alpha> (w_store w1); root = v_roots (\<alpha> (w_store w)) (rw_did W) in
          cb_seq body = int (length (v_log v)) + 1 \<and> v_roots v (rw_did W) = root \<and>
          \<alpha> (w_store w2) = v\<lparr>v_log := v_log v @ [(cb_seq body, ev, False)], v_roots := (v_roots v)(rw_did W \<mapsto> cb_commit body)\<rparr> \<and>
          single_write P W op root repo out body \<and> event_ok P W root (rp_root repo) (body\<lparr>cb_seq := 0\<rparr>) blocks ev v) \<and>
        w_published w2 = w_published w1 \<and>
        (case publish of Never \<Rightarrow> tr2 = [] | Broadcast \<Rightarrow> \<exists>w3.
           tr2 = [(w3, w3\<lparr>w_published := w_published w3 @ [(cb_seq body, encode_message_frame P ''#commit'' body)]\<rparr>)])"
proof (rule storage_backend.staged_lands [OF assms(1) storage_backend.quietly_stage [OF assms(1) refl, of P op] assms(2)
      assms(3) [unfolded commit_op_staged]], goal_cases)
  case (2 tr1 w1 w2 tr2 out body repo blocks ev seq)
  have r: "r = Ok (out, body\<lparr>cb_seq := seq\<rparr>)"
    and tr2: "case publish of Never \<Rightarrow> tr2 = [] | Broadcast \<Rightarrow> \<exists>w3. tr2 = [(w3, w3\<lparr>w_published := w_published w3 @
        [(seq, encode_message_frame P ''#commit'' (body\<lparr>cb_seq := seq\<rparr>))]\<rparr>)]"
    using 2(3) by (cases publish; auto simp: amid_abind firehose_send_def amid_atomic)+
  have b0: "body\<lparr>cb_seq := 0\<rparr> = body" using 2(8) by (simp add: event_ok_def)
  have sw: "single_write P W op root repo out (body\<lparr>cb_seq := n\<rparr>) = single_write P W op root repo out body" for root n
    by (simp add: single_write_def)
  show ?case
    unfolding r sum.case prod.case Let_def
    by (rule exI [of _ tr1], rule exI [of _ w1], rule exI [of _ w2], rule exI [of _ tr2], rule exI [of _ repo],
        rule exI [of _ blocks], rule exI [of _ ev]) (use 2 tr2 b0 sw in \<open>cases publish; simp\<close>)
qed simp

text \<open>C3: a commit is atomic and sequenced, whatever else the server does. While other tasks write other repositories,
  every operation of a single write before its transaction only adds blocks; if the write fails nothing else was
  ever changed: no root, no event, no broadcast. If it succeeds, exactly one operation moves the history: it gives
  the event the next number of the log and moves this repository's root to the new commit, at a moment when the
  root is still the one the write started from. The commit is signed with the account's key and chained to the
  commit it was opened at; the event carries the CAR of the new blocks as they are stored, the previous revision and
  the operation. A broadcast frame, if asked for, is the event's body with that number and comes after it.\<close>

theorem commit_op_sequenced:
  assumes "storage_backend (rw_store W) good up \<alpha>" "good (w_store w)"
    and "amid (others good \<alpha> (rw_did W)) (commit_op P W op publish) w tr r w'"
  shows "case r of Inl e \<Rightarrow> list_all (\<lambda>(w1, w2). stages good \<alpha> w1 w2) tr
    | Inr (out, body) \<Rightarrow> \<exists>tr1 w1 w2 tr2 repo blocks ev. tr = tr1 @ [(w1, w2)] @ tr2 \<and>
        list_all (\<lambda>(w1, w2). stages good \<alpha> w1 w2) tr1 \<and>
        (let v = \<alpha> (w_store w1); root = v_roots (\<alpha> (w_store w)) (rw_did W) in
          cb_seq body = int (length (v_log v)) + 1 \<and> v_roots v (rw_did W) = root \<and>
          \<alpha> (w_store w2) = v\<lparr>v_log := v_log v @ [(cb_seq body, ev, False)], v_roots := (v_roots v)(rw_did W \<mapsto> cb_commit body)\<rparr> \<and>
          single_write P W op root repo out body \<and> event_ok P W root (rp_root repo) (body\<lparr>cb_seq := 0\<rparr>) blocks ev v) \<and>
        w_published w2 = w_published w1 \<and>
        (case publish of Never \<Rightarrow> tr2 = [] | Broadcast \<Rightarrow> \<exists>w3.
           tr2 = [(w3, w3\<lparr>w_published := w_published w3 @ [(cb_seq body, encode_message_frame P ''#commit'' body)]\<rparr>)])"
  using assms by (rule commit_op_lands)

subsection \<open>Batches\<close>

text \<open>The writes of a batch as they are prepared, and the tree they make, applied in order.\<close>

definition prepared_from :: "'x repo_prims_scheme \<Rightarrow> WriteOp \<Rightarrow> Prepared \<Rightarrow> bool" where
  "prepared_from P op p = (op_name op = (pr_action p, pr_key p) \<and> (case op of
     Delete _ \<Rightarrow> pr_cid p = None
   | Create _ rc \<Rightarrow> \<exists>bs. dagcbor_of_ipld P rc = Ok bs \<and> pr_cid p = Some (cid_of P DAG_CBOR bs)
   | Update _ rc \<Rightarrow> \<exists>bs. dagcbor_of_ipld P rc = Ok bs \<and> pr_cid p = Some (cid_of P DAG_CBOR bs)))"

fun mst_yields :: "'x repo_prims_scheme \<Rightarrow> Cid \<Rightarrow> Prepared list \<Rightarrow> Cid \<Rightarrow> bool" where
  "mst_yields P tree [] root = (root = tree)"
| "mst_yields P tree (p # ps) root = (\<exists>tree'. bs_yields (mst_apply P tree p) tree' \<and> mst_yields P tree' ps root)"

text \<open>The commit block of a batch: version 3, chained to the commit it was opened at, signed.\<close>

definition batch_commit :: "'x repo_prims_scheme \<Rightarrow> 's RepoWriter \<Rightarrow> Repository \<Rightarrow> Prepared list \<Rightarrow> string \<Rightarrow> Cid \<Rightarrow> bool" where
  "batch_commit P W repo ps rv commit = (\<exists>data preimage sig bs.
     let uc = \<lparr>uc_did = rw_did W, uc_version = 3, uc_data = data, uc_rev = rv, uc_prev = Some (rp_root repo)\<rparr> in
     mst_yields P (rp_data repo) ps data \<and> cbor_unsigned_commit P uc = Ok preimage \<and>
     k256_sign P (rw_signing_key W) preimage = Ok sig \<and>
     cbor_signed_commit P (UnsignedCommit.extend uc (SignedCommit.fields sig)) = Ok bs \<and> commit = cid_of P DAG_CBOR bs)"

definition batch_write :: "'x repo_prims_scheme \<Rightarrow> 's RepoWriter \<Rightarrow> WriteOp list \<Rightarrow> Cid option \<Rightarrow> Repository \<Rightarrow> Prepared list \<Rightarrow> CommitBody \<Rightarrow> bool" where
  "batch_write P W ops root repo ps body = (opened P W root repo \<and> list_all2 (prepared_from P) ops ps \<and>
     batch_commit P W repo ps (cb_rev body) (cb_commit body) \<and>
     cb_ops body = map (\<lambda>p. \<lparr>op_action = pr_action p, op_path = pr_key p, op_cid = pr_cid p\<rparr>) ps)"

definition stage_batch ::
  "'x repo_prims_scheme \<Rightarrow> 's RepoWriter \<Rightarrow> WriteOp list \<Rightarrow> ('s world, RepoError + Prepared list \<times> CommitBody \<times> (Cid \<times> bytes) list \<times> bytes) async" where
  "stage_batch P W ops =
     await_ok (rdb (load_repo_root (repo_ops (rw_store W)) (rw_did W))) (\<lambda>maybe_root.
     await_ok (open_or_create P W maybe_root) (\<lambda>(repo, written).
     await_ok (prepare P W ops written) (\<lambda>(prepared, written).
     await_ok (mst_apply_all P W (rp_data repo) prepared written) (\<lambda>(new_data, written).
     abind now_micros (\<lambda>now.
     let rev = tid_now P now;
         unsigned = \<lparr>uc_did = rw_did W, uc_version = 3, uc_data = new_data, uc_rev = rev, uc_prev = Some (rp_root repo)\<rparr> in
     try_ok (map_err (\<lambda>e. RepoRepo (''encode commit: '' @ e)) (cbor_unsigned_commit P unsigned)) (\<lambda>preimage.
     try_ok (sign P W preimage) (\<lambda>sig.
     let signed = UnsignedCommit.extend unsigned (SignedCommit.fields sig) in
     try_ok (map_err (\<lambda>e. RepoRepo (''encode signed commit: '' @ e)) (cbor_signed_commit P signed)) (\<lambda>commit_bytes.
     abind (write_block P (rw_store W) DAG_CBOR SHA2_256 commit_bytes) (\<lambda>r.
     try_ok (map_err (\<lambda>e. RepoRepo (display_bs_error P e)) r) (\<lambda>commit_cid.
     await_ok (read_blocks (rw_store W) (diff_blocks P (written @ [commit_cid]))) (\<lambda>blocks.
     try_ok (map_err RepoRepo (car_of P commit_cid blocks)) (\<lambda>car_buf.
     await_ok (if maybe_root \<noteq> None
       then await_ok (rev_of P (rw_store W) ''decode prev commit: '' (rp_root repo)) (\<lambda>r. Ready (Ok (Some r)))
       else Ready (Ok None)) (\<lambda>since.
     abind now_rfc3339 (\<lambda>time.
     let body = commit_body W commit_cid rev since car_buf
           (map (\<lambda>p. \<lparr>op_action = pr_action p, op_path = pr_key p, op_cid = pr_cid p\<rparr>) prepared) time in
     try_ok (map_err (\<lambda>e. RepoRepo (''encode event body: '' @ e)) (cbor_commit_body P body)) (\<lambda>event_body.
     Ready (Ok (prepared, body, blocks, event_body)))))))))))))))))"

definition batch_outcomes :: "Prepared list \<Rightarrow> CommitBody \<Rightarrow> WriteOutcome list" where
  "batch_outcomes ps body = map (\<lambda>p. \<lparr>wo_action = pr_action p, wo_key = pr_key p, wo_record_cid = pr_cid p,
     wo_commit_cid = cb_commit body, wo_rev = cb_rev body\<rparr>) ps"

lemma apply_many_staged:
  "ops \<noteq> [] \<Longrightarrow> apply_many_parts P W ops =
     await_ok (stage_batch P W ops) (\<lambda>(prepared, body, blocks, event_body).
     await_ok (rdb (commit_blocks (repo_ops (rw_store W)) blocks (rw_did W) (cb_commit body) event_body)) (\<lambda>seq.
     Ready (Ok (batch_outcomes prepared body, body\<lparr>cb_seq := seq\<rparr>))))"
  by (simp add: apply_many_parts_def stage_batch_def Let_def case_prod_unfold commit_body_def batch_outcomes_def)

context storage_backend
begin

lemma quietly_put_record:
  assumes W: "rw_store W = B"
  shows "quietly did (\<lambda>_. True) (put_record_block P W rc written)
    (\<lambda>(c, written') _. \<exists>bs. dagcbor_of_ipld P rc = Ok bs \<and> c = cid_of P DAG_CBOR bs)"
  unfolding put_record_block_def W
proof (rule quietly_try, rule quietly_then [OF quietly_write_block], rule quietly_try, rule quietly_Ready, goal_cases)
  case (1 bs r c a w)
  then show ?case by (auto simp: map_err_def split: sum.splits)
qed

lemma quietly_prepare:
  assumes W: "rw_store W = B"
  shows "quietly did (\<lambda>_. True) (prepare P W ops written) (\<lambda>(ps, written') _. list_all2 (prepared_from P) ops ps)"
proof (induction ops arbitrary: written)
  case (Cons op ops)
  show ?case
    by (cases op; simp; (rule quietly_await_pair [OF quietly_put_record [OF W]])?; rule quietly_await_pair [OF Cons])
      (auto simp: prepared_from_def intro: quietly_Ready)
qed (auto intro: quietly_Ready)

lemma quietly_mst_apply_all:
  assumes W: "rw_store W = B"
  shows "quietly did (\<lambda>_. True) (mst_apply_all P W tree ps written) (\<lambda>(root, written') _. mst_yields P tree ps root)"
proof (induction ps arbitrary: tree written)
  case (Cons p ps)
  show ?case
    unfolding mst_apply_all.simps W
  proof (rule quietly_then [OF quietly_run_bs], rule quietly_try, rule quietly_case_prod, goal_cases)
    case (1 r a tree' written')
    then have r: "r = Ok (tree', written')" by (auto simp: map_err_def split: sum.splits)
    show ?case
      by (rule quietly_pure [where F = "bs_yields (mst_apply P tree p) tree'"], use r in simp, rule quietly_conseq [OF Cons]) auto
  qed
qed (auto intro: quietly_Ready)

lemma quietly_stage_batch:
  assumes W: "rw_store W = B"
  shows "quietly (rw_did W) (\<lambda>_. True) (stage_batch P W ops) (\<lambda>(ps, body, blocks, ev) w. \<exists>repo.
     batch_write P W ops (v_roots (\<alpha> (w_store w)) (rw_did W)) repo ps body \<and>
     event_ok P W (v_roots (\<alpha> (w_store w)) (rw_did W)) (rp_root repo) body blocks ev (\<alpha> (w_store w)))"
  unfolding stage_batch_def Let_def W
proof (rule quietly_await [OF quietly_root], rule quietly_keep, rule quietly_await_pair [OF quietly_open [OF W]],
    rule quietly_await_pair [OF quietly_prepare [OF W]], rule quietly_await_pair [OF quietly_mst_apply_all [OF W]],
    rule quietly_clock(1), rule quietly_try, rule quietly_try, rule quietly_try, rule quietly_then [OF quietly_write_block],
    rule quietly_try, goal_cases)
  case (1 root repo written ps written2 data written3 now preimage sig bs r commit)
  show ?case
  proof (rule quietly_pure [where F = "commit = cid_of P DAG_CBOR bs"], (use 1 in \<open>auto simp: map_err_def split: sum.splits\<close>)[1],
      rule quietly_any, rule quietly_await [OF quietly_blocks], rule quietly_try, goal_cases)
    case c: (1 blocks car_buf)
    then have car: "car_of P commit blocks = Ok car_buf" by (auto simp: map_err_def split: sum.splits)
    have "batch_commit P W repo ps (tid_now P now) commit"
      using 1 c(1) unfolding batch_commit_def Let_def by (auto simp: sign_Ok map_err_def split: sum.splits)
    then show ?case
      by (intro quietly_conseq [OF quietly_event [OF refl car]]) (use 1 in \<open>fastforce simp: batch_write_def\<close>)+
  qed
next
  case (2 root w w')
  then show ?case by (auto simp: others_def)
qed

end

text \<open>C12: a batch lands whole or not at all. Several writes applied as one commit either leave the history alone, or make
  one event with the next number of the log that lists every write of the batch in order, whose commit holds the tree
  with all of them applied in turn to the tree the repository was opened with, is chained to the commit it was opened
  at and signed with the account's key; record blocks are addressed by their own content. An empty batch is refused
  before anything is read.\<close>

theorem apply_many_whole:
  assumes "storage_backend (rw_store W) good up \<alpha>" "good (w_store w)"
    and "amid (others good \<alpha> (rw_did W)) (apply_many_parts P W ops) w tr r w'"
  shows "case r of Inl e \<Rightarrow> list_all (\<lambda>(w1, w2). stages good \<alpha> w1 w2) tr
    | Inr (outs, body) \<Rightarrow> \<exists>tr1 w1 w2 repo ps blocks ev. ops \<noteq> [] \<and> tr = tr1 @ [(w1, w2)] \<and>
        list_all (\<lambda>(w1, w2). stages good \<alpha> w1 w2) tr1 \<and>
        (let v = \<alpha> (w_store w1); root = v_roots (\<alpha> (w_store w)) (rw_did W) in
          cb_seq body = int (length (v_log v)) + 1 \<and> v_roots v (rw_did W) = root \<and>
          \<alpha> (w_store w2) = v\<lparr>v_log := v_log v @ [(cb_seq body, ev, False)], v_roots := (v_roots v)(rw_did W \<mapsto> cb_commit body)\<rparr> \<and>
          batch_write P W ops root repo ps body \<and> event_ok P W root (rp_root repo) (body\<lparr>cb_seq := 0\<rparr>) blocks ev v \<and>
          outs = batch_outcomes ps body)"
proof (cases "ops = []")
  case True
  then show ?thesis using assms(3) by (auto simp: apply_many_parts_def)
next
  case False
  show ?thesis
  proof (rule storage_backend.staged_lands [OF assms(1) storage_backend.quietly_stage_batch [OF assms(1) refl, of P ops] assms(2)
        assms(3) [unfolded apply_many_staged [OF False]]], goal_cases)
    case (2 tr1 w1 w2 tr2 ps body repo blocks ev seq)
    then have r: "r = Ok (batch_outcomes ps body, body\<lparr>cb_seq := seq\<rparr>)" and tr2: "tr2 = []" by auto
    have b0: "body\<lparr>cb_seq := 0\<rparr> = body" using 2(8) by (simp add: event_ok_def)
    have sw: "batch_write P W ops root repo ps (body\<lparr>cb_seq := n\<rparr>) = batch_write P W ops root repo ps body"
      "batch_outcomes ps (body\<lparr>cb_seq := n\<rparr>) = batch_outcomes ps body" for root n
      by (simp_all add: batch_write_def batch_outcomes_def)
    show ?case
      unfolding r sum.case prod.case Let_def
      by (rule exI [of _ tr1], rule exI [of _ w1], rule exI [of _ w2], rule exI [of _ repo], rule exI [of _ ps],
          rule exI [of _ blocks], rule exI [of _ ev]) (use 2 tr2 b0 sw False in simp)
  qed simp
qed

subsection \<open>Witnesses\<close>

text \<open>A small repository crate: a tree is the record block last written, a commit block is its signature.\<close>

definition wit_write :: "bytes \<Rightarrow> (Cid \<Rightarrow> 'a) \<Rightarrow> 'a bs" where
  "wit_write bs f = BsWrite DAG_CBOR SHA2_256 bs (\<lambda>r. case r of Inr c \<Rightarrow> BsDone (f c) | Inl _ \<Rightarrow> BsFail ''write'')"

definition wit_builder :: "string \<Rightarrow> Cid \<Rightarrow> CommitBuilder" where
  "wit_builder did data = \<lparr>bld_did = did, bld_data = data, bld_rev = ''r1'', bld_prev = None\<rparr>"

definition wit_body :: CommitBody where
  "wit_body = \<lparr>cb_seq = 0, cb_rebase = False, cb_too_big = False, cb_repo = ''did:plc:a'', cb_commit = Cid DAG_CBOR SHA2_256 [7, 9],
     cb_rev = ''r1'', cb_since = None, cb_blocks = [7, 8, 2, 7, 9],
     cb_ops = [\<lparr>op_action = ''create'', op_path = ''a.b/c'', op_cid = Some (Cid DAG_CBOR SHA2_256 [2])\<rparr>],
     cb_blobs = [], cb_time = ''1970-01-01T00:16:40+00:00'', cb_prev_data = None\<rparr>"

definition wit_repo :: repo_prims where
  "wit_repo = server_prims.extend wit_sp (repo_prims.fields
     (\<lambda>j. Ok [1]) (\<lambda>b. Ok Null) (\<lambda>i. Ok [2]) (\<lambda>b. Ok INull) (\<lambda>n t. Ok [3]) (\<lambda>n. Ok [4]) (\<lambda>e m. Ok [5])
     (\<lambda>b. Ok [6]) (\<lambda>b. Ok wit_body) (\<lambda>c. Ok [10]) (\<lambda>c. Ok (sc_sig c)) (\<lambda>b. Ok ''r1'')
     (\<lambda>c. from_bytes (cid_digest c)) Ok (\<lambda>e. ''block store'') (\<lambda>n. ''r1'') remdups
     (\<lambda>c. BsRead c (\<lambda>r. case r of Inr _ \<Rightarrow> BsDone \<lparr>rp_root = c, rp_data = c\<rparr> | Inl _ \<Rightarrow> BsFail ''open''))
     (\<lambda>did n. BsDone (wit_builder did (Cid 0 0 []))) (\<lambda>b sig. wit_write sig (\<lambda>c. \<lparr>rp_root = c, rp_data = bld_data b\<rparr>))
     (\<lambda>b. if bld_prev b = None then [8] else [9]) (\<lambda>b sig. wit_write sig id)
     (\<lambda>r n k i. wit_write [2] (\<lambda>c. (wit_builder k c, c))) (\<lambda>r n k i. wit_write [2] (\<lambda>c. (wit_builder k c, c)))
     (\<lambda>r n k. BsDone (wit_builder k (rp_data r))) (\<lambda>r. BsDone [rp_root r]) (\<lambda>r k. BsDone None) (\<lambda>r. EntriesDone) (\<lambda>r p. EntriesDone)
     (\<lambda>t k c. BsDone c) (\<lambda>t k c. BsDone c) (\<lambda>t k. BsDone t) (\<lambda>cs. []) (\<lambda>b c x. Ok (b @ x)) Ok)"

definition wit_writer :: "Inner RepoWriter" where
  "wit_writer = \<lparr>rw_store = mem_backend, rw_signing_key = [7], rw_did = ''did:plc:a''\<rparr>"

lemma wit_repo_sel [simp]:
  "sha256 wit_repo = sha256 (wit_oauth (wit_header [9]))" "k256_sign wit_repo = (\<lambda>d m. Ok (d @ m))"
  "cbor_commit_body wit_repo = (\<lambda>b. Ok [6])" "cbor_to_commit_body wit_repo = (\<lambda>b. Ok wit_body)" "cbor_commit_rev wit_repo = (\<lambda>b. Ok ''r1'')"
  "cbor_unsigned_commit wit_repo = (\<lambda>c. Ok [10])" "cbor_signed_commit wit_repo = (\<lambda>c. Ok (sc_sig c))"
  "tid_now wit_repo = (\<lambda>n. ''r1'')" "diff_blocks wit_repo = remdups" "dagcbor_of_ipld wit_repo = (\<lambda>i. Ok [2])"
  "repo_create wit_repo = (\<lambda>did n. BsDone (wit_builder did (Cid 0 0 [])))"
  "repo_create_finalize wit_repo = (\<lambda>b sig. wit_write sig (\<lambda>c. \<lparr>rp_root = c, rp_data = bld_data b\<rparr>))"
  "builder_bytes wit_repo = (\<lambda>b. if bld_prev b = None then [8] else [9])" "builder_finalize wit_repo = (\<lambda>b sig. wit_write sig id)"
  "repo_add_raw wit_repo = (\<lambda>r n k i. wit_write [2] (\<lambda>c. (wit_builder k c, c)))"
  "mst_add wit_repo = (\<lambda>t k c. BsDone c)" "mst_delete wit_repo = (\<lambda>t k. BsDone t)"
  "car_new wit_repo = (\<lambda>cs. [])" "car_write wit_repo = (\<lambda>b c x. Ok (b @ x))" "car_finish wit_repo = Ok"
  by (simp_all add: wit_repo_def server_prims.defs repo_prims.defs)

lemma wit_at_sel [simp]: "w_store (wit_at n g) = g" "(wit_at n g)\<lparr>w_store := g'\<rparr> = wit_at n g'"
  by (simp_all add: wit_at_def wit_world_def)

abbreviation wit_cid :: "bytes \<Rightarrow> Cid" where
  "wit_cid bs \<equiv> Cid DAG_CBOR SHA2_256 bs"

definition wit_put :: "bytes \<Rightarrow> Inner \<Rightarrow> Inner" where
  "wit_put bs g = g\<lparr>m_blocks := hm_or_insert (wit_cid bs) bs (m_blocks g)\<rparr>"

lemma wit_put_sel [simp]: "m_blocks (wit_put bs g) = hm_or_insert (wit_cid bs) bs (m_blocks g)" "m_repo_roots (wit_put bs g) = m_repo_roots g"
  by (simp_all add: wit_put_def)

lemma run_wit_block: "run (write_block wit_repo mem_backend DAG_CBOR SHA2_256 bs) (wit_at n g) = (Ok (wit_cid bs), wit_at n (wit_put bs g))"
  by (simp add: write_block_def Let_def async_simps mem_put_block_def cid_of_def wit_put_def)

lemma run_wit_write: "run (rbs wit_repo mem_backend (wit_write bs f) ws) (wit_at n g) = (Ok (f (wit_cid bs), ws @ [wit_cid bs]), wit_at n (wit_put bs g))"
  by (simp add: rbs_def wit_write_def async_simps run_wit_block)

lemma run_rbs_done: "run (rbs P B (BsDone a) ws) w = (Ok (a, ws), w)"
  by (simp add: rbs_def async_simps)

lemma run_wit_clock:
  "run now_micros (wit_at n g) = (w_micros (wit_at n g), wit_at n g)" "run now_rfc3339 (wit_at n g) = (w_rfc3339 (wit_at n g), wit_at n g)"
  by (simp_all add: now_micros_def now_rfc3339_def async_simps)

lemma run_wit_open:
  "run (open_or_create wit_repo wit_writer None) (wit_at n g) =
     (Ok (\<lparr>rp_root = wit_cid [7, 8], rp_data = Cid 0 0 []\<rparr>, [wit_cid [7, 8]]), wit_at n (wit_put [7, 8] g))"
  by (simp add: open_or_create_def wit_writer_def async_simps run_wit_clock run_wit_write run_rbs_done sign_def wit_builder_def)

lemma run_wit_apply:
  "run (apply_op wit_repo wit_writer r (Create k INull) ws) (wit_at n g) =
     (Ok ((''create'', k, Some (wit_cid [2]), wit_cid [7, 9]), ws @ [wit_cid [2], wit_cid [7, 9]]), wit_at n (wit_put [7, 9] (wit_put [2] g)))"
  by (simp add: apply_op_def finish_commit_def Let_def wit_writer_def async_simps run_wit_clock run_wit_write sign_def wit_builder_def)

lemma run_wit_read:
  "hm_get (m_blocks g) c = Some b \<Longrightarrow> run (rdb (mem_read_block_bytes c)) (wit_at n g) = (Ok b, wit_at n g)"
  by (simp add: rdb_def async_simps mem_read_block_bytes_def ok_or_def)

definition wit_filled :: Inner where
  "wit_filled = wit_put [7, 9] (wit_put [2] (wit_put [7, 8] (mem_new ''t'')))"

lemma wit_filled_blocks:
  "hm_get (m_blocks wit_filled) (wit_cid [7, 8]) = Some [7, 8]" "hm_get (m_blocks wit_filled) (wit_cid [2]) = Some [2]"
  "hm_get (m_blocks wit_filled) (wit_cid [7, 9]) = Some [7, 9]"
  by (simp_all add: wit_filled_def mem_new_def hm_or_insert_def hm_get_def hm_insert_def hm_contains_key_def)

definition wit_committed :: Inner where
  "wit_committed = snd (mem_commit_blocks [(wit_cid [7, 8], [7, 8]), (wit_cid [2], [2]), (wit_cid [7, 9], [7, 9])] ''did:plc:a'' (wit_cid [7, 9]) [6] wit_filled)"

definition wit_frame :: bytes where
  "wit_frame = encode_message_frame wit_repo ''#commit'' (wit_body\<lparr>cb_seq := 1\<rparr>)"

lemma wit_create:
  "\<exists>out. run (commit_op wit_repo wit_writer (Create ''a.b/c'' INull) Broadcast) (wit_at 1000 (mem_new ''t'')) =
     (Ok (out, wit_body\<lparr>cb_seq := 1\<rparr>), (wit_at 1000 wit_committed)\<lparr>w_published := [(1, wit_frame)]\<rparr>)"
proof -
  have "run (rdb (mem_load_repo_root ''did:plc:a'')) (wit_at 1000 (mem_new ''t'')) = (Ok None, wit_at 1000 (mem_new ''t''))"
    by (simp add: rdb_def async_simps mem_load_repo_root_def mem_new_def hm_get_def)
  moreover have "run (rev_of wit_repo mem_backend m (wit_cid [7, 9])) (wit_at 1000 wit_filled) = (Ok ''r1'', wit_at 1000 wit_filled)" for m
    by (simp add: rev_of_def async_simps run_wit_read wit_filled_blocks)
  moreover have "run (rdb (mem_commit_blocks bs d c ev)) (wit_at 1000 wit_filled) =
      (Ok 1, wit_at 1000 (snd (mem_commit_blocks bs d c ev wit_filled)))" for bs d c ev
    by (simp add: rdb_def async_simps mem_commit_blocks_def Let_def wit_filled_def wit_put_def mem_new_def)
  moreover have "run now_rfc3339 (wit_at 1000 g) = (''1970-01-01T00:16:40+00:00'', wit_at 1000 g)" for g
    by (simp add: now_rfc3339_def async_simps wit_at_def wit_world_def)
  moreover have "w_published (wit_at 1000 g) = []" for g
    by (simp add: wit_at_def wit_world_def)
  ultimately show ?thesis
    by (simp add: commit_op_def wit_writer_def run_await_ok run_try_ok run_abind run_wit_clock Let_def firehose_send_def async_simps car_of_def
        run_wit_open [unfolded wit_writer_def] run_wit_apply [unfolded wit_writer_def] wit_filled_def [symmetric]
        run_wit_read wit_filled_blocks wit_committed_def wit_frame_def wit_body_def commit_body_def)
qed

lemma wit_batch:
  "\<exists>r w'. run (apply_many_parts wit_repo wit_writer [Create ''a.b/c'' INull]) (wit_at 1000 (mem_new ''t'')) = (Ok r, w')"
proof -
  define g where "g = wit_put [7, 10] (wit_put [2] (wit_put [7, 8] (mem_new ''t'')))"
  have b: "hm_get (m_blocks g) (wit_cid [7, 8]) = Some [7, 8]" "hm_get (m_blocks g) (wit_cid [2]) = Some [2]"
    "hm_get (m_blocks g) (wit_cid [7, 10]) = Some [7, 10]"
    by (simp_all add: g_def mem_new_def hm_or_insert_def hm_get_def hm_insert_def hm_contains_key_def)
  have "run (rdb (mem_load_repo_root ''did:plc:a'')) (wit_at 1000 (mem_new ''t'')) = (Ok None, wit_at 1000 (mem_new ''t''))"
    by (simp add: rdb_def async_simps mem_load_repo_root_def mem_new_def hm_get_def)
  moreover have "run (rdb (mem_commit_blocks bs d c ev)) (wit_at 1000 g) =
      (Ok (m_next_seq g + 1), wit_at 1000 (snd (mem_commit_blocks bs d c ev g)))" for bs d c ev
    by (simp add: rdb_def async_simps mem_commit_blocks_def Let_def)
  ultimately show ?thesis
    by (simp add: apply_many_parts_def wit_writer_def run_await_ok run_try_ok run_abind run_wit_clock Let_def async_simps car_of_def
        run_wit_open [unfolded wit_writer_def] put_record_block_def mst_apply_def sign_def run_wit_block SignedCommit.defs UnsignedCommit.defs
        g_def [symmetric] run_wit_read b)
qed

lemma wit_writer_backend: "storage_backend (rw_store wit_writer) mem_ok mem_up mem_view" "mem_ok (w_store (wit_at 1000 (mem_new ''t'')))"
  using wit_backend by (simp_all add: wit_writer_def mem_new_def mem_ok_def hm_ok_def mem_seq_ok_def mem_accounts_ok_def)

theorem commit_op_sequenced_witness:
  "\<exists>tr out body w' tr1 w1 w2 tr2. amid (others mem_ok mem_view ''did:plc:a'') (commit_op wit_repo wit_writer (Create ''a.b/c'' INull) Broadcast)
       (wit_at 1000 (mem_new ''t'')) tr (Ok (out, body)) w' \<and> tr = tr1 @ [(w1, w2)] @ tr2 \<and>
     v_roots (mem_view (w_store w2)) ''did:plc:a'' = Some (cb_commit body)"
proof -
  let ?w = "wit_at 1000 (mem_new ''t'')" and ?p = "commit_op wit_repo wit_writer (Create ''a.b/c'' INull) Broadcast"
  obtain out body w' where "run ?p ?w = (Ok (out, body), w')" using wit_create by blast
  from amid_run [where R = "others mem_ok mem_view (rw_did wit_writer)", OF others_refl this] obtain tr where tr: "amid (others mem_ok mem_view (rw_did wit_writer)) ?p ?w tr (Ok (out, body)) w'" by blast
  from commit_op_sequenced [OF wit_writer_backend tr] obtain tr1 w1 w2 tr2 where "tr = tr1 @ [(w1, w2)] @ tr2"
    "v_roots (mem_view (w_store w2)) (rw_did wit_writer) = Some (cb_commit body)" by (auto simp: Let_def simp del: mem_view_simps)
  with tr show ?thesis by (auto simp: wit_writer_def simp del: mem_view_simps) blast
qed

theorem apply_many_whole_witness:
  "\<exists>tr outs body w' tr1 w1 w2. amid (others mem_ok mem_view ''did:plc:a'') (apply_many_parts wit_repo wit_writer [Create ''a.b/c'' INull])
       (wit_at 1000 (mem_new ''t'')) tr (Ok (outs, body)) w' \<and> tr = tr1 @ [(w1, w2)] \<and> length (cb_ops body) = 1 \<and>
     v_roots (mem_view (w_store w2)) ''did:plc:a'' = Some (cb_commit body)"
proof -
  let ?w = "wit_at 1000 (mem_new ''t'')" and ?p = "apply_many_parts wit_repo wit_writer [Create ''a.b/c'' INull]"
  obtain outs body w' where "run ?p ?w = (Ok (outs, body), w')" using wit_batch by fastforce
  from amid_run [where R = "others mem_ok mem_view (rw_did wit_writer)", OF others_refl this] obtain tr where
    tr: "amid (others mem_ok mem_view (rw_did wit_writer)) ?p ?w tr (Ok (outs, body)) w'" by blast
  from apply_many_whole [OF wit_writer_backend tr] obtain tr1 w1 w2 where "tr = tr1 @ [(w1, w2)]" "length (cb_ops body) = 1"
    "v_roots (mem_view (w_store w2)) (rw_did wit_writer) = Some (cb_commit body)"
    by (auto simp: Let_def batch_write_def list_all2_Cons1 simp del: mem_view_simps)
  with tr show ?thesis by (auto simp: wit_writer_def simp del: mem_view_simps) blast
qed

end
