(* ===== verification/Firehose.thy ===== *)
theory Firehose
  imports Repo_Laws
begin

text \<open>
  The firehose: the \<open>subscribeRepos\<close> stream (\<open>rust-pds/src/firehose/subscribe.rs\<close>), the decoder and
  signature check of its frames (\<open>rust-core/src/firehose/tail.rs\<close>) and the relay handshake
  (\<open>rust-pds/src/firehose/crawl.rs\<close>).

  A subscriber's WebSocket is what was sent on it and how many more messages its peer takes before it
  is gone. The broadcast channel keeps the newest events of \<open>w_published\<close>, as many as its capacity (\<open>CAPACITY\<close> in this server); a receiver is
  the number of events it has passed. Its loop has no end of its own, so it runs on fuel: one unit per
  \<open>recv\<close> (which may find nothing yet) and one per page of the log. What holds for every amount of fuel
  holds at every moment of the stream.
\<close>

subsection \<open>The stream\<close>

definition BACKFILL_PAGE :: int where
  "BACKFILL_PAGE = 500"

definition CAPACITY :: nat where
  "CAPACITY = 512"

text \<open>\<open>str::parse::<i64>\<close>: an optional sign, at least one digit, and a value that fits.\<close>

definition parse_i64 :: "string \<Rightarrow> int option" where
  "parse_i64 s =
     (let (neg, ds) = (case s of [] \<Rightarrow> (False, [])
        | c # cs \<Rightarrow> if c = CHR ''-'' then (True, cs) else if c = CHR ''+'' then (False, cs) else (False, s)) in
      if ds = [] \<or> \<not> list_all is_ascii_digit ds then None
      else let v = foldl (\<lambda>n c. 10 * n + (of_char c - 48)) (0 :: int) ds; n = (if neg then - v else v) in
        if - (2 ^ 63) \<le> n \<and> n < 2 ^ 63 then Some n else None)"

definition parse_cursor :: "(string, string) hashmap \<Rightarrow> XrpcError + int option" where
  "parse_cursor params = (case hm_get params ''cursor'' of
     None \<Rightarrow> Ok None
   | Some s \<Rightarrow> and_then (ok_or (InvalidRequest ''cursor must be an integer'') (parse_i64 s)) (\<lambda>v.
       if v < 0 then Err (InvalidRequest ''cursor must be non-negative'') else Ok (Some v)))"

record WebSocket =
  ws_sent :: "bytes list"
  ws_left :: nat

definition ws_send :: "bytes \<Rightarrow> WebSocket \<Rightarrow> (unit + unit) \<times> WebSocket" where
  "ws_send frame ws = (case ws_left ws of
     0 \<Rightarrow> (Err (), ws)
   | Suc n \<Rightarrow> (Ok (), ws\<lparr>ws_sent := ws_sent ws @ [frame], ws_left := n\<rparr>))"

datatype recv_result = RecvEvent int bytes | RecvLagged | RecvPending

definition tx_subscribe :: "('s world, nat) async" where
  "tx_subscribe = atomic (\<lambda>w. (length (w_published w), w))"

definition rx_recv :: "nat \<Rightarrow> nat \<Rightarrow> ('s world, recv_result \<times> nat) async" where
  "rx_recv capacity rx = atomic (\<lambda>w. let len = length (w_published w) in
     (if len \<le> rx then (RecvPending, rx)
      else if rx + capacity < len then (RecvLagged, len - capacity)
      else (case w_published w ! rx of (seq, frame) \<Rightarrow> (RecvEvent seq frame, Suc rx)), w))"

text \<open>The rows of one page: the last number sent or skipped, or \<open>None\<close> when the client is gone.\<close>

fun send_rows :: "'x repo_prims_scheme \<Rightarrow> (int \<times> bytes) list \<Rightarrow> int \<Rightarrow> WebSocket \<Rightarrow> int option \<times> WebSocket" where
  "send_rows P [] last_sent_seq socket = (Some last_sent_seq, socket)"
| "send_rows P ((seq, event) # page) last_sent_seq socket = (case cbor_to_commit_body P event of
     Inl _ \<Rightarrow> send_rows P page seq socket
   | Inr body \<Rightarrow> (case ws_send (encode_message_frame P ''#commit'' (body\<lparr>cb_seq := seq\<rparr>)) socket of
       (Inl _, socket) \<Rightarrow> (None, socket)
     | (Inr _, socket) \<Rightarrow> send_rows P page seq socket))"

datatype backfill = Backfilled int WebSocket | BackfillStopped WebSocket | Backfilling WebSocket

fun run_backfill :: "nat \<Rightarrow> 'x repo_prims_scheme \<Rightarrow> 's AppState \<Rightarrow> WebSocket \<Rightarrow> int \<Rightarrow> ('s world, backfill) async" where
  "run_backfill 0 P st socket last_sent_seq = Ready (Backfilling socket)"
| "run_backfill (Suc fuel) P st socket last_sent_seq =
     abind (db (backfill_page (repo_ops (st_store st)) last_sent_seq BACKFILL_PAGE)) (\<lambda>r. case r of
       Inl _ \<Rightarrow> Ready (BackfillStopped socket)
     | Inr page \<Rightarrow>
         if page = [] then Ready (Backfilled last_sent_seq socket)
         else (case send_rows P page last_sent_seq socket of
           (None, socket) \<Rightarrow> Ready (BackfillStopped socket)
         | (Some last_sent_seq, socket) \<Rightarrow> run_backfill fuel P st socket last_sent_seq))"

text \<open>The handler returns nothing; the model tells whether it returned and what it had sent.\<close>

datatype stream = Streaming WebSocket | Returned WebSocket

definition future_cursor_frame :: "'x repo_prims_scheme \<Rightarrow> bytes" where
  "future_cursor_frame P = encode_error_frame P ''FutureCursor'' (Some ''Cursor in the future.'')"

definition consumer_too_slow_frame :: "'x repo_prims_scheme \<Rightarrow> bytes" where
  "consumer_too_slow_frame P = encode_error_frame P ''ConsumerTooSlow'' (Some ''Stream consumer too slow.'')"

fun live_loop ::
  "nat \<Rightarrow> nat \<Rightarrow> 'x repo_prims_scheme \<Rightarrow> 's AppState \<Rightarrow> nat \<Rightarrow> int \<Rightarrow> bool \<Rightarrow> WebSocket \<Rightarrow> ('s world, stream) async" where
  "live_loop capacity 0 P st rx last_sent_seq recovered_from_lag socket = Ready (Streaming socket)"
| "live_loop capacity (Suc fuel) P st rx last_sent_seq recovered_from_lag socket = abind (rx_recv capacity rx) (\<lambda>(r, rx). case r of
     RecvPending \<Rightarrow> live_loop capacity fuel P st rx last_sent_seq recovered_from_lag socket
   | RecvEvent seq frame \<Rightarrow>
       if seq \<le> last_sent_seq then live_loop capacity fuel P st rx last_sent_seq recovered_from_lag socket
       else (case ws_send frame socket of
         (Inl _, socket) \<Rightarrow> Ready (Returned socket)
       | (Inr _, socket) \<Rightarrow> live_loop capacity fuel P st rx seq False socket)
   | RecvLagged \<Rightarrow>
       if \<not> recovered_from_lag then
         abind tx_subscribe (\<lambda>rx. abind (run_backfill fuel P st socket last_sent_seq) (\<lambda>b. case b of
           Backfilled s socket \<Rightarrow> live_loop capacity fuel P st rx s True socket
         | BackfillStopped socket \<Rightarrow> Ready (Returned socket)
         | Backfilling socket \<Rightarrow> Ready (Streaming socket)))
       else Ready (Returned (snd (ws_send (consumer_too_slow_frame P) socket))))"

definition handle_firehose :: "nat \<Rightarrow> nat \<Rightarrow> 'x repo_prims_scheme \<Rightarrow> 's AppState \<Rightarrow> WebSocket \<Rightarrow> int option \<Rightarrow> ('s world, stream) async" where
  "handle_firehose capacity fuel P st socket cursor =
     abind tx_subscribe (\<lambda>rx. case cursor of
       None \<Rightarrow> live_loop capacity fuel P st rx 0 False socket
     | Some c \<Rightarrow> abind (db (max_seq (repo_ops (st_store st)))) (\<lambda>r. case r of
         Inl _ \<Rightarrow> Ready (Returned socket)
       | Inr mx \<Rightarrow>
           if c > mx then Ready (Returned (snd (ws_send (future_cursor_frame P) socket)))
           else abind (run_backfill fuel P st socket c) (\<lambda>b. case b of
             Backfilled s socket \<Rightarrow> live_loop capacity fuel P st rx s False socket
           | BackfillStopped socket \<Rightarrow> Ready (Returned socket)
           | Backfilling socket \<Rightarrow> Ready (Streaming socket))))"

definition subscribe_repos ::
  "nat \<Rightarrow> 'x repo_prims_scheme \<Rightarrow> 's AppState \<Rightarrow> (string, string) hashmap \<Rightarrow> WebSocket \<Rightarrow> ('s world, XrpcError + stream) async" where
  "subscribe_repos fuel P st params socket = try_ok (parse_cursor params) (\<lambda>cursor.
     abind (handle_firehose CAPACITY fuel P st socket cursor) (\<lambda>s. Ready (Ok s)))"

subsection \<open>Reading frames\<close>

datatype TailError = NotCommit | DecodeErr string | CarErr string | CommitDecodeErr string | SigErr string

text \<open>
  \<open>from_reader_once\<close> reads one value and leaves the rest; the CAR reader yields the roots of a file, then
  its blocks until the end or an error. Both are third-party, like the signature check of a did:key.
\<close>

record tail_prims = repo_prims +
  read_ipld_once :: "bytes \<Rightarrow> string + Ipld \<times> bytes"
  read_commit_body_once :: "bytes \<Rightarrow> string + CommitBody \<times> bytes"
  car_open :: "bytes \<Rightarrow> string + Cid list \<times> (string + Cid \<times> bytes) list"
  cbor_to_signed_commit :: "bytes \<Rightarrow> string + SignedCommit"
  did_key_verify :: "string \<Rightarrow> bytes \<Rightarrow> bytes \<Rightarrow> string + unit" \<comment> \<open>did:key, message, signature\<close>

definition decode_commit_frame :: "'x tail_prims_scheme \<Rightarrow> bytes \<Rightarrow> TailError + CommitBody" where
  "decode_commit_frame P frame_bytes =
     and_then (map_err (\<lambda>e. DecodeErr (''header: '' @ e)) (read_ipld_once P frame_bytes)) (\<lambda>(header, rest).
     and_then (case header of
         IMap m \<Rightarrow> (case map_of m ''op'' of
           Some (IInteger n) \<Rightarrow> Ok (n, case map_of m ''t'' of Some (IString s) \<Rightarrow> Some s | _ \<Rightarrow> None)
         | _ \<Rightarrow> Err NotCommit)
       | _ \<Rightarrow> Err (DecodeErr ''header not a map'')) (\<lambda>(op, t).
     if op \<noteq> 1 \<or> t \<noteq> Some ''#commit'' then Err NotCommit
     else and_then (map_err (\<lambda>e. DecodeErr (''body: '' @ e)) (read_commit_body_once P rest)) (\<lambda>(body, _). Ok body)))"

fun find_block :: "Cid \<Rightarrow> (string + Cid \<times> bytes) list \<Rightarrow> TailError + bytes" where
  "find_block expected [] = Err (CarErr ''commit block not found in CAR'')"
| "find_block expected (Inl e # rest) = Err (CarErr (''next_block: '' @ e))"
| "find_block expected (Inr (cid, bs) # rest) = (if cid = expected then Ok bs else find_block expected rest)"

definition extract_commit_block :: "'x tail_prims_scheme \<Rightarrow> bytes \<Rightarrow> Cid \<Rightarrow> TailError + bytes" where
  "extract_commit_block P car_bytes expected =
     and_then (map_err (\<lambda>e. CarErr (''CarReader::new: '' @ e)) (car_open P car_bytes)) (\<lambda>(roots, blocks).
     if (case roots of [] \<Rightarrow> None | r # _ \<Rightarrow> Some r) \<noteq> Some expected
     then Err (CarErr (''CAR root != commit CID '' @ cid_to_string P expected))
     else find_block expected blocks)"

definition reconstruct_unsigned_commit_bytes :: "'x repo_prims_scheme \<Rightarrow> SignedCommit \<Rightarrow> bytes" where
  "reconstruct_unsigned_commit_bytes P sc = expect (cbor_unsigned_commit P
     \<lparr>uc_did = uc_did sc, uc_version = uc_version sc, uc_data = uc_data sc, uc_rev = uc_rev sc, uc_prev = uc_prev sc\<rparr>)"

definition verify_commit_sig :: "'x tail_prims_scheme \<Rightarrow> CommitBody \<Rightarrow> string \<Rightarrow> TailError + unit" where
  "verify_commit_sig P body signer_did_key =
     and_then (extract_commit_block P (cb_blocks body) (cb_commit body)) (\<lambda>block.
     and_then (map_err CommitDecodeErr (cbor_to_signed_commit P block)) (\<lambda>sc.
     let message = reconstruct_unsigned_commit_bytes P sc in
     map_err SigErr (did_key_verify P signer_did_key message (sc_sig sc))))"

end
