(* ===== verification/Outbound.thy ===== *)
theory Outbound
  imports Firehose
begin

text \<open>
  Requests the server makes: the guard on the hosts it may talk to and the upstream client
  (\<open>rust-pds/src/xrpc/appview/client.rs\<close>), the service resolver (\<open>appview/resolver.rs\<close>), the proxy
  fallback (\<open>appview/proxy.rs\<close>), the relay handshake (\<open>firehose/crawl.rs\<close>) and the DID resolution of the
  tail tool (\<open>bin/firehose-tail.rs\<close>).

  The HTTP client is a parameter: a program that takes a request and returns a response or the
  text of its failure. \<open>IpAddr\<close> is the standard library's, its parser included.
\<close>

subsection \<open>IP addresses\<close>

datatype IpAddr = V4 nat nat nat nat | V6 "16 word list" \<comment> \<open>octets; eight segments\<close>

definition digit_of :: "nat \<Rightarrow> char \<Rightarrow> nat option" where
  "digit_of radix c = (case hex_digit c of Some d \<Rightarrow> if d < radix then Some d else None | None \<Rightarrow> None)"

definition read_number :: "nat \<Rightarrow> nat \<Rightarrow> bool \<Rightarrow> nat \<Rightarrow> string \<Rightarrow> (nat \<times> string) option" where
  "read_number radix max_digits allow_zero_prefix bound s =
     (let ds = takeWhile (\<lambda>c. digit_of radix c \<noteq> None) s;
          v = foldl (\<lambda>n c. radix * n + the (digit_of radix c)) 0 ds in
      if ds = [] \<or> length ds > max_digits \<or> (\<not> allow_zero_prefix \<and> hd ds = CHR ''0'' \<and> length ds > 1) \<or> v > bound then None
      else Some (v, drop (length ds) s))"

definition read_char :: "char \<Rightarrow> string \<Rightarrow> string option" where
  "read_char c s = (case s of [] \<Rightarrow> None | x # xs \<Rightarrow> if x = c then Some xs else None)"

definition read_octet :: "string \<Rightarrow> (nat \<times> string) option" where
  "read_octet = read_number 10 3 False 255"

definition read_ipv4_addr :: "string \<Rightarrow> ((nat \<times> nat \<times> nat \<times> nat) \<times> string) option" where
  "read_ipv4_addr s =
     Option.bind (read_octet s) (\<lambda>(a, s).
     Option.bind (read_char CHR ''.'' s) (\<lambda>s. Option.bind (read_octet s) (\<lambda>(b, s).
     Option.bind (read_char CHR ''.'' s) (\<lambda>s. Option.bind (read_octet s) (\<lambda>(c, s).
     Option.bind (read_char CHR ''.'' s) (\<lambda>s. Option.bind (read_octet s) (\<lambda>(d, s). Some ((a, b, c, d), s))))))))"

definition read_separator :: "bool \<Rightarrow> string \<Rightarrow> string option" where
  "read_separator first s = (if first then Some s else read_char CHR '':'' s)"

text \<open>Up to \<open>n\<close> groups, the last two of which may be written as an IPv4 address.\<close>

fun read_groups :: "nat \<Rightarrow> bool \<Rightarrow> string \<Rightarrow> 16 word list \<times> bool \<times> string" where
  "read_groups 0 first s = ([], False, s)"
| "read_groups (Suc n) first s =
     (case (if n > 0 then Option.bind (read_separator first s) read_ipv4_addr else None) of
        Some ((a, b, c, d), rest) \<Rightarrow> ([of_nat (256 * a + b), of_nat (256 * c + d)], True, rest)
      | None \<Rightarrow> (case Option.bind (read_separator first s) (read_number 16 4 True 65535) of
          Some (g, rest) \<Rightarrow> (case read_groups n False rest of (gs, v4, rest) \<Rightarrow> (of_nat g # gs, v4, rest))
        | None \<Rightarrow> ([], False, s)))"

definition read_ipv6_addr :: "string \<Rightarrow> (16 word list \<times> string) option" where
  "read_ipv6_addr s = (case read_groups 8 True s of (hd_groups, head_ipv4, s) \<Rightarrow>
     if length hd_groups = 8 then Some (hd_groups, s)
     else if head_ipv4 then None
     else Option.bind (read_char CHR '':'' s) (\<lambda>s. Option.bind (read_char CHR '':'' s) (\<lambda>s.
       case read_groups (8 - (length hd_groups + 1)) True s of (tl_groups, _, s) \<Rightarrow>
         Some (hd_groups @ replicate (8 - length hd_groups - length tl_groups) 0 @ tl_groups, s))))"

definition parse_ip :: "string \<Rightarrow> IpAddr option" where
  "parse_ip s = (case read_ipv4_addr s of
     Some ((a, b, c, d), rest) \<Rightarrow> if rest = [] then Some (V4 a b c d) else None
   | None \<Rightarrow> (case read_ipv6_addr s of Some (gs, rest) \<Rightarrow> if rest = [] then Some (V6 gs) else None | None \<Rightarrow> None))"

text \<open>\<open>is_loopback\<close>, \<open>is_private\<close>, \<open>is_link_local\<close>, and the spelled-out metadata range.\<close>

definition v4_internal :: "nat \<Rightarrow> nat \<Rightarrow> nat \<Rightarrow> nat \<Rightarrow> bool" where
  "v4_internal a b c d = (a = 127 \<or> (a = 10 \<or> a = 172 \<and> 16 \<le> b \<and> b \<le> 31 \<or> a = 192 \<and> b = 168) \<or>
     a = 169 \<and> b = 254 \<or> a = 169 \<and> b = 254)"

definition v6_loopback :: "16 word list \<Rightarrow> bool" where
  "v6_loopback gs = (gs = [0, 0, 0, 0, 0, 0, 0, 1])"

definition v6_unspecified :: "16 word list \<Rightarrow> bool" where
  "v6_unspecified gs = (gs = [0, 0, 0, 0, 0, 0, 0, 0])"

definition to_ipv4_mapped :: "16 word list \<Rightarrow> (nat \<times> nat \<times> nat \<times> nat) option" where
  "to_ipv4_mapped gs = (if take 6 gs = [0, 0, 0, 0, 0, 0xffff]
     then let x = unat (gs ! 6); y = unat (gs ! 7) in Some (x div 256, x mod 256, y div 256, y mod 256) else None)"

definition internal_name :: "string \<Rightarrow> bool" where
  "internal_name host = (host = ''localhost'' \<or> ends_with host ''.local'' \<or> ends_with host ''.internal'')"

subsection \<open>The upstream client\<close>

record http_request =
  rq_method :: string
  rq_url :: string
  rq_headers :: HeaderMap
  rq_body :: bytes

record http_response =
  rs_status :: nat
  rs_headers :: HeaderMap
  rs_body :: "string + bytes" \<comment> \<open>reading the body may fail\<close>

type_synonym 's http = "http_request \<Rightarrow> ('s world, string + http_response) async"

text \<open>\<open>Url::host_str\<close> writes an IPv6 host in brackets; it and the JSON reader are third-party.\<close>

record outbound_prims = tail_prims +
  url_host_str :: "Url \<Rightarrow> string option"
  json_from_bytes :: "bytes \<Rightarrow> string + json"

definition appview_blocked :: "IpAddr \<Rightarrow> bool" where
  "appview_blocked ip = (case ip of
     V4 a b c d \<Rightarrow> v4_internal a b c d
   | V6 gs \<Rightarrow> (case to_ipv4_mapped gs of
       Some (a, b, c, d) \<Rightarrow> v4_internal a b c d
     | None \<Rightarrow> v6_loopback gs \<or> v6_unspecified gs \<or> and (gs ! 0) 0xfe00 = 0xfc00 \<or> and (gs ! 0) 0xffc0 = 0xfe80))"

definition validate_appview_url :: "'x outbound_prims_scheme \<Rightarrow> string \<Rightarrow> XrpcError + unit" where
  "validate_appview_url P url =
     and_then (map_err (\<lambda>e. UpstreamFailure (''invalid upstream url: '' @ e)) (url_parse P url)) (\<lambda>parsed.
     if url_scheme parsed \<noteq> ''https'' then Err (UpstreamFailure (''upstream url must be an https:// URL, got: '' @ url))
     else and_then (ok_or (UpstreamFailure ''upstream url missing host'') (url_host_str P parsed)) (\<lambda>host.
       case parse_ip host of
         Some ip \<Rightarrow> if appview_blocked ip then Err (UpstreamFailure ''upstream host not allowed'') else Ok ()
       | None \<Rightarrow> if internal_name host then Err (UpstreamFailure ''upstream host not allowed'') else Ok ()))"

definition response_header :: "http_response \<Rightarrow> string \<Rightarrow> string option" where
  "response_header resp name = Option.bind (header_get (rs_headers resp) name) header_str_of"

definition upstream_url :: "UpstreamRequest \<Rightarrow> string" where
  "upstream_url req = up_base_url req @ ''/xrpc/'' @ up_nsid req @ (if up_query req \<noteq> [] then ''?'' @ up_query req else [])"

definition upstream_http :: "UpstreamRequest \<Rightarrow> http_request" where
  "upstream_http req = \<lparr>rq_method = (case up_method req of Get \<Rightarrow> ''GET'' | Post \<Rightarrow> ''POST''), rq_url = upstream_url req,
     rq_headers = [(''authorization'', ''Bearer '' @ up_jwt req)] @
       (case up_content_type req of Some ct \<Rightarrow> [(''content-type'', ct)] | None \<Rightarrow> []) @
       (case up_accept_labelers req of Some l \<Rightarrow> [(''atproto-accept-labelers'', l)] | None \<Rightarrow> []),
     rq_body = (case up_method req of Get \<Rightarrow> [] | Post \<Rightarrow> up_body req)\<rparr>"

definition proxy_request :: "'x outbound_prims_scheme \<Rightarrow> 's http \<Rightarrow> UpstreamRequest \<Rightarrow> ('s world, XrpcError + UpstreamResponse) async" where
  "proxy_request P send req =
     try_ok (validate_appview_url P (up_base_url req)) (\<lambda>_.
     abind (send (upstream_http req)) (\<lambda>r.
     try_ok (map_err (\<lambda>e. UpstreamFailure (''upstream request failed: '' @ e)) r) (\<lambda>resp.
     let content_type = response_header resp ''content-type'';
         content_labelers = response_header resp ''atproto-content-labelers'' in
     try_ok (map_err (\<lambda>e. UpstreamFailure (''upstream body read: '' @ e)) (rs_body resp)) (\<lambda>body.
     Ready (Ok \<lparr>ur_status = rs_status resp, ur_body = body, ur_content_type = content_type, ur_content_labelers = content_labelers\<rparr>)))))"

subsection \<open>The service resolver\<close>

text \<open>The cache of resolved endpoints is the resolver's own; a resolution returns it updated.\<close>

definition resolve_service ::
  "'x outbound_prims_scheme \<Rightarrow> 's http \<Rightarrow> string \<Rightarrow> (string, string) hashmap \<Rightarrow> string \<Rightarrow> string \<Rightarrow>
     ('s world, (XrpcError + string) \<times> (string, string) hashmap) async" where
  "resolve_service P send plc_url cache did fragment =
     (if starts_with did ''did:web:'' then Ready (map_err InvalidRequest (did_web_endpoint did), cache)
      else if \<not> starts_with did ''did:plc:'' then Ready (Err (InvalidRequest (''unsupported proxy DID method: '' @ did)), cache)
      else let cache_key = did @ ''#'' @ fragment in
        case hm_get cache cache_key of
          Some hit \<Rightarrow> Ready (Ok hit, cache)
        | None \<Rightarrow>
            abind (send \<lparr>rq_method = ''GET'', rq_url = plc_url @ ''/'' @ did, rq_headers = [], rq_body = []\<rparr>) (\<lambda>r.
            Ready (case and_then (map_err (\<lambda>e. UpstreamFailure (''plc fetch failed: '' @ e)) r) (\<lambda>resp.
                and_then (map_err (\<lambda>e. UpstreamFailure (''plc doc decode failed: '' @ e)) (and_then (rs_body resp) (json_from_bytes P))) (\<lambda>doc.
                ok_or (InvalidRequest (''no #'' @ fragment @ '' service on '' @ did)) (service_endpoint_from_doc doc did fragment))) of
              Inl e \<Rightarrow> (Err e, cache)
            | Inr endpoint \<Rightarrow> (Ok endpoint, hm_insert cache_key endpoint cache))))"

subsection \<open>The proxy fallback\<close>

definition MAX_PROXY_BODY :: nat where
  "MAX_PROXY_BODY = 1024 * 1024"

record proxy_response =
  px_status :: nat
  px_headers :: HeaderMap
  px_body :: bytes

definition proxy_method :: "string \<Rightarrow> ProxyMethod option" where
  "proxy_method m = (if m = ''GET'' then Some Get else if m = ''POST'' then Some Post else None)"

definition request_header :: "HeaderMap \<Rightarrow> string \<Rightarrow> string option" where
  "request_header headers name = Option.bind (header_get headers name) header_str_of"

definition proxy_target ::
  "('s, 'z) AppState_scheme \<Rightarrow> HeaderMap \<Rightarrow> string \<Rightarrow> ('s world, XrpcError + string \<times> string) async" where
  "proxy_target state headers nsid = (case request_header headers ''atproto-proxy'' of
     Some target \<Rightarrow>
       try_ok (ok_or (InvalidRequest ''atproto-proxy must be <did>#<service-fragment>'') (split_once CHR ''#'' target)) (\<lambda>(tdid, fragment).
       await_ok (st_service_resolver state tdid fragment) (\<lambda>base. Ready (Ok (tdid, base))))
   | None \<Rightarrow> if starts_with nsid ''app.bsky.'' then Ready (Ok (st_appview_did state, st_appview_url state))
       else Ready (Err MethodNotImplemented))"

definition passed_on :: "string \<Rightarrow> string option \<Rightarrow> HeaderMap" where
  "passed_on name value = (case Option.bind value header_str_of of Some v \<Rightarrow> [(name, v)] | None \<Rightarrow> [])"

definition relay_response :: "UpstreamResponse \<Rightarrow> proxy_response" where
  "relay_response upstream = \<lparr>px_status = (if 100 \<le> ur_status upstream \<and> ur_status upstream \<le> 999 then ur_status upstream else 500),
     px_headers = passed_on ''content-type'' (ur_content_type upstream) @ passed_on ''atproto-content-labelers'' (ur_content_labelers upstream),
     px_body = ur_body upstream\<rparr>"

definition proxy_fallback ::
  "'x outbound_prims_scheme \<Rightarrow> ('s, 'z) AppState_scheme \<Rightarrow> Parts \<Rightarrow> string option \<Rightarrow> bytes \<Rightarrow> ('s world, XrpcError + proxy_response) async" where
  "proxy_fallback P state parts query body =
     await_ok (AccessAuth P state parts) (\<lambda>did.
     case strip_prefix (pa_path parts) ''/xrpc/'' of
       None \<Rightarrow> Ready (Err MethodNotImplemented)
     | Some nsid \<Rightarrow>
         if nsid = [] \<or> CHR ''/'' \<in> set nsid then Ready (Err MethodNotImplemented)
         else case proxy_method (pa_method parts) of
           None \<Rightarrow> Ready (Err MethodNotImplemented)
         | Some m \<Rightarrow>
             if length body > MAX_PROXY_BODY then Ready (Err (InvalidRequest ''request body too large''))
             else await_ok (proxy_target state (pa_headers parts) nsid) (\<lambda>(target_did, base_url).
               await_ok (load_signing_key_cached P state did) (\<lambda>signing.
               abind (mint_service_auth_jwt P signing did target_did nsid) (\<lambda>r.
               try_ok (map_err XrpcError.Internal r) (\<lambda>jwt.
               await_ok (st_appview_client state
                 \<lparr>up_method = m, up_base_url = base_url, up_nsid = nsid, up_query = (case query of Some q \<Rightarrow> q | None \<Rightarrow> []),
                  up_body = body, up_content_type = request_header (pa_headers parts) ''content-type'', up_jwt = jwt,
                  up_accept_labelers = request_header (pa_headers parts) ''atproto-accept-labelers''\<rparr>) (\<lambda>upstream.
               Ready (Ok (relay_response upstream))))))))"

subsection \<open>The relay handshake\<close>

definition crawl_url :: "string \<Rightarrow> string" where
  "crawl_url relay_url = relay_url @ ''/xrpc/com.atproto.sync.requestCrawl''"

definition relay_blocked :: "IpAddr \<Rightarrow> bool" where
  "relay_blocked ip = (case ip of V4 a b c d \<Rightarrow> v4_internal a b c d | V6 gs \<Rightarrow> v6_loopback gs \<or> v6_unspecified gs)"

definition validate_relay_url :: "'x outbound_prims_scheme \<Rightarrow> string \<Rightarrow> XrpcError + unit" where
  "validate_relay_url P relay_url =
     and_then (map_err (\<lambda>e. XrpcError.Internal (''invalid relay_url: '' @ e)) (url_parse P relay_url)) (\<lambda>url.
     if url_scheme url \<noteq> ''https'' then Err (XrpcError.Internal (''relay_url must be an https:// URL, got: '' @ relay_url))
     else and_then (ok_or (XrpcError.Internal ''relay_url missing host'') (url_host_str P url)) (\<lambda>host.
       case parse_ip host of
         Some ip \<Rightarrow> if relay_blocked ip then Err (XrpcError.Internal ''relay_url host not allowed'') else Ok ()
       | None \<Rightarrow> if internal_name host then Err (XrpcError.Internal ''relay_url host not allowed'') else Ok ()))"

definition request_crawl :: "'x outbound_prims_scheme \<Rightarrow> 's http \<Rightarrow> string \<Rightarrow> string \<Rightarrow> ('s world, XrpcError + unit) async" where
  "request_crawl P send relay_url pds_hostname =
     try_ok (validate_relay_url P relay_url) (\<lambda>_.
     try_ok (map_err (\<lambda>e. XrpcError.Internal (''requestCrawl POST failed: '' @ e)) (json_to_vec P (Object [(''hostname'', String pds_hostname)]))) (\<lambda>body.
     abind (send \<lparr>rq_method = ''POST'', rq_url = crawl_url relay_url, rq_headers = [(''content-type'', ''application/json'')], rq_body = body\<rparr>) (\<lambda>r.
     try_ok (map_err (\<lambda>e. XrpcError.Internal (''requestCrawl POST failed: '' @ e)) r) (\<lambda>resp.
     if \<not> (200 \<le> rs_status resp \<and> rs_status resp < 300)
     then Ready (Err (XrpcError.Internal (''relay returned status '' @ display_status P (rs_status resp))))
     else Ready (Ok ())))))"

subsection \<open>The tail tool\<close>

definition is_safe_web_host :: "string \<Rightarrow> bool" where
  "is_safe_web_host host =
     (if host = [] \<or> length host > 253 then False
      else if \<not> list_all is_host_char host then False
      else case parse_ip host of
        Some ip \<Rightarrow> \<not> (case ip of V4 a b c d \<Rightarrow> v4_internal a b c d \<or> (a, b, c, d) = (0, 0, 0, 0) | V6 gs \<Rightarrow> v6_loopback gs \<or> v6_unspecified gs)
      | None \<Rightarrow> \<not> internal_name host)"

definition fetch_json :: "'x outbound_prims_scheme \<Rightarrow> 's http \<Rightarrow> string \<Rightarrow> string \<Rightarrow> ('s world, string + json) async" where
  "fetch_json P send what url =
     abind (send \<lparr>rq_method = ''GET'', rq_url = url, rq_headers = [], rq_body = []\<rparr>) (\<lambda>r.
     Ready (and_then (map_err (\<lambda>e. what @ '' fetch: '' @ e) r) (\<lambda>resp.
       map_err (\<lambda>e. what @ '' json: '' @ e) (and_then (rs_body resp) (json_from_bytes P)))))"

definition resolve_plc :: "'x outbound_prims_scheme \<Rightarrow> 's http \<Rightarrow> string \<Rightarrow> ('s world, string + string) async" where
  "resolve_plc P send did =
     (if \<not> list_all (\<lambda>c. is_ascii_alphanumeric c \<or> c = CHR '':'') did then Ready (Err (''invalid did:plc characters: '' @ did))
      else await_ok (fetch_json P send ''plc'' (''https://plc.directory/'' @ did)) (\<lambda>json.
        Ready (ok_or ''plc: verificationMethods.atproto not found in response''
          (Option.bind (Option.bind (json_get json ''verificationMethods'') (\<lambda>m. json_get m ''atproto'')) as_str))))"

fun find_atproto_key :: "string \<Rightarrow> string \<Rightarrow> json list \<Rightarrow> string + string" where
  "find_atproto_key atproto_id did [] = Err (''did:web: no verificationMethod with id='' @ atproto_id)"
| "find_atproto_key atproto_id did (entry # vms) =
     (if Option.bind (json_get entry ''id'') as_str = Some atproto_id
      then and_then (ok_or ''did:web: publicKeyMultibase missing'' (Option.bind (json_get entry ''publicKeyMultibase'') as_str))
        (\<lambda>multibase. Ok (''did:key:'' @ multibase))
      else find_atproto_key atproto_id did vms)"

definition resolve_web :: "'x outbound_prims_scheme \<Rightarrow> 's http \<Rightarrow> string \<Rightarrow> ('s world, string + string) async" where
  "resolve_web P send did =
     (let suffix = (case strip_prefix did ''did:web:'' of Some s \<Rightarrow> s | None \<Rightarrow> did) in
      if CHR '':'' \<in> set suffix then Ready (Err (''did:web path DIDs not supported in demo resolver: '' @ did))
      else if \<not> is_safe_web_host suffix then Ready (Err (''did:web host not allowed: '' @ did))
      else await_ok (fetch_json P send ''web'' (''https://'' @ suffix @ ''/.well-known/did.json'')) (\<lambda>json.
        Ready (and_then (ok_or ''did:web: verificationMethod array not found'' (Option.bind (json_get json ''verificationMethod'') as_array))
          (find_atproto_key (did @ ''#atproto'') did))))"

definition resolve_did_key :: "'x outbound_prims_scheme \<Rightarrow> 's http \<Rightarrow> string \<Rightarrow> ('s world, string + string) async" where
  "resolve_did_key P send repo =
     (if starts_with repo ''did:plc:'' then resolve_plc P send repo
      else if starts_with repo ''did:web:'' then resolve_web P send repo
      else Ready (Err (''unsupported DID method: '' @ repo)))"

text \<open>What the tool does with one binary message: nothing for a frame that is no commit, else a verdict.\<close>

datatype tail_line = TailSkip | TailDecodeError TailError | TailCommit CommitBody "string + unit"

definition tail_message ::
  "'x outbound_prims_scheme \<Rightarrow> 's http \<Rightarrow> (TailError \<Rightarrow> string) \<Rightarrow> string option \<Rightarrow> bytes \<Rightarrow> ('s world, tail_line) async" where
  "tail_message P send debug did_key_flag bs = (case decode_commit_frame P bs of
     Inl e \<Rightarrow> Ready (if e = NotCommit then TailSkip else TailDecodeError e)
   | Inr body \<Rightarrow>
       abind (case did_key_flag of Some k \<Rightarrow> Ready (Ok k) | None \<Rightarrow> resolve_did_key P send (cb_repo body)) (\<lambda>key_res.
       Ready (TailCommit body (case key_res of
         Inr k \<Rightarrow> map_err debug (verify_commit_sig P body k)
       | Inl e \<Rightarrow> Err (''resolve: '' @ e)))))"

end
