(* ===== verification/Embedded_Core.thy ===== *)
theory Embedded_Core
  imports Outbound
begin

text \<open>
  The in-process server for device hosting, first part (\<open>rust-core/src/server/mod.rs\<close> and \<open>appview.rs\<close>):
  responses and CORS, query and body parsing, sessions, preferences, the outbound proxy and service
  tokens.

  An error here is a finished response, so a handler is a program that ends in one either way. The
  signing-key cache is the one of the world; the cache of resolved proxy targets is passed along.
  \<open>serde_json\<close>, SHA-1 and base64 are third-party; a JSON body is kept as its value.
\<close>

subsection \<open>Responses\<close>

datatype emb_body = BodyJson json | BodyText string | BodyBytes bytes

record emb_response =
  er_status :: nat
  er_headers :: HeaderMap
  er_body :: emb_body

definition json_response :: "nat \<Rightarrow> json \<Rightarrow> emb_response" where
  "json_response status body = \<lparr>er_status = status, er_headers = [(''content-type'', ''application/json'')], er_body = BodyJson body\<rparr>"

definition text_response :: "nat \<Rightarrow> string \<Rightarrow> emb_response" where
  "text_response status body = \<lparr>er_status = status, er_headers = [(''content-type'', ''text/plain'')], er_body = BodyText body\<rparr>"

definition empty_response :: "nat \<Rightarrow> emb_response" where
  "empty_response status = \<lparr>er_status = status, er_headers = [], er_body = BodyBytes []\<rparr>"

definition xrpc_error :: "nat \<Rightarrow> string \<Rightarrow> string \<Rightarrow> emb_response" where
  "xrpc_error status err message = json_response status (Object [(''error'', String err), (''message'', String message)])"

definition header_insert :: "string \<Rightarrow> string \<Rightarrow> HeaderMap \<Rightarrow> HeaderMap" where
  "header_insert k v h = filter (\<lambda>kv. fst kv \<noteq> k) h @ [(k, v)]"

definition apply_cors :: "emb_response \<Rightarrow> emb_response" where
  "apply_cors resp = resp\<lparr>er_headers :=
     header_insert ''access-control-max-age'' ''86400''
     (header_insert ''access-control-allow-headers'' ''*''
     (header_insert ''access-control-allow-methods'' ''GET, POST, OPTIONS''
     (header_insert ''access-control-allow-origin'' ''*'' (er_headers resp))))\<rparr>"

definition preflight_response :: emb_response where
  "preflight_response = empty_response 204"

definition emb_internal :: "string \<Rightarrow> emb_response" where
  "emb_internal msg = xrpc_error 500 ''InternalError'' msg"

definition emb_invalid :: "string \<Rightarrow> emb_response" where
  "emb_invalid msg = xrpc_error 400 ''InvalidRequest'' msg"

definition settle :: "('s world, emb_response + emb_response) async \<Rightarrow> ('s world, emb_response) async" where
  "settle p = abind p (\<lambda>r. Ready (case r of Inl e \<Rightarrow> e | Inr x \<Rightarrow> x))"

definition edb :: "string \<Rightarrow> ('s, 'a) sop \<Rightarrow> ('s world, emb_response + 'a) async" where
  "edb msg op = abind (db op) (\<lambda>r. Ready (map_err (\<lambda>_. emb_internal msg) r))"

subsection \<open>State and requests\<close>

record ServerConfig =
  cf_hostname :: string
  cf_open_registration :: bool
  cf_jwt_secret :: bytes
  cf_key_passphrase :: bytes
  cf_appview_did :: string
  cf_appview_url :: string
  cf_plc_url :: string

record ProxyRequest =
  pq_method :: string
  pq_base_url :: string
  pq_nsid :: string
  pq_query :: string
  pq_body :: bytes
  pq_content_type :: "string option"
  pq_service_jwt :: string
  pq_accept_labelers :: "string option"

record 's OutboundProxy =
  op_forward :: "ProxyRequest \<Rightarrow> ('s world, string + UpstreamResponse) async"
  op_fetch :: "string \<Rightarrow> ('s world, string + bytes) async"

record 's EmbState =
  em_store :: "'s StorageBackend"
  em_config :: ServerConfig
  em_proxy :: "'s OutboundProxy option"

record emb_request =
  eq_method :: string
  eq_path :: string
  eq_query :: "string option"
  eq_headers :: HeaderMap
  eq_body :: "unit + bytes" \<comment> \<open>collecting it may fail\<close>

record emb_prims = outbound_prims +
  json_from_str :: "string \<Rightarrow> string + json"
  json_to_text :: "json \<Rightarrow> string"
  sha1 :: "bytes \<Rightarrow> bytes"
  base64 :: "bytes \<Rightarrow> string"
  crate_version :: string

subsection \<open>Parsing\<close>

definition MAX_BODY_BYTES :: nat where
  "MAX_BODY_BYTES = 64 * 1024"

text \<open>\<open>form_bytes\<close> is the loop of \<open>percent_decode\<close>.\<close>

fun form_bytes :: "string \<Rightarrow> string" where
  "form_bytes [] = []"
| "form_bytes (c # cs) =
     (if c = CHR ''+'' then CHR '' '' # form_bytes cs
      else if c = CHR ''%'' then (case cs of
        a # b # ds \<Rightarrow> (case (hex_digit a, hex_digit b) of
            (Some h, Some l) \<Rightarrow> char_of (16 * h + l) # form_bytes ds
          | _ \<Rightarrow> c # form_bytes cs)
      | _ \<Rightarrow> c # form_bytes cs)
      else c # form_bytes cs)"

definition form_percent_decode :: "'x id_prims_scheme \<Rightarrow> string \<Rightarrow> string" where
  "form_percent_decode P s = from_utf8_lossy P (as_bytes (form_bytes s))"

definition query_param :: "'x id_prims_scheme \<Rightarrow> string \<Rightarrow> string \<Rightarrow> string option" where
  "query_param P query key = find_map (\<lambda>pair. Option.bind (split_once CHR ''='' pair) (\<lambda>(k, v).
     if k = key then Some (form_percent_decode P v) else None)) (split_on CHR ''&'' query)"

definition read_json_body :: "'x outbound_prims_scheme \<Rightarrow> emb_request \<Rightarrow> emb_response + json" where
  "read_json_body P req =
     and_then (map_err (\<lambda>_. emb_invalid ''could not read body'') (eq_body req)) (\<lambda>collected.
     if length collected > MAX_BODY_BYTES then Err (xrpc_error 413 ''InvalidRequest'' ''request body too large'')
     else map_err (\<lambda>_. emb_invalid ''invalid JSON body'') (json_from_bytes P collected))"

definition authed_did :: "'x auth_prims_scheme \<Rightarrow> string option \<Rightarrow> bytes \<Rightarrow> string \<Rightarrow> ('s world, emb_response + string) async" where
  "authed_did P auth_header secret want_scope =
     (if secret = [] then Ready (Err (xrpc_error 401 ''AuthenticationRequired'' ''sessions are not enabled on this server''))
      else try_ok (ok_or (xrpc_error 401 ''AuthenticationRequired'' ''missing bearer token'')
          (Option.bind auth_header (\<lambda>h. strip_prefix h ''Bearer ''))) (\<lambda>token.
        abind (decode_jwt P token secret) (\<lambda>r.
        try_ok (map_err (\<lambda>e. case e of
            CoreError.ExpiredToken \<Rightarrow> xrpc_error 400 ''ExpiredToken'' ''token has expired''
          | _ \<Rightarrow> xrpc_error 400 ''InvalidToken'' ''invalid token'') r) (\<lambda>claims.
        if ac_scope claims \<noteq> want_scope then Ready (Err (xrpc_error 400 ''InvalidToken'' ''token has the wrong scope''))
        else Ready (Ok (ac_sub claims))))))"

definition emb_auth :: "'x auth_prims_scheme \<Rightarrow> 's EmbState \<Rightarrow> string option \<Rightarrow> ('s world, emb_response + string) async" where
  "emb_auth P state auth_header = authed_did P auth_header (cf_jwt_secret (em_config state)) ''com.atproto.access''"

subsection \<open>Sessions\<close>

text \<open>Both tokens are minted before either is looked at.\<close>

definition session_response :: "'x auth_prims_scheme \<Rightarrow> 's EmbState \<Rightarrow> string \<Rightarrow> string \<Rightarrow> ('s world, emb_response) async" where
  "session_response P state did handle =
     (let secret = cf_jwt_secret (em_config state) in
      abind (encode_access_jwt P did secret) (\<lambda>access.
      abind (encode_refresh_jwt P did secret) (\<lambda>refresh.
      Ready (case (access, refresh) of
        (Inr a, Inr r) \<Rightarrow> json_response 200 (Object [(''accessJwt'', String a), (''refreshJwt'', String r),
          (''handle'', String handle), (''did'', String did), (''active'', Bool True)])
      | _ \<Rightarrow> emb_internal ''could not issue tokens''))))"

definition emb_create_session :: "'x auth_prims_scheme \<Rightarrow> 's EmbState \<Rightarrow> json \<Rightarrow> ('s world, emb_response) async" where
  "emb_create_session P state body =
     (if cf_jwt_secret (em_config state) = []
      then Ready (xrpc_error 401 ''AuthenticationRequired'' ''sessions are not enabled on this server'')
      else case (as_str (json_index body ''identifier''), as_str (json_index body ''password'')) of
        (Some identifier, Some password) \<Rightarrow>
          abind (db (get_account_by_handle (account_ops (em_store state)) identifier)) (\<lambda>r. case r of
            Inl _ \<Rightarrow> Ready (emb_internal ''store error'')
          | Inr None \<Rightarrow> Ready (emb_invalid ''invalid identifier or password'')
          | Inr (Some (did, phc)) \<Rightarrow> (case verify_password P password phc of
              Inr True \<Rightarrow> session_response P state did identifier
            | Inr False \<Rightarrow> Ready (emb_invalid ''invalid identifier or password'')
            | Inl _ \<Rightarrow> Ready (emb_internal ''password verification failed'')))
      | _ \<Rightarrow> Ready (emb_invalid ''identifier and password are required''))"

definition emb_get_session :: "'x auth_prims_scheme \<Rightarrow> 's EmbState \<Rightarrow> string option \<Rightarrow> ('s world, emb_response) async" where
  "emb_get_session P state auth_header = settle (
     await_ok (emb_auth P state auth_header) (\<lambda>did.
     await_ok (edb ''store error'' (get_handle_by_did (account_ops (em_store state)) did)) (\<lambda>found.
     Ready (Ok (case found of
       Some handle \<Rightarrow> json_response 200 (Object [(''handle'', String handle), (''did'', String did), (''active'', Bool True)])
     | None \<Rightarrow> xrpc_error 400 ''AccountTakedown'' ''account is deactivated or taken down'')))))"

definition emb_refresh_session :: "'x auth_prims_scheme \<Rightarrow> 's EmbState \<Rightarrow> string option \<Rightarrow> ('s world, emb_response) async" where
  "emb_refresh_session P state auth_header = settle (
     await_ok (authed_did P auth_header (cf_jwt_secret (em_config state)) ''com.atproto.refresh'') (\<lambda>did.
     await_ok (edb ''store error'' (get_handle_by_did (account_ops (em_store state)) did)) (\<lambda>found. case found of
       Some handle \<Rightarrow> abind (session_response P state did handle) (\<lambda>resp. Ready (Ok resp))
     | None \<Rightarrow> Ready (Ok (xrpc_error 400 ''AccountTakedown'' ''account is deactivated or taken down'')))))"

subsection \<open>Preferences\<close>

definition emb_get_preferences :: "'x emb_prims_scheme \<Rightarrow> 's EmbState \<Rightarrow> string option \<Rightarrow> ('s world, emb_response) async" where
  "emb_get_preferences P state auth_header = settle (
     await_ok (emb_auth P state auth_header) (\<lambda>did.
     await_ok (edb ''store error'' (get_preferences (account_ops (em_store state)) did)) (\<lambda>stored.
     try_ok (case stored of
         None \<Rightarrow> Ok (Array [])
       | Some json_str \<Rightarrow> map_err (\<lambda>_. emb_internal ''stored preferences are corrupt'') (json_from_str P json_str)) (\<lambda>prefs.
     Ready (Ok (json_response 200 (Object [(''preferences'', prefs)])))))))"

definition emb_put_preferences :: "'x emb_prims_scheme \<Rightarrow> 's EmbState \<Rightarrow> string option \<Rightarrow> emb_request \<Rightarrow> ('s world, emb_response) async" where
  "emb_put_preferences P state auth_header req = settle (
     await_ok (emb_auth P state auth_header) (\<lambda>did.
     try_ok (read_json_body P req) (\<lambda>body.
     case Option.bind (json_get body ''preferences'') (\<lambda>p. if as_array p \<noteq> None then Some p else None) of
       None \<Rightarrow> Ready (Err (emb_invalid ''preferences must be an array''))
     | Some prefs \<Rightarrow>
         await_ok (edb ''store error'' (upsert_preferences (account_ops (em_store state)) did (json_to_text P prefs))) (\<lambda>_.
         Ready (Ok (empty_response 200))))))"

subsection \<open>The account of the host\<close>

definition sole_active_account_did :: "'s StorageBackend \<Rightarrow> ('s world, StorageError + string option) async" where
  "sole_active_account_did B = await_ok (db (list_accounts (account_ops B))) (\<lambda>accounts.
     Ready (Ok (case filter (\<lambda>a. sum_deactivated_at a = None \<and> sum_takedown_ref a = None) accounts of
       [only] \<Rightarrow> Some (sum_did only) | _ \<Rightarrow> None)))"

definition well_known_did :: "'s EmbState \<Rightarrow> ('s world, emb_response) async" where
  "well_known_did state =
     abind (db (get_did_by_handle (account_ops (em_store state)) (cf_hostname (em_config state)))) (\<lambda>r. case r of
       Inr (Some did) \<Rightarrow> Ready (text_response 200 did)
     | Inr None \<Rightarrow> abind (sole_active_account_did (em_store state)) (\<lambda>r. Ready (case r of
           Inr (Some did) \<Rightarrow> text_response 200 did
         | Inr None \<Rightarrow> text_response 404 ''no account for this host''
         | Inl _ \<Rightarrow> text_response 500 ''store error''))
     | Inl _ \<Rightarrow> Ready (text_response 500 ''store error''))"

definition emb_describe_server :: "'s EmbState \<Rightarrow> emb_response" where
  "emb_describe_server state = json_response 200 (Object
     [(''did'', String (''did:web:'' @ cf_hostname (em_config state))),
      (''availableUserDomains'', Array [String (''.'' @ cf_hostname (em_config state))]),
      (''inviteCodeRequired'', Bool (\<not> cf_open_registration (em_config state)))])"

definition emb_resolve_handle :: "'x id_prims_scheme \<Rightarrow> 's EmbState \<Rightarrow> string \<Rightarrow> ('s world, emb_response) async" where
  "emb_resolve_handle P state query = (case query_param P query ''handle'' of
     None \<Rightarrow> Ready (emb_invalid ''missing handle'')
   | Some handle \<Rightarrow> abind (db (get_did_by_handle (account_ops (em_store state)) handle)) (\<lambda>r. Ready (case r of
       Inr (Some did) \<Rightarrow> json_response 200 (Object [(''did'', String did)])
     | Inr None \<Rightarrow> xrpc_error 404 ''HandleNotFound'' ''handle not found''
     | Inl _ \<Rightarrow> emb_internal ''store error'')))"

subsection \<open>The signing key\<close>

text \<open>Unlike the production server's, this cache takes a key only once it has been imported.\<close>

definition load_signing_key :: "'x server_prims_scheme \<Rightarrow> 's EmbState \<Rightarrow> string \<Rightarrow> ('s world, emb_response + bytes) async" where
  "load_signing_key P state did =
     (let key_id = did @ ''#signing'' in
      abind (atomic (\<lambda>w. (hm_get (w_key_cache w) key_id, w))) (\<lambda>cached. case cached of
        Some b \<Rightarrow> Ready (map_err (\<lambda>_. emb_internal ''failed to import signing key'') (k256_import P b))
      | None \<Rightarrow>
          abind (load_key P (key_ops (em_store state)) key_id (cf_key_passphrase (em_config state))) (\<lambda>r.
          try_ok (map_err (\<lambda>_. emb_internal ''failed to load signing key'') r) (\<lambda>key_bytes.
          try_ok (map_err (\<lambda>_. emb_internal ''failed to import signing key'') (k256_import P key_bytes)) (\<lambda>signing.
          abind (atomic (\<lambda>w. ((), w\<lparr>w_key_cache := hm_insert key_id key_bytes (w_key_cache w)\<rparr>))) (\<lambda>_.
          Ready (Ok signing)))))))"

subsection \<open>The proxy\<close>

definition resolve_target ::
  "'x outbound_prims_scheme \<Rightarrow> 's EmbState \<Rightarrow> 's OutboundProxy \<Rightarrow> (string, string) hashmap \<Rightarrow> string \<Rightarrow> string \<Rightarrow>
     ('s world, (emb_response + string) \<times> (string, string) hashmap) async" where
  "resolve_target P state proxy cache did fragment =
     (if starts_with did ''did:web:'' then Ready (map_err emb_invalid (did_web_endpoint did), cache)
      else if \<not> starts_with did ''did:plc:'' then Ready (Err (emb_invalid (''unsupported proxy DID method: '' @ did)), cache)
      else let cache_key = did @ ''#'' @ fragment in
        case hm_get cache cache_key of
          Some hit \<Rightarrow> Ready (Ok hit, cache)
        | None \<Rightarrow>
            abind (op_fetch proxy (cf_plc_url (em_config state) @ ''/'' @ did)) (\<lambda>r.
            Ready (case and_then (map_err (\<lambda>_. xrpc_error 502 ''UpstreamFailure'' ''PLC directory fetch failed'') r) (\<lambda>bs.
                and_then (map_err (\<lambda>_. xrpc_error 502 ''UpstreamFailure'' ''PLC document decode failed'') (json_from_bytes P bs)) (\<lambda>doc.
                ok_or (emb_invalid (''no #'' @ fragment @ '' service on '' @ did)) (service_endpoint_from_doc doc did fragment))) of
              Inl e \<Rightarrow> (Err e, cache)
            | Inr endpoint \<Rightarrow> (Ok endpoint, hm_insert cache_key endpoint cache))))"

text \<open>\<open>trim_start_matches\<close> on a string pattern strips it as often as it is there.\<close>

fun trim_start_str :: "nat \<Rightarrow> string \<Rightarrow> string \<Rightarrow> string" where
  "trim_start_str 0 pat s = s"
| "trim_start_str (Suc n) pat s = (case strip_prefix s pat of Some r \<Rightarrow> trim_start_str n pat r | None \<Rightarrow> s)"

definition path_nsid :: "string \<Rightarrow> string" where
  "path_nsid path = trim_start_str (length path) ''/xrpc/'' path"

definition method_not_implemented :: emb_response where
  "method_not_implemented = xrpc_error 404 ''MethodNotImplemented'' ''method not implemented by the embedded server''"

definition emb_target ::
  "'x outbound_prims_scheme \<Rightarrow> 's EmbState \<Rightarrow> 's OutboundProxy \<Rightarrow> (string, string) hashmap \<Rightarrow> HeaderMap \<Rightarrow> string \<Rightarrow>
     ('s world, (emb_response + string \<times> string) \<times> (string, string) hashmap) async" where
  "emb_target P state proxy cache headers nsid = (case request_header headers ''atproto-proxy'' of
     Some target \<Rightarrow> (case split_once CHR ''#'' target of
       None \<Rightarrow> Ready (Err (emb_invalid ''atproto-proxy must be <did>#<service-fragment>''), cache)
     | Some (tdid, fragment) \<Rightarrow> abind (resolve_target P state proxy cache tdid fragment) (\<lambda>(r, cache).
         Ready (and_then r (\<lambda>base. Ok (tdid, base)), cache)))
   | None \<Rightarrow> Ready (if starts_with nsid ''app.bsky.'' then Ok (cf_appview_did (em_config state), cf_appview_url (em_config state))
       else Err method_not_implemented, cache))"

definition emb_relay :: "UpstreamResponse \<Rightarrow> emb_response" where
  "emb_relay upstream = (let r = relay_response upstream in \<lparr>er_status = px_status r, er_headers = px_headers r, er_body = BodyBytes (px_body r)\<rparr>)"

definition forward ::
  "'x outbound_prims_scheme \<Rightarrow> 's EmbState \<Rightarrow> (string, string) hashmap \<Rightarrow> string option \<Rightarrow> emb_request \<Rightarrow> string \<Rightarrow>
     ('s world, emb_response \<times> (string, string) hashmap) async" where
  "forward P state cache auth_header req query = (case em_proxy state of
     None \<Rightarrow> Ready (xrpc_error 404 ''MethodNotImplemented'' ''no upstream forwarder is configured on this embedded server'', cache)
   | Some proxy \<Rightarrow> abind (emb_auth P state auth_header) (\<lambda>r. case r of
       Inl resp \<Rightarrow> Ready (resp, cache)
     | Inr did \<Rightarrow>
         let nsid = path_nsid (eq_path req) in
         if nsid = [] \<or> CHR ''/'' \<in> set nsid then Ready (method_not_implemented, cache)
         else abind (emb_target P state proxy cache (eq_headers req) nsid) (\<lambda>(r, cache). case r of
           Inl resp \<Rightarrow> Ready (resp, cache)
         | Inr (target_did, base_url) \<Rightarrow> abind (settle (
             try_ok (map_err (\<lambda>_. emb_invalid ''could not read body'') (eq_body req)) (\<lambda>body.
             if length body > MAX_PROXY_BODY then Ready (Err (xrpc_error 413 ''InvalidRequest'' ''request body too large''))
             else await_ok (load_signing_key P state did) (\<lambda>signing.
             abind (mint_service_auth_jwt P signing did target_did nsid) (\<lambda>r.
             try_ok (map_err (\<lambda>_. emb_internal ''service-auth mint failed'') r) (\<lambda>jwt.
             abind (op_forward proxy
               \<lparr>pq_method = eq_method req, pq_base_url = base_url, pq_nsid = nsid, pq_query = query, pq_body = body,
                pq_content_type = request_header (eq_headers req) ''content-type'', pq_service_jwt = jwt,
                pq_accept_labelers = request_header (eq_headers req) ''atproto-accept-labelers''\<rparr>) (\<lambda>r.
             Ready (case r of Inr upstream \<Rightarrow> Ok (emb_relay upstream)
               | Inl _ \<Rightarrow> Err (xrpc_error 502 ''UpstreamFailure'' ''upstream request failed''))))))))) (\<lambda>resp.
             Ready (resp, cache)))))"

definition proxyable_method :: "string \<Rightarrow> bool" where
  "proxyable_method m = (m = ''GET'' \<or> m = ''POST'')"

definition emb_get_service_auth :: "'x server_prims_scheme \<Rightarrow> 's EmbState \<Rightarrow> string option \<Rightarrow> string \<Rightarrow> ('s world, emb_response) async" where
  "emb_get_service_auth P state auth_header query = settle (
     await_ok (emb_auth P state auth_header) (\<lambda>did.
     try_ok (ok_or (emb_invalid ''aud is required'') (query_param P query ''aud'')) (\<lambda>aud.
     let lxm = query_param P query ''lxm'' in
     abind now_unix (\<lambda>now.
     let exp = service_auth_exp (map_option of_int (Option.bind (query_param P query ''exp'') parse_i64)) (of_nat now) in
     await_ok (load_signing_key P state did) (\<lambda>signing.
     abind (mint_service_auth_jwt_with P signing did aud lxm (unat exp)) (\<lambda>r.
     Ready (map_err (\<lambda>_. emb_internal ''service-auth mint failed'') (and_then r (\<lambda>token.
       Ok (json_response 200 (Object [(''token'', String token)])))))))))))"

end
