(* ===== verification/Embedded_Repo.thy ===== *)
theory Embedded_Repo
  imports Embedded_Core
begin

text \<open>
  The device server's repository surface (\<open>rust-core/src/server/repo.rs\<close>) and its router
  (\<open>route\<close> of \<open>server/mod.rs\<close>). The production endpoints' helpers are
  shared where the sources share them; bodies are read field by field from JSON.
\<close>

subsection \<open>Helpers\<close>

definition ebs ::
  "'x prims_scheme \<Rightarrow> 's StorageBackend \<Rightarrow> string \<Rightarrow> 'a bs \<Rightarrow> Cid list \<Rightarrow> ('s world, emb_response + 'a \<times> Cid list) async" where
  "ebs P B msg p written = abind (run_bs P B p written) (\<lambda>r. Ready (map_err (\<lambda>_. emb_internal msg) r))"

definition ewrite :: "('s world, RepoError + 'a) async \<Rightarrow> ('s world, emb_response + 'a) async" where
  "ewrite p = abind p (\<lambda>r. Ready (map_err (\<lambda>_. emb_internal ''write failed'') r))"

definition check_collection :: "string \<Rightarrow> emb_response + unit" where
  "check_collection collection = map_err emb_invalid (validate_collection collection)"

definition check_rkey :: "string \<Rightarrow> emb_response + unit" where
  "check_rkey rkey = map_err emb_invalid (validate_rkey rkey)"

definition encode_json :: "'x repo_prims_scheme \<Rightarrow> json \<Rightarrow> emb_response + Ipld" where
  "encode_json P v = map_err (\<lambda>_. emb_internal ''record encode failed'') (json_value_to_ipld P v)"

definition emb_build_writer :: "'x repo_prims_scheme \<Rightarrow> 's EmbState \<Rightarrow> string \<Rightarrow> ('s world, emb_response + 's RepoWriter) async" where
  "emb_build_writer P state did =
     await_ok (load_signing_key P state did) (\<lambda>signing.
     try_ok (map_err (\<lambda>_. emb_internal ''invalid DID'') (did_from_str P did)) (\<lambda>did_typed.
     Ready (Ok \<lparr>rw_store = em_store state, rw_signing_key = signing, rw_did = did_typed\<rparr>)))"

definition emb_lookup_record_cid ::
  "'x repo_prims_scheme \<Rightarrow> 's EmbState \<Rightarrow> string \<Rightarrow> string \<Rightarrow> ('s world, emb_response + Cid option) async" where
  "emb_lookup_record_cid P state did mst_key =
     await_ok (edb ''store error'' (load_repo_root (repo_ops (em_store state)) did)) (\<lambda>root. case root of
       None \<Rightarrow> Ready (Ok None)
     | Some root_cid \<Rightarrow>
         await_ok (ebs P (em_store state) ''failed to open repo'' (repo_open P root_cid) []) (\<lambda>(repo, diff).
         await_ok (ebs P (em_store state) ''MST get error'' (tree_get P repo mst_key) diff) (\<lambda>(found, _).
         Ready (Ok found))))"

definition emb_resolve_repo_did :: "'s EmbState \<Rightarrow> string \<Rightarrow> ('s world, emb_response + string) async" where
  "emb_resolve_repo_did state repo =
     (if starts_with repo ''did:'' then Ready (Ok repo)
      else await_ok (edb ''store error'' (get_did_by_handle (account_ops (em_store state)) repo)) (\<lambda>found.
        Ready (ok_or (emb_invalid (''could not resolve repo: '' @ repo)) found)))"

definition commit_json :: "'x repo_prims_scheme \<Rightarrow> WriteOutcome \<Rightarrow> json" where
  "commit_json P outcome = Object [(''cid'', String (cid_to_string P (wo_commit_cid outcome))), (''rev'', String (wo_rev outcome))]"

definition field :: "json \<Rightarrow> string \<Rightarrow> string option" where
  "field body k = as_str (json_index body k)"

text \<open>What every write does first: the caller's DID, the JSON body, and that it names the caller's repository.\<close>

definition own_body ::
  "'x outbound_prims_scheme \<Rightarrow> 's EmbState \<Rightarrow> string option \<Rightarrow> emb_request \<Rightarrow> ('s world, emb_response + string \<times> json) async" where
  "own_body P state auth_header req =
     await_ok (emb_auth P state auth_header) (\<lambda>did.
     try_ok (read_json_body P req) (\<lambda>body.
     if field body ''repo'' \<noteq> Some did then Ready (Err (emb_invalid ''repo must match the authenticated DID''))
     else Ready (Ok (did, body))))"

subsection \<open>Record writes\<close>

definition emb_create_record ::
  "'x outbound_prims_scheme \<Rightarrow> 's EmbState \<Rightarrow> string option \<Rightarrow> emb_request \<Rightarrow> ('s world, emb_response) async" where
  "emb_create_record P state auth_header req = settle (
     await_ok (own_body P state auth_header req) (\<lambda>(did, body).
     try_ok (ok_or (emb_invalid ''collection is required'') (field body ''collection'')) (\<lambda>collection.
     try_ok (check_collection collection) (\<lambda>_.
     try_ok (case field body ''rkey'' of Some rk \<Rightarrow> check_rkey rk | None \<Rightarrow> Ok ()) (\<lambda>_.
     abind (rkey_or_tid (field body ''rkey'')) (\<lambda>rkey.
     let rcd = json_index body ''record'' in
     if rcd = Null then Ready (Err (emb_invalid ''record is required''))
     else try_ok (encode_json P rcd) (\<lambda>ipld.
     await_ok (emb_build_writer P state did) (\<lambda>writer.
     await_ok (ewrite (writer_create_record P writer (collection @ ''/'' @ rkey) ipld)) (\<lambda>(record_cid, _).
     Ready (Ok (json_response 200 (Object [(''uri'', String (at_uri did (collection @ ''/'' @ rkey))),
       (''cid'', String (cid_to_string P record_cid))]))))))))))))"

text \<open>The key of a put or delete: both parts are required and checked.\<close>

definition body_key :: "json \<Rightarrow> emb_response + string" where
  "body_key body = (case (field body ''collection'', field body ''rkey'') of
     (Some collection, Some rkey) \<Rightarrow> and_then (check_collection collection) (\<lambda>_. and_then (check_rkey rkey) (\<lambda>_. Ok (collection @ ''/'' @ rkey)))
   | _ \<Rightarrow> Err (emb_invalid ''collection and rkey are required''))"

definition emb_put_record ::
  "'x outbound_prims_scheme \<Rightarrow> 's EmbState \<Rightarrow> string option \<Rightarrow> emb_request \<Rightarrow> ('s world, emb_response) async" where
  "emb_put_record P state auth_header req = settle (
     await_ok (own_body P state auth_header req) (\<lambda>(did, body).
     try_ok (body_key body) (\<lambda>mst_key.
     let rcd = json_index body ''record'' in
     if rcd = Null then Ready (Err (emb_invalid ''record is required''))
     else try_ok (encode_json P rcd) (\<lambda>ipld.
     await_ok (emb_lookup_record_cid P state did mst_key) (\<lambda>found.
     await_ok (emb_build_writer P state did) (\<lambda>writer.
     await_ok (ewrite (apply_one P writer (if found \<noteq> None then Update mst_key ipld else Create mst_key ipld))) (\<lambda>outcome.
     Ready (Ok (json_response 200 (Object [(''uri'', String (at_uri did mst_key)),
       (''cid'', String (case wo_record_cid outcome of Some c \<Rightarrow> cid_to_string P c | None \<Rightarrow> [])),
       (''commit'', commit_json P outcome)]))))))))))"

definition emb_delete_record ::
  "'x outbound_prims_scheme \<Rightarrow> 's EmbState \<Rightarrow> string option \<Rightarrow> emb_request \<Rightarrow> ('s world, emb_response) async" where
  "emb_delete_record P state auth_header req = settle (
     await_ok (own_body P state auth_header req) (\<lambda>(did, body).
     try_ok (body_key body) (\<lambda>mst_key.
     await_ok (emb_lookup_record_cid P state did mst_key) (\<lambda>found.
     if found = None then Ready (Ok (json_response 200 (Object [(''commit'', Null)])))
     else await_ok (emb_build_writer P state did) (\<lambda>writer.
     await_ok (ewrite (apply_one P writer (Delete mst_key))) (\<lambda>outcome.
     Ready (Ok (json_response 200 (Object [(''commit'', commit_json P outcome)])))))))))"

definition write_rkey :: "string \<Rightarrow> json \<Rightarrow> emb_response + string" where
  "write_rkey kind write = and_then (ok_or (emb_invalid (kind @ '' write is missing rkey'')) (field write ''rkey'')) (\<lambda>rkey.
     and_then (check_rkey rkey) (\<lambda>_. Ok rkey))"

definition emb_apply_write ::
  "'x repo_prims_scheme \<Rightarrow> 's RepoWriter \<Rightarrow> string \<Rightarrow> json \<Rightarrow> ('s world, emb_response + WriteOutcome \<times> json) async" where
  "emb_apply_write P writer did write =
     (let type = (case field write ''$type'' of Some t \<Rightarrow> t | None \<Rightarrow> []) in
      try_ok (ok_or (emb_invalid ''write is missing collection'') (field write ''collection'')) (\<lambda>collection.
      try_ok (check_collection collection) (\<lambda>_.
      if type = ''com.atproto.repo.applyWrites#create'' then
        try_ok (case field write ''rkey'' of Some rk \<Rightarrow> check_rkey rk | None \<Rightarrow> Ok ()) (\<lambda>_.
        abind (rkey_or_tid (field write ''rkey'')) (\<lambda>rkey.
        try_ok (encode_json P (json_index write ''value'')) (\<lambda>ipld.
        let mst_key = collection @ ''/'' @ rkey in
        await_ok (ewrite (apply_one P writer (Create mst_key ipld))) (\<lambda>outcome.
        Ready (Ok (outcome, write_result P ''createResult'' (at_uri did mst_key) (wo_record_cid outcome)))))))
      else if type = ''com.atproto.repo.applyWrites#update'' then
        try_ok (write_rkey ''update'' write) (\<lambda>rkey.
        try_ok (encode_json P (json_index write ''value'')) (\<lambda>ipld.
        let mst_key = collection @ ''/'' @ rkey in
        await_ok (ewrite (apply_one P writer (Update mst_key ipld))) (\<lambda>outcome.
        Ready (Ok (outcome, write_result P ''updateResult'' (at_uri did mst_key) (wo_record_cid outcome))))))
      else if type = ''com.atproto.repo.applyWrites#delete'' then
        try_ok (write_rkey ''delete'' write) (\<lambda>rkey.
        await_ok (ewrite (apply_one P writer (Delete (collection @ ''/'' @ rkey)))) (\<lambda>outcome.
        Ready (Ok (outcome, Object [(''$type'', String ''com.atproto.repo.applyWrites#deleteResult'')]))))
      else Ready (Err (emb_invalid (''unknown write $type: '' @ type))))))"

fun emb_apply_loop ::
  "'x repo_prims_scheme \<Rightarrow> 's RepoWriter \<Rightarrow> string \<Rightarrow> json list \<Rightarrow> json list \<Rightarrow> json \<Rightarrow> ('s world, emb_response + emb_response) async" where
  "emb_apply_loop P writer did [] results last_commit =
     Ready (Ok (json_response 200 (Object [(''commit'', last_commit), (''results'', Array results)])))"
| "emb_apply_loop P writer did (write # ws) results last_commit =
     await_ok (emb_apply_write P writer did write) (\<lambda>(outcome, result).
     emb_apply_loop P writer did ws (results @ [result]) (commit_json P outcome))"

definition emb_apply_writes ::
  "'x outbound_prims_scheme \<Rightarrow> 's EmbState \<Rightarrow> string option \<Rightarrow> emb_request \<Rightarrow> ('s world, emb_response) async" where
  "emb_apply_writes P state auth_header req = settle (
     await_ok (own_body P state auth_header req) (\<lambda>(did, body).
     try_ok (ok_or (emb_invalid ''writes must be an array'') (as_array (json_index body ''writes''))) (\<lambda>ws.
     if ws = [] then Ready (Ok (json_response 200 (Object [(''commit'', Null), (''results'', Array [])])))
     else await_ok (emb_build_writer P state did) (\<lambda>writer.
     emb_apply_loop P writer did ws [] Null))))"

subsection \<open>Reads\<close>

definition eread :: "'x repo_prims_scheme \<Rightarrow> 's StorageBackend \<Rightarrow> Cid \<Rightarrow> ('s world, emb_response + json) async" where
  "eread P B cid =
     await_ok (edb ''read_block_bytes failed'' (read_block_bytes (repo_ops B) cid)) (\<lambda>bs.
     Ready (map_err (\<lambda>_. emb_internal ''dagcbor decode failed'') (dagcbor_to_json P bs)))"

definition record_json :: "'x repo_prims_scheme \<Rightarrow> string \<Rightarrow> string \<Rightarrow> Cid \<Rightarrow> json \<Rightarrow> json" where
  "record_json P did key cid value = Object [(''uri'', String (at_uri did key)), (''cid'', String (cid_to_string P cid)), (''value'', value)]"

definition emb_get_record :: "'x repo_prims_scheme \<Rightarrow> 's EmbState \<Rightarrow> string \<Rightarrow> ('s world, emb_response) async" where
  "emb_get_record P state query = settle (case (query_param P query ''repo'', query_param P query ''collection'', query_param P query ''rkey'') of
     (Some repo, Some collection, Some rkey) \<Rightarrow>
       await_ok (emb_resolve_repo_did state repo) (\<lambda>did.
       let mst_key = collection @ ''/'' @ rkey in
       await_ok (emb_lookup_record_cid P state did mst_key) (\<lambda>found.
       try_ok (ok_or (emb_invalid ''record not found'') found) (\<lambda>cid.
       await_ok (eread P (em_store state) cid) (\<lambda>value.
       Ready (Ok (json_response 200 (record_json P did mst_key cid value)))))))
   | _ \<Rightarrow> Ready (Err (emb_invalid ''repo, collection and rkey are required'')))"

primrec emb_list_loop ::
  "'x repo_prims_scheme \<Rightarrow> 's StorageBackend \<Rightarrow> string \<Rightarrow> nat \<Rightarrow> string option \<Rightarrow> entries \<Rightarrow> json list \<Rightarrow> string option \<Rightarrow>
     ('s world, emb_response + json list \<times> string option) async" where
  "emb_list_loop P B did limit cursor EntriesDone records last_key = Ready (Ok (records, last_key))"
| "emb_list_loop P B did limit cursor (EntriesFail e) records last_key = Ready (Err (emb_internal ''MST stream error''))"
| "emb_list_loop P B did limit cursor (EntriesRead c k) records last_key =
     abind (read_block_into B c) (\<lambda>r. emb_list_loop P B did limit cursor (k r) records last_key)"
| "emb_list_loop P B did limit cursor (EntriesItem key cid rest) records last_key =
     (if (case cursor of Some c \<Rightarrow> key \<le> c | None \<Rightarrow> False) then emb_list_loop P B did limit cursor rest records last_key
      else await_ok (eread P B cid) (\<lambda>value.
        let records = records @ [record_json P did key cid value] in
        if length records \<ge> limit then Ready (Ok (records, Some key))
        else emb_list_loop P B did limit cursor rest records (Some key)))"

text \<open>\<open>str::parse::<usize>\<close> on a 64-bit target: an optional plus sign and digits that fit.\<close>

definition parse_usize :: "string \<Rightarrow> nat option" where
  "parse_usize s = (let ds = (case s of c # cs \<Rightarrow> if c = CHR ''+'' then cs else s | [] \<Rightarrow> []) in
     if ds = [] \<or> \<not> list_all is_ascii_digit ds then None
     else let v = foldl (\<lambda>n c. 10 * n + (of_char c - 48)) (0 :: nat) ds in if v < 2 ^ 64 then Some v else None)"

definition emb_list_records :: "'x repo_prims_scheme \<Rightarrow> 's EmbState \<Rightarrow> string \<Rightarrow> ('s world, emb_response) async" where
  "emb_list_records P state query = settle (case (query_param P query ''repo'', query_param P query ''collection'') of
     (Some did, Some collection) \<Rightarrow>
       let limit = (case Option.bind (query_param P query ''limit'') parse_usize of Some l \<Rightarrow> min (max l 1) 100 | None \<Rightarrow> 50);
           cursor = query_param P query ''cursor'' in
       await_ok (edb ''store error'' (load_repo_root (repo_ops (em_store state)) did)) (\<lambda>root.
       try_ok (ok_or (emb_invalid (''repo not found for did: '' @ did)) root) (\<lambda>root_cid.
       await_ok (ebs P (em_store state) ''failed to open repo'' (repo_open P root_cid) []) (\<lambda>(repo, _).
       await_ok (emb_list_loop P (em_store state) did limit cursor (tree_entries_prefixed P repo (collection @ ''/'')) [] None) (\<lambda>(records, last_key).
       let next_cursor = (if length records = limit then last_key else None) in
       Ready (Ok (json_response 200 (Object [(''records'', Array records),
         (''cursor'', case next_cursor of Some k \<Rightarrow> String k | None \<Rightarrow> Null)])))))))
   | _ \<Rightarrow> Ready (Err (emb_invalid ''repo and collection are required'')))"

primrec emb_collections ::
  "'s StorageBackend \<Rightarrow> entries \<Rightarrow> string list \<Rightarrow> ('s world, emb_response + string list) async" where
  "emb_collections B EntriesDone acc = Ready (Ok acc)"
| "emb_collections B (EntriesFail e) acc = Ready (Err (emb_internal ''MST stream error''))"
| "emb_collections B (EntriesRead c k) acc = abind (read_block_into B c) (\<lambda>r. emb_collections B (k r) acc)"
| "emb_collections B (EntriesItem key cid rest) acc =
     emb_collections B rest (case split_once CHR ''/'' key of
       Some (collection, _) \<Rightarrow> (if collection \<in> set acc then acc else insort collection acc)
     | None \<Rightarrow> acc)"

definition emb_did_doc :: "'x auth_prims_scheme \<Rightarrow> 's EmbState \<Rightarrow> string \<Rightarrow> string \<Rightarrow> bytes \<Rightarrow> json" where
  "emb_did_doc P state did handle signing =
     (let key_did = k256_did P signing;
          public_key_multibase = (case strip_prefix key_did ''did:key:'' of Some m \<Rightarrow> m | None \<Rightarrow> key_did) in
      Object [(''@context'', Array [String ''https://www.w3.org/ns/did/v1'', String ''https://w3id.org/security/multikey/v1'']),
        (''id'', String did), (''alsoKnownAs'', Array [String (''at://'' @ handle)]),
        (''verificationMethod'', Array [Object [(''id'', String (did @ ''#atproto'')), (''type'', String ''Multikey''),
          (''controller'', String did), (''publicKeyMultibase'', String public_key_multibase)]]),
        (''service'', Array [Object [(''id'', String ''#atproto_pds''), (''type'', String ''AtprotoPersonalDataServer''),
          (''serviceEndpoint'', String (''https://'' @ cf_hostname (em_config state)))]])])"

text \<open>An error of the root lookup is read as a repository without records.\<close>

definition emb_describe_repo :: "'x repo_prims_scheme \<Rightarrow> 's EmbState \<Rightarrow> string \<Rightarrow> ('s world, emb_response) async" where
  "emb_describe_repo P state query = settle (
     try_ok (ok_or (emb_invalid ''repo is required'') (query_param P query ''repo'')) (\<lambda>repo_param.
     await_ok (emb_resolve_repo_did state repo_param) (\<lambda>did.
     await_ok (edb ''store error'' (get_handle_by_did (account_ops (em_store state)) did)) (\<lambda>found.
     try_ok (ok_or (emb_invalid (''repo not found: '' @ repo_param)) found) (\<lambda>handle.
     abind (db (load_repo_root (repo_ops (em_store state)) did)) (\<lambda>root.
     await_ok (case root of
         Inr (Some root_cid) \<Rightarrow>
           await_ok (ebs P (em_store state) ''failed to open repo'' (repo_open P root_cid) []) (\<lambda>(repo, _).
           emb_collections (em_store state) (tree_entries_prefixed P repo []) [])
       | _ \<Rightarrow> Ready (Ok [])) (\<lambda>collections.
     await_ok (load_signing_key P state did) (\<lambda>signing.
     Ready (Ok (json_response 200 (Object [(''handle'', String handle), (''did'', String did),
       (''didDoc'', emb_did_doc P state did handle signing), (''collections'', Array (map String collections)),
       (''handleIsCorrect'', Bool True)])))))))))))"

subsection \<open>Blobs and export\<close>

definition emb_upload_blob ::
  "'x repo_prims_scheme \<Rightarrow> 's EmbState \<Rightarrow> string option \<Rightarrow> emb_request \<Rightarrow> ('s world, emb_response) async" where
  "emb_upload_blob P state auth_header req = settle (
     await_ok (emb_auth P state auth_header) (\<lambda>did.
     let mime_type = (case request_header (eq_headers req) ''content-type'' of Some v \<Rightarrow> v | None \<Rightarrow> ''application/octet-stream'') in
     try_ok (map_err (\<lambda>_. emb_invalid ''could not read body'') (eq_body req)) (\<lambda>body.
     abind (store_blob P (blob_ops (em_store state)) did mime_type body) (\<lambda>r.
     Ready (case r of
       Inr stored \<Rightarrow> Ok (json_response 200 (Object [(''blob'', to_lex_json P stored)]))
     | Inl EmptyBlob \<Rightarrow> Err (emb_invalid ''empty blob'')
     | Inl (TooLarge _) \<Rightarrow> Err (xrpc_error 413 ''InvalidRequest'' ''blob too large'')
     | Inl (BlobStorage _) \<Rightarrow> Err (emb_internal ''store error''))))))"

text \<open>A stored type that is no header value makes the builder fail.\<close>

definition emb_get_blob :: "'x id_prims_scheme \<Rightarrow> 's EmbState \<Rightarrow> string \<Rightarrow> ('s world, emb_response) async" where
  "emb_get_blob P state query = settle (case (query_param P query ''did'', query_param P query ''cid'') of
     (Some did, Some cid) \<Rightarrow>
       await_ok (edb ''store error'' (get_blob (blob_ops (em_store state)) did cid)) (\<lambda>found. case found of
         None \<Rightarrow> Ready (Err (emb_invalid ''blob not found''))
       | Some (mime_type, bs) \<Rightarrow> Ready (case header_str_of mime_type of
           Some v \<Rightarrow> Ok \<lparr>er_status = 200, er_headers = [(''content-type'', v)], er_body = BodyBytes bs\<rparr>
         | None \<Rightarrow> Err (emb_internal ''response build failed'')))
   | _ \<Rightarrow> Ready (Err (emb_invalid ''did and cid are required'')))"

fun emb_car_loop :: "'x repo_prims_scheme \<Rightarrow> 's StorageBackend \<Rightarrow> Cid list \<Rightarrow> bytes \<Rightarrow> ('s world, emb_response + bytes) async" where
  "emb_car_loop P B [] buf = Ready (map_err (\<lambda>_. emb_internal ''CAR finish failed'') (car_finish P buf))"
| "emb_car_loop P B (cid # cids) buf =
     await_ok (edb ''read_block_bytes failed'' (read_block_bytes (repo_ops B) cid)) (\<lambda>bs.
     try_ok (map_err (\<lambda>_. emb_internal ''CAR write failed'') (car_write P buf cid bs)) (\<lambda>buf.
     emb_car_loop P B cids buf))"

definition emb_get_repo :: "'x repo_prims_scheme \<Rightarrow> 's EmbState \<Rightarrow> string \<Rightarrow> ('s world, emb_response) async" where
  "emb_get_repo P state query = settle (
     try_ok (ok_or (emb_invalid ''missing required query param: did'') (query_param P query ''did'')) (\<lambda>did.
     await_ok (edb ''store error'' (load_repo_root (repo_ops (em_store state)) did)) (\<lambda>root.
     try_ok (ok_or (emb_invalid (''repo not found for did: '' @ did)) root) (\<lambda>root_cid.
     await_ok (ebs P (em_store state) ''failed to open repo'' (repo_open P root_cid) []) (\<lambda>(repo, diff).
     await_ok (ebs P (em_store state) ''repo export failed'' (repo_export P repo) diff) (\<lambda>(cids, _).
     await_ok (emb_car_loop P (em_store state) cids (car_new P [root_cid])) (\<lambda>buf.
     Ready (Ok \<lparr>er_status = 200, er_headers = [(''content-type'', ''application/vnd.ipld.car'')], er_body = BodyBytes buf\<rparr>))))))))"

subsection \<open>The WebSocket handshake\<close>

definition WS_GUID :: string where
  "WS_GUID = ''258EAFA5-E914-47DA-95CA-C5AB0DC85B11''"

definition emb_cursor :: "'x id_prims_scheme \<Rightarrow> string \<Rightarrow> emb_response + int option" where
  "emb_cursor P query = (case query_param P query ''cursor'' of
     None \<Rightarrow> Ok None
   | Some s \<Rightarrow> (case parse_i64 s of
       Some v \<Rightarrow> if v \<ge> 0 then Ok (Some v) else Err (emb_invalid ''cursor must be a non-negative integer'')
     | None \<Rightarrow> Err (emb_invalid ''cursor must be a non-negative integer'')))"

text \<open>The response, and the cursor the stream then runs with on the upgraded connection.\<close>

definition ws_subscribe :: "'x emb_prims_scheme \<Rightarrow> emb_request \<Rightarrow> string \<Rightarrow> emb_response \<times> int option option" where
  "ws_subscribe P req query = (case emb_cursor P query of
     Inl resp \<Rightarrow> (resp, None)
   | Inr cursor \<Rightarrow>
       let is_ws_upgrade = (case request_header (eq_headers req) ''upgrade'' of
             Some v \<Rightarrow> eq_ignore_ascii_case v ''websocket'' | None \<Rightarrow> False) in
       case request_header (eq_headers req) ''sec-websocket-key'' of
         None \<Rightarrow> (emb_invalid ''subscribeRepos requires a WebSocket upgrade'', None)
       | Some key \<Rightarrow>
           if \<not> is_ws_upgrade then (emb_invalid ''subscribeRepos requires a WebSocket upgrade'', None)
           else let accept = base64 P (sha1 P (as_bytes key @ as_bytes WS_GUID)) in
             (\<lparr>er_status = 101, er_headers = [(''upgrade'', ''websocket''), (''connection'', ''Upgrade''), (''sec-websocket-accept'', accept)],
               er_body = BodyBytes []\<rparr>, Some cursor))"

subsection \<open>The router\<close>

text \<open>The arms in order; subscribeRepos answers here and its stream runs on the upgraded connection. \<open>keep\<close> is a handler that does not touch the proxy cache.\<close>

definition keep :: "(string, string) hashmap \<Rightarrow> ('s world, emb_response) async \<Rightarrow> ('s world, emb_response \<times> (string, string) hashmap) async" where
  "keep cache p = abind p (\<lambda>resp. Ready (resp, cache))"

definition route ::
  "'x emb_prims_scheme \<Rightarrow> 's EmbState \<Rightarrow> (string, string) hashmap \<Rightarrow> emb_request \<Rightarrow> ('s world, emb_response \<times> (string, string) hashmap) async" where
  "route P state cache req =
     (let m = eq_method req; path = eq_path req; query = (case eq_query req of Some q \<Rightarrow> q | None \<Rightarrow> []);
          auth_header = request_header (eq_headers req) ''authorization'';
          get = (m = ''GET''); post = (m = ''POST'') in
      if m = ''OPTIONS'' then keep cache (Ready preflight_response)
      else if get \<and> path = ''/xrpc/_health'' then keep cache (Ready (json_response 200 (Object [(''version'', String (crate_version P))])))
      else if get \<and> path = ''/xrpc/com.atproto.server.describeServer'' then keep cache (Ready (emb_describe_server state))
      else if get \<and> path = ''/.well-known/atproto-did'' then keep cache (well_known_did state)
      else if get \<and> path = ''/xrpc/com.atproto.identity.resolveHandle'' then keep cache (emb_resolve_handle P state query)
      else if post \<and> path = ''/xrpc/com.atproto.server.createSession'' then
        keep cache (case read_json_body P req of Inr body \<Rightarrow> emb_create_session P state body | Inl resp \<Rightarrow> Ready resp)
      else if get \<and> path = ''/xrpc/com.atproto.server.getSession'' then keep cache (emb_get_session P state auth_header)
      else if post \<and> path = ''/xrpc/com.atproto.server.refreshSession'' then keep cache (emb_refresh_session P state auth_header)
      else if post \<and> path = ''/xrpc/com.atproto.server.deleteSession'' then keep cache (Ready (empty_response 200))
      else if get \<and> path = ''/xrpc/app.bsky.actor.getPreferences'' then keep cache (emb_get_preferences P state auth_header)
      else if post \<and> path = ''/xrpc/app.bsky.actor.putPreferences'' then keep cache (emb_put_preferences P state auth_header req)
      else if post \<and> path = ''/xrpc/com.atproto.repo.createRecord'' then keep cache (emb_create_record P state auth_header req)
      else if post \<and> path = ''/xrpc/com.atproto.repo.putRecord'' then keep cache (emb_put_record P state auth_header req)
      else if post \<and> path = ''/xrpc/com.atproto.repo.deleteRecord'' then keep cache (emb_delete_record P state auth_header req)
      else if post \<and> path = ''/xrpc/com.atproto.repo.applyWrites'' then keep cache (emb_apply_writes P state auth_header req)
      else if get \<and> path = ''/xrpc/com.atproto.repo.getRecord'' then keep cache (emb_get_record P state query)
      else if get \<and> path = ''/xrpc/com.atproto.repo.listRecords'' then keep cache (emb_list_records P state query)
      else if get \<and> path = ''/xrpc/com.atproto.repo.describeRepo'' then keep cache (emb_describe_repo P state query)
      else if post \<and> path = ''/xrpc/com.atproto.repo.uploadBlob'' then keep cache (emb_upload_blob P state auth_header req)
      else if get \<and> path = ''/xrpc/com.atproto.sync.getBlob'' then keep cache (emb_get_blob P state query)
      else if get \<and> path = ''/xrpc/com.atproto.sync.getRepo'' then keep cache (emb_get_repo P state query)
      else if get \<and> path = ''/xrpc/com.atproto.sync.subscribeRepos'' then keep cache (Ready (fst (ws_subscribe P req query)))
      else if get \<and> path = ''/xrpc/com.atproto.server.getServiceAuth'' then keep cache (emb_get_service_auth P state auth_header query)
      else if starts_with path ''/xrpc/'' \<and> proxyable_method m then forward P state cache auth_header req query
      else keep cache (Ready method_not_implemented))"

text \<open>One request as \<open>serve\<close> answers it; the hostname was trimmed and lowered when serving began.\<close>

definition serve_config :: "ServerConfig \<Rightarrow> ServerConfig" where
  "serve_config config = config\<lparr>cf_hostname := to_ascii_lowercase (str_trim (cf_hostname config))\<rparr>"

definition serve_request ::
  "'x emb_prims_scheme \<Rightarrow> 's EmbState \<Rightarrow> (string, string) hashmap \<Rightarrow> emb_request \<Rightarrow> ('s world, emb_response \<times> (string, string) hashmap) async" where
  "serve_request P state cache req =
     abind (route P (state\<lparr>em_config := serve_config (em_config state)\<rparr>) cache req) (\<lambda>(resp, cache). Ready (apply_cors resp, cache))"

end
