(* ===== verification/Embedded_Firehose.thy ===== *)
theory Embedded_Firehose
  imports Embedded_Repo
begin

text \<open>
  The device server's firehose (\<open>rust-core/src/server/firehose_ws.rs\<close>): frames out and in, and the
  stream over them (the handshake is a route of the router, in \<open>Embedded_Repo\<close>).

  A read takes bytes off the front of what the client has sent; running out of them is the end of
  the connection. \<open>tokio::select!\<close> drops the branch that loses: when a channel event wins, the bytes a
  read had already taken are gone with it, so a turn of the loop that goes to the channel says how
  many those were.
\<close>

subsection \<open>Frames\<close>

definition OP_BINARY :: byte where "OP_BINARY = 0x2"
definition OP_CLOSE :: byte where "OP_CLOSE = 0x8"
definition OP_PING :: byte where "OP_PING = 0x9"
definition OP_PONG :: byte where "OP_PONG = 0xA"

definition MAX_CLIENT_FRAME :: nat where
  "MAX_CLIENT_FRAME = 64 * 1024"

text \<open>\<open>to_be_bytes\<close> and \<open>from_be_bytes\<close>: the cast to the width drops what does not fit.\<close>

fun be_bytes :: "nat \<Rightarrow> nat \<Rightarrow> bytes" where
  "be_bytes 0 n = []"
| "be_bytes (Suc k) n = be_bytes k (n div 256) @ [of_nat n]"

definition from_be_bytes :: "bytes \<Rightarrow> nat" where
  "from_be_bytes bs = foldl (\<lambda>n b. 256 * n + unat b) 0 bs"

definition frame_header :: "byte \<Rightarrow> nat \<Rightarrow> bytes" where
  "frame_header opcode n = or 0x80 (and opcode 0x0f) #
     (if n < 126 then [of_nat n] else if n \<le> 0xffff then 126 # be_bytes 2 n else 127 # be_bytes 8 n)"

definition write_frame :: "byte \<Rightarrow> bytes \<Rightarrow> bytes" where
  "write_frame opcode payload = frame_header opcode (length payload) @ payload"

record ClientFrame =
  cl_opcode :: byte
  cl_payload :: bytes

datatype read_error = UnexpectedEof | FrameTooLarge

definition read_exact :: "nat \<Rightarrow> bytes \<Rightarrow> read_error + bytes \<times> bytes" where
  "read_exact n r = (if n \<le> length r then Ok (take n r, drop n r) else Err UnexpectedEof)"

definition unmask :: "bytes \<Rightarrow> bytes \<Rightarrow> bytes" where
  "unmask mk payload = map (\<lambda>i. xor (payload ! i) (mk ! (i mod 4))) [0..<length payload]"

definition read_frame :: "bytes \<Rightarrow> read_error + ClientFrame \<times> bytes" where
  "read_frame r =
     and_then (read_exact 2 r) (\<lambda>(head, r).
     let opcode = and (head ! 0) 0x0f; masked = (and (head ! 1) 0x80 \<noteq> 0); len = unat (and (head ! 1) 0x7f) in
     and_then (if len = 126 then and_then (read_exact 2 r) (\<lambda>(ext, r). Ok (from_be_bytes ext, r))
       else if len = 127 then and_then (read_exact 8 r) (\<lambda>(ext, r). Ok (from_be_bytes ext, r))
       else Ok (len, r)) (\<lambda>(len, r).
     if len > MAX_CLIENT_FRAME then Err FrameTooLarge
     else and_then (if masked then read_exact 4 r else Ok ([0, 0, 0, 0], r)) (\<lambda>(mk, r).
     and_then (read_exact len r) (\<lambda>(payload, r).
     Ok (\<lparr>cl_opcode = opcode, cl_payload = (if masked then unmask mk payload else payload)\<rparr>, r)))))"

subsection \<open>The stream\<close>

text \<open>A write is the send of one encoded frame.\<close>

definition ws_write :: "byte \<Rightarrow> bytes \<Rightarrow> WebSocket \<Rightarrow> (unit + unit) \<times> WebSocket" where
  "ws_write opcode payload ws = ws_send (write_frame opcode payload) ws"

definition ws_error_close :: "bytes \<Rightarrow> WebSocket \<Rightarrow> WebSocket" where
  "ws_error_close frame ws = snd (ws_write OP_CLOSE [] (snd (ws_write OP_BINARY frame ws)))"

fun emb_send_rows :: "'x repo_prims_scheme \<Rightarrow> (int \<times> bytes) list \<Rightarrow> int \<Rightarrow> WebSocket \<Rightarrow> int option \<times> WebSocket" where
  "emb_send_rows P [] last_sent_seq writer = (Some last_sent_seq, writer)"
| "emb_send_rows P ((seq, event) # page) last_sent_seq writer = (case cbor_to_commit_body P event of
     Inl _ \<Rightarrow> emb_send_rows P page seq writer
   | Inr body \<Rightarrow> (case ws_write OP_BINARY (encode_message_frame P ''#commit'' (body\<lparr>cb_seq := seq\<rparr>)) writer of
       (Inl _, writer) \<Rightarrow> (None, writer)
     | (Inr _, writer) \<Rightarrow> emb_send_rows P page seq writer))"

fun emb_run_backfill :: "nat \<Rightarrow> 'x repo_prims_scheme \<Rightarrow> 's StorageBackend \<Rightarrow> WebSocket \<Rightarrow> int \<Rightarrow> ('s world, backfill) async" where
  "emb_run_backfill 0 P B writer last_sent_seq = Ready (Backfilling writer)"
| "emb_run_backfill (Suc fuel) P B writer last_sent_seq =
     abind (db (backfill_page (repo_ops B) last_sent_seq BACKFILL_PAGE)) (\<lambda>r. case r of
       Inl _ \<Rightarrow> Ready (BackfillStopped writer)
     | Inr page \<Rightarrow>
         if page = [] then Ready (Backfilled last_sent_seq writer)
         else (case emb_send_rows P page last_sent_seq writer of
           (None, writer) \<Rightarrow> Ready (BackfillStopped writer)
         | (Some last_sent_seq, writer) \<Rightarrow> emb_run_backfill fuel P B writer last_sent_seq))"

text \<open>
  One turn of the loop: \<open>select!\<close> takes the channel, dropping a read that had consumed \<open>n\<close> bytes of an
  unfinished frame, or it takes a client frame.
\<close>

datatype select = SelRecv nat | SelClient

definition cancelled_read :: "nat \<Rightarrow> bytes \<Rightarrow> bytes" where
  "cancelled_read n reader = (case read_frame (take n reader) of Inl UnexpectedEof \<Rightarrow> drop n reader | _ \<Rightarrow> reader)"

text \<open>The channel of this server holds 16 events.\<close>

definition EMB_CAPACITY :: nat where
  "EMB_CAPACITY = 16"

fun emb_live ::
  "select list \<Rightarrow> nat \<Rightarrow> 'x repo_prims_scheme \<Rightarrow> 's StorageBackend \<Rightarrow> nat \<Rightarrow> bytes \<Rightarrow> int \<Rightarrow> bool \<Rightarrow> WebSocket \<Rightarrow> ('s world, stream) async" where
  "emb_live [] fuel P B rx reader last_sent_seq recovered_from_lag writer = Ready (Streaming writer)"
| "emb_live (SelRecv n # turns) fuel P B rx reader last_sent_seq recovered_from_lag writer =
     abind (rx_recv EMB_CAPACITY rx) (\<lambda>(r, rx). let reader = (if r = RecvPending then reader else cancelled_read n reader) in case r of
       RecvPending \<Rightarrow> emb_live turns fuel P B rx reader last_sent_seq recovered_from_lag writer
     | RecvEvent seq frame \<Rightarrow>
         if seq \<le> last_sent_seq then emb_live turns fuel P B rx reader last_sent_seq recovered_from_lag writer
         else (case ws_write OP_BINARY frame writer of
           (Inl _, writer) \<Rightarrow> Ready (Returned writer)
         | (Inr _, writer) \<Rightarrow> emb_live turns fuel P B rx reader seq False writer)
     | RecvLagged \<Rightarrow>
         if \<not> recovered_from_lag then
           abind tx_subscribe (\<lambda>rx. abind (emb_run_backfill fuel P B writer last_sent_seq) (\<lambda>b. case b of
             Backfilled s writer \<Rightarrow> emb_live turns fuel P B rx reader s True writer
           | BackfillStopped writer \<Rightarrow> Ready (Returned writer)
           | Backfilling writer \<Rightarrow> Ready (Streaming writer)))
         else Ready (Returned (ws_error_close (consumer_too_slow_frame P) writer)))"
| "emb_live (SelClient # turns) fuel P B rx reader last_sent_seq recovered_from_lag writer = (case read_frame reader of
     Inl _ \<Rightarrow> Ready (Returned writer)
   | Inr (frame, reader) \<Rightarrow>
       if cl_opcode frame = OP_PING then (case ws_write OP_PONG (cl_payload frame) writer of
           (Inl _, writer) \<Rightarrow> Ready (Returned writer)
         | (Inr _, writer) \<Rightarrow> emb_live turns fuel P B rx reader last_sent_seq recovered_from_lag writer)
       else if cl_opcode frame = OP_CLOSE then Ready (Returned (snd (ws_write OP_CLOSE (cl_payload frame) writer)))
       else emb_live turns fuel P B rx reader last_sent_seq recovered_from_lag writer)"

definition emb_handle_firehose ::
  "select list \<Rightarrow> nat \<Rightarrow> 'x repo_prims_scheme \<Rightarrow> 's EmbState \<Rightarrow> bytes \<Rightarrow> WebSocket \<Rightarrow> int option \<Rightarrow> ('s world, stream) async" where
  "emb_handle_firehose turns fuel P state reader writer cursor =
     (let B = em_store state in
      abind tx_subscribe (\<lambda>rx. case cursor of
        None \<Rightarrow> emb_live turns fuel P B rx reader 0 False writer
      | Some c \<Rightarrow> abind (db (max_seq (repo_ops B))) (\<lambda>r. case r of
          Inl _ \<Rightarrow> Ready (Returned writer)
        | Inr mx \<Rightarrow>
            if c > mx then Ready (Returned (ws_error_close (future_cursor_frame P) writer))
            else abind (emb_run_backfill fuel P B writer c) (\<lambda>b. case b of
              Backfilled s writer \<Rightarrow> emb_live turns fuel P B rx reader s False writer
            | BackfillStopped writer \<Rightarrow> Ready (Returned writer)
            | Backfilling writer \<Rightarrow> Ready (Streaming writer)))))"

end
