(* ===== verification/Firehose_Laws.thy ===== *)
theory Firehose_Laws
  imports Firehose
begin

text \<open>
  What a subscriber receives. \<open>delivered P c m l\<close> is the part of the log \<open>l\<close> after the cursor \<open>c\<close> up to
  number \<open>m\<close>, as frames: every row that decodes, in order, each once. \<open>feeds\<close> is what the writers do
  meanwhile: they append to the log and broadcast what they appended, in the order of its numbers.
\<close>

definition frame_of :: "'x repo_prims_scheme \<Rightarrow> int \<times> bytes \<Rightarrow> bytes option" where
  "frame_of P = (\<lambda>(seq, event). case cbor_to_commit_body P event of
     Inl _ \<Rightarrow> None | Inr body \<Rightarrow> Some (encode_message_frame P ''#commit'' (body\<lparr>cb_seq := seq\<rparr>)))"

definition delivered :: "'x repo_prims_scheme \<Rightarrow> int \<Rightarrow> int \<Rightarrow> (int \<times> bytes \<times> bool) list \<Rightarrow> bytes list" where
  "delivered P c m l = List.map_filter (frame_of P) (filter (\<lambda>(q, _). q \<le> m) (log_after c l))"

definition in_order :: "'x repo_prims_scheme \<Rightarrow> ('s \<Rightarrow> view) \<Rightarrow> int \<Rightarrow> 's world \<Rightarrow> bool" where
  "in_order P \<alpha> n0 w = (\<exists>rows rest. log_after n0 (v_log (\<alpha> (w_store w))) = rows @ rest \<and>
     list_all2 (\<lambda>(q, e) (seq, frame). seq = q \<and> frame_of P (q, e) = Some frame) rows (w_published w))"

definition feeds :: "('s \<Rightarrow> bool) \<Rightarrow> ('s \<Rightarrow> view) \<Rightarrow> 'x repo_prims_scheme \<Rightarrow> int \<Rightarrow> 's world \<Rightarrow> 's world \<Rightarrow> bool" where
  "feeds good \<alpha> P n0 w w' = (good (w_store w) \<and> in_order P \<alpha> n0 w \<longrightarrow> good (w_store w') \<and> in_order P \<alpha> n0 w' \<and>
     (\<exists>rows. v_log (\<alpha> (w_store w')) = v_log (\<alpha> (w_store w)) @ rows) \<and>
     (\<exists>events. w_published w' = w_published w @ events))"

subsection \<open>Parts of the log\<close>

lemma log_after_filter: "c \<le> n \<Longrightarrow> log_after n l = filter (\<lambda>(q, _). n < q) (log_after c l)"
  by (induction l) (auto simp: log_after_def)

lemma log_ok_nth:
  assumes "log_ok v" "i < length (v_log v)"
  shows "fst (v_log v ! i) = int i + 1"
proof -
  have "map fst (v_log v) ! i = map int [1..<Suc (length (v_log v))] ! i"
    using assms(1) unfolding log_ok_def by simp
  then show ?thesis using assms(2) by (simp del: upt_Suc)
qed

lemma log_ok_sorted: "log_ok v \<Longrightarrow> sorted_wrt (<) (map fst (v_log v))"
  by (auto simp: sorted_wrt_iff_nth_less log_ok_nth)

lemma log_ok_range: "log_ok v \<Longrightarrow> x \<in> set (v_log v) \<Longrightarrow> 0 < fst x \<and> fst x \<le> int (length (v_log v))"
  by (auto simp: in_set_conv_nth log_ok_nth)

lemma sorted_log_after: "log_ok v \<Longrightarrow> sorted_wrt (<) (map fst (log_after n (v_log v)))"
proof -
  assume "log_ok v"
  have "map fst (log_after n (v_log v)) = filter (\<lambda>q. n < q) (map fst (filter (\<lambda>(_, _, inval). \<not> inval) (v_log v)))"
    by (induction "v_log v") (simp_all add: log_after_def filter_map comp_def case_prod_unfold conj_commute)
  moreover have "sorted_wrt (<) (map fst (filter (\<lambda>(_, _, inval). \<not> inval) (v_log v)))"
    using log_ok_sorted [OF \<open>log_ok v\<close>] by (simp add: sorted_wrt_map sorted_wrt_filter)
  ultimately show ?thesis by (simp add: sorted_wrt_filter)
qed

lemma log_after_append: "log_after n (l @ l') = log_after n l @ log_after n l'"
  by (simp add: log_after_def)

lemma map_filter_append: "List.map_filter f (xs @ ys) = List.map_filter f xs @ List.map_filter f ys"
  by (simp add: List.map_filter_def)

lemma sorted_filter_le:
  fixes m :: int
  assumes "sorted_wrt (<) (map fst (xs @ ys))" "\<forall>x \<in> set xs. fst x \<le> m" "\<forall>y \<in> set ys. m < fst y"
  shows "filter (\<lambda>(q, _). q \<le> m) (xs @ ys) = xs" "filter (\<lambda>(q, _). m < q) (xs @ ys) = ys"
  using assms by (fastforce simp: filter_empty_conv filter_id_conv case_prod_unfold)+

lemma delivered_split:
  assumes "log_ok v" "c \<le> l" "l \<le> m"
  shows "delivered P c m (v_log v) = delivered P c l (v_log v) @ delivered P l m (v_log v)"
proof -
  have "filter (\<lambda>(q, _). q \<le> m) xs = filter (\<lambda>(q, _). q \<le> l) xs @ filter (\<lambda>(q, _). q \<le> m) (filter (\<lambda>(q, _). l < q) xs)"
    if "sorted_wrt (<) (map fst xs)" for xs :: "(int \<times> bytes) list"
    using that
  proof (induction xs)
    case (Cons x xs)
    show ?case
    proof (cases "fst x \<le> l")
      case False
      with Cons.prems have "filter (\<lambda>(q, _). q \<le> l) xs = []" by (fastforce simp: filter_empty_conv)
      with Cons False show ?thesis by (auto simp: case_prod_unfold)
    qed (use Cons assms(3) in \<open>auto simp: case_prod_unfold\<close>)
  qed simp
  from this [OF sorted_log_after [OF assms(1), of c]] show ?thesis
    by (simp add: delivered_def map_filter_append log_after_filter [OF assms(2)])
qed

lemma delivered_none: "delivered P c c l = []"
  by (auto simp: delivered_def log_after_def List.map_filter_def filter_empty_conv)

lemma log_split:
  assumes "log_ok v" "n \<le> length (log_after l (v_log v))" "m = (if n = 0 then l else fst (log_after l (v_log v) ! (n - 1)))"
  shows "filter (\<lambda>(q, _). q \<le> m) (log_after l (v_log v)) = take n (log_after l (v_log v))" (is "filter _ ?L = _")
    and "log_after m (v_log v) = drop n (log_after l (v_log v))" and "l \<le> m" and "m = l \<or> m \<le> int (length (v_log v))"
proof -
  have s: "sorted_wrt (<) (map fst ?L)" by (rule sorted_log_after [OF assms(1)])
  have gt: "l < fst x" if "x \<in> set ?L" for x using that by (auto simp: log_after_def)
  have mem: "fst (?L ! (n - 1)) \<in> fst ` set ?L" if "n \<noteq> 0" using that assms(2) by simp
  with gt assms(3) show lm: "l \<le> m" by (cases "n = 0") (auto simp: order_less_imp_le)
  from mem log_ok_range [OF assms(1)] assms(3) show "m = l \<or> m \<le> int (length (v_log v))"
    by (cases "n = 0") (fastforce simp: log_after_def)+
  have below: "\<forall>x \<in> set (take n ?L). fst x \<le> m"
  proof
    fix x assume "x \<in> set (take n ?L)"
    then obtain i where "i < n" "x = ?L ! i" "i < length ?L" by (auto simp: in_set_conv_nth)
    with s assms(2,3) show "fst x \<le> m" by (cases "i = n - 1") (auto simp: sorted_wrt_iff_nth_less order_less_imp_le)
  qed
  have above: "\<forall>x \<in> set (drop n ?L). m < fst x"
  proof
    fix x assume x: "x \<in> set (drop n ?L)"
    then obtain i where "i < length ?L - n" "x = ?L ! (n + i)" by (auto simp: in_set_conv_nth)
    with s x assms(3) gt in_set_dropD [OF x] show "m < fst x" by (cases "n = 0") (auto simp: sorted_wrt_iff_nth_less)
  qed
  from sorted_filter_le [of "take n ?L" "drop n ?L" m] s below above
  show "filter (\<lambda>(q, _). q \<le> m) ?L = take n ?L" "log_after m (v_log v) = drop n ?L"
    by (simp_all add: log_after_filter [OF lm])
qed

subsection \<open>Sending a page\<close>

lemma ws_send_cases:
  obtains "ws_send frame ws = (Err (), ws)" "ws_left ws = 0"
  | ws' where "ws_send frame ws = (Ok (), ws')" "ws_sent ws' = ws_sent ws @ [frame]" "ws_left ws = Suc (ws_left ws')"
proof (cases "ws_left ws")
  case (Suc n)
  then show ?thesis by (intro that(2) [of "ws\<lparr>ws_sent := ws_sent ws @ [frame], ws_left := n\<rparr>"]) (simp_all add: ws_send_def)
qed (use that in \<open>simp add: ws_send_def\<close>)

lemma send_rows_sent:
  "case send_rows P rows l ws of
     (Some m, ws') \<Rightarrow> m = (if rows = [] then l else fst (last rows)) \<and> ws_sent ws' = ws_sent ws @ List.map_filter (frame_of P) rows \<and>
       ws_left ws = ws_left ws' + length (List.map_filter (frame_of P) rows)
   | (None, ws') \<Rightarrow> \<exists>n < length rows. ws_sent ws' = ws_sent ws @ List.map_filter (frame_of P) (take n rows) \<and>
       ws_left ws = length (List.map_filter (frame_of P) (take n rows)) \<and> frame_of P (rows ! n) \<noteq> None"
proof (induction P rows l ws rule: send_rows.induct)
  case (2 P seq event page l ws)
  show ?case
  proof (cases "cbor_to_commit_body P event")
    case (Inl e)
    have "frame_of P (seq, event) = None" by (simp add: frame_of_def Inl)
    with Inl 2(1) [OF Inl] show ?thesis
      by (auto simp: List.map_filter_def split: prod.splits option.splits intro: exI [of _ "Suc _"])
  next
    case (Inr body)
    let ?f = "encode_message_frame P ''#commit'' (body\<lparr>cb_seq := seq\<rparr>)"
    have f: "frame_of P (seq, event) = Some ?f" by (simp add: frame_of_def Inr)
    show ?thesis
    proof (cases rule: ws_send_cases [of ?f ws])
      case 1
      with Inr f show ?thesis by (auto simp: List.map_filter_def intro!: exI [of _ 0])
    next
      case (2 ws')
      with Inr f "2.IH"(2) [OF Inr 2(1) [symmetric]] show ?thesis
        by (auto simp: List.map_filter_def split: prod.splits option.splits intro: exI [of _ "Suc _"])
    qed
  qed
qed simp

subsection \<open>The stream among the writers\<close>

lemma feeds_same: "good s \<Longrightarrow> \<alpha> s = \<alpha> (w_store w) \<Longrightarrow> feeds good \<alpha> P n0 w (w\<lparr>w_store := s\<rparr>)"
  by (simp add: feeds_def in_order_def)

lemma feeds_refl: "feeds good \<alpha> P n0 w w"
  by (simp add: feeds_def)

lemma guards_reads:
  assumes "meets good up \<alpha> op (reads f)" "\<And>w w1. A w \<Longrightarrow> R w w1 \<Longrightarrow> good (w_store w1)"
    and "\<And>w w1 s. A w \<Longrightarrow> R w w1 \<Longrightarrow> good s \<Longrightarrow> \<alpha> s = \<alpha> (w_store w1) \<Longrightarrow>
      Q (Inr (f (\<alpha> (w_store w1)))) (w1\<lparr>w_store := s\<rparr>) \<and> (\<forall>e. Q (Inl e) (w1\<lparr>w_store := s\<rparr>))"
    and "\<And>w s. good s \<Longrightarrow> \<alpha> s = \<alpha> (w_store w) \<Longrightarrow> G w (w\<lparr>w_store := s\<rparr>)"
  shows "guards R G A (db op) Q"
  unfolding db_def
proof (rule guards_atomic)
  fix w w1 :: "'a world"
  assume w: "A w" "R w w1"
  obtain r s where r: "op (w_store w1) = (r, s)" by (cases "op (w_store w1)")
  from meets_step [OF assms(1) assms(2) [OF w] r] have "good s" "\<alpha> s = \<alpha> (w_store w1)"
    "r = Inr (f (\<alpha> (w_store w1))) \<or> (\<exists>e. r = Inl e)"
    by (auto simp: reads_def is_err_def is_ok_def split: sum.splits)
  with assms(3) [OF w, of s] assms(4) [of s w1] r
  show "G w1 (snd (case op (w_store w1) of (r, s') \<Rightarrow> (r, w1\<lparr>w_store := s'\<rparr>))) \<and> Q (fst (case op (w_store w1) of (r, s') \<Rightarrow> (r, w1\<lparr>w_store := s'\<rparr>)))
     (snd (case op (w_store w1) of (r, s') \<Rightarrow> (r, w1\<lparr>w_store := s'\<rparr>)))" by auto
qed

text \<open>The subscriber has everything between its cursor and \<open>m\<close>; no row up to \<open>n\<close> is still ahead of it.\<close>

definition served :: "'x repo_prims_scheme \<Rightarrow> int \<Rightarrow> int \<Rightarrow> WebSocket \<Rightarrow> view \<Rightarrow> bool" where
  "served P c m ws v = (c \<le> m \<and> m \<le> int (length (v_log v)) \<and> ws_sent ws = delivered P c m (v_log v))"

definition past :: "int \<Rightarrow> int \<Rightarrow> view \<Rightarrow> bool" where
  "past n m v = (n \<le> int (length (v_log v)) \<and> (\<forall>(q, e) \<in> set (log_after m (v_log v)). n < q))"

text \<open>The receiver's place: no event before it is news to the subscriber.\<close>

definition placed :: "int \<Rightarrow> nat \<Rightarrow> (int \<times> bytes) list \<Rightarrow> bool" where
  "placed m rx events = (rx \<le> length events \<and> (\<forall>(q, f) \<in> set (take rx events). q \<le> m))"

lemma grows_new:
  assumes "log_ok v'" "v_log v' = v_log v @ rows" "x \<in> set rows"
  shows "int (length (v_log v)) < fst x"
proof -
  from assms(3) obtain i where i: "i < length rows" "x = rows ! i" by (auto simp: in_set_conv_nth)
  then have "fst (v_log v' ! (length (v_log v) + i)) = int (length (v_log v) + i) + 1" using assms(1,2) by (intro log_ok_nth) auto
  with i assms(2) show ?thesis by simp
qed

lemma served_grows:
  assumes "served P c m ws v" "log_ok v'" "v_log v' = v_log v @ rows"
  shows "served P c m ws v'"
proof -
  have "filter (\<lambda>(q, _). q \<le> m) (log_after c rows) = []"
    using grows_new [OF assms(2,3)] assms(1) by (fastforce simp: filter_empty_conv log_after_def served_def)
  with assms show ?thesis by (simp add: served_def delivered_def log_after_append)
qed

lemma past_grows: "past n m v \<Longrightarrow> log_ok v' \<Longrightarrow> v_log v' = v_log v @ rows \<Longrightarrow> past n m v'"
  using grows_new [of v' v rows] by (fastforce simp: past_def log_after_append log_after_def)

lemma placed_grows: "placed m rx events \<Longrightarrow> placed m rx (events @ es)"
  by (simp add: placed_def)

lemma served_step: "log_ok v \<Longrightarrow> served P c l ws v \<Longrightarrow> l \<le> m \<Longrightarrow> m \<le> int (length (v_log v)) \<Longrightarrow>
    ws_sent ws' = ws_sent ws @ delivered P l m (v_log v) \<Longrightarrow> served P c m ws' v"
  using delivered_split [of v c l m P] by (simp add: served_def)

lemma send_page:
  assumes "log_ok v" "served P c l ws v" "page = take n (log_after l (v_log v))" "page \<noteq> []"
  shows "case send_rows P page l ws of (Some m, ws') \<Rightarrow> served P c m ws' v | (None, ws') \<Rightarrow> \<exists>m. served P c m ws' v"
proof -
  let ?L = "log_after l (v_log v)"
  have step: "served P c m ws' v" if "k \<le> length ?L" "m = (if k = 0 then l else fst (?L ! (k - 1)))"
    "ws_sent ws' = ws_sent ws @ List.map_filter (frame_of P) (take k ?L)" for k m ws'
    using log_split [OF assms(1) that(1,2)] assms(2) that(3)
    by (intro served_step [OF assms(1,2)]) (auto simp: served_def delivered_def)
  obtain o' ws' where r: "send_rows P page l ws = (o', ws')" by (cases "send_rows P page l ws")
  show ?thesis
  proof (cases o')
    case None
    with send_rows_sent [where P = P and rows = page and l = l and ws = ws] r obtain k where "k < length page"
      "ws_sent ws' = ws_sent ws @ List.map_filter (frame_of P) (take k page)" by auto
    with step [of k _ ws'] assms(3) None r show ?thesis by (auto simp: min_def split: if_splits)
  next
    case (Some m)
    with send_rows_sent [where P = P and rows = page and l = l and ws = ws] r assms(4) have "m = fst (last page)"
      "ws_sent ws' = ws_sent ws @ List.map_filter (frame_of P) page" by auto
    moreover have "last page = ?L ! (length page - 1)" "length page \<le> length ?L" "take (length page) ?L = page"
      using assms(3,4) by (auto simp: last_conv_nth min_def split: if_splits)
    ultimately show ?thesis using step [of "length page" m ws'] assms(4) Some r by simp
  qed
qed

lemma published_rows:
  assumes "in_order P \<alpha> n0 w" "log_ok (\<alpha> (w_store w))" "i < length (w_published w)"
  obtains e frame where "log_after n0 (v_log (\<alpha> (w_store w))) ! i = (fst (w_published w ! i), e)"
    "i < length (log_after n0 (v_log (\<alpha> (w_store w))))" "frame_of P (fst (w_published w ! i), e) = Some (snd (w_published w ! i))"
proof -
  from assms(1) obtain rows rest where r: "log_after n0 (v_log (\<alpha> (w_store w))) = rows @ rest"
    "list_all2 (\<lambda>(q, e) (seq, frame). seq = q \<and> frame_of P (q, e) = Some frame) rows (w_published w)" by (auto simp: in_order_def)
  with assms(3) have "i < length rows" by (simp add: list_all2_lengthD)
  moreover from list_all2_nthD [OF r(2) this] have "fst (w_published w ! i) = fst (rows ! i)" "frame_of P (rows ! i) = Some (snd (w_published w ! i))"
    by (auto split: prod.splits)
  ultimately show ?thesis using r(1) by (intro that [of "snd (rows ! i)"]) (auto simp: nth_append)
qed

text \<open>The next event of the channel that is ahead of the subscriber is the next row of the log.\<close>

lemma next_event:
  assumes "in_order P \<alpha> n0 w" "log_ok (\<alpha> (w_store w))" "placed m rx (w_published w)" "past n0 m (\<alpha> (w_store w))"
    and "rx < length (w_published w)" "w_published w ! rx = (seq, frame)" "m < seq"
  shows "delivered P m seq (v_log (\<alpha> (w_store w))) = [frame]" "seq \<le> int (length (v_log (\<alpha> (w_store w))))"
proof -
  let ?v = "\<alpha> (w_store w)"
  let ?L = "log_after n0 (v_log ?v)"
  from published_rows [OF assms(1,2,5)] assms(6) obtain e where e: "?L ! rx = (seq, e)" "rx < length ?L" "frame_of P (seq, e) = Some frame"
    by (metis fst_conv snd_conv)
  have s: "sorted_wrt (<) (map fst ?L)" by (rule sorted_log_after [OF assms(2)])
  have before: "fst x \<le> m" if x: "x \<in> set (take rx ?L)" for x
  proof -
    from x obtain i where i: "i < rx" "x = ?L ! i" by (auto simp: in_set_conv_nth)
    with assms(5) published_rows [OF assms(1,2), of i] have "fst x = fst (w_published w ! i)" by (metis fst_conv order_less_trans)
    moreover have "w_published w ! i \<in> set (take rx (w_published w))" using i(1) assms(5) by (metis in_set_conv_nth length_take min_less_iff_conj nth_take order_less_trans)
    ultimately show ?thesis using assms(3) by (auto simp: placed_def)
  qed
  have split: "?L = take rx ?L @ (seq, e) # drop (Suc rx) ?L" using e by (metis id_take_nth_drop)
  have after: "seq < fst x" if "x \<in> set (drop (Suc rx) ?L)" for x
  proof -
    from that obtain i where "i < length ?L - Suc rx" "x = ?L ! (Suc rx + i)" by (auto simp: in_set_conv_nth)
    moreover from this have "fst (?L ! rx) < fst (?L ! (Suc rx + i))" using s by (simp add: sorted_wrt_iff_nth_less)
    ultimately show ?thesis using e by simp
  qed
  have "log_after m (v_log ?v) = filter (\<lambda>(q, _). m < q) ?L"
    using assms(4) unfolding past_def log_after_def filter_map filter_filter
    by (intro arg_cong [where f = "map _"] filter_cong) (fastforce simp: case_prod_unfold)+
  also have "\<dots> = (seq, e) # drop (Suc rx) ?L"
    using sorted_filter_le(2) [of "take rx ?L" "(seq, e) # drop (Suc rx) ?L" m] s split before after assms(7) by (metis fst_conv less_trans list.set_cases set_ConsD)
  finally have m: "log_after m (v_log ?v) = (seq, e) # drop (Suc rx) ?L" .
  with after e(3) show "delivered P m seq (v_log ?v) = [frame]"
    by (fastforce simp: delivered_def List.map_filter_def filter_empty_conv)
  have "(seq, e) \<in> set (log_after m (v_log ?v))" using m by simp
  with log_ok_range [OF assms(2)] show "seq \<le> int (length (v_log ?v))" by (fastforce simp: log_after_def)
qed


lemma placed_Suc: "placed m rx events \<Longrightarrow> m \<le> m' \<Longrightarrow> rx < length events \<Longrightarrow> fst (events ! rx) \<le> m' \<Longrightarrow> placed m' (Suc rx) events"
  by (force simp: placed_def take_Suc_conv_app_nth)

lemma past_mono: "past n m v \<Longrightarrow> m \<le> m' \<Longrightarrow> past n m' v"
  by (force simp: past_def log_after_def)

definition on_track :: "'x repo_prims_scheme \<Rightarrow> int \<Rightarrow> stream \<Rightarrow> view \<Rightarrow> bool" where
  "on_track P c r v = (case r of
     Streaming ws \<Rightarrow> \<exists>m. served P c m ws v
   | Returned ws \<Rightarrow> \<exists>m ws0. served P c m ws0 v \<and> ws_sent ws \<in> {ws_sent ws0, ws_sent ws0 @ [consumer_too_slow_frame P]})"

lemma on_trackI:
  "served P c m ws v \<Longrightarrow> on_track P c (Streaming ws) v" "served P c m ws v \<Longrightarrow> on_track P c (Returned ws) v"
  "served P c m ws v \<Longrightarrow> on_track P c (Returned (snd (ws_send (consumer_too_slow_frame P) ws))) v"
  by (cases rule: ws_send_cases [of "consumer_too_slow_frame P" ws]; force simp: on_track_def)+

context storage_backend
begin

definition tuned :: "'x repo_prims_scheme \<Rightarrow> int \<Rightarrow> 's world \<Rightarrow> bool" where
  "tuned P n0 w = (good (w_store w) \<and> in_order P \<alpha> n0 w)"

lemma tuned_log_ok: "tuned P n0 w \<Longrightarrow> log_ok (\<alpha> (w_store w))"
  using repo.repo_view_ok by (simp add: tuned_def view_ok_def)

lemma tuned_same: "tuned P n0 w \<Longrightarrow> good s \<Longrightarrow> \<alpha> s = \<alpha> (w_store w) \<Longrightarrow> tuned P n0 (w\<lparr>w_store := s\<rparr>)"
  by (simp add: tuned_def in_order_def)

lemma feedsE:
  assumes "feeds good \<alpha> P n0 w w'" "tuned P n0 w"
  obtains rows events where "tuned P n0 w'" "log_ok (\<alpha> (w_store w'))" "v_log (\<alpha> (w_store w')) = v_log (\<alpha> (w_store w)) @ rows"
    "w_published w' = w_published w @ events"
  using assms that tuned_log_ok [of P n0 w'] by (auto simp: feeds_def tuned_def)

lemma served_fed: "served P c m ws (\<alpha> (w_store w)) \<Longrightarrow> feeds good \<alpha> P n0 w w' \<Longrightarrow> tuned P n0 w \<Longrightarrow> served P c m ws (\<alpha> (w_store w'))"
  by (elim feedsE) (auto elim: served_grows)

lemma past_fed: "past n m (\<alpha> (w_store w)) \<Longrightarrow> feeds good \<alpha> P n0 w w' \<Longrightarrow> tuned P n0 w \<Longrightarrow> past n m (\<alpha> (w_store w'))"
  by (elim feedsE) (auto elim: past_grows)

lemma tuned_fed: "feeds good \<alpha> P n0 w w' \<Longrightarrow> tuned P n0 w \<Longrightarrow> tuned P n0 w'"
  by (elim feedsE)

lemma long_fed: "n \<le> int (length (v_log (\<alpha> (w_store w)))) \<Longrightarrow> feeds good \<alpha> P n0 w w' \<Longrightarrow> tuned P n0 w \<Longrightarrow> n \<le> int (length (v_log (\<alpha> (w_store w'))))"
  by (elim feedsE) auto

lemma placed_fed: "placed m rx (w_published w) \<Longrightarrow> feeds good \<alpha> P n0 w w' \<Longrightarrow> tuned P n0 w \<Longrightarrow> placed m rx (w_published w')"
  by (erule (1) feedsE) (simp add: placed_grows)

lemmas fed = served_fed past_fed tuned_fed long_fed placed_fed

lemma guards_backfill:
  "st_store st = B \<Longrightarrow> guards (feeds good \<alpha> P n0) (feeds good \<alpha> P n0)
     (\<lambda>w. tuned P n0 w \<and> served P c l ws (\<alpha> (w_store w)) \<and> n \<le> int (length (v_log (\<alpha> (w_store w))))) (run_backfill fuel P st ws l)
     (\<lambda>b w. tuned P n0 w \<and> (case b of
        Backfilled m ws' \<Rightarrow> served P c m ws' (\<alpha> (w_store w)) \<and> past n m (\<alpha> (w_store w))
      | BackfillStopped ws' \<Rightarrow> \<exists>m. served P c m ws' (\<alpha> (w_store w))
      | Backfilling ws' \<Rightarrow> \<exists>m. served P c m ws' (\<alpha> (w_store w))))"
proof (induction fuel arbitrary: ws l)
  case (Suc fuel)
  let ?page = "\<lambda>v. take 500 (log_after l (v_log v))"
  let ?A = "\<lambda>l ws w. tuned P n0 w \<and> served P c l ws (\<alpha> (w_store w)) \<and> n \<le> int (length (v_log (\<alpha> (w_store w))))"
  have page: "guards (feeds good \<alpha> P n0) (feeds good \<alpha> P n0) (?A l ws) (db (backfill_page (repo_ops B) l BACKFILL_PAGE))
      (\<lambda>r w. ?A l ws w \<and> (\<forall>page. r = Inr page \<longrightarrow> page = ?page (\<alpha> (w_store w))))"
  proof (rule guards_reads)
    show "meets good up \<alpha> (backfill_page (repo_ops B) l BACKFILL_PAGE) (reads ?page)"
      using repo.backfill_page [of BACKFILL_PAGE l] by (simp add: BACKFILL_PAGE_def spec_backfill_page_def)
  next
    fix w w1 assume "?A l ws w" "feeds good \<alpha> P n0 w w1"
    then show "good (w_store w1)" using tuned_fed [of P n0 w w1] by (simp add: tuned_def)
  next
    fix w w1 s assume "?A l ws w" "feeds good \<alpha> P n0 w w1" "good s" "\<alpha> s = \<alpha> (w_store w1)"
    then show "(?A l ws (w1\<lparr>w_store := s\<rparr>) \<and> (\<forall>page. Inr (?page (\<alpha> (w_store w1))) = Inr page \<longrightarrow> page = ?page (\<alpha> (w_store (w1\<lparr>w_store := s\<rparr>))))) \<and>
      (\<forall>e. ?A l ws (w1\<lparr>w_store := s\<rparr>) \<and> (\<forall>page. Inl e = Inr page \<longrightarrow> page = ?page (\<alpha> (w_store (w1\<lparr>w_store := s\<rparr>)))))"
      by (auto intro: fed tuned_same)
  qed (rule feeds_same)
  show ?case
    unfolding run_backfill.simps Suc.prems
  proof (rule guards_abind [OF page], goal_cases)
    case (1 r)
    show ?case
    proof (cases r)
      case (Inl e)
      then show ?thesis by (auto intro!: guards_Ready)
    next
      case (Inr page)
      show ?thesis
      proof (cases "page = []")
        case True
        then show ?thesis by (auto intro!: guards_Ready simp: Inr past_def)
      next
        case False
        obtain r' ws' where s: "send_rows P page l ws = (r', ws')" by (cases "send_rows P page l ws")
        show ?thesis
        proof (cases r')
          case None
          have "\<exists>m. served P c m ws' (\<alpha> (w_store w))" if "?A l ws w \<and> (\<forall>pg. r = Inr pg \<longrightarrow> pg = ?page (\<alpha> (w_store w)))" for w
            using that send_page [of "\<alpha> (w_store w)" P c l ws page 500] False s by (auto simp: Inr None dest: tuned_log_ok)
          with False show ?thesis unfolding Inr by (auto intro!: guards_Ready simp: s None)
        next
          case (Some m)
          have "guards (feeds good \<alpha> P n0) (feeds good \<alpha> P n0) (?A m ws') (run_backfill fuel P st ws' m) (\<lambda>b w. tuned P n0 w \<and> (case b of
              Backfilled m ws' \<Rightarrow> served P c m ws' (\<alpha> (w_store w)) \<and> past n m (\<alpha> (w_store w))
            | BackfillStopped ws' \<Rightarrow> \<exists>m. served P c m ws' (\<alpha> (w_store w))
            | Backfilling ws' \<Rightarrow> \<exists>m. served P c m ws' (\<alpha> (w_store w))))"
            by (rule Suc.IH [OF Suc.prems])
          moreover have "?A m ws' w" if "?A l ws w \<and> (\<forall>pg. r = Inr pg \<longrightarrow> pg = ?page (\<alpha> (w_store w)))" for w
            using that send_page [of "\<alpha> (w_store w)" P c l ws page 500] False s by (auto simp: Inr Some dest: tuned_log_ok)
          ultimately show ?thesis unfolding Inr sum.case s prod.case Some option.case using False Inr by (auto intro: guards_pre)
        qed
      qed
    qed
  qed
qed (auto intro!: guards_Ready)

lemma guards_subscribe:
  "guards (feeds good \<alpha> P n0) (feeds good \<alpha> P n0) (\<lambda>w. tuned P n0 w \<and> (\<forall>w'. feeds good \<alpha> P n0 w w' \<longrightarrow> A w')) tx_subscribe
     (\<lambda>rx w. tuned P n0 w \<and> A w \<and> placed (int (length (v_log (\<alpha> (w_store w))))) rx (w_published w))"
  unfolding tx_subscribe_def
proof (rule guards_atomic)
  fix w w1
  assume w: "tuned P n0 w \<and> (\<forall>w'. feeds good \<alpha> P n0 w w' \<longrightarrow> A w')" "feeds good \<alpha> P n0 w w1"
  then have t: "tuned P n0 w1" by (blast intro: tuned_fed)
  then have o: "in_order P \<alpha> n0 w1" by (simp add: tuned_def)
  have "placed (int (length (v_log (\<alpha> (w_store w1))))) (length (w_published w1)) (w_published w1)"
  proof -
    have "q \<le> int (length (v_log (\<alpha> (w_store w1))))" if "(q, f) \<in> set (w_published w1)" for q f
    proof -
      from that obtain i where i: "i < length (w_published w1)" "w_published w1 ! i = (q, f)" by (auto simp: in_set_conv_nth)
      from published_rows [OF o tuned_log_ok [OF t] i(1)] i(2) obtain e where
        "(q, e) \<in> set (log_after n0 (v_log (\<alpha> (w_store w1))))" by (metis fst_conv nth_mem)
      then show ?thesis using log_ok_range [OF tuned_log_ok [OF t]] by (fastforce simp: log_after_def)
    qed
    then show ?thesis by (auto simp: placed_def)
  qed
  with t w show "feeds good \<alpha> P n0 w1 (snd (length (w_published w1), w1)) \<and> tuned P n0 (snd (length (w_published w1), w1)) \<and>
      A (snd (length (w_published w1), w1)) \<and> placed (int (length (v_log (\<alpha> (w_store (snd (length (w_published w1), w1)))))))
        (fst (length (w_published w1), w1)) (w_published (snd (length (w_published w1), w1)))"
    by (simp add: feeds_refl)
qed

text \<open>From a subscription the backfill reaches at least the log of that moment, and so everything the receiver skipped.\<close>

definition tracking :: "'x repo_prims_scheme \<Rightarrow> int \<Rightarrow> int \<Rightarrow> nat \<Rightarrow> int \<Rightarrow> WebSocket \<Rightarrow> 's world \<Rightarrow> bool" where
  "tracking P n0 c rx m ws w = (tuned P n0 w \<and> served P c m ws (\<alpha> (w_store w)) \<and> past n0 m (\<alpha> (w_store w)) \<and> placed m rx (w_published w))"

lemma tracking_served: "tracking P n0 c rx m ws w \<Longrightarrow> served P c m ws (\<alpha> (w_store w))"
  by (simp add: tracking_def)

lemma placed_past:
  assumes "tuned P n0 w" "past n m (\<alpha> (w_store w))" "placed n rx (w_published w)"
  shows "placed m rx (w_published w)"
proof -
  have io: "in_order P \<alpha> n0 w" using assms(1) by (simp add: tuned_def)
  have "q \<le> m" if "(q, f) \<in> set (take rx (w_published w))" for q f
  proof (rule ccontr)
    assume "\<not> q \<le> m"
    from in_set_takeD [OF that] obtain i where i: "i < length (w_published w)" "w_published w ! i = (q, f)"
      by (auto simp: in_set_conv_nth)
    from published_rows [OF io tuned_log_ok [OF assms(1)] i(1)] i(2) obtain e where
      "(q, e) \<in> set (log_after n0 (v_log (\<alpha> (w_store w))))" by (metis fst_conv nth_mem)
    with \<open>\<not> q \<le> m\<close> have "(q, e) \<in> set (log_after m (v_log (\<alpha> (w_store w))))" by (force simp: log_after_def)
    with assms(2) have "n < q" by (auto simp: past_def)
    with assms(3) that show False by (auto simp: placed_def)
  qed
  with assms(3) show ?thesis by (auto simp: placed_def)
qed

lemma guards_ex: "(\<And>n. guards R G (A n) p Q) \<Longrightarrow> guards R G (\<lambda>w. \<exists>n. A n w) p Q"
  unfolding guards_def by blast

lemma guards_resume:
  assumes "st_store st = B"
  shows "guards (feeds good \<alpha> P n0) (feeds good \<alpha> P n0)
     (\<lambda>w. tuned P n0 w \<and> served P c l ws (\<alpha> (w_store w)) \<and> (\<exists>n \<ge> n0. n \<le> int (length (v_log (\<alpha> (w_store w)))) \<and> placed n rx (w_published w)))
     (run_backfill fuel P st ws l)
     (\<lambda>b w. case b of
        Backfilled m ws' \<Rightarrow> tracking P n0 c rx m ws' w
      | BackfillStopped ws' \<Rightarrow> \<exists>m. served P c m ws' (\<alpha> (w_store w))
      | Backfilling ws' \<Rightarrow> \<exists>m. served P c m ws' (\<alpha> (w_store w)))"
proof -
  have "guards (feeds good \<alpha> P n0) (feeds good \<alpha> P n0)
     (\<lambda>w. \<exists>n. (tuned P n0 w \<and> served P c l ws (\<alpha> (w_store w)) \<and> n \<le> int (length (v_log (\<alpha> (w_store w))))) \<and>
        (n0 \<le> n \<and> tuned P n0 w \<and> placed n rx (w_published w))) (run_backfill fuel P st ws l)
     (\<lambda>b w. case b of
        Backfilled m ws' \<Rightarrow> tracking P n0 c rx m ws' w
      | BackfillStopped ws' \<Rightarrow> \<exists>m. served P c m ws' (\<alpha> (w_store w))
      | Backfilling ws' \<Rightarrow> \<exists>m. served P c m ws' (\<alpha> (w_store w)))"
  proof (rule guards_ex)
    fix n
    show "guards (feeds good \<alpha> P n0) (feeds good \<alpha> P n0)
       (\<lambda>w. (tuned P n0 w \<and> served P c l ws (\<alpha> (w_store w)) \<and> n \<le> int (length (v_log (\<alpha> (w_store w))))) \<and>
          (n0 \<le> n \<and> tuned P n0 w \<and> placed n rx (w_published w))) (run_backfill fuel P st ws l)
       (\<lambda>b w. case b of
          Backfilled m ws' \<Rightarrow> tracking P n0 c rx m ws' w
        | BackfillStopped ws' \<Rightarrow> \<exists>m. served P c m ws' (\<alpha> (w_store w))
        | Backfilling ws' \<Rightarrow> \<exists>m. served P c m ws' (\<alpha> (w_store w)))"
    proof (rule guards_weaken [OF guards_frame [OF guards_backfill [OF assms, of P n0 c l ws n fuel],
          where F = "\<lambda>w. n0 \<le> n \<and> tuned P n0 w \<and> placed n rx (w_published w)"]], goal_cases)
      case (4 b w)
      then show ?case
        by (cases b) (auto simp: tracking_def intro: placed_past, auto simp: past_def)
    qed (auto intro: fed)
  qed
  then show ?thesis by (rule guards_pre) auto
qed

lemma tracking_fed: "tracking P n0 c rx m ws w \<Longrightarrow> feeds good \<alpha> P n0 w w' \<Longrightarrow> tracking P n0 c rx m ws w'"
  by (auto simp: tracking_def intro: fed)

lemma tracking_skip:
  "tracking P n0 c rx m ws w \<Longrightarrow> rx < length (w_published w) \<Longrightarrow> fst (w_published w ! rx) \<le> m \<Longrightarrow> tracking P n0 c (Suc rx) m ws w"
  using placed_Suc [of m rx "w_published w" m] by (simp add: tracking_def)

lemma tracking_send:
  assumes "tracking P n0 c rx m ws w" "rx < length (w_published w)" "w_published w ! rx = (seq, frame)" "m < seq"
    and "ws_sent ws' = ws_sent ws @ [frame]"
  shows "tracking P n0 c (Suc rx) seq ws' w"
proof -
  have t: "tuned P n0 w" "in_order P \<alpha> n0 w" "log_ok (\<alpha> (w_store w))"
    using assms(1) tuned_log_ok [of P n0 w] by (auto simp: tracking_def tuned_def)
  from assms(1) have "placed m rx (w_published w)" "past n0 m (\<alpha> (w_store w))" by (auto simp: tracking_def)
  note ev = next_event [OF t(2,3) this assms(2-4)]
  have "served P c m ws (\<alpha> (w_store w))" using assms(1) by (simp add: tracking_def)
  then have "served P c seq ws' (\<alpha> (w_store w))"
    by (rule served_step [OF t(3)]) (use ev assms(4,5) in simp_all)
  with t(1) assms(1-4) show ?thesis
    using past_mono [of n0 m _ seq] placed_Suc [of m rx "w_published w" seq] by (simp add: tracking_def)
qed

lemma guards_recv:
  "guards (feeds good \<alpha> P n0) (feeds good \<alpha> P n0) (tracking P n0 c rx m ws) (rx_recv cap rx) (\<lambda>(r, rx') w. case r of
      RecvPending \<Rightarrow> tracking P n0 c rx' m ws w
    | RecvLagged \<Rightarrow> tracking P n0 c rx m ws w
    | RecvEvent seq frame \<Rightarrow> if seq \<le> m then tracking P n0 c rx' m ws w
        else (\<exists>m. served P c m ws (\<alpha> (w_store w))) \<and> (\<forall>ws'. ws_sent ws' = ws_sent ws @ [frame] \<longrightarrow> tracking P n0 c rx' seq ws' w))"
  unfolding rx_recv_def
proof (rule guards_atomic, goal_cases)
  case (1 w w1)
  then have t: "tracking P n0 c rx m ws w1" by (rule tracking_fed)
  obtain seq frame where e: "w_published w1 ! rx = (seq, frame)" by (cases "w_published w1 ! rx")
  have s: "\<exists>m. served P c m ws (\<alpha> (w_store w1))" using t by (auto simp: tracking_def)
  show ?case using t tracking_skip [OF t] tracking_send [OF t _ e] s by (auto simp: Let_def feeds_refl e)
qed

lemma guards_live:
  assumes "st_store st = B"
  shows "guards (feeds good \<alpha> P n0) (feeds good \<alpha> P n0) (tracking P n0 c rx m ws) (live_loop cap fuel P st rx m recovered ws)
    (\<lambda>r w. on_track P c r (\<alpha> (w_store w)))"
proof (induction fuel arbitrary: rx m recovered ws)
  case 0
  show ?case by (auto intro!: guards_Ready simp: tracking_def intro: on_trackI)
next
  case (Suc fuel)
  have lag: "guards (feeds good \<alpha> P n0) (feeds good \<alpha> P n0) (tracking P n0 c rx' m ws)
    (abind tx_subscribe (\<lambda>rx. abind (run_backfill fuel P st ws m) (\<lambda>b. case b of
       Backfilled s socket \<Rightarrow> live_loop cap fuel P st rx s True socket
     | BackfillStopped socket \<Rightarrow> Ready (Returned socket)
     | Backfilling socket \<Rightarrow> Ready (Streaming socket)))) (\<lambda>r w. on_track P c r (\<alpha> (w_store w)))" for rx'
  proof (rule guards_abind [OF guards_pre [OF guards_subscribe [where A = "\<lambda>w. served P c m ws (\<alpha> (w_store w)) \<and> n0 \<le> int (length (v_log (\<alpha> (w_store w))))"]]], goal_cases)
    case (1 w)
    then show ?case by (auto simp: tracking_def past_def intro: fed)
  next
    case (2 rx)
    show ?case
    proof (rule guards_abind [OF guards_pre [OF guards_resume [OF assms, of P n0 c m ws rx]]], goal_cases)
      case (2 b)
      show ?case using Suc.IH by (cases b) (auto intro!: guards_Ready intro: on_trackI)
    qed auto
  qed
  show ?case
    unfolding live_loop.simps
  proof (rule guards_abind [OF guards_recv], goal_cases)
    case (1 a)
    obtain r rx' where a: "a = (r, rx')" by (cases a)
    show ?case
    proof (cases r)
      case RecvPending
      then show ?thesis using Suc.IH by (simp add: a)
    next
      case RecvLagged
      then show ?thesis using lag [of rx] by (auto simp: a dest: tracking_served intro!: guards_Ready intro: on_trackI)
    next
      case (RecvEvent seq frame)
      show ?thesis
      proof (cases "seq \<le> m")
        case True
        then show ?thesis using Suc.IH by (simp add: a RecvEvent)
      next
        case False
        show ?thesis
        proof (cases rule: ws_send_cases [of frame ws])
          case 1
          then show ?thesis using False by (auto simp: a RecvEvent intro!: guards_Ready intro: on_trackI)
        next
          case (2 ws')
          then show ?thesis using False Suc.IH [of rx' seq ws' False] by (auto simp: a RecvEvent intro: guards_pre)
        qed
      qed
    qed
  qed
qed

lemma guards_max_seq:
  "guards (feeds good \<alpha> P n0) (feeds good \<alpha> P n0)
     (\<lambda>w. tuned P n0 w \<and> (\<exists>n \<ge> n0. n \<le> int (length (v_log (\<alpha> (w_store w)))) \<and> placed n rx (w_published w))) (db (max_seq (repo_ops B)))
     (\<lambda>r w. tuned P n0 w \<and> (\<exists>n \<ge> n0. n \<le> int (length (v_log (\<alpha> (w_store w)))) \<and> placed n rx (w_published w)) \<and>
        (\<forall>mx. r = Inr mx \<longrightarrow> mx = int (length (v_log (\<alpha> (w_store w))))))"
  by (rule guards_reads [OF repo.max_seq [unfolded spec_max_seq_def]])
    (auto dest: tuned_fed intro: tuned_same feeds_same fed, auto simp: tuned_def dest: tuned_fed [unfolded tuned_def])

lemma guards_firehose:
  assumes "st_store st = B" "ws_sent ws = []"
  shows "guards (feeds good \<alpha> P n0) (feeds good \<alpha> P n0) (\<lambda>w. tuned P n0 w \<and> n0 \<le> int (length (v_log (\<alpha> (w_store w)))))
    (handle_firehose cap fuel P st ws (Some c))
    (\<lambda>r w. on_track P c r (\<alpha> (w_store w)) \<or> (\<exists>ws'. r = Returned ws' \<and> ws_sent ws' \<in> {[], [future_cursor_frame P]}))"
  unfolding handle_firehose_def option.case assms(1)
proof (rule guards_abind [OF guards_pre [OF guards_subscribe [where A = "\<lambda>w. n0 \<le> int (length (v_log (\<alpha> (w_store w))))"]]], goal_cases)
  case (1 w)
  then show ?case by (auto intro: fed)
next
  case (2 rx)
  from guards_pre [OF guards_max_seq [of P n0 rx]] show ?case
  proof (rule guards_abind, goal_cases)
    case (2 r)
    show ?case
    proof (cases r)
      case (Inr mx)
      show ?thesis
      proof (cases "c > mx")
        case True
        then show ?thesis
          by (cases rule: ws_send_cases [of "future_cursor_frame P" ws]) (auto simp: Inr assms(2) intro!: guards_Ready)
      next
        case False
        have "guards (feeds good \<alpha> P n0) (feeds good \<alpha> P n0)
            (\<lambda>w. tuned P n0 w \<and> (\<exists>n \<ge> n0. n \<le> int (length (v_log (\<alpha> (w_store w)))) \<and> placed n rx (w_published w)) \<and>
              (\<forall>mx. r = Inr mx \<longrightarrow> mx = int (length (v_log (\<alpha> (w_store w))))))
            (abind (run_backfill fuel P st ws c) (\<lambda>b. case b of
               Backfilled s socket \<Rightarrow> live_loop cap fuel P st rx s False socket
             | BackfillStopped socket \<Rightarrow> Ready (Returned socket)
             | Backfilling socket \<Rightarrow> Ready (Streaming socket))) (\<lambda>r w. on_track P c r (\<alpha> (w_store w)))"
        proof (rule guards_abind [OF guards_pre [OF guards_resume [OF assms(1), of P n0 c c ws rx]]], goal_cases)
          case (1 w)
          with False show ?case by (auto simp: Inr served_def assms(2) delivered_none)
        next
          case (2 b)
          show ?case using guards_live [OF assms(1)] by (cases b) (auto intro!: guards_Ready intro: on_trackI)
        qed
        then show ?thesis using False by (simp add: Inr) (erule guards_weaken; simp add: Inr)
      qed
    qed (auto intro!: guards_Ready simp: assms(2))
  qed auto
qed

end

subsection \<open>The stream\<close>

primrec socket_of :: "stream \<Rightarrow> WebSocket" where
  "socket_of (Streaming ws) = ws"
| "socket_of (Returned ws) = ws"


lemma run_page:
  assumes "storage_backend B good up \<alpha>" "good (w_store w)" "up (w_store w)"
  obtains s where "run (db (backfill_page (repo_ops B) c BACKFILL_PAGE)) w = (Ok (take 500 (log_after c (v_log (\<alpha> (w_store w))))), w\<lparr>w_store := s\<rparr>)"
    "good s" "up s" "\<alpha> s = \<alpha> (w_store w)"
proof -
  obtain r s where r: "backfill_page (repo_ops B) c BACKFILL_PAGE (w_store w) = (r, s)" by (cases "backfill_page (repo_ops B) c BACKFILL_PAGE (w_store w)")
  from meets_up [OF repo_store.backfill_page [OF storage_backend.axioms(1) [OF assms(1)], of BACKFILL_PAGE c] assms(2,3) r]
  show ?thesis by (intro that [of s]) (auto simp: run_db r, auto simp: BACKFILL_PAGE_def spec_backfill_page_def reads_def)
qed

lemma map_filter_nth:
  "n < length xs \<Longrightarrow> f (xs ! n) = Some y \<Longrightarrow> List.map_filter f xs = List.map_filter f (take n xs) @ y # List.map_filter f (drop (Suc n) xs)"
  by (subst id_take_nth_drop [of n xs]) (simp_all add: List.map_filter_def)

text \<open>One page further: the client is gone within it, or the rest of the log is left.\<close>

lemma page_sent:
  assumes "log_ok v" "log_after c (v_log v) \<noteq> []" "send_rows P (take 500 (log_after c (v_log v))) c ws = (r, ws')"
  shows "case r of
      None \<Rightarrow> ws_left ws < length (List.map_filter (frame_of P) (log_after c (v_log v))) \<and>
        ws_sent ws' = ws_sent ws @ take (ws_left ws) (List.map_filter (frame_of P) (log_after c (v_log v)))
    | Some m \<Rightarrow> log_after m (v_log v) = drop 500 (log_after c (v_log v)) \<and> ws_left ws' \<le> ws_left ws \<and>
        (\<exists>sent. List.map_filter (frame_of P) (log_after c (v_log v)) = sent @ List.map_filter (frame_of P) (log_after m (v_log v)) \<and>
          ws_sent ws' = ws_sent ws @ sent \<and> ws_left ws = ws_left ws' + length sent)"
proof -
  let ?L = "log_after c (v_log v)"
  have split: "List.map_filter (frame_of P) ?L = List.map_filter (frame_of P) (take 500 ?L) @ List.map_filter (frame_of P) (drop 500 ?L)"
    by (metis append_take_drop_id map_filter_append)
  note sent = send_rows_sent [where P = P and rows = "take 500 ?L" and l = c and ws = ws, unfolded assms(3) prod.case]
  show ?thesis
  proof (cases r)
    case None
    with sent obtain n y where n: "n < length (take 500 ?L)" "frame_of P (take 500 ?L ! n) = Some y"
      "ws_sent ws' = ws_sent ws @ List.map_filter (frame_of P) (take n (take 500 ?L))"
      "ws_left ws = length (List.map_filter (frame_of P) (take n (take 500 ?L)))" by auto
    with map_filter_nth [where f = "frame_of P", OF n(1,2)] split None show ?thesis by simp
  next
    case (Some m)
    have m: "m = (if length (take 500 ?L) = 0 then c else fst (?L ! (length (take 500 ?L) - 1)))"
      using sent Some assms(2) by (auto simp: last_conv_nth min_def split: if_splits)
    from log_split(2) [OF assms(1) _ m] have "log_after m (v_log v) = drop 500 ?L" by (simp add: min_def split: if_splits)
    with split sent Some show ?thesis by auto
  qed
qed

text \<open>C24: replay ends and leaves nothing out. In a store that answers, as many pages as the rows after the cursor fill
  and one more are enough for the backfill, corrupt rows among them or not: it reaches the end of the log having
  sent every row that decodes, in order, unless the client is gone, and then it has sent as many as the
  client took.\<close>

theorem backfill_completes:
  assumes "storage_backend (st_store st) good up \<alpha>" "good (w_store w)" "up (w_store w)"
    and "length (log_after c (v_log (\<alpha> (w_store w)))) \<le> 500 * fuel"
  shows "let frames = List.map_filter (frame_of P) (log_after c (v_log (\<alpha> (w_store w)))) in
    case fst (run (run_backfill (Suc fuel) P st ws c) w) of
      Backfilled m ws' \<Rightarrow> ws_sent ws' = ws_sent ws @ frames \<and> log_after m (v_log (\<alpha> (w_store w))) = []
    | BackfillStopped ws' \<Rightarrow> ws_left ws < length frames \<and> ws_sent ws' = ws_sent ws @ take (ws_left ws) frames
    | Backfilling ws' \<Rightarrow> False"
  using assms(2-4)
proof (induction fuel arbitrary: c ws w)
  case 0
  show ?case by (rule run_page [OF assms(1) 0(1,2), of c]) (use 0(3) in \<open>simp add: run_abind run_Ready List.map_filter_def\<close>)
next
  case (Suc fuel)
  let ?v = "\<alpha> (w_store w)"
  let ?L = "log_after c (v_log ?v)"
  have v: "log_ok ?v" using repo_store.repo_view_ok [OF storage_backend.axioms(1) [OF assms(1)]] Suc.prems(1) by (simp add: view_ok_def)
  from run_page [OF assms(1) Suc.prems(1,2), of c] obtain s where s: "run (db (backfill_page (repo_ops (st_store st)) c BACKFILL_PAGE)) w =
    (Ok (take 500 ?L), w\<lparr>w_store := s\<rparr>)" "good s" "up s" "\<alpha> s = ?v" by blast
  show ?case
  proof (cases "?L = []")
    case True
    with s show ?thesis by (simp add: run_abind run_Ready List.map_filter_def)
  next
    case False
    obtain r ws' where r: "send_rows P (take 500 ?L) c ws = (r, ws')" by (cases "send_rows P (take 500 ?L) c ws")
    note sent = page_sent [OF v False r]
    show ?thesis
    proof (cases r)
      case None
      with sent show ?thesis unfolding Let_def run_backfill.simps(2) [of "Suc fuel"] by (simp add: run_abind s(1) False r run_Ready)
    next
      case (Some m)
      have "run (run_backfill (Suc (Suc fuel)) P st ws c) w = run (run_backfill (Suc fuel) P st ws' m) (w\<lparr>w_store := s\<rparr>)"
        unfolding run_backfill.simps(2) [of "Suc fuel"] by (simp add: run_abind s(1) False r Some)
      moreover have "length (log_after m (v_log (\<alpha> s))) \<le> 500 * fuel" using Suc.prems(3) sent Some s(4) by simp
      ultimately show ?thesis using Suc.IH [of "w\<lparr>w_store := s\<rparr>" m ws'] s sent Some
        by (auto simp: Let_def split: backfill.splits)
    qed
  qed
qed

subsection \<open>Writers keep the channel in step\<close>

text \<open>The trace of an undisturbed program is one chain of states.\<close>

fun linked :: "'s \<Rightarrow> ('s \<times> 's) list \<Rightarrow> 's \<Rightarrow> bool" where
  "linked s [] s' = (s = s')"
| "linked s ((s1, s2) # tr) s' = (s = s1 \<and> linked s2 tr s')"

lemma linked_append: "linked s (tr @ tr') s'' \<longleftrightarrow> (\<exists>s'. linked s tr s' \<and> linked s' tr' s'')"
  by (induction s tr s'' rule: linked.induct) auto

lemma amid_linked: "run p s = (a, s') \<Longrightarrow> (\<And>s. R s s) \<Longrightarrow> \<exists>tr. amid R p s tr a s' \<and> linked s tr s'"
proof (induction p arbitrary: s)
  case (Await f)
  obtain p s2 where p: "f s = (p, s2)" by (cases "f s")
  with Await.prems have "run p s2 = (a, s')" by (simp add: run_Await)
  with Await.IH [of s s2] Await.prems(2) p obtain tr where "amid R p s2 tr a s'" "linked s2 tr s'" by auto
  with p Await.prems(2) have "amid R (Await f) s ((s, s2) # tr) a s'" "linked s ((s, s2) # tr) s'" by (auto intro: amid_step)
  then show ?case by blast
qed auto

definition in_step :: "'x repo_prims_scheme \<Rightarrow> ('s \<Rightarrow> view) \<Rightarrow> int \<Rightarrow> 's world \<Rightarrow> bool" where
  "in_step P \<alpha> n0 w = list_all2 (\<lambda>(q, e) (seq, frame). seq = q \<and> frame_of P (q, e) = Some frame)
     (log_after n0 (v_log (\<alpha> (w_store w)))) (w_published w)"

lemma in_step_in_order: "in_step P \<alpha> n0 w \<Longrightarrow> in_order P \<alpha> n0 w"
  by (auto simp: in_step_def in_order_def)

lemma linked_stages:
  "linked w tr w' \<Longrightarrow> list_all (\<lambda>(w1, w2). stages good \<alpha> w1 w2) tr \<Longrightarrow> good (w_store w) \<Longrightarrow>
   good (w_store w') \<and> v_log (\<alpha> (w_store w')) = v_log (\<alpha> (w_store w)) \<and> w_published w' = w_published w"
proof (induction w tr w' rule: linked.induct)
  case (2 w w1 w2 tr w')
  then have "stages good \<alpha> w w2" by simp
  with 2 show ?case by (simp add: stages_def)
qed simp

text \<open>C36: what a subscriber sees live is what it would replay. A broadcasting writer that runs undisturbed keeps the log and the
  channel in step, whether the write succeeds or fails: the channel holds the events of the log, one for
  one and with the same numbers, and each broadcast frame is the frame backfill makes of the stored row, given that decoding
  the stored body gives back what was encoded.\<close>

theorem commit_in_step:
  assumes "storage_backend (rw_store W) good up \<alpha>" "good (w_store w)" "in_step P \<alpha> n0 w"
    and "n0 \<le> int (length (v_log (\<alpha> (w_store w))))" "run (commit_op P W op Broadcast) w = (r, w')"
    and "\<And>out body ev. r = Ok (out, body) \<Longrightarrow> cbor_commit_body P (body\<lparr>cb_seq := 0\<rparr>) = Ok ev \<Longrightarrow>
      cbor_to_commit_body P ev = Ok (body\<lparr>cb_seq := 0\<rparr>)"
  shows "in_step P \<alpha> n0 w'"
proof -
  from amid_linked [where R = "others good \<alpha> (rw_did W)", OF assms(5) others_refl] obtain tr where
    tr: "amid (others good \<alpha> (rw_did W)) (commit_op P W op Broadcast) w tr r w'" "linked w tr w'" by blast
  note lands = commit_op_lands [OF assms(1,2) tr(1)]
  show ?thesis
  proof (cases r)
    case (Inl e)
    with lands linked_stages [where good = good and \<alpha> = \<alpha>, OF tr(2) _ assms(2)] assms(3) show ?thesis by (simp add: in_step_def)
  next
    case (Inr p)
    obtain out body where p: "p = (out, body)" by (cases p)
    from lands obtain tr1 w1 w2 tr2 w3 ev where l: "tr = tr1 @ [(w1, w2)] @ tr2"
      "list_all (\<lambda>(w1, w2). stages good \<alpha> w1 w2) tr1" "cb_seq body = int (length (v_log (\<alpha> (w_store w1)))) + 1"
      "v_log (\<alpha> (w_store w2)) = v_log (\<alpha> (w_store w1)) @ [(cb_seq body, ev, False)]" "cbor_commit_body P (body\<lparr>cb_seq := 0\<rparr>) = Ok ev"
      "w_published w2 = w_published w1"
      "tr2 = [(w3, w3\<lparr>w_published := w_published w3 @ [(cb_seq body, encode_message_frame P ''#commit'' body)]\<rparr>)]"
      unfolding Inr p by (auto simp: Let_def event_ok_def)
    from tr(2) l(1,7) obtain w1' where "linked w tr1 w1'" "w1' = w1" "w3 = w2"
      and w': "w' = w3\<lparr>w_published := w_published w3 @ [(cb_seq body, encode_message_frame P ''#commit'' body)]\<rparr>"
      by (auto simp: linked_append)
    with linked_stages [where good = good and \<alpha> = \<alpha>, OF _ l(2) assms(2)] have s: "v_log (\<alpha> (w_store w1)) = v_log (\<alpha> (w_store w))"
      "w_published w2 = w_published w" "w3 = w2" using l(6) by auto
    have "cbor_to_commit_body P ev = Ok (body\<lparr>cb_seq := 0\<rparr>)" using assms(6) Inr p l(5) by blast
    then have "frame_of P (cb_seq body, ev) = Some (encode_message_frame P ''#commit'' body)" by (simp add: frame_of_def)
    moreover have "n0 < cb_seq body" using assms(4) l(3) s(1) by simp
    ultimately show ?thesis
      using assms(3) l(4) s w' by (simp add: in_step_def log_after_append log_after_def [of n0 "[_]"] list_all2_appendI)
  qed
qed

subsection \<open>Out of order\<close>

text \<open>Two writers of different repositories may broadcast in the other order than the log numbered them. The
  live loop takes the late event for one it has sent and never sends it, however long it runs.\<close>

lemma live_loop_idle: "length (w_published w) \<le> rx \<Longrightarrow> run (live_loop cap n P st rx m recovered ws) w = (Streaming ws, w)"
  by (induction n) (simp_all add: rx_recv_def async_simps)

theorem late_event_lost:
  assumes "w_published w = before @ [(b, fb), (a, fa)]" "m < a" "a < b" "ws_left ws = Suc left" "2 \<le> cap"
  shows "run (live_loop cap (Suc (Suc n)) P st (length before) m recovered ws) w = (Streaming (ws\<lparr>ws_sent := ws_sent ws @ [fb], ws_left := left\<rparr>), w)"
  using assms by (simp add: rx_recv_def async_simps nth_append ws_send_def live_loop_idle)

subsection \<open>Witnesses\<close>

definition wit_live :: "Inner world" where
  "wit_live = (wit_at 1000 wit_committed)\<lparr>w_published := [(1, wit_frame)]\<rparr>"

definition wit_socket :: WebSocket where
  "wit_socket = \<lparr>ws_sent = [], ws_left = 5\<rparr>"

lemma wit_committed_log: "m_repo_seq wit_committed = [\<lparr>sr_seq = 1, sr_event = [6], sr_invalidated = False\<rparr>]" "m_next_seq wit_committed = 1"
  by (simp_all add: wit_committed_def mem_commit_blocks_def wit_filled_def wit_put_def mem_new_def Let_def)

lemma wit_committed_ok: "mem_ok wit_committed"
  by (simp add: mem_ok_def mem_seq_ok_def wit_committed_log)
    (simp add: wit_committed_def mem_commit_blocks_def wit_filled_def wit_put_def mem_new_def Let_def mem_accounts_ok_def hm_ok_def)

lemma wit_live_sel: "w_store wit_live = wit_committed" "w_published wit_live = [(1, wit_frame)]"
  by (simp_all add: wit_live_def)

lemma wit_frame_of: "frame_of wit_repo (1, [6]) = Some wit_frame"
  by (simp add: frame_of_def wit_frame_def)

theorem commit_in_step_witness: "in_step wit_repo mem_view 0 wit_live"
proof -
  obtain out where "run (commit_op wit_repo wit_writer (Create ''a.b/c'' INull) Broadcast) (wit_at 1000 (mem_new ''t'')) =
     (Ok (out, wit_body\<lparr>cb_seq := 1\<rparr>), wit_live)" using wit_create unfolding wit_live_def by blast
  then show ?thesis
    by (rule commit_in_step [OF wit_writer_backend, rotated 2])
      (simp_all add: in_step_def mem_new_def wit_at_def wit_world_def log_after_def, simp_all add: wit_body_def)
qed

lemma wit_log: "v_log (mem_view wit_committed) = [(1, [6], False)]"
  by (simp add: mem_view_def wit_committed_log)

lemma run_wit_firehose:
  "run (handle_firehose CAPACITY 3 wit_repo wit_state wit_socket (Some 0)) wit_live = (Streaming \<lparr>ws_sent = [wit_frame], ws_left = 4\<rparr>, wit_live)"
proof -
  have page: "run (db (mem_backfill_page 0 BACKFILL_PAGE)) wit_live = (Ok [(1, [6])], wit_live)" "run (db (mem_backfill_page 1 BACKFILL_PAGE)) wit_live = (Ok [], wit_live)"
    "run (db mem_max_seq) wit_live = (Ok 1, wit_live)"
    by (simp_all add: run_db wit_live_sel mem_backfill_page_def mem_max_seq_def wit_committed_log BACKFILL_PAGE_def wit_live_def)
  have rows: "send_rows wit_repo [(1, [6])] 0 wit_socket = (Some 1, \<lparr>ws_sent = [wit_frame], ws_left = 4\<rparr>)"
    by (simp add: ws_send_def wit_socket_def wit_frame_def)
  have "run tx_subscribe wit_live = (1, wit_live)" by (simp add: tx_subscribe_def async_simps wit_live_sel)
  then show ?thesis
    by (simp add: handle_firehose_def eval_nat_numeral run_abind run_Ready page rows wit_state_def live_loop_idle wit_live_sel
        del: send_rows.simps live_loop.simps)
qed


theorem backfill_completes_witness:
  "case fst (run (run_backfill (Suc 1) wit_repo wit_state wit_socket 0) wit_live) of
     Backfilled m ws' \<Rightarrow> ws_sent ws' = [wit_frame] | _ \<Rightarrow> False"
  using backfill_completes [OF wit_backend, of wit_live 0 1 wit_repo wit_socket]
  by (auto simp: wit_live_sel wit_committed_ok mem_up_def wit_log log_after_def List.map_filter_def wit_frame_of wit_socket_def Let_def
      split: backfill.splits simp del: mem_view_simps)

end
