(* ===== verification/Embedded_Laws.thy ===== *)
theory Embedded_Laws
  imports Embedded_Firehose Firehose_Laws
begin

text \<open>
  What the device server's stream gives its subscribers: its WebSocket frames carry what was put into
  them in both directions, and the commit frames among them are those of the production stream's law.
\<close>

subsection \<open>Frames\<close>

lemma length_be_bytes [simp]: "length (be_bytes k n) = k"
  by (induction k arbitrary: n) simp_all

lemma from_be_bytes_snoc: "from_be_bytes (bs @ [b]) = 256 * from_be_bytes bs + unat b"
  by (simp add: from_be_bytes_def)

lemma from_be_bytes_be_bytes: "n < 256 ^ k \<Longrightarrow> from_be_bytes (be_bytes k n) = n"
proof (induction k arbitrary: n)
  case (Suc k)
  then have "n div 256 < 256 ^ k" by (simp add: less_mult_imp_div_less)
  with Suc.IH show ?case by (simp add: from_be_bytes_snoc unat_of_nat)
qed (simp add: from_be_bytes_def)

lemma low_byte: "n < 128 \<Longrightarrow> and (of_nat n :: byte) 0x7f = of_nat n" "n < 128 \<Longrightarrow> and (of_nat n :: byte) 0x80 = 0"
  "n < 128 \<Longrightarrow> and (or 0x80 (of_nat n) :: byte) 0x7f = of_nat n" "n < 128 \<Longrightarrow> and (or 0x80 (of_nat n) :: byte) 0x80 \<noteq> 0"
proof -
  assume n: "n < 128"
  have *: "and (of_nat n :: byte) 0x7f = of_nat n \<and> and (of_nat n :: byte) 0x80 = 0 \<and>
    and (or 0x80 (of_nat n) :: byte) 0x7f = of_nat n \<and> and (or 0x80 (of_nat n) :: byte) 0x80 \<noteq> 0"
  proof -
    have "n \<in> set [0..<128]" using n by simp
    moreover have "list_all (\<lambda>n. and (of_nat n :: byte) 0x7f = of_nat n \<and> and (of_nat n :: byte) 0x80 = 0 \<and>
      and (or 0x80 (of_nat n) :: byte) 0x7f = of_nat n \<and> and (or 0x80 (of_nat n) :: byte) 0x80 \<noteq> 0) [0..<128]" by code_simp
    ultimately show ?thesis unfolding list_all_iff by blast
  qed
  then show "and (of_nat n :: byte) 0x7f = of_nat n" "and (of_nat n :: byte) 0x80 = 0"
    "and (or 0x80 (of_nat n) :: byte) 0x7f = of_nat n" "and (or 0x80 (of_nat n) :: byte) 0x80 \<noteq> 0" by blast+
qed

text \<open>What a peer reads off a frame of any length.\<close>

definition frame_opcode :: "bytes \<Rightarrow> byte" where
  "frame_opcode f = and (f ! 0) 0x0f"

definition frame_payload :: "bytes \<Rightarrow> bytes" where
  "frame_payload f = (let len = unat (and (f ! 1) 0x7f) in drop (if len = 126 then 4 else if len = 127 then 10 else 2) f)"

lemma frame_opcode_write: "frame_opcode (write_frame opcode p) = and opcode 0x0f"
proof -
  have "and (or 0x80 (and opcode 0x0f)) 0x0f = and opcode (0x0f :: byte)" by (simp add: bit.conj_disj_distrib2 and.assoc)
  then show ?thesis by (simp add: frame_opcode_def write_frame_def frame_header_def)
qed

lemma frame_payload_write: "frame_payload (write_frame opcode p) = p"
  by (auto simp: frame_payload_def write_frame_def frame_header_def Let_def low_byte unat_of_nat)

text \<open>A client's frame is a frame whose payload is masked (RFC 6455, 5.3) with four bytes of its choice.\<close>

definition mask_frame :: "bytes \<Rightarrow> byte \<Rightarrow> bytes \<Rightarrow> bytes" where
  "mask_frame mk opcode p = (case frame_header opcode (length p) of b0 # b1 # ext \<Rightarrow> b0 # or 0x80 b1 # ext @ mk @ unmask mk p)"

lemma unmask_unmask: "unmask mk (unmask mk p) = p"
  by (rule nth_equalityI) (simp_all add: unmask_def xor.assoc)

lemma length_unmask [simp]: "length (unmask mk p) = length p"
  by (simp add: unmask_def)

text \<open>The first byte of a header, the length byte, and the extended length.\<close>

definition len_byte :: "nat \<Rightarrow> nat" where
  "len_byte n = (if n < 126 then n else if n \<le> 0xffff then 126 else 127)"

definition len_ext :: "nat \<Rightarrow> bytes" where
  "len_ext n = (if n < 126 then [] else if n \<le> 0xffff then be_bytes 2 n else be_bytes 8 n)"

lemma frame_header_parts: "frame_header opcode n = or 0x80 (and opcode 0x0f) # of_nat (len_byte n) # len_ext n"
  by (simp add: frame_header_def len_byte_def len_ext_def)

lemma read_exact_append: "length xs = n \<Longrightarrow> read_exact n (xs @ r) = Ok (xs, r)"
  by (simp add: read_exact_def)

lemma read_exact_short: "length r < n \<Longrightarrow> read_exact n r = Err UnexpectedEof"
  by (simp add: read_exact_def)

definition frame_bytes :: "bytes option \<Rightarrow> byte \<Rightarrow> bytes \<Rightarrow> bytes" where
  "frame_bytes mk opcode p = or 0x80 (and opcode 0x0f) # (if mk = None then of_nat (len_byte (length p)) else or 0x80 (of_nat (len_byte (length p)))) #
     len_ext (length p) @ (case mk of None \<Rightarrow> p | Some mk \<Rightarrow> mk @ unmask mk p)"

lemma frame_bytes: "write_frame opcode p = frame_bytes None opcode p" "mask_frame mk opcode p = frame_bytes (Some mk) opcode p"
  by (simp_all add: write_frame_def mask_frame_def frame_bytes_def frame_header_parts)

lemma read_len:
  assumes "n < 2 ^ 64"
  shows "(if len_byte n = 126 then and_then (read_exact 2 (len_ext n @ r)) (\<lambda>(ext, r). Ok (from_be_bytes ext, r))
    else if len_byte n = 127 then and_then (read_exact 8 (len_ext n @ r)) (\<lambda>(ext, r). Ok (from_be_bytes ext, r))
    else Ok (len_byte n, len_ext n @ r)) = Ok (n, r)"
  using assms by (auto simp: len_byte_def len_ext_def read_exact_append from_be_bytes_be_bytes)

lemma read_frame_bytes:
  assumes "length p < 2 ^ 64" "case mk of None \<Rightarrow> True | Some mk \<Rightarrow> length mk = 4"
  shows "read_frame (frame_bytes mk opcode p @ rest) = (if length p > MAX_CLIENT_FRAME then Err FrameTooLarge
    else Ok (\<lparr>cl_opcode = and opcode 0x0f, cl_payload = p\<rparr>, rest))"
proof -
  have small: "len_byte (length p) < 128" by (simp add: len_byte_def)
  have op: "and (or 0x80 (and opcode 0x0f)) 0x0f = and opcode (0x0f :: byte)"
    using frame_opcode_write [of opcode "[]"] by (simp add: frame_opcode_def write_frame_def frame_header_def)
  have two: "read_exact 2 (a # b # xs) = Ok ([a, b], xs)" for a b :: byte and xs by (simp add: read_exact_def)
  have len: "unat (of_nat (len_byte (length p)) :: byte) = len_byte (length p)" using small by (simp add: unat_of_nat)
  show ?thesis
    using assms(2) small read_len [OF assms(1)]
    by (cases mk) (auto simp: read_frame_def frame_bytes_def two Let_def low_byte len op read_exact_append unmask_unmask)
qed

lemma read_frame_prefix:
  assumes "length p \<le> MAX_CLIENT_FRAME" "case mk of None \<Rightarrow> True | Some mk \<Rightarrow> length mk = 4" "n < length (frame_bytes mk opcode p)"
  shows "read_frame (take n (frame_bytes mk opcode p)) = Err UnexpectedEof"
proof -
  have small: "len_byte (length p) < 128" "length p < 2 ^ 64" using assms(1) by (simp_all add: len_byte_def MAX_CLIENT_FRAME_def)
  have len: "unat (of_nat (len_byte (length p)) :: byte) = len_byte (length p)" using small by (simp add: unat_of_nat)
  have two: "read_exact 2 (a # b # xs) = Ok ([a, b], xs)" for a b :: byte and xs by (simp add: read_exact_def)
  have cut: "read_exact k (take i (xs @ ys)) = (if i < k then Err UnexpectedEof else Ok (xs, take (i - k) ys))"
    if "length xs = k" for k i and xs ys :: bytes using that by (simp add: read_exact_def)
  obtain k where k: "n = 0 \<or> n = 1 \<or> n = Suc (Suc k)" by (metis One_nat_def not0_implies_Suc)
  show ?thesis
  proof (cases "n < 2")
    case True
    then show ?thesis using assms(3) by (simp add: read_frame_def read_exact_short)
  next
    case False
    with k have n: "n = Suc (Suc k)" by auto
    show ?thesis
      using assms small low_byte len
      by (cases mk) (auto simp: n read_frame_def frame_bytes_def two Let_def low_byte len len_byte_def len_ext_def cut from_be_bytes_be_bytes
          read_exact_short simp del: take_append split: if_splits)
  qed
qed



subsection \<open>The stream\<close>

text \<open>The commit frames a connection was sent: what its binary frames carry.\<close>

definition commits :: "WebSocket \<Rightarrow> WebSocket" where
  "commits ws = ws\<lparr>ws_sent := map frame_payload (filter (\<lambda>f. frame_opcode f = OP_BINARY) (ws_sent ws))\<rparr>"

lemma ws_write_cases:
  obtains "ws_write opcode p ws = (Err (), ws)" "ws_left ws = 0"
  | ws' where "ws_write opcode p ws = (Ok (), ws')" "ws_sent ws' = ws_sent ws @ [write_frame opcode p]" "ws_left ws = Suc (ws_left ws')"
  by (cases rule: ws_send_cases [of "write_frame opcode p" ws]) (auto simp: ws_write_def)

lemma ws_send_commits: "ws_send f (commits ws) = map_prod id commits (ws_write OP_BINARY f ws)"
  by (simp add: ws_send_def ws_write_def commits_def frame_opcode_write frame_payload_write OP_BINARY_def split: nat.splits)

lemma commits_control:
  "ws_write opcode p ws = (r, ws') \<Longrightarrow> opcode = OP_PONG \<or> opcode = OP_CLOSE \<Longrightarrow> ws_sent (commits ws') = ws_sent (commits ws)"
  by (auto simp: ws_send_def ws_write_def commits_def frame_opcode_write OP_BINARY_def OP_PONG_def OP_CLOSE_def split: nat.splits)

lemma send_rows_commits: "send_rows P rows l (commits ws) = map_prod id commits (emb_send_rows P rows l ws)"
  by (induction P rows l ws rule: emb_send_rows.induct) (auto simp: ws_send_commits split: sum.splits prod.splits)

primrec backfill_commits :: "backfill \<Rightarrow> backfill" where
  "backfill_commits (Backfilled m ws) = Backfilled m (commits ws)"
| "backfill_commits (BackfillStopped ws) = BackfillStopped (commits ws)"
| "backfill_commits (Backfilling ws) = Backfilling (commits ws)"

lemma run_backfill_commits:
  "run_backfill fuel P st (commits ws) l = abind (emb_run_backfill fuel P (st_store st) ws l) (\<lambda>b. Ready (backfill_commits b))"
proof (induction fuel arbitrary: ws l)
  case (Suc fuel)
  show ?case
    by (auto simp: abind_assoc send_rows_commits Suc.IH intro!: arg_cong [where f = "abind _"] split: sum.splits prod.splits option.splits)
qed simp

lemma guards_result: "guards R G A (abind p (\<lambda>a. Ready (f a))) Q \<Longrightarrow> guards R G A p (\<lambda>a. Q (f a))"
  by (simp add: guards_def amid_abind) blast

text \<open>Where the socket of the production model stands, the embedded stream is on track in the same sense.\<close>

primrec stream_commits :: "stream \<Rightarrow> stream" where
  "stream_commits (Streaming ws) = Streaming (commits ws)"
| "stream_commits (Returned ws) = Returned (commits ws)"

lemma error_close_commits:
  "ws_sent (commits (ws_error_close f ws)) = ws_sent (snd (ws_send f (commits ws)))"
proof -
  obtain r ws1 where w: "ws_write OP_BINARY f ws = (r, ws1)" by (cases "ws_write OP_BINARY f ws")
  obtain r' ws2 where c: "ws_write OP_CLOSE [] ws1 = (r', ws2)" by (cases "ws_write OP_CLOSE [] ws1")
  from commits_control [OF c] show ?thesis by (simp add: ws_error_close_def w c ws_send_commits)
qed

lemma on_track_sent: "ws_sent ws = ws_sent ws' \<Longrightarrow> on_track P c (Returned ws) v = on_track P c (Returned ws') v"
  by (simp add: on_track_def)

context storage_backend
begin

lemma tracking_sent: "ws_sent ws = ws_sent ws' \<Longrightarrow> tracking P n0 c rx m ws w = tracking P n0 c rx m ws' w"
  by (simp add: tracking_def served_def)

lemma tracking_on_track: "tracking P n0 c rx m ws w \<Longrightarrow> on_track P c (Returned ws) (\<alpha> (w_store w))"
  by (rule on_trackI(2)) (rule tracking_served)

lemma guards_emb_resume:
  "guards (feeds good \<alpha> P n0) (feeds good \<alpha> P n0)
     (\<lambda>w. tuned P n0 w \<and> served P c l (commits ws) (\<alpha> (w_store w)) \<and> (\<exists>n \<ge> n0. n \<le> int (length (v_log (\<alpha> (w_store w)))) \<and> placed n rx (w_published w)))
     (emb_run_backfill fuel P B ws l)
     (\<lambda>b w. case b of
        Backfilled m ws' \<Rightarrow> tracking P n0 c rx m (commits ws') w
      | BackfillStopped ws' \<Rightarrow> \<exists>m. served P c m (commits ws') (\<alpha> (w_store w))
      | Backfilling ws' \<Rightarrow> \<exists>m. served P c m (commits ws') (\<alpha> (w_store w)))"
proof -
  have st: "st_store (undefined\<lparr>st_store := B\<rparr>) = B" by simp
  show ?thesis
    by (rule guards_weaken [OF guards_result [OF guards_resume [OF st, of P n0 c l "commits ws" rx fuel, unfolded run_backfill_commits st]]])
      (auto split: backfill.splits)
qed

lemma guards_emb_live:
  "guards (feeds good \<alpha> P n0) (feeds good \<alpha> P n0) (tracking P n0 c rx m (commits ws)) (emb_live turns fuel P B rx reader m recovered ws)
    (\<lambda>r w. on_track P c (stream_commits r) (\<alpha> (w_store w)))"
proof (induction turns arbitrary: rx reader m recovered ws)
  case Nil
  show ?case by (auto intro!: guards_Ready simp: tracking_def intro: on_trackI)
next
  case (Cons turn turns)
  show ?case
  proof (cases turn)
    case SelClient
    show ?thesis
    proof (cases "read_frame reader")
      case (Inl e)
      then show ?thesis by (auto simp: SelClient intro!: guards_Ready elim: tracking_on_track)
    next
      case (Inr fr)
      obtain frame reader' where fr: "fr = (frame, reader')" by (cases fr)
      obtain r ws' where pong: "ws_write OP_PONG (cl_payload frame) ws = (r, ws')" by (cases "ws_write OP_PONG (cl_payload frame) ws")
      obtain r' ws'' where close: "ws_write OP_CLOSE (cl_payload frame) ws = (r', ws'')" by (cases "ws_write OP_CLOSE (cl_payload frame) ws")
      note same = commits_control [OF pong] commits_control [OF close]
      have next_turn: "guards (feeds good \<alpha> P n0) (feeds good \<alpha> P n0) (tracking P n0 c rx m (commits ws)) (emb_live turns fuel P B rx reader' m recovered ws')
          (\<lambda>r w. on_track P c (stream_commits r) (\<alpha> (w_store w)))"
        using Cons.IH [of rx m ws' reader' recovered] same(1) tracking_sent [of "commits ws'" "commits ws" P n0 c rx m] by (auto elim: guards_pre)
      have closing: "on_track P c (Returned (commits ws')) v \<and> on_track P c (Returned (commits ws'')) v" if "served P c m (commits ws) v" for v
        using on_trackI(2) [OF that] same on_track_sent [of "commits ws'" "commits ws" P c v] on_track_sent [of "commits ws''" "commits ws" P c v] by simp
      show ?thesis
        using next_turn closing Cons.IH [of rx m ws reader' recovered]
        by (cases r) (auto simp: SelClient Inr fr pong close dest!: tracking_served intro!: guards_Ready)
    qed
  next
    case (SelRecv n)
    have lag: "guards (feeds good \<alpha> P n0) (feeds good \<alpha> P n0) (tracking P n0 c rx' m (commits ws))
      (abind tx_subscribe (\<lambda>rx. abind (emb_run_backfill fuel P B ws m) (\<lambda>b. case b of
         Backfilled s writer \<Rightarrow> emb_live turns fuel P B rx reader' s True writer
       | BackfillStopped writer \<Rightarrow> Ready (Returned writer)
       | Backfilling writer \<Rightarrow> Ready (Streaming writer)))) (\<lambda>r w. on_track P c (stream_commits r) (\<alpha> (w_store w)))" for rx' reader'
    proof (rule guards_abind [OF guards_pre [OF guards_subscribe [where A = "\<lambda>w. served P c m (commits ws) (\<alpha> (w_store w)) \<and> n0 \<le> int (length (v_log (\<alpha> (w_store w))))"]]], goal_cases)
      case (1 w)
      then show ?case by (auto simp: tracking_def past_def intro: fed)
    next
      case (2 rx)
      show ?case
      proof (rule guards_abind [OF guards_pre [OF guards_emb_resume [of P n0 c m ws rx]]], goal_cases)
        case (2 b)
        show ?case using Cons.IH by (cases b) (auto intro!: guards_Ready intro: on_trackI)
      qed auto
    qed
    have slow: "on_track P c (Returned (commits (ws_error_close (consumer_too_slow_frame P) ws))) v" if "served P c m (commits ws) v" for v
      unfolding on_track_sent [OF error_close_commits] using that by (rule on_trackI(3))
    show ?thesis
      unfolding SelRecv emb_live.simps
    proof (rule guards_abind [OF guards_recv], goal_cases)
      case (1 a)
      obtain r rx' where a: "a = (r, rx')" by (cases a)
      show ?case
      proof (cases r)
        case RecvPending
        then show ?thesis using Cons.IH by (simp add: a)
      next
        case RecvLagged
        then show ?thesis using lag [of rx] slow by (auto simp: a Let_def dest: tracking_served intro!: guards_Ready)
      next
        case (RecvEvent seq frame)
        show ?thesis
        proof (cases "seq \<le> m")
          case True
          then show ?thesis using Cons.IH by (simp add: a RecvEvent Let_def)
        next
          case False
          show ?thesis
          proof (cases rule: ws_write_cases [of OP_BINARY frame ws])
            case 1
            then show ?thesis using False by (auto simp: a RecvEvent Let_def intro!: guards_Ready intro: on_trackI)
          next
            case (2 ws')
            from ws_send_commits [of frame ws] 2 have "ws_sent (commits ws') = ws_sent (commits ws) @ [frame]"
              by (cases rule: ws_send_cases [of frame "commits ws"]) auto
            then show ?thesis using 2 False Cons.IH [of rx' seq ws' _ False] by (auto simp: a RecvEvent Let_def intro: guards_pre)
          qed
        qed
      qed
    qed
  qed
qed

lemma guards_emb_firehose:
  assumes "em_store state = B" "ws_sent ws = []"
  shows "guards (feeds good \<alpha> P n0) (feeds good \<alpha> P n0) (\<lambda>w. tuned P n0 w \<and> n0 \<le> int (length (v_log (\<alpha> (w_store w)))))
    (emb_handle_firehose turns fuel P state reader ws (Some c))
    (\<lambda>r w. on_track P c (stream_commits r) (\<alpha> (w_store w)) \<or>
       (\<exists>ws'. r = Returned ws' \<and> ws_sent (commits ws') \<in> {[], [future_cursor_frame P]}))"
  unfolding emb_handle_firehose_def Let_def option.case assms(1)
proof (rule guards_abind [OF guards_pre [OF guards_subscribe [where A = "\<lambda>w. n0 \<le> int (length (v_log (\<alpha> (w_store w))))"]]], goal_cases)
  case (1 w)
  then show ?case by (auto intro: fed)
next
  case (2 rx)
  have none: "ws_sent (commits ws) = []" by (simp add: commits_def assms(2))
  from guards_pre [OF guards_max_seq [of P n0 rx]] show ?case
  proof (rule guards_abind, goal_cases)
    case (2 r)
    show ?case
    proof (cases r)
      case (Inr mx)
      show ?thesis
      proof (cases "c > mx")
        case True
        have "ws_sent (commits (ws_error_close (future_cursor_frame P) ws)) \<in> {[], [future_cursor_frame P]}"
          unfolding error_close_commits
          by (cases rule: ws_send_cases [of "future_cursor_frame P" "commits ws"]) (simp_all add: none)
        with True show ?thesis by (auto simp: Inr intro!: guards_Ready)
      next
        case False
        have "guards (feeds good \<alpha> P n0) (feeds good \<alpha> P n0)
            (\<lambda>w. tuned P n0 w \<and> (\<exists>n \<ge> n0. n \<le> int (length (v_log (\<alpha> (w_store w)))) \<and> placed n rx (w_published w)) \<and>
              (\<forall>mx. r = Inr mx \<longrightarrow> mx = int (length (v_log (\<alpha> (w_store w))))))
            (abind (emb_run_backfill fuel P B ws c) (\<lambda>b. case b of
               Backfilled s writer \<Rightarrow> emb_live turns fuel P B rx reader s False writer
             | BackfillStopped writer \<Rightarrow> Ready (Returned writer)
             | Backfilling writer \<Rightarrow> Ready (Streaming writer))) (\<lambda>r w. on_track P c (stream_commits r) (\<alpha> (w_store w)))"
        proof (rule guards_abind [OF guards_pre [OF guards_emb_resume [of P n0 c c ws rx]]], goal_cases)
          case (1 w)
          with False show ?case by (auto simp: Inr served_def none delivered_none)
        next
          case (2 b)
          show ?case using guards_emb_live by (cases b) (auto intro!: guards_Ready intro: on_trackI)
        qed
        then show ?thesis using False by (simp add: Inr) (erule guards_weaken; simp add: Inr)
      qed
    qed (auto intro!: guards_Ready simp: none)
  qed auto
qed

end


text \<open>A ping whose read the channel interrupts is never answered: what is read next starts in the middle of it.\<close>

lemma cancelled_ping_lost:
  assumes "length mk = 4" "length p \<le> MAX_CLIENT_FRAME" "n < length (mask_frame mk OP_PING p)"
  shows "cancelled_read n (mask_frame mk OP_PING p @ rest) = drop n (mask_frame mk OP_PING p) @ rest"
  using read_frame_prefix [of p "Some mk" n OP_PING] assms by (simp add: cancelled_read_def frame_bytes)

subsection \<open>A client that pings after the replay\<close>

definition wit_device :: "Inner EmbState" where
  "wit_device = \<lparr>em_store = mem_backend, em_config = \<lparr>cf_hostname = ''pds.test'', cf_open_registration = False, cf_jwt_secret = [1, 2],
     cf_key_passphrase = [3], cf_appview_did = ''did:web:api.test'', cf_appview_url = ''https://api.test'', cf_plc_url = ''https://plc.test''\<rparr>,
     em_proxy = None\<rparr>"

definition wit_ping :: bytes where
  "wit_ping = mask_frame [1, 2, 3, 4] OP_PING [7]"

lemma wit_ping_read: "read_frame wit_ping = Ok (\<lparr>cl_opcode = OP_PING, cl_payload = [7]\<rparr>, [])"
  using read_frame_bytes [of "[7]" "Some [1, 2, 3, 4]" OP_PING "[]"]
  by (simp add: wit_ping_def frame_bytes MAX_CLIENT_FRAME_def OP_PING_def)

lemma run_wit_device:
  "run (emb_handle_firehose [SelClient] 3 wit_repo wit_device wit_ping wit_socket (Some 0)) wit_live =
     (Streaming \<lparr>ws_sent = [write_frame OP_BINARY wit_frame, write_frame OP_PONG [7]], ws_left = 3\<rparr>, wit_live)"
proof -
  have page: "run (db (mem_backfill_page 0 BACKFILL_PAGE)) wit_live = (Ok [(1, [6])], wit_live)" "run (db (mem_backfill_page 1 BACKFILL_PAGE)) wit_live = (Ok [], wit_live)"
    "run (db mem_max_seq) wit_live = (Ok 1, wit_live)"
    by (simp_all add: run_db wit_live_sel mem_backfill_page_def mem_max_seq_def wit_committed_log BACKFILL_PAGE_def wit_live_def)
  have rows: "emb_send_rows wit_repo [(1, [6])] 0 wit_socket = (Some 1, \<lparr>ws_sent = [write_frame OP_BINARY wit_frame], ws_left = 4\<rparr>)"
    by (simp add: ws_send_def ws_write_def wit_socket_def wit_frame_def)
  have "run tx_subscribe wit_live = (1, wit_live)" by (simp add: tx_subscribe_def async_simps wit_live_sel)
  then show ?thesis
    by (simp add: emb_handle_firehose_def eval_nat_numeral run_abind run_Ready page rows wit_device_def wit_ping_read ws_write_def ws_send_def
        del: emb_send_rows.simps)
qed


end
