(* ===== verification/Outbound_Laws.thy ===== *)
theory Outbound_Laws
  imports Outbound
begin

text \<open>
  What leaves the server. A request that is never made is one whose answer does not matter: two HTTP
  clients that agree on the requests of a set make the same server when only those are sent.
\<close>

subsection \<open>Programs that agree\<close>

definition agree :: "('s \<Rightarrow> 's \<Rightarrow> bool) \<Rightarrow> 's \<Rightarrow> ('s, 'a) async \<Rightarrow> ('s, 'a) async \<Rightarrow> bool" where
  "agree R s p q = (\<forall>tr a s'. amid R p s tr a s' \<longleftrightarrow> amid R q s tr a s')"

lemma agree_refl [simp]: "agree R s p p"
  by (simp add: agree_def)

lemma agree_abind:
  "(\<And>tr a s'. amid R p s tr a s' \<Longrightarrow> agree R s' (k a) (k' a)) \<Longrightarrow> agree R s (abind p k) (abind p k')"
  unfolding agree_def amid_abind by blast

lemma agree_await_ok:
  "(\<And>tr a s'. amid R p s tr (Ok a) s' \<Longrightarrow> agree R s' (k a) (k' a)) \<Longrightarrow> agree R s (await_ok p k) (await_ok p k')"
  unfolding await_ok_def by (rule agree_abind) (auto split: sum.splits)

lemma agree_try_ok: "(\<And>a. r = Ok a \<Longrightarrow> agree R s (k a) (k' a)) \<Longrightarrow> agree R s (try_ok r k) (try_ok r k')"
  by (cases r) auto

lemma agree_else: "(\<not> b \<Longrightarrow> agree R s p q) \<Longrightarrow> agree R s (if b then r else p) (if b then r else q)"
  by simp

lemma agree_case_option:
  "(\<And>x. y = Some x \<Longrightarrow> agree R s (f x) (g x)) \<Longrightarrow> agree R s (case y of None \<Rightarrow> n | Some x \<Rightarrow> f x) (case y of None \<Rightarrow> n | Some x \<Rightarrow> g x)"
  by (cases y) simp_all

subsection \<open>Service tokens\<close>

text \<open>The token minted for one call: issued by the account, for the target, bound to the method, a minute long.\<close>

definition service_token :: "'x auth_prims_scheme \<Rightarrow> bytes \<Rightarrow> string \<Rightarrow> string \<Rightarrow> string \<Rightarrow> string \<Rightarrow> bool" where
  "service_token P signing iss aud lxm jwt = (\<exists>now now' r claims sig.
     json_to_vec P (Object [(''iss'', String iss), (''aud'', String aud), (''lxm'', String lxm), (''exp'', Number (int (now + 60))),
       (''iat'', Number (int now')), (''jti'', String (hexlower P r))]) = Ok claims \<and>
     (let signing_input = b64url_encode P (as_bytes ''{\"typ\":\"JWT\",\"alg\":\"ES256K\"}'') @ ''.'' @ b64url_encode P claims in
      k256_sign P signing (as_bytes signing_input) = Ok sig \<and> jwt = signing_input @ ''.'' @ b64url_encode P sig))"

lemma guards_any: "guards R (\<lambda>_ _. True) A p (\<lambda>_ _. True)"
  by (rule guardsI) (simp add: list_all_iff)

lemma minted_service_token:
  assumes "amid R (mint_service_auth_jwt P signing iss aud lxm) w tr (Ok jwt) w'"
  shows "service_token P signing iss aud lxm jwt"
proof -
  have tok: "service_token P signing iss aud lxm t"
    if "json_to_vec P (Object [(''iss'', String iss), (''aud'', String aud), (''lxm'', String lxm), (''exp'', Number (int (now + 60))),
       (''iat'', Number (int now')), (''jti'', String (hexlower P r))]) = Ok claims"
      "k256_sign P signing (as_bytes (b64url_encode P (as_bytes ''{\"typ\":\"JWT\",\"alg\":\"ES256K\"}'') @ ''.'' @ b64url_encode P claims)) = Ok sg"
      "t = b64url_encode P (as_bytes ''{\"typ\":\"JWT\",\"alg\":\"ES256K\"}'') @ ''.'' @ b64url_encode P claims @ ''.'' @ b64url_encode P sg"
    for now now' r claims sg t using that unfolding service_token_def Let_def by (intro exI conjI) auto
  have "guards R (\<lambda>_ _. True) (\<lambda>_. True) (mint_service_auth_jwt P signing iss aud lxm) (\<lambda>r _. \<forall>t. r = Ok t \<longrightarrow> service_token P signing iss aud lxm t)"
    unfolding mint_service_auth_jwt_def mint_service_auth_jwt_with_def mint_service_auth_jwt_at_def
    by (intro guards_abind [OF guards_any] , simp add: Let_def, intro guards_try_ok guards_Ready)
      (auto simp: map_err_def intro: tok split: sum.splits)
  from guardsD [OF this assms] show ?thesis by simp
qed

subsection \<open>The proxy\<close>

definition host_refused :: "string \<Rightarrow> bool" where
  "host_refused host = (case parse_ip host of Some ip \<Rightarrow> appview_blocked ip | None \<Rightarrow> internal_name host)"

text \<open>What the fallback may send for a request: to an https base on an outside host, the caller's method, query and
  body, three headers at most, and as the only credential a service token of the caller for the target it named.\<close>

definition sendable ::
  "('s world \<Rightarrow> 's world \<Rightarrow> bool) \<Rightarrow> 'x outbound_prims_scheme \<Rightarrow> ('s, 'z) AppState_scheme \<Rightarrow> 's world \<Rightarrow> Parts \<Rightarrow> string option \<Rightarrow> bytes \<Rightarrow> http_request \<Rightarrow> bool" where
  "sendable R P st w parts query body rq = (\<exists>did tr w1 nsid target base url host signing jwt.
     amid R (AccessAuth P st parts) w tr (Ok did) w1 \<and>
     pa_path parts = ''/xrpc/'' @ nsid \<and> nsid \<noteq> [] \<and> CHR ''/'' \<notin> set nsid \<and>
     rq_method rq = pa_method parts \<and> rq_method rq \<in> {''GET'', ''POST''} \<and>
     (case request_header (pa_headers parts) ''atproto-proxy'' of
        Some t \<Rightarrow> \<exists>fragment tr2 w2. split_once CHR ''#'' t = Some (target, fragment) \<and> amid R (st_service_resolver st target fragment) w1 tr2 (Ok base) w2
      | None \<Rightarrow> starts_with nsid ''app.bsky.'' \<and> target = st_appview_did st \<and> base = st_appview_url st) \<and>
     url_parse P base = Ok url \<and> url_scheme url = ''https'' \<and> url_host_str P url = Some host \<and> \<not> host_refused host \<and>
     rq_url rq = base @ ''/xrpc/'' @ nsid @ (case query of Some q \<Rightarrow> if q = [] then [] else ''?'' @ q | None \<Rightarrow> []) \<and>
     rq_body rq = (if pa_method parts = ''GET'' then [] else body) \<and> length body \<le> MAX_PROXY_BODY \<and>
     (\<exists>w2 tr2 w3. amid R (load_signing_key_cached P st did) w2 tr2 (Ok signing) w3) \<and> service_token P signing did target nsid jwt \<and>
     rq_headers rq = (''authorization'', ''Bearer '' @ jwt) #
       (case request_header (pa_headers parts) ''content-type'' of Some ct \<Rightarrow> [(''content-type'', ct)] | None \<Rightarrow> []) @
       (case request_header (pa_headers parts) ''atproto-accept-labelers'' of Some l \<Rightarrow> [(''atproto-accept-labelers'', l)] | None \<Rightarrow> []))"

lemma validate_appview_url_ok:
  "validate_appview_url P base = Ok () \<longleftrightarrow>
     (\<exists>url host. url_parse P base = Ok url \<and> url_scheme url = ''https'' \<and> url_host_str P url = Some host \<and> \<not> host_refused host)"
  by (auto simp: validate_appview_url_def host_refused_def and_then_def ok_or_def map_err_def split: sum.splits option.splits if_splits)

lemma client_irrelevant:
  "AccessAuth P (st\<lparr>st_appview_client := c\<rparr>) parts = AccessAuth P st parts"
  "load_signing_key_cached P (st\<lparr>st_appview_client := c\<rparr>) did = load_signing_key_cached P st did"
  "proxy_target (st\<lparr>st_appview_client := c\<rparr>) headers nsid = proxy_target st headers nsid"
proof -
  have "st_store (st\<lparr>st_appview_client := c\<rparr>) = st_store st" "st_oauth (st\<lparr>st_appview_client := c\<rparr>) = st_oauth st"
    "st_jwt_secret (st\<lparr>st_appview_client := c\<rparr>) = st_jwt_secret st" "st_key_passphrase (st\<lparr>st_appview_client := c\<rparr>) = st_key_passphrase st"
    "st_service_resolver (st\<lparr>st_appview_client := c\<rparr>) = st_service_resolver st"
    "st_appview_did (st\<lparr>st_appview_client := c\<rparr>) = st_appview_did st" "st_appview_url (st\<lparr>st_appview_client := c\<rparr>) = st_appview_url st" by simp_all
  note sels = this
  show "AccessAuth P (st\<lparr>st_appview_client := c\<rparr>) parts = AccessAuth P st parts"
    unfolding AccessAuth_def authenticate_dpop_def sels by (rule refl)
  show "load_signing_key_cached P (st\<lparr>st_appview_client := c\<rparr>) did = load_signing_key_cached P st did"
    unfolding load_signing_key_cached_def sels by (rule refl)
  show "proxy_target (st\<lparr>st_appview_client := c\<rparr>) headers nsid = proxy_target st headers nsid"
    unfolding proxy_target_def sels by (rule refl)
qed

lemma strip_prefix_Some: "strip_prefix s p = Some r \<longleftrightarrow> s = p @ r"
  by (auto simp: strip_prefix_def starts_with_def) (metis append_take_drop_id)

lemma agree_proxy_request:
  assumes "validate_appview_url P (up_base_url req) = Ok () \<Longrightarrow> send (upstream_http req) = send' (upstream_http req)"
  shows "proxy_request P send req = proxy_request P send' req"
  using assms by (cases "validate_appview_url P (up_base_url req)") (simp_all add: proxy_request_def)


text \<open>A client that would leak on anything but GET and POST, or on a request that carries the caller's own token, serves
  like one that does not.\<close>

definition wit_out :: outbound_prims where
  "wit_out = tail_prims.extend (repo_prims.extend wit_repo (tail_prims.fields (\<lambda>b. Err ''end'') (\<lambda>b. Err ''end'') (\<lambda>b. Ok ([], []))
     (\<lambda>b. Err ''end'') (\<lambda>k m s. Ok ()))) (outbound_prims.fields (\<lambda>u. Some ''api.test'') (\<lambda>b. Ok Null))"

definition wit_upstream :: "'s http" where
  "wit_upstream rq = Ready (Ok \<lparr>rs_status = 200, rs_headers = [], rs_body = Ok (rq_body rq)\<rparr>)"

definition wit_leaky :: "'s http" where
  "wit_leaky rq = (if rq_method rq \<in> {''GET'', ''POST''} \<and> map fst (rq_headers rq) \<noteq> [] \<and> set (map fst (rq_headers rq)) \<subseteq>
     {''authorization'', ''content-type'', ''atproto-accept-labelers''} then wit_upstream rq else Ready (Err ''leak''))"

lemma wit_leaky: "sendable R P st w parts query body rq \<Longrightarrow> wit_leaky rq = wit_upstream rq"
  unfolding sendable_def by (elim exE conjE) (auto simp: wit_leaky_def split: option.splits)


subsection \<open>Hosts\<close>

definition digit :: "nat \<Rightarrow> char" where
  "digit d = char_of (48 + d)"

definition octet :: "nat \<Rightarrow> string" where
  "octet n = (if n < 10 then [digit n] else if n < 100 then [digit (n div 10), digit (n mod 10)]
     else [digit (n div 100), digit (n div 10 mod 10), digit (n mod 10)])"

definition dotted :: "nat \<Rightarrow> nat \<Rightarrow> nat \<Rightarrow> nat \<Rightarrow> string" where
  "dotted a b c d = octet a @ ''.'' @ octet b @ ''.'' @ octet c @ ''.'' @ octet d"

lemma digit_of_digit: "d < 10 \<Longrightarrow> digit_of 10 (digit d) = Some d"
proof -
  assume "d < 10"
  then have "d \<in> set [0..<10]" by simp
  moreover have "list_all (\<lambda>d. digit_of 10 (digit d) = Some d) [0..<10]" by code_simp
  ultimately show ?thesis unfolding list_all_iff by blast
qed

lemma digit_zero: "d < 10 \<Longrightarrow> digit d = CHR ''0'' \<longleftrightarrow> d = 0"
proof -
  assume "d < 10"
  then have "d \<in> set [0..<10]" by simp
  moreover have "list_all (\<lambda>d. digit d = CHR ''0'' \<longleftrightarrow> d = 0) [0..<10]" by code_simp
  ultimately show ?thesis unfolding list_all_iff by blast
qed

lemma read_octet_octet:
  assumes "n \<le> 255" "case rest of [] \<Rightarrow> True | c # _ \<Rightarrow> digit_of 10 c = None"
  shows "read_octet (octet n @ rest) = Some (n, rest)"
proof -
  have rest: "takeWhile (\<lambda>c. digit_of 10 c \<noteq> None) rest = []" using assms(2) by (cases rest) auto
  have d: "n div 100 < 10" "n div 10 mod 10 < 10" "n mod 10 < 10" using assms(1) by auto
  consider "n < 10" | "10 \<le> n" "n < 100" | "100 \<le> n" by linarith
  then show ?thesis
  proof cases
    case 1
    then show ?thesis using rest by (simp add: read_octet_def read_number_def octet_def digit_of_digit)
  next
    case 2
    then have "n div 10 < 10" "n div 10 \<noteq> 0" "10 * (n div 10) + n mod 10 = n" by auto
    with 2 d rest assms(1) show ?thesis by (simp add: read_octet_def read_number_def octet_def digit_of_digit digit_zero Let_def)
  next
    case 3
    have "n div 100 = n div 10 div 10" by (simp add: div_mult2_eq [symmetric])
    with 3 have "n div 100 \<noteq> 0" "10 * (10 * (n div 100) + n div 10 mod 10) + n mod 10 = n"
      by (simp_all only: mult_div_mod_eq)
    with 3 d rest assms(1) show ?thesis by (simp add: read_octet_def read_number_def octet_def digit_of_digit digit_zero Let_def)
  qed
qed

lemma parse_ip_dotted:
  assumes "a \<le> 255" "b \<le> 255" "c \<le> 255" "d \<le> 255"
  shows "parse_ip (dotted a b c d) = Some (V4 a b c d)"
proof -
  have dot: "digit_of 10 CHR ''.'' = None" by code_simp
  have "read_ipv4_addr (dotted a b c d) = Some ((a, b, c, d), [])"
    using assms read_octet_octet [of a "''.'' @ octet b @ ''.'' @ octet c @ ''.'' @ octet d"] read_octet_octet [of b "''.'' @ octet c @ ''.'' @ octet d"]
      read_octet_octet [of c "''.'' @ octet d"] read_octet_octet [of d "[]"]
    by (simp add: read_ipv4_addr_def dotted_def read_char_def dot)
  then show ?thesis by (simp add: parse_ip_def)
qed

text \<open>The three guards refuse every loopback, private and link-local IPv4 address however the URL library writes its host, and the
  local names.\<close>

lemma internal_hosts_refused:
  assumes "a \<le> 255" "b \<le> 255" "c \<le> 255" "d \<le> 255" "v4_internal a b c d" "host = dotted a b c d \<or> internal_name host \<and> parse_ip host = None"
    and "url_parse P u = Ok url" "url_host_str P url = Some host"
  shows "is_err (validate_appview_url P u)" "is_err (validate_relay_url P u)" "\<not> is_safe_web_host host"
  using assms parse_ip_dotted [OF assms(1-4)]
  by (auto simp: validate_appview_url_def validate_relay_url_def is_safe_web_host_def appview_blocked_def relay_blocked_def is_err_def)

text \<open>An IPv6 host reaches the guards in brackets, which is no address to the parser and no local name: the IPv6 rules of
  both URL guards never apply, and the loopback, private and mapped IPv6 addresses pass.\<close>

lemma parse_ip_bracketed: "parse_ip (CHR ''['' # s) = None"
proof -
  have no: "digit_of 10 CHR ''['' = None" "digit_of 16 CHR ''['' = None" by code_simp+
  then have v4: "read_ipv4_addr (CHR ''['' # s) = None" and n: "read_number 16 4 True 65535 (CHR ''['' # s) = None"
    by (simp_all add: read_ipv4_addr_def read_octet_def read_number_def)
  then have "read_groups (Suc 7) True (CHR ''['' # s) = ([], False, CHR ''['' # s)"
    unfolding read_groups.simps by (simp add: read_separator_def)
  then have "read_ipv6_addr (CHR ''['' # s) = None" by (simp add: read_ipv6_addr_def read_char_def)
  with v4 show ?thesis by (simp add: parse_ip_def)
qed

lemma ends_with_last: "ends_with s p \<Longrightarrow> p \<noteq> [] \<Longrightarrow> last s = last p"
  unfolding ends_with_def by (metis append_take_drop_id last_appendR)

theorem bracketed_host_passes:
  assumes "url_parse P u = Ok url" "url_scheme url = ''https''" "url_host_str P url = Some (''['' @ s @ '']'')"
  shows "validate_appview_url P u = Ok ()" "validate_relay_url P u = Ok ()"
proof -
  have "\<not> internal_name (''['' @ s @ '']'')"
    using ends_with_last [of "''['' @ s @ '']''" "''.local''"] ends_with_last [of "''['' @ s @ '']''" "''.internal''"] by (auto simp: internal_name_def)
  with assms parse_ip_bracketed [of "s @ '']''"] show "validate_appview_url P u = Ok ()" "validate_relay_url P u = Ok ()"
    by (simp_all add: validate_appview_url_def validate_relay_url_def)
qed

end
