(* ===== verification/Repo_Keys.thy ===== *)
theory Repo_Keys
  imports Repo_Core
begin

text \<open>Record keys made from the clock (\<open>tid_from_micros\<close> of \<open>rust-core/src/repo/util.rs\<close>): their form and their order.\<close>

text \<open>The places of a number in base 32, most significant first.\<close>

primrec base32 :: "nat \<Rightarrow> nat \<Rightarrow> nat list" where
  "base32 0 n = []"
| "base32 (Suc i) n = base32 i (n div 32) @ [n mod 32]"

lemma length_base32 [simp]: "length (base32 i n) = i"
  by (induction i arbitrary: n) simp_all

lemma base32_digits: "set (base32 i n) \<subseteq> {..<32}"
  by (induction i arbitrary: n) auto

lemma tid_digits_base32: "tid_digits i val acc = map ((!) TID_ALPHABET) (base32 i (unat val)) @ acc"
proof (induction i arbitrary: val acc)
  case (Suc i)
  have "unat (and val 0x1f) = unat val mod 32"
    using take_bit_eq_mask [of 5 "unat val"] take_bit_eq_mod [of 5 "unat val"] by (simp add: unsigned_and_eq mask_eq_exp_minus_1)
  moreover have "unat val < 2 ^ 64" by (rule order_less_le_trans [OF unsigned_less]) simp
  then have "unat (drop_bit 5 val) = unat val div 32"
    by (simp only: unsigned_drop_bit_eq) (simp add: drop_bit_eq_div take_bit_nat_eq_self)
  ultimately show ?case using Suc.IH by simp
qed simp

lemma snoc_less:
  fixes xs ys :: "'a :: linorder list"
  shows "length xs = length ys \<Longrightarrow> xs @ [a] < ys @ [b] \<longleftrightarrow> xs < ys \<or> xs = ys \<and> a < b"
  by (induction xs ys rule: list_induct2) auto

lemma tid_alphabet_sorted: "a < b \<Longrightarrow> b < 32 \<Longrightarrow> TID_ALPHABET ! a < TID_ALPHABET ! b"
proof -
  have "sorted_wrt (<) TID_ALPHABET" "length TID_ALPHABET = 32" by code_simp+
  then show "a < b \<Longrightarrow> b < 32 \<Longrightarrow> ?thesis" by (simp add: sorted_wrt_iff_nth_less)
qed

lemma base32_less:
  "n < m \<Longrightarrow> m < 32 ^ i \<Longrightarrow> map ((!) TID_ALPHABET) (base32 i n) < map ((!) TID_ALPHABET) (base32 i m)"
proof (induction i arbitrary: n m)
  case (Suc i)
  have m: "m div 32 < 32 ^ i" using Suc.prems(2) by (simp add: less_mult_imp_div_less)
  consider "n div 32 < m div 32" | "n div 32 = m div 32" "n mod 32 < m mod 32"
    using Suc.prems(1) by (metis div_le_mono div_mult_mod_eq le_neq_implies_less nat_add_left_cancel_less order_less_imp_le)
  then show ?case
    by cases (auto simp: snoc_less Suc.IH m tid_alphabet_sorted)
qed simp

text \<open>C38: keys made from the clock are well formed and sort by time. For every time before the year 2540 (54 bits of
  microseconds, what the ten-bit shift leaves of a \<open>u64\<close>) the key has thirteen characters, all of the sortable alphabet,
  is a valid record key, and comparing two keys as strings compares their times; so no two times share a key.\<close>

theorem tid_sortable:
  assumes "us < 2 ^ 54" "us' < 2 ^ 54"
  shows "length (tid_from_micros us) = 13 \<and> set (tid_from_micros us) \<subseteq> set TID_ALPHABET \<and> validate_rkey (tid_from_micros us) = Ok () \<and>
    (tid_from_micros us < tid_from_micros us' \<longleftrightarrow> us < us')"
proof -
  have tid: "tid_from_micros v = map ((!) TID_ALPHABET) (base32 13 (1024 * unat v)) \<and> 1024 * unat v < 32 ^ 13" if "v < 2 ^ 54" for v :: "64 word"
  proof -
    have "unat v < 2 ^ 54" using that by (simp add: word_less_nat_alt)
    then have "unat (push_bit 10 v) = 1024 * unat v"
      by (simp add: push_bit_eq_mult unat_word_ariths mult.commute)
    with \<open>unat v < 2 ^ 54\<close> show ?thesis by (simp add: tid_from_micros_def tid_digits_base32)
  qed
  have mono: "tid_from_micros v < tid_from_micros v'" if "v < v'" "v' < 2 ^ 54" for v v'
    using base32_less [of "1024 * unat v" "1024 * unat v'" 13] tid [of v] tid [of v'] that order_less_trans [OF that]
    by (simp add: word_less_nat_alt)
  have len: "length (tid_from_micros us) = 13" using tid [OF assms(1)] by simp
  have sub: "set (tid_from_micros us) \<subseteq> set TID_ALPHABET"
  proof -
    have "length TID_ALPHABET = 32" by code_simp
    then show ?thesis using tid [OF assms(1)] base32_digits [of 13 "1024 * unat us"] by (auto simp: subset_iff)
  qed
  have "list_all (\<lambda>c. c \<noteq> CHR ''/'' \<and> c \<noteq> CHR 0x00 \<and> list_all (\<lambda>b. 0x21 \<le> b \<and> b \<le> 0x7e) (as_bytes [c])) TID_ALPHABET" by code_simp
  with sub have "\<forall>c \<in> set (tid_from_micros us). c \<noteq> CHR ''/'' \<and> c \<noteq> CHR 0x00 \<and> list_all (\<lambda>b. 0x21 \<le> b \<and> b \<le> 0x7e) (as_bytes [c])"
    unfolding list_all_iff by blast
  then have "CHR ''/'' \<notin> set (tid_from_micros us)" "CHR 0x00 \<notin> set (tid_from_micros us)"
    "list_all (\<lambda>b. 0x21 \<le> b \<and> b \<le> 0x7e) (as_bytes (tid_from_micros us))"
    unfolding as_bytes_def list_all_iff by auto
  moreover have "tid_from_micros us \<noteq> []" using len by fastforce
  ultimately have "validate_rkey (tid_from_micros us) = Ok ()" using len by (simp add: validate_rkey_def)
  moreover have "tid_from_micros us < tid_from_micros us' \<longleftrightarrow> us < us'"
  proof (cases us us' rule: linorder_cases)
    case less
    then show ?thesis using mono [OF _ assms(2)] by simp
  next
    case greater
    from less_not_sym [OF mono [OF greater assms(1)]] less_not_sym [OF greater] show ?thesis by (simp only:)
  qed simp
  ultimately show ?thesis using len sub by blast
qed

theorem tid_sortable_witness: "tid_from_micros 1700000000000000 < tid_from_micros 1700000000000001"
  using tid_sortable [of 1700000000000000 1700000000000001] by simp

end
