(* ===== verification/Durable_Sql.thy ===== *)
theory Durable_Sql
  imports Sqlite_Store
begin

text \<open>
  What a Durable Object of the Workers deployment (\<open>rust-worker/src/\<close>) runs on.

  A Durable Object runs one request at a time, and its SQL is synchronous: a request is a function on the
  object's tables, and it is one step. A statement may fail (\<open>?\<close> then returns at once); nothing is rolled
  back, because the error is answered, not thrown. Which statement fails is told by the state.

  Two ways to reason about an operation: \<open>acts\<close>, what it is when no statement fails, and \<open>holds\<close>, what it leaves
  whichever statements fail.
\<close>

subsection \<open>A Durable Object's SQL\<close>

record 't DurableSql =
  do_tables :: 't
  do_now :: string \<comment> \<open>\<open>now_iso\<close>\<close>
  do_faults :: "nat \<Rightarrow> string option" \<comment> \<open>whether the n-th statement fails\<close>
  do_stmts :: nat

type_synonym ('t, 'e, 'a) fop = "'t DurableSql \<Rightarrow> ('e + 'a) \<times> 't DurableSql"
type_synonym ('t, 'a) dop = "('t, string, 'a) fop"

definition dret :: "'a \<Rightarrow> ('t, 'e, 'a) fop" where
  "dret a d = (Ok a, d)"

definition dbind :: "('t, 'e, 'a) fop \<Rightarrow> ('a \<Rightarrow> ('t, 'e, 'b) fop) \<Rightarrow> ('t, 'e, 'b) fop" where
  "dbind m k d = (case m d of (Inl e, d) \<Rightarrow> (Err e, d) | (Inr a, d) \<Rightarrow> k a d)"

text \<open>\<open>sql.exec\<close>: a statement that reads, or changes a table, or is refused by a constraint.\<close>

definition sql_stmt :: "('t \<Rightarrow> string + 'a \<times> 't) \<Rightarrow> ('t, 'a) dop" where
  "sql_stmt f d = (let d' = d\<lparr>do_stmts := Suc (do_stmts d)\<rparr> in
     case do_faults d (do_stmts d) of
       Some e \<Rightarrow> (Err e, d')
     | None \<Rightarrow> (case f (do_tables d) of Inl e \<Rightarrow> (Err e, d') | Inr (a, t) \<Rightarrow> (Ok a, d'\<lparr>do_tables := t\<rparr>)))"

definition sql_select :: "('t \<Rightarrow> 'a) \<Rightarrow> ('t, 'a) dop" where
  "sql_select f = sql_stmt (\<lambda>t. Ok (f t, t))"

definition sql_modify :: "('t \<Rightarrow> 't) \<Rightarrow> ('t, unit) dop" where
  "sql_modify f = sql_stmt (\<lambda>t. Ok ((), f t))"

definition now_iso :: "('t, 'e, string) fop" where
  "now_iso d = (Ok (do_now d), d)"

definition insert_row :: "('r \<Rightarrow> 'k) \<Rightarrow> 'r \<Rightarrow> 'r list \<Rightarrow> string + 'r list" where
  "insert_row key r t = (case tbl key t (key r) of Some _ \<Rightarrow> Err ''UNIQUE constraint failed'' | None \<Rightarrow> Ok (t @ [r]))"

text \<open>\<open>let _ = sql.exec(...)\<close>.\<close>

definition dtry :: "('t, 'e, 'a) fop \<Rightarrow> ('t, 'f, unit) fop" where
  "dtry m d = (Ok (), snd (m d))"

definition dlift :: "'e + 'a \<Rightarrow> ('t, 'e, 'a) fop" where
  "dlift r d = (r, d)"

text \<open>What is done on the object outside its SQL.\<close>

definition dmodify :: "('t \<Rightarrow> 't) \<Rightarrow> ('t, 'e, unit) fop" where
  "dmodify f d = (Ok (), d\<lparr>do_tables := f (do_tables d)\<rparr>)"

definition dget :: "('t \<Rightarrow> 'a) \<Rightarrow> ('t, 'e, 'a) fop" where
  "dget f d = (Ok (f (do_tables d)), d)"

subsection \<open>When no statement fails\<close>

text \<open>\<open>acts m f\<close>: when no statement fails, the operation \<open>m\<close> is the function \<open>f\<close> of the time and the tables.\<close>

definition calm :: "'t DurableSql \<Rightarrow> bool" where
  "calm d = (\<forall>n. do_faults d n = None)"

definition acts :: "('t, 'e, 'a) fop \<Rightarrow> (string \<Rightarrow> 't \<Rightarrow> ('e + 'a) \<times> 't) \<Rightarrow> bool" where
  "acts m f = (\<forall>d. calm d \<longrightarrow> (\<exists>n. m d = (fst (f (do_now d) (do_tables d)), d\<lparr>do_stmts := n, do_tables := snd (f (do_now d) (do_tables d))\<rparr>)))"

named_theorems acts_intros

lemma stmts_same [simp]: "\<exists>n. d = d\<lparr>do_stmts := n\<rparr>"
  by (rule exI [of _ "do_stmts d"]) simp

lemma acts_eq: "acts m f \<Longrightarrow> (\<And>now t. f now t = g now t) \<Longrightarrow> acts m g"
  by (simp add: acts_def)

lemma acts_step:
  assumes "acts m f" "calm d"
  obtains r t d' where "m d = (r, d')" "f (do_now d) (do_tables d) = (r, t)" "do_tables d' = t" "do_now d' = do_now d" "calm d'"
proof -
  from assms obtain n where "m d = (fst (f (do_now d) (do_tables d)), d\<lparr>do_stmts := n, do_tables := snd (f (do_now d) (do_tables d))\<rparr>)"
    by (auto simp: acts_def)
  then show ?thesis using assms(2) by (auto simp: calm_def intro: that [OF _ prod.collapse [symmetric]])
qed

lemma acts_dret [acts_intros]: "acts (dret a) (\<lambda>now t. (Ok a, t))"
  by (auto simp: acts_def dret_def)

lemma acts_dlift [acts_intros]: "acts (dlift r) (\<lambda>now t. (r, t))"
  by (auto simp: acts_def dlift_def)

lemma acts_now_iso [acts_intros]: "acts now_iso (\<lambda>now t. (Ok now, t))"
  by (auto simp: acts_def now_iso_def)

lemma acts_sql_stmt [acts_intros]:
  "acts (sql_stmt f) (\<lambda>now t. case f t of Inl e \<Rightarrow> (Err e, t) | Inr (a, t) \<Rightarrow> (Ok a, t))"
  unfolding acts_def
proof (intro allI impI exI)
  fix d :: "'a DurableSql"
  assume "calm d"
  then show "sql_stmt f d = (fst (case f (do_tables d) of Inl e \<Rightarrow> (Err e, do_tables d) | Inr (a, t) \<Rightarrow> (Ok a, t)),
      d\<lparr>do_stmts := Suc (do_stmts d), do_tables := snd (case f (do_tables d) of Inl e \<Rightarrow> (Err e, do_tables d) | Inr (a, t) \<Rightarrow> (Ok a, t))\<rparr>)"
    by (simp add: sql_stmt_def calm_def split: sum.split prod.split)
qed

lemma acts_sql_select [acts_intros]: "acts (sql_select f) (\<lambda>now t. (Ok (f t), t))"
  unfolding sql_select_def by (rule acts_eq [OF acts_sql_stmt]) simp

lemma acts_sql_modify [acts_intros]: "acts (sql_modify f) (\<lambda>now t. (Ok (), f t))"
  unfolding sql_modify_def by (rule acts_eq [OF acts_sql_stmt]) simp

lemma acts_dbind [acts_intros]:
  assumes "acts m f" "\<And>a. acts (k a) (g a)"
  shows "acts (dbind m k) (\<lambda>now t. case f now t of (Inl e, t) \<Rightarrow> (Err e, t) | (Inr a, t) \<Rightarrow> g a now t)"
  unfolding acts_def
proof (intro allI impI)
  fix d :: "'a DurableSql"
  assume c: "calm d"
  then obtain n where m: "m d = (fst (f (do_now d) (do_tables d)), d\<lparr>do_stmts := n, do_tables := snd (f (do_now d) (do_tables d))\<rparr>)"
    using assms(1) by (auto simp: acts_def)
  obtain r t where f: "f (do_now d) (do_tables d) = (r, t)" by (cases "f (do_now d) (do_tables d)")
  show "\<exists>n. dbind m k d = (fst (case f (do_now d) (do_tables d) of (Inl e, t) \<Rightarrow> (Err e, t) | (Inr a, t) \<Rightarrow> g a (do_now d) t),
      d\<lparr>do_stmts := n, do_tables := snd (case f (do_now d) (do_tables d) of (Inl e, t) \<Rightarrow> (Err e, t) | (Inr a, t) \<Rightarrow> g a (do_now d) t)\<rparr>)"
  proof (cases r)
    case (Inl e)
    then show ?thesis by (auto simp: dbind_def m f)
  next
    case (Inr a)
    let ?d = "d\<lparr>do_stmts := n, do_tables := t\<rparr>"
    have "calm ?d" using c by (simp add: calm_def)
    with assms(2) [of a] obtain n' where
      "k a ?d = (fst (g a (do_now ?d) (do_tables ?d)), ?d\<lparr>do_stmts := n', do_tables := snd (g a (do_now ?d) (do_tables ?d))\<rparr>)"
      unfolding acts_def by blast
    then show ?thesis by (auto simp: dbind_def m f Inr)
  qed
qed

lemma acts_dtry [acts_intros]: "acts m f \<Longrightarrow> acts (dtry m) (\<lambda>now t. (Ok (), snd (f now t)))"
  by (fastforce simp: acts_def dtry_def)

lemma acts_if [acts_intros]: "acts m f \<Longrightarrow> acts m' f' \<Longrightarrow> acts (if b then m else m') (\<lambda>now t. if b then f now t else f' now t)"
  by simp

lemma acts_option [acts_intros]:
  "acts m f \<Longrightarrow> (\<And>x. acts (k x) (g x)) \<Longrightarrow> acts (case y of None \<Rightarrow> m | Some x \<Rightarrow> k x) (\<lambda>now t. case y of None \<Rightarrow> f now t | Some x \<Rightarrow> g x now t)"
  by (cases y) simp_all

lemma acts_list [acts_intros]:
  "acts m f \<Longrightarrow> (\<And>x xs. acts (k x xs) (g x xs)) \<Longrightarrow> acts (case y of [] \<Rightarrow> m | x # xs \<Rightarrow> k x xs) (\<lambda>now t. case y of [] \<Rightarrow> f now t | x # xs \<Rightarrow> g x xs now t)"
  by (cases y) simp_all

lemma acts_prod [acts_intros]: "(\<And>x y. acts (k x y) (g x y)) \<Longrightarrow> acts (case p of (x, y) \<Rightarrow> k x y) (\<lambda>now t. case p of (x, y) \<Rightarrow> g x y now t)"
  by (cases p) simp

subsection \<open>Statements that may fail\<close>

text \<open>\<open>holds A m Q E\<close>: from tables with \<open>A\<close>, the operation leaves tables with \<open>Q\<close> when it succeeds and with \<open>E\<close> when a
  statement or a check stops it.\<close>

definition holds :: "('t \<Rightarrow> bool) \<Rightarrow> ('t, 'e, 'a) fop \<Rightarrow> ('a \<Rightarrow> 't \<Rightarrow> bool) \<Rightarrow> ('t \<Rightarrow> bool) \<Rightarrow> bool" where
  "holds A m Q E = (\<forall>d. A (do_tables d) \<longrightarrow> (case m d of (Inl e, d') \<Rightarrow> E (do_tables d') | (Inr a, d') \<Rightarrow> Q a (do_tables d')))"

lemma holdsD: "holds A m Q E \<Longrightarrow> A (do_tables d) \<Longrightarrow> m d = (r, d') \<Longrightarrow> (case r of Inl e \<Rightarrow> E (do_tables d') | Inr a \<Rightarrow> Q a (do_tables d'))"
  unfolding holds_def by (drule spec [of _ d]) simp

lemma holds_dret: "(\<And>t. A t \<Longrightarrow> Q a t) \<Longrightarrow> holds A (dret a) Q E"
  by (simp add: holds_def dret_def)

lemma holds_dbind: "holds A m Q E \<Longrightarrow> (\<And>a. holds (Q a) (k a) Q' E) \<Longrightarrow> holds A (dbind m k) Q' E"
  by (fastforce simp: holds_def dbind_def split: prod.splits sum.splits)

lemma holds_sql_stmt: "(\<And>t. A t \<Longrightarrow> E t) \<Longrightarrow> (\<And>t a t'. A t \<Longrightarrow> f t = Ok (a, t') \<Longrightarrow> Q a t') \<Longrightarrow> holds A (sql_stmt f) Q E"
  by (auto simp: holds_def sql_stmt_def Let_def split: option.splits sum.splits)

lemma holds_sql_select: "(\<And>t. A t \<Longrightarrow> E t) \<Longrightarrow> (\<And>t. A t \<Longrightarrow> Q (f t) t) \<Longrightarrow> holds A (sql_select f) Q E"
  unfolding sql_select_def by (rule holds_sql_stmt) auto

lemma holds_sql_modify: "(\<And>t. A t \<Longrightarrow> E t) \<Longrightarrow> (\<And>t. A t \<Longrightarrow> Q () (f t)) \<Longrightarrow> holds A (sql_modify f) Q E"
  unfolding sql_modify_def by (rule holds_sql_stmt) auto

lemma holds_dmodify: "(\<And>t. A t \<Longrightarrow> Q () (f t)) \<Longrightarrow> holds A (dmodify f) Q E"
  by (simp add: holds_def dmodify_def)

lemma holds_dget: "(\<And>t. A t \<Longrightarrow> Q (f t) t) \<Longrightarrow> holds A (dget f) Q E"
  by (simp add: holds_def dget_def)

lemma holds_dlift: "(\<And>t. A t \<Longrightarrow> E t) \<Longrightarrow> (\<And>t a. A t \<Longrightarrow> r = Ok a \<Longrightarrow> Q a t) \<Longrightarrow> holds A (dlift r) Q E"
  by (auto simp: holds_def dlift_def split: sum.splits)

lemma holds_now_iso: "(\<And>t now. A t \<Longrightarrow> Q now t) \<Longrightarrow> holds A now_iso Q E"
  by (simp add: holds_def now_iso_def)

lemma holds_dtry:
  assumes "holds A m (\<lambda>_. Q ()) (Q ())"
  shows "holds A (dtry m) Q E"
  unfolding holds_def
proof (intro allI impI)
  fix d :: "'a DurableSql" assume "A (do_tables d)"
  moreover obtain r d' where m: "m d = (r, d')" by (cases "m d")
  ultimately show "case dtry m d of (Inl e, d') \<Rightarrow> E (do_tables d') | (Inr a, d') \<Rightarrow> Q a (do_tables d')"
    using holdsD [OF assms, of d r d'] by (cases r) (simp_all add: dtry_def m)
qed

lemma holds_post: "holds A m Q E \<Longrightarrow> (\<And>t. A' t \<Longrightarrow> A t) \<Longrightarrow> (\<And>a t. Q a t \<Longrightarrow> Q' a t) \<Longrightarrow> (\<And>t. E t \<Longrightarrow> E' t) \<Longrightarrow> holds A' m Q' E'"
  by (fastforce simp: holds_def split: prod.splits sum.splits)

end
