(* ===== verification/Worker_Store.thy ===== *)
theory Worker_Store
  imports Durable_Sql Store_Calls
begin

text \<open>
  The third storage backend (\<open>rust-worker/src/store.rs\<close>, \<open>schema.rs\<close>): the tables of an account's Durable Object, and a bucket
  (R2) for the bytes of blobs.

  Rows are those of the SQLite backend where the schemas agree. An operation is a sequence of statements, each of which may
  fail, with nothing rolled back; no other request runs between them, since none of them suspends. The calls to the
  bucket do suspend, and a blob operation is one step here all the same: what it writes is keyed by the blob's
  content.
\<close>

subsection \<open>Tables\<close>

record blob_refs_row =
  br_did :: string
  br_cid :: string
  br_mime_type :: string
  br_size :: int
  br_created_at :: string

record device_row =
  dk_device_id :: string
  dk_did_key :: string
  dk_label :: string
  dk_created_at :: string

record signin_row =
  sn_request_id :: string
  sn_user_code :: string
  sn_client_name :: string
  sn_status :: string
  sn_did :: "string option"
  sn_handle :: "string option"
  sn_access_jwt :: "string option"
  sn_refresh_jwt :: "string option"
  sn_created_at :: string
  sn_expires_at :: int

record DoStore =
  dw_blocks :: "(string \<times> bytes) list"
  dw_repo_seq :: "seq_row list"
  dw_seq_counter :: "int option" \<comment> \<open>\<open>next\<close> of the row with id 0\<close>
  dw_accounts :: "accounts_row list"
  dw_keys :: "(string \<times> bytes) list"
  dw_invites :: "invites_row list"
  dw_invite_uses :: "(string \<times> string \<times> string) list"
  dw_repo_roots :: "(string \<times> string \<times> string) list"
  dw_preferences :: "(string \<times> string) list"
  dw_blob_refs :: "blob_refs_row list"
  dw_oauth_par :: "par_row list"
  dw_oauth_auth_codes :: "code_row list"
  dw_oauth_refresh_tokens :: "refresh_row list"
  dw_oauth_dpop_jti :: "(string \<times> int) list"
  dw_device_keys :: "device_row list"
  dw_signin_requests :: "signin_row list"
  dw_schema_version :: "int option"
  dw_r2 :: "(string \<times> bytes) list" \<comment> \<open>the bucket\<close>

type_synonym 'a wop = "(DoStore, StorageError, 'a) fop"

definition sql_err :: "string \<Rightarrow> StorageError" where
  "sql_err e = Pool (''durable object sql: '' @ e)"

definition do_exec :: "(DoStore \<Rightarrow> string + 'a \<times> DoStore) \<Rightarrow> 'a wop" where
  "do_exec f d = map_prod (map_err sql_err) id (sql_stmt f d)"

definition do_run :: "(DoStore \<Rightarrow> DoStore) \<Rightarrow> unit wop" where
  "do_run f = do_exec (\<lambda>t. Ok ((), f t))"

definition do_rows :: "(DoStore \<Rightarrow> 'a) \<Rightarrow> 'a wop" where
  "do_rows f = do_exec (\<lambda>t. Ok (f t, t))"

definition do_exists :: "(DoStore \<Rightarrow> nat) \<Rightarrow> bool wop" where
  "do_exists n = dbind (do_rows n) (\<lambda>n. dret (n > 0))"

text \<open>\<open>migrate\<close>: the statements of \<open>SCHEMA\<close> in order, of which two write rows.\<close>

definition schema_statements :: "(DoStore \<Rightarrow> DoStore) list" where
  "schema_statements = replicate 4 id @
     [\<lambda>t. t\<lparr>dw_seq_counter := Some (case dw_seq_counter t of Some n \<Rightarrow> n | None \<Rightarrow> 0)\<rparr>] @ replicate 16 id @
     [\<lambda>t. t\<lparr>dw_schema_version := Some 6\<rparr>]"

fun do_run_all :: "(DoStore \<Rightarrow> DoStore) list \<Rightarrow> unit wop" where
  "do_run_all [] = dret ()"
| "do_run_all (f # fs) = dbind (do_run f) (\<lambda>_. do_run_all fs)"

definition do_migrate :: "unit wop" where
  "do_migrate = do_run_all schema_statements"

subsection \<open>Blocks, sequencer, roots\<close>

definition do_read_block_bytes :: "(Cid \<Rightarrow> string) \<Rightarrow> Cid \<Rightarrow> bytes wop" where
  "do_read_block_bytes cid_str cid =
     dbind (do_rows (\<lambda>t. filter (\<lambda>r. fst r = cid_str cid) (dw_blocks t))) (\<lambda>rows.
     dlift (case rows of r # _ \<Rightarrow> Ok (snd r) | [] \<Rightarrow> Err BlockNotFound))"

definition do_put_block :: "(Cid \<Rightarrow> string) \<Rightarrow> Cid \<Rightarrow> bytes \<Rightarrow> unit wop" where
  "do_put_block cid_str cid b = do_run (\<lambda>t. t\<lparr>dw_blocks := snd (insert_or_ignore fst (cid_str cid, b) (dw_blocks t))\<rparr>)"

definition do_max_seq :: "int wop" where
  "do_max_seq = do_rows (\<lambda>t. case map sq_seq (dw_repo_seq t) of [] \<Rightarrow> 0 | n # ns \<Rightarrow> fold max ns n)"

definition do_backfill_page :: "int \<Rightarrow> int \<Rightarrow> (int \<times> bytes) list wop" where
  "do_backfill_page after_seq limit =
     dbind (do_rows (\<lambda>t. limit_rows (max limit 0) (sort_key sq_seq (filter (\<lambda>r. after_seq < sq_seq r \<and> sq_invalidated r = 0) (dw_repo_seq t))))) (\<lambda>rows.
     dret (map (\<lambda>r. (sq_seq r, sq_event r)) rows))"

definition do_load_repo_root :: "(string \<Rightarrow> Cid option) \<Rightarrow> string \<Rightarrow> Cid option wop" where
  "do_load_repo_root cid_parse did =
     dbind (do_rows (\<lambda>t. filter (\<lambda>r. fst r = did) (dw_repo_roots t))) (\<lambda>rows.
     case rows of [] \<Rightarrow> dret None
     | (_, root_cid, _) # _ \<Rightarrow> dlift (case cid_parse root_cid of Some cid \<Rightarrow> Ok (Some cid) | None \<Rightarrow> Err (Crypto ''bad root cid'')))"

definition do_update_repo_root :: "(Cid \<Rightarrow> string) \<Rightarrow> string \<Rightarrow> Cid \<Rightarrow> unit wop" where
  "do_update_repo_root cid_str did root_cid = dbind now_iso (\<lambda>now.
     do_run (\<lambda>t. t\<lparr>dw_repo_roots := insert_or_replace fst (did, cid_str root_cid, now) (dw_repo_roots t)\<rparr>))"

fun do_put_blocks :: "(Cid \<Rightarrow> string) \<Rightarrow> (Cid \<times> bytes) list \<Rightarrow> unit wop" where
  "do_put_blocks cid_str [] = dret ()"
| "do_put_blocks cid_str ((cid, b) # bs) = dbind (do_put_block cid_str cid b) (\<lambda>_. do_put_blocks cid_str bs)"

definition do_commit_blocks :: "(Cid \<Rightarrow> string) \<Rightarrow> (Cid \<times> bytes) list \<Rightarrow> string \<Rightarrow> Cid \<Rightarrow> bytes \<Rightarrow> int wop" where
  "do_commit_blocks cid_str bs did new_root event_body =
     dbind now_iso (\<lambda>now.
     dbind (do_put_blocks cid_str bs) (\<lambda>_.
     dbind (do_run (\<lambda>t. t\<lparr>dw_seq_counter := map_option (\<lambda>n. n + 1) (dw_seq_counter t)\<rparr>)) (\<lambda>_.
     dbind (do_rows dw_seq_counter) (\<lambda>rows.
     dbind (dlift (ok_or (Pool ''seq_counter row is missing'') rows)) (\<lambda>seq.
     dbind (do_exec (\<lambda>t. map_sum id (\<lambda>l. ((), t\<lparr>dw_repo_seq := l\<rparr>)) (insert_row sq_seq
       \<lparr>sq_seq = seq, sq_did = did, sq_event_type = ''append'', sq_event = event_body, sq_invalidated = 0, sq_sequenced_at = now\<rparr> (dw_repo_seq t)))) (\<lambda>_.
     dbind (do_run (\<lambda>t. t\<lparr>dw_repo_roots := insert_or_replace fst (did, cid_str new_root, now) (dw_repo_roots t)\<rparr>)) (\<lambda>_.
     dret seq)))))))"

subsection \<open>Device approval\<close>

definition do_register_device :: "string \<Rightarrow> string \<Rightarrow> string \<Rightarrow> unit wop" where
  "do_register_device device_id did_key label = dbind now_iso (\<lambda>now.
     do_run (\<lambda>t. t\<lparr>dw_device_keys := insert_or_replace dk_device_id
       \<lparr>dk_device_id = device_id, dk_did_key = did_key, dk_label = label, dk_created_at = now\<rparr> (dw_device_keys t)\<rparr>))"

definition do_device_did_key :: "string \<Rightarrow> string option wop" where
  "do_device_did_key device_id = do_rows (\<lambda>t. map_option dk_did_key (tbl dk_device_id (dw_device_keys t) device_id))"

definition do_create_signin :: "string \<Rightarrow> string \<Rightarrow> string \<Rightarrow> nat \<Rightarrow> unit wop" where
  "do_create_signin request_id user_code client_name expires_at = dbind now_iso (\<lambda>now.
     do_exec (\<lambda>t. map_sum id (\<lambda>l. ((), t\<lparr>dw_signin_requests := l\<rparr>)) (insert_row sn_request_id
       \<lparr>sn_request_id = request_id, sn_user_code = user_code, sn_client_name = client_name, sn_status = ''pending'', sn_did = None, sn_handle = None,
        sn_access_jwt = None, sn_refresh_jwt = None, sn_created_at = now, sn_expires_at = as_i64 expires_at\<rparr> (dw_signin_requests t))))"

record PendingSignin =
  pd_request_id :: string
  pd_user_code :: string
  pd_client_name :: string
  pd_created_at :: string

definition do_list_pending_signins :: "nat \<Rightarrow> PendingSignin list wop" where
  "do_list_pending_signins now = do_rows (\<lambda>t. map (\<lambda>r. \<lparr>pd_request_id = sn_request_id r, pd_user_code = sn_user_code r,
       pd_client_name = sn_client_name r, pd_created_at = sn_created_at r\<rparr>)
     (rev (sort_key sn_created_at (filter (\<lambda>r. sn_status r = ''pending'' \<and> sn_expires_at r > as_i64 now) (dw_signin_requests t)))))"

definition do_get_signin :: "string \<Rightarrow> signin_row option wop" where
  "do_get_signin request_id = do_rows (\<lambda>t. tbl sn_request_id (dw_signin_requests t) request_id)"

definition do_approve_signin :: "string \<Rightarrow> string \<Rightarrow> string \<Rightarrow> string \<Rightarrow> string \<Rightarrow> unit wop" where
  "do_approve_signin request_id did handle access_jwt refresh_jwt = do_run (\<lambda>t. t\<lparr>dw_signin_requests :=
     snd (update_where (\<lambda>r. sn_request_id r = request_id \<and> sn_status r = ''pending'')
       (\<lambda>r. r\<lparr>sn_status := ''approved'', sn_did := Some did, sn_handle := Some handle, sn_access_jwt := Some access_jwt, sn_refresh_jwt := Some refresh_jwt\<rparr>)
       (dw_signin_requests t))\<rparr>)"

definition do_deny_signin :: "string \<Rightarrow> unit wop" where
  "do_deny_signin request_id = do_run (\<lambda>t. t\<lparr>dw_signin_requests :=
     snd (update_where (\<lambda>r. sn_request_id r = request_id \<and> sn_status r = ''pending'') (\<lambda>r. r\<lparr>sn_status := ''denied''\<rparr>) (dw_signin_requests t))\<rparr>)"

definition do_account_password_phc :: "string \<Rightarrow> string option wop" where
  "do_account_password_phc did = do_rows (\<lambda>t. map_option ac_password_argon2 (tbl ac_did (dw_accounts t) did))"

definition do_delete_account_data :: "string \<Rightarrow> unit wop" where
  "do_delete_account_data did = do_run_all
     [\<lambda>t. t\<lparr>dw_accounts := snd (delete_where (\<lambda>r. ac_did r = did) (dw_accounts t))\<rparr>,
      \<lambda>t. t\<lparr>dw_keys := snd (delete_where (\<lambda>r. fst r = did @ ''#signing'') (dw_keys t))\<rparr>,
      \<lambda>t. t\<lparr>dw_keys := snd (delete_where (\<lambda>r. fst r = did @ ''#rotation'') (dw_keys t))\<rparr>,
      \<lambda>t. t\<lparr>dw_preferences := snd (delete_where (\<lambda>r. fst r = did) (dw_preferences t))\<rparr>,
      \<lambda>t. t\<lparr>dw_repo_roots := snd (delete_where (\<lambda>r. fst r = did) (dw_repo_roots t))\<rparr>,
      \<lambda>t. t\<lparr>dw_repo_seq := snd (delete_where (\<lambda>r. sq_did r = did) (dw_repo_seq t))\<rparr>,
      \<lambda>t. t\<lparr>dw_blob_refs := snd (delete_where (\<lambda>r. br_did r = did) (dw_blob_refs t))\<rparr>,
      \<lambda>t. t\<lparr>dw_device_keys := []\<rparr>,
      \<lambda>t. t\<lparr>dw_signin_requests := []\<rparr>]"

subsection \<open>Accounts, invites, preferences\<close>

definition do_count_accounts :: "int wop" where
  "do_count_accounts = do_rows (\<lambda>t. int (length (dw_accounts t)))"

text \<open>\<open>INSERT INTO accounts\<close> under the schema's \<open>PRIMARY KEY\<close> and \<open>UNIQUE\<close>.\<close>

definition do_insert_accounts_row :: "accounts_row \<Rightarrow> unit wop" where
  "do_insert_accounts_row r = do_exec (\<lambda>t.
     if list_ex (\<lambda>x. ac_handle x = ac_handle r \<and> ac_handle x \<noteq> None) (dw_accounts t) then Err ''UNIQUE constraint failed''
     else map_sum id (\<lambda>l. ((), t\<lparr>dw_accounts := l\<rparr>)) (insert_row ac_did r (dw_accounts t)))"

definition do_insert_account :: "string \<Rightarrow> string \<Rightarrow> string option \<Rightarrow> string \<Rightarrow> unit wop" where
  "do_insert_account did handle email phc =
     dbind (do_exists (\<lambda>t. length (filter (\<lambda>r. ac_did r = did) (dw_accounts t)))) (\<lambda>dup.
     if dup then dlift (Err (Constraint (''account already exists: '' @ did)))
     else dbind (do_exists (\<lambda>t. length (filter (\<lambda>r. ac_handle r = Some handle) (dw_accounts t)))) (\<lambda>dup.
       if dup then dlift (Err (Constraint (''handle already taken: '' @ handle)))
       else dbind now_iso (\<lambda>now. do_insert_accounts_row \<lparr>ac_did = did, ac_handle = Some handle, ac_email = email, ac_password_argon2 = phc,
         ac_created_at = now, ac_deactivated_at = None, ac_takedown_ref = None\<rparr>)))"

definition do_count_and_insert_account :: "string \<Rightarrow> string \<Rightarrow> string option \<Rightarrow> string \<Rightarrow> int wop" where
  "do_count_and_insert_account did handle email phc =
     dbind do_count_accounts (\<lambda>before. dbind (do_insert_account did handle email phc) (\<lambda>_. dret before))"

definition do_get_account_by_handle :: "string \<Rightarrow> (string \<times> string) option wop" where
  "do_get_account_by_handle h = dbind (do_rows (\<lambda>t. find (\<lambda>r. ac_handle r = Some h \<and> ac_visible r) (dw_accounts t))) (\<lambda>r.
     dret (map_option (\<lambda>r. (ac_did r, ac_password_argon2 r)) r))"

definition do_get_did_by_handle :: "string \<Rightarrow> string option wop" where
  "do_get_did_by_handle h = dbind (do_rows (\<lambda>t. find (\<lambda>r. ac_handle r = Some h \<and> ac_visible r) (dw_accounts t))) (\<lambda>r. dret (map_option ac_did r))"

definition do_get_handle_by_did :: "string \<Rightarrow> string option wop" where
  "do_get_handle_by_did did = dbind (do_rows (\<lambda>t. find (\<lambda>r. ac_did r = did \<and> ac_visible r) (dw_accounts t))) (\<lambda>r. dret (Option.bind r ac_handle))"

text \<open>\<open>ORDER BY created_at, did\<close>, as two stable sorts.\<close>

definition do_list_accounts :: "AccountSummary list wop" where
  "do_list_accounts = dbind (do_rows (\<lambda>t. sort_key ac_created_at (sort_key ac_did (dw_accounts t)))) (\<lambda>rows.
     dret (map (\<lambda>r. \<lparr>sum_did = ac_did r, sum_handle = ac_handle r, sum_deactivated_at = ac_deactivated_at r,
       sum_takedown_ref = ac_takedown_ref r, sum_created_at = ac_created_at r\<rparr>) rows))"

definition do_update_account :: "string \<Rightarrow> (string \<Rightarrow> accounts_row \<Rightarrow> accounts_row) \<Rightarrow> nat wop" where
  "do_update_account did f =
     dbind (do_exists (\<lambda>t. length (filter (\<lambda>r. ac_did r = did) (dw_accounts t)))) (\<lambda>found.
     if \<not> found then dret 0
     else dbind now_iso (\<lambda>now.
       dbind (do_run (\<lambda>t. t\<lparr>dw_accounts := snd (update_where (\<lambda>r. ac_did r = did) (f now) (dw_accounts t))\<rparr>)) (\<lambda>_. dret 1)))"

definition do_update_password :: "string \<Rightarrow> string \<Rightarrow> nat wop" where
  "do_update_password did phc = do_update_account did (\<lambda>_. ac_password_argon2_update (\<lambda>_. phc))"

definition do_set_takedown :: "string \<Rightarrow> string \<Rightarrow> nat wop" where
  "do_set_takedown did reference = do_update_account did
     (\<lambda>now. let marker = (if reference = [] then now else reference) in ac_takedown_ref_update (\<lambda>_. Some marker))"

definition do_clear_takedown :: "string \<Rightarrow> nat wop" where
  "do_clear_takedown did = do_update_account did (\<lambda>_. ac_takedown_ref_update (\<lambda>_. None))"

definition do_insert_invite :: "string \<Rightarrow> int \<Rightarrow> string \<Rightarrow> unit wop" where
  "do_insert_invite code available_uses for_account =
     dbind (do_exists (\<lambda>t. length (filter (\<lambda>r. iv_code r = code) (dw_invites t)))) (\<lambda>dup.
     if dup then dlift (Err (Constraint (''invite code already exists: '' @ code)))
     else dbind now_iso (\<lambda>now. do_exec (\<lambda>t. map_sum id (\<lambda>l. ((), t\<lparr>dw_invites := l\<rparr>)) (insert_row iv_code
       \<lparr>iv_code = code, iv_available_uses = available_uses, iv_disabled = 0, iv_for_account = for_account, iv_created_by = ''admin'', iv_created_at = now\<rparr>
       (dw_invites t)))))"

definition do_consume_invite :: "string \<Rightarrow> string \<Rightarrow> bool wop" where
  "do_consume_invite code used_by =
     dbind (do_rows (\<lambda>t. tbl iv_code (dw_invites t) code)) (\<lambda>row. case row of
       None \<Rightarrow> dret False
     | Some invite \<Rightarrow>
         if iv_disabled invite \<noteq> 0 \<or> iv_available_uses invite \<le> 0 then dret False
         else dbind (do_exists (\<lambda>t. length (filter (\<lambda>(c, u, _). c = code \<and> u = used_by) (dw_invite_uses t)))) (\<lambda>used.
           if used then dret False
           else dbind now_iso (\<lambda>now.
             dbind (do_exec (\<lambda>t. map_sum id (\<lambda>l. ((), t\<lparr>dw_invite_uses := l\<rparr>))
               (insert_row (\<lambda>(c, u, _). (c, u)) (code, used_by, now) (dw_invite_uses t)))) (\<lambda>_.
             dbind (do_run (\<lambda>t. t\<lparr>dw_invites := snd (update_where (\<lambda>r. iv_code r = code) (iv_available_uses_update (\<lambda>n. n - 1)) (dw_invites t))\<rparr>)) (\<lambda>_.
             dret True)))))"

definition do_upsert_preferences :: "string \<Rightarrow> string \<Rightarrow> unit wop" where
  "do_upsert_preferences did p = do_run (\<lambda>t. t\<lparr>dw_preferences := insert_or_replace fst (did, p) (dw_preferences t)\<rparr>)"

definition do_get_preferences :: "string \<Rightarrow> string option wop" where
  "do_get_preferences did = do_rows (\<lambda>t. map_option snd (tbl fst (dw_preferences t) did))"

subsection \<open>Keys and blobs\<close>

definition do_put_key_blob :: "string \<Rightarrow> bytes \<Rightarrow> unit wop" where
  "do_put_key_blob i ciphertext = do_run (\<lambda>t. t\<lparr>dw_keys := insert_or_replace fst (i, ciphertext) (dw_keys t)\<rparr>)"

definition do_get_key_blob :: "string \<Rightarrow> bytes option wop" where
  "do_get_key_blob i = do_rows (\<lambda>t. map_option snd (tbl fst (dw_keys t) i))"

definition r2_key :: "string \<Rightarrow> string \<Rightarrow> string" where
  "r2_key did cid = did @ ''/'' @ cid"

definition r2_call :: "string \<Rightarrow> (DoStore \<Rightarrow> 'a \<times> DoStore) \<Rightarrow> 'a wop" where
  "r2_call what f d = map_prod (map_err (\<lambda>e. Pool (what @ e))) id (sql_stmt (\<lambda>t. Ok (f t)) d)"

definition blob_ref_key :: "blob_refs_row \<Rightarrow> string \<times> string" where
  "blob_ref_key r = (br_did r, br_cid r)"

definition do_put_blob :: "string \<Rightarrow> string \<Rightarrow> string \<Rightarrow> int \<Rightarrow> bytes \<Rightarrow> unit wop" where
  "do_put_blob did cid mime_type sz b =
     dbind (r2_call ''r2 put: '' (\<lambda>t. ((), t\<lparr>dw_r2 := insert_or_replace fst (r2_key did cid, b) (dw_r2 t)\<rparr>))) (\<lambda>_.
     dbind now_iso (\<lambda>now.
     do_run (\<lambda>t. t\<lparr>dw_blob_refs := insert_or_replace blob_ref_key
       \<lparr>br_did = did, br_cid = cid, br_mime_type = mime_type, br_size = sz, br_created_at = now\<rparr> (dw_blob_refs t)\<rparr>)))"

definition do_get_blob :: "string \<Rightarrow> string \<Rightarrow> (string \<times> bytes) option wop" where
  "do_get_blob did cid =
     dbind (do_rows (\<lambda>t. map_option br_mime_type (tbl blob_ref_key (dw_blob_refs t) (did, cid)))) (\<lambda>meta. case meta of
       None \<Rightarrow> dret None
     | Some mime_type \<Rightarrow>
         dbind (r2_call ''r2 get: '' (\<lambda>t. (tbl fst (dw_r2 t) (r2_key did cid), t))) (\<lambda>object. case object of
           None \<Rightarrow> dret None
         | Some (_, body) \<Rightarrow> dbind (r2_call ''r2 read: '' (\<lambda>t. (body, t))) (\<lambda>b. dret (Some (mime_type, b)))))"

definition do_list_blobs :: "string \<Rightarrow> nat \<Rightarrow> string option \<Rightarrow> string list wop" where
  "do_list_blobs did limit cursor = do_rows (\<lambda>t.
     limit_rows (as_i64 limit) (sort (map br_cid (filter
       (\<lambda>r. br_did r = did \<and> (case cursor of None \<Rightarrow> True | Some c \<Rightarrow> c < br_cid r)) (dw_blob_refs t)))))"

subsection \<open>OAuth state\<close>

definition do_put_pushed_request :: "StoredPushedRequest \<Rightarrow> unit wop" where
  "do_put_pushed_request req = do_run (\<lambda>t. t\<lparr>dw_oauth_par :=
     insert_or_replace par_key (req\<lparr>par_expires_at := 0\<rparr>, as_i64 (par_expires_at req)) (dw_oauth_par t)\<rparr>)"

definition do_get_pushed_request :: "string \<Rightarrow> nat \<Rightarrow> StoredPushedRequest option wop" where
  "do_get_pushed_request h now = dbind (do_rows (\<lambda>t. find (\<lambda>r. par_key r = h \<and> as_i64 now < snd r) (dw_oauth_par t))) (\<lambda>r. dret (map_option par_of_row r))"

definition do_delete_pushed_request :: "string \<Rightarrow> unit wop" where
  "do_delete_pushed_request h = do_run (\<lambda>t. t\<lparr>dw_oauth_par := snd (delete_where (\<lambda>r. par_key r = h) (dw_oauth_par t))\<rparr>)"

definition do_put_auth_code :: "AuthCode \<Rightarrow> unit wop" where
  "do_put_auth_code c = do_run (\<lambda>t. t\<lparr>dw_oauth_auth_codes :=
     insert_or_replace code_key (c\<lparr>code_expires_at := 0\<rparr>, as_i64 (code_expires_at c)) (dw_oauth_auth_codes t)\<rparr>)"

definition do_consume_auth_code :: "string \<Rightarrow> nat \<Rightarrow> AuthCode option wop" where
  "do_consume_auth_code h now =
     dbind (do_rows (\<lambda>t. find (\<lambda>r. code_key r = h \<and> as_i64 now < snd r) (dw_oauth_auth_codes t))) (\<lambda>row.
     dbind (do_run (\<lambda>t. t\<lparr>dw_oauth_auth_codes := snd (delete_where (\<lambda>r. code_key r = h) (dw_oauth_auth_codes t))\<rparr>)) (\<lambda>_.
     dret (map_option code_of_row row)))"

definition do_put_refresh_token :: "RefreshTokenRecord \<Rightarrow> unit wop" where
  "do_put_refresh_token r = do_run (\<lambda>t. t\<lparr>dw_oauth_refresh_tokens := insert_or_replace rt_key (r\<lparr>rt_issued_at := 0, rt_expires_at := 0\<rparr>,
     as_i64 (rt_issued_at r), as_i64 (rt_expires_at r), 0) (dw_oauth_refresh_tokens t)\<rparr>)"

definition do_consume_refresh_token :: "string \<Rightarrow> nat \<Rightarrow> ConsumeResult wop" where
  "do_consume_refresh_token h now =
     dbind (do_rows (\<lambda>t. find (\<lambda>r. rt_key r = h \<and> as_i64 now < rt_expires_col r) (dw_oauth_refresh_tokens t))) (\<lambda>row. case row of
       None \<Rightarrow> dret NotFound
     | Some r \<Rightarrow>
         if rt_used r then dret (Reused (rt_session_id (fst r)))
         else dbind (do_run (\<lambda>t. t\<lparr>dw_oauth_refresh_tokens := snd (update_where (\<lambda>x. rt_key x = h) rt_mark_used (dw_oauth_refresh_tokens t))\<rparr>)) (\<lambda>_.
           dret (Consumed (rt_of_row r))))"

definition do_delete_session :: "string \<Rightarrow> unit wop" where
  "do_delete_session sid = do_run (\<lambda>t. t\<lparr>dw_oauth_refresh_tokens :=
     snd (delete_where (\<lambda>r. rt_session_id (fst r) = sid) (dw_oauth_refresh_tokens t))\<rparr>)"

definition do_revoke_session :: "string \<Rightarrow> nat wop" where
  "do_revoke_session sid =
     dbind (do_rows (\<lambda>t. length (filter (\<lambda>r. rt_session_id (fst r) = sid) (dw_oauth_refresh_tokens t)))) (\<lambda>n.
     dbind (do_delete_session sid) (\<lambda>_. dret n))"

definition do_revoke_refresh_token :: "string \<Rightarrow> bool wop" where
  "do_revoke_refresh_token h =
     dbind (do_rows (\<lambda>t. map_option (rt_session_id \<circ> fst) (tbl rt_key (dw_oauth_refresh_tokens t) h))) (\<lambda>row. case row of
       None \<Rightarrow> dret False
     | Some sid \<Rightarrow> dbind (do_delete_session sid) (\<lambda>_. dret True))"

text \<open>\<open>ORDER BY issued_at DESC, token_hash ASC\<close>.\<close>

definition do_list_sessions_for_did :: "string \<Rightarrow> nat \<Rightarrow> RefreshTokenRecord list wop" where
  "do_list_sessions_for_did did now = dbind (do_rows (\<lambda>t. sort_key (\<lambda>(_, issued, _, _). - issued) (sort_key rt_key (filter
       (\<lambda>r. rt_did (fst r) = did \<and> as_i64 now < rt_expires_col r \<and> \<not> rt_used r) (dw_oauth_refresh_tokens t))))) (\<lambda>rows.
     dret (map rt_of_row rows))"

definition do_record_dpop_jti :: "string \<Rightarrow> nat \<Rightarrow> bool wop" where
  "do_record_dpop_jti jti expires_at =
     dbind (do_exists (\<lambda>t. length (filter (\<lambda>r. fst r = jti) (dw_oauth_dpop_jti t)))) (\<lambda>seen.
     if seen then dret False
     else dbind (do_exec (\<lambda>t. map_sum id (\<lambda>l. ((), t\<lparr>dw_oauth_dpop_jti := l\<rparr>)) (insert_row fst (jti, as_i64 expires_at) (dw_oauth_dpop_jti t)))) (\<lambda>_.
       dret True))"

text \<open>One turn of the loop over the four tables: count, then delete.\<close>

definition do_purge_table :: "(DoStore \<Rightarrow> 'r list) \<Rightarrow> ('r list \<Rightarrow> DoStore \<Rightarrow> DoStore) \<Rightarrow> ('r \<Rightarrow> int) \<Rightarrow> nat \<Rightarrow> nat wop" where
  "do_purge_table table put col now =
     dbind (do_rows (\<lambda>t. length (filter (\<lambda>r. col r \<le> as_i64 now) (table t)))) (\<lambda>n.
     dbind (do_run (\<lambda>t. put (snd (delete_where (\<lambda>r. col r \<le> as_i64 now) (table t))) t)) (\<lambda>_. dret n))"

definition do_purge_expired :: "nat \<Rightarrow> nat wop" where
  "do_purge_expired now =
     dbind (do_purge_table dw_oauth_par (\<lambda>l t. t\<lparr>dw_oauth_par := l\<rparr>) snd now) (\<lambda>n1.
     dbind (do_purge_table dw_oauth_auth_codes (\<lambda>l t. t\<lparr>dw_oauth_auth_codes := l\<rparr>) snd now) (\<lambda>n2.
     dbind (do_purge_table dw_oauth_refresh_tokens (\<lambda>l t. t\<lparr>dw_oauth_refresh_tokens := l\<rparr>) rt_expires_col now) (\<lambda>n3.
     dbind (do_purge_table dw_oauth_dpop_jti (\<lambda>l t. t\<lparr>dw_oauth_dpop_jti := l\<rparr>) snd now) (\<lambda>n4.
     dret (n1 + n2 + n3 + n4)))))"

subsection \<open>The backend\<close>

definition do_backend :: "(Cid \<Rightarrow> string) \<Rightarrow> (string \<Rightarrow> Cid option) \<Rightarrow> DoStore DurableSql StorageBackend" where
  "do_backend cid_str cid_parse = \<lparr>
     repo_ops = \<lparr>read_block_bytes = do_read_block_bytes cid_str, put_block = do_put_block cid_str, max_seq = do_max_seq,
       backfill_page = do_backfill_page, load_repo_root = do_load_repo_root cid_parse,
       update_repo_root = do_update_repo_root cid_str, commit_blocks = do_commit_blocks cid_str\<rparr>,
     account_ops = \<lparr>count_accounts = do_count_accounts, insert_account = do_insert_account,
       count_and_insert_account = do_count_and_insert_account, get_account_by_handle = do_get_account_by_handle,
       get_did_by_handle = do_get_did_by_handle, get_handle_by_did = do_get_handle_by_did, list_accounts = do_list_accounts,
       update_password = do_update_password, set_takedown = do_set_takedown, clear_takedown = do_clear_takedown,
       insert_invite = do_insert_invite, consume_invite = do_consume_invite,
       upsert_preferences = do_upsert_preferences, get_preferences = do_get_preferences\<rparr>,
     key_ops = \<lparr>put_key_blob = do_put_key_blob, get_key_blob = do_get_key_blob\<rparr>,
     blob_ops = \<lparr>put_blob = do_put_blob, get_blob = do_get_blob, list_blobs = do_list_blobs\<rparr>,
     oauth_ops = \<lparr>put_pushed_request = do_put_pushed_request, get_pushed_request = do_get_pushed_request,
       delete_pushed_request = do_delete_pushed_request, put_auth_code = do_put_auth_code, consume_auth_code = do_consume_auth_code,
       put_refresh_token = do_put_refresh_token, consume_refresh_token = do_consume_refresh_token, revoke_session = do_revoke_session,
       revoke_refresh_token = do_revoke_refresh_token, list_sessions_for_did = do_list_sessions_for_did,
       record_dpop_jti = do_record_dpop_jti, purge_expired = do_purge_expired\<rparr>\<rparr>"

end
