(* ===== verification/Worker_Registry.thy ===== *)
theory Worker_Registry
  imports Embedded_Core Durable_Sql
begin

text \<open>
  The registry of the Workers deployment (\<open>rust-worker/src/registry.rs\<close>): one Durable Object that holds
  every claimed label and every invite code, so that the invite gate sees all hostnames at once.
\<close>

subsection \<open>The tables\<close>

datatype wk_response =
    WkJson nat json
  | WkText nat string
  | WkRaw nat "(string \<times> string) list" bytes
  | WkAsMetadata AuthorizationServerMetadata
  | WkResource ProtectedResourceMetadata
  | WkJwks "PublicJwk list"

record claims_row =
  cm_label :: string
  cm_did :: "string option"
  cm_state :: string
  cm_invite_code :: "string option"
  cm_created_at :: string

record reg_invite =
  ri_code :: string
  ri_available_uses :: int
  ri_disabled :: int

record Registry =
  rg_claims :: "claims_row list"
  rg_invites :: "reg_invite list"

text \<open>Two table definitions and one migration whose error is discarded, at every request.\<close>

definition rg_sql :: "(Registry, unit) dop" where
  "rg_sql = dbind (sql_modify id) (\<lambda>_. dbind (sql_modify id) (\<lambda>_. dtry (sql_modify id)))"

definition ok_resp :: "bool \<Rightarrow> string option \<Rightarrow> wk_response" where
  "ok_resp ok err = WkJson 200 (Object ((''ok'', Bool ok) # (case err of Some e \<Rightarrow> [(''error'', String e)] | None \<Rightarrow> [])))"

definition check_resp :: "bool \<Rightarrow> string option \<Rightarrow> wk_response" where
  "check_resp available reason = WkJson 200 (Object ((''available'', Bool available) # (case reason of Some e \<Rightarrow> [(''reason'', String e)] | None \<Rightarrow> [])))"

subsection \<open>Operations\<close>

definition force_release :: "string \<Rightarrow> (Registry, wk_response) dop" where
  "force_release label =
     dbind rg_sql (\<lambda>_.
     dbind (sql_modify (\<lambda>t. t\<lparr>rg_claims := snd (delete_where (\<lambda>r. cm_label r = label) (rg_claims t))\<rparr>)) (\<lambda>_.
     dret (ok_resp True None)))"

definition resolve_did :: "string \<Rightarrow> (Registry, wk_response) dop" where
  "resolve_did did =
     dbind rg_sql (\<lambda>_.
     dbind (sql_select (\<lambda>t. filter (\<lambda>r. cm_did r = Some did \<and> cm_state r = ''active'') (rg_claims t))) (\<lambda>rows.
     dret (WkJson 200 (Object [(''label'', case rows of r # _ \<Rightarrow> String (cm_label r) | [] \<Rightarrow> Null)]))))"

definition is_taken :: "string \<Rightarrow> (Registry, bool) dop" where
  "is_taken label =
     dbind (sql_select (\<lambda>t. length (filter (\<lambda>r. cm_label r = label) (rg_claims t)))) (\<lambda>n. dret (n > 0))"

definition registry_check :: "string \<Rightarrow> (Registry, wk_response) dop" where
  "registry_check label =
     dbind rg_sql (\<lambda>_.
     dbind (is_taken label) (\<lambda>taken.
     dret (if taken then check_resp False (Some ''taken'') else check_resp True None)))"

definition insert_claim :: "string \<Rightarrow> string option \<Rightarrow> string \<Rightarrow> (Registry, unit) dop" where
  "insert_claim label invite_code now = sql_stmt (\<lambda>t. map_sum id (\<lambda>c. ((), t\<lparr>rg_claims := c\<rparr>)) (insert_row cm_label
     \<lparr>cm_label = label, cm_did = None, cm_state = ''reserved'', cm_invite_code = invite_code, cm_created_at = now\<rparr> (rg_claims t)))"

definition add_uses :: "int \<Rightarrow> string \<Rightarrow> (Registry, unit) dop" where
  "add_uses n code = sql_modify (\<lambda>t. t\<lparr>rg_invites :=
     snd (update_where (\<lambda>r. ri_code r = code) (\<lambda>r. r\<lparr>ri_available_uses := ri_available_uses r + n\<rparr>) (rg_invites t))\<rparr>)"

definition registry_claim :: "string \<Rightarrow> string option \<Rightarrow> bool \<Rightarrow> (Registry, wk_response) dop" where
  "registry_claim label invite_code open =
     dbind rg_sql (\<lambda>_.
     dbind (is_taken label) (\<lambda>taken.
     if taken then dret (ok_resp False (Some ''HandleNotAvailable''))
     else if open then
       dbind now_iso (\<lambda>now. dbind (insert_claim label None now) (\<lambda>_. dret (ok_resp True None)))
     else case invite_code of
       None \<Rightarrow> dret (ok_resp False (Some ''InvalidInviteCode''))
     | Some code \<Rightarrow>
         dbind (sql_select (\<lambda>t. filter (\<lambda>r. ri_code r = code) (rg_invites t))) (\<lambda>rows.
         let valid = (case rows of r # _ \<Rightarrow> ri_disabled r = 0 \<and> ri_available_uses r > 0 | [] \<Rightarrow> False) in
         if \<not> valid then dret (ok_resp False (Some ''InvalidInviteCode''))
         else dbind (add_uses (-1) code) (\<lambda>_.
           dbind now_iso (\<lambda>now. dbind (insert_claim label (Some code) now) (\<lambda>_. dret (ok_resp True None)))))))"

definition registry_release :: "string \<Rightarrow> (Registry, wk_response) dop" where
  "registry_release label =
     dbind rg_sql (\<lambda>_.
     dbind (sql_select (\<lambda>t. filter (\<lambda>r. cm_label r = label \<and> cm_state r = ''reserved'') (rg_claims t))) (\<lambda>rows.
     case rows of
       [] \<Rightarrow> dret (ok_resp True None)
     | row # _ \<Rightarrow>
         dbind (case cm_invite_code row of Some code \<Rightarrow> add_uses 1 code | None \<Rightarrow> dret ()) (\<lambda>_.
         dbind (sql_modify (\<lambda>t. t\<lparr>rg_claims := snd (delete_where (\<lambda>r. cm_label r = label \<and> cm_state r = ''reserved'') (rg_claims t))\<rparr>)) (\<lambda>_.
         dret (ok_resp True None)))))"

definition registry_bind :: "string \<Rightarrow> string \<Rightarrow> (Registry, wk_response) dop" where
  "registry_bind label did =
     dbind rg_sql (\<lambda>_.
     dbind (sql_modify (\<lambda>t. t\<lparr>rg_claims :=
       snd (update_where (\<lambda>r. cm_label r = label) (\<lambda>r. r\<lparr>cm_did := Some did, cm_state := ''active''\<rparr>) (rg_claims t))\<rparr>)) (\<lambda>_.
     dret (ok_resp True None)))"

definition seed_invite :: "string \<Rightarrow> int \<Rightarrow> (Registry, wk_response) dop" where
  "seed_invite code uses =
     dbind rg_sql (\<lambda>_.
     dbind (sql_modify (\<lambda>t. t\<lparr>rg_invites :=
       insert_or_replace ri_code \<lparr>ri_code = code, ri_available_uses = uses, ri_disabled = 0\<rparr> (rg_invites t)\<rparr>)) (\<lambda>_.
     dret (ok_resp True None)))"

subsection \<open>Requests\<close>

text \<open>What \<open>serde\<close> makes of a body: a missing or ill-typed field is an error, extra fields are ignored.\<close>

definition de_string :: "json \<Rightarrow> string \<Rightarrow> string + string" where
  "de_string v k = (case json_get v k of Some (String s) \<Rightarrow> Ok s | Some _ \<Rightarrow> Err (''invalid type: '' @ k) | None \<Rightarrow> Err (''missing field '' @ k))"

definition de_opt_string :: "json \<Rightarrow> string \<Rightarrow> string + string option" where
  "de_opt_string v k = (case json_get v k of None \<Rightarrow> Ok None | Some Null \<Rightarrow> Ok None | Some (String s) \<Rightarrow> Ok (Some s) | Some _ \<Rightarrow> Err (''invalid type: '' @ k))"

definition de_bool_or :: "bool \<Rightarrow> json \<Rightarrow> string \<Rightarrow> string + bool" where
  "de_bool_or b v k = (case json_get v k of None \<Rightarrow> Ok b | Some (Bool x) \<Rightarrow> Ok x | Some _ \<Rightarrow> Err (''invalid type: '' @ k))"

definition de_i64_or :: "int \<Rightarrow> json \<Rightarrow> string \<Rightarrow> string + int" where
  "de_i64_or n v k = (case json_get v k of None \<Rightarrow> Ok n
     | Some (Number i) \<Rightarrow> if - (2 ^ 63) \<le> i \<and> i < 2 ^ 63 then Ok i else Err (''invalid value: '' @ k) | Some _ \<Rightarrow> Err (''invalid type: '' @ k))"

definition registry_route :: "string \<Rightarrow> string + json \<Rightarrow> (Registry, wk_response) dop" where
  "registry_route path req_json =
     (if path = ''/check'' then dbind (dlift (and_then req_json (\<lambda>v. de_string v ''label''))) registry_check
      else if path = ''/claim'' then
        dbind (dlift (and_then req_json (\<lambda>v. and_then (de_string v ''label'') (\<lambda>label. and_then (de_opt_string v ''invite_code'') (\<lambda>code.
          and_then (de_bool_or False v ''open'') (\<lambda>open. Ok (label, code, open))))))) (\<lambda>(label, code, open). registry_claim label code open)
      else if path = ''/release'' then dbind (dlift (and_then req_json (\<lambda>v. de_string v ''label''))) registry_release
      else if path = ''/bind'' then
        dbind (dlift (and_then req_json (\<lambda>v. and_then (de_string v ''label'') (\<lambda>label. and_then (de_string v ''did'') (\<lambda>did. Ok (label, did))))))
          (\<lambda>(label, did). registry_bind label did)
      else if path = ''/invite'' then
        dbind (dlift (and_then req_json (\<lambda>v. and_then (de_string v ''code'') (\<lambda>code. and_then (de_i64_or 1 v ''uses'') (\<lambda>uses. Ok (code, uses))))))
          (\<lambda>(code, uses). seed_invite code uses)
      else if path = ''/force-release'' then dbind (dlift (and_then req_json (\<lambda>v. de_string v ''label''))) force_release
      else if path = ''/resolve-did'' then dbind (dlift (and_then req_json (\<lambda>v. de_string v ''did''))) resolve_did
      else dret (WkText 404 ''unknown registry endpoint''))"

definition registry_fetch :: "string \<Rightarrow> string + json \<Rightarrow> Registry DurableSql \<Rightarrow> wk_response \<times> Registry DurableSql" where
  "registry_fetch path req_json d = (case registry_route path req_json d of
     (Inr resp, d) \<Rightarrow> (resp, d) | (Inl e, d) \<Rightarrow> (WkText 500 (''registry error: '' @ e), d))"

end
