(* ===== verification/Worker_Sequencer.thy ===== *)
theory Worker_Sequencer
  imports Worker_Registry
begin

text \<open>
  The sequencer of the Workers deployment (\<open>rust-worker/src/sequencer.rs\<close>): one Durable Object that numbers the commits of every
  account, logs their frames and sends them to the subscribers it has accepted.

  Up to the message to the indexer a request runs without suspending, so it is one step on the object:
  its tables, its accepted sockets and what it put on the queue. Sockets are those of \<open>Firehose\<close>: what was
  sent, and how many more messages the peer takes; a send that fails is ignored.
\<close>

subsection \<open>State and requests\<close>

record fh_row =
  fr_seq :: int
  fr_repo :: string
  fr_frame :: bytes
  fr_created_at :: string

record SequencerDO =
  sg_next :: "int option" \<comment> \<open>the row of \<open>seq_counter\<close>\<close>
  sg_log :: "fh_row list"
  sg_sockets :: "WebSocket list"
  sg_queue :: "string list option" \<comment> \<open>\<open>None\<close>: no queue is bound\<close>

record EnqueueOp =
  eo_action :: string
  eo_path :: string
  eo_cid :: "string option"
  eo_record :: "json option"

record EnqueueReq =
  en_repo :: string
  en_commit :: string
  en_rev :: string
  en_since :: "string option"
  en_blocks_b64 :: string
  en_ops :: "EnqueueOp list"
  en_too_big :: bool

text \<open>The CID parser, the base64 decoder and the queue's own failures are third-party.\<close>

record worker_prims = emb_prims +
  cid_try_from :: "string \<Rightarrow> string + Cid"
  base64_decode :: "string \<Rightarrow> string + bytes"
  queue_send :: "string \<Rightarrow> string + unit"

definition sg_sql :: "(SequencerDO, unit) dop" where
  "sg_sql = dbind (sql_modify id) (\<lambda>_.
     dbind (sql_modify (\<lambda>t. t\<lparr>sg_next := Some (case sg_next t of Some n \<Rightarrow> n | None \<Rightarrow> 1)\<rparr>)) (\<lambda>_. sql_modify id))"

subsection \<open>Enqueue\<close>

definition enqueue_op :: "'x worker_prims_scheme \<Rightarrow> EnqueueOp \<Rightarrow> string + RepoOp" where
  "enqueue_op P p = and_then (case eo_cid p of
       Some c \<Rightarrow> map_sum (\<lambda>e. ''bad op cid: '' @ e) Some (cid_try_from P c)
     | None \<Rightarrow> Ok None) (\<lambda>cid. Ok \<lparr>op_action = eo_action p, op_path = eo_path p, op_cid = cid\<rparr>)"

fun enqueue_ops :: "'x worker_prims_scheme \<Rightarrow> EnqueueOp list \<Rightarrow> string + RepoOp list" where
  "enqueue_ops P [] = Ok []"
| "enqueue_ops P (p # ps) = and_then (enqueue_op P p) (\<lambda>r. and_then (enqueue_ops P ps) (\<lambda>rs. Ok (r # rs)))"

definition indexer_message :: "'x worker_prims_scheme \<Rightarrow> int \<Rightarrow> EnqueueReq \<Rightarrow> string" where
  "indexer_message P seq ev = json_to_text P (Object [(''seq'', Number seq), (''repo'', String (en_repo ev)), (''rev'', String (en_rev ev)),
     (''ops'', Array (map (\<lambda>p. Object [(''action'', String (eo_action p)), (''path'', String (eo_path p)),
       (''cid'', case eo_cid p of Some c \<Rightarrow> String c | None \<Rightarrow> Null), (''record'', case eo_record p of Some r \<Rightarrow> r | None \<Rightarrow> Null)]) (en_ops ev)))])"

definition publish_to_indexer :: "'x worker_prims_scheme \<Rightarrow> int \<Rightarrow> EnqueueReq \<Rightarrow> (SequencerDO, unit) dop" where
  "publish_to_indexer P seq ev = dbind (dget sg_queue) (\<lambda>queue. case queue of
     None \<Rightarrow> dret ()
   | Some _ \<Rightarrow> let payload = indexer_message P seq ev in
       dbind (dlift (queue_send P payload)) (\<lambda>_. dmodify (\<lambda>t. t\<lparr>sg_queue := map_option (\<lambda>q. q @ [payload]) (sg_queue t)\<rparr>)))"

definition enqueue :: "'x worker_prims_scheme \<Rightarrow> EnqueueReq \<Rightarrow> (SequencerDO, wk_response) dop" where
  "enqueue P ev =
     dbind sg_sql (\<lambda>_.
     dbind (sql_select sg_next) (\<lambda>row.
     let seq = (case row of Some n \<Rightarrow> n | None \<Rightarrow> 1) in
     dbind (sql_modify (\<lambda>t. t\<lparr>sg_next := map_option (\<lambda>_. seq + 1) (sg_next t)\<rparr>)) (\<lambda>_.
     dbind (dlift (map_err (\<lambda>e. ''bad commit cid: '' @ e) (cid_try_from P (en_commit ev)))) (\<lambda>commit_cid.
     let blocks = (case base64_decode P (en_blocks_b64 ev) of Inr b \<Rightarrow> b | Inl _ \<Rightarrow> []) in
     dbind (dlift (enqueue_ops P (en_ops ev))) (\<lambda>ops.
     dbind now_iso (\<lambda>time.
     let body = \<lparr>cb_seq = seq, cb_rebase = False, cb_too_big = en_too_big ev, cb_repo = en_repo ev, cb_commit = commit_cid, cb_rev = en_rev ev,
           cb_since = en_since ev, cb_blocks = blocks, cb_ops = ops, cb_blobs = [], cb_time = time, cb_prev_data = None\<rparr>;
         frame = encode_message_frame P ''#commit'' body in
     dbind now_iso (\<lambda>created_at.
     dbind (sql_stmt (\<lambda>t. map_sum id (\<lambda>l. ((), t\<lparr>sg_log := l\<rparr>)) (insert_row fr_seq
       \<lparr>fr_seq = seq, fr_repo = en_repo ev, fr_frame = frame, fr_created_at = created_at\<rparr> (sg_log t)))) (\<lambda>_.
     dbind (dmodify (\<lambda>t. t\<lparr>sg_sockets := map (\<lambda>ws. snd (ws_send frame ws)) (sg_sockets t)\<rparr>)) (\<lambda>_.
     dbind (dtry (publish_to_indexer P seq ev)) (\<lambda>_.
     dret (WkJson 200 (Object [(''ok'', Bool True), (''seq'', Number seq)]))))))))))))"

subsection \<open>Subscribe\<close>

fun send_all :: "bytes list \<Rightarrow> WebSocket \<Rightarrow> WebSocket" where
  "send_all [] ws = ws"
| "send_all (f # fs) ws = send_all fs (snd (ws_send f ws))"

text \<open>The socket is accepted before the backlog is read; a failing statement leaves it accepted. The response is the other end.\<close>

definition sequencer_subscribe :: "WebSocket \<Rightarrow> int option \<Rightarrow> (SequencerDO, unit) dop" where
  "sequencer_subscribe server cursor =
     dbind (dmodify (\<lambda>t. t\<lparr>sg_sockets := sg_sockets t @ [server]\<rparr>)) (\<lambda>_.
     case cursor of
       None \<Rightarrow> dret ()
     | Some after \<Rightarrow>
         dbind sg_sql (\<lambda>_.
         dbind (sql_select (\<lambda>t. map fr_frame (sort_key fr_seq (filter (\<lambda>r. fr_seq r > after) (sg_log t))))) (\<lambda>rows.
         dmodify (\<lambda>t. t\<lparr>sg_sockets := butlast (sg_sockets t) @ [send_all rows (last (sg_sockets t))]\<rparr>))))"

subsection \<open>Requests\<close>

fun de_ops :: "json list \<Rightarrow> string + EnqueueOp list" where
  "de_ops [] = Ok []"
| "de_ops (v # vs) =
     and_then (de_string v ''action'') (\<lambda>action. and_then (de_string v ''path'') (\<lambda>path. and_then (de_opt_string v ''cid'') (\<lambda>cid.
     and_then (de_ops vs) (\<lambda>ps.
     Ok (\<lparr>eo_action = action, eo_path = path, eo_cid = cid, eo_record = (case json_get v ''record'' of Some Null \<Rightarrow> None | r \<Rightarrow> r)\<rparr> # ps)))))"

definition de_enqueue :: "json \<Rightarrow> string + EnqueueReq" where
  "de_enqueue v = and_then (de_string v ''repo'') (\<lambda>repo. and_then (de_string v ''commit'') (\<lambda>commit. and_then (de_string v ''rev'') (\<lambda>r.
     and_then (de_opt_string v ''since'') (\<lambda>since.
     and_then (case json_get v ''blocks_b64'' of None \<Rightarrow> Ok [] | Some _ \<Rightarrow> de_string v ''blocks_b64'') (\<lambda>blocks.
     and_then (case json_get v ''ops'' of None \<Rightarrow> Ok [] | Some (Array vs) \<Rightarrow> de_ops vs | Some _ \<Rightarrow> Err ''invalid type: ops'') (\<lambda>ops.
     and_then (de_bool_or False v ''too_big'') (\<lambda>big.
     Ok \<lparr>en_repo = repo, en_commit = commit, en_rev = r, en_since = since, en_blocks_b64 = blocks, en_ops = ops, en_too_big = big\<rparr>)))))))"

definition sequencer_cursor :: "(string \<times> string) list \<Rightarrow> int option" where
  "sequencer_cursor query_pairs = Option.bind (map_of query_pairs ''cursor'') parse_i64"

text \<open>A subscription's response is the client's end of the pair, \<open>None\<close> here.\<close>

definition sequencer_route ::
  "'x worker_prims_scheme \<Rightarrow> WebSocket \<Rightarrow> string \<Rightarrow> (string \<times> string) list \<Rightarrow> string + json \<Rightarrow> (SequencerDO, wk_response option) dop" where
  "sequencer_route P server path query_pairs req_json =
     (if path = ''/xrpc/com.atproto.sync.subscribeRepos'' then
        dbind (sequencer_subscribe server (sequencer_cursor query_pairs)) (\<lambda>_. dret None)
      else if path = ''/enqueue'' \<or> path = ''/_test-inject'' then
        dbind (dlift (and_then req_json de_enqueue)) (\<lambda>ev. dbind (enqueue P ev) (\<lambda>resp. dret (Some resp)))
      else dret (Some (WkText 404 ''unknown sequencer endpoint'')))"

definition sequencer_fetch ::
  "'x worker_prims_scheme \<Rightarrow> WebSocket \<Rightarrow> string \<Rightarrow> (string \<times> string) list \<Rightarrow> string + json \<Rightarrow> SequencerDO DurableSql \<Rightarrow> wk_response option \<times> SequencerDO DurableSql" where
  "sequencer_fetch P server path query_pairs req_json d = (case sequencer_route P server path query_pairs req_json d of
     (Inr resp, d) \<Rightarrow> (resp, d) | (Inl e, d) \<Rightarrow> (Some (WkText 500 (''sequencer error: '' @ e)), d))"

end
