(* ===== verification/Worker_Handlers.thy ===== *)
theory Worker_Handlers
  imports Worker_Store Worker_Sequencer Embedded_Repo
begin

text \<open>
  The HTTP surface of an account's Durable Object (\<open>rust-worker/src/handlers.rs\<close>, \<open>plc.rs\<close>): discovery, registration, sessions,
  device-approval sign-in, preferences, repository reads and writes, blobs and the two proxies. Each handler is a program over the object's
  store; a storage call is one step, and other requests to the object may run between two steps. The protocol logic is that of
  \<open>stelyph-core\<close>, modelled in the theories below this one.
\<close>

subsection \<open>Environment\<close>

text \<open>What the deployment provides: outgoing HTTP, the sequencer's endpoint, the random generator's \<open>gen_range\<close>.\<close>

record fetch_response =
  fx_status :: nat
  fx_body :: bytes
  fx_content_type :: "string option"

type_synonym do_world = "DoStore DurableSql world"
type_synonym 'a wh = "(do_world, string + 'a) async"

record worker_env =
  we_fetch :: "string \<Rightarrow> string option \<Rightarrow> fetch_response wh" \<comment> \<open>GET of a URL with a bearer token\<close>
  we_post :: "string \<Rightarrow> string \<Rightarrow> nat wh" \<comment> \<open>POST of a JSON body, the status\<close>
  we_sequencer :: "string \<Rightarrow> json \<Rightarrow> json wh" \<comment> \<open>\<open>call_do\<close> on the sequencer's stub\<close>
  we_gen_range :: "nat \<Rightarrow> (do_world, nat) async"

record handler_prims = worker_prims +
  plc_op_text :: "PlcGenesisOpSigned \<Rightarrow> string + string" \<comment> \<open>\<open>serde_json::to_string\<close>\<close>
  display_blob_error :: "BlobError \<Rightarrow> string"

definition cid_from_str :: "'x worker_prims_scheme \<Rightarrow> string \<Rightarrow> Cid option" where
  "cid_from_str P s = (case cid_try_from P s of Inr c \<Rightarrow> Some c | Inl _ \<Rightarrow> None)"

definition wk_store :: "'x worker_prims_scheme \<Rightarrow> DoStore DurableSql StorageBackend" where
  "wk_store P = do_backend (cid_to_string P) (cid_from_str P)"

definition wdb :: "'x worker_prims_scheme \<Rightarrow> string \<Rightarrow> (DoStore DurableSql, 'a) sop \<Rightarrow> 'a wh" where
  "wdb P what op = abind (db op) (\<lambda>r. Ready (map_err (\<lambda>e. what @ '': '' @ display_storage_error P e) r))"

definition core_text :: "CoreError \<Rightarrow> string" where
  "core_text e = (case e of CoreError.ExpiredToken \<Rightarrow> ''expired token'' | CoreError.InvalidToken \<Rightarrow> ''invalid token'' | CoreError.Internal m \<Rightarrow> ''internal error: '' @ m)"

definition repo_text :: "'x worker_prims_scheme \<Rightarrow> RepoError \<Rightarrow> string" where
  "repo_text P e = (case e of RepoStorage e \<Rightarrow> ''storage error: '' @ display_storage_error P e
     | RepoRepo m \<Rightarrow> ''atrium repo error: '' @ m | RepoCrypto m \<Rightarrow> ''crypto error: '' @ m)"

definition wrepo :: "'x worker_prims_scheme \<Rightarrow> string \<Rightarrow> (do_world, RepoError + 'a) async \<Rightarrow> 'a wh" where
  "wrepo P what p = abind p (\<lambda>r. Ready (map_err (\<lambda>e. what @ '': '' @ repo_text P e) r))"

definition xrpc_err :: "nat \<Rightarrow> string \<Rightarrow> string \<Rightarrow> wk_response" where
  "xrpc_err status error message = WkJson status (Object [(''error'', String error), (''message'', String message)])"

definition json_err :: "nat \<Rightarrow> string \<Rightarrow> string \<Rightarrow> wk_response" where
  "json_err status error message = WkJson status (Object [(''error'', String error), (''message'', String message)])"

definition opt_json :: "string option \<Rightarrow> json" where
  "opt_json s = (case s of Some s \<Rightarrow> String s | None \<Rightarrow> Null)"

record Ctx =
  cx_issuer :: string
  cx_service_did :: string

definition Ctx_from_host :: "string \<Rightarrow> Ctx" where
  "Ctx_from_host hostname = \<lparr>cx_issuer = ''https://'' @ hostname, cx_service_did = ''did:web:'' @ hostname\<rparr>"

subsection \<open>Discovery and identity\<close>

definition wk_oauth_as_metadata :: "Ctx \<Rightarrow> wk_response" where
  "wk_oauth_as_metadata ctx = WkAsMetadata (AuthorizationServerMetadata_new (cx_issuer ctx))"

definition wk_oauth_protected_resource :: "Ctx \<Rightarrow> wk_response" where
  "wk_oauth_protected_resource ctx = WkResource (ProtectedResourceMetadata_new (cx_issuer ctx))"

definition wk_describe_server :: "Ctx \<Rightarrow> string \<Rightarrow> bool \<Rightarrow> wk_response" where
  "wk_describe_server ctx zone_suffix open = WkJson 200 (Object [(''did'', String (cx_service_did ctx)),
     (''availableUserDomains'', Array [String (''.'' @ zone_suffix)]), (''inviteCodeRequired'', Bool (\<not> open)), (''links'', Object [])])"

definition wk_load_or_create_signing_key :: "'x worker_prims_scheme \<Rightarrow> bytes \<Rightarrow> SigningKey wh" where
  "wk_load_or_create_signing_key P passphrase =
     abind (load_key P (key_ops (wk_store P)) ''oauth#as-signing'' passphrase) (\<lambda>r.
     case (case r of Inr scalar \<Rightarrow> (case SigningKey_import P scalar of Inr key \<Rightarrow> Some key | Inl _ \<Rightarrow> None) | Inl _ \<Rightarrow> None) of
       Some key \<Rightarrow> Ready (Ok key)
     | None \<Rightarrow>
         abind (SigningKey_generate P) (\<lambda>key.
         abind (store_key P (key_ops (wk_store P)) ''oauth#as-signing'' (sk_inner key) passphrase) (\<lambda>r.
         try_ok (map_err (\<lambda>e. ''persist OAuth signing key: '' @ display_storage_error P e) r) (\<lambda>_. Ready (Ok key)))))"

definition wk_jwks :: "'x worker_prims_scheme \<Rightarrow> bytes \<Rightarrow> wk_response wh" where
  "wk_jwks P passphrase = await_ok (wk_load_or_create_signing_key P passphrase) (\<lambda>key. Ready (Ok (WkJwks [public_jwk P key])))"

definition wk_atproto_did :: "'x worker_prims_scheme \<Rightarrow> string \<Rightarrow> wk_response wh" where
  "wk_atproto_did P hostname = await_ok (wdb P ''handle lookup'' (do_get_did_by_handle hostname)) (\<lambda>did.
     Ready (Ok (case did of Some did \<Rightarrow> WkText 200 did | None \<Rightarrow> WkText 404 ''no account for this handle'')))"

definition wk_resolve_handle :: "'x worker_prims_scheme \<Rightarrow> string \<Rightarrow> wk_response wh" where
  "wk_resolve_handle P handle = await_ok (wdb P ''handle lookup'' (do_get_did_by_handle (to_ascii_lowercase handle))) (\<lambda>did.
     Ready (Ok (case did of Some did \<Rightarrow> WkJson 200 (Object [(''did'', String did)]) | None \<Rightarrow> xrpc_err 404 ''HandleNotFound'' ''Unable to resolve handle'')))"

definition wk_did_web_document :: "Ctx \<Rightarrow> wk_response" where
  "wk_did_web_document ctx = WkJson 200 (Object [
     (''@context'', Array [String ''https://www.w3.org/ns/did/v1'', String ''https://w3id.org/security/multikey/v1'']),
     (''id'', String (cx_service_did ctx)),
     (''service'', Array [Object [(''id'', String ''#atproto_pds''), (''type'', String ''AtprotoPersonalDataServer''), (''serviceEndpoint'', String (cx_issuer ctx))]])])"

subsection \<open>Registration\<close>

definition plc_post :: "'x handler_prims_scheme \<Rightarrow> worker_env \<Rightarrow> string \<Rightarrow> DoStore DurableSql PlcClient" where
  "plc_post P E directory_url did op =
     (let url = directory_url @ ''/'' @ did in
      try_ok (map_err (\<lambda>e. CoreError.Internal (''serialize plc op: '' @ e)) (plc_op_text P op)) (\<lambda>body.
      abind (we_post E url body) (\<lambda>r.
      try_ok (map_err (\<lambda>e. CoreError.Internal (''plc.directory POST failed: '' @ e)) r) (\<lambda>status.
      Ready (if 200 \<le> status \<and> status < 300 then Ok () else Err (CoreError.Internal (''plc.directory returned '' @ display_status P status)))))))"

datatype ProvisionOutcome = Created string string string | Rejected string string

definition provision_account ::
  "'x handler_prims_scheme \<Rightarrow> worker_env \<Rightarrow> Ctx \<Rightarrow> string \<Rightarrow> string option \<Rightarrow> string \<Rightarrow> bytes \<Rightarrow> bytes \<Rightarrow> string \<Rightarrow> ProvisionOutcome wh" where
  "provision_account P E ctx handle email password passphrase jwt_secret plc_directory =
     (if length password < 8 then Ready (Ok (Rejected ''InvalidRequest'' ''Password must be at least 8 characters.''))
      else await_ok (wdb P ''count accounts'' do_count_accounts) (\<lambda>existing.
      if existing > 0 then Ready (Ok (Rejected ''HandleNotAvailable'' ''That handle already has an account.''))
      else abind (keypair_create P) (\<lambda>signing.
      abind (keypair_create P) (\<lambda>rotation.
      abind (register_did_plc P handle (cx_issuer ctx) signing rotation (plc_post P E plc_directory)) (\<lambda>r. case r of
        Inl e \<Rightarrow> Ready (Ok (Rejected ''UpstreamFailure'' (''Could not register your identity: '' @ core_text e)))
      | Inr did \<Rightarrow>
          abind (hash_password P password) (\<lambda>r. try_ok (map_err (\<lambda>e. ''hash password: '' @ core_text e) r) (\<lambda>phc.
          await_ok (wdb P ''insert account'' (do_count_and_insert_account did handle email phc)) (\<lambda>_.
          abind (store_key P (key_ops (wk_store P)) (did @ ''#signing'') signing passphrase) (\<lambda>r.
          try_ok (map_err (\<lambda>e. ''store signing key: '' @ display_storage_error P e) r) (\<lambda>_.
          abind (store_key P (key_ops (wk_store P)) (did @ ''#rotation'') rotation passphrase) (\<lambda>r.
          try_ok (map_err (\<lambda>e. ''store rotation key: '' @ display_storage_error P e) r) (\<lambda>_.
          abind now_unix (\<lambda>now.
          try_ok (map_err (\<lambda>e. ''access jwt: '' @ core_text e) (encode_access_jwt_at P did jwt_secret now)) (\<lambda>access_jwt.
          abind now_unix (\<lambda>now.
          abind (encode_refresh_jwt_at P did jwt_secret now) (\<lambda>r.
          try_ok (map_err (\<lambda>e. ''refresh jwt: '' @ core_text e) r) (\<lambda>refresh_jwt.
          Ready (Ok (Created did access_jwt refresh_jwt)))))))))))))))))))"

definition wk_delete_account :: "'x worker_prims_scheme \<Rightarrow> wk_response wh" where
  "wk_delete_account P = await_ok (wdb P ''list accounts'' do_list_accounts) (\<lambda>accounts. case accounts of
     [] \<Rightarrow> Ready (Ok (WkJson 200 (Object [(''ok'', Bool False), (''error'', String ''NoAccount'')])))
   | account # _ \<Rightarrow>
       await_ok (wdb P ''delete account data'' (do_delete_account_data (sum_did account))) (\<lambda>_.
       Ready (Ok (WkJson 200 (Object [(''ok'', Bool True), (''did'', String (sum_did account)),
         (''handle'', String (case sum_handle account of Some h \<Rightarrow> h | None \<Rightarrow> []))])))))"

subsection \<open>Sign-in with an enrolled device\<close>

definition SIGNIN_TTL_SECS :: nat where
  "SIGNIN_TTL_SECS = 300"

definition wk_random_token :: "'x worker_prims_scheme \<Rightarrow> (do_world, string) async" where
  "wk_random_token P = abind (fill_bytes 24) (\<lambda>b. Ready (to_ascii_lowercase (base32_nopad P b)))"

fun gen_chars :: "worker_env \<Rightarrow> string \<Rightarrow> nat \<Rightarrow> (do_world, string) async" where
  "gen_chars E alphabet 0 = Ready []"
| "gen_chars E alphabet (Suc n) = abind (we_gen_range E (length alphabet)) (\<lambda>i. abind (gen_chars E alphabet n) (\<lambda>cs. Ready (alphabet ! i # cs)))"

definition gen_user_code :: "worker_env \<Rightarrow> (do_world, string) async" where
  "gen_user_code E = abind (gen_chars E ''ABCDEFGHJKLMNPQRSTUVWXYZ'' 4) (\<lambda>l. abind (gen_chars E ''0123456789'' 4) (\<lambda>d. Ready (l @ ''-'' @ d)))"

definition device_register :: "'x worker_prims_scheme \<Rightarrow> string \<Rightarrow> string \<Rightarrow> string \<Rightarrow> string \<Rightarrow> wk_response wh" where
  "device_register P handle password device_did_key label =
     (if \<not> starts_with device_did_key ''did:key:z'' then Ready (Ok (json_err 400 ''InvalidRequest'' ''deviceDidKey must be a did:key.''))
      else await_ok (wdb P ''account lookup'' (do_get_account_by_handle handle)) (\<lambda>account. case account of
        None \<Rightarrow> Ready (Ok (json_err 401 ''Unauthorized'' ''Handle or password is incorrect.''))
      | Some (_, phc) \<Rightarrow>
          if verify_password P password phc \<noteq> Ok True then Ready (Ok (json_err 401 ''Unauthorized'' ''Handle or password is incorrect.''))
          else abind (wk_random_token P) (\<lambda>device_id.
            await_ok (wdb P ''register device'' (do_register_device device_id device_did_key label)) (\<lambda>_.
            Ready (Ok (WkJson 200 (Object [(''deviceId'', String device_id)])))))))"

definition signin_start :: "'x worker_prims_scheme \<Rightarrow> worker_env \<Rightarrow> string \<Rightarrow> wk_response wh" where
  "signin_start P E client_name =
     abind (wk_random_token P) (\<lambda>request_id.
     abind (gen_user_code E) (\<lambda>code.
     abind now_unix (\<lambda>now.
     await_ok (wdb P ''create signin'' (do_create_signin request_id code client_name (now + SIGNIN_TTL_SECS))) (\<lambda>_.
     abind now_unix (\<lambda>now.
     Ready (Ok (WkJson 200 (Object [(''requestId'', String request_id), (''userCode'', String code),
       (''challenge'', String (base64 P (approval_challenge request_id code))), (''expiresAt'', Number (int (now + SIGNIN_TTL_SECS)))])))))))) "

definition signin_pending :: "'x worker_prims_scheme \<Rightarrow> wk_response wh" where
  "signin_pending P = abind now_unix (\<lambda>now. await_ok (wdb P ''list pending'' (do_list_pending_signins now)) (\<lambda>pending.
     Ready (Ok (WkJson 200 (Object [(''pending'', Array (map (\<lambda>p. Object [(''request_id'', String (pd_request_id p)), (''user_code'', String (pd_user_code p)),
       (''client_name'', String (pd_client_name p)), (''created_at'', String (pd_created_at p))]) pending))])))))"

definition signin_poll :: "'x worker_prims_scheme \<Rightarrow> string \<Rightarrow> wk_response wh" where
  "signin_poll P request_id = await_ok (wdb P ''get signin'' (do_get_signin request_id)) (\<lambda>row. case row of
     None \<Rightarrow> Ready (Ok (json_err 404 ''NotFound'' ''No such sign-in request.''))
   | Some row \<Rightarrow> abind now_unix (\<lambda>now.
       let status = (if sn_status row = ''pending'' \<and> as_u64 (sn_expires_at row) < now then ''expired'' else sn_status row) in
       Ready (Ok (WkJson 200 (Object ((''status'', String status) # (if status = ''approved'' then
         [(''did'', opt_json (sn_did row)), (''handle'', opt_json (sn_handle row)), (''accessJwt'', opt_json (sn_access_jwt row)),
          (''refreshJwt'', opt_json (sn_refresh_jwt row))] else [])))))))"

definition device_verify :: "'x worker_prims_scheme \<Rightarrow> string \<Rightarrow> string \<Rightarrow> string \<Rightarrow> bytes \<Rightarrow> bool" where
  "device_verify P = verify_approval (\<lambda>k m s. \<not> is_err (did_key_verify P k m s))"

definition device_approve :: "'x worker_prims_scheme \<Rightarrow> string \<Rightarrow> string \<Rightarrow> bytes \<Rightarrow> bytes \<Rightarrow> wk_response wh" where
  "device_approve P request_id device_id signature jwt_secret =
     await_ok (wdb P ''get signin'' (do_get_signin request_id)) (\<lambda>row. case row of
       None \<Rightarrow> Ready (Ok (json_err 404 ''NotFound'' ''No such sign-in request.''))
     | Some row \<Rightarrow>
         if sn_status row \<noteq> ''pending'' then Ready (Ok (json_err 409 ''AlreadyDecided'' ''This sign-in is no longer pending.''))
         else abind now_unix (\<lambda>now.
         if as_u64 (sn_expires_at row) < now then Ready (Ok (json_err 410 ''Expired'' ''This sign-in has expired.''))
         else await_ok (wdb P ''device lookup'' (do_device_did_key device_id)) (\<lambda>did_key. case did_key of
           None \<Rightarrow> Ready (Ok (json_err 401 ''Unauthorized'' ''Unknown device.''))
         | Some did_key \<Rightarrow>
             if \<not> device_verify P did_key request_id (sn_user_code row) signature
             then Ready (Ok (json_err 401 ''Unauthorized'' ''Approval signature did not verify.''))
             else await_ok (wdb P ''list accounts'' do_list_accounts) (\<lambda>accounts. case accounts of
               [] \<Rightarrow> Ready (Ok (json_err 409 ''NoAccount'' ''This host has no account to sign in to.''))
             | a # _ \<Rightarrow>
                 let did = sum_did a; handle = (case sum_handle a of Some h \<Rightarrow> h | None \<Rightarrow> []) in
                 abind now_unix (\<lambda>now.
                 try_ok (map_err (\<lambda>e. ''access jwt: '' @ core_text e) (encode_access_jwt_at P did jwt_secret now)) (\<lambda>access.
                 abind now_unix (\<lambda>now.
                 abind (encode_refresh_jwt_at P did jwt_secret now) (\<lambda>r.
                 try_ok (map_err (\<lambda>e. ''refresh jwt: '' @ core_text e) r) (\<lambda>refresh.
                 await_ok (wdb P ''approve signin'' (do_approve_signin request_id did handle access refresh)) (\<lambda>_.
                 Ready (Ok (WkJson 200 (Object [(''ok'', Bool True)])))))))))))))"

definition device_deny :: "'x worker_prims_scheme \<Rightarrow> string \<Rightarrow> string \<Rightarrow> bytes \<Rightarrow> wk_response wh" where
  "device_deny P request_id device_id signature =
     await_ok (wdb P ''get signin'' (do_get_signin request_id)) (\<lambda>row. case row of
       None \<Rightarrow> Ready (Ok (json_err 404 ''NotFound'' ''No such sign-in request.''))
     | Some row \<Rightarrow>
         if sn_status row \<noteq> ''pending'' then Ready (Ok (json_err 409 ''AlreadyDecided'' ''This sign-in is no longer pending.''))
         else await_ok (wdb P ''device lookup'' (do_device_did_key device_id)) (\<lambda>did_key. case did_key of
           None \<Rightarrow> Ready (Ok (json_err 401 ''Unauthorized'' ''Unknown device.''))
         | Some did_key \<Rightarrow>
             if \<not> device_verify P did_key request_id (sn_user_code row) signature
             then Ready (Ok (json_err 401 ''Unauthorized'' ''Signature did not verify.''))
             else await_ok (wdb P ''deny signin'' (do_deny_signin request_id)) (\<lambda>_.
               Ready (Ok (WkJson 200 (Object [(''ok'', Bool True)]))))))"

subsection \<open>Sessions and preferences\<close>

definition wk_create_session :: "'x worker_prims_scheme \<Rightarrow> string \<Rightarrow> string \<Rightarrow> bytes \<Rightarrow> wk_response wh" where
  "wk_create_session P identifier password jwt_secret =
     (let refused = xrpc_err 401 ''AuthenticationRequired'' ''Invalid identifier or password.'' in
      await_ok (wdb P ''list accounts'' do_list_accounts) (\<lambda>accounts. case accounts of
        [] \<Rightarrow> Ready (Ok refused)
      | account # _ \<Rightarrow>
          let did = sum_did account; handle = (case sum_handle account of Some h \<Rightarrow> h | None \<Rightarrow> []); ident = to_ascii_lowercase identifier in
          if ident \<noteq> to_ascii_lowercase handle \<and> ident \<noteq> to_ascii_lowercase did then Ready (Ok refused)
          else await_ok (wdb P ''load phc'' (do_account_password_phc did)) (\<lambda>phc.
            if \<not> (case phc of Some p \<Rightarrow> verify_password P password p = Ok True | None \<Rightarrow> False) then Ready (Ok refused)
            else abind now_unix (\<lambda>now.
              try_ok (map_err (\<lambda>e. ''access jwt: '' @ core_text e) (encode_access_jwt_at P did jwt_secret now)) (\<lambda>access.
              abind (encode_refresh_jwt_at P did jwt_secret now) (\<lambda>r.
              try_ok (map_err (\<lambda>e. ''refresh jwt: '' @ core_text e) r) (\<lambda>refresh.
              Ready (Ok (WkJson 200 (Object [(''did'', String did), (''handle'', String handle), (''accessJwt'', String access),
                (''refreshJwt'', String refresh), (''active'', Bool True)]))))))))))"

text \<open>\<open>bearer.and_then(|t| decode_jwt(t, jwt_secret).ok()).map(|c| c.sub)\<close>.\<close>

definition bearer_did :: "'x worker_prims_scheme \<Rightarrow> string option \<Rightarrow> bytes \<Rightarrow> (do_world, string option) async" where
  "bearer_did P bearer jwt_secret = (case bearer of None \<Rightarrow> Ready None
     | Some t \<Rightarrow> abind (decode_jwt P t jwt_secret) (\<lambda>r. Ready (case r of Inr claims \<Rightarrow> Some (ac_sub claims) | Inl _ \<Rightarrow> None)))"

definition invalid_token :: wk_response where
  "invalid_token = xrpc_err 401 ''AuthenticationRequired'' ''Invalid token.''"

definition wk_get_preferences :: "'x worker_prims_scheme \<Rightarrow> string option \<Rightarrow> bytes \<Rightarrow> wk_response wh" where
  "wk_get_preferences P bearer jwt_secret = abind (bearer_did P bearer jwt_secret) (\<lambda>did. case did of
     None \<Rightarrow> Ready (Ok invalid_token)
   | Some did \<Rightarrow> await_ok (wdb P ''get prefs'' (do_get_preferences did)) (\<lambda>prefs.
       let arr = (case prefs of None \<Rightarrow> Array [] | Some s \<Rightarrow> (case json_from_str P s of Inr v \<Rightarrow> v | Inl _ \<Rightarrow> Array [])) in
       Ready (Ok (WkJson 200 (Object [(''preferences'', arr)])))))"

definition wk_put_preferences :: "'x worker_prims_scheme \<Rightarrow> string option \<Rightarrow> bytes \<Rightarrow> string \<Rightarrow> wk_response wh" where
  "wk_put_preferences P bearer jwt_secret body = abind (bearer_did P bearer jwt_secret) (\<lambda>did. case did of
     None \<Rightarrow> Ready (Ok invalid_token)
   | Some did \<Rightarrow>
       let prefs = (case json_from_str P body of Inr v \<Rightarrow> (case json_get v ''preferences'' of Some p \<Rightarrow> p | None \<Rightarrow> Array []) | Inl _ \<Rightarrow> Array []) in
       await_ok (wdb P ''put prefs'' (do_upsert_preferences did (json_to_text P prefs))) (\<lambda>_.
       Ready (Ok (WkJson 200 (Object [])))))"

definition wk_get_session :: "'x worker_prims_scheme \<Rightarrow> string option \<Rightarrow> bytes \<Rightarrow> wk_response wh" where
  "wk_get_session P bearer jwt_secret = (case bearer of
     None \<Rightarrow> Ready (Ok (xrpc_err 401 ''AuthenticationRequired'' ''Missing bearer token.''))
   | Some t \<Rightarrow> abind (decode_jwt P t jwt_secret) (\<lambda>r. case r of
       Inl _ \<Rightarrow> Ready (Ok invalid_token)
     | Inr claims \<Rightarrow> await_ok (wdb P ''handle lookup'' (do_get_handle_by_did (ac_sub claims))) (\<lambda>handle.
         Ready (Ok (WkJson 200 (Object [(''did'', String (ac_sub claims)), (''handle'', String (case handle of Some h \<Rightarrow> h | None \<Rightarrow> [])), (''active'', Bool True)]))))))"

subsection \<open>Proxies\<close>

definition relay :: "fetch_response \<Rightarrow> wk_response" where
  "relay x = WkRaw (fx_status x) [(''content-type'', case fx_content_type x of Some ct \<Rightarrow> ct | None \<Rightarrow> ''application/json'')] (fx_body x)"

definition xrpc_url :: "string \<Rightarrow> string \<Rightarrow> string \<Rightarrow> string" where
  "xrpc_url base nsid query = base @ ''/xrpc/'' @ nsid @ (if query = [] then [] else ''?'' @ query)"

definition proxy_appview :: "'x worker_prims_scheme \<Rightarrow> worker_env \<Rightarrow> string option \<Rightarrow> bytes \<Rightarrow> bytes \<Rightarrow> string \<Rightarrow> string \<Rightarrow> wk_response wh" where
  "proxy_appview P E bearer jwt_secret passphrase nsid query =
     (let (target_did, target_url) = (if starts_with nsid ''chat.bsky.'' then (''did:web:api.bsky.chat'', ''https://api.bsky.chat'')
            else (''did:web:api.bsky.app'', ''https://api.bsky.app'')) in
      abind (bearer_did P bearer jwt_secret) (\<lambda>did. case did of
        None \<Rightarrow> Ready (Ok invalid_token)
      | Some did \<Rightarrow>
          abind (load_key P (key_ops (wk_store P)) (did @ ''#signing'') passphrase) (\<lambda>r.
          try_ok (map_err (\<lambda>e. ''load signing key: '' @ display_storage_error P e) r) (\<lambda>scalar.
          try_ok (map_err (\<lambda>e. ''import key: '' @ e) (k256_import P scalar)) (\<lambda>key.
          abind now_unix (\<lambda>now.
          abind (mint_service_auth_jwt_at P key did target_did (Some nsid) (now + 60) now) (\<lambda>r.
          try_ok (map_err (\<lambda>e. ''mint service auth: '' @ e) r) (\<lambda>tok.
          await_ok (we_fetch E (xrpc_url target_url nsid query) (Some tok)) (\<lambda>x. Ready (Ok (relay x)))))))))))"

definition proxy_own_appview :: "worker_env \<Rightarrow> string \<Rightarrow> string \<Rightarrow> string \<Rightarrow> wk_response wh" where
  "proxy_own_appview E appview_url nsid query = await_ok (we_fetch E (xrpc_url appview_url nsid query) None) (\<lambda>x. Ready (Ok (relay x)))"

subsection \<open>Repository reads and blobs\<close>

definition wk_sole_account_did :: "'x worker_prims_scheme \<Rightarrow> string option wh" where
  "wk_sole_account_did P = await_ok (wdb P ''list accounts'' do_list_accounts) (\<lambda>accounts.
     Ready (Ok (case accounts of a # _ \<Rightarrow> Some (sum_did a) | [] \<Rightarrow> None)))"

definition for_sole_account :: "'x worker_prims_scheme \<Rightarrow> (string \<Rightarrow> wk_response wh) \<Rightarrow> wk_response wh" where
  "for_sole_account P k = await_ok (wk_sole_account_did P) (\<lambda>did. case did of
     None \<Rightarrow> Ready (Ok (xrpc_err 404 ''RepoNotFound'' ''No account on this host.'')) | Some did \<Rightarrow> k did)"

definition wk_describe_repo :: "'x worker_prims_scheme \<Rightarrow> Ctx \<Rightarrow> string \<Rightarrow> wk_response wh" where
  "wk_describe_repo P ctx hostname = await_ok (wdb P ''list accounts'' do_list_accounts) (\<lambda>accounts. case accounts of
     [] \<Rightarrow> Ready (Ok (json_err 404 ''RepoNotFound'' ''No account on this host.''))
   | account # _ \<Rightarrow>
       let did = sum_did account; handle = (case sum_handle account of Some h \<Rightarrow> h | None \<Rightarrow> hostname);
           did_doc = Object [(''@context'', Array [String ''https://www.w3.org/ns/did/v1'']), (''id'', String did),
             (''alsoKnownAs'', Array [String (''at://'' @ handle)]),
             (''service'', Array [Object [(''id'', String ''#atproto_pds''), (''type'', String ''AtprotoPersonalDataServer''), (''serviceEndpoint'', String (cx_issuer ctx))]])] in
       await_ok (wrepo P ''list_collections'' (list_collections P (wk_store P) did)) (\<lambda>collections.
       Ready (Ok (WkJson 200 (Object [(''handle'', String handle), (''did'', String did), (''didDoc'', did_doc),
         (''collections'', Array (map String collections)), (''handleIsCorrect'', Bool True)])))))"

definition entry_json :: "'x worker_prims_scheme \<Rightarrow> string \<Rightarrow> RecordEntry \<Rightarrow> json" where
  "entry_json P did r = Object [(''uri'', String (''at://'' @ did @ ''/'' @ re_key r)), (''cid'', String (cid_to_string P (re_cid r))), (''value'', re_value r)]"

definition wk_get_record :: "'x worker_prims_scheme \<Rightarrow> string \<Rightarrow> string \<Rightarrow> wk_response wh" where
  "wk_get_record P collection rkey = for_sole_account P (\<lambda>did.
     await_ok (wrepo P ''get_record'' (get_record P (wk_store P) did (collection @ ''/'' @ rkey))) (\<lambda>found.
     Ready (Ok (case found of None \<Rightarrow> xrpc_err 404 ''RecordNotFound'' ''Record not found.'' | Some entry \<Rightarrow> WkJson 200 (entry_json P did entry)))))"

definition wk_list_records :: "'x worker_prims_scheme \<Rightarrow> string \<Rightarrow> nat option \<Rightarrow> string option \<Rightarrow> wk_response wh" where
  "wk_list_records P collection limit cursor = for_sole_account P (\<lambda>did.
     await_ok (wrepo P ''list_records'' (list_records P (wk_store P) did collection (case limit of Some l \<Rightarrow> l | None \<Rightarrow> 50) cursor)) (\<lambda>page.
     Ready (Ok (WkJson 200 (Object [(''records'', Array (map (entry_json P did) (pg_records page))), (''cursor'', opt_json (pg_cursor page))])))))"

definition wk_get_latest_commit :: "'x worker_prims_scheme \<Rightarrow> wk_response wh" where
  "wk_get_latest_commit P = for_sole_account P (\<lambda>did.
     await_ok (wrepo P ''latest_commit'' (latest_commit P (wk_store P) did)) (\<lambda>found.
     Ready (Ok (case found of None \<Rightarrow> xrpc_err 400 ''RepoNotFound'' ''Repo has no commits.''
       | Some (cid, r) \<Rightarrow> WkJson 200 (Object [(''cid'', String (cid_to_string P cid)), (''rev'', String r)])))))"

definition wk_get_repo :: "'x worker_prims_scheme \<Rightarrow> wk_response wh" where
  "wk_get_repo P = for_sole_account P (\<lambda>did.
     await_ok (wrepo P ''export_car'' (export_car P (wk_store P) did)) (\<lambda>found.
     Ready (Ok (case found of None \<Rightarrow> xrpc_err 400 ''RepoNotFound'' ''Repo has no commits.''
       | Some e \<Rightarrow> WkRaw 200 [(''content-type'', ''application/vnd.ipld.car''), (''atproto-repo-rev'', ex_rev e)] (ex_car e)))))"

definition wk_upload_blob :: "'x handler_prims_scheme \<Rightarrow> string option \<Rightarrow> bytes \<Rightarrow> string \<Rightarrow> bytes \<Rightarrow> wk_response wh" where
  "wk_upload_blob P bearer jwt_secret mime_type b = abind (bearer_did P bearer jwt_secret) (\<lambda>did. case did of
     None \<Rightarrow> Ready (Ok invalid_token)
   | Some did \<Rightarrow> abind (store_blob P (blob_ops (wk_store P)) did mime_type b) (\<lambda>r. Ready (case r of
       Inr blob \<Rightarrow> Ok (WkJson 200 (Object [(''blob'', to_lex_json P blob)]))
     | Inl EmptyBlob \<Rightarrow> Ok (xrpc_err 400 ''InvalidRequest'' ''Blob is empty.'')
     | Inl (TooLarge n) \<Rightarrow> Ok (xrpc_err 413 ''InvalidRequest'' (display_blob_error P (TooLarge n)))
     | Inl (BlobStorage e) \<Rightarrow> Err (''store blob: '' @ display_storage_error P e))))"

definition wk_get_blob :: "'x worker_prims_scheme \<Rightarrow> string \<Rightarrow> wk_response wh" where
  "wk_get_blob P cid = for_sole_account P (\<lambda>did.
     await_ok (wdb P ''get_blob'' (do_get_blob did cid)) (\<lambda>found.
     Ready (Ok (case found of None \<Rightarrow> xrpc_err 404 ''BlobNotFound'' ''Blob not found.''
       | Some (mime_type, b) \<Rightarrow> WkRaw 200 [(''content-type'', mime_type)] b))))"

definition wk_list_blobs :: "'x worker_prims_scheme \<Rightarrow> nat option \<Rightarrow> string option \<Rightarrow> wk_response wh" where
  "wk_list_blobs P limit cursor = for_sole_account P (\<lambda>did.
     let limit = min (max (case limit of Some l \<Rightarrow> l | None \<Rightarrow> 500) 1) 1000 in
     await_ok (wdb P ''list_blobs'' (do_list_blobs did limit cursor)) (\<lambda>cids.
     let nxt = (if length cids = limit then (if cids = [] then None else Some (last cids)) else None) in
     Ready (Ok (WkJson 200 (Object [(''cids'', Array (map String cids)), (''cursor'', opt_json nxt)])))))"

subsection \<open>Repository writes\<close>

text \<open>A client-visible rejection is a value; what the sequencer is to be told is the other one.\<close>

record Sequenced =
  sd_uri :: string
  sd_cid :: string
  sd_body :: CommitBody
  sd_records :: "json option list"

type_synonym 'a written = "(wk_response + 'a) wh"

definition bad_request :: "string \<Rightarrow> wk_response" where
  "bad_request message = xrpc_err 400 ''InvalidRequest'' message"

definition reject :: "wk_response \<Rightarrow> 'a written" where
  "reject resp = Ready (Ok (Err resp))"

definition wk_signing_key :: "'x worker_prims_scheme \<Rightarrow> string \<Rightarrow> bytes \<Rightarrow> bytes wh" where
  "wk_signing_key P did passphrase =
     abind (load_key P (key_ops (wk_store P)) (did @ ''#signing'') passphrase) (\<lambda>r.
     try_ok (map_err (\<lambda>e. ''load signing key: '' @ display_storage_error P e) r) (\<lambda>scalar.
     Ready (map_err (\<lambda>e. ''import signing key: '' @ e) (k256_import P scalar))))"

definition writer_for :: "'x worker_prims_scheme \<Rightarrow> bytes \<Rightarrow> string \<Rightarrow> string + DoStore DurableSql RepoWriter" where
  "writer_for P key did = map_sum (\<lambda>e. ''bad account DID: '' @ e) (\<lambda>did. \<lparr>rw_store = wk_store P, rw_signing_key = key, rw_did = did\<rparr>) (did_from_str P did)"

text \<open>\<open>tid_from_micros(Date::now().as_millis() * 1_000)\<close>: the clock in whole milliseconds.\<close>

definition rkey_now :: "(do_world, string) async" where
  "rkey_now = abind now_micros (\<lambda>us. Ready (tid_from_micros (of_nat (us div 1000) * 1000)))"

definition wk_create_record :: "'x worker_prims_scheme \<Rightarrow> string option \<Rightarrow> bytes \<Rightarrow> bytes \<Rightarrow> string \<Rightarrow> Sequenced written" where
  "wk_create_record P bearer jwt_secret passphrase body = abind (bearer_did P bearer jwt_secret) (\<lambda>did. case did of
     None \<Rightarrow> reject invalid_token
   | Some did \<Rightarrow> (case json_from_str P body of
       Inl _ \<Rightarrow> reject (bad_request ''Malformed body.'')
     | Inr input \<Rightarrow>
         if as_str (json_index input ''repo'') \<noteq> Some did then reject (bad_request ''repo must match the authenticated DID.'')
         else (case as_str (json_index input ''collection'') of
           None \<Rightarrow> reject (bad_request ''collection is required.'')
         | Some collection \<Rightarrow> (case validate_collection collection of
             Inl msg \<Rightarrow> reject (bad_request msg)
           | Inr _ \<Rightarrow> abind (case as_str (json_index input ''rkey'') of
               Some rk \<Rightarrow> Ready (map_sum id (\<lambda>_. rk) (validate_rkey rk))
             | None \<Rightarrow> abind rkey_now (\<lambda>rk. Ready (Ok rk))) (\<lambda>r. case r of
             Inl msg \<Rightarrow> reject (bad_request msg)
           | Inr rkey \<Rightarrow>
               let record' = json_index input ''record'' in
               if record' = Null then reject (bad_request ''record is required.'')
               else (case json_value_to_ipld P record' of
                 Inl _ \<Rightarrow> reject (bad_request ''record is not encodable as IPLD.'')
               | Inr ipld \<Rightarrow>
                   await_ok (wk_signing_key P did passphrase) (\<lambda>key.
                   try_ok (writer_for P key did) (\<lambda>writer.
                   await_ok (wrepo P ''repo write failed'' (apply_one_parts P writer (Create (collection @ ''/'' @ rkey) ipld))) (\<lambda>(_, commit).
                   try_ok (ok_or ''create op yielded no record cid'' (case cb_ops commit of op # _ \<Rightarrow> op_cid op | [] \<Rightarrow> None)) (\<lambda>record_cid.
                   Ready (Ok (Ok \<lparr>sd_uri = ''at://'' @ did @ ''/'' @ collection @ ''/'' @ rkey, sd_cid = cid_to_string P record_cid, sd_body = commit,
                     sd_records = [Some record']\<rparr>))))))))))))"

definition write_preamble :: "'x worker_prims_scheme \<Rightarrow> string option \<Rightarrow> bytes \<Rightarrow> bytes \<Rightarrow> json \<Rightarrow> (string \<times> bytes \<times> string \<times> string) written" where
  "write_preamble P bearer jwt_secret passphrase input = abind (bearer_did P bearer jwt_secret) (\<lambda>did. case did of
     None \<Rightarrow> reject invalid_token
   | Some did \<Rightarrow>
       if as_str (json_index input ''repo'') \<noteq> Some did then reject (bad_request ''repo must match the authenticated DID.'')
       else (case as_str (json_index input ''collection'') of
         None \<Rightarrow> reject (bad_request ''collection is required.'')
       | Some collection \<Rightarrow> (case validate_collection collection of
           Inl msg \<Rightarrow> reject (bad_request msg)
         | Inr _ \<Rightarrow> (case as_str (json_index input ''rkey'') of
             None \<Rightarrow> reject (bad_request ''rkey is required.'')
           | Some rkey \<Rightarrow> (case validate_rkey rkey of
               Inl msg \<Rightarrow> reject (bad_request msg)
             | Inr _ \<Rightarrow> await_ok (wk_signing_key P did passphrase) (\<lambda>key. Ready (Ok (Ok (did, key, collection, rkey)))))))))"

definition wk_put_record :: "'x worker_prims_scheme \<Rightarrow> string option \<Rightarrow> bytes \<Rightarrow> bytes \<Rightarrow> string \<Rightarrow> Sequenced written" where
  "wk_put_record P bearer jwt_secret passphrase body = (case json_from_str P body of
     Inl _ \<Rightarrow> reject (bad_request ''Malformed body.'')
   | Inr input \<Rightarrow> await_ok (write_preamble P bearer jwt_secret passphrase input) (\<lambda>r. case r of
       Inl resp \<Rightarrow> reject resp
     | Inr (did, key, collection, rkey) \<Rightarrow>
         let record' = json_index input ''record''; mst_key = collection @ ''/'' @ rkey in
         if record' = Null then reject (bad_request ''record is required.'')
         else (case json_value_to_ipld P record' of
           Inl _ \<Rightarrow> reject (bad_request ''record is not encodable as IPLD.'')
         | Inr ipld \<Rightarrow>
             await_ok (wrepo P ''lookup existing'' (get_record P (wk_store P) did mst_key)) (\<lambda>found.
             try_ok (writer_for P key did) (\<lambda>writer.
             await_ok (wrepo P ''repo write failed'' (apply_one_parts P writer (if found \<noteq> None then Update mst_key ipld else Create mst_key ipld))) (\<lambda>(_, commit).
             try_ok (ok_or ''write yielded no record cid'' (case cb_ops commit of op # _ \<Rightarrow> op_cid op | [] \<Rightarrow> None)) (\<lambda>record_cid.
             Ready (Ok (Ok \<lparr>sd_uri = ''at://'' @ did @ ''/'' @ mst_key, sd_cid = cid_to_string P record_cid, sd_body = commit, sd_records = [Some record']\<rparr>))))))))) "

definition wk_delete_record :: "'x worker_prims_scheme \<Rightarrow> string option \<Rightarrow> bytes \<Rightarrow> bytes \<Rightarrow> string \<Rightarrow> Sequenced option written" where
  "wk_delete_record P bearer jwt_secret passphrase body = (case json_from_str P body of
     Inl _ \<Rightarrow> reject (bad_request ''Malformed body.'')
   | Inr input \<Rightarrow> await_ok (write_preamble P bearer jwt_secret passphrase input) (\<lambda>r. case r of
       Inl resp \<Rightarrow> reject resp
     | Inr (did, key, collection, rkey) \<Rightarrow>
         let mst_key = collection @ ''/'' @ rkey in
         await_ok (wrepo P ''lookup existing'' (get_record P (wk_store P) did mst_key)) (\<lambda>found.
         if found = None then Ready (Ok (Ok None))
         else try_ok (writer_for P key did) (\<lambda>writer.
           await_ok (wrepo P ''repo delete failed'' (apply_one_parts P writer (Delete mst_key))) (\<lambda>(_, commit).
           Ready (Ok (Ok (Some \<lparr>sd_uri = ''at://'' @ did @ ''/'' @ mst_key, sd_cid = [], sd_body = commit, sd_records = [None]\<rparr>))))))))"

text \<open>One write of a batch: its operation, its URI and the record for the indexer.\<close>

definition wk_batch_write :: "'x worker_prims_scheme \<Rightarrow> string \<Rightarrow> json \<Rightarrow> (do_world, string + WriteOp \<times> string \<times> json option) async" where
  "wk_batch_write P did w =
     (let kind = (case as_str (json_index w ''$type'') of Some k \<Rightarrow> k | None \<Rightarrow> []) in
      try_ok (ok_or ''each write needs a collection.'' (as_str (json_index w ''collection''))) (\<lambda>collection.
      try_ok (validate_collection collection) (\<lambda>_.
      await_ok (case as_str (json_index w ''rkey'') of
          Some rk \<Rightarrow> Ready (map_sum id (\<lambda>_. rk) (validate_rkey rk))
        | None \<Rightarrow> if ends_with kind ''#create'' then abind rkey_now (\<lambda>rk. Ready (Ok rk))
            else Ready (Err ''rkey is required for update and delete.'')) (\<lambda>rkey.
      let key = collection @ ''/'' @ rkey; uri = ''at://'' @ did @ ''/'' @ key in
      if ends_with kind ''#delete'' then Ready (Ok (Delete key, uri, None))
      else let value = json_index w ''value'' in
        if value = Null then Ready (Err ''create and update need a value.'')
        else (case json_value_to_ipld P value of
          Inl _ \<Rightarrow> Ready (Err ''value is not encodable as IPLD.'')
        | Inr ipld \<Rightarrow>
            if ends_with kind ''#update'' then Ready (Ok (Update key ipld, uri, Some value))
            else if ends_with kind ''#create'' then Ready (Ok (Create key ipld, uri, Some value))
            else Ready (Err ''each write must be a create, update or delete.''))))))"

fun wk_batch_writes :: "'x worker_prims_scheme \<Rightarrow> string \<Rightarrow> json list \<Rightarrow> (do_world, string + (WriteOp \<times> string \<times> json option) list) async" where
  "wk_batch_writes P did [] = Ready (Ok [])"
| "wk_batch_writes P did (w # ws) = await_ok (wk_batch_write P did w) (\<lambda>x. await_ok (wk_batch_writes P did ws) (\<lambda>xs. Ready (Ok (x # xs))))"

record BatchSequenced =
  bs_results :: "json list"
  bs_body :: CommitBody
  bs_records :: "json option list"

definition batch_result :: "'x worker_prims_scheme \<Rightarrow> WriteOutcome \<Rightarrow> string \<Rightarrow> json" where
  "batch_result P out uri =
     (if wo_action out = ''delete'' then Object [(''$type'', String ''com.atproto.repo.applyWrites#deleteResult'')]
      else Object [(''$type'', String (''com.atproto.repo.applyWrites#'' @ wo_action out @ ''Result'')), (''uri'', String uri),
        (''cid'', opt_json (map_option (cid_to_string P) (wo_record_cid out))), (''validationStatus'', String ''unknown'')])"

definition wk_apply_writes :: "'x worker_prims_scheme \<Rightarrow> string option \<Rightarrow> bytes \<Rightarrow> bytes \<Rightarrow> string \<Rightarrow> BatchSequenced written" where
  "wk_apply_writes P bearer jwt_secret passphrase body = abind (bearer_did P bearer jwt_secret) (\<lambda>did. case did of
     None \<Rightarrow> reject invalid_token
   | Some did \<Rightarrow> (case json_from_str P body of
       Inl _ \<Rightarrow> reject (bad_request ''Malformed body.'')
     | Inr input \<Rightarrow>
         if as_str (json_index input ''repo'') \<noteq> Some did then reject (bad_request ''repo must match the authenticated DID.'')
         else (case as_array (json_index input ''writes'') of
           None \<Rightarrow> reject (bad_request ''writes must be an array.'')
         | Some ws \<Rightarrow>
             if ws = [] then reject (bad_request ''writes must not be empty.'')
             else abind (wk_batch_writes P did ws) (\<lambda>r. case r of
               Inl msg \<Rightarrow> reject (bad_request msg)
             | Inr batch \<Rightarrow>
                 await_ok (wk_signing_key P did passphrase) (\<lambda>key.
                 try_ok (writer_for P key did) (\<lambda>writer.
                 await_ok (wrepo P ''batch write failed'' (apply_many_parts P writer (map fst batch))) (\<lambda>(outcomes, commit).
                 Ready (Ok (Ok \<lparr>bs_results = map (\<lambda>(out, _, uri, _). batch_result P out uri) (zip outcomes batch), bs_body = commit,
                   bs_records = map (\<lambda>(_, _, r). r) batch\<rparr>)))))))))"

end
