(* ===== verification/Worker_Durable.thy ===== *)
theory Worker_Durable
  imports Worker_Handlers
begin

text \<open>
  The account's Durable Object as it is addressed (\<open>rust-worker/src/durable.rs\<close>): the request it is handed, its routes, what a commit hands to
  the sequencer and the health probe. Every route that needs the store opens it anew, which applies the schema; an error anywhere is answered
  with a 500.
\<close>

subsection \<open>Requests and configuration\<close>

datatype http_method = GET | POST | PUT | PATCH | DELETE | HEAD | OPTIONS | OTHER_METHOD

record stub_request =
  rq_method :: http_method
  rq_url :: string
  rq_host :: "string option" \<comment> \<open>\<open>X-Stelyph-Host\<close>\<close>
  rq_authorization :: "string option"
  rq_content_type :: "string option"
  rq_upgrade :: "string option"
  rq_body :: bytes

text \<open>The variables and secrets of the deployment, \<open>None\<close> when unset.\<close>

record pds_vars =
  PDS_ZONE_SUFFIX :: "string option"
  PDS_SIGNUP_HOST :: "string option"
  PDS_OPEN_REGISTRATION :: "string option"
  PDS_ADMIN_TOKEN :: "string option"
  PDS_JWT_SECRET :: "string option"
  PDS_KEY_PASSPHRASE :: "string option"
  PDS_PLC_DIRECTORY :: "string option"
  PDS_APPVIEW_URL :: "string option"
  PDS_APPVIEW_DID :: "string option"

definition zone_suffix :: "pds_vars \<Rightarrow> string" where
  "zone_suffix V = (case PDS_ZONE_SUFFIX V of Some v \<Rightarrow> v | None \<Rightarrow> ''invalid'')"

definition open_registration :: "pds_vars \<Rightarrow> bool" where
  "open_registration V = (PDS_OPEN_REGISTRATION V = Some ''true'')"

definition plc_directory :: "pds_vars \<Rightarrow> string" where
  "plc_directory V = (case PDS_PLC_DIRECTORY V of Some v \<Rightarrow> v | None \<Rightarrow> ''https://plc.directory'')"

definition non_empty :: "string option \<Rightarrow> string option" where
  "non_empty v = (if v = Some [] then None else v)"

definition own_appview_url :: "pds_vars \<Rightarrow> string option" where
  "own_appview_url V = non_empty (PDS_APPVIEW_URL V)"

definition own_appview_did :: "pds_vars \<Rightarrow> string option" where
  "own_appview_did V = non_empty (PDS_APPVIEW_DID V)"

definition wk_jwt_secret :: "pds_vars \<Rightarrow> string + bytes" where
  "wk_jwt_secret V = map_sum id as_bytes (ok_or ''PDS_JWT_SECRET secret is not set'' (PDS_JWT_SECRET V))"

definition wk_key_passphrase :: "pds_vars \<Rightarrow> string + bytes" where
  "wk_key_passphrase V = map_sum id as_bytes (ok_or ''PDS_KEY_PASSPHRASE secret is not set'' (PDS_KEY_PASSPHRASE V))"

definition rq_bearer :: "stub_request \<Rightarrow> string option" where
  "rq_bearer req = Option.bind (rq_authorization req) (\<lambda>v. strip_prefix v ''Bearer '')"

definition rq_json :: "'x worker_prims_scheme \<Rightarrow> stub_request \<Rightarrow> string + json" where
  "rq_json P req = json_from_bytes P (rq_body req)"

definition rq_text :: "'x worker_prims_scheme \<Rightarrow> stub_request \<Rightarrow> string" where
  "rq_text P req = from_utf8_lossy P (rq_body req)"

definition decode_b64 :: "'x worker_prims_scheme \<Rightarrow> string \<Rightarrow> string + bytes" where
  "decode_b64 P s = map_err (\<lambda>_. ''signature is not valid base64'') (base64_decode P s)"

definition de_string_or :: "string \<Rightarrow> json \<Rightarrow> string \<Rightarrow> string + string" where
  "de_string_or dflt v k = (case json_get v k of None \<Rightarrow> Ok dflt | Some _ \<Rightarrow> de_string v k)"

definition de_device_decision :: "json \<Rightarrow> string + string \<times> string \<times> string" where
  "de_device_decision v = and_then (de_string v ''requestId'') (\<lambda>r. and_then (de_string v ''deviceId'') (\<lambda>d.
     and_then (de_string v ''signature'') (\<lambda>s. Ok (r, d, s))))"

definition de_device_register :: "json \<Rightarrow> string + string \<times> string \<times> string \<times> string" where
  "de_device_register v = and_then (de_string v ''handle'') (\<lambda>h. and_then (de_string v ''password'') (\<lambda>p.
     and_then (de_string v ''deviceDidKey'') (\<lambda>k. and_then (de_string_or [] v ''label'') (\<lambda>l. Ok (h, p, k, l)))))"

definition de_provision :: "json \<Rightarrow> string + string \<times> string option \<times> string" where
  "de_provision v = and_then (de_string v ''handle'') (\<lambda>h. and_then (de_opt_string v ''email'') (\<lambda>m.
     and_then (de_string v ''password'') (\<lambda>p. Ok (h, m, p))))"

definition de_create_session :: "json \<Rightarrow> string + string \<times> string" where
  "de_create_session v = and_then (de_string v ''identifier'') (\<lambda>i. and_then (de_string v ''password'') (\<lambda>p. Ok (i, p)))"

subsection \<open>Storage and the sequencer\<close>

text \<open>\<open>self.store()?\<close>, then the route.\<close>

definition with_store :: "'x worker_prims_scheme \<Rightarrow> 'a wh \<Rightarrow> 'a wh" where
  "with_store P k = await_ok (wdb P ''schema migration failed'' do_migrate) (\<lambda>_. k)"

text \<open>A commit's operation with its record; the record list is padded with \<open>None\<close>.\<close>

definition op_payload :: "'x worker_prims_scheme \<Rightarrow> RepoOp \<Rightarrow> json option \<Rightarrow> json" where
  "op_payload P op r = Object [(''action'', String (op_action op)), (''path'', String (op_path op)),
     (''cid'', opt_json (map_option (cid_to_string P) (op_cid op))), (''record'', case r of Some v \<Rightarrow> v | None \<Rightarrow> Null)]"

definition commit_payload :: "'x worker_prims_scheme \<Rightarrow> CommitBody \<Rightarrow> json option list \<Rightarrow> json" where
  "commit_payload P body records = Object [
     (''repo'', String (cb_repo body)), (''commit'', String (cid_to_string P (cb_commit body))), (''rev'', String (cb_rev body)),
     (''since'', opt_json (cb_since body)), (''blocks_b64'', String (base64 P (cb_blocks body))),
     (''ops'', Array (map (\<lambda>(op, r). op_payload P op r) (zip (cb_ops body) (records @ replicate (length (cb_ops body)) None)))),
     (''too_big'', Bool (cb_too_big body))]"

definition enqueue_commit :: "'x worker_prims_scheme \<Rightarrow> worker_env \<Rightarrow> CommitBody \<Rightarrow> json option list \<Rightarrow> unit wh" where
  "enqueue_commit P E body records = await_ok (we_sequencer E ''/enqueue'' (commit_payload P body records)) (\<lambda>_. Ready (Ok ()))"

text \<open>A failure to enqueue is logged; the response stands.\<close>

definition sequenced :: "'x worker_prims_scheme \<Rightarrow> worker_env \<Rightarrow> CommitBody \<Rightarrow> json option list \<Rightarrow> json \<Rightarrow> wk_response wh" where
  "sequenced P E body records resp = abind (enqueue_commit P E body records) (\<lambda>_. Ready (Ok (WkJson 200 resp)))"

subsection \<open>Health\<close>

fun decimal :: "nat \<Rightarrow> string" where
  "decimal n = (if n < 10 then [char_of (48 + n)] else decimal (n div 10) @ [char_of (48 + n mod 10)])"

declare decimal.simps [simp del]

definition health_sql :: "'x worker_prims_scheme \<Rightarrow> (do_world, bool \<times> string) async" where
  "health_sql P =
     (let payload = as_bytes ''stelyph health probe''; cid = cid_of P 0x71 payload; R = repo_ops (wk_store P) in
      abind (db (put_block R cid payload)) (\<lambda>r. case r of
        Inl e \<Rightarrow> Ready (False, ''write failed: '' @ display_storage_error P e)
      | Inr _ \<Rightarrow> abind (db (read_block_bytes R cid)) (\<lambda>r. Ready (case r of
          Inl e \<Rightarrow> (False, ''read failed: '' @ display_storage_error P e)
        | Inr b \<Rightarrow> if b = payload then (True, []) else
            (False, ''read back '' @ decimal (length b) @ '' bytes, expected '' @ decimal (length payload))))))"

definition health_r2 :: "'x worker_prims_scheme \<Rightarrow> (do_world, bool) async" where
  "health_r2 P =
     (let B = blob_ops (wk_store P) in
      abind (db (put_blob B ''did:plc:health'' ''probe'' ''text/plain'' 5 (as_bytes ''probe''))) (\<lambda>r. case r of
        Inl _ \<Rightarrow> Ready False
      | Inr _ \<Rightarrow> abind (db (get_blob B ''did:plc:health'' ''probe'')) (\<lambda>r. Ready (r = Ok (Some (''text/plain'', as_bytes ''probe''))))))"

definition health :: "'x worker_prims_scheme \<Rightarrow> wk_response wh" where
  "health P = with_store P (
     abind (health_sql P) (\<lambda>(sql_ok, detail).
     abind (db (max_seq (repo_ops (wk_store P)))) (\<lambda>r.
     abind (health_r2 P) (\<lambda>r2_ok.
     let seq_ok = is_ok r; healthy = (sql_ok \<and> seq_ok \<and> r2_ok) in
     Ready (Ok (WkJson (if healthy then 200 else 503) (Object [(''healthy'', Bool healthy),
       (''checks'', Object [(''do_sqlite'', Bool sql_ok), (''sequencer'', Bool seq_ok), (''r2'', Bool r2_ok)]),
       (''schema_version'', Number 6), (''detail'', String detail)])))))))"

subsection \<open>Routes\<close>

definition url_param :: "Url \<Rightarrow> string \<Rightarrow> string option" where
  "url_param url k = map_of (url_query_pairs url) k"

definition oauth_route :: "'x handler_prims_scheme \<Rightarrow> worker_env \<Rightarrow> pds_vars \<Rightarrow> stub_request \<Rightarrow> Url \<Rightarrow> string \<Rightarrow> wk_response wh option" where
  "oauth_route P E V req url hostname =
     (let ctx = Ctx_from_host (zone_suffix V); path = url_path url in
      if path = ''/.well-known/oauth-authorization-server'' then Some (Ready (Ok (wk_oauth_as_metadata ctx)))
      else if path = ''/.well-known/oauth-protected-resource'' then Some (Ready (Ok (wk_oauth_protected_resource ctx)))
      else if path = ''/.well-known/did.json'' then Some (Ready (Ok (wk_did_web_document ctx)))
      else if path = ''/.well-known/atproto-did'' then Some (with_store P (wk_atproto_did P hostname))
      else if path = ''/oauth/jwks'' then Some (with_store P (try_ok (wk_key_passphrase V) (wk_jwks P)))
      else if path = ''/oauth/device/register'' then
        Some (try_ok (and_then (rq_json P req) de_device_register) (\<lambda>(handle, password, did_key, label).
          with_store P (device_register P handle password did_key label)))
      else if path = ''/oauth/signin/start'' then
        Some (try_ok (and_then (rq_json P req) (\<lambda>v. de_string_or [] v ''clientName'')) (\<lambda>client_name. with_store P (signin_start P E client_name)))
      else if path = ''/oauth/signin/poll'' then
        Some (with_store P (signin_poll P (case url_param url ''requestId'' of Some r \<Rightarrow> r | None \<Rightarrow> [])))
      else if path = ''/oauth/signin/pending'' then Some (with_store P (signin_pending P))
      else if path = ''/oauth/device/approve'' then
        Some (try_ok (and_then (rq_json P req) de_device_decision) (\<lambda>(request_id, device_id, signature).
          try_ok (decode_b64 P signature) (\<lambda>sig. with_store P (try_ok (wk_jwt_secret V) (device_approve P request_id device_id sig)))))
      else if path = ''/oauth/device/deny'' then
        Some (try_ok (and_then (rq_json P req) de_device_decision) (\<lambda>(request_id, device_id, signature).
          try_ok (decode_b64 P signature) (\<lambda>sig. with_store P (device_deny P request_id device_id sig))))
      else None)"

text \<open>The writes: \<open>Err(resp)\<close> is answered as it is, a commit is sequenced first.\<close>

definition write_route :: "'x handler_prims_scheme \<Rightarrow> worker_env \<Rightarrow> pds_vars \<Rightarrow> stub_request \<Rightarrow> string \<Rightarrow> wk_response wh option" where
  "write_route P E V req path =
     (let bearer = rq_bearer req; body = rq_text P req;
          writing = (\<lambda>h k. with_store P (try_ok (wk_jwt_secret V) (\<lambda>secret. try_ok (wk_key_passphrase V) (\<lambda>passphrase.
            await_ok (h bearer secret passphrase body) (\<lambda>r. case r of Inl resp \<Rightarrow> Ready (Ok resp) | Inr done \<Rightarrow> k done)))));
          answer = (\<lambda>s. Object [(''uri'', String (sd_uri s)), (''cid'', String (sd_cid s))]);
          stored = (\<lambda>s. sequenced P E (sd_body s) (sd_records s) (answer s)) in
      if path = ''/xrpc/com.atproto.repo.createRecord'' then Some (writing (wk_create_record P) stored)
      else if path = ''/xrpc/com.atproto.repo.putRecord'' then Some (writing (wk_put_record P) stored)
      else if path = ''/xrpc/com.atproto.repo.deleteRecord'' then
        Some (with_store P (try_ok (wk_jwt_secret V) (\<lambda>secret. try_ok (wk_key_passphrase V) (\<lambda>passphrase.
          await_ok (wk_delete_record P bearer secret passphrase body) (\<lambda>r. case r of
            Inl resp \<Rightarrow> Ready (Ok resp)
          | Inr None \<Rightarrow> Ready (Ok (WkJson 200 (Object [])))
          | Inr (Some s) \<Rightarrow> sequenced P E (sd_body s) (sd_records s) (Object []))))))
      else if path = ''/xrpc/com.atproto.repo.applyWrites'' then
        Some (with_store P (try_ok (wk_jwt_secret V) (\<lambda>secret. try_ok (wk_key_passphrase V) (\<lambda>passphrase.
          await_ok (wk_apply_writes P bearer secret passphrase body) (\<lambda>r. case r of
            Inl resp \<Rightarrow> Ready (Ok resp)
          | Inr batch \<Rightarrow> sequenced P E (bs_body batch) (bs_records batch) (Object [(''results'', Array (bs_results batch))]))))))
      else None)"

definition session_route :: "'x handler_prims_scheme \<Rightarrow> pds_vars \<Rightarrow> stub_request \<Rightarrow> string \<Rightarrow> wk_response wh option" where
  "session_route P V req path =
     (let bearer = rq_bearer req in
      if path = ''/xrpc/com.atproto.server.createSession'' then
        Some (try_ok (and_then (rq_json P req) de_create_session) (\<lambda>(identifier, password).
          with_store P (try_ok (wk_jwt_secret V) (wk_create_session P identifier password))))
      else if path = ''/xrpc/com.atproto.server.getSession'' then Some (with_store P (try_ok (wk_jwt_secret V) (wk_get_session P bearer)))
      else if path = ''/xrpc/app.bsky.actor.getPreferences'' then Some (with_store P (try_ok (wk_jwt_secret V) (wk_get_preferences P bearer)))
      else if path = ''/xrpc/app.bsky.actor.putPreferences'' then
        Some (with_store P (try_ok (wk_jwt_secret V) (\<lambda>secret. wk_put_preferences P bearer secret (rq_text P req))))
      else None)"

definition xrpc_route :: "'x handler_prims_scheme \<Rightarrow> worker_env \<Rightarrow> pds_vars \<Rightarrow> stub_request \<Rightarrow> Url \<Rightarrow> string \<Rightarrow> wk_response wh option" where
  "xrpc_route P E V req url hostname =
     (let ctx = Ctx_from_host (zone_suffix V); path = url_path url; bearer = rq_bearer req; q = url_param url;
          limit = Option.bind (q ''limit'') parse_usize; invalid = (\<lambda>m. Ready (Ok (xrpc_err 400 ''InvalidRequest'' m))) in
      if path = ''/xrpc/com.atproto.server.describeServer'' then Some (Ready (Ok (wk_describe_server ctx (zone_suffix V) (open_registration V))))
      else if path = ''/xrpc/com.atproto.identity.resolveHandle'' then
        Some (case q ''handle'' of Some handle \<Rightarrow> with_store P (wk_resolve_handle P handle) | None \<Rightarrow> invalid ''handle is required'')
      else if path = ''/xrpc/com.atproto.repo.describeRepo'' then Some (with_store P (wk_describe_repo P ctx hostname))
      else if path = ''/xrpc/com.atproto.repo.getRecord'' then
        Some (case (q ''collection'', q ''rkey'') of
          (Some collection, Some rkey) \<Rightarrow> with_store P (wk_get_record P collection rkey) | _ \<Rightarrow> invalid ''collection and rkey are required'')
      else if path = ''/xrpc/com.atproto.repo.uploadBlob'' then
        Some (with_store P (try_ok (wk_jwt_secret V) (\<lambda>secret.
          wk_upload_blob P bearer secret (case rq_content_type req of Some ct \<Rightarrow> ct | None \<Rightarrow> ''application/octet-stream'') (rq_body req))))
      else if path = ''/xrpc/com.atproto.sync.getBlob'' then
        Some (case q ''cid'' of Some cid \<Rightarrow> with_store P (wk_get_blob P cid) | None \<Rightarrow> invalid ''cid is required'')
      else if path = ''/xrpc/com.atproto.sync.listBlobs'' then Some (with_store P (wk_list_blobs P limit (q ''cursor'')))
      else if path = ''/xrpc/com.atproto.sync.getLatestCommit'' then Some (with_store P (wk_get_latest_commit P))
      else if path = ''/xrpc/com.atproto.sync.getRepo'' then Some (with_store P (wk_get_repo P))
      else if path = ''/xrpc/com.atproto.repo.listRecords'' then
        Some (case q ''collection'' of Some collection \<Rightarrow> with_store P (wk_list_records P collection limit (q ''cursor''))
          | None \<Rightarrow> invalid ''collection is required'')
      else (case session_route P V req path of Some r \<Rightarrow> Some r | None \<Rightarrow> write_route P E V req path))"

definition provision_response :: "ProvisionOutcome \<Rightarrow> json" where
  "provision_response out = (case out of
     Created did access refresh \<Rightarrow> Object [(''ok'', Bool True), (''did'', String did), (''accessJwt'', String access), (''refreshJwt'', String refresh)]
   | Rejected error message \<Rightarrow> Object [(''ok'', Bool False), (''error'', String error), (''message'', String message)])"

definition internal_route :: "'x handler_prims_scheme \<Rightarrow> worker_env \<Rightarrow> pds_vars \<Rightarrow> stub_request \<Rightarrow> string \<Rightarrow> wk_response wh option" where
  "internal_route P E V req path =
     (let ctx = Ctx_from_host (zone_suffix V) in
      if path = ''/_stelyph/provision'' then
        Some (try_ok (and_then (rq_json P req) de_provision) (\<lambda>(handle, email, password).
          with_store P (try_ok (wk_key_passphrase V) (\<lambda>passphrase. try_ok (wk_jwt_secret V) (\<lambda>secret.
            await_ok (provision_account P E ctx handle email password passphrase secret (plc_directory V)) (\<lambda>out.
            Ready (Ok (WkJson 200 (provision_response out)))))))))
      else if path = ''/_stelyph/delete-account'' then Some (with_store P (wk_delete_account P))
      else if path = ''/_stelyph/health'' then Some (health P)
      else None)"

text \<open>A feed of the deployment's own appview is told by its URI, which names the appview's DID.\<close>

definition proxy_route :: "'x handler_prims_scheme \<Rightarrow> worker_env \<Rightarrow> pds_vars \<Rightarrow> stub_request \<Rightarrow> Url \<Rightarrow> wk_response wh" where
  "proxy_route P E V req url =
     (let nsid = path_nsid (url_path url); query = (case url_query url of Some q \<Rightarrow> q | None \<Rightarrow> []);
          forwarded = try_ok (wk_jwt_secret V) (\<lambda>secret. try_ok (wk_key_passphrase V) (\<lambda>passphrase.
            proxy_appview P E (rq_bearer req) secret passphrase nsid query)) in
      with_store P (case (own_appview_url V, own_appview_did V) of
        (Some appview, Some did) \<Rightarrow>
          if nsid = ''app.bsky.feed.getFeed'' \<and> (\<exists>(k, v) \<in> set (url_query_pairs url). k = ''feed'' \<and> starts_with v (''at://'' @ did @ ''/''))
          then proxy_own_appview E appview nsid query else forwarded
      | _ \<Rightarrow> forwarded))"

definition pds_route :: "'x handler_prims_scheme \<Rightarrow> worker_env \<Rightarrow> pds_vars \<Rightarrow> stub_request \<Rightarrow> wk_response wh" where
  "pds_route P E V req = try_ok (url_parse P (rq_url req)) (\<lambda>url.
     let path = url_path url; hostname = (case rq_host req of Some h \<Rightarrow> h | None \<Rightarrow> ''unknown.invalid'') in
     case oauth_route P E V req url hostname of Some r \<Rightarrow> r
   | None \<Rightarrow> (case xrpc_route P E V req url hostname of Some r \<Rightarrow> r
   | None \<Rightarrow> (case internal_route P E V req path of Some r \<Rightarrow> r
   | None \<Rightarrow> if starts_with path ''/xrpc/app.bsky.'' \<or> starts_with path ''/xrpc/chat.bsky.'' then proxy_route P E V req url
       else Ready (Ok (xrpc_err 404 ''MethodNotImplemented'' ''unknown endpoint'')))))"

definition pds_fetch :: "'x handler_prims_scheme \<Rightarrow> worker_env \<Rightarrow> pds_vars \<Rightarrow> stub_request \<Rightarrow> (do_world, wk_response) async" where
  "pds_fetch P E V req = abind (pds_route P E V req) (\<lambda>r. Ready (case r of
     Inr resp \<Rightarrow> resp | Inl e \<Rightarrow> WkText 500 (''durable object error: '' @ e)))"

end
