(* ===== verification/Worker_Front.thy ===== *)
theory Worker_Front
  imports Worker_Durable
begin

text \<open>
  The Worker in front (\<open>rust-worker/src/lib.rs\<close>, \<open>register.rs\<close>): a router that names a Durable Object for each request, and the registration
  surface, whose gate is the registry. Its only means are requests to the objects' stubs, which are an argument here: \<open>S stub req\<close> is
  \<open>stub.fetch_with_request(req)\<close>, a call that may fail. \<open>cloud_stubs\<close> at the end connects them to the objects' own models.
\<close>

subsection \<open>Labels\<close>

definition RESERVED_LABELS :: "string list" where
  "RESERVED_LABELS = [''www'', ''api'', ''admin'', ''pds'', ''signup'', ''registry'', ''plc'', ''oauth'', ''xrpc'', ''mail'', ''ns1'', ''ns2'']"

definition validate_label :: "string \<Rightarrow> string + unit" where
  "validate_label label =
     (if label = [] then Err ''Pick a handle.''
      else if length label > 63 then Err (''That's too long '' @ map char_of [0xE2, 0x80, 0x94 :: nat] @ '' 63 characters at most.'')
      else if starts_with label ''-'' \<or> ends_with label ''-'' then Err ''Can't start or end with a hyphen.''
      else if \<not> list_all (\<lambda>c. is_ascii_alphanumeric c \<or> c = CHR ''-'') label then Err ''Letters, numbers and hyphens only.''
      else if label \<in> set RESERVED_LABELS then Err ''That name is reserved.''
      else Ok ())"

fun escape_label :: "string \<Rightarrow> string" where
  "escape_label [] = []"
| "escape_label (c # cs) = (if c = CHR ''&'' then ''&amp;'' else if c = CHR ''<'' then ''&lt;'' else if c = CHR ''>'' then ''&gt;''
     else if c = CHR 0x22 then ''&quot;'' else if c = CHR 0x27 then ''&#x27;'' else [c]) @ escape_label cs"

subsection \<open>Requests\<close>

record front_request =
  fq_method :: http_method
  fq_path :: string \<comment> \<open>\<open>path_and_query\<close>\<close>
  fq_host :: "string option"
  fq_authorization :: "string option"
  fq_content_type :: "string option"
  fq_upgrade :: "string option"
  fq_admin :: "string option" \<comment> \<open>\<open>x-stelyph-admin\<close>\<close>
  fq_acrh :: "string option" \<comment> \<open>\<open>access-control-request-headers\<close>\<close>
  fq_chunks :: "(string + bytes) list" \<comment> \<open>the body, as it arrives\<close>

definition MAX_BODY :: nat where
  "MAX_BODY = 64 * 1024"

fun read_chunks :: "nat \<Rightarrow> bytes \<Rightarrow> (string + bytes) list \<Rightarrow> string + bytes" where
  "read_chunks cap buf [] = Ok buf"
| "read_chunks cap buf (chunk # chunks) = and_then chunk (\<lambda>c.
     if length buf + length c > cap then Err ''request body too large'' else read_chunks cap (buf @ c) chunks)"

definition read_body_bytes :: "front_request \<Rightarrow> nat \<Rightarrow> string + bytes" where
  "read_body_bytes req cap = read_chunks cap [] (fq_chunks req)"

record front_prims = handler_prims +
  utf8_ok :: "bytes \<Rightarrow> bool" \<comment> \<open>\<open>String::from_utf8\<close> accepts\<close>

definition read_body :: "'x front_prims_scheme \<Rightarrow> front_request \<Rightarrow> string + string" where
  "read_body P req = and_then (read_body_bytes req MAX_BODY) (\<lambda>buf.
     if utf8_ok P buf then Ok (from_bytes buf) else Err ''request body was not UTF-8'')"

definition front_bearer :: "front_request \<Rightarrow> string option" where
  "front_bearer req = Option.bind (fq_authorization req) (\<lambda>v. strip_prefix v ''Bearer '')"

definition route_of :: "string \<Rightarrow> string" where
  "route_of path = hd (split_on CHR ''?'' path)"

definition wk_query_param :: "'x id_prims_scheme \<Rightarrow> string \<Rightarrow> string \<Rightarrow> string option" where
  "wk_query_param P query key = find_map (\<lambda>pair. Option.bind (split_once CHR ''='' pair) (\<lambda>(k, v).
     if k = key then Some (percent_decode P (map (\<lambda>c. if c = CHR ''+'' then CHR '' '' else c) v)) else None)) (split_on CHR ''&'' query)"

definition is_signup_host :: "string \<Rightarrow> string \<Rightarrow> string option \<Rightarrow> bool" where
  "is_signup_host host zone configured = (host = zone \<or> configured = Some host \<or> ends_with host ''.workers.dev'')"

text \<open>Differences are collected over the whole length.\<close>

definition wk_constant_time_eq :: "bytes \<Rightarrow> bytes \<Rightarrow> bool" where
  "wk_constant_time_eq a b = (length a = length b \<and> foldl (\<lambda>acc (x, y). or acc (xor x y)) 0 (zip a b) = 0)"

subsection \<open>Calls to Durable Objects\<close>

datatype stub = RegistryStub | SequencerStub | PdsStub string

type_synonym 'w stubs = "stub \<Rightarrow> stub_request \<Rightarrow> ('w, string + wk_response) async"

definition internal_url :: "string \<Rightarrow> string" where
  "internal_url path = ''https://stelyph.internal'' @ path"

text \<open>\<open>resp.json()\<close>; the typed documents are never asked for through a stub's JSON.\<close>

definition resp_json :: "'x worker_prims_scheme \<Rightarrow> wk_response \<Rightarrow> string + json" where
  "resp_json P resp = (case resp of WkJson _ v \<Rightarrow> Ok v | WkText _ s \<Rightarrow> json_from_str P s | WkRaw _ _ b \<Rightarrow> json_from_bytes P b
     | _ \<Rightarrow> Err ''unexpected document'')"

definition post_request :: "'x worker_prims_scheme \<Rightarrow> string option \<Rightarrow> string \<Rightarrow> json \<Rightarrow> stub_request" where
  "post_request P host path body = \<lparr>rq_method = POST, rq_url = internal_url path, rq_host = host, rq_authorization = None,
     rq_content_type = Some ''application/json'', rq_upgrade = None, rq_body = as_bytes (json_to_text P body)\<rparr>"

definition call_do :: "'x worker_prims_scheme \<Rightarrow> 'w stubs \<Rightarrow> stub \<Rightarrow> string \<Rightarrow> json \<Rightarrow> ('w, string + json) async" where
  "call_do P S stub path body = await_ok (S stub (post_request P None path body)) (\<lambda>resp. Ready (resp_json P resp))"

definition call_pds_do :: "'x worker_prims_scheme \<Rightarrow> 'w stubs \<Rightarrow> string \<Rightarrow> string \<Rightarrow> json \<Rightarrow> ('w, string + json) async" where
  "call_pds_do P S hostname path body = await_ok (S (PdsStub hostname) (post_request P (Some hostname) path body)) (\<lambda>resp. Ready (resp_json P resp))"

definition json_flag :: "json \<Rightarrow> string \<Rightarrow> bool" where
  "json_flag v k = (json_get v k = Some (Bool True))"

definition json_str_or :: "string \<Rightarrow> json \<Rightarrow> string \<Rightarrow> string" where
  "json_str_or dflt v k = (case Option.bind (json_get v k) as_str of Some s \<Rightarrow> s | None \<Rightarrow> dflt)"

subsection \<open>Registration\<close>

text \<open>Steps 2 and 3 of a sign-up: provision, then bind the DID, or give the label and the invite back.\<close>

definition provision_and_bind ::
  "'x worker_prims_scheme \<Rightarrow> 'w stubs \<Rightarrow> string \<Rightarrow> string \<Rightarrow> string option \<Rightarrow> string \<Rightarrow> ('w, string + wk_response) async" where
  "provision_and_bind P S handle label email password =
     abind (call_pds_do P S handle ''/_stelyph/provision'' (Object [(''handle'', String handle), (''email'', opt_json email),
        (''password'', String password)])) (\<lambda>provisioned.
      case (case provisioned of Inr v \<Rightarrow> if json_flag v ''ok'' then Some v else None | Inl _ \<Rightarrow> None) of
        None \<Rightarrow> abind (call_do P S RegistryStub ''/release'' (Object [(''label'', String label)])) (\<lambda>_.
          Ready (Ok (case provisioned of
            Inr v \<Rightarrow> json_err 400 (json_str_or ''InternalError'' v ''error'') (json_str_or ''Could not create the account.'' v ''message'')
          | Inl _ \<Rightarrow> json_err 400 ''InternalError'' ''Could not create the account.'')))
      | Some v \<Rightarrow>
          let did = json_str_or [] v ''did'' in
          abind (call_do P S RegistryStub ''/bind'' (Object [(''label'', String label), (''did'', String did)])) (\<lambda>_.
          Ready (Ok (WkJson 200 (Object [(''accessJwt'', String (json_str_or [] v ''accessJwt'')),
            (''refreshJwt'', String (json_str_or [] v ''refreshJwt'')), (''handle'', String handle), (''did'', String did)])))))"

definition create_account :: "'x worker_prims_scheme \<Rightarrow> 'w stubs \<Rightarrow> pds_vars \<Rightarrow> string \<Rightarrow> ('w, string + wk_response) async" where
  "create_account P S V body =
     (case and_then (json_from_str P body) (\<lambda>v. and_then (de_string v ''handle'') (\<lambda>handle. and_then (de_opt_string v ''email'') (\<lambda>email.
         and_then (de_opt_string v ''password'') (\<lambda>password. and_then (de_opt_string v ''inviteCode'') (\<lambda>code. Ok (handle, email, password, code)))))) of
       Inl _ \<Rightarrow> Ready (Ok (json_err 400 ''InvalidRequest'' ''Malformed request body.''))
     | Inr (input_handle, email, input_password, invite_code) \<Rightarrow>
         let handle = to_ascii_lowercase (str_trim input_handle); suffix = ''.'' @ zone_suffix V in
         case strip_suffix handle suffix of
           None \<Rightarrow> Ready (Ok (json_err 400 ''UnsupportedDomain'' (''Handles here end in '' @ suffix)))
         | Some label \<Rightarrow> (case validate_label label of
             Inl msg \<Rightarrow> Ready (Ok (json_err 400 ''InvalidHandle'' msg))
           | Inr _ \<Rightarrow>
               let password = (case input_password of Some p \<Rightarrow> p | None \<Rightarrow> []) in
               if length password < 8 then Ready (Ok (json_err 400 ''InvalidRequest'' ''Password must be at least 8 characters.''))
               else await_ok (call_do P S RegistryStub ''/claim'' (Object [(''label'', String label), (''invite_code'', opt_json invite_code),
                 (''open'', Bool (open_registration V))])) (\<lambda>claim.
               if \<not> json_flag claim ''ok'' then
                 let code = json_str_or ''InvalidRequest'' claim ''error'' in
                 Ready (Ok (json_err 400 code (if code = ''HandleNotAvailable'' then ''That one's taken. Try another.''
                   else if code = ''InvalidInviteCode'' then ''That invite code isn't valid.'' else ''Could not reserve that handle.'')))
               else provision_and_bind P S handle label email password)))"

definition check_handle :: "'x worker_prims_scheme \<Rightarrow> 'w stubs \<Rightarrow> string \<Rightarrow> ('w, string + wk_response) async" where
  "check_handle P S body = (case and_then (json_from_str P body) (\<lambda>v. de_string v ''label'') of
     Inl _ \<Rightarrow> Ready (Ok (json_err 400 ''InvalidRequest'' ''Expected a JSON body with a label.''))
   | Inr input_label \<Rightarrow>
       let label = to_ascii_lowercase (str_trim input_label) in
       case validate_label label of
         Inl msg \<Rightarrow> Ready (Ok (WkJson 200 (Object [(''available'', Bool False), (''message'', String msg)])))
       | Inr _ \<Rightarrow> await_ok (call_do P S RegistryStub ''/check'' (Object [(''label'', String label)])) (\<lambda>res.
           let available = json_flag res ''available'' in
           Ready (Ok (WkJson 200 (Object [(''available'', Bool available),
             (''message'', String (if available then ''Available'' else ''That one's taken. Try another.''))])))))"

subsection \<open>Administration\<close>

definition admin_gate ::
  "pds_vars \<Rightarrow> string \<Rightarrow> string \<Rightarrow> ('w, string + wk_response) async \<Rightarrow> ('w, string + wk_response) async" where
  "admin_gate V unset presented k = (case PDS_ADMIN_TOKEN V of
     None \<Rightarrow> Ready (Ok (json_err 503 ''NotConfigured'' unset))
   | Some expected \<Rightarrow> if \<not> wk_constant_time_eq (as_bytes presented) (as_bytes expected)
       then Ready (Ok (json_err 401 ''Unauthorized'' ''Not authorized.'')) else k)"

definition mint_invite :: "'x worker_prims_scheme \<Rightarrow> 'w stubs \<Rightarrow> pds_vars \<Rightarrow> string \<Rightarrow> string \<Rightarrow> ('w, string + wk_response) async" where
  "mint_invite P S V presented body = admin_gate V ''Invites are not configured.'' presented
     (case and_then (json_from_str P body) (\<lambda>v. and_then (de_string v ''code'') (\<lambda>code. and_then (de_i64_or 1 v ''uses'') (\<lambda>uses. Ok (code, uses)))) of
       Inl _ \<Rightarrow> Ready (Ok (json_err 400 ''InvalidRequest'' (''Expected {'' @ [CHR 0x22] @ ''code'' @ [CHR 0x22] @ '', '' @ [CHR 0x22] @ ''uses'' @ [CHR 0x22] @ ''}.'')))
     | Inr (code, uses) \<Rightarrow>
         if str_trim code = [] \<or> uses < 0 then Ready (Ok (json_err 400 ''InvalidRequest'' ''A code and a non-negative use count.''))
         else await_ok (call_do P S RegistryStub ''/invite'' (Object [(''code'', String code), (''uses'', Number uses)])) (\<lambda>_.
           Ready (Ok (WkJson 200 (Object [(''ok'', Bool True), (''code'', String code), (''uses'', Number uses)])))))"

definition firehose_inject :: "'x worker_prims_scheme \<Rightarrow> 'w stubs \<Rightarrow> pds_vars \<Rightarrow> string \<Rightarrow> string \<Rightarrow> ('w, string + wk_response) async" where
  "firehose_inject P S V presented body = admin_gate V ''Admin actions are not configured.'' presented
     (case json_from_str P body of
       Inl _ \<Rightarrow> Ready (Ok (json_err 400 ''InvalidRequest'' ''Malformed body.''))
     | Inr payload \<Rightarrow> await_ok (call_do P S SequencerStub ''/_test-inject'' payload) (\<lambda>res. Ready (Ok (WkJson 200 res))))"

definition delete_account :: "'x worker_prims_scheme \<Rightarrow> 'w stubs \<Rightarrow> pds_vars \<Rightarrow> string \<Rightarrow> string \<Rightarrow> ('w, string + wk_response) async" where
  "delete_account P S V presented body = admin_gate V ''Admin actions are not configured.'' presented
     (case and_then (json_from_str P body) (\<lambda>v. de_string v ''handle'') of
       Inl _ \<Rightarrow> Ready (Ok (json_err 400 ''InvalidRequest'' (''Expected {'' @ [CHR 0x22] @ ''handle'' @ [CHR 0x22] @ ''}.'')))
     | Inr input_handle \<Rightarrow>
         let handle = to_ascii_lowercase (str_trim input_handle); suffix = ''.'' @ zone_suffix V in
         case strip_suffix handle suffix of
           None \<Rightarrow> Ready (Ok (json_err 400 ''UnsupportedDomain'' (''Handles end in '' @ suffix)))
         | Some label \<Rightarrow>
             await_ok (call_pds_do P S handle ''/_stelyph/delete-account'' (Object [])) (\<lambda>wiped.
             abind (call_do P S RegistryStub ''/force-release'' (Object [(''label'', String label)])) (\<lambda>_.
             Ready (Ok (WkJson 200 (Object [(''ok'', Bool (json_flag wiped ''ok'')), (''handle'', String handle),
               (''did'', String (json_str_or [] wiped ''did'')), (''note'', String ''handle freed; DID remains on the PLC ledger (immutable)'')]))))))"

subsection \<open>Which object a request is for\<close>

definition resolve_label :: "'x worker_prims_scheme \<Rightarrow> 'w stubs \<Rightarrow> string \<Rightarrow> string \<Rightarrow> ('w, string option) async" where
  "resolve_label P S zone did = abind (call_do P S RegistryStub ''/resolve-did'' (Object [(''did'', String did)])) (\<lambda>res. Ready (case res of
     Inl _ \<Rightarrow> None
   | Inr v \<Rightarrow> map_option (\<lambda>label. label @ ''.'' @ zone) (Option.bind (json_get v ''label'') as_str)))"

definition session_target :: "'x worker_prims_scheme \<Rightarrow> 'w stubs \<Rightarrow> string \<Rightarrow> string \<Rightarrow> ('w, string option) async" where
  "session_target P S identifier zone =
     (let i = to_ascii_lowercase identifier in
      if starts_with i ''did:'' then resolve_label P S zone i
      else if ends_with i (''.'' @ zone) then Ready (Some i)
      else Ready (Some (i @ ''.'' @ zone)))"

definition REPO_SCOPED :: "string list" where
  "REPO_SCOPED = [''/xrpc/com.atproto.repo.getRecord'', ''/xrpc/com.atproto.repo.listRecords'', ''/xrpc/com.atproto.repo.describeRepo'',
     ''/xrpc/com.atproto.sync.getRepo'', ''/xrpc/com.atproto.sync.getLatestCommit'', ''/xrpc/com.atproto.sync.getBlob'', ''/xrpc/com.atproto.sync.listBlobs'']"

definition repo_scoped_target :: "'x worker_prims_scheme \<Rightarrow> 'w stubs \<Rightarrow> string \<Rightarrow> string \<Rightarrow> ('w, string option) async" where
  "repo_scoped_target P S path zone = (case split_once CHR ''?'' path of
     None \<Rightarrow> Ready None
   | Some (rt, query) \<Rightarrow>
       if rt \<notin> set REPO_SCOPED then Ready None
       else (case (case wk_query_param P query ''repo'' of Some r \<Rightarrow> Some r | None \<Rightarrow> wk_query_param P query ''did'') of
         None \<Rightarrow> Ready None
       | Some ident \<Rightarrow>
           if starts_with ident ''did:'' then resolve_label P S zone ident
           else let h = to_ascii_lowercase ident in Ready (if ends_with h (''.'' @ zone) then Some h else None)))"

definition resolve_handle_target :: "'x id_prims_scheme \<Rightarrow> string \<Rightarrow> string \<Rightarrow> string option" where
  "resolve_handle_target P path zone = Option.bind (split_once CHR ''?'' path) (\<lambda>(rt, query).
     if rt \<noteq> ''/xrpc/com.atproto.identity.resolveHandle'' then None
     else Option.bind (wk_query_param P query ''handle'') (\<lambda>h.
       let handle = to_ascii_lowercase h in if ends_with handle (''.'' @ zone) then Some handle else None))"

text \<open>The subject of a token, its signature not looked at: the object checks the token again.\<close>

definition jwt_sub :: "'x worker_prims_scheme \<Rightarrow> string \<Rightarrow> string option" where
  "jwt_sub P jwt = (case split_on CHR ''.'' jwt of
     _ # payload # _ \<Rightarrow> Option.bind (b64url_decode P payload) (\<lambda>b. (case json_from_bytes P b of
       Inr v \<Rightarrow> Option.bind (json_get v ''sub'') as_str | Inl _ \<Rightarrow> None))
   | _ \<Rightarrow> None)"

definition AUTH_ROUTES :: "string list" where
  "AUTH_ROUTES = [''/xrpc/com.atproto.server.getSession'', ''/xrpc/app.bsky.actor.getPreferences'', ''/xrpc/app.bsky.actor.putPreferences'',
     ''/xrpc/com.atproto.repo.createRecord'', ''/xrpc/com.atproto.repo.uploadBlob'', ''/xrpc/com.atproto.repo.putRecord'',
     ''/xrpc/com.atproto.repo.deleteRecord'', ''/xrpc/com.atproto.repo.applyWrites'']"

definition is_auth_route :: "string \<Rightarrow> bool" where
  "is_auth_route rt = (rt \<in> set AUTH_ROUTES \<or> starts_with rt ''/xrpc/app.bsky.'' \<or> starts_with rt ''/xrpc/chat.bsky.'')"

definition update_target :: "string \<Rightarrow> ('w, string option) async \<Rightarrow> ('w, string) async" where
  "update_target target found = abind found (\<lambda>h. Ready (case h of Some h \<Rightarrow> h | None \<Rightarrow> target))"

text \<open>The three ways a request on the shared host names its account: a parameter, the token, the body of \<open>createSession\<close>.\<close>

definition first_target :: "'x worker_prims_scheme \<Rightarrow> 'w stubs \<Rightarrow> string \<Rightarrow> string \<Rightarrow> string \<Rightarrow> ('w, string) async" where
  "first_target P S zone host path =
     (if host = zone then abind (repo_scoped_target P S path zone) (\<lambda>t. Ready (case t of
        Some h \<Rightarrow> h | None \<Rightarrow> (case resolve_handle_target P path zone of Some h \<Rightarrow> h | None \<Rightarrow> host)))
      else Ready host)"

definition auth_target :: "'x worker_prims_scheme \<Rightarrow> 'w stubs \<Rightarrow> string \<Rightarrow> string \<Rightarrow> string \<Rightarrow> string option \<Rightarrow> string \<Rightarrow> ('w, string) async" where
  "auth_target P S zone host path bearer target =
     (if host = zone \<and> is_auth_route (route_of path) then (case Option.bind bearer (jwt_sub P) of
        Some did \<Rightarrow> update_target target (session_target P S did zone) | None \<Rightarrow> Ready target)
      else Ready target)"

definition login_target ::
  "'x worker_prims_scheme \<Rightarrow> 'w stubs \<Rightarrow> string \<Rightarrow> string \<Rightarrow> front_request \<Rightarrow> bytes option \<Rightarrow> string \<Rightarrow> ('w, string) async" where
  "login_target P S zone host req prefetched target =
     (if host = zone \<and> fq_method req = POST \<and> ends_with (route_of (fq_path req)) ''/xrpc/com.atproto.server.createSession''
      then (case Option.bind prefetched (\<lambda>b. case json_from_bytes P b of Inr v \<Rightarrow> Option.bind (json_get v ''identifier'') as_str | Inl _ \<Rightarrow> None) of
        Some i \<Rightarrow> update_target target (session_target P S i zone) | None \<Rightarrow> Ready target)
      else Ready target)"

subsection \<open>Dispatch\<close>

definition forward_method :: "http_method \<Rightarrow> http_method" where
  "forward_method m = (if m = OTHER_METHOD then GET else m)"

definition has_body :: "http_method \<Rightarrow> bool" where
  "has_body m = (m = POST \<or> m = PUT \<or> m = PATCH)"

definition wk_forward :: "'x front_prims_scheme \<Rightarrow> 'w stubs \<Rightarrow> string \<Rightarrow> string \<Rightarrow> front_request \<Rightarrow> ('w, string + wk_response) async" where
  "wk_forward P S zone host req =
     (let path = fq_path req; bearer = front_bearer req in
      abind (first_target P S zone host path) (\<lambda>target.
      let cap = (if route_of path = ''/xrpc/com.atproto.repo.uploadBlob'' then MAX_BLOB_BYTES else MAX_BODY) in
      try_ok (if has_body (fq_method req) then map_sum id Some (read_body_bytes req cap) else Ok None) (\<lambda>prefetched.
      abind (auth_target P S zone host path bearer target) (\<lambda>target.
      abind (login_target P S zone host req prefetched target) (\<lambda>target.
      S (PdsStub target) \<lparr>rq_method = forward_method (fq_method req), rq_url = internal_url path, rq_host = Some target,
        rq_authorization = map_option (\<lambda>b. ''Bearer '' @ b) bearer, rq_content_type = fq_content_type req, rq_upgrade = None,
        rq_body = (case prefetched of Some b \<Rightarrow> b | None \<Rightarrow> [])\<rparr>)))))"

text \<open>The registration surface; \<open>page\<close> is the text of \<open>register::registration_page\<close>.\<close>

definition signup_surface ::
  "'x front_prims_scheme \<Rightarrow> (string \<Rightarrow> bool \<Rightarrow> string) \<Rightarrow> 'w stubs \<Rightarrow> pds_vars \<Rightarrow> front_request \<Rightarrow> ('w, string + wk_response) async option" where
  "signup_surface P page S V req =
     (let rt = route_of (fq_path req); presented = (case fq_admin req of Some t \<Rightarrow> t | None \<Rightarrow> []); with_body = try_ok (read_body P req) in
      if fq_method req = GET \<and> rt = ''/'' then
        Some (Ready (Ok (WkRaw 200 [(''content-type'', ''text/html; charset=utf-8'')] (as_bytes (page (zone_suffix V) (open_registration V))))))
      else if fq_method req \<noteq> POST then None
      else if rt = ''/register/check'' then Some (with_body (check_handle P S))
      else if rt = ''/xrpc/com.atproto.server.createAccount'' then Some (with_body (create_account P S V))
      else if rt = ''/_stelyph/admin/invite'' then Some (with_body (mint_invite P S V presented))
      else if rt = ''/_stelyph/admin/delete-account'' then Some (with_body (delete_account P S V presented))
      else if rt = ''/_stelyph/admin/firehose-inject'' then Some (with_body (firehose_inject P S V presented))
      else None)"

definition subscribe_request :: "front_request \<Rightarrow> stub_request" where
  "subscribe_request req = \<lparr>rq_method = GET, rq_url = internal_url (fq_path req), rq_host = None, rq_authorization = None,
     rq_content_type = None, rq_upgrade = fq_upgrade req, rq_body = []\<rparr>"

definition front_host :: "front_request \<Rightarrow> string" where
  "front_host req = to_ascii_lowercase (hd (split_on CHR '':'' (case fq_host req of Some h \<Rightarrow> h | None \<Rightarrow> [])))"

definition dispatch ::
  "'x front_prims_scheme \<Rightarrow> (string \<Rightarrow> bool \<Rightarrow> string) \<Rightarrow> 'w stubs \<Rightarrow> pds_vars \<Rightarrow> front_request \<Rightarrow> ('w, string + wk_response) async" where
  "dispatch P page S V req =
     (let host = front_host req; path = fq_path req; zone = zone_suffix V in
      if host = [] then Ready (Ok (WkText 400 ''missing Host header''))
      else case (if is_signup_host host zone (PDS_SIGNUP_HOST V) then signup_surface P page S V req else None) of
        Some r \<Rightarrow> r
      | None \<Rightarrow>
          if starts_with path ''/_stelyph/'' then Ready (Ok (json_err 404 ''NotFound'' ''Not found.''))
          else if ends_with (route_of path) ''/xrpc/com.atproto.sync.subscribeRepos'' then S SequencerStub (subscribe_request req)
          else wk_forward P S zone host req)"

text \<open>\<open>http::HeaderValue::from_str\<close>: visible ASCII and the tab. The response is paired with the headers stamped on it.\<close>

definition header_value_ok :: "string \<Rightarrow> bool" where
  "header_value_ok v = list_all (\<lambda>c. let n = of_char c :: nat in 32 \<le> n \<and> n < 127 \<or> n = 9) v"

definition add_cors :: "string option \<Rightarrow> (string \<times> string) list" where
  "add_cors requested =
     (let base = ''content-type,authorization,atproto-accept-labelers,atproto-proxy'' in
      [(''access-control-allow-origin'', ''*''), (''access-control-allow-methods'', ''GET,POST,OPTIONS''),
       (''access-control-allow-headers'', case requested of Some v \<Rightarrow> if header_value_ok v then v else base | None \<Rightarrow> base),
       (''access-control-max-age'', ''86400'')])"

definition front_fetch ::
  "'x front_prims_scheme \<Rightarrow> (string \<Rightarrow> bool \<Rightarrow> string) \<Rightarrow> 'w stubs \<Rightarrow> pds_vars \<Rightarrow> front_request \<Rightarrow> ('w, string + wk_response \<times> (string \<times> string) list) async" where
  "front_fetch P page S V req =
     (if fq_method req = OPTIONS then Ready (Ok (WkRaw 204 [] [], add_cors (fq_acrh req)))
      else await_ok (dispatch P page S V req) (\<lambda>resp. Ready (Ok (resp, add_cors None))))"

subsection \<open>The deployment\<close>

text \<open>
  One registry, one sequencer and an object per host name. A call may be lost on its way, or its reply may be; which, is told by the state.
  A subscription's reply is the other end of the socket pair.
\<close>

datatype fate = Delivered | RequestLost | ReplyLost

record cloud =
  cl_registry :: "Registry DurableSql"
  cl_sequencer :: "SequencerDO DurableSql"
  cl_pds :: "string \<Rightarrow> do_world"
  cl_socket :: WebSocket \<comment> \<open>the server end of the next pair\<close>
  cl_fate :: "nat \<Rightarrow> fate"
  cl_calls :: nat

definition registry_object :: "'x worker_prims_scheme \<Rightarrow> stub_request \<Rightarrow> (cloud, wk_response) async" where
  "registry_object P req = atomic (\<lambda>c. let path = (case url_parse P (rq_url req) of Inr u \<Rightarrow> url_path u | Inl _ \<Rightarrow> []);
     (resp, d) = registry_fetch path (json_from_bytes P (rq_body req)) (cl_registry c) in (resp, c\<lparr>cl_registry := d\<rparr>))"

definition sequencer_object :: "'x worker_prims_scheme \<Rightarrow> stub_request \<Rightarrow> (cloud, wk_response) async" where
  "sequencer_object P req = atomic (\<lambda>c.
     let (path, pairs) = (case url_parse P (rq_url req) of Inr u \<Rightarrow> (url_path u, url_query_pairs u) | Inl _ \<Rightarrow> ([], []));
       (resp, d) = sequencer_fetch P (cl_socket c) path pairs (json_from_bytes P (rq_body req)) (cl_sequencer c) in
     (case resp of Some r \<Rightarrow> r | None \<Rightarrow> WkRaw 101 [] [], c\<lparr>cl_sequencer := d\<rparr>))"

definition pds_object :: "'x front_prims_scheme \<Rightarrow> worker_env \<Rightarrow> pds_vars \<Rightarrow> string \<Rightarrow> stub_request \<Rightarrow> (cloud, wk_response) async" where
  "pds_object P E V host req =
     lift_async (\<lambda>c. cl_pds c host) (\<lambda>w c. c\<lparr>cl_pds := (cl_pds c)(host := w)\<rparr>) (pds_fetch P E V req)"

definition next_fate :: "(cloud, fate) async" where
  "next_fate = atomic (\<lambda>c. (cl_fate c (cl_calls c), c\<lparr>cl_calls := Suc (cl_calls c)\<rparr>))"

definition cloud_stubs :: "'x front_prims_scheme \<Rightarrow> worker_env \<Rightarrow> pds_vars \<Rightarrow> cloud stubs" where
  "cloud_stubs P E V stub req = abind next_fate (\<lambda>fate.
     if fate = RequestLost then Ready (Err ''network connection lost'')
     else abind (case stub of RegistryStub \<Rightarrow> registry_object P req | SequencerStub \<Rightarrow> sequencer_object P req
         | PdsStub host \<Rightarrow> pds_object P E V host req) (\<lambda>resp.
       Ready (if fate = Delivered then Ok resp else Err ''network connection lost'')))"

end
