(* ===== verification/Worker_Store_Laws.thy ===== *)
theory Worker_Store_Laws
  imports Worker_Store Storage_Laws
begin

text \<open>
  The Durable Object's store meets the contract of the storage traits as long as its statements succeed: each operation simulates the one
  of the SQLite backend on the same rows, with the blobs joined from their metadata and the bucket.
\<close>

subsection \<open>The rows as a SQLite database\<close>

definition joined_blob :: "(string \<times> bytes) list \<Rightarrow> blob_refs_row \<Rightarrow> blobs_row" where
  "joined_blob r2 r = \<lparr>bl_did = br_did r, bl_cid = br_cid r, bl_mime_type = br_mime_type r, bl_size = br_size r,
     bl_bytes = (case tbl fst r2 (r2_key (br_did r) (br_cid r)) of Some (_, b) \<Rightarrow> b | None \<Rightarrow> []), bl_created_at = br_created_at r\<rparr>"

definition sq_of :: "string \<Rightarrow> DoStore \<Rightarrow> SqliteStore" where
  "sq_of now t = \<lparr>q_blocks = dw_blocks t, q_repo_seq = dw_repo_seq t, q_sequence = (case dw_seq_counter t of Some n \<Rightarrow> n | None \<Rightarrow> 0),
     q_accounts = dw_accounts t, q_keys = dw_keys t, q_invites = dw_invites t, q_invite_uses = dw_invite_uses t,
     q_repo_roots = dw_repo_roots t, q_preferences = dw_preferences t, q_blobs = map (joined_blob (dw_r2 t)) (dw_blob_refs t),
     q_oauth_par = dw_oauth_par t, q_oauth_auth_codes = dw_oauth_auth_codes t, q_oauth_refresh_tokens = dw_oauth_refresh_tokens t,
     q_oauth_dpop_jti = dw_oauth_dpop_jti t, q_utc_now = now, q_faults = (\<lambda>_. None), q_calls = 0\<rparr>"

text \<open>What the tables satisfy beyond the SQLite invariant: the counter row is there, the flag column is a flag, and every blob
  that has metadata has its bytes in the bucket.\<close>

definition do_rows_ok :: "DoStore \<Rightarrow> bool" where
  "do_rows_ok t = (dw_seq_counter t \<noteq> None \<and> (\<forall>r \<in> set (dw_invites t). iv_disabled r = 0 \<or> iv_disabled r = 1) \<and>
     (\<forall>r \<in> set (dw_blob_refs t). CHR ''/'' \<notin> set (br_cid r) \<and> tbl fst (dw_r2 t) (r2_key (br_did r) (br_cid r)) \<noteq> None))"

definition do_ok :: "(string \<Rightarrow> Cid option) \<Rightarrow> DoStore DurableSql \<Rightarrow> bool" where
  "do_ok cp d = (calm d \<and> sql_ok cp (sq_of (do_now d) (do_tables d)) \<and> do_rows_ok (do_tables d))"

definition do_view :: "(Cid \<Rightarrow> string) \<Rightarrow> (string \<Rightarrow> Cid option) \<Rightarrow> DoStore DurableSql \<Rightarrow> view" where
  "do_view cs cp d = sql_view cs cp (sq_of (do_now d) (do_tables d))"

named_theorems do_sim

lemma sq_of_sel [do_sim]:
  "q_blocks (sq_of now t) = dw_blocks t" "q_repo_seq (sq_of now t) = dw_repo_seq t" "q_accounts (sq_of now t) = dw_accounts t"
  "q_keys (sq_of now t) = dw_keys t" "q_invites (sq_of now t) = dw_invites t" "q_invite_uses (sq_of now t) = dw_invite_uses t"
  "q_repo_roots (sq_of now t) = dw_repo_roots t" "q_preferences (sq_of now t) = dw_preferences t"
  "q_oauth_par (sq_of now t) = dw_oauth_par t" "q_oauth_auth_codes (sq_of now t) = dw_oauth_auth_codes t"
  "q_oauth_refresh_tokens (sq_of now t) = dw_oauth_refresh_tokens t" "q_oauth_dpop_jti (sq_of now t) = dw_oauth_dpop_jti t"
  "q_utc_now (sq_of now t) = now" "q_faults (sq_of now t) = (\<lambda>_. None)"
  by (simp_all add: sq_of_def)

lemma sq_of_upd [do_sim]:
  "(sq_of now t)\<lparr>q_blocks := x1\<rparr> = sq_of now (t\<lparr>dw_blocks := x1\<rparr>)" "(sq_of now t)\<lparr>q_accounts := x2\<rparr> = sq_of now (t\<lparr>dw_accounts := x2\<rparr>)"
  "(sq_of now t)\<lparr>q_keys := x3\<rparr> = sq_of now (t\<lparr>dw_keys := x3\<rparr>)" "(sq_of now t)\<lparr>q_invites := x4\<rparr> = sq_of now (t\<lparr>dw_invites := x4\<rparr>)"
  "(sq_of now t)\<lparr>q_invite_uses := x5\<rparr> = sq_of now (t\<lparr>dw_invite_uses := x5\<rparr>)"
  "(sq_of now t)\<lparr>q_repo_roots := x6\<rparr> = sq_of now (t\<lparr>dw_repo_roots := x6\<rparr>)"
  "(sq_of now t)\<lparr>q_preferences := x7\<rparr> = sq_of now (t\<lparr>dw_preferences := x7\<rparr>)"
  "(sq_of now t)\<lparr>q_oauth_par := x8\<rparr> = sq_of now (t\<lparr>dw_oauth_par := x8\<rparr>)"
  "(sq_of now t)\<lparr>q_oauth_auth_codes := x9\<rparr> = sq_of now (t\<lparr>dw_oauth_auth_codes := x9\<rparr>)"
  "(sq_of now t)\<lparr>q_oauth_refresh_tokens := x10\<rparr> = sq_of now (t\<lparr>dw_oauth_refresh_tokens := x10\<rparr>)"
  "(sq_of now t)\<lparr>q_oauth_dpop_jti := x11\<rparr> = sq_of now (t\<lparr>dw_oauth_dpop_jti := x11\<rparr>)"
  by (simp_all add: sq_of_def)

lemma do_rows_ok_frame [do_sim]:
  "do_rows_ok (t\<lparr>dw_blocks := x1\<rparr>) = do_rows_ok t" "do_rows_ok (t\<lparr>dw_accounts := x2\<rparr>) = do_rows_ok t" "do_rows_ok (t\<lparr>dw_keys := x3\<rparr>) = do_rows_ok t"
  "do_rows_ok (t\<lparr>dw_invite_uses := x4\<rparr>) = do_rows_ok t" "do_rows_ok (t\<lparr>dw_repo_roots := x5\<rparr>) = do_rows_ok t"
  "do_rows_ok (t\<lparr>dw_preferences := x6\<rparr>) = do_rows_ok t" "do_rows_ok (t\<lparr>dw_oauth_par := x7\<rparr>) = do_rows_ok t"
  "do_rows_ok (t\<lparr>dw_oauth_auth_codes := x8\<rparr>) = do_rows_ok t" "do_rows_ok (t\<lparr>dw_oauth_refresh_tokens := x9\<rparr>) = do_rows_ok t"
  "do_rows_ok (t\<lparr>dw_oauth_dpop_jti := x10\<rparr>) = do_rows_ok t" "do_rows_ok (t\<lparr>dw_repo_seq := x11\<rparr>) = do_rows_ok t"
  by (simp_all add: do_rows_ok_def)

lemma sql_calls_sq [do_sim]:
  "sql_call g (sq_of now t) = (case g (sq_of now t) of Inl e \<Rightarrow> (Err e, tick (sq_of now t)) | Inr (a, q) \<Rightarrow> (Ok a, tick q))"
  "sql_interact h (sq_of now t) = (h (sq_of now t), tick (sq_of now t))"
  by (simp_all add: sql_call_def sql_interact_def do_sim)

subsection \<open>Operations without faults\<close>

lemma acts_do_exec [acts_intros]:
  "acts (do_exec f) (\<lambda>now t. case f t of Inl e \<Rightarrow> (Err (sql_err e), t) | Inr (a, t') \<Rightarrow> (Ok a, t'))"
  unfolding acts_def
proof (intro allI impI)
  fix d :: "DoStore DurableSql" assume "calm d"
  with acts_sql_stmt [of f] obtain n where "sql_stmt f d = (fst (case f (do_tables d) of Inl e \<Rightarrow> (Err e, do_tables d) | Inr (a, t) \<Rightarrow> (Ok a, t)),
      d\<lparr>do_stmts := n, do_tables := snd (case f (do_tables d) of Inl e \<Rightarrow> (Err e, do_tables d) | Inr (a, t) \<Rightarrow> (Ok a, t))\<rparr>)"
    unfolding acts_def by blast
  then show "\<exists>n. do_exec f d = (fst (case f (do_tables d) of Inl e \<Rightarrow> (Err (sql_err e), do_tables d) | Inr (a, t') \<Rightarrow> (Ok a, t')),
      d\<lparr>do_stmts := n, do_tables := snd (case f (do_tables d) of Inl e \<Rightarrow> (Err (sql_err e), do_tables d) | Inr (a, t') \<Rightarrow> (Ok a, t'))\<rparr>)"
    by (intro exI [of _ n]) (auto simp: do_exec_def split: sum.splits)
qed

lemma acts_do_run [acts_intros]: "acts (do_run f) (\<lambda>now t. (Ok (), f t))"
  unfolding do_run_def by (rule acts_eq [OF acts_do_exec]) simp

lemma acts_do_rows [acts_intros]: "acts (do_rows f) (\<lambda>now t. (Ok (f t), t))"
  unfolding do_rows_def by (rule acts_eq [OF acts_do_exec]) simp

lemma acts_do_exists [acts_intros]: "acts (do_exists f) (\<lambda>now t. (Ok (f t > 0), t))"
  unfolding do_exists_def by (rule acts_eq, (rule acts_intros)+) simp

lemma acts_r2_call [acts_intros]: "acts (r2_call what f) (\<lambda>now t. (Ok (fst (f t)), snd (f t)))"
  unfolding acts_def r2_call_def by (auto simp: calm_def sql_stmt_def split: prod.splits)

lemma acts_do_put_blocks [acts_intros]:
  "acts (do_put_blocks cs bs) (\<lambda>now t. (Ok (), t\<lparr>dw_blocks := fold (\<lambda>(c, b) t. snd (insert_or_ignore fst (cs c, b) t)) bs (dw_blocks t)\<rparr>))"
proof (induction bs)
  case Nil
  then show ?case unfolding do_put_blocks.simps by (rule acts_eq [OF acts_dret]) simp
next
  case (Cons cb bs)
  obtain c b where cb: "cb = (c, b)" by (cases cb)
  show ?case unfolding cb do_put_blocks.simps do_put_block_def by (rule acts_eq [OF acts_dbind [OF acts_do_run Cons.IH]]) simp
qed

text \<open>An operation that does what the SQLite one does to the same rows, up to the text of an error, meets the SQLite one's contract.\<close>

definition err_blind :: "'a vspec \<Rightarrow> bool" where
  "err_blind R = (\<forall>v e e' v'. R v (Inl e) v' \<longrightarrow> R v (Inl e') v')"

lemma err_blind_writes [simp]: "err_blind (writes f)"
  by (simp add: err_blind_def)

lemma do_meets:
  assumes m: "acts m f" and op: "meets (sql_ok cp) sql_up (sql_view cs cp) op R"
    and sim: "\<And>now t. sql_ok cp (sq_of now t) \<Longrightarrow> do_rows_ok t \<Longrightarrow> case f now t of (r, t') \<Rightarrow> do_rows_ok t' \<and>
      (\<exists>r'. op (sq_of now t) = (r', tick (sq_of now t')) \<and> (r = r' \<or> is_err r \<and> is_err r' \<and> err_blind R))"
  shows "meets (do_ok cp) (\<lambda>_. True) (do_view cs cp) m R"
proof (rule meetsI)
  fix d r d' assume ok: "do_ok cp d" and run: "m d = (r, d')"
  then obtain t' where f: "f (do_now d) (do_tables d) = (r, t')" and d': "do_tables d' = t'" "do_now d' = do_now d" "calm d'"
    using acts_step [OF m, of d] by (auto simp: do_ok_def)
  obtain r' where op': "op (sq_of (do_now d) (do_tables d)) = (r', tick (sq_of (do_now d) t'))" and rows: "do_rows_ok t'"
    and r: "r = r' \<or> is_err r \<and> is_err r' \<and> err_blind R"
    using sim [of "do_now d" "do_tables d"] ok f by (auto simp: do_ok_def)
  have "sql_up (sq_of (do_now d) (do_tables d))" by (simp add: sql_up_def sq_of_def)
  with meets_up [OF op _ _ op'] ok have "sql_ok cp (sq_of (do_now d) t')" "R (do_view cs cp d) r' (sql_view cs cp (sq_of (do_now d) t'))"
    by (auto simp: do_ok_def do_view_def)
  with r d' rows show "do_ok cp d' \<and> (True \<longrightarrow> True) \<and> (R (do_view cs cp d) r (do_view cs cp d') \<or> \<not> True \<and> is_err r \<and> do_view cs cp d' = do_view cs cp d)"
    by (cases r; cases r') (auto simp: do_ok_def do_view_def err_blind_def)
qed

lemma first_of: "(case filter (\<lambda>r. key r = k) rows of [] \<Rightarrow> n | r # _ \<Rightarrow> g r) = (case tbl key rows k of None \<Rightarrow> n | Some r \<Rightarrow> g r)"
  by (induction rows) auto

lemma some_row: "filter (\<lambda>r. key r = k) rows = [] \<longleftrightarrow> tbl key rows k = None"
  by (induction rows) auto

subsection \<open>Every operation meets its specification\<close>

lemma do_max_seq_meets: "meets (do_ok cp) (\<lambda>_. True) (do_view cs cp) do_max_seq spec_max_seq"
  unfolding do_max_seq_def by (rule do_meets [OF acts_do_rows sql_max_seq_meets]) (simp add: sql_max_seq_def do_sim)

lemma do_backfill_page_meets: "0 \<le> k \<Longrightarrow> meets (do_ok cp) (\<lambda>_. True) (do_view cs cp) (do_backfill_page n k) (spec_backfill_page n k)"
  unfolding do_backfill_page_def
  by (rule do_meets [OF _ sql_backfill_page_meets], (rule acts_intros)+) (simp_all add: sql_backfill_page_def do_sim max_def)

lemma do_count_accounts_meets: "meets (do_ok cp) (\<lambda>_. True) (do_view cs cp) do_count_accounts spec_count_accounts"
  unfolding do_count_accounts_def by (rule do_meets [OF acts_do_rows sql_count_accounts_meets]) (simp add: sql_count_accounts_def do_sim)

lemma some_handle: "(x = Some h \<and> (\<exists>y. x = Some y)) = (x = Some h)"
  by auto

lemma list_ex_row: "list_ex (\<lambda>r. key r = k) rows \<longleftrightarrow> filter (\<lambda>r. key r = k) rows \<noteq> []"
  by (auto simp: list_ex_iff filter_empty_conv)

lemma do_insert_account_meets:
  "meets (do_ok cp) (\<lambda>_. True) (do_view cs cp) (do_insert_account d h email phc) (spec_insert_account d h email phc)"
  unfolding do_insert_account_def do_insert_accounts_row_def
  by (rule do_meets [OF _ sql_insert_account_meets], (rule acts_intros)+)
    (auto simp: sql_insert_account_def insert_accounts_row_def insert_row_def list_ex_row some_handle some_row do_sim spec_insert_account_def split: option.split)

lemma do_count_and_insert_account_meets:
  "meets (do_ok cp) (\<lambda>_. True) (do_view cs cp) (do_count_and_insert_account d h email phc) (spec_count_and_insert_account d h email phc)"
  unfolding do_count_and_insert_account_def do_insert_account_def do_insert_accounts_row_def do_count_accounts_def
  by (rule do_meets [OF _ sql_count_and_insert_account_meets], (rule acts_intros)+)
    (auto simp: sql_count_and_insert_account_def insert_accounts_row_def insert_row_def list_ex_row some_handle some_row do_sim spec_count_and_insert_account_def
      split: option.split)

lemma do_get_account_by_handle_meets:
  "meets (do_ok cp) (\<lambda>_. True) (do_view cs cp) (do_get_account_by_handle h) (spec_get_account_by_handle h)"
  unfolding do_get_account_by_handle_def
  by (rule do_meets [OF _ sql_get_account_by_handle_meets], (rule acts_intros)+) (simp add: sql_get_account_by_handle_def do_sim)

lemma do_get_did_by_handle_meets:
  "meets (do_ok cp) (\<lambda>_. True) (do_view cs cp) (do_get_did_by_handle h) (spec_get_did_by_handle h)"
  unfolding do_get_did_by_handle_def
  by (rule do_meets [OF _ sql_get_did_by_handle_meets], (rule acts_intros)+) (simp add: sql_get_did_by_handle_def do_sim)

lemma do_get_handle_by_did_meets:
  "meets (do_ok cp) (\<lambda>_. True) (do_view cs cp) (do_get_handle_by_did d) (spec_get_handle_by_did d)"
  unfolding do_get_handle_by_did_def
  by (rule do_meets [OF _ sql_get_handle_by_did_meets], (rule acts_intros)+) (simp add: sql_get_handle_by_did_def do_sim)

lemma update_where_none: "filter P t = [] \<Longrightarrow> update_where P f t = (0, t)"
  by (induction t) (auto simp: update_where_def split: if_splits)

lemma do_update_account_meets:
  assumes "\<And>now q. q_utc_now q = now \<Longrightarrow> q_faults q = (\<lambda>_. None) \<Longrightarrow> op q = (Ok (fst (update_accounts_row d (f now) q)), tick (snd (update_accounts_row d (f now) q)))"
    and "meets (sql_ok cp) sql_up (sql_view cs cp) op R"
  shows "meets (do_ok cp) (\<lambda>_. True) (do_view cs cp) (do_update_account d f) R"
  unfolding do_update_account_def
proof (rule do_meets [OF _ assms(2)], (rule acts_intros)+, goal_cases)
  case (1 now t)
  have one: "length (filter (\<lambda>r. ac_did r = d) (dw_accounts t)) = 1" if "filter (\<lambda>r. ac_did r = d) (dw_accounts t) \<noteq> []"
    using length_update_where_pk [of ac_did "dw_accounts t" d] sql_okD(8) [OF 1(1)] that by (auto simp: do_sim split: option.splits)
  show ?case
  proof (cases "filter (\<lambda>r. ac_did r = d) (dw_accounts t) = []")
    case True
    then show ?thesis using assms(1) [of "sq_of now t" now] 1(2) by (simp add: do_sim update_accounts_row_def update_where_none)
  next
    case False
    then show ?thesis using assms(1) [of "sq_of now t" now] 1(2) one by (simp add: do_sim update_accounts_row_def update_where_def)
  qed
qed

lemma do_update_password_meets: "meets (do_ok cp) (\<lambda>_. True) (do_view cs cp) (do_update_password d phc) (spec_update_password d phc)"
  unfolding do_update_password_def
  by (rule do_update_account_meets [OF _ sql_update_password_meets]) (simp add: sql_update_password_def sql_call_def split: prod.split)

lemma do_set_takedown_meets: "meets (do_ok cp) (\<lambda>_. True) (do_view cs cp) (do_set_takedown d ref) (spec_set_takedown d ref)"
  unfolding do_set_takedown_def
  by (rule do_update_account_meets [OF _ sql_set_takedown_meets]) (simp add: sql_set_takedown_def sql_call_def Let_def split: prod.split)

lemma do_clear_takedown_meets: "meets (do_ok cp) (\<lambda>_. True) (do_view cs cp) (do_clear_takedown d) (spec_clear_takedown d)"
  unfolding do_clear_takedown_def
  by (rule do_update_account_meets [OF _ sql_clear_takedown_meets]) (simp add: sql_clear_takedown_def sql_call_def split: prod.split)

lemma do_rows_ok_invites:
  "do_rows_ok t \<Longrightarrow> \<forall>r \<in> set l. iv_disabled r = 0 \<or> iv_disabled r = 1 \<Longrightarrow> do_rows_ok (t\<lparr>dw_invites := l\<rparr>)"
  "do_rows_ok t \<Longrightarrow> tbl iv_code (dw_invites t) c = Some r \<Longrightarrow> iv_disabled r = 0 \<or> iv_disabled r = 1"
  "do_rows_ok t \<Longrightarrow> r \<in> set (dw_invites t) \<Longrightarrow> iv_disabled r = 0 \<or> iv_disabled r = 1"
  by (auto simp: do_rows_ok_def dest: tbl_key)

lemma do_insert_invite_meets: "meets (do_ok cp) (\<lambda>_. True) (do_view cs cp) (do_insert_invite c n d) (spec_insert_invite c n)"
  unfolding do_insert_invite_def
  by (rule do_meets [OF _ sql_insert_invite_meets [where d = d]], (rule acts_intros)+)
    (auto simp: sql_insert_invite_def insert_row_def list_ex_row some_row do_sim spec_insert_invite_def intro!: do_rows_ok_invites
      dest: do_rows_ok_invites(3) split: option.split)

lemma do_consume_invite_meets: "meets (do_ok cp) (\<lambda>_. True) (do_view cs cp) (do_consume_invite c u) (spec_consume_invite c u)"
  unfolding do_consume_invite_def
proof (rule do_meets [OF _ sql_consume_invite_meets], (rule acts_intros)+, goal_cases)
  case (1 now t)
  let ?key = "\<lambda>(c, u, _). (c, u)"
  have uses: "filter (\<lambda>(ca, ab). ca = c \<and> (case ab of (ua, _) \<Rightarrow> ua = u)) (dw_invite_uses t) = [] \<longleftrightarrow> tbl ?key (dw_invite_uses t) (c, u) = None"
    by (force simp: tbl_None filter_empty_conv)
  have flags: "\<forall>r \<in> set (dw_invites t). iv_disabled r = 0 \<or> iv_disabled r = 1" using 1(2) by (simp add: do_rows_ok_def)
  show ?case
  proof (cases "tbl iv_code (dw_invites t) c")
    case None
    then show ?thesis using 1(2) by (simp add: sql_consume_invite_def do_sim)
  next
    case (Some r)
    then have "iv_disabled r = 0 \<or> iv_disabled r = 1" using flags by (auto dest: tbl_key)
    moreover have "do_rows_ok (t\<lparr>dw_invite_uses := x, dw_invites := map (\<lambda>r. if iv_code r = c then iv_available_uses_update (\<lambda>n. n - 1) r else r) (dw_invites t)\<rparr>)" for x
      using 1(2) by (auto simp: do_rows_ok_def)
    ultimately show ?thesis using 1(2) Some
      by (auto simp: sql_consume_invite_def uses do_sim insert_or_ignore_def insert_row_def update_where_def split: option.split)
  qed
qed

lemma do_upsert_preferences_meets: "meets (do_ok cp) (\<lambda>_. True) (do_view cs cp) (do_upsert_preferences d p) (spec_upsert_preferences d p)"
  unfolding do_upsert_preferences_def
  by (rule do_meets [OF acts_do_run sql_upsert_preferences_meets]) (simp add: sql_upsert_preferences_def do_sim)

lemma do_get_preferences_meets: "meets (do_ok cp) (\<lambda>_. True) (do_view cs cp) (do_get_preferences d) (spec_get_preferences d)"
  unfolding do_get_preferences_def
  by (rule do_meets [OF acts_do_rows sql_get_preferences_meets]) (simp add: sql_get_preferences_def do_sim)

lemma do_put_key_blob_meets: "meets (do_ok cp) (\<lambda>_. True) (do_view cs cp) (do_put_key_blob i c) (spec_put_key_blob i c)"
  unfolding do_put_key_blob_def by (rule do_meets [OF acts_do_run sql_put_key_blob_meets]) (simp add: sql_put_key_blob_def do_sim)

lemma do_get_key_blob_meets: "meets (do_ok cp) (\<lambda>_. True) (do_view cs cp) (do_get_key_blob i) (spec_get_key_blob i)"
  unfolding do_get_key_blob_def by (rule do_meets [OF acts_do_rows sql_get_key_blob_meets]) (simp add: sql_get_key_blob_def do_sim)

text \<open>A CID without a slash is what follows the last slash of its object's name.\<close>

lemma r2_key_eq: "CHR ''/'' \<notin> set c \<Longrightarrow> CHR ''/'' \<notin> set c' \<Longrightarrow> r2_key d c = r2_key d' c' \<longleftrightarrow> d = d' \<and> c = c'"
proof -
  have last: "takeWhile (\<lambda>x. x \<noteq> CHR ''/'') (rev (r2_key d c)) = rev c" if "CHR ''/'' \<notin> set c" for d c
    using that by (auto simp: r2_key_def takeWhile_append)
  assume "CHR ''/'' \<notin> set c" "CHR ''/'' \<notin> set c'"
  then have "c = c'" if "r2_key d c = r2_key d' c'" using last [of c d] last [of c' d'] that by (metis rev_is_rev_conv)
  then show ?thesis by (auto simp: r2_key_def)
qed

lemma tbl_map: "(\<And>x. key' (f x) = key x) \<Longrightarrow> tbl key' (map f l) k = map_option f (tbl key l k)"
  by (induction l) auto

lemma joined_key: "blob_key (joined_blob r2 r) = blob_ref_key r"
  by (simp add: blob_key_def blob_ref_key_def joined_blob_def)

lemma joined_sel [simp]: "bl_did (joined_blob r2 r) = br_did r" "bl_cid (joined_blob r2 r) = br_cid r" "bl_mime_type (joined_blob r2 r) = br_mime_type r"
  by (simp_all add: joined_blob_def)

lemma tbl_joined: "tbl blob_key (map (joined_blob r2) refs) k = map_option (joined_blob r2) (tbl blob_ref_key refs k)"
  by (rule tbl_map) (rule joined_key)

lemma joined_insert:
  assumes "\<forall>r \<in> set refs. CHR ''/'' \<notin> set (br_cid r)" "CHR ''/'' \<notin> set (br_cid row)"
  shows "map (joined_blob (insert_or_replace fst (r2_key (br_did row) (br_cid row), b) r2)) (insert_or_replace blob_ref_key row refs) =
    insert_or_replace blob_key ((joined_blob r2 row)\<lparr>bl_bytes := b\<rparr>) (map (joined_blob r2) refs)"
proof -
  let ?r2 = "insert_or_replace fst (r2_key (br_did row) (br_cid row), b) r2"
  have kept: "joined_blob ?r2 r = joined_blob r2 r" if "r \<in> set refs" "blob_ref_key r \<noteq> blob_ref_key row" for r
    using that assms by (auto simp: joined_blob_def tbl_insert_or_replace r2_key_eq blob_ref_key_def)
  have new: "joined_blob ?r2 row = (joined_blob r2 row)\<lparr>bl_bytes := b\<rparr>" by (simp add: joined_blob_def tbl_insert_or_replace)
  have key: "blob_key ((joined_blob r2 row)\<lparr>bl_bytes := b\<rparr>) = blob_ref_key row"
    by (simp add: blob_key_def blob_ref_key_def joined_blob_def)
  show ?thesis
    unfolding insert_or_replace_def [of blob_ref_key] insert_or_replace_def [of blob_key]
    using kept by (simp add: new key filter_map comp_def joined_key)
qed

lemma do_put_blob_meets:
  assumes "CHR ''/'' \<notin> set c"
  shows "meets (do_ok cp) (\<lambda>_. True) (do_view cs cp) (do_put_blob d c mime n b) (spec_put_blob d c mime b)"
  unfolding do_put_blob_def
proof (rule do_meets [OF _ sql_put_blob_meets [where n = n]], (rule acts_intros)+, goal_cases)
  case (1 now t)
  let ?row = "\<lparr>br_did = d, br_cid = c, br_mime_type = mime, br_size = n, br_created_at = now\<rparr>"
  have slash: "\<forall>r \<in> set (dw_blob_refs t). CHR ''/'' \<notin> set (br_cid r)" using 1(2) by (simp add: do_rows_ok_def)
  have "do_rows_ok (t\<lparr>dw_r2 := insert_or_replace fst (r2_key d c, b) (dw_r2 t), dw_blob_refs := insert_or_replace blob_ref_key ?row (dw_blob_refs t)\<rparr>)"
    using 1(2) assms by (auto simp: do_rows_ok_def tbl_insert_or_replace insert_or_replace_def [of blob_ref_key])
  moreover have "(sq_of now t)\<lparr>q_blobs := insert_or_replace blob_key \<lparr>bl_did = d, bl_cid = c, bl_mime_type = mime, bl_size = n, bl_bytes = b, bl_created_at = now\<rparr>
      (q_blobs (sq_of now t))\<rparr> = sq_of now (t\<lparr>dw_r2 := insert_or_replace fst (r2_key d c, b) (dw_r2 t), dw_blob_refs := insert_or_replace blob_ref_key ?row (dw_blob_refs t)\<rparr>)"
    using joined_insert [OF slash, of ?row b "dw_r2 t"] assms by (simp add: sq_of_def joined_blob_def)
  ultimately show ?case by (simp add: sql_put_blob_def do_sim)
qed

lemma do_get_blob_meets: "meets (do_ok cp) (\<lambda>_. True) (do_view cs cp) (do_get_blob d c) (spec_get_blob d c)"
  unfolding do_get_blob_def
proof (rule do_meets [OF _ sql_get_blob_meets], (rule acts_intros)+, goal_cases)
  case (1 now t)
  have join: "q_blobs (sq_of now t) = map (joined_blob (dw_r2 t)) (dw_blob_refs t)" by (simp add: sq_of_def)
  show ?case
  proof (cases "tbl blob_ref_key (dw_blob_refs t) (d, c)")
    case None
    with 1(2) show ?thesis by (simp add: sql_get_blob_def do_sim join tbl_joined)
  next
    case (Some r)
    then have r: "r \<in> set (dw_blob_refs t)" "br_did r = d" "br_cid r = c" by (auto simp: blob_ref_key_def dest: tbl_key)
    with 1(2) obtain k body where "tbl fst (dw_r2 t) (r2_key d c) = Some (k, body)" by (fastforce simp: do_rows_ok_def)
    with Some r 1(2) show ?thesis by (simp add: sql_get_blob_def do_sim join tbl_joined joined_blob_def)
  qed
qed

lemma do_list_blobs_meets:
  "time_ok k \<Longrightarrow> meets (do_ok cp) (\<lambda>_. True) (do_view cs cp) (do_list_blobs d k cur) (spec_list_blobs d k cur)"
proof -
  assume k: "time_ok k"
  have join: "q_blobs (sq_of now t) = map (joined_blob (dw_r2 t)) (dw_blob_refs t)" for now t by (simp add: sq_of_def)
  show ?thesis
    unfolding do_list_blobs_def
    by (rule do_meets [OF acts_do_rows sql_list_blobs_meets [OF k]])
      (cases cur; simp add: sql_list_blobs_def do_sim join filter_map comp_def)
qed

text \<open>The OAuth state.\<close>

lemma do_put_pushed_request_meets: "time_ok (par_expires_at r) \<Longrightarrow>
    meets (do_ok cp) (\<lambda>_. True) (do_view cs cp) (do_put_pushed_request r) (spec_put_pushed_request r)"
  unfolding do_put_pushed_request_def
  by (rule do_meets [OF acts_do_run sql_put_pushed_request_meets]) (simp_all add: sql_put_pushed_request_def do_sim)

lemma do_get_pushed_request_meets: "time_ok now \<Longrightarrow>
    meets (do_ok cp) (\<lambda>_. True) (do_view cs cp) (do_get_pushed_request h now) (spec_get_pushed_request h now)"
  unfolding do_get_pushed_request_def
  by (rule do_meets [OF _ sql_get_pushed_request_meets], (rule acts_intros)+) (simp_all add: sql_get_pushed_request_def do_sim)

lemma do_delete_pushed_request_meets:
  "meets (do_ok cp) (\<lambda>_. True) (do_view cs cp) (do_delete_pushed_request h) (spec_delete_pushed_request h)"
  unfolding do_delete_pushed_request_def
  by (rule do_meets [OF acts_do_run sql_delete_pushed_request_meets]) (simp add: sql_delete_pushed_request_def do_sim)

lemma do_put_auth_code_meets: "time_ok (code_expires_at c) \<Longrightarrow>
    meets (do_ok cp) (\<lambda>_. True) (do_view cs cp) (do_put_auth_code c) (spec_put_auth_code c)"
  unfolding do_put_auth_code_def
  by (rule do_meets [OF acts_do_run sql_put_auth_code_meets]) (simp_all add: sql_put_auth_code_def do_sim)

lemma do_consume_auth_code_meets: "time_ok now \<Longrightarrow>
    meets (do_ok cp) (\<lambda>_. True) (do_view cs cp) (do_consume_auth_code h now) (spec_consume_auth_code h now)"
  unfolding do_consume_auth_code_def
  by (rule do_meets [OF _ sql_consume_auth_code_meets], (rule acts_intros)+) (simp_all add: sql_consume_auth_code_def do_sim Let_def)

lemma do_put_refresh_token_meets: "time_ok (rt_issued_at r) \<Longrightarrow> time_ok (rt_expires_at r) \<Longrightarrow>
    meets (do_ok cp) (\<lambda>_. True) (do_view cs cp) (do_put_refresh_token r) (spec_put_refresh_token r)"
  unfolding do_put_refresh_token_def
  by (rule do_meets [OF acts_do_run sql_put_refresh_token_meets]) (simp_all add: sql_put_refresh_token_def do_sim)

lemma do_consume_refresh_token_meets: "time_ok now \<Longrightarrow>
    meets (do_ok cp) (\<lambda>_. True) (do_view cs cp) (do_consume_refresh_token h now) (spec_consume_refresh_token h now)"
  unfolding do_consume_refresh_token_def
  by (rule do_meets [OF _ sql_consume_refresh_token_meets], (rule acts_intros)+)
    (auto simp: sql_consume_refresh_token_def do_sim rt_of_row_def split: option.split prod.split)

lemma do_revoke_session_meets: "meets (do_ok cp) (\<lambda>_. True) (do_view cs cp) (do_revoke_session sid) (spec_revoke_session sid)"
  unfolding do_revoke_session_def do_delete_session_def
  by (rule do_meets [OF _ sql_revoke_session_meets], (rule acts_intros)+) (simp add: sql_revoke_session_def do_sim delete_where_def)

lemma do_revoke_refresh_token_meets:
  "meets (do_ok cp) (\<lambda>_. True) (do_view cs cp) (do_revoke_refresh_token h) (spec_revoke_refresh_token h)"
  unfolding do_revoke_refresh_token_def do_delete_session_def
  by (rule do_meets [OF _ sql_revoke_refresh_token_meets], (rule acts_intros)+)
    (auto simp: sql_revoke_refresh_token_def do_sim split: option.split)

lemma do_record_dpop_jti_meets: "time_ok ex \<Longrightarrow>
    meets (do_ok cp) (\<lambda>_. True) (do_view cs cp) (do_record_dpop_jti j ex) (spec_record_dpop_jti j ex)"
  unfolding do_record_dpop_jti_def
  by (rule do_meets [OF _ sql_record_dpop_jti_meets], (rule acts_intros)+)
    (auto simp: sql_record_dpop_jti_def do_sim some_row insert_or_ignore_def insert_row_def split: option.split)

lemma do_purge_expired_meets: "time_ok now \<Longrightarrow>
    meets (do_ok cp) (\<lambda>_. True) (do_view cs cp) (do_purge_expired now) (spec_purge_expired now)"
  unfolding do_purge_expired_def do_purge_table_def
  by (rule do_meets [OF _ sql_purge_expired_meets], (rule acts_intros)+)
    (auto simp: sql_purge_expired_def do_sim delete_where_def)

text \<open>The two listings order equal keys, which SQLite leaves open: they are SQLite's listings of the same rows stored in key order.\<close>

lemma tbl_sort: "tbl_ok key t \<Longrightarrow> tbl key (sort_key f t) k = tbl key t k"
proof -
  assume ok: "tbl_ok key t"
  then have ok': "tbl_ok key (sort_key f t)" by (simp add: tbl_ok_def distinct_map)
  have "tbl key (sort_key f t) k = Some r \<longleftrightarrow> tbl key t k = Some r" for r by (simp add: tbl_iff [OF ok] tbl_iff [OF ok'])
  then show ?thesis by (metis option.exhaust)
qed

lemma do_lists:
  assumes m: "acts m (\<lambda>now t. (Ok (f t), t))" and op: "meets (sql_ok cp) sql_up (sql_view cs cp) op (lists P)"
    and sim: "\<And>now t. sql_ok cp (sq_of now t) \<Longrightarrow> \<exists>t'. op (sq_of now t') = (Ok (f t), tick (sq_of now t')) \<and> sql_ok cp (sq_of now t') \<and>
      sql_view cs cp (sq_of now t') = sql_view cs cp (sq_of now t)"
  shows "meets (do_ok cp) (\<lambda>_. True) (do_view cs cp) m (lists P)"
proof (rule meetsI)
  fix d r d' assume ok: "do_ok cp d" and run: "m d = (r, d')"
  then have d': "r = Ok (f (do_tables d))" "do_tables d' = do_tables d" "do_now d' = do_now d" "calm d'"
    using acts_step [OF m, of d] by (auto simp: do_ok_def)
  from sim [of "do_now d" "do_tables d"] ok obtain t' where t': "op (sq_of (do_now d) t') = (Ok (f (do_tables d)), tick (sq_of (do_now d) t'))"
    "sql_ok cp (sq_of (do_now d) t')" "sql_view cs cp (sq_of (do_now d) t') = do_view cs cp d" by (auto simp: do_ok_def do_view_def)
  have "sql_up (sq_of (do_now d) t')" by (simp add: sql_up_def sq_of_def)
  with meets_up [OF op t'(2) _ t'(1)] have "P (do_view cs cp d) (f (do_tables d))" by (simp add: t'(3))
  with ok d' show "do_ok cp d' \<and> (True \<longrightarrow> True) \<and>
      (lists P (do_view cs cp d) r (do_view cs cp d') \<or> \<not> True \<and> is_err r \<and> do_view cs cp d' = do_view cs cp d)"
    by (simp add: do_ok_def do_view_def)
qed

lemma do_list_accounts_meets: "meets (do_ok cp) (\<lambda>_. True) (do_view cs cp) do_list_accounts spec_list_accounts"
  unfolding spec_list_accounts_def
proof (rule do_lists [OF _ sql_list_accounts_meets [unfolded spec_list_accounts_def]])
  let ?f = "\<lambda>t. map (\<lambda>r. \<lparr>sum_did = ac_did r, sum_handle = ac_handle r, sum_deactivated_at = ac_deactivated_at r,
       sum_takedown_ref = ac_takedown_ref r, sum_created_at = ac_created_at r\<rparr>) (sort_key ac_created_at (sort_key ac_did (dw_accounts t)))"
  show "acts do_list_accounts (\<lambda>now t. (Ok (?f t), t))"
    unfolding do_list_accounts_def by (rule acts_eq, (rule acts_intros)+) simp
  fix now t assume ok: "sql_ok cp (sq_of now t)"
  let ?t = "t\<lparr>dw_accounts := sort_key ac_did (dw_accounts t)\<rparr>"
  have acc: "sql_accounts_ok (dw_accounts t)" using sql_okD(3) [OF ok] by (simp add: do_sim)
  have "sql_accounts_ok (sort_key ac_did (dw_accounts t))"
    using acc by (simp add: sql_accounts_ok_def tbl_ok_def distinct_map filter_sort)
  then have "sql_ok cp (sq_of now ?t)" using sql_ok_maps(3) [OF ok] by (simp add: do_sim)
  moreover have "sql_view cs cp (sq_of now ?t) = sql_view cs cp (sq_of now t)"
    using acc by (intro view_eqI) (simp_all add: do_sim sq_of_def tbl_sort sql_accounts_ok_def)
  ultimately show "\<exists>t'. sql_list_accounts (sq_of now t') = (Ok (?f t), tick (sq_of now t')) \<and> sql_ok cp (sq_of now t') \<and>
      sql_view cs cp (sq_of now t') = sql_view cs cp (sq_of now t)"
    by (intro exI [of _ ?t]) (simp add: sql_list_accounts_def do_sim)
qed

lemma do_list_sessions_meets: "time_ok now \<Longrightarrow>
    meets (do_ok cp) (\<lambda>_. True) (do_view cs cp) (do_list_sessions_for_did d now) (spec_list_sessions d now)"
  unfolding spec_list_sessions_def
proof (rule do_lists [OF _ sql_list_sessions_meets [unfolded spec_list_sessions_def]])
  let ?P = "\<lambda>r. rt_did (fst r) = d \<and> as_i64 now < rt_expires_col r \<and> \<not> rt_used r"
  let ?f = "\<lambda>t. map rt_of_row (sort_key (\<lambda>(_, issued, _, _). - issued) (sort_key rt_key (filter ?P (dw_oauth_refresh_tokens t))))"
  show "acts (do_list_sessions_for_did d now) (\<lambda>_ t. (Ok (?f t), t))"
    unfolding do_list_sessions_for_did_def by (rule acts_eq, (rule acts_intros)+) simp
  fix utc t assume ok: "sql_ok cp (sq_of utc t)"
  let ?t = "t\<lparr>dw_oauth_refresh_tokens := sort_key rt_key (dw_oauth_refresh_tokens t)\<rparr>"
  have rt: "tbl_ok rt_key (dw_oauth_refresh_tokens t)" using sql_okD(6) [OF ok] by (simp add: do_sim)
  have "sql_ok cp ((sq_of utc t)\<lparr>q_oauth_refresh_tokens := sort_key rt_key (dw_oauth_refresh_tokens t)\<rparr>)"
    by (rule sql_ok_maps(6) [OF ok]) (use rt sql_ok_times(3) [OF ok] in \<open>simp_all add: do_sim tbl_ok_def distinct_map\<close>)
  then have "sql_ok cp (sq_of utc ?t)" by (simp add: do_sim)
  moreover have "sql_view cs cp (sq_of utc ?t) = sql_view cs cp (sq_of utc t)"
    using rt by (intro view_eqI) (simp_all add: do_sim sq_of_def tbl_sort)
  ultimately show "\<exists>t'. sql_list_sessions_for_did d now (sq_of utc t') = (Ok (?f t), tick (sq_of utc t')) \<and> sql_ok cp (sq_of utc t') \<and>
      sql_view cs cp (sq_of utc t') = sql_view cs cp (sq_of utc t)"
    by (intro exI [of _ ?t]) (simp add: sql_list_sessions_for_did_def do_sim filter_sort)
qed simp

lemmas do_op_meets =
  do_max_seq_meets do_backfill_page_meets do_count_accounts_meets do_insert_account_meets do_count_and_insert_account_meets
  do_get_account_by_handle_meets do_get_did_by_handle_meets do_get_handle_by_did_meets do_list_accounts_meets do_update_password_meets
  do_set_takedown_meets do_clear_takedown_meets do_insert_invite_meets do_consume_invite_meets do_upsert_preferences_meets
  do_get_preferences_meets do_put_key_blob_meets do_get_key_blob_meets do_put_blob_meets do_get_blob_meets do_list_blobs_meets
  do_put_pushed_request_meets do_get_pushed_request_meets do_delete_pushed_request_meets do_put_auth_code_meets do_consume_auth_code_meets
  do_put_refresh_token_meets do_consume_refresh_token_meets do_revoke_session_meets do_revoke_refresh_token_meets do_list_sessions_meets
  do_record_dpop_jti_meets do_purge_expired_meets

context cid_text
begin

lemma do_read_block_meets:
  "meets (do_ok cid_parse) (\<lambda>_. True) (do_view cid_str cid_parse) (do_read_block_bytes cid_str c) (spec_read_block c)"
  unfolding do_read_block_bytes_def
  by (rule do_meets [OF _ sql_read_block_meets], (rule acts_intros)+)
    (simp add: sql_read_block_bytes_def do_sim first_of ok_or_def split: option.split)

lemma do_put_block_meets:
  "meets (do_ok cid_parse) (\<lambda>_. True) (do_view cid_str cid_parse) (do_put_block cid_str c b) (spec_put_block c b)"
  unfolding do_put_block_def by (rule do_meets [OF acts_do_run sql_put_block_meets]) (simp add: sql_put_block_def do_sim)

lemma do_load_repo_root_meets:
  "meets (do_ok cid_parse) (\<lambda>_. True) (do_view cid_str cid_parse) (do_load_repo_root cid_parse d) (spec_load_repo_root d)"
  unfolding do_load_repo_root_def
  by (rule do_meets [OF _ sql_load_repo_root_meets], (rule acts_intros)+)
    (auto simp: sql_load_repo_root_def do_sim first_of split: option.split)

lemma do_update_repo_root_meets:
  "meets (do_ok cid_parse) (\<lambda>_. True) (do_view cid_str cid_parse) (do_update_repo_root cid_str d c) (spec_update_repo_root d c)"
  unfolding do_update_repo_root_def
  by (rule do_meets [OF _ sql_update_repo_root_meets], (rule acts_intros)+) (simp add: sql_update_repo_root_def do_sim)

lemma do_commit_blocks_meets:
  "meets (do_ok cid_parse) (\<lambda>_. True) (do_view cid_str cid_parse) (do_commit_blocks cid_str bs d c ev) (spec_commit_blocks bs d c ev)"
  unfolding do_commit_blocks_def
proof (rule do_meets [OF _ sql_commit_blocks_meets], (rule acts_intros)+, goal_cases)
  case (1 now t)
  then obtain n where n: "dw_seq_counter t = Some n" by (auto simp: do_rows_ok_def)
  have seqs: "n = int (length (dw_repo_seq t))" "map sq_seq (dw_repo_seq t) = map int [1..<Suc (length (dw_repo_seq t))]"
    using 1(1) n by (simp_all add: sql_ok_def sql_seq_ok_def sq_of_def)
  have fresh: "tbl sq_seq (dw_repo_seq t) (n + 1) = None"
  proof -
    have "n + 1 \<notin> set (map sq_seq (dw_repo_seq t))" unfolding seqs by auto
    then show ?thesis by (auto simp: tbl_None)
  qed
  show ?case using 1(2) fresh by (simp add: sql_commit_blocks_def sq_of_def sql_call_def n insert_row_def Let_def ok_or_def do_rows_ok_def)
qed

lemma do_storage_backend:
  "storage_backend (do_backend cid_str cid_parse) (do_ok cid_parse) (\<lambda>_. True) (do_view cid_str cid_parse)"
  by unfold_locales (simp_all add: do_backend_def do_op_meets do_read_block_meets do_put_block_meets do_load_repo_root_meets
    do_update_repo_root_meets do_commit_blocks_meets do_ok_def do_view_def sql_view_ok)

sublocale durable: storage_backend "do_backend cid_str cid_parse" "do_ok cid_parse" "\<lambda>_. True" "do_view cid_str cid_parse"
  by (rule do_storage_backend)

end

subsection \<open>The third backend answers like the other two\<close>

definition do_at :: "string \<Rightarrow> DoStore DurableSql \<Rightarrow> DoStore DurableSql" where
  "do_at now d = d\<lparr>do_now := now\<rparr>"

context cid_text
begin

lemma do_clocked_backend:
  "clocked_backend (do_backend cid_str cid_parse) (do_ok cid_parse) (\<lambda>_. True) (do_view cid_str cid_parse) do_at"
  by (intro clocked_backend.intro do_storage_backend clocked_backend_axioms.intro)
    (simp_all add: do_at_def do_ok_def do_view_def calm_def sq_of_def sql_ok_def sql_seq_ok_def sql_view_def)

sublocale do_clock: clocked_backend "do_backend cid_str cid_parse" "do_ok cid_parse" "\<lambda>_. True" "do_view cid_str cid_parse" do_at
  by (rule do_clocked_backend)

end

lemmas do_clocked = cid_text.do_clocked_backend


text \<open>A new object: every table empty, migrated at its first request.\<close>

definition do_new :: "string \<Rightarrow> (nat \<Rightarrow> string option) \<Rightarrow> DoStore DurableSql" where
  "do_new now faults = \<lparr>do_tables = \<lparr>dw_blocks = [], dw_repo_seq = [], dw_seq_counter = None, dw_accounts = [], dw_keys = [], dw_invites = [],
     dw_invite_uses = [], dw_repo_roots = [], dw_preferences = [], dw_blob_refs = [], dw_oauth_par = [], dw_oauth_auth_codes = [],
     dw_oauth_refresh_tokens = [], dw_oauth_dpop_jti = [], dw_device_keys = [], dw_signin_requests = [], dw_schema_version = None, dw_r2 = []\<rparr>,
     do_now = now, do_faults = faults, do_stmts = 0\<rparr>"

lemma acts_do_run_all [acts_intros]: "acts (do_run_all fs) (\<lambda>now t. (Ok (), fold (\<lambda>f. f) fs t))"
proof (induction fs)
  case Nil
  then show ?case by (simp add: acts_dret)
next
  case (Cons f fs)
  then show ?case unfolding do_run_all.simps by (intro acts_eq [OF acts_dbind [OF acts_do_run Cons.IH]]) simp
qed

lemma migrate_tables: "fold (\<lambda>f. f) schema_statements t = t\<lparr>dw_seq_counter := Some (case dw_seq_counter t of Some n \<Rightarrow> n | None \<Rightarrow> 0), dw_schema_version := Some 6\<rparr>"
  by (simp add: schema_statements_def eval_nat_numeral)

text \<open>Migrating is idempotent and makes the counter row; on a new object it establishes the store's invariant.\<close>

lemma do_migrate_ok:
  assumes "calm d" "do_ok cp d \<or> do_tables d = do_tables (do_new now f)"
  shows "fst (do_migrate d) = Ok () \<and> do_ok cp (snd (do_migrate d)) \<and> (do_ok cp d \<longrightarrow> do_view cs cp (snd (do_migrate d)) = do_view cs cp d)"
proof -
  obtain r t d' where run: "do_migrate d = (r, d')" "(Ok (), fold (\<lambda>f. f) schema_statements (do_tables d)) = (r, t)"
    "do_tables d' = t" "do_now d' = do_now d" "calm d'"
    using acts_step [OF acts_do_run_all assms(1), of schema_statements] unfolding do_migrate_def by metis
  have t: "t = (do_tables d)\<lparr>dw_seq_counter := Some (case dw_seq_counter (do_tables d) of Some n \<Rightarrow> n | None \<Rightarrow> 0), dw_schema_version := Some 6\<rparr>"
    using run(2) by (simp add: migrate_tables)
  have same: "sq_of now' (t'\<lparr>dw_seq_counter := Some (case dw_seq_counter t' of Some n \<Rightarrow> n | None \<Rightarrow> 0), dw_schema_version := v\<rparr>) = sq_of now' t'" for now' t' v
    by (simp add: sq_of_def split: option.split)
  have "sql_ok cp (sq_of (do_now d) (do_tables d)) \<and> do_rows_ok ((do_tables d)\<lparr>dw_seq_counter := Some 0\<rparr>)"
    using assms(2)
  proof
    assume "do_tables d = do_tables (do_new now f)"
    then show ?thesis by (simp add: do_new_def sq_of_def sql_ok_def sql_seq_ok_def sql_accounts_ok_def do_rows_ok_def)
  qed (simp add: do_ok_def do_rows_ok_def)
  then have "do_ok cp d'" using run(3-5) t same by (simp add: do_ok_def do_rows_ok_def)
  then show ?thesis using run t same by (auto simp: do_view_def)
qed

lemma run_migrate_new: "do_migrate (do_new now (\<lambda>_. None)) = (Ok (), (do_new now (\<lambda>_. None))\<lparr>do_tables := (do_tables (do_new now (\<lambda>_. None)))
    \<lparr>dw_seq_counter := Some 0, dw_schema_version := Some 6\<rparr>, do_stmts := 22\<rparr>)"
  by (simp add: do_migrate_def schema_statements_def eval_nat_numeral do_run_def do_exec_def sql_stmt_def dbind_def dret_def do_new_def)


text \<open>Nothing is rolled back: when the last statement of a commit fails, its error is reported and the event is in the log, numbered, with
  the repository's root still the old one.\<close>

lemma commit_torn:
  "case do_commit_blocks unary_cid_str [] ''did:a'' (Cid 0 0 []) [7] ((snd (do_migrate (do_new ''t0'' (\<lambda>_. None))))\<lparr>do_faults := (\<lambda>n. if n = 25 then Some ''disk'' else None)\<rparr>) of
     (r, d) \<Rightarrow> is_err r \<and> map sq_seq (dw_repo_seq (do_tables d)) = [1] \<and> dw_repo_roots (do_tables d) = []"
  unfolding run_migrate_new
  by (simp add: do_commit_blocks_def do_run_def do_rows_def do_exec_def sql_stmt_def dbind_def dret_def now_iso_def dlift_def do_new_def insert_row_def ok_or_def)

end
