(* ===== verification/Registry_Laws.thy ===== *)
theory Registry_Laws
  imports Worker_Registry
begin

text \<open>
  The invite gate: labels are unique, and the uses of a code are conserved over every sequence of requests.
\<close>

subsection \<open>Undisturbed statements\<close>

lemma acts_rg_sql [acts_intros]: "acts rg_sql (\<lambda>now t. (Ok (), t))"
  unfolding rg_sql_def by (rule acts_eq, (rule acts_intros)+) simp

lemma acts_is_taken [acts_intros]: "acts (is_taken label) (\<lambda>now t. (Ok (tbl cm_label (rg_claims t) label \<noteq> None), t))"
proof -
  have "0 < length (filter (\<lambda>r. cm_label r = label) rows) \<longleftrightarrow> tbl cm_label rows label \<noteq> None" for rows
    by (induction rows) auto
  then show ?thesis unfolding is_taken_def by (intro acts_eq [OF acts_dbind [OF acts_sql_select acts_dret]]) simp
qed

subsection \<open>Requests on the tables\<close>

definition reserved :: "string \<Rightarrow> string option \<Rightarrow> string \<Rightarrow> claims_row" where
  "reserved label code now = \<lparr>cm_label = label, cm_did = None, cm_state = ''reserved'', cm_invite_code = code, cm_created_at = now\<rparr>"

text \<open>A code that can be redeemed.\<close>

definition redeemable :: "Registry \<Rightarrow> string \<Rightarrow> bool" where
  "redeemable t code = (case tbl ri_code (rg_invites t) code of Some r \<Rightarrow> ri_disabled r = 0 \<and> ri_available_uses r > 0 | None \<Rightarrow> False)"

definition spend :: "int \<Rightarrow> string \<Rightarrow> Registry \<Rightarrow> Registry" where
  "spend n code t = t\<lparr>rg_invites := snd (update_where (\<lambda>r. ri_code r = code) (\<lambda>r. r\<lparr>ri_available_uses := ri_available_uses r + n\<rparr>) (rg_invites t))\<rparr>"

lemma acts_add_uses [acts_intros]: "acts (add_uses n code) (\<lambda>now t. (Ok (), spend n code t))"
  unfolding add_uses_def spend_def by (rule acts_sql_modify)

lemma acts_insert_claim [acts_intros]: "acts (insert_claim label code now') (\<lambda>now t. case tbl cm_label (rg_claims t) label of
    None \<Rightarrow> (Ok (), t\<lparr>rg_claims := rg_claims t @ [reserved label code now']\<rparr>) | Some _ \<Rightarrow> (Err ''UNIQUE constraint failed'', t))"
  unfolding insert_claim_def by (rule acts_eq [OF acts_sql_stmt]) (simp add: insert_row_def reserved_def split: option.split)

lemma first_row: "(case filter (\<lambda>r. key r = k) rows of r # _ \<Rightarrow> P r | [] \<Rightarrow> False) = (case tbl key rows k of Some r \<Rightarrow> P r | None \<Rightarrow> False)"
  by (induction rows) auto

definition claim_tables :: "string \<Rightarrow> string option \<Rightarrow> bool \<Rightarrow> string \<Rightarrow> Registry \<Rightarrow> (string + unit) \<times> Registry" where
  "claim_tables label code open now t =
     (if tbl cm_label (rg_claims t) label \<noteq> None then (Err ''HandleNotAvailable'', t)
      else if open then (Ok (), t\<lparr>rg_claims := rg_claims t @ [reserved label None now]\<rparr>)
      else case code of
        Some c \<Rightarrow> if redeemable t c then (Ok (), (spend (-1) c t)\<lparr>rg_claims := rg_claims t @ [reserved label (Some c) now]\<rparr>) else (Err ''InvalidInviteCode'', t)
      | None \<Rightarrow> (Err ''InvalidInviteCode'', t))"

definition verdict :: "(string + unit) \<times> Registry \<Rightarrow> (string + wk_response) \<times> Registry" where
  "verdict p = (Ok (case fst p of Inl e \<Rightarrow> ok_resp False (Some e) | Inr _ \<Rightarrow> ok_resp True None), snd p)"

lemma acts_claim: "acts (registry_claim label code open) (\<lambda>now t. verdict (claim_tables label code open now t))"
proof -
  have claims: "rg_claims (spend n c t) = rg_claims t" for n c t by (simp add: spend_def)
  show ?thesis
    unfolding registry_claim_def Let_def
    by (rule acts_eq, (rule acts_intros)+)
      (auto simp: claim_tables_def verdict_def redeemable_def first_row claims split: option.split)
qed

text \<open>Releasing a label gives its reservation's use back and drops it; every other request as it stands.\<close>

definition release_tables :: "string \<Rightarrow> Registry \<Rightarrow> Registry" where
  "release_tables label t = (case filter (\<lambda>r. cm_label r = label \<and> cm_state r = ''reserved'') (rg_claims t) of
     [] \<Rightarrow> t
   | row # _ \<Rightarrow> (case cm_invite_code row of Some c \<Rightarrow> spend 1 c t | None \<Rightarrow> t)\<lparr>rg_claims :=
       filter (\<lambda>r. \<not> (cm_label r = label \<and> cm_state r = ''reserved'')) (rg_claims t)\<rparr>)"

lemma acts_release: "acts (registry_release label) (\<lambda>now t. (Ok (ok_resp True None), release_tables label t))"
  unfolding registry_release_def
  by (rule acts_eq, (rule acts_intros)+)
    (auto simp: release_tables_def spend_def delete_where_def split: list.split option.split)

lemma acts_check: "acts (registry_check label) (\<lambda>now t. (Ok (if tbl cm_label (rg_claims t) label \<noteq> None then check_resp False (Some ''taken'') else check_resp True None), t))"
  unfolding registry_check_def by (rule acts_eq, (rule acts_intros)+) simp

lemma acts_bind: "acts (registry_bind label did) (\<lambda>now t. (Ok (ok_resp True None), t\<lparr>rg_claims :=
    snd (update_where (\<lambda>r. cm_label r = label) (\<lambda>r. r\<lparr>cm_did := Some did, cm_state := ''active''\<rparr>) (rg_claims t))\<rparr>))"
  unfolding registry_bind_def by (rule acts_eq, (rule acts_intros)+) simp

lemma acts_seed: "acts (seed_invite code uses) (\<lambda>now t. (Ok (ok_resp True None), t\<lparr>rg_invites :=
    insert_or_replace ri_code \<lparr>ri_code = code, ri_available_uses = uses, ri_disabled = 0\<rparr> (rg_invites t)\<rparr>))"
  unfolding seed_invite_def by (rule acts_eq, (rule acts_intros)+) simp

lemma acts_force: "acts (force_release label) (\<lambda>now t. (Ok (ok_resp True None), t\<lparr>rg_claims := filter (\<lambda>r. cm_label r \<noteq> label) (rg_claims t)\<rparr>))"
  unfolding force_release_def by (rule acts_eq, (rule acts_intros)+) (simp add: delete_where_def)

lemma acts_resolve: "acts (resolve_did did) (\<lambda>now t. (Ok (WkJson 200 (Object [(''label'',
    case filter (\<lambda>r. cm_did r = Some did \<and> cm_state r = ''active'') (rg_claims t) of r # _ \<Rightarrow> String (cm_label r) | [] \<Rightarrow> Null)])), t))"
  unfolding resolve_did_def by (rule acts_eq, (rule acts_intros)+) simp

subsection \<open>Conservation\<close>

definition uses_left :: "string \<Rightarrow> Registry \<Rightarrow> int" where
  "uses_left code t = (case tbl ri_code (rg_invites t) code of Some r \<Rightarrow> ri_available_uses r | None \<Rightarrow> 0)"

definition uses_held :: "string \<Rightarrow> Registry \<Rightarrow> int" where
  "uses_held code t = int (length (filter (\<lambda>r. cm_invite_code r = Some code) (rg_claims t)))"

definition reg_ok :: "Registry \<Rightarrow> bool" where
  "reg_ok t = (tbl_ok cm_label (rg_claims t) \<and> tbl_ok ri_code (rg_invites t) \<and>
     (\<forall>r \<in> set (rg_claims t). \<forall>c. cm_invite_code r = Some c \<longrightarrow> tbl ri_code (rg_invites t) c \<noteq> None))"

definition conserves :: "string \<Rightarrow> bool \<Rightarrow> Registry \<Rightarrow> Registry \<Rightarrow> bool" where
  "conserves code forced t t' = (uses_left code t' + uses_held code t' \<le> uses_left code t + uses_held code t \<and>
     (\<not> forced \<longrightarrow> uses_left code t' + uses_held code t' = uses_left code t + uses_held code t) \<and>
     (0 \<le> uses_left code t \<longrightarrow> 0 \<le> uses_left code t'))"

lemma conserves_refl [simp]: "conserves code forced t t"
  by (simp add: conserves_def)

lemma spend_invites: "tbl ri_code (rg_invites (spend n code t)) c =
    (if c = code then map_option (\<lambda>r. r\<lparr>ri_available_uses := ri_available_uses r + n\<rparr>) (tbl ri_code (rg_invites t) c) else tbl ri_code (rg_invites t) c)"
  by (simp add: spend_def tbl_update_where)

lemma spend_ok: "tbl_ok ri_code (rg_invites (spend n code t)) = tbl_ok ri_code (rg_invites t)" "rg_claims (spend n code t) = rg_claims t"
  by (simp_all add: spend_def tbl_ok_update_where)

lemma claim_conserves:
  assumes "reg_ok t"
  shows "reg_ok (snd (claim_tables label code open now t)) \<and> conserves c forced t (snd (claim_tables label code open now t))"
  using assms by (auto simp: claim_tables_def reg_ok_def conserves_def tbl_ok_append reserved_def spend_ok spend_invites uses_left_def uses_held_def
      redeemable_def split: option.splits)

lemma length_filter_split: "length (filter P xs) = length (filter P (filter Q xs)) + length (filter P (filter (\<lambda>x. \<not> Q x) xs))"
  by (induction xs) auto

lemma one_row:
  assumes "tbl_ok key rows" "filter (\<lambda>r. key r = k \<and> Q r) rows = row # rest"
  shows "rest = []" "row \<in> set rows"
proof -
  have "distinct (map key (filter (\<lambda>r. key r = k \<and> Q r) rows))" using assms(1) by (simp add: tbl_ok_def distinct_map_filter)
  moreover have mem: "set (row # rest) \<subseteq> {r \<in> set rows. key r = k}" unfolding assms(2) [symmetric] by auto
  ultimately show "rest = []" unfolding assms(2) by (cases rest) auto
  show "row \<in> set rows" using mem by simp
qed

lemma release_conserves:
  assumes "reg_ok t"
  shows "reg_ok (release_tables label t) \<and> conserves c forced t (release_tables label t)"
proof (cases "filter (\<lambda>r. cm_label r = label \<and> cm_state r = ''reserved'') (rg_claims t)")
  case Nil
  with assms show ?thesis by (simp add: release_tables_def)
next
  case (Cons row rest)
  have ok: "tbl_ok cm_label (rg_claims t)" using assms by (simp add: reg_ok_def)
  note one = one_row [OF ok Cons]
  have split: "length (filter P (rg_claims t)) = (if P row then 1 else 0) +
      length (filter P (filter (\<lambda>r. \<not> (cm_label r = label \<and> cm_state r = ''reserved'')) (rg_claims t)))" for P
    using length_filter_split [of P "rg_claims t" "\<lambda>r. cm_label r = label \<and> cm_state r = ''reserved''"] by (simp only: Cons one) simp
  show ?thesis
  proof (cases "cm_invite_code row")
    case None
    with assms Cons split [of "\<lambda>r. cm_invite_code r = Some c"] show ?thesis
      by (auto simp: release_tables_def reg_ok_def conserves_def uses_left_def uses_held_def tbl_ok_def distinct_map_filter simp del: filter_filter)
  next
    case (Some code)
    with assms one obtain r where "tbl ri_code (rg_invites t) code = Some r" by (fastforce simp: reg_ok_def)
    with Some assms Cons split [of "\<lambda>r. cm_invite_code r = Some c"] show ?thesis
      by (auto simp: release_tables_def reg_ok_def conserves_def uses_left_def uses_held_def tbl_ok_def distinct_map_filter spend_invites
          spend_ok(2) spend_ok(1) [unfolded tbl_ok_def] simp del: filter_filter split: option.splits)
  qed
qed

lemma bind_conserves:
  assumes "reg_ok t"
    and t'_def: "t' = t\<lparr>rg_claims := snd (update_where (\<lambda>r. cm_label r = label) (\<lambda>r. r\<lparr>cm_did := Some did, cm_state := ''active''\<rparr>) (rg_claims t))\<rparr>"
  shows "reg_ok t' \<and> conserves c forced t t'"
proof -
  have "length (filter (\<lambda>r. cm_invite_code r = Some c) (snd (update_where P (\<lambda>r. r\<lparr>cm_did := Some did, cm_state := ''active''\<rparr>) rows))) =
    length (filter (\<lambda>r. cm_invite_code r = Some c) rows)" for P rows by (induction rows) (auto simp: update_where_def)
  then show ?thesis
    using assms(1) by (auto simp: t'_def reg_ok_def conserves_def uses_left_def uses_held_def tbl_ok_update_where) (auto simp: update_where_def split: if_splits)
qed

lemma seed_conserves:
  assumes "reg_ok t"
    and t'_def: "t' = t\<lparr>rg_invites := insert_or_replace ri_code \<lparr>ri_code = code, ri_available_uses = uses, ri_disabled = 0\<rparr> (rg_invites t)\<rparr>"
  shows "reg_ok t' \<and> (c \<noteq> code \<longrightarrow> conserves c forced t t')"
  using assms(1) by (auto simp: t'_def reg_ok_def conserves_def uses_left_def uses_held_def tbl_insert_or_replace)

lemma force_conserves:
  assumes "reg_ok t"
    and t'_def: "t' = t\<lparr>rg_claims := filter (\<lambda>r. cm_label r \<noteq> label) (rg_claims t)\<rparr>"
  shows "reg_ok t' \<and> conserves c True t t'"
proof -
  have "length (filter P (filter Q rows)) \<le> length (filter P rows)" for P Q and rows :: "claims_row list" by (induction rows) auto
  then show ?thesis
    using assms(1) by (auto simp: t'_def reg_ok_def conserves_def uses_left_def uses_held_def tbl_ok_def distinct_map_filter simp del: filter_filter)
qed

subsection \<open>Sequences of requests\<close>

type_synonym do_request = "string \<times> (string + json)"

definition seeds :: "string \<Rightarrow> do_request \<Rightarrow> bool" where
  "seeds code rq = (fst rq = ''/invite'' \<and> (\<exists>v. snd rq = Ok v \<and> de_string v ''code'' = Ok code))"

definition forces :: "do_request \<Rightarrow> bool" where
  "forces rq = (fst rq = ''/force-release'')"

definition reg_step :: "string \<Rightarrow> do_request \<Rightarrow> Registry DurableSql \<Rightarrow> Registry DurableSql \<Rightarrow> bool" where
  "reg_step c rq d d' = (calm d' \<and> reg_ok (do_tables d') \<and> (\<not> seeds c rq \<longrightarrow> conserves c (forces rq) (do_tables d) (do_tables d')))"

lemma reg_step_acts:
  assumes "acts m f" "calm d" "\<And>now t. t = do_tables d \<Longrightarrow> reg_ok (snd (f now t)) \<and> (\<not> seeds c rq \<longrightarrow> conserves c (forces rq) t (snd (f now t)))"
  shows "reg_step c rq d (snd (m d))"
  using assms(3) [OF refl, of "do_now d"] by (cases rule: acts_step [OF assms(1,2)]) (auto simp: reg_step_def)

lemma reg_step_refl: "calm d \<Longrightarrow> reg_ok (do_tables d) \<Longrightarrow> reg_step c rq d d"
  by (simp add: reg_step_def)

lemma dbind_dlift: "dbind (dlift r) k d = (case r of Inl e \<Rightarrow> (Err e, d) | Inr a \<Rightarrow> k a d)"
  by (simp add: dbind_def dlift_def split: sum.split)

lemma reg_step_dlift: "reg_step c rq d d \<Longrightarrow> (\<And>a. r = Ok a \<Longrightarrow> reg_step c rq d (snd (k a d))) \<Longrightarrow> reg_step c rq d (snd (dbind (dlift r) k d))"
  by (simp add: dbind_dlift split: sum.split)

lemma reg_step_if: "(b \<Longrightarrow> reg_step c rq d (snd (m d))) \<Longrightarrow> (\<not> b \<Longrightarrow> reg_step c rq d (snd (m' d))) \<Longrightarrow> reg_step c rq d (snd ((if b then m else m') d))"
  by simp

lemma route_step:
  assumes "calm d" "reg_ok (do_tables d)"
  shows "reg_step c (path, body) d (snd (registry_route path body d))"
proof -
  note same = reg_step_refl [OF assms]
  have check: "reg_step c (path, body) d (snd (registry_check l d))" for l
    by (rule reg_step_acts [OF acts_check assms(1)]) (simp add: assms(2))
  have resolve: "reg_step c (path, body) d (snd (resolve_did l d))" for l
    by (rule reg_step_acts [OF acts_resolve assms(1)]) (simp add: assms(2))
  have claim: "reg_step c (path, body) d (snd (registry_claim l i opn d))" for l i opn
    by (rule reg_step_acts [OF acts_claim assms(1)]) (use claim_conserves [OF assms(2)] in \<open>simp add: verdict_def\<close>)
  have release: "reg_step c (path, body) d (snd (registry_release l d))" for l
    by (rule reg_step_acts [OF acts_release assms(1)]) (use release_conserves [OF assms(2)] in simp)
  have bind: "reg_step c (path, body) d (snd (registry_bind l did d))" for l did
    by (rule reg_step_acts [OF acts_bind assms(1)]) (use bind_conserves [OF assms(2) refl] in simp)
  have seed: "reg_step c (path, body) d (snd (seed_invite code uses d))" if "seeds code (path, body)" for code uses
    by (rule reg_step_acts [OF acts_seed assms(1)]) (use seed_conserves [OF assms(2) refl, of code uses c] that in auto)
  have force: "reg_step c (path, body) d (snd (force_release l d))" if "path = ''/force-release''" for l
    by (rule reg_step_acts [OF acts_force assms(1)]) (use force_conserves [OF assms(2) refl] that in \<open>simp add: forces_def\<close>)
  show ?thesis
    unfolding registry_route_def
  proof (intro reg_step_if reg_step_dlift same check resolve release force, goal_cases)
    case (1 p)
    show ?case using claim by (cases p) simp
  next
    case (2 p)
    show ?case using bind by (cases p) simp
  next
    case (3 p)
    have "seeds (fst p) (path, body)" using 3(5,6) by (auto simp: and_then_def seeds_def split: sum.splits)
    then show ?case using seed by (cases p) simp
  qed (simp_all add: dret_def same)
qed

lemma fetch_step: "calm d \<Longrightarrow> reg_ok (do_tables d) \<Longrightarrow> reg_step c (path, body) d (snd (registry_fetch path body d))"
  using route_step [of d c path body] by (cases "registry_route path body d") (simp add: registry_fetch_def split: sum.split)

primrec reg_run :: "do_request list \<Rightarrow> Registry DurableSql \<Rightarrow> Registry DurableSql" where
  "reg_run [] d = d"
| "reg_run (rq # rqs) d = reg_run rqs (snd (registry_fetch (fst rq) (snd rq) d))"

lemma conserves_trans: "conserves c f t t' \<Longrightarrow> conserves c f' t' t'' \<Longrightarrow> conserves c (f \<or> f') t t''"
  by (auto simp: conserves_def)

text \<open>The invite gate neither invents nor loses invites. Over every sequence of requests to the registry, whatever their paths
  and bodies, labels stay unique, and for every code that is not seeded again meanwhile the uses left plus the
  claims that hold one never grow, and stay exactly the same unless a claim was forced out by deleting its account. The uses
  left never fall below zero, so never more labels are claimed with a code than it had uses.\<close>

theorem registry_invites_conserved:
  assumes "calm d" "reg_ok (do_tables d)" "list_all (\<lambda>rq. \<not> seeds c rq) rqs"
  defines "d' \<equiv> reg_run rqs d"
  shows "reg_ok (do_tables d') \<and> conserves c (list_ex forces rqs) (do_tables d) (do_tables d') \<and>
    (0 \<le> uses_left c (do_tables d) \<longrightarrow> uses_held c (do_tables d') \<le> uses_left c (do_tables d) + uses_held c (do_tables d))"
proof -
  have "reg_ok (do_tables (reg_run rqs d)) \<and> conserves c (list_ex forces rqs) (do_tables d) (do_tables (reg_run rqs d))"
    using assms(1-3)
  proof (induction rqs arbitrary: d)
    case (Cons rq rqs)
    let ?d = "snd (registry_fetch (fst rq) (snd rq) d)"
    from fetch_step [OF Cons.prems(1,2), of c "fst rq" "snd rq"] Cons.prems(3)
    have "calm ?d" "reg_ok (do_tables ?d)" "conserves c (forces rq) (do_tables d) (do_tables ?d)" by (auto simp: reg_step_def)
    with Cons.IH [of ?d] Cons.prems(3) show ?case by (auto intro: conserves_trans)
  qed simp
  then show ?thesis unfolding d'_def by (auto simp: conserves_def)
qed

definition wit_registry :: "Registry DurableSql" where
  "wit_registry = \<lparr>do_tables = \<lparr>rg_claims = [], rg_invites = [\<lparr>ri_code = ''c'', ri_available_uses = 1, ri_disabled = 0\<rparr>]\<rparr>,
     do_now = ''t'', do_faults = (\<lambda>_. None), do_stmts = 0\<rparr>"

definition wit_claim :: "string \<Rightarrow> do_request" where
  "wit_claim label = (''/claim'', Ok (Object [(''label'', String label), (''invite_code'', String ''c'')]))"

theorem registry_invites_conserved_witness:
  "uses_held ''c'' (do_tables (reg_run [wit_claim ''a'', wit_claim ''b''] wit_registry)) \<le> 1"
proof -
  have "calm wit_registry" "reg_ok (do_tables wit_registry)" "list_all (\<lambda>rq. \<not> seeds ''c'' rq) [wit_claim ''a'', wit_claim ''b'']"
    "uses_left ''c'' (do_tables wit_registry) = 1" "uses_held ''c'' (do_tables wit_registry) = 0"
    by (simp_all add: wit_registry_def calm_def reg_ok_def tbl_ok_def seeds_def wit_claim_def uses_left_def uses_held_def)
  with registry_invites_conserved [of wit_registry "''c''" "[wit_claim ''a'', wit_claim ''b'']"] show ?thesis by simp
qed

text \<open>Seeding a code again while one of its reservations is open lets that reservation give back a use the code no longer owes: one
  seeded use, claimed, seeded again as one use and released leaves two.\<close>

lemma reseeded_code_overpays:
  "uses_left ''c'' (do_tables (reg_run [wit_claim ''a'', (''/invite'', Ok (Object [(''code'', String ''c'')])),
     (''/release'', Ok (Object [(''label'', String ''a'')]))] wit_registry)) = 2"
  by code_simp

text \<open>A statement that fails after the refund hands the use out twice: the reservation stays and is refunded again.\<close>

lemma release_fault_overpays:
  "uses_left ''c'' (do_tables (reg_run [(''/release'', Ok (Object [(''label'', String ''a'')])), (''/release'', Ok (Object [(''label'', String ''a'')]))]
     ((reg_run [wit_claim ''a''] wit_registry)\<lparr>do_faults := (\<lambda>n. if n = 12 then Some ''disk'' else None)\<rparr>))) = 2"
  by code_simp

end
