(* ===== verification/Sequencer_Laws.thy ===== *)
theory Sequencer_Laws
  imports Worker_Sequencer Registry_Laws Outbound_Laws
begin

text \<open>
  One ordered stream for the whole deployment: what every accepted socket has been sent, whichever statements fail.
\<close>

subsection \<open>How a request moves the object\<close>

definition next_seq :: "SequencerDO \<Rightarrow> int" where
  "next_seq t = (case sg_next t of Some n \<Rightarrow> n | None \<Rightarrow> 1)"

definition seq_moves :: "SequencerDO \<Rightarrow> SequencerDO \<Rightarrow> bool" where
  "seq_moves t t' = (next_seq t \<le> next_seq t' \<and> (\<exists>rows new. sg_log t' = sg_log t @ rows \<and>
     sorted_wrt (<) (map fr_seq rows) \<and> (\<forall>r \<in> set rows. next_seq t \<le> fr_seq r \<and> fr_seq r < next_seq t') \<and>
     sg_sockets t' = map (send_all (map fr_frame rows)) (sg_sockets t) @ new))"

lemma send_all_Nil [simp]: "send_all [] = id"
  by (rule ext) simp

lemma send_all_append: "send_all (fs @ gs) ws = send_all gs (send_all fs ws)"
  by (induction fs arbitrary: ws) simp_all

lemma seq_moves_refl: "seq_moves t t"
  unfolding seq_moves_def by (auto intro!: exI [of _ "[]"])

lemma seq_moves_trans:
  assumes "seq_moves t t'" "seq_moves t' t''"
  shows "seq_moves t t''"
proof -
  from assms obtain rows new rows' new' where
    "sg_log t' = sg_log t @ rows" "sorted_wrt (<) (map fr_seq rows)" "\<forall>r \<in> set rows. next_seq t \<le> fr_seq r \<and> fr_seq r < next_seq t'"
    "sg_sockets t' = map (send_all (map fr_frame rows)) (sg_sockets t) @ new" "next_seq t \<le> next_seq t'"
    "sg_log t'' = sg_log t' @ rows'" "sorted_wrt (<) (map fr_seq rows')" "\<forall>r \<in> set rows'. next_seq t' \<le> fr_seq r \<and> fr_seq r < next_seq t''"
    "sg_sockets t'' = map (send_all (map fr_frame rows')) (sg_sockets t') @ new'" "next_seq t' \<le> next_seq t''"
    unfolding seq_moves_def by blast
  then show ?thesis
    unfolding seq_moves_def
    by (intro conjI exI [of _ "rows @ rows'"] exI [of _ "map (send_all (map fr_frame rows')) new @ new'"])
      (auto simp: send_all_append sorted_wrt_append dest: order_trans, fastforce+)
qed

lemma seq_moves_same: "sg_log t' = sg_log t \<Longrightarrow> sg_sockets t' = sg_sockets t \<Longrightarrow> next_seq t \<le> next_seq t' \<Longrightarrow> seq_moves t t'"
  unfolding seq_moves_def by (auto intro!: exI [of _ "[]"])

definition opened :: "SequencerDO \<Rightarrow> SequencerDO" where
  "opened t = t\<lparr>sg_next := Some (next_seq t)\<rparr>"

lemma next_seq_opened [simp]: "next_seq (opened t) = next_seq t" "sg_log (opened t) = sg_log t" "sg_sockets (opened t) = sg_sockets t"
  by (simp_all add: opened_def next_seq_def)

lemma holds_sg_sql: "holds (\<lambda>t. t = t0) sg_sql (\<lambda>_ t. t = opened t0) (\<lambda>t. t = t0 \<or> t = opened t0)"
  unfolding sg_sql_def
  by (rule holds_dbind [where Q = "\<lambda>_ t. t = t0"], rule holds_sql_modify, simp, simp,
      rule holds_dbind [where Q = "\<lambda>_ t. t = opened t0"], rule holds_sql_modify, simp, simp add: opened_def next_seq_def,
      rule holds_sql_modify) simp_all

text \<open>Symbolic execution from one known state: what a failure leaves is either that state or what the rest leaves.\<close>

lemma holds_from_dbind:
  assumes "holds (\<lambda>t. t = s) m (\<lambda>a t. t = s' \<and> F a) E" "\<And>a. F a \<Longrightarrow> holds (\<lambda>t. t = s') (k a) Q E"
  shows "holds (\<lambda>t. t = s) (dbind m k) Q E"
proof (rule holds_dbind [OF assms(1)])
  fix a
  show "holds (\<lambda>t. t = s' \<and> F a) (k a) Q E"
    using assms(2) [of a] by (cases "F a") (simp_all add: holds_def)
qed

lemma enqueue_moves: "holds (\<lambda>t. t = t0) (enqueue P ev) (\<lambda>_. seq_moves t0) (seq_moves t0)"
proof -
  let ?n = "next_seq t0" and ?t1 = "(opened t0)\<lparr>sg_next := Some (next_seq t0 + 1)\<rparr>"
  have open_ok: "seq_moves t0 (opened t0)" by (rule seq_moves_same) simp_all
  have bumped: "seq_moves t0 ?t1" by (rule seq_moves_same) (simp_all add: next_seq_def)
  have publish: "holds (\<lambda>t. seq_moves t0 t) (publish_to_indexer P n ev) (\<lambda>_. seq_moves t0) (seq_moves t0)" for n
    unfolding publish_to_indexer_def Let_def
    by (rule holds_dbind [where Q = "\<lambda>_. seq_moves t0"], rule holds_dget, simp)
      (auto split: option.split intro!: holds_dret holds_dbind [where Q = "\<lambda>_. seq_moves t0"] holds_dlift holds_dmodify,
       auto simp: seq_moves_def next_seq_def)
  have fan_out: "holds (\<lambda>t. t = ?t1\<lparr>sg_log := sg_log t0 @ [row]\<rparr>)
      (dbind (dmodify (\<lambda>t. t\<lparr>sg_sockets := map (\<lambda>ws. snd (ws_send (fr_frame row) ws)) (sg_sockets t)\<rparr>)) (\<lambda>_.
       dbind (dtry (publish_to_indexer P n ev)) (\<lambda>_. dret resp))) (\<lambda>_. seq_moves t0) (seq_moves t0)"
    if "fr_seq row = ?n" for row n and resp :: wk_response
  proof (rule holds_dbind [where Q = "\<lambda>_. seq_moves t0"], rule holds_dmodify, goal_cases)
    case (1 t)
    have "sg_sockets t0 = [] @ sg_sockets t0" by simp
    with 1 that show ?case unfolding seq_moves_def by (intro conjI exI [of _ "[row]"] exI [of _ "[]"]) (auto simp: next_seq_def)
  next
    case (2 u)
    show ?case
      by (rule holds_dbind [where Q = "\<lambda>_. seq_moves t0"], rule holds_dtry, rule publish, rule holds_dret)
  qed
  show ?thesis
    unfolding enqueue_def Let_def
  proof (rule holds_from_dbind [where s' = "opened t0" and F = "\<lambda>_. True"], goal_cases)
    case 1
    show ?case by (rule holds_post [OF holds_sg_sql]) (auto simp: open_ok seq_moves_refl)
  next
    case (2 u)
    show ?case
    proof (rule holds_from_dbind [where s' = "opened t0" and F = "\<lambda>row. row = Some ?n"], goal_cases)
      case 1
      show ?case by (rule holds_sql_select) (auto simp: open_ok, simp add: opened_def)
    next
      case (2 row)
      show ?case
      proof (rule holds_from_dbind [where s' = ?t1 and F = "\<lambda>_. True"], goal_cases)
        case 1
        show ?case by (rule holds_sql_modify) (auto simp: open_ok 2, simp add: opened_def)
      next
        case (2 u)
        show ?case
        proof (rule holds_from_dbind [where s' = ?t1 and F = "\<lambda>_. True"], goal_cases)
          case 1
          show ?case by (rule holds_dlift) (auto simp: bumped)
        next
          case (2 commit_cid)
          show ?case
          proof (rule holds_from_dbind [where s' = ?t1 and F = "\<lambda>_. True"], goal_cases)
            case 1
            show ?case by (rule holds_dlift) (auto simp: bumped)
          next
            case (2 ops)
            show ?case
            proof (rule holds_from_dbind [where s' = ?t1 and F = "\<lambda>_. True"], rule holds_now_iso, simp,
                rule holds_from_dbind [where s' = ?t1 and F = "\<lambda>_. True"], rule holds_now_iso, simp, goal_cases)
              case (1 time created_at)
              let ?row = "\<lparr>fr_seq = ?n, fr_repo = en_repo ev, fr_frame = encode_message_frame P ''#commit'' \<lparr>cb_seq = ?n, cb_rebase = False, cb_too_big = en_too_big ev,
                cb_repo = en_repo ev, cb_commit = commit_cid, cb_rev = en_rev ev, cb_since = en_since ev,
                cb_blocks = (case base64_decode P (en_blocks_b64 ev) of Inr b \<Rightarrow> b | Inl _ \<Rightarrow> []), cb_ops = ops, cb_blobs = [], cb_time = time, cb_prev_data = None\<rparr>,
                fr_created_at = created_at\<rparr>"
              show ?case
              proof (rule holds_from_dbind [where s' = "?t1\<lparr>sg_log := sg_log t0 @ [?row]\<rparr>" and F = "\<lambda>_. True"], goal_cases)
                case 1
                show ?case by (rule holds_sql_stmt) (auto simp: bumped insert_row_def \<open>row = Some ?n\<close> split: option.splits)
              next
                case (2 u)
                show ?case using fan_out [of ?row] by (simp add: \<open>row = Some ?n\<close>)
              qed
            qed
          qed
        qed
      qed
    qed
  qed
qed

lemma subscribe_moves: "holds (\<lambda>t. t = t0) (sequencer_subscribe server cursor) (\<lambda>_. seq_moves t0) (seq_moves t0)"
proof -
  let ?t1 = "t0\<lparr>sg_sockets := sg_sockets t0 @ [server]\<rparr>"
  have joined: "seq_moves t0 t" if "sg_log t = sg_log t0" "next_seq t = next_seq t0" "sg_sockets t = sg_sockets t0 @ [ws]" for t ws
    using that unfolding seq_moves_def by (intro conjI exI [of _ "[]"] exI [of _ "[ws]"]) auto
  have t1: "seq_moves t0 ?t1" "seq_moves t0 (opened ?t1)" by (rule joined; simp add: opened_def next_seq_def)+
  show ?thesis
  proof (cases cursor)
    case None
    then show ?thesis unfolding sequencer_subscribe_def
      by (auto intro!: holds_dbind [OF holds_dmodify [where Q = "\<lambda>_ t. t = ?t1"]] holds_dret simp: t1)
  next
    case (Some after)
    show ?thesis
      unfolding sequencer_subscribe_def Some option.case
      by (rule holds_from_dbind [where s' = ?t1 and F = "\<lambda>_. True", OF holds_dmodify], simp,
          rule holds_from_dbind [where s' = "opened ?t1" and F = "\<lambda>_. True", OF holds_post [OF holds_sg_sql]], simp, simp, use t1 in blast,
          rule holds_from_dbind [where s' = "opened ?t1" and F = "\<lambda>_. True", OF holds_sql_select], use t1 in blast, simp,
          rule holds_dmodify)
        (rule joined; simp add: opened_def next_seq_def)
  qed
qed

lemma fetch_moves: "seq_moves (do_tables d) (do_tables (snd (sequencer_fetch P server path query body d)))"
proof -
  let ?t = "do_tables d"
  have "holds (\<lambda>t. t = ?t) (sequencer_route P server path query body) (\<lambda>_. seq_moves ?t) (seq_moves ?t)"
    unfolding sequencer_route_def
    by (auto intro!: holds_dbind [OF subscribe_moves] holds_dbind [OF holds_dlift [where Q = "\<lambda>_ t. t = ?t"]] holds_dbind [OF enqueue_moves]
        holds_dret seq_moves_refl)
  from holdsD [OF this refl] show ?thesis
    by (cases "sequencer_route P server path query body d") (auto simp: sequencer_fetch_def split: sum.splits)
qed

subsection \<open>What a subscriber receives\<close>

definition backlog :: "int option \<Rightarrow> SequencerDO \<Rightarrow> bytes list" where
  "backlog cursor t = (case cursor of None \<Rightarrow> [] | Some after \<Rightarrow> map fr_frame (sort_key fr_seq (filter (\<lambda>r. fr_seq r > after) (sg_log t))))"

lemma subscribe_joins:
  "holds (\<lambda>t. t = t0) (sequencer_subscribe server cursor) (\<lambda>_ t. sg_log t = sg_log t0 \<and> next_seq t = next_seq t0 \<and>
     sg_sockets t = sg_sockets t0 @ [send_all (backlog cursor t0) server]) (\<lambda>_. True)"
proof -
  let ?t1 = "t0\<lparr>sg_sockets := sg_sockets t0 @ [server]\<rparr>"
  show ?thesis
  proof (cases cursor)
    case None
    then show ?thesis unfolding sequencer_subscribe_def
      by (auto intro!: holds_dbind [OF holds_dmodify [where Q = "\<lambda>_ t. t = ?t1"]] holds_dret simp: backlog_def next_seq_def)
  next
    case (Some after)
    show ?thesis
      unfolding sequencer_subscribe_def Some option.case
      by (rule holds_from_dbind [where s' = ?t1 and F = "\<lambda>_. True", OF holds_dmodify], simp,
          rule holds_from_dbind [where s' = "opened ?t1" and F = "\<lambda>_. True", OF holds_post [OF holds_sg_sql]], simp, simp, simp,
          rule holds_from_dbind [where s' = "opened ?t1" and F = "\<lambda>rows. rows = backlog cursor t0", OF holds_sql_select], simp,
          simp add: backlog_def Some, rule holds_dmodify)
        (simp add: opened_def next_seq_def Some)
  qed
qed

definition seq_ok :: "SequencerDO \<Rightarrow> bool" where
  "seq_ok t = (sorted_wrt (<) (map fr_seq (sg_log t)) \<and> (\<forall>r \<in> set (sg_log t). fr_seq r < next_seq t))"

lemma seq_ok_moves: "seq_ok t \<Longrightarrow> seq_moves t t' \<Longrightarrow> seq_ok t'"
  by (fastforce simp: seq_ok_def seq_moves_def sorted_wrt_append)

definition frames_after :: "int \<Rightarrow> SequencerDO \<Rightarrow> bytes list" where
  "frames_after s t = map fr_frame (filter (\<lambda>r. s < fr_seq r) (sg_log t))"

lemma send_all_sent: "send_all fs ws = ws\<lparr>ws_sent := ws_sent ws @ take (ws_left ws) fs, ws_left := ws_left ws - length fs\<rparr>"
proof (induction fs arbitrary: ws)
  case (Cons f fs)
  then show ?case by (cases "ws_left ws") (simp_all add: ws_send_def)
qed simp

type_synonym seq_request = "WebSocket \<times> string \<times> (string \<times> string) list \<times> (string + json)"

primrec seq_run :: "'x worker_prims_scheme \<Rightarrow> seq_request list \<Rightarrow> SequencerDO DurableSql \<Rightarrow> SequencerDO DurableSql" where
  "seq_run P [] d = d"
| "seq_run P (rq # rqs) d = seq_run P rqs (case rq of (server, path, query, body) \<Rightarrow> snd (sequencer_fetch P server path query body d))"

lemma seq_run_moves: "seq_moves (do_tables d) (do_tables (seq_run P rqs d))"
proof (induction rqs arbitrary: d)
  case (Cons rq rqs)
  obtain server path query body where rq: "rq = (server, path, query, body)" by (cases rq)
  show ?case using seq_moves_trans [OF fetch_moves Cons.IH] by (simp add: rq)
qed (simp add: seq_moves_refl)

text \<open>Where a subscriber starts: after its cursor, or after the head when it named none or a later one.\<close>

definition starts_at :: "int option \<Rightarrow> SequencerDO \<Rightarrow> int" where
  "starts_at cursor t = (case cursor of Some c \<Rightarrow> min c (next_seq t - 1) | None \<Rightarrow> next_seq t - 1)"

lemma backlog_frames:
  assumes "seq_ok t"
  shows "backlog cursor t = frames_after (starts_at cursor t) t"
proof -
  have none: "filter (\<lambda>r. next_seq t - 1 < fr_seq r) (sg_log t) = []" using assms by (fastforce simp: seq_ok_def filter_empty_conv)
  show ?thesis
  proof (cases cursor)
    case None
    then show ?thesis using none by (simp add: backlog_def frames_after_def starts_at_def)
  next
    case (Some c)
    have "sort_key fr_seq (filter (\<lambda>r. c < fr_seq r) (sg_log t)) = filter (\<lambda>r. c < fr_seq r) (sg_log t)"
      using assms by (intro sort_key_id_if_sorted sorted_filter strict_sorted_imp_sorted) (simp add: seq_ok_def)
    moreover have "filter (\<lambda>r. c < fr_seq r) (sg_log t) = filter (\<lambda>r. min c (next_seq t - 1) < fr_seq r) (sg_log t)"
      using assms by (intro filter_cong) (auto simp: seq_ok_def)
    ultimately show ?thesis by (simp add: Some backlog_def frames_after_def starts_at_def)
  qed
qed

text \<open>C16: one ordered stream with nothing missing. Let a subscriber be accepted by the sequencer, and let any requests
  follow, other subscriptions, commits of any account, commits that are refused half way, with any statements failing. Then the log
  is strictly ordered by its numbers, and the subscriber has been sent exactly the frames of the log after the point where it
  started, in order and each once, as many of them as its peer took.\<close>

theorem sequencer_stream_complete:
  assumes "seq_ok (do_tables d0)" "ws_sent server = []"
    and "sequencer_route P server ''/xrpc/com.atproto.sync.subscribeRepos'' query body d0 = (Ok r, d)"
  shows "let t0 = do_tables d0; t = do_tables (seq_run P rqs d); i = length (sg_sockets t0); start = starts_at (sequencer_cursor query) t0 in
    sorted_wrt (<) (map fr_seq (sg_log t)) \<and> i < length (sg_sockets t) \<and>
    ws_sent (sg_sockets t ! i) = take (ws_left server) (frames_after start t)"
proof -
  let ?init = "do_tables d0" and ?joined = "do_tables d" and ?fin = "do_tables (seq_run P rqs d)"
  let ?s = "starts_at (sequencer_cursor query) ?init"
  have "\<exists>u. sequencer_subscribe server (sequencer_cursor query) d0 = (Ok u, d)"
    using assms(3) by (auto simp: sequencer_route_def dbind_def dret_def split: prod.splits sum.splits)
  then obtain u where "sequencer_subscribe server (sequencer_cursor query) d0 = (Ok u, d)" by blast
  from holdsD [OF subscribe_joins refl this] have t1: "sg_log ?joined = sg_log ?init" "next_seq ?joined = next_seq ?init"
    "sg_sockets ?joined = sg_sockets ?init @ [send_all (backlog (sequencer_cursor query) ?init) server]" by simp_all
  have ok1: "seq_ok ?joined" using assms(1) t1 by (simp add: seq_ok_def)
  from seq_run_moves [of d P rqs] obtain rows new where m: "sg_log ?fin = sg_log ?joined @ rows" "\<forall>r \<in> set rows. next_seq ?joined \<le> fr_seq r"
    "sg_sockets ?fin = map (send_all (map fr_frame rows)) (sg_sockets ?joined) @ new" unfolding seq_moves_def by auto
  have "?s < next_seq ?init" by (auto simp: starts_at_def min_def split: option.split)
  then have all: "filter (\<lambda>r. ?s < fr_seq r) rows = rows" using m(2) t1(2) by (fastforce intro: filter_True)
  have "sg_sockets ?fin ! length (sg_sockets ?init) = send_all (frames_after ?s ?init @ map fr_frame rows) server"
    using backlog_frames [OF assms(1), of "sequencer_cursor query"] by (simp add: m(3) t1(3) nth_append send_all_append)
  moreover have "frames_after ?s ?init @ map fr_frame rows = frames_after ?s ?fin" using m(1) t1(1) all by (simp add: frames_after_def)
  ultimately have "ws_sent (sg_sockets ?fin ! length (sg_sockets ?init)) = take (ws_left server) (frames_after ?s ?fin)"
    by (simp add: send_all_sent assms(2))
  moreover have "sorted_wrt (<) (map fr_seq (sg_log ?fin))" using seq_ok_moves [OF ok1 seq_run_moves [of d P rqs]] by (simp add: seq_ok_def)
  ultimately show ?thesis by (simp add: Let_def m(3) t1(3))
qed

definition wit_worker :: worker_prims where
  "wit_worker = emb_prims.extend (outbound_prims.extend wit_out (emb_prims.fields (\<lambda>s. Ok Null) (\<lambda>j. []) (\<lambda>b. b) from_bytes ''0''))
     (worker_prims.fields (\<lambda>s. if s = ''bad'' then Err ''cid'' else Ok (Cid 0 0 [])) (\<lambda>s. Ok []) (\<lambda>s. Ok ()))"

definition wit_sequencer :: "SequencerDO DurableSql" where
  "wit_sequencer = \<lparr>do_tables = \<lparr>sg_next = Some 2, sg_log = [\<lparr>fr_seq = 1, fr_repo = ''a'', fr_frame = [42], fr_created_at = ''t''\<rparr>],
     sg_sockets = [], sg_queue = None\<rparr>, do_now = ''t'', do_faults = (\<lambda>_. None), do_stmts = 0\<rparr>"

definition wit_enqueue :: "string \<Rightarrow> seq_request" where
  "wit_enqueue commit = (\<lparr>ws_sent = [], ws_left = 0\<rparr>, ''/enqueue'', [],
     Ok (Object [(''repo'', String ''b''), (''commit'', String commit), (''rev'', String ''r'')]))"

text \<open>A cursor of 0 with one frame in the log and one commit afterwards: both frames are sent.\<close>

theorem sequencer_stream_complete_witness:
  "\<exists>r d. sequencer_route wit_worker \<lparr>ws_sent = [], ws_left = 9\<rparr> ''/xrpc/com.atproto.sync.subscribeRepos'' [(''cursor'', ''0'')] (Err []) wit_sequencer = (Ok r, d) \<and>
     ws_sent (sg_sockets (do_tables (seq_run wit_worker [wit_enqueue ''ok''] d)) ! 0) = [[42], [3, 6]]"
proof -
  let ?ws = "\<lparr>ws_sent = [], ws_left = 9\<rparr> :: WebSocket"
  let ?sub = "sequencer_route wit_worker ?ws ''/xrpc/com.atproto.sync.subscribeRepos'' [(''cursor'', ''0'')] (Err []) wit_sequencer"
  have ok: "seq_ok (do_tables wit_sequencer)" by (simp add: seq_ok_def wit_sequencer_def next_seq_def)
  have cur: "sequencer_cursor [(''cursor'', ''0'')] = Some 0" by code_simp
  have run: "?sub = (Ok None, snd ?sub)"
    by (simp add: sequencer_route_def sequencer_subscribe_def cur dbind_def dret_def dmodify_def sg_sql_def sql_modify_def sql_select_def sql_stmt_def wit_sequencer_def)
  have fin: "frames_after 0 (do_tables (seq_run wit_worker [wit_enqueue ''ok''] (snd ?sub))) = [[42], [3, 6]]"
    by code_simp
  have at: "starts_at (Some 0) (do_tables wit_sequencer) = 0" "sg_sockets (do_tables wit_sequencer) = []"
    by (simp_all add: starts_at_def next_seq_def wit_sequencer_def)
  from sequencer_stream_complete [OF ok _ run, of "[wit_enqueue ''ok'']"]
  have "ws_sent (sg_sockets (do_tables (seq_run wit_worker [wit_enqueue ''ok''] (snd ?sub))) ! 0) = [[42], [3, 6]]"
    by (simp only: Let_def cur at fin) simp
  with run show ?thesis by blast
qed

text \<open>The numbers are not gap-free: a commit whose CID does not parse is refused after the counter was raised.\<close>

lemma refused_commit_leaves_gap:
  "map fr_seq (sg_log (do_tables (seq_run wit_worker [wit_enqueue ''bad'', wit_enqueue ''ok''] wit_sequencer))) = [1, 3]"
  by code_simp

end
