(* ===== verification/Front_Laws.thy ===== *)
theory Front_Laws
  imports Worker_Front Worker_Store_Laws Sequencer_Laws "HOL-Library.Countable"
begin

text \<open>
  What stands behind the router: which calls a client can make it issue, that no traffic of clients mints invites, and what a sign-up
  leaves in the registry.
\<close>

subsection \<open>The admin token\<close>

lemma wk_constant_time_eq_iff [simp]: "wk_constant_time_eq a b \<longleftrightarrow> a = b"
proof (cases "length a = length b")
  case True
  with fold_or_xor_zero [OF True, of 0] show ?thesis by (simp add: wk_constant_time_eq_def foldl_conv_fold case_prod_unfold)
qed (auto simp: wk_constant_time_eq_def)

lemma admin_gate_closed:
  "PDS_ADMIN_TOKEN V \<noteq> Some presented \<Longrightarrow> \<exists>resp. admin_gate V unset presented k = Ready (Ok resp)"
  by (auto simp: admin_gate_def split: option.split)

subsection \<open>Which calls are issued\<close>

text \<open>What a client without the admin token may make the router ask of an object.\<close>

definition public_paths :: "string set" where
  "public_paths = {''/check'', ''/claim'', ''/release'', ''/bind'', ''/resolve-did''}"

definition public_call :: "stub \<Rightarrow> stub_request \<Rightarrow> bool" where
  "public_call stub req = (case stub of
     RegistryStub \<Rightarrow> rq_url req \<in> internal_url ` public_paths
   | SequencerStub \<Rightarrow> \<exists>path. rq_url req = internal_url path \<and> ends_with (route_of path) ''/xrpc/com.atproto.sync.subscribeRepos''
   | PdsStub host \<Rightarrow> rq_host req = Some host \<and> (\<exists>path. rq_url req = internal_url path \<and> (path = ''/_stelyph/provision'' \<or> \<not> starts_with path ''/_stelyph/'')))"

definition presented_token :: "front_request \<Rightarrow> string" where
  "presented_token req = (case fq_admin req of Some t \<Rightarrow> t | None \<Rightarrow> [])"

locale client_calls =
  fixes P :: "'x front_prims_scheme" and S :: "'w stubs" and I :: "'w \<Rightarrow> bool"
  assumes public: "\<And>stub req. public_call stub req \<Longrightarrow> keeps I (S stub req)"
begin

lemma registry_call:
  "path \<in> public_paths \<Longrightarrow> keeps I (call_do P S RegistryStub path body)"
  unfolding call_do_def by (intro keeps_await_ok public) (auto simp: public_call_def post_request_def)

lemma provision_call: "keeps I (call_pds_do P S host ''/_stelyph/provision'' body)"
  unfolding call_pds_do_def by (intro keeps_await_ok public) (auto simp: public_call_def post_request_def)

lemma keeps_create_account: "keeps I (create_account P S V body)"
  unfolding create_account_def provision_and_bind_def Let_def
  by (auto intro!: keeps_intros registry_call [unfolded public_paths_def] provision_call split: sum.split option.split)

lemma keeps_check_handle: "keeps I (check_handle P S body)"
  unfolding check_handle_def Let_def by (auto intro!: keeps_intros registry_call [unfolded public_paths_def] split: sum.split)

lemma keeps_resolve_label: "keeps I (resolve_label P S zone did)"
  unfolding resolve_label_def by (auto intro!: keeps_intros registry_call [unfolded public_paths_def] split: sum.split)

lemma keeps_session_target: "keeps I (session_target P S i zone)"
  unfolding session_target_def Let_def by (auto intro: keeps_resolve_label)

lemma keeps_target:
  "keeps I (first_target P S zone host path)"
  "keeps I (auth_target P S zone host path bearer target)"
  "keeps I (login_target P S zone host req prefetched target)"
  unfolding first_target_def repo_scoped_target_def auth_target_def login_target_def update_target_def Let_def
  by (auto intro!: keeps_intros keeps_resolve_label keeps_session_target split: option.split)

lemma keeps_forward:
  assumes "\<not> starts_with (fq_path req) ''/_stelyph/''"
  shows "keeps I (wk_forward P S zone host req)"
  unfolding wk_forward_def Let_def
  by (intro keeps_intros keeps_target public) (use assms in \<open>auto simp: public_call_def\<close>)

lemma keeps_signup:
  assumes "PDS_ADMIN_TOKEN V \<noteq> Some (presented_token req)" "signup_surface P page S V req = Some r"
  shows "keeps I r"
proof -
  have gate: "keeps I (admin_gate V unset (presented_token req) k)" for unset and k :: "('w, string + wk_response) async"
    using admin_gate_closed [OF assms(1), of unset k] by auto
  note shut = gate [unfolded presented_token_def]
  from assms(2) show ?thesis
    unfolding signup_surface_def Let_def mint_invite_def delete_account_def firehose_inject_def
    by (auto intro!: keeps_try_ok keeps_create_account keeps_check_handle shut split: if_splits)
qed

lemma keeps_dispatch: "PDS_ADMIN_TOKEN V \<noteq> Some (presented_token req) \<Longrightarrow> keeps I (dispatch P page S V req)"
  unfolding dispatch_def Let_def
  by (auto intro!: keeps_forward public keeps_signup simp: public_call_def subscribe_request_def split: option.split if_splits)

lemma keeps_fetch: "PDS_ADMIN_TOKEN V \<noteq> Some (presented_token req) \<Longrightarrow> keeps I (front_fetch P page S V req)"
  unfolding front_fetch_def by (auto intro!: keeps_await_ok keeps_dispatch)

end

lemma keeps_lift: "(\<And>s c. I c \<Longrightarrow> I (u s c)) \<Longrightarrow> keeps I (lift_async g u p)"
  by (induction p) (auto simp: keeps_Await case_prod_beta)

text \<open>Stubs that also write down each call.\<close>

definition logged :: "'w stubs \<Rightarrow> ('w \<times> (stub \<times> stub_request) list) stubs" where
  "logged S stub req = abind (atomic (\<lambda>(w, log). ((), (w, log @ [(stub, req)])))) (\<lambda>_.
     lift_async fst (\<lambda>w (_, log). (w, log)) (S stub req))"

text \<open>C15: whatever a client sends, and whatever the objects answer, a request without the admin token makes the router issue only public calls: of the
  registry never minting or forced release, of the sequencer only the subscription (never \<open>/enqueue\<close> or the injection), and of an account's
  object no internal path but the provisioning that registration itself asks for.\<close>

theorem internal_endpoints_unreachable:
  assumes "PDS_ADMIN_TOKEN V \<noteq> Some (presented_token req)"
    and "run (front_fetch P page (logged S) V req) (w, []) = (r, w', log)"
  shows "list_all (\<lambda>(stub, rq). public_call stub rq) log"
proof -
  let ?I = "\<lambda>(w, log). list_all (\<lambda>(stub, rq). public_call stub rq) log"
  have "client_calls (logged S) ?I"
    by unfold_locales (auto simp: logged_def keeps_atomic intro!: keeps_abind keeps_lift)
  from client_calls.keeps_fetch [OF this assms(1), of P page] show ?thesis
    using keeps_run [of ?I _ "(w, [])"] assms(2) by fastforce
qed

subsection \<open>The gate in the deployment\<close>

definition plain_urls :: "'x server_prims_scheme \<Rightarrow> bool" where
  "plain_urls P = (\<forall>path \<in> public_paths.
     \<exists>u. url_parse P (internal_url path) = Ok u \<and> url_path u = path)"

definition gate_inv :: "string \<Rightarrow> Registry \<Rightarrow> cloud \<Rightarrow> bool" where
  "gate_inv code t0 c = (calm (cl_registry c) \<and> reg_ok (do_tables (cl_registry c)) \<and> conserves code False t0 (do_tables (cl_registry c)))"

locale deployment =
  fixes P :: "'x front_prims_scheme" and E :: worker_env and V :: pds_vars and code :: string and t0 :: Registry
  assumes plain: "plain_urls P"
begin

lemma registry_public:
  assumes "public_call RegistryStub req"
  shows "keeps (gate_inv code t0) (registry_object P req)"
proof -
  from assms plain obtain path u where u: "path \<in> public_paths"
    "url_parse P (rq_url req) = Ok u" "url_path u = path" by (fastforce simp: public_call_def plain_urls_def)
  have "gate_inv code t0 (c\<lparr>cl_registry := snd (registry_fetch path body (cl_registry c))\<rparr>)" if "gate_inv code t0 c" for c body
  proof -
    have "\<not> seeds code (path, body)" "\<not> forces (path, body)" using u(1) by (auto simp: seeds_def forces_def public_paths_def)
    with fetch_step [of "cl_registry c" code path body] that conserves_trans [of code False t0 "do_tables (cl_registry c)" False]
    show ?thesis by (simp add: gate_inv_def reg_step_def)
  qed
  then show ?thesis by (simp add: registry_object_def keeps_atomic u case_prod_beta Let_def)
qed

end

sublocale deployment \<subseteq> gate: client_calls P "cloud_stubs P E V" "gate_inv code t0"
proof
  fix stub req
  assume "public_call stub req"
  then show "keeps (gate_inv code t0) (cloud_stubs P E V stub req)"
    unfolding cloud_stubs_def next_fate_def
    by (auto intro!: keeps_abind keeps_lift registry_public
        simp: keeps_atomic sequencer_object_def pds_object_def case_prod_beta Let_def gate_inv_def split: stub.split)
qed

context deployment
begin

lemma front_keeps_gate:
  "PDS_ADMIN_TOKEN V \<noteq> Some (presented_token req) \<Longrightarrow> keeps (gate_inv code t0) (front_fetch P page (cloud_stubs P E V) V req)"
  by (rule gate.keeps_fetch)

end


subsection \<open>A sign-up\<close>

text \<open>What the registry is asked by a sign-up, as \<open>serde_json\<close> hands it over.\<close>

definition json_hop :: "'x worker_prims_scheme \<Rightarrow> json \<Rightarrow> bool" where
  "json_hop P v = (json_from_bytes P (as_bytes (json_to_text P v)) = Ok v)"

definition claim_body :: "string \<Rightarrow> string option \<Rightarrow> bool \<Rightarrow> json" where
  "claim_body label code open = Object [(''label'', String label), (''invite_code'', opt_json code), (''open'', Bool open)]"

definition bind_body :: "string \<Rightarrow> string \<Rightarrow> json" where
  "bind_body label did = Object [(''label'', String label), (''did'', String did)]"

definition label_body :: "string \<Rightarrow> json" where
  "label_body label = Object [(''label'', String label)]"

lemmas hop_bodies = claim_body_def bind_body_def label_body_def

text \<open>A delivered call of the registry.\<close>

definition all_delivered :: "cloud \<Rightarrow> bool" where
  "all_delivered c = (\<forall>n. cl_fate c n = Delivered)"

lemma run_registry_call:
  assumes "plain_urls P" "all_delivered c" "path \<in> public_paths" "json_hop P body"
  shows "run (call_do P (cloud_stubs P E V) RegistryStub path body) c =
    (resp_json P (fst (registry_fetch path (Ok body) (cl_registry c))),
     c\<lparr>cl_calls := Suc (cl_calls c), cl_registry := snd (registry_fetch path (Ok body) (cl_registry c))\<rparr>)"
proof -
  from assms(1,3) obtain u where u: "url_parse P (internal_url path) = Ok u" "url_path u = path" by (fastforce simp: plain_urls_def)
  show ?thesis
    using assms(2,4) by (simp add: call_do_def cloud_stubs_def next_fate_def registry_object_def post_request_def async_simps u
        all_delivered_def json_hop_def case_prod_beta Let_def)
qed

lemma run_pds_call:
  assumes "all_delivered c"
  obtains r c' where "run (call_pds_do P (cloud_stubs P E V) host path body) c = (r, c')" "cl_registry c' = cl_registry c" "all_delivered c'"
proof -
  let ?p = "call_pds_do P (cloud_stubs P E V) host path body"
  let ?I = "\<lambda>c'. cl_registry c' = cl_registry c \<and> all_delivered c'"
  have "keeps ?I ?p"
    unfolding call_pds_do_def cloud_stubs_def next_fate_def pds_object_def
    by (auto intro!: keeps_intros keeps_lift simp: keeps_atomic all_delivered_def)
  from keeps_run [OF this, of c] assms show thesis by (intro that [of "fst (run ?p c)" "snd (run ?p c)"]) auto
qed

lemma fetch_acts:
  assumes "acts m f" "calm d" "registry_route path body = m" "f (do_now d) (do_tables d) = (Ok resp, t)"
  obtains d' where "registry_fetch path body d = (resp, d')" "do_tables d' = t" "calm d'" "do_now d' = do_now d"
  using assms(3,4) by (cases rule: acts_step [OF assms(1,2)]) (auto simp: registry_fetch_def)

lemma route_claim: "registry_route ''/claim'' (Ok (claim_body label code open)) = registry_claim label code open"
  by (rule ext) (simp add: registry_route_def claim_body_def de_string_def de_opt_string_def de_bool_or_def json_get_def opt_json_def dbind_dlift split: option.split)

lemma route_bind: "registry_route ''/bind'' (Ok (bind_body label did)) = registry_bind label did"
  by (rule ext) (simp add: registry_route_def bind_body_def de_string_def json_get_def dbind_dlift)

lemma route_release: "registry_route ''/release'' (Ok (label_body label)) = registry_release label"
  by (rule ext) (simp add: registry_route_def label_body_def de_string_def json_get_def dbind_dlift)

definition bound :: "string \<Rightarrow> string \<Rightarrow> Registry \<Rightarrow> Registry" where
  "bound label did t = t\<lparr>rg_claims :=
     snd (update_where (\<lambda>r. cm_label r = label) (\<lambda>r. r\<lparr>cm_did := Some did, cm_state := ''active''\<rparr>) (rg_claims t))\<rparr>"

lemma release_undoes_claim:
  assumes "fst (claim_tables label code open now t) = Ok ()"
  shows "release_tables label (snd (claim_tables label code open now t)) = t"
proof -
  have undo: "(spend 1 c ((spend (-1) c t)\<lparr>rg_claims := x\<rparr>))\<lparr>rg_claims := rg_claims t\<rparr> = t" for c x by (simp add: spend_def update_where_def o_def if_distrib cong: if_cong)
  have none: "tbl cm_label (rg_claims t) label = None" using assms by (simp add: claim_tables_def split: if_splits)
  then have "\<forall>r \<in> set (rg_claims t). cm_label r \<noteq> label" by (auto simp: tbl_def find_None_iff)
  then have other: "filter (\<lambda>r. cm_label r = label \<and> cm_state r = ''reserved'') (rg_claims t) = []"
    "filter (\<lambda>r. cm_label r = label \<longrightarrow> cm_state r \<noteq> ''reserved'') (rg_claims t) = rg_claims t"
    by (auto simp: filter_empty_conv filter_id_conv)
  show ?thesis using assms none undo by (auto simp: claim_tables_def release_tables_def reserved_def other spend_ok split: if_splits option.splits)
qed

lemma json_flag_ok [simp]: "json_flag (Object [(''ok'', Bool b), kv]) ''ok'' = b" "json_flag (Object [(''ok'', Bool b)]) ''ok'' = b"
  by (simp_all add: json_flag_def json_get_def)

lemma strip_suffix_Some: "strip_suffix s p = Some r \<Longrightarrow> s = r @ p"
  by (metis (no_types, lifting) append_take_drop_id ends_with_def option.distinct(1) option.inject strip_suffix_def)

definition signed_up :: "string \<Rightarrow> bool \<Rightarrow> string \<Rightarrow> Registry \<Rightarrow> Registry \<Rightarrow> wk_response \<Rightarrow> bool" where
  "signed_up zone open now t t' resp = (case resp of
     WkJson status v \<Rightarrow> if status = 200
       then \<exists>label code did. validate_label label = Ok () \<and> fst (claim_tables label code open now t) = Ok () \<and>
         t' = bound label did (snd (claim_tables label code open now t)) \<and>
         json_get v ''handle'' = Some (String (label @ ''.'' @ zone)) \<and> json_get v ''did'' = Some (String did)
       else t' = t
   | _ \<Rightarrow> False)"

lemma signed_up_refused [simp]: "status \<noteq> 200 \<Longrightarrow> signed_up zone open now t t (json_err status e m)"
  by (simp add: signed_up_def json_err_def)

text \<open>The three calls of the registry, delivered.\<close>

locale registry_at_hand =
  fixes P :: "'x front_prims_scheme" and E :: worker_env and V :: pds_vars
  assumes plain: "plain_urls P"
    and hops: "\<And>label code open did. json_hop P (claim_body label code open) \<and> json_hop P (bind_body label did) \<and> json_hop P (label_body label)"
begin

lemma claim_call:
  assumes "all_delivered c" "calm (cl_registry c)"
  obtains c' v where "run (call_do P (cloud_stubs P E V) RegistryStub ''/claim'' (claim_body label code open)) c = (Ok v, c')"
    "all_delivered c'" "calm (cl_registry c')"
    "do_tables (cl_registry c') = snd (claim_tables label code open (do_now (cl_registry c)) (do_tables (cl_registry c)))"
    "json_flag v ''ok'' \<longleftrightarrow> fst (claim_tables label code open (do_now (cl_registry c)) (do_tables (cl_registry c))) = Ok ()"
proof -
  let ?p = "claim_tables label code open (do_now (cl_registry c)) (do_tables (cl_registry c))"
  obtain resp where v: "verdict ?p = (Ok resp, snd ?p)" "resp = (case fst ?p of Inl e \<Rightarrow> ok_resp False (Some e) | Inr _ \<Rightarrow> ok_resp True None)"
    by (simp add: verdict_def)
  from fetch_acts [OF acts_claim assms(2) route_claim v(1)]
  obtain d where d: "registry_fetch ''/claim'' (Ok (claim_body label code open)) (cl_registry c) = (resp, d)"
    "do_tables d = snd ?p" "calm d" by metis
  show thesis
  proof (rule that)
    show "run (call_do P (cloud_stubs P E V) RegistryStub ''/claim'' (claim_body label code open)) c =
        (Ok (case resp of WkJson _ v \<Rightarrow> v), c\<lparr>cl_calls := Suc (cl_calls c), cl_registry := d\<rparr>)"
      using run_registry_call [OF plain assms(1), of "''/claim''"] hops d(1) v(2)
      by (simp add: public_paths_def resp_json_def ok_resp_def split: sum.splits)
  qed (use assms(1) d v(2) in \<open>auto simp: all_delivered_def ok_resp_def split: sum.splits\<close>)
qed

lemma bind_call:
  assumes "all_delivered c" "calm (cl_registry c)"
  obtains r c' where "run (call_do P (cloud_stubs P E V) RegistryStub ''/bind'' (bind_body label did)) c = (r, c')"
    "do_tables (cl_registry c') = bound label did (do_tables (cl_registry c))"
proof -
  from fetch_acts [OF acts_bind assms(2) route_bind refl, of label did]
  obtain d where d: "registry_fetch ''/bind'' (Ok (bind_body label did)) (cl_registry c) = (ok_resp True None, d)"
    "do_tables d = bound label did (do_tables (cl_registry c))" by (auto simp: bound_def)
  with run_registry_call [OF plain assms(1), of "''/bind''" "bind_body label did" E V] hops show thesis
    by (intro that) (auto simp: public_paths_def)
qed

lemma release_call:
  assumes "all_delivered c" "calm (cl_registry c)"
  obtains r c' where "run (call_do P (cloud_stubs P E V) RegistryStub ''/release'' (label_body label)) c = (r, c')"
    "do_tables (cl_registry c') = release_tables label (do_tables (cl_registry c))"
proof -
  from fetch_acts [OF acts_release assms(2) route_release refl, of label]
  obtain d where d: "registry_fetch ''/release'' (Ok (label_body label)) (cl_registry c) = (ok_resp True None, d)"
    "do_tables d = release_tables label (do_tables (cl_registry c))" by auto
  with run_registry_call [OF plain assms(1), of "''/release''" "label_body label" E V] hops show thesis
    by (intro that) (auto simp: public_paths_def)
qed

lemma provision_outcome:
  assumes "all_delivered c" "calm (cl_registry c)"
  obtains status v c' where "run (provision_and_bind P (cloud_stubs P E V) handle label email password) c = (Ok (WkJson status v), c')"
    "if status = 200 then \<exists>did. do_tables (cl_registry c') = bound label did (do_tables (cl_registry c)) \<and>
        json_get v ''handle'' = Some (String handle) \<and> json_get v ''did'' = Some (String did)
      else do_tables (cl_registry c') = release_tables label (do_tables (cl_registry c))"
proof -
  let ?S = "cloud_stubs P E V" and ?body = "Object [(''handle'', String handle), (''email'', opt_json email), (''password'', String password)]"
  obtain r c1 where c1: "run (call_pds_do P ?S handle ''/_stelyph/provision'' ?body) c = (r, c1)" "cl_registry c1 = cl_registry c" "all_delivered c1"
    by (rule run_pds_call [OF assms(1)])
  from c1(2) assms(2) have calm: "calm (cl_registry c1)" by simp
  show thesis
  proof (cases "\<exists>v. r = Ok v \<and> json_flag v ''ok''")
    case True
    then obtain v where v: "r = Ok v" "json_flag v ''ok''" by blast
    obtain r' c' where "run (call_do P ?S RegistryStub ''/bind'' (bind_body label (json_str_or [] v ''did''))) c1 = (r', c')"
      "do_tables (cl_registry c') = bound label (json_str_or [] v ''did'') (do_tables (cl_registry c1))"
      by (rule bind_call [OF c1(3) calm])
    then show thesis
      using v c1 by (intro that) (auto simp: provision_and_bind_def async_simps bind_body_def json_get_def Let_def)
  next
    case False
    obtain r' c' where c': "run (call_do P ?S RegistryStub ''/release'' (label_body label)) c1 = (r', c')"
      "do_tables (cl_registry c') = release_tables label (do_tables (cl_registry c1))" by (rule release_call [OF c1(3) calm])
    from False have "(case r of Inr v \<Rightarrow> if json_flag v ''ok'' then Some v else None | Inl _ \<Rightarrow> None) = None" by (auto split: sum.split)
    with c' c1 obtain e m where "run (provision_and_bind P ?S handle label email password) c = (Ok (json_err 400 e m), c')"
      by (cases r) (auto simp: provision_and_bind_def async_simps label_body_def)
    with c' c1(2) show thesis by (intro that) (auto simp: json_err_def)
  qed
qed

lemma sign_up:
  assumes "all_delivered c" "calm (cl_registry c)"
  shows "case run (create_account P (cloud_stubs P E V) V body) c of
      (Inr resp, c') \<Rightarrow> signed_up (zone_suffix V) (open_registration V) (do_now (cl_registry c)) (do_tables (cl_registry c)) (do_tables (cl_registry c')) resp
    | (Inl e, c') \<Rightarrow> False"
proof -
  let ?S = "cloud_stubs P E V" and ?t = "do_tables (cl_registry c)" and ?now = "do_now (cl_registry c)" and ?open = "open_registration V"
  let ?input = "and_then (json_from_str P body) (\<lambda>v. and_then (de_string v ''handle'') (\<lambda>handle. and_then (de_opt_string v ''email'') (\<lambda>email.
    and_then (de_opt_string v ''password'') (\<lambda>password. and_then (de_opt_string v ''inviteCode'') (\<lambda>code. Ok (handle, email, password, code))))))"
  show ?thesis
  proof (cases ?input)
    case (Inl e)
    then show ?thesis by (simp add: create_account_def async_simps)
  next
    case (Inr x)
    obtain input_handle email input_password code where x: "x = (input_handle, email, input_password, code)" by (cases x)
    let ?handle = "to_ascii_lowercase (str_trim input_handle)" and ?password = "case input_password of Some p \<Rightarrow> p | None \<Rightarrow> []"
    show ?thesis
    proof (cases "\<exists>label. strip_suffix ?handle (''.'' @ zone_suffix V) = Some label \<and> validate_label label = Ok () \<and> 8 \<le> length ?password")
      case False
      then show ?thesis
        by (auto simp: create_account_def Inr x async_simps Let_def split: option.splits sum.splits prod.splits)
    next
      case True
      then obtain label where label: "strip_suffix ?handle (''.'' @ zone_suffix V) = Some label" "validate_label label = Ok ()" "8 \<le> length ?password" by blast
      then have handle: "?handle = label @ ''.'' @ zone_suffix V" using strip_suffix_Some by blast
      obtain c1 v where c1: "run (call_do P ?S RegistryStub ''/claim'' (claim_body label code ?open)) c = (Ok v, c1)" "all_delivered c1" "calm (cl_registry c1)"
        "do_tables (cl_registry c1) = snd (claim_tables label code ?open ?now ?t)" "json_flag v ''ok'' \<longleftrightarrow> fst (claim_tables label code ?open ?now ?t) = Ok ()"
        by (rule claim_call [OF assms])
      obtain status w c' where c': "run (provision_and_bind P ?S ?handle label email ?password) c1 = (Ok (WkJson status w), c')"
        "if status = 200 then \<exists>did. do_tables (cl_registry c') = bound label did (do_tables (cl_registry c1)) \<and>
            json_get w ''handle'' = Some (String ?handle) \<and> json_get w ''did'' = Some (String did)
          else do_tables (cl_registry c') = release_tables label (do_tables (cl_registry c1))"
        by (rule provision_outcome [OF c1(2,3)])
      have claimed: "run (create_account P ?S V body) c = (if json_flag v ''ok'' then (Ok (WkJson status w), c') else
          (let e = json_str_or ''InvalidRequest'' v ''error'' in (Ok (json_err 400 e (if e = ''HandleNotAvailable'' then ''That one's taken. Try another.''
                   else if e = ''InvalidInviteCode'' then ''That invite code isn't valid.'' else ''Could not reserve that handle.'')), c1)))"
        using label c1(1) c'(1) by (simp add: create_account_def Inr x async_simps claim_body_def Let_def)
      show ?thesis
      proof (cases "json_flag v ''ok''")
        case True
        with c1(4,5) release_undoes_claim [of label code ?open ?now ?t] label(2) c'(2) handle show ?thesis
          by (simp add: claimed signed_up_def) (metis (no_types, lifting))
      next
        case False
        with c1(4,5) have "do_tables (cl_registry c1) = ?t" by (auto simp: claim_tables_def split: if_splits option.splits)
        with False show ?thesis by (simp add: claimed Let_def)
      qed
    qed
  qed
qed

end


text \<open>The label is given back on every failure of the call, also when only the reply was lost: then the account that the object went on to create
  keeps its handle while the label is free.\<close>

lemma lost_reply_frees_label:
  assumes "cl_fate c (cl_calls c) = ReplyLost"
    and req: "req = post_request P (Some handle) ''/_stelyph/provision'' (Object [(''handle'', String handle), (''email'', opt_json email), (''password'', String password)])"
    and c1: "c1 = c\<lparr>cl_calls := Suc (cl_calls c)\<rparr>"
  shows "run (provision_and_bind P (cloud_stubs P E V) handle label email password) c =
    (Ok (json_err 400 ''InternalError'' ''Could not create the account.''),
     snd (run (call_do P (cloud_stubs P E V) RegistryStub ''/release'' (label_body label)) (snd (run (pds_object P E V handle req) c1))))"
proof -
  let ?body = "Object [(''handle'', String handle), (''email'', opt_json email), (''password'', String password)]"
  have "run (call_pds_do P (cloud_stubs P E V) handle ''/_stelyph/provision'' ?body) c =
      (Err ''network connection lost'', snd (run (pds_object P E V handle req) c1))"
    using assms(1) by (simp add: call_pds_do_def cloud_stubs_def next_fate_def async_simps req c1 case_prod_beta)
  then show ?thesis by (simp add: provision_and_bind_def async_simps label_body_def case_prod_beta)
qed

subsection \<open>At concrete inputs\<close>

text \<open>A JSON text that is its value's index, which parses back, and a URL parser for the internal authority.\<close>

instance json :: countable
  by countable_datatype

definition wit_url :: "string \<Rightarrow> string + Url" where
  "wit_url s = Ok \<lparr>url_text = s, url_scheme = ''https'', url_username = [], url_password = None, url_host = None, url_port = None,
     url_path = drop 24 s, url_query = None, url_query_pairs = [], url_fragment = None\<rparr>"

definition wit_front :: front_prims where
  "wit_front = handler_prims.extend (worker_prims.extend wit_worker (handler_prims.fields (\<lambda>_. Err []) (\<lambda>_. []))) (front_prims.fields (\<lambda>_. True))
     \<lparr>json_from_str := (\<lambda>_. Ok (Object [(''handle'', String ''bob.z''), (''password'', String ''password''), (''inviteCode'', String ''c'')])),
       json_to_text := (\<lambda>v. replicate (to_nat v) CHR ''x''), json_from_bytes := (\<lambda>b. Ok (from_nat (length b))), url_parse := wit_url\<rparr>"

definition wit_vars :: pds_vars where
  "wit_vars = \<lparr>PDS_ZONE_SUFFIX = Some ''z'', PDS_SIGNUP_HOST = None, PDS_OPEN_REGISTRATION = None, PDS_ADMIN_TOKEN = Some ''admin'',
     PDS_JWT_SECRET = None, PDS_KEY_PASSPHRASE = None, PDS_PLC_DIRECTORY = None, PDS_APPVIEW_URL = None, PDS_APPVIEW_DID = None\<rparr>"

lemma wit_front_simps [simp]:
  "json_to_text wit_front = (\<lambda>v. replicate (to_nat v) CHR ''x'')" "json_from_bytes wit_front = (\<lambda>b. Ok (from_nat (length b)))"
  "url_parse wit_front = wit_url"
  "json_from_str wit_front = (\<lambda>_. Ok (Object [(''handle'', String ''bob.z''), (''password'', String ''password''), (''inviteCode'', String ''c'')]))"
  by (simp_all add: wit_front_def)

lemma wit_front_ok: "plain_urls wit_front" "json_hop wit_front v"
  by (simp_all add: plain_urls_def public_paths_def internal_url_def wit_url_def json_hop_def)

definition wit_env :: worker_env where
  "wit_env = \<lparr>we_fetch = (\<lambda>_ _. Ready (Err [])), we_post = (\<lambda>_ _. Ready (Err [])), we_sequencer = (\<lambda>_ _. Ready (Err [])), we_gen_range = (\<lambda>_. Ready 0)\<rparr>"

definition wit_cloud :: cloud where
  "wit_cloud = \<lparr>cl_registry = wit_registry, cl_sequencer = wit_sequencer, cl_pds = (\<lambda>_. \<lparr>w_store = do_new ''t'' (\<lambda>_. None), w_clock = 0, w_rng = (\<lambda>_. 0),
     w_rng_pos = 0, w_micros = 0, w_rfc3339 = [], w_key_cache = [], w_published = []\<rparr>), cl_socket = \<lparr>ws_sent = [], ws_left = 0\<rparr>,
     cl_fate = (\<lambda>_. Delivered), cl_calls = 0\<rparr>"

definition wit_request :: "string \<Rightarrow> front_request" where
  "wit_request path = \<lparr>fq_method = POST, fq_path = path, fq_host = Some ''z'', fq_authorization = None, fq_content_type = None, fq_upgrade = None,
     fq_admin = None, fq_acrh = None, fq_chunks = [Ok []]\<rparr>"

interpretation wit_gate: deployment wit_front wit_env wit_vars "''c''" "do_tables wit_registry"
  by unfold_locales (rule wit_front_ok)

interpretation wit_at_hand: registry_at_hand wit_front wit_env wit_vars
  by unfold_locales (simp_all add: wit_front_ok)

text \<open>A sign-up on the shared host, its calls answered by whatever.\<close>

theorem internal_endpoints_unreachable_witness:
  "list_all (\<lambda>(stub, rq). public_call stub rq)
     (snd (snd (run (front_fetch wit_front (\<lambda>_ _. []) (logged (\<lambda>_ _. Ready (Ok (WkText 200 [])))) wit_vars
        (wit_request ''/xrpc/com.atproto.server.createAccount'')) ((), []))))"
proof -
  let ?req = "wit_request ''/xrpc/com.atproto.server.createAccount''" and ?S = "\<lambda>_ _. Ready (Ok (WkText 200 []))"
  have "PDS_ADMIN_TOKEN wit_vars \<noteq> Some (presented_token ?req)" by (simp add: wit_vars_def presented_token_def wit_request_def)
  moreover obtain r w log where run: "run (front_fetch wit_front (\<lambda>_ _. []) (logged ?S) wit_vars ?req) ((), []) = (r, w, log)" by (metis prod_cases3)
  ultimately have "list_all (\<lambda>(stub, rq). public_call stub rq) log" by (rule internal_endpoints_unreachable)
  with run show ?thesis by simp
qed



end
