(* ===== verification/Worker_Laws.thy ===== *)
theory Worker_Laws
  imports Worker_Front Worker_Store_Laws Sequencer_Laws
begin

text \<open>
  An account's object among the others: a commit handed to the sequencer arrives as it was made, and a sign-in is approved only by an
  enrolled device.
\<close>

subsection \<open>From an account to the sequencer\<close>

text \<open>What the hop relies on of the CID and base64 crates: what they print, they read.\<close>

locale hop_texts =
  fixes P :: "'x worker_prims_scheme"
  assumes cid_back: "\<And>c. cid_try_from P (cid_to_string P c) = Ok c"
    and base64_back: "\<And>b. base64_decode P (base64 P b) = Ok b"
begin

lemma de_ops_payload:
  "length ops \<le> length rs \<Longrightarrow> \<exists>ps. de_ops (map (\<lambda>(op, r). op_payload P op r) (zip ops rs)) = Ok ps \<and> enqueue_ops P ps = Ok ops"
proof (induction ops arbitrary: rs)
  case (Cons op ops)
  then obtain r rs' where rs: "rs = r # rs'" "length ops \<le> length rs'" by (cases rs) auto
  from Cons.IH [OF rs(2)] obtain ps where "de_ops (map (\<lambda>(op, r). op_payload P op r) (zip ops rs')) = Ok ps" "enqueue_ops P ps = Ok ops" by blast
  then show ?case
    by (cases "op_cid op")
      (simp_all add: rs op_payload_def de_string_def de_opt_string_def json_get_def opt_json_def enqueue_op_def cid_back)
qed simp

lemma de_enqueue_payload:
  obtains ev where "de_enqueue (commit_payload P body records) = Ok ev"
    "en_repo ev = cb_repo body" "cid_try_from P (en_commit ev) = Ok (cb_commit body)" "en_rev ev = cb_rev body" "en_since ev = cb_since body"
    "base64_decode P (en_blocks_b64 ev) = Ok (cb_blocks body)" "enqueue_ops P (en_ops ev) = Ok (cb_ops body)" "en_too_big ev = cb_too_big body"
proof -
  let ?n = "length (cb_ops body)"
  from de_ops_payload [of "cb_ops body" "records @ replicate ?n None"]
  obtain ps where "de_ops (map (\<lambda>(op, r). op_payload P op r) (zip (cb_ops body) (records @ replicate ?n None))) = Ok ps" "enqueue_ops P ps = Ok (cb_ops body)"
    by auto
  then show thesis
    by (intro that [of "\<lparr>en_repo = cb_repo body, en_commit = cid_to_string P (cb_commit body), en_rev = cb_rev body, en_since = cb_since body,
          en_blocks_b64 = base64 P (cb_blocks body), en_ops = ps, en_too_big = cb_too_big body\<rparr>"])
      (auto simp: commit_payload_def de_enqueue_def de_string_def de_opt_string_def de_bool_or_def json_get_def opt_json_def cid_back base64_back
        split: option.split)
qed

end

lemma acts_dmodify [acts_intros]: "acts (dmodify f) (\<lambda>now t. (Ok (), f t))"
proof -
  have "\<exists>n. (Ok (), d\<lparr>do_tables := x\<rparr>) = (Ok (), d\<lparr>do_stmts := n, do_tables := x\<rparr>)" for d :: "'a DurableSql" and x
    by (rule exI [of _ "do_stmts d"]) simp
  then show ?thesis by (simp add: acts_def dmodify_def)
qed

lemma acts_dget [acts_intros]: "acts (dget f) (\<lambda>now t. (Ok (f t), t))"
  by (auto simp: acts_def dget_def)

lemma acts_sg_sql [acts_intros]: "acts sg_sql (\<lambda>now t. (Ok (), opened t))"
  unfolding sg_sql_def by (rule acts_eq, (rule acts_intros)+) (simp add: opened_def next_seq_def)

definition published :: "'x worker_prims_scheme \<Rightarrow> int \<Rightarrow> EnqueueReq \<Rightarrow> SequencerDO \<Rightarrow> SequencerDO" where
  "published P seq ev t = (case (sg_queue t, queue_send P (indexer_message P seq ev)) of
     (Some q, Inr _) \<Rightarrow> t\<lparr>sg_queue := Some (q @ [indexer_message P seq ev])\<rparr> | _ \<Rightarrow> t)"

lemma published_keeps [simp]:
  "sg_log (published P seq ev t) = sg_log t" "sg_sockets (published P seq ev t) = sg_sockets t" "next_seq (published P seq ev t) = next_seq t"
  by (simp_all add: published_def next_seq_def split: option.split sum.split)

lemma acts_publish [acts_intros]: "acts (dtry (publish_to_indexer P seq ev)) (\<lambda>now t. (Ok (), published P seq ev t))"
  unfolding publish_to_indexer_def Let_def
  by (rule acts_eq, (rule acts_intros)+) (auto simp: published_def split: option.split sum.split)

definition commit_row :: "'x worker_prims_scheme \<Rightarrow> int \<Rightarrow> string \<Rightarrow> CommitBody \<Rightarrow> fh_row" where
  "commit_row P seq now body = \<lparr>fr_seq = seq, fr_repo = cb_repo body, fr_frame = encode_message_frame P ''#commit''
     (body\<lparr>cb_seq := seq, cb_rebase := False, cb_blobs := [], cb_time := now, cb_prev_data := None\<rparr>), fr_created_at = now\<rparr>"

lemma acts_enqueue:
  assumes "cid_try_from P (en_commit ev) = Ok commit" "base64_decode P (en_blocks_b64 ev) = Ok blocks" "enqueue_ops P (en_ops ev) = Ok ops"
  shows "acts (enqueue P ev) (\<lambda>now t. let n = next_seq t; frame = encode_message_frame P ''#commit'' \<lparr>cb_seq = n, cb_rebase = False, cb_too_big = en_too_big ev,
      cb_repo = en_repo ev, cb_commit = commit, cb_rev = en_rev ev, cb_since = en_since ev, cb_blocks = blocks, cb_ops = ops, cb_blobs = [], cb_time = now,
      cb_prev_data = None\<rparr>; t1 = t\<lparr>sg_next := Some (n + 1)\<rparr> in
    case insert_row fr_seq \<lparr>fr_seq = n, fr_repo = en_repo ev, fr_frame = frame, fr_created_at = now\<rparr> (sg_log t) of
      Inl e \<Rightarrow> (Err e, t1)
    | Inr l \<Rightarrow> (Ok (WkJson 200 (Object [(''ok'', Bool True), (''seq'', Number n)])),
        published P n ev (t1\<lparr>sg_log := l, sg_sockets := map (\<lambda>ws. snd (ws_send frame ws)) (sg_sockets t)\<rparr>)))"
  unfolding enqueue_def Let_def
  by (rule acts_eq, (rule acts_intros)+)
    (simp add: assms opened_def next_seq_def split: option.split sum.split)

text \<open>C17: a commit crosses from its account to the firehose unchanged. What an account's object hands to the sequencer is accepted, numbered with the next
  number of the deployment, logged once after everything before it and sent to every subscriber, as the frame of that very commit: same repository,
  commit, revision, operations and blocks, with only the number and the time set anew (and the three fields the Worker leaves empty).\<close>

theorem commit_survives_hop:
  assumes "\<And>c. cid_try_from P (cid_to_string P c) = Ok c" "\<And>b. base64_decode P (base64 P b) = Ok b"
    and "calm d" "seq_ok (do_tables d)"
  defines "n \<equiv> next_seq (do_tables d)"
  shows "\<exists>d'. sequencer_fetch P ws ''/enqueue'' query (Ok (commit_payload P body records)) d =
      (Some (WkJson 200 (Object [(''ok'', Bool True), (''seq'', Number n)])), d') \<and>
    sg_log (do_tables d') = sg_log (do_tables d) @ [commit_row P n (do_now d) body] \<and>
    sg_sockets (do_tables d') = map (\<lambda>s. snd (ws_send (fr_frame (commit_row P n (do_now d) body)) s)) (sg_sockets (do_tables d)) \<and>
    next_seq (do_tables d') = n + 1"
proof -
  let ?t = "do_tables d"
  have hop: "hop_texts P" using assms(1,2) by unfold_locales
  obtain ev where ev: "de_enqueue (commit_payload P body records) = Ok ev"
    "en_repo ev = cb_repo body" "cid_try_from P (en_commit ev) = Ok (cb_commit body)" "en_rev ev = cb_rev body" "en_since ev = cb_since body"
    "base64_decode P (en_blocks_b64 ev) = Ok (cb_blocks body)" "enqueue_ops P (en_ops ev) = Ok (cb_ops body)" "en_too_big ev = cb_too_big body"
    by (rule hop_texts.de_enqueue_payload [OF hop])
  have "tbl fr_seq (sg_log ?t) n = None" using assms(4) by (auto simp: n_def seq_ok_def tbl_def find_None_iff)
  then have row: "insert_row fr_seq (commit_row P n now body) (sg_log ?t) = Ok (sg_log ?t @ [commit_row P n now body])" for now
    by (simp add: insert_row_def commit_row_def)
  have whole: "\<lparr>fr_seq = n, fr_repo = en_repo ev, fr_frame = fr_frame (commit_row P n now body), fr_created_at = now\<rparr> = commit_row P n now body" for now
    by (simp add: commit_row_def ev)
  have enc: "encode_message_frame P ''#commit'' \<lparr>cb_seq = n, cb_rebase = False, cb_too_big = en_too_big ev, cb_repo = en_repo ev, cb_commit = cb_commit body,
      cb_rev = en_rev ev, cb_since = en_since ev, cb_blocks = cb_blocks body, cb_ops = cb_ops body, cb_blobs = [], cb_time = now, cb_prev_data = None\<rparr> =
    fr_frame (commit_row P n now body)" for now
    by (cases body) (simp add: commit_row_def ev)
  obtain r t d' where step: "enqueue P ev d = (r, d')" "do_tables d' = t" "r = Ok (WkJson 200 (Object [(''ok'', Bool True), (''seq'', Number n)]))"
    "t = published P n ev (?t\<lparr>sg_next := Some (n + 1), sg_log := sg_log ?t @ [commit_row P n (do_now d) body],
      sg_sockets := map (\<lambda>s. snd (ws_send (fr_frame (commit_row P n (do_now d) body)) s)) (sg_sockets ?t)\<rparr>)"
    by (cases rule: acts_step [OF acts_enqueue [OF ev(3,6,7)] assms(3)]) (simp add: n_def [symmetric] enc whole row Let_def)
  have "sequencer_fetch P ws ''/enqueue'' query (Ok (commit_payload P body records)) d =
      (Some (WkJson 200 (Object [(''ok'', Bool True), (''seq'', Number n)])), d')"
    using step(1,3) by (simp add: sequencer_fetch_def sequencer_route_def dbind_dlift ev(1)) (simp add: dbind_def dret_def)
  moreover have "next_seq (do_tables d') = n + 1" by (simp only: step(2,4) published_keeps) (simp add: next_seq_def)
  ultimately show ?thesis by (simp add: step(2,4))
qed

text \<open>CIDs printed in unary and bytes as characters; the first commit of a new deployment.\<close>

definition wit_hop :: worker_prims where
  "wit_hop = wit_worker\<lparr>cid_to_string := unary_cid_str, cid_try_from := (\<lambda>s. case unary_cid_parse s of Some c \<Rightarrow> Ok c | None \<Rightarrow> Err []),
     base64 := from_bytes, base64_decode := (\<lambda>s. Ok (as_bytes s))\<rparr>"

interpretation wit_hop: hop_texts wit_hop
  by unfold_locales (simp_all add: wit_hop_def unary.cid_parse_str)

definition wit_commit :: CommitBody where
  "wit_commit = \<lparr>cb_seq = 9, cb_rebase = False, cb_too_big = False, cb_repo = ''did:plc:a'', cb_commit = Cid 1 2 [3], cb_rev = ''r'', cb_since = None,
     cb_blocks = [1, 2], cb_ops = [\<lparr>op_action = ''create'', op_path = ''c/k'', op_cid = Some (Cid 1 2 [4])\<rparr>], cb_blobs = [], cb_time = ''u'', cb_prev_data = None\<rparr>"

theorem commit_survives_hop_witness:
  "\<exists>d'. sequencer_fetch wit_hop \<lparr>ws_sent = [], ws_left = 0\<rparr> ''/enqueue'' [] (Ok (commit_payload wit_hop wit_commit [Some Null])) wit_sequencer =
      (Some (WkJson 200 (Object [(''ok'', Bool True), (''seq'', Number 2)])), d') \<and>
    map fr_seq (sg_log (do_tables d')) = [1, 2]"
proof -
  have "calm wit_sequencer" "seq_ok (do_tables wit_sequencer)" "next_seq (do_tables wit_sequencer) = 2" "map fr_seq (sg_log (do_tables wit_sequencer)) = [1]"
    by (simp_all add: wit_sequencer_def calm_def seq_ok_def next_seq_def)
  with commit_survives_hop [OF wit_hop.cid_back wit_hop.base64_back, of wit_sequencer "\<lparr>ws_sent = [], ws_left = 0\<rparr>" "[]" wit_commit "[Some Null]"]
  show ?thesis by (auto simp: commit_row_def)
qed

subsection \<open>Sign-in with a device\<close>

definition signins :: "do_world \<Rightarrow> signin_row list" where
  "signins w = dw_signin_requests (do_tables (w_store w))"

definition user_code_of :: "do_world \<Rightarrow> string \<Rightarrow> string option" where
  "user_code_of w request_id = map_option sn_user_code (tbl sn_request_id (signins w) request_id)"

definition enrolled :: "do_world \<Rightarrow> string \<Rightarrow> string option" where
  "enrolled w device_id = map_option dk_did_key (tbl dk_device_id (dw_device_keys (do_tables (w_store w))) device_id)"

text \<open>A step that leaves every decided request as it is, and every other request, and touches the sign-ins at all only when the signature verifies
  under the key that the device has enrolled, over this request and the code its user was shown.\<close>

definition approves :: "'x worker_prims_scheme \<Rightarrow> string \<Rightarrow> string \<Rightarrow> bytes \<Rightarrow> do_world \<Rightarrow> do_world \<Rightarrow> bool" where
  "approves P request_id device_id signature w1 w2 =
     ((signins w2 = signins w1 \<or> (\<exists>key code. enrolled w1 device_id = Some key \<and> user_code_of w1 request_id = Some code \<and>
         device_verify P key request_id code signature)) \<and>
      (\<forall>i row. tbl sn_request_id (signins w1) i = Some row \<and> (i \<noteq> request_id \<or> sn_status row \<noteq> ''pending'') \<longrightarrow> tbl sn_request_id (signins w2) i = Some row) \<and>
      (\<forall>i. user_code_of w2 i = user_code_of w1 i) \<and> (\<forall>d. enrolled w2 d = enrolled w1 d))"

lemma approves_same: "do_tables (w_store w2) = do_tables (w_store w1) \<Longrightarrow> approves P r d s w1 w2"
  by (simp add: approves_def signins_def user_code_of_def enrolled_def)

lemma do_rows_cases:
  assumes "do_rows f d = (r, d')"
  shows "do_tables d' = do_tables d" "r = Ok a \<Longrightarrow> a = f (do_tables d)"
  using assms by (auto simp: do_rows_def do_exec_def sql_stmt_def Let_def split: option.splits)

lemma do_run_cases:
  assumes "do_run f d = (r, d')"
  shows "do_tables d' = do_tables d \<or> do_tables d' = f (do_tables d)"
  using assms by (auto simp: do_run_def do_exec_def sql_stmt_def Let_def split: option.splits)

text \<open>What a handler has learnt of the request and the device.\<close>

definition known :: "string \<Rightarrow> string \<Rightarrow> string option \<Rightarrow> string option \<Rightarrow> do_world \<Rightarrow> bool" where
  "known request_id device_id code key w = ((\<forall>c. code = Some c \<longrightarrow> user_code_of w request_id = Some c) \<and>
     (\<forall>k. key = Some k \<longrightarrow> enrolled w device_id = Some k))"

lemma known_approves: "known request_id device_id code key w \<Longrightarrow> approves P r d s w w' \<Longrightarrow> known request_id device_id code key w'"
  by (auto simp: known_def approves_def)

text \<open>The other requests of the object change neither the code a user was shown nor an enrolled key.\<close>

locale signin_stable =
  fixes R :: "do_world \<Rightarrow> do_world \<Rightarrow> bool" and P :: "'x worker_prims_scheme" and request_id device_id :: string and signature :: bytes
  assumes code_stable: "R w w' \<Longrightarrow> user_code_of w request_id = Some code \<Longrightarrow> user_code_of w' request_id = Some code"
    and key_stable: "R w w' \<Longrightarrow> enrolled w device_id = Some key \<Longrightarrow> enrolled w' device_id = Some key"
begin

lemma known_R: "known request_id device_id code key w \<Longrightarrow> R w w' \<Longrightarrow> known request_id device_id code key w'"
  using code_stable key_stable by (auto simp: known_def)

lemma quiet_atomic:
  assumes "\<And>w. do_tables (w_store (snd (f w))) = do_tables (w_store w)" "\<And>w. F (fst (f w)) (snd (f w))"
  shows "guards R (approves P request_id device_id signature) (known request_id device_id code key) (atomic f)
    (\<lambda>r w. known request_id device_id code key w \<and> F r w)"
proof (rule guards_atomic)
  fix w w1 assume w: "known request_id device_id code key w" "R w w1"
  have "approves P request_id device_id signature w1 (snd (f w1))" by (rule approves_same) (rule assms(1))
  with known_approves [OF known_R [OF w] this] assms(2) [of w1]
  show "approves P request_id device_id signature w1 (snd (f w1)) \<and> known request_id device_id code key (snd (f w1)) \<and> F (fst (f w1)) (snd (f w1))" by simp
qed

lemma quiet_db:
  assumes "\<And>d. do_tables (snd (op d)) = do_tables d" "\<And>d a. fst (op d) = Ok a \<Longrightarrow> F a (do_tables d)"
  shows "guards R (approves P request_id device_id signature) (known request_id device_id code key) (wdb P what op)
    (\<lambda>r w. known request_id device_id code key w \<and> (\<forall>a. r = Ok a \<longrightarrow> F a (do_tables (w_store w))))"
  unfolding wdb_def db_def
  by (rule guards_abind [OF quiet_atomic [where F = "\<lambda>r w. \<forall>a. r = Ok a \<longrightarrow> F a (do_tables (w_store w))"]])
    (auto simp: case_prod_beta assms intro: guards_Ready)

lemma quiet_now: "guards R (approves P request_id device_id signature) (known request_id device_id code key) now_unix (\<lambda>_. known request_id device_id code key)"
  unfolding now_unix_def by (rule guards_weaken [OF quiet_atomic [where F = "\<lambda>_ _. True"]]) auto

lemma quiet_refresh:
  "guards R (approves P request_id device_id signature) (known request_id device_id code key) (encode_refresh_jwt_at P did secret now)
    (\<lambda>_. known request_id device_id code key)"
  unfolding encode_refresh_jwt_at_def fill_bytes_def
  by (rule guards_abind [OF quiet_atomic [where F = "\<lambda>_ _. True"]]) (auto simp: Let_def intro: guards_Ready)

lemma decide_signin:
  assumes "device_verify P key request_id code signature"
    and f: "\<And>r. sn_request_id (f r) = sn_request_id r" "\<And>r. sn_user_code (f r) = sn_user_code r"
    and op: "op = do_run (\<lambda>t. t\<lparr>dw_signin_requests := snd (update_where (\<lambda>r. sn_request_id r = request_id \<and> sn_status r = ''pending'') f (dw_signin_requests t))\<rparr>)"
  shows "guards R (approves P request_id device_id signature) (known request_id device_id (Some code) (Some key)) (wdb P what op) (\<lambda>_ _. True)"
proof -
  have rows: "tbl sn_request_id (snd (update_where (\<lambda>r. sn_request_id r = request_id \<and> sn_status r = ''pending'') f rows)) i =
      map_option (\<lambda>r. if sn_request_id r = request_id \<and> sn_status r = ''pending'' then f r else r) (tbl sn_request_id rows i)" for rows i
    by (induction rows) (auto simp: update_where_def f)
  have "approves P request_id device_id signature w1 (w1\<lparr>w_store := snd (op (w_store w1))\<rparr>)"
    if w: "known request_id device_id (Some code) (Some key) w1" for w1
  proof -
    from do_run_cases [of _ "w_store w1", OF prod.collapse [symmetric]]
    consider "do_tables (snd (op (w_store w1))) = do_tables (w_store w1)" |
      "do_tables (snd (op (w_store w1))) = (do_tables (w_store w1))\<lparr>dw_signin_requests := snd (update_where (\<lambda>r. sn_request_id r = request_id \<and> sn_status r = ''pending'') f (signins w1))\<rparr>"
      unfolding op signins_def by blast
    then show ?thesis
    proof cases
      case 1
      then show ?thesis by (intro approves_same) simp
    next
      case 2
      let ?w2 = "w1\<lparr>w_store := snd (op (w_store w1))\<rparr>"
      have look: "tbl sn_request_id (signins ?w2) i = map_option (\<lambda>r. if sn_request_id r = request_id \<and> sn_status r = ''pending'' then f r else r)
          (tbl sn_request_id (signins w1) i)" for i by (simp add: signins_def 2 rows [unfolded signins_def])
      have "tbl sn_request_id (signins ?w2) i = Some row"
        if "tbl sn_request_id (signins w1) i = Some row" "i \<noteq> request_id \<or> sn_status row \<noteq> ''pending''" for i row
      proof -
        from that(1) have "sn_request_id row = i" by (auto simp: tbl_def find_Some_iff)
        with that(2) show ?thesis unfolding look that(1) by auto
      qed
      then have "\<forall>i row. tbl sn_request_id (signins w1) i = Some row \<and> (i \<noteq> request_id \<or> sn_status row \<noteq> ''pending'') \<longrightarrow>
          tbl sn_request_id (signins ?w2) i = Some row" by blast
      moreover have "sn_user_code (if b then f r else r) = sn_user_code r" for b r by (simp add: f)
      then have "user_code_of ?w2 i = user_code_of w1 i" for i by (simp add: user_code_of_def look option.map_comp o_def)
      moreover have "enrolled ?w2 d = enrolled w1 d" for d by (simp add: enrolled_def 2)
      moreover have "enrolled w1 device_id = Some key" "user_code_of w1 request_id = Some code" using w by (simp_all add: known_def)
      ultimately show ?thesis using assms(1) by (simp add: approves_def)
    qed
  qed
  then show ?thesis
    unfolding wdb_def db_def
    by (intro guards_abind [OF guards_atomic [where Q = "\<lambda>_ _. True"]]) (auto simp: case_prod_beta intro: guards_Ready known_R)
qed

lemma quiet_accounts:
  "guards R (approves P request_id device_id signature) (known request_id device_id code key) (wdb P what do_list_accounts)
    (\<lambda>r w. known request_id device_id code key w)"
proof (rule guards_weaken [OF quiet_db [where F = "\<lambda>_ _. True"]])
  show "do_tables (snd (do_list_accounts d)) = do_tables d" for d
    by (cases "do_rows (\<lambda>t. sort_key ac_created_at (sort_key ac_did (dw_accounts t))) d")
      (auto simp: do_list_accounts_def dbind_def dret_def dest: do_rows_cases(1) split: sum.split)
qed auto

lemma quiet_rows:
  "guards R (approves P request_id device_id signature) (known request_id device_id code key) (wdb P what (do_rows f))
    (\<lambda>r w. known request_id device_id code key w \<and> (\<forall>a. r = Ok a \<longrightarrow> f (do_tables (w_store w)) = a))"
  by (rule quiet_db) (metis do_rows_cases prod.collapse)+

text \<open>The row and the key as they are read.\<close>

lemma read_signin:
  "guards R (approves P request_id device_id signature) (known request_id device_id None None) (wdb P what (do_get_signin request_id))
    (\<lambda>r w. \<forall>row. r = Ok (Some row) \<longrightarrow> known request_id device_id (Some (sn_user_code row)) None w)"
  unfolding do_get_signin_def
  by (rule guards_weaken [OF quiet_rows [of None None]]) (auto simp: known_def user_code_of_def signins_def)

lemma read_key:
  "guards R (approves P request_id device_id signature) (known request_id device_id code None) (wdb P what (do_device_did_key device_id))
    (\<lambda>r w. \<forall>key. r = Ok (Some key) \<longrightarrow> known request_id device_id code (Some key) w)"
  unfolding do_device_did_key_def
  by (rule guards_weaken [OF quiet_rows [of code None]]) (auto simp: known_def enrolled_def)

lemma approve_guarded:
  "guards R (approves P request_id device_id signature) (known request_id device_id None None) (device_approve P request_id device_id signature secret) (\<lambda>_ _. True)"
proof -
  have yes: "guards R (approves P request_id device_id signature) A (Ready r) (\<lambda>_ _. True)" for A and r :: "string + wk_response" by (rule guards_Ready) simp
  have issue: "guards R (approves P request_id device_id signature) (known request_id device_id (Some code) (Some key))
      (await_ok (wdb P ''approve signin'' (do_approve_signin request_id did handle access refresh)) (\<lambda>_. Ready r)) (\<lambda>_ _. True)"
    if "device_verify P key request_id code signature" for code key did handle access refresh and r :: "string + wk_response"
    by (rule guards_await_ok [OF decide_signin [OF that, of "\<lambda>r. r\<lparr>sn_status := ''approved'', sn_did := Some did, sn_handle := Some handle,
          sn_access_jwt := Some access, sn_refresh_jwt := Some refresh\<rparr>"]]) (auto simp: do_approve_signin_def intro: yes)
  show ?thesis
    unfolding device_approve_def Let_def
    apply (rule guards_await_ok [OF read_signin])
     apply (split option.split, intro conjI allI impI, rule yes)
     apply (split if_split, intro conjI impI, rule yes)
     apply (rule guards_abind [OF guards_pre [OF quiet_now]], force)
    apply (split if_split, intro conjI impI, rule yes)
    apply (rule guards_await_ok [OF read_key])
     apply (split option.split, intro conjI allI impI, rule yes)
     apply (split if_split, intro conjI impI, rule yes)
     apply (rule guards_await_ok [OF guards_pre [OF quiet_accounts]], force)
      apply (split list.split, intro conjI allI impI, rule yes)
      apply (rule guards_abind [OF quiet_now], rule guards_try_ok)
       apply (rule guards_abind [OF quiet_now], rule guards_abind [OF quiet_refresh], rule guards_try_ok)
        apply (rule guards_pre [OF issue], force, force)
       apply simp_all
    done
qed

text \<open>Denying takes the same check.\<close>

lemma deny_guarded:
  "guards R (approves P request_id device_id signature) (known request_id device_id None None) (device_deny P request_id device_id signature) (\<lambda>_ _. True)"
proof -
  have yes: "guards R (approves P request_id device_id signature) A (Ready r) (\<lambda>_ _. True)" for A and r :: "string + wk_response" by (rule guards_Ready) simp
  have issue: "guards R (approves P request_id device_id signature) (known request_id device_id (Some code) (Some key))
      (await_ok (wdb P ''deny signin'' (do_deny_signin request_id)) (\<lambda>_. Ready r)) (\<lambda>_ _. True)"
    if "device_verify P key request_id code signature" for code key and r :: "string + wk_response"
    by (rule guards_await_ok [OF decide_signin [OF that, of "\<lambda>r. r\<lparr>sn_status := ''denied''\<rparr>"]]) (auto simp: do_deny_signin_def intro: yes)
  show ?thesis
    unfolding device_deny_def
    apply (rule guards_await_ok [OF read_signin])
     apply (split option.split, intro conjI allI impI, rule yes)
     apply (split if_split, intro conjI impI, rule yes)
     apply (rule guards_await_ok [OF guards_pre [OF read_key]], force)
      apply (split option.split, intro conjI allI impI, rule yes)
      apply (split if_split, intro conjI impI, rule yes)
      apply (rule guards_pre [OF issue], force, force)
     apply simp_all
    done
qed

end

text \<open>C18: a sign-in is decided by an enrolled device, once. Whatever other requests the object serves in between, as long as they change neither the
  code a user was shown nor an enrolled key, every step of an approval or a denial leaves decided sign-ins and other sign-ins as they are, and it
  touches the request at all only when the presented signature verifies, at that moment, under the key this device has enrolled, over this
  request and the code its user was shown.\<close>

theorem signin_needs_enrolled_device:
  assumes "\<And>w w' code. R w w' \<Longrightarrow> user_code_of w request_id = Some code \<Longrightarrow> user_code_of w' request_id = Some code"
    and "\<And>w w' key. R w w' \<Longrightarrow> enrolled w device_id = Some key \<Longrightarrow> enrolled w' device_id = Some key"
    and "amid R (device_approve P request_id device_id signature secret) w tr r w' \<or> amid R (device_deny P request_id device_id signature) w tr r w'"
  shows "list_all (\<lambda>(w1, w2). approves P request_id device_id signature w1 w2) tr"
proof -
  have st: "signin_stable R request_id device_id" by unfold_locales (fact assms(1,2))+
  have "known request_id device_id None None w" by (simp add: known_def)
  with assms(3) guardsD [OF signin_stable.approve_guarded [OF st]] guardsD [OF signin_stable.deny_guarded [OF st]] show ?thesis by blast
qed

text \<open>One pending request, one enrolled device, one account; nobody else is served.\<close>

definition wit_signin :: do_world where
  "wit_signin = \<lparr>w_store = (do_new ''t'' (\<lambda>_. None))\<lparr>do_tables := (do_tables (do_new ''t'' (\<lambda>_. None)))\<lparr>
       dw_signin_requests := [\<lparr>sn_request_id = ''r'', sn_user_code = ''ABCD-1234'', sn_client_name = [], sn_status = ''pending'', sn_did = None,
         sn_handle = None, sn_access_jwt = None, sn_refresh_jwt = None, sn_created_at = ''t'', sn_expires_at = 300\<rparr>],
       dw_device_keys := [\<lparr>dk_device_id = ''d'', dk_did_key = ''did:key:z'', dk_label = [], dk_created_at = ''t''\<rparr>],
       dw_accounts := [\<lparr>ac_did = ''did:plc:a'', ac_handle = Some ''a.z'', ac_email = None, ac_password_argon2 = [], ac_created_at = ''t'',
         ac_deactivated_at = None, ac_takedown_ref = None\<rparr>]\<rparr>\<rparr>,
     w_clock = 100, w_rng = (\<lambda>_. 0), w_rng_pos = 0, w_micros = 0, w_rfc3339 = [], w_key_cache = [], w_published = []\<rparr>"

definition wit_signer :: worker_prims where
  "wit_signer = wit_hop\<lparr>did_key_verify := (\<lambda>key m s. if s = [7] then Ok () else Err []), jwt_encode := (\<lambda>_ _. Ok ''jwt''), uuid_v4 := (\<lambda>_. [])\<rparr>"

interpretation wit_alone: signin_stable "(=)" wit_signer "''r''" "''d''" "[7]"
  by unfold_locales simp_all

theorem signin_needs_enrolled_device_witness:
  "\<exists>tr r w'. amid (=) (device_approve wit_signer ''r'' ''d'' [7] []) wit_signin tr r w' \<and> list_all (\<lambda>(w1, w2). approves wit_signer ''r'' ''d'' [7] w1 w2) tr \<and>
     map sn_status (signins w') = [''approved'']"
proof -
  let ?p = "device_approve wit_signer ''r'' ''d'' [7] []"
  obtain tr where tr: "amid (=) ?p wit_signin tr (fst (run ?p wit_signin)) (snd (run ?p wit_signin))"
    using amid_run [of "(=)" ?p wit_signin] by (metis prod.collapse)
  then have "list_all (\<lambda>(w1, w2). approves wit_signer ''r'' ''d'' [7] w1 w2) tr" by (intro signin_needs_enrolled_device [of "(=)"]) auto
  moreover have "map sn_status (signins (snd (run ?p wit_signin))) = [''approved'']"
    by (simp add: device_approve_def wdb_def db_def async_simps do_get_signin_def do_rows_def do_exec_def do_run_def sql_stmt_def wit_signin_def do_new_def
        tbl_def Let_def now_unix_def do_device_did_key_def do_list_accounts_def dbind_def dret_def encode_refresh_jwt_at_def encode_access_jwt_at_def
        fill_bytes_def device_verify_def verify_approval_def wit_signer_def as_u64_def do_approve_signin_def update_where_def signins_def)
  ultimately have "amid (=) ?p wit_signin tr (fst (run ?p wit_signin)) (snd (run ?p wit_signin)) \<and>
      list_all (\<lambda>(w1, w2). approves wit_signer ''r'' ''d'' [7] w1 w2) tr \<and> map sn_status (signins (snd (run ?p wit_signin))) = [''approved'']"
    using tr by (intro conjI)
  then show ?thesis by (intro exI)
qed

subsection \<open>Two divergences\<close>

text \<open>Any token the secret verifies opens the account, whatever its scope: a refresh token serves as an access token.\<close>

lemma bearer_ignores_scope:
  "jwt_decode P (w_clock w) secret jwt = Ok claims \<Longrightarrow> fst (run (bearer_did P (Some jwt) secret) w) = Some (ac_sub claims)"
  by (simp add: bearer_did_def decode_jwt_def async_simps)

text \<open>Two creates of one batch that name no key, within one millisecond of the clock, are given the same key.\<close>

lemma batch_keys_collide:
  assumes "w = Object [(''$type'', String ''com.atproto.repo.applyWrites#create''), (''collection'', String ''app.post''), (''value'', v)]"
    and "v \<noteq> Null" "json_value_to_ipld P v = Ok ipld"
  shows "\<exists>key. fst (run (wk_batch_writes P did [w, w]) s) = Ok (replicate 2 (Create key ipld, ''at://'' @ did @ ''/'' @ key, Some v))"
proof -
  have ok: "validate_collection ''app.post'' = Ok ()" by code_simp
  have kind: "ends_with ''com.atproto.repo.applyWrites#create'' ''#create''" "\<not> ends_with ''com.atproto.repo.applyWrites#create'' ''#delete''"
    "\<not> ends_with ''com.atproto.repo.applyWrites#create'' ''#update''" by (simp_all add: ends_with_def)
  show ?thesis
    using assms(2,3) by (simp add: assms(1) wk_batch_write_def json_index_def json_get_def ok kind rkey_now_def now_micros_def async_simps Let_def numeral_2_eq_2)
qed

end
