(* ===== verification/Operator_Commands.thy ===== *)
theory Operator_Commands
  imports Outbound
begin

text \<open>
  The command line of the server binary (\<open>rust-pds/src/cmd/\<close>, \<open>config.rs\<close>, \<open>keychain.rs\<close>, \<open>detect.rs\<close>, \<open>dns.rs\<close>): the operator's work on
  the database and on key files, the resolution of settings and secrets, and the set-up wizard, up to the point where the server listens.

  A \<open>host\<close> is what a command runs on: database files, other files with their permissions, the operator's terminal, the macOS Keychain where
  there is one, and a process with its clock and random source. An access to a file or to the Keychain is one step that succeeds, is
  refused, or breaks off after some bytes, as the host's fates say. \<open>in_db\<close> runs a program of the library on one of the databases. What a
  command prints to narrate its progress is left out; what it reports is its result, and \<open>ho_shown\<close> holds the secrets it shows.
\<close>

subsection \<open>The host\<close>

datatype io_fate = Done | Refused | Torn nat

record 's host =
  ho_process :: "unit world"
  ho_dbs :: "string \<Rightarrow> 's" \<comment> \<open>contents by path, empty where there is no file yet\<close>
  ho_db_files :: "string list"
  ho_files :: "(string, bytes) hashmap"
  ho_modes :: "(string, nat) hashmap" \<comment> \<open>permissions that were set\<close>
  ho_fates :: "nat \<Rightarrow> io_fate"
  ho_ios :: nat
  ho_keychain :: "(string, string) hashmap option" \<comment> \<open>\<open>None\<close> where it is not supported\<close>
  ho_tty :: bool
  ho_lines :: "string list" \<comment> \<open>what the operator will type\<close>
  ho_answers :: "string option list" \<comment> \<open>answers to password prompts; \<open>None\<close> is a failing one\<close>
  ho_admin_password :: "string option" \<comment> \<open>environment\<close>
  ho_shown :: "string list"

datatype cli_error =
    NoDatabase string | OpenFailed string | StoreFailed StorageError | PromptFailed | IoFailed string | BadUses
  | NoAccount string | NoHandle string | PasswordTooShort | PasswordMismatch | HashFailed CoreError | Panicked
  | PassphraseMismatch | ClientFailed string | OAuthFailed OAuthError | CreateFailed XrpcError | SecretRequired string
  | SecretTooShort nat | SecretEmpty | KeychainUnsupported | NoHostname | NeedsTerminal | ForeignHandle | AlreadySetUp
  | HandleExists | BadPort | BadConfig | NotPublic | NoDns

type_synonym ('s, 'a) cli = "('s host, cli_error + 'a) async"

definition at_store :: "'t world \<Rightarrow> 's \<Rightarrow> 's world" where
  "at_store w s = \<lparr>w_store = s, w_clock = w_clock w, w_rng = w_rng w, w_rng_pos = w_rng_pos w, w_micros = w_micros w,
     w_rfc3339 = w_rfc3339 w, w_key_cache = w_key_cache w, w_published = w_published w\<rparr>"

definition in_db :: "string \<Rightarrow> ('s world, 'a) async \<Rightarrow> ('s host, 'a) async" where
  "in_db path = lift_async (\<lambda>h. at_store (ho_process h) (ho_dbs h path))
     (\<lambda>w h. h\<lparr>ho_process := at_store w (), ho_dbs := (ho_dbs h)(path := w_store w)\<rparr>)"

definition in_process :: "(unit world, 'a) async \<Rightarrow> ('s host, 'a) async" where
  "in_process = lift_async ho_process (\<lambda>w h. h\<lparr>ho_process := w\<rparr>)"

text \<open>\<open>p.map_err(f)?\<close> on an awaited result.\<close>

definition await_or :: "('e \<Rightarrow> 'f) \<Rightarrow> ('s, 'e + 'a) async \<Rightarrow> ('a \<Rightarrow> ('s, 'f + 'b) async) \<Rightarrow> ('s, 'f + 'b) async" where
  "await_or f p k = abind p (\<lambda>r. try_ok (map_err f r) k)"

definition with_fate :: "(io_fate \<Rightarrow> 's host \<Rightarrow> 'a \<times> 's host) \<Rightarrow> ('s host, 'a) async" where
  "with_fate f = atomic (\<lambda>h. f (ho_fates h (ho_ios h)) (h\<lparr>ho_ios := Suc (ho_ios h)\<rparr>))"

definition open_store :: "string \<Rightarrow> ('s, unit) cli" where
  "open_store path = with_fate (\<lambda>fate h. if fate = Done
     then (Ok (), h\<lparr>ho_db_files := List.insert path (ho_db_files h)\<rparr>) else (Err (OpenFailed path), h))"

definition fs_write :: "string \<Rightarrow> bytes \<Rightarrow> ('s, unit) cli" where
  "fs_write path data = with_fate (\<lambda>fate h. case fate of
     Done \<Rightarrow> (Ok (), h\<lparr>ho_files := hm_insert path data (ho_files h)\<rparr>)
   | Refused \<Rightarrow> (Err (IoFailed path), h)
   | Torn n \<Rightarrow> (Err (IoFailed path), h\<lparr>ho_files := hm_insert path (take n data) (ho_files h)\<rparr>))"

definition fs_read :: "string \<Rightarrow> ('s, bytes) cli" where
  "fs_read path = with_fate (\<lambda>fate h. (case hm_get (ho_files h) path of
     Some data \<Rightarrow> if fate = Done then Ok data else Err (IoFailed path) | None \<Rightarrow> Err (IoFailed path), h))"

definition set_permissions :: "string \<Rightarrow> nat \<Rightarrow> ('s, unit) cli" where
  "set_permissions path mode = with_fate (\<lambda>fate h. if fate = Done \<and> hm_contains_key (ho_files h) path
     then (Ok (), h\<lparr>ho_modes := hm_insert path mode (ho_modes h)\<rparr>) else (Err (IoFailed path), h))"

definition path_exists :: "string \<Rightarrow> ('s host, bool) async" where
  "path_exists path = atomic (\<lambda>h. (hm_contains_key (ho_files h) path, h))"

definition prompt_password :: "('s, string) cli" where
  "prompt_password = atomic (\<lambda>h. case ho_answers h of
     Some a # as \<Rightarrow> (Ok a, h\<lparr>ho_answers := as\<rparr>)
   | None # as \<Rightarrow> (Err PromptFailed, h\<lparr>ho_answers := as\<rparr>)
   | [] \<Rightarrow> (Err PromptFailed, h))"

text \<open>\<open>read_line\<close> at the end of the input leaves the line empty.\<close>

definition read_line :: "('s host, string) async" where
  "read_line = atomic (\<lambda>h. case ho_lines h of [] \<Rightarrow> ([], h) | l # ls \<Rightarrow> (l, h\<lparr>ho_lines := ls\<rparr>))"

definition is_terminal :: "('s host, bool) async" where
  "is_terminal = atomic (\<lambda>h. (ho_tty h, h))"

definition show_line :: "string \<Rightarrow> ('s host, unit) async" where
  "show_line l = atomic (\<lambda>h. ((), h\<lparr>ho_shown := ho_shown h @ [l]\<rparr>))"

text \<open>
  \<open>PathBuf::set_extension\<close> as the standard library documents it: the extension of the file name is replaced. Trailing separators and
  \<open>.\<close> components do not count, and a path without a file name stays as it is.
\<close>

function trim_path :: "string \<Rightarrow> string" where
  "trim_path p = (if ends_with p ''/'' then trim_path (take (length p - 1) p)
     else if ends_with p ''/.'' then trim_path (take (length p - 1) p) else p)"
  by auto
termination by (relation "measure length") (auto simp: ends_with_def)

declare trim_path.simps [simp del]

definition file_stem :: "string \<Rightarrow> string" where
  "file_stem name = (let n = length (takeWhile (\<lambda>c. c \<noteq> CHR ''.'') (rev name)) in
     if n + 1 < length name then take (length name - n - 1) name else name)"

definition set_extension :: "string \<Rightarrow> string \<Rightarrow> string" where
  "set_extension ext p = (let t = trim_path p; name = rev (takeWhile (\<lambda>c. c \<noteq> CHR ''/'') (rev t)) in
     if name \<in> {[], ''.'', ''..''} then p
     else take (length t - length name) t @ file_stem name @ ''.'' @ ext)"

subsection \<open>Accounts and invites (\<open>cmd/admin.rs\<close>)\<close>

datatype AdminCommand = CreateInvite int "string option" | ListAccounts | Takedown string string | Untakedown string | ResetPassword string

datatype admin_report = InviteCode string int string | NoAccounts | AccountTable "(string \<times> string \<times> string \<times> string) list"
  | TookDown string | Restored string | PasswordReset string

text \<open>Eight bytes are thirteen characters in base 32, so the slice is in range.\<close>

definition generate_invite_code :: "'x id_prims_scheme \<Rightarrow> (unit world, string) async" where
  "generate_invite_code P = abind (fill_bytes 8) (\<lambda>b.
     Ready (''stelyph-'' @ take 10 (to_ascii_lowercase (base32_nopad P b))))"

definition account_status :: "AccountSummary \<Rightarrow> string" where
  "account_status a = (if sum_takedown_ref a \<noteq> None then ''takedown'' else if sum_deactivated_at a \<noteq> None then ''inactive'' else ''active'')"

definition reset_password :: "'x id_prims_scheme \<Rightarrow> 's StorageBackend \<Rightarrow> string \<Rightarrow> string \<Rightarrow> ('s, admin_report) cli" where
  "reset_password P B db_path identifier =
     await_ok (if starts_with identifier ''did:'' then Ready (Ok identifier)
       else await_or StoreFailed (in_db db_path (db (get_did_by_handle (account_ops B) identifier))) (\<lambda>found.
         Ready (ok_or (NoHandle identifier) found))) (\<lambda>did.
     await_ok prompt_password (\<lambda>pw.
     if length pw < 8 then Ready (Err PasswordTooShort)
     else await_ok prompt_password (\<lambda>confirm.
     if pw \<noteq> confirm then Ready (Err PasswordMismatch)
     else await_or HashFailed (in_db db_path (hash_password P pw)) (\<lambda>phc.
     await_or StoreFailed (in_db db_path (db (update_password (account_ops B) did phc))) (\<lambda>n.
     if n = 0 then Ready (Err (NoAccount did)) else Ready (Ok (PasswordReset did)))))))"

definition admin_run :: "'x id_prims_scheme \<Rightarrow> 's StorageBackend \<Rightarrow> string \<Rightarrow> AdminCommand \<Rightarrow> ('s, admin_report) cli" where
  "admin_run P B db_path command =
     abind (atomic (\<lambda>h. (db_path \<in> set (ho_db_files h), h))) (\<lambda>present.
     if \<not> present then Ready (Err (NoDatabase db_path))
     else await_ok (open_store db_path) (\<lambda>_. case command of
       CreateInvite uses for_account \<Rightarrow>
         if uses < 1 then Ready (Err BadUses)
         else abind (in_process (generate_invite_code P)) (\<lambda>code.
           let for_account = (case for_account of Some a \<Rightarrow> a | None \<Rightarrow> ''admin'') in
           await_or StoreFailed (in_db db_path (db (insert_invite (account_ops B) code uses for_account))) (\<lambda>_.
           Ready (Ok (InviteCode code uses for_account))))
     | ListAccounts \<Rightarrow>
         await_or StoreFailed (in_db db_path (db (list_accounts (account_ops B)))) (\<lambda>accounts.
         Ready (Ok (if accounts = [] then NoAccounts
           else AccountTable (map (\<lambda>a. (sum_did a, account_status a, sum_created_at a,
             case sum_handle a of Some h \<Rightarrow> h | None \<Rightarrow> ''-'')) accounts))))
     | Takedown did reference \<Rightarrow>
         await_or StoreFailed (in_db db_path (db (set_takedown (account_ops B) did reference))) (\<lambda>n.
         if n = 0 then Ready (Err (NoAccount did)) else Ready (Ok (TookDown did)))
     | Untakedown did \<Rightarrow>
         await_or StoreFailed (in_db db_path (db (clear_takedown (account_ops B) did))) (\<lambda>n.
         if n = 0 then Ready (Err (NoAccount did)) else Ready (Ok (Restored did)))
     | ResetPassword identifier \<Rightarrow> reset_password P B db_path identifier))"

subsection \<open>Key files (\<open>cmd/export_keys.rs\<close>, \<open>cmd/import_keys.rs\<close>)\<close>

record ExportKeysArgs =
  ek_did :: string
  ek_output :: string
  ek_db_path :: string

record ImportKeysArgs =
  ik_did :: string
  ik_input :: string
  ik_db_path :: string

text \<open>The mode is \<open>0o600\<close>.\<close>

definition write_private :: "string \<Rightarrow> bytes \<Rightarrow> ('s, unit) cli" where
  "write_private path data = await_ok (fs_write path data) (\<lambda>_. set_permissions path 384)"

definition export_keys_run :: "prims \<Rightarrow> 's StorageBackend \<Rightarrow> ExportKeysArgs \<Rightarrow> ('s, unit) cli" where
  "export_keys_run P B args =
     await_ok prompt_password (\<lambda>passphrase.
     await_ok (open_store (ek_db_path args)) (\<lambda>_.
     await_or StoreFailed (in_db (ek_db_path args) (export_keys P (key_ops B) (ek_did args @ ''#signing'') (as_bytes passphrase))) (\<lambda>signing.
     await_ok (write_private (ek_output args) signing) (\<lambda>_.
     await_or StoreFailed (in_db (ek_db_path args) (export_keys P (key_ops B) (ek_did args @ ''#rotation'') (as_bytes passphrase))) (\<lambda>rotation.
     write_private (set_extension ''rotation'' (ek_output args)) rotation)))))"

text \<open>\<open>import_keys\<close> on a 64-bit target; a panic would end the command.\<close>

definition import_slot :: "prims \<Rightarrow> 's StorageBackend \<Rightarrow> string \<Rightarrow> string \<Rightarrow> bytes \<Rightarrow> string \<Rightarrow> ('s, unit) cli" where
  "import_slot P B db_path i blob passphrase =
     abind (in_db db_path (import_keys 64 P (key_ops B) i blob (as_bytes passphrase))) (\<lambda>r. case r of
       None \<Rightarrow> Ready (Err Panicked) | Some r \<Rightarrow> Ready (map_err StoreFailed r))"

definition import_keys_run :: "prims \<Rightarrow> 's StorageBackend \<Rightarrow> ImportKeysArgs \<Rightarrow> ('s, unit) cli" where
  "import_keys_run P B args =
     await_ok prompt_password (\<lambda>passphrase.
     await_ok (open_store (ik_db_path args)) (\<lambda>_.
     await_ok (fs_read (ik_input args)) (\<lambda>signing_blob.
     await_ok (import_slot P B (ik_db_path args) (ik_did args @ ''#signing'') signing_blob passphrase) (\<lambda>_.
     let rot_path = set_extension ''rotation'' (ik_input args) in
     abind (path_exists rot_path) (\<lambda>there.
     if there then
       await_ok (fs_read rot_path) (\<lambda>rotation_blob.
       import_slot P B (ik_db_path args) (ik_did args @ ''#rotation'') rotation_blob passphrase)
     else Ready (Ok ()))))))"

subsection \<open>Secrets in the Keychain (\<open>keychain.rs\<close>, \<open>cmd/keychain.rs\<close>)\<close>

definition keychain_account :: "string \<Rightarrow> string \<Rightarrow> string" where
  "keychain_account hostname key = hostname @ ''/'' @ key"

definition JWT_SECRET :: string where
  "JWT_SECRET = ''jwt-secret''"

definition KEY_PASSPHRASE :: string where
  "KEY_PASSPHRASE = ''key-passphrase''"

definition keychain_get :: "string \<Rightarrow> string \<Rightarrow> ('s host, string option) async" where
  "keychain_get hostname key = with_fate (\<lambda>fate h.
     (if fate = Done then Option.bind (ho_keychain h) (\<lambda>m. hm_get m (keychain_account hostname key)) else None, h))"

definition keychain_set :: "string \<Rightarrow> string \<Rightarrow> string \<Rightarrow> ('s, unit) cli" where
  "keychain_set hostname key v = with_fate (\<lambda>fate h. case ho_keychain h of
     None \<Rightarrow> (Err KeychainUnsupported, h)
   | Some m \<Rightarrow> if fate = Done then (Ok (), h\<lparr>ho_keychain := Some (hm_insert (keychain_account hostname key) v m)\<rparr>)
       else (Err (IoFailed ''keychain''), h))"

definition keychain_delete :: "string \<Rightarrow> string \<Rightarrow> ('s, unit) cli" where
  "keychain_delete hostname key = with_fate (\<lambda>fate h. case ho_keychain h of
     None \<Rightarrow> (Ok (), h)
   | Some m \<Rightarrow> if fate = Done then (Ok (), h\<lparr>ho_keychain := Some (hm_remove (keychain_account hostname key) m)\<rparr>)
       else (Err (IoFailed ''keychain''), h))"

record PdsConfig =
  cfg_hostname :: "string option"
  cfg_mode :: "string option"
  cfg_did_method :: "string option"
  cfg_db_path :: "string option"
  cfg_port :: "nat option"
  cfg_acme_env :: "string option"
  cfg_acme_cache_dir :: "string option"
  cfg_plc_url :: "string option"
  cfg_relay_url :: "string option"
  cfg_appview_url :: "string option"
  cfg_appview_did :: "string option"
  cfg_did_web_http_dev :: "bool option"

definition PdsConfig_default :: PdsConfig where
  "PdsConfig_default = \<lparr>cfg_hostname = None, cfg_mode = None, cfg_did_method = None, cfg_db_path = None, cfg_port = None, cfg_acme_env = None,
     cfg_acme_cache_dir = None, cfg_plc_url = None, cfg_relay_url = None, cfg_appview_url = None, cfg_appview_did = None,
     cfg_did_web_http_dev = None\<rparr>"

text \<open>\<open>toml\<close> on the configuration, the UTF-8 check of \<open>read_to_string\<close> included.\<close>

record cli_prims = server_prims +
  toml_from_str :: "bytes \<Rightarrow> string + PdsConfig"
  toml_to_string :: "PdsConfig \<Rightarrow> string + bytes"

definition resolve_config_path :: "string option \<Rightarrow> string" where
  "resolve_config_path explicit = (case explicit of Some p \<Rightarrow> p | None \<Rightarrow> ''stelyph.toml'')"

definition config_load :: "'x cli_prims_scheme \<Rightarrow> string \<Rightarrow> ('s, PdsConfig) cli" where
  "config_load P path = await_ok (fs_read path) (\<lambda>text. Ready (map_err (\<lambda>_. BadConfig) (toml_from_str P text)))"

definition config_load_or_default :: "'x cli_prims_scheme \<Rightarrow> string \<Rightarrow> ('s, PdsConfig) cli" where
  "config_load_or_default P path = abind (path_exists path) (\<lambda>there.
     if there then config_load P path else Ready (Ok PdsConfig_default))"

definition config_save :: "'x cli_prims_scheme \<Rightarrow> PdsConfig \<Rightarrow> string \<Rightarrow> ('s, unit) cli" where
  "config_save P cfg path = try_ok (map_err (\<lambda>_. BadConfig) (toml_to_string P cfg)) (\<lambda>text. fs_write path text)"

definition keychain_hostname :: "'x cli_prims_scheme \<Rightarrow> string option \<Rightarrow> string option \<Rightarrow> ('s, string) cli" where
  "keychain_hostname P explicit config = (case explicit of Some h \<Rightarrow> Ready (Ok h)
   | None \<Rightarrow> await_ok (config_load_or_default P (resolve_config_path config)) (\<lambda>cfg. Ready (ok_or NoHostname (cfg_hostname cfg))))"

datatype KeychainCommand = Set | Status | Clear

datatype keychain_report = Stored | Present bool bool | Removed

definition keychain_run :: "'x cli_prims_scheme \<Rightarrow> string option \<Rightarrow> string option \<Rightarrow> KeychainCommand \<Rightarrow> ('s, keychain_report) cli" where
  "keychain_run P hostname config command =
     abind (atomic (\<lambda>h. (ho_keychain h \<noteq> None, h))) (\<lambda>supported.
     if \<not> supported then Ready (Err KeychainUnsupported)
     else await_ok (keychain_hostname P hostname config) (\<lambda>hostname. case command of
       Set \<Rightarrow>
         await_ok prompt_password (\<lambda>jwt.
         await_ok (if str_trim jwt = [] then abind (in_process (fill_bytes 32)) (\<lambda>b. Ready (Ok (b64url_encode P b)))
           else if length jwt < 32 then Ready (Err (SecretTooShort (length jwt))) else Ready (Ok jwt)) (\<lambda>jwt.
         await_ok prompt_password (\<lambda>passphrase.
         if passphrase = [] then Ready (Err SecretEmpty)
         else await_ok (keychain_set hostname JWT_SECRET jwt) (\<lambda>_.
           await_ok (keychain_set hostname KEY_PASSPHRASE passphrase) (\<lambda>_. Ready (Ok Stored))))))
     | Status \<Rightarrow>
         abind (keychain_get hostname JWT_SECRET) (\<lambda>j. abind (keychain_get hostname KEY_PASSPHRASE) (\<lambda>p.
         Ready (Ok (Present (j \<noteq> None) (p \<noteq> None)))))
     | Clear \<Rightarrow>
         await_ok (keychain_delete hostname JWT_SECRET) (\<lambda>_.
         await_ok (keychain_delete hostname KEY_PASSPHRASE) (\<lambda>_. Ready (Ok Removed)))))"

subsection \<open>Starting the server (\<open>cmd/serve.rs\<close>)\<close>

definition long_enough :: "string \<Rightarrow> cli_error + bytes" where
  "long_enough raw = (let bytes = as_bytes raw in if length bytes < 32 then Err (SecretTooShort (length bytes)) else Ok bytes)"

definition resolve_jwt_secret :: "'x prims_scheme \<Rightarrow> string option \<Rightarrow> string \<Rightarrow> bool \<Rightarrow> ('s, bytes) cli" where
  "resolve_jwt_secret P explicit hostname allow_prompt =
     abind (case explicit of Some s \<Rightarrow> Ready (Some s) | None \<Rightarrow> keychain_get hostname JWT_SECRET) (\<lambda>found. case found of
       Some raw \<Rightarrow> Ready (long_enough raw)
     | None \<Rightarrow>
         if \<not> allow_prompt then Ready (Err (SecretRequired ''PDS_JWT_SECRET''))
         else await_ok prompt_password (\<lambda>entered.
           if str_trim entered = [] then
             abind (in_process (fill_bytes 32)) (\<lambda>b.
             let encoded = b64url_encode P b in
             abind (show_line (''PDS_JWT_SECRET='' @ encoded)) (\<lambda>_. Ready (Ok (as_bytes encoded))))
           else Ready (long_enough entered)))"

definition resolve_key_passphrase :: "string option \<Rightarrow> string \<Rightarrow> bool \<Rightarrow> ('s, bytes) cli" where
  "resolve_key_passphrase explicit hostname allow_prompt =
     abind (case explicit of Some s \<Rightarrow> Ready (Some s) | None \<Rightarrow> keychain_get hostname KEY_PASSPHRASE) (\<lambda>found.
     await_ok (case found of Some p \<Rightarrow> Ready (Ok p)
       | None \<Rightarrow> if \<not> allow_prompt then Ready (Err (SecretRequired ''PDS_KEY_PASSPHRASE'')) else prompt_password) (\<lambda>raw.
     if raw = [] then Ready (Err SecretEmpty) else Ready (Ok (as_bytes raw))))"

definition looks_like_public_hostname :: "string \<Rightarrow> bool" where
  "looks_like_public_hostname host =
     (if parse_ip host \<noteq> None then False
      else if CHR ''.'' \<notin> set host then False
      else let lower = to_ascii_lowercase host in
        \<not> (lower = ''localhost'' \<or> ends_with lower ''.local'' \<or> ends_with lower ''.internal'' \<or> ends_with lower ''.test''))"

datatype Mode = Standalone | Proxy

datatype AcmeEnv = Production | Staging

record ServeArgs =
  sa_hostname :: "string option"
  sa_mode :: "Mode option"
  sa_acme :: "AcmeEnv option"
  sa_db_path :: "string option"
  sa_port :: "nat option"
  sa_jwt_secret :: "string option"
  sa_key_passphrase :: "string option"
  sa_plc_url :: "string option"
  sa_relay_url :: "string option"
  sa_appview_url :: "string option"
  sa_appview_did :: "string option"
  sa_open_registration :: bool
  sa_non_interactive :: bool

text \<open>\<open>a.or(b).unwrap_or(c)\<close>.\<close>

definition or_else :: "'a option \<Rightarrow> 'a option \<Rightarrow> 'a \<Rightarrow> 'a" where
  "or_else a b c = (case a of Some x \<Rightarrow> x | None \<Rightarrow> (case b of Some x \<Rightarrow> x | None \<Rightarrow> c))"

definition serve_mode :: "ServeArgs \<Rightarrow> PdsConfig \<Rightarrow> Mode" where
  "serve_mode args cfg = or_else (sa_mode args) (Option.bind (cfg_mode cfg) (\<lambda>m.
     if m = ''standalone'' then Some Standalone else if m = ''proxy'' then Some Proxy else None)) Proxy"

definition serve_acme :: "ServeArgs \<Rightarrow> PdsConfig \<Rightarrow> AcmeEnv" where
  "serve_acme args cfg = or_else (sa_acme args) (Option.bind (cfg_acme_env cfg) (\<lambda>m.
     if m = ''staging'' then Some Staging else if m = ''production'' then Some Production else None)) Production"

definition acme_directory_is_production :: "AcmeEnv \<Rightarrow> bool" where
  "acme_directory_is_production env = (env = Production)"

text \<open>
  The network as the binary's constructors build it: each client may fail to build and is then the program its method runs.
  \<open>nt_bindable\<close> is what \<open>can_bind_443\<close> finds.
\<close>

record 's net =
  nt_plc :: "string \<Rightarrow> string + 's PlcClient"
  nt_did_web :: "bool \<Rightarrow> string + (string \<Rightarrow> ('s world, CoreError + json) async)"
  nt_relay :: "string + (string \<Rightarrow> string \<Rightarrow> ('s world, XrpcError + unit) async)"
  nt_appview :: "string + (UpstreamRequest \<Rightarrow> ('s world, XrpcError + UpstreamResponse) async)"
  nt_service :: "string \<Rightarrow> string + (string \<Rightarrow> string \<Rightarrow> ('s world, XrpcError + string) async)"
  nt_client_resolver :: "ClientId \<Rightarrow> ('s world, OAuthError + ClientMetadata) async"
  nt_bindable :: bool
  nt_ip :: "string + ('s host, string + IpAddr) async"
  nt_dns :: "string + (string \<Rightarrow> ('s host, string + IpAddr list) async)"

definition serve_state :: "'x cli_prims_scheme \<Rightarrow> 's StorageBackend \<Rightarrow> 's net \<Rightarrow> ServeArgs \<Rightarrow> PdsConfig \<Rightarrow> string \<Rightarrow> string \<Rightarrow> bytes \<Rightarrow> bytes \<Rightarrow>
    ('s, 's AppState) cli" where
  "serve_state P B N args cfg hostname db_path jwt_secret key_passphrase =
     (let plc_url = or_else (sa_plc_url args) (cfg_plc_url cfg) ''https://plc.directory'';
          relay_url = or_else (sa_relay_url args) (cfg_relay_url cfg) ''https://bsky.network'';
          appview_url = or_else (sa_appview_url args) (cfg_appview_url cfg) ''https://api.bsky.app'';
          appview_did = or_else (sa_appview_did args) (cfg_appview_did cfg) ''did:web:api.bsky.app'';
          did_web_http_dev = or_else (cfg_did_web_http_dev cfg) None False;
          pds_endpoint = ''https://'' @ hostname in
      await_ok (open_store db_path) (\<lambda>_.
      try_ok (map_err ClientFailed (nt_plc N plc_url)) (\<lambda>plc.
      try_ok (map_err ClientFailed (nt_relay N)) (\<lambda>relay.
      try_ok (map_err ClientFailed (nt_appview N)) (\<lambda>appview.
      try_ok (map_err ClientFailed (nt_did_web N did_web_http_dev)) (\<lambda>resolver.
      await_or OAuthFailed (in_db db_path (OAuthState_bootstrap P B key_passphrase jwt_secret pds_endpoint (''did:web:'' @ hostname)
        (nt_client_resolver N))) (\<lambda>oauth.
      try_ok (map_err ClientFailed (nt_service N plc_url)) (\<lambda>service.
      Ready (Ok \<lparr>st_store = B, st_jwt_secret = jwt_secret, st_hostname = hostname, st_pds_endpoint = pds_endpoint,
        st_open_registration = sa_open_registration args, st_plc_client = plc, st_did_web_resolver = resolver,
        st_key_passphrase = key_passphrase, st_relay_client = relay, st_relay_url = relay_url, st_appview_client = appview,
        st_appview_url = appview_url, st_appview_did = appview_did, st_service_resolver = service, st_oauth = oauth\<rparr>)))))))))"

text \<open>
  \<open>Path::parent\<close> of the database, the current directory where it has none, and the directory for certificates.
\<close>

definition db_dir :: "string \<Rightarrow> string" where
  "db_dir db_path = (let t = trim_path db_path; dir = take (length t - length (takeWhile (\<lambda>c. c \<noteq> CHR ''/'') (rev t))) t in
     if dir = [] then ''.'' else if trim_path dir = [] then ''/'' else trim_path dir)"

definition acme_cache_dir :: "PdsConfig \<Rightarrow> string \<Rightarrow> string" where
  "acme_cache_dir cfg db_path = (case cfg_acme_cache_dir cfg of Some d \<Rightarrow> d | None \<Rightarrow> db_dir db_path @ ''/acme'')"

text \<open>
  What the command is about to serve: plain HTTP on a port, or TLS with certificates from a directory. It then announces itself to the relay
  in a task of its own, whose failure is printed only, and listens.
\<close>

datatype 's serving = PlainHttp nat "'s AppState" | TlsAcme string bool "'s AppState"

definition serve_run :: "'x cli_prims_scheme \<Rightarrow> 's StorageBackend \<Rightarrow> 's net \<Rightarrow> ServeArgs \<Rightarrow> string option \<Rightarrow> ('s, 's serving) cli" where
  "serve_run P B N args config =
     await_ok (case config of Some explicit \<Rightarrow> config_load P explicit
       | None \<Rightarrow> config_load_or_default P (resolve_config_path None)) (\<lambda>cfg.
     try_ok (ok_or NoHostname (case sa_hostname args of Some h \<Rightarrow> Some h | None \<Rightarrow> cfg_hostname cfg)) (\<lambda>hostname.
     abind is_terminal (\<lambda>tty.
     let allow_prompt = (tty \<and> \<not> sa_non_interactive args) in
     await_ok (resolve_jwt_secret P (sa_jwt_secret args) hostname allow_prompt) (\<lambda>jwt_secret.
     await_ok (resolve_key_passphrase (sa_key_passphrase args) hostname allow_prompt) (\<lambda>key_passphrase.
     let db_path = or_else (sa_db_path args) (cfg_db_path cfg) ''pds.db''; port = or_else (sa_port args) (cfg_port cfg) 3000 in
     await_ok (serve_state P B N args cfg hostname db_path jwt_secret key_passphrase) (\<lambda>state.
     case serve_mode args cfg of
       Proxy \<Rightarrow> Ready (Ok (PlainHttp port state))
     | Standalone \<Rightarrow>
         let prod = acme_directory_is_production (serve_acme args cfg) in
         if \<not> looks_like_public_hostname hostname then Ready (Err NotPublic)
         else try_ok (map_err ClientFailed (nt_dns N)) (\<lambda>resolve_a.
           abind (resolve_a hostname) (\<lambda>r. case r of Inl _ \<Rightarrow> Ready (Err NoDns) | Inr _ \<Rightarrow> Ready (Ok (TlsAcme (acme_cache_dir cfg db_path) prod state))))))))))"

subsection \<open>Probing the network (\<open>detect.rs\<close>, \<open>dns.rs\<close>)\<close>

datatype Recommendation = StandaloneTls | ReverseProxy | Tunnel

text \<open>The reason it gives along with its recommendation is narration.\<close>

definition detect_mode :: "bool \<Rightarrow> ('s host, string + IpAddr) async \<Rightarrow> ('s host, Recommendation) async" where
  "detect_mode bindable fetch_ip = (if \<not> bindable then Ready ReverseProxy
     else abind fetch_ip (\<lambda>r. Ready (case r of Inr _ \<Rightarrow> StandaloneTls | Inl _ \<Rightarrow> Tunnel)))"

datatype DnsCheck = Match | Mismatch "IpAddr list" IpAddr | LookupFailed string

definition check_a_record :: "(string \<Rightarrow> ('s host, string + IpAddr list) async) \<Rightarrow> string \<Rightarrow> IpAddr \<Rightarrow> ('s host, DnsCheck) async" where
  "check_a_record resolve_a hostname expected = abind (resolve_a hostname) (\<lambda>r. Ready (case r of
     Inr ips \<Rightarrow> if expected \<in> set ips then Match else Mismatch ips expected
   | Inl e \<Rightarrow> LookupFailed e))"

subsection \<open>The set-up wizard (\<open>cmd/init.rs\<close>)\<close>

datatype DidMethod = Plc | Web

record InitArgs =
  ia_hostname :: "string option"
  ia_did_method :: DidMethod
  ia_mode :: "Mode option"
  ia_db_path :: string
  ia_port :: "nat option"
  ia_relay_url :: string
  ia_plc_url :: string
  ia_acme :: "AcmeEnv option"
  ia_handle :: "string option"
  ia_jwt_secret :: "string option"
  ia_key_passphrase :: "string option"
  ia_password :: "string option"

definition resolve_password :: "string option \<Rightarrow> bool \<Rightarrow> ('s, string) cli" where
  "resolve_password explicit is_tty = abind (atomic (\<lambda>h. (case explicit of Some p \<Rightarrow> Some p | None \<Rightarrow> ho_admin_password h, h))) (\<lambda>found.
     case found of Some p \<Rightarrow> Ready (Ok p)
     | None \<Rightarrow> if \<not> is_tty then Ready (Err NeedsTerminal) else prompt_password)"

text \<open>The two menus: they ask again until the answer is one of theirs, and the end of the input takes the default.\<close>

fun choose_mode :: "Mode \<Rightarrow> string list \<Rightarrow> Mode \<times> string list" where
  "choose_mode rec [] = (rec, [])"
| "choose_mode rec (line # ls) = (let t = str_trim line in
     if t = [] then (rec, ls) else if t = ''1'' then (Standalone, ls) else if t = ''2'' then (Proxy, ls) else choose_mode rec ls)"

definition prompt_mode :: "Recommendation \<Rightarrow> ('s host, Mode) async" where
  "prompt_mode recommended = atomic (\<lambda>h.
     case choose_mode (if recommended = StandaloneTls then Standalone else Proxy) (ho_lines h) of (m, ls) \<Rightarrow> (m, h\<lparr>ho_lines := ls\<rparr>))"

fun choose_add :: "string list \<Rightarrow> bool \<times> string list" where
  "choose_add [] = (False, [])"
| "choose_add (line # ls) = (let t = to_ascii_lowercase (str_trim line) in
     if t \<in> {[], ''s'', ''skip'', ''n'', ''no''} then (False, ls)
     else if t \<in> {''a'', ''add'', ''y'', ''yes''} then (True, ls) else choose_add ls)"

definition prompt_add_or_skip :: "('s host, bool) async" where
  "prompt_add_or_skip = atomic (\<lambda>h. case choose_add (ho_lines h) of (b, ls) \<Rightarrow> (b, h\<lparr>ho_lines := ls\<rparr>))"

text \<open>The \<open>AppState\<close> both paths of the wizard build around the open store.\<close>

definition init_state :: "'x server_prims_scheme \<Rightarrow> 's StorageBackend \<Rightarrow> 's net \<Rightarrow> InitArgs \<Rightarrow> string \<Rightarrow> bytes \<Rightarrow> bytes \<Rightarrow> ('s, 's AppState) cli" where
  "init_state P B N args hostname passphrase jwt =
     try_ok (map_err ClientFailed (nt_plc N (ia_plc_url args))) (\<lambda>plc.
     try_ok (map_err ClientFailed (nt_did_web N False)) (\<lambda>resolver.
     try_ok (map_err ClientFailed (nt_relay N)) (\<lambda>relay.
     try_ok (map_err ClientFailed (nt_appview N)) (\<lambda>appview.
     await_or OAuthFailed (in_db (ia_db_path args) (OAuthState_bootstrap P B passphrase jwt (''https://'' @ hostname) (''did:web:'' @ hostname)
       (nt_client_resolver N))) (\<lambda>oauth.
     try_ok (map_err ClientFailed (nt_service N (ia_plc_url args))) (\<lambda>service.
     Ready (Ok \<lparr>st_store = B, st_jwt_secret = jwt, st_hostname = hostname, st_pds_endpoint = ''https://'' @ hostname,
       st_open_registration = False, st_plc_client = plc, st_did_web_resolver = resolver, st_key_passphrase = passphrase,
       st_relay_client = relay, st_relay_url = ia_relay_url args, st_appview_client = appview,
       st_appview_url = ''https://api.bsky.app'', st_appview_did = ''did:web:api.bsky.app'', st_service_resolver = service,
       st_oauth = oauth\<rparr>)))))))"

definition first_input :: "string \<Rightarrow> string \<Rightarrow> string option \<Rightarrow> CreateAccountInput" where
  "first_input handle password code = \<lparr>ca_handle = handle, ca_email = None, ca_password = Some password, ca_invite_code = code,
     ca_did = None, ca_recovery_key = None\<rparr>"

definition add_user :: "'x server_prims_scheme \<Rightarrow> 's StorageBackend \<Rightarrow> 's net \<Rightarrow> InitArgs \<Rightarrow> string \<Rightarrow> string \<Rightarrow> string \<Rightarrow> ('s, string) cli" where
  "add_user P B N args hostname handle probe_did =
     abind is_terminal (\<lambda>tty.
     await_ok (resolve_password (ia_password args) tty) (\<lambda>password.
     if length password < 8 then Ready (Err PasswordTooShort)
     else await_ok (case ia_key_passphrase args of Some p \<Rightarrow> Ready (Ok p) | None \<Rightarrow> prompt_password) (\<lambda>p.
     let passphrase = as_bytes p in
     await_or (\<lambda>_. PassphraseMismatch) (in_db (ia_db_path args) (load_key P (key_ops B) (probe_did @ ''#signing'') passphrase)) (\<lambda>_.
     abind (in_process (fill_bytes 32)) (\<lambda>jwt.
     await_ok (init_state P B N args hostname passphrase jwt) (\<lambda>state.
     abind (in_process (generate_invite_code P)) (\<lambda>code.
     await_or StoreFailed (in_db (ia_db_path args) (db (insert_invite (account_ops B) code 1 ''admin''))) (\<lambda>_.
     await_or CreateFailed (in_db (ia_db_path args) (create_account_inner P state (first_input handle password (Some code)))) (\<lambda>resp.
     Ready (Ok (car_did resp)))))))))))"

record WizardOpts =
  wo_hostname :: string
  wo_did_method :: DidMethod
  wo_handle :: string
  wo_password :: string
  wo_key_passphrase :: bytes
  wo_mode_override :: "Mode option"
  wo_relay_url :: string
  wo_db_path :: string
  wo_port :: nat
  wo_acme_env :: "string option"
  wo_config_path :: string

text \<open>Without the elapsed seconds, which are printed only.\<close>

record WizardOutcome =
  wz_did :: string
  wz_dns_check :: DnsCheck
  wz_mode_recommendation :: Recommendation
  wz_did_method :: string

definition run_wizard :: "'x cli_prims_scheme \<Rightarrow> 's AppState \<Rightarrow> WizardOpts \<Rightarrow> bool \<Rightarrow> ('s host, string + IpAddr) async \<Rightarrow>
    (string \<Rightarrow> ('s host, string + IpAddr list) async) \<Rightarrow> (string \<Rightarrow> string \<Rightarrow> ('s world, XrpcError + unit) async) \<Rightarrow> ('s, WizardOutcome) cli" where
  "run_wizard P state opts bindable fetch_ip resolve_a relay =
     abind (case wo_mode_override opts of Some Standalone \<Rightarrow> Ready StandaloneTls | Some Proxy \<Rightarrow> Ready ReverseProxy
       | None \<Rightarrow> detect_mode bindable fetch_ip) (\<lambda>recommendation.
     let mode_str = (case recommendation of StandaloneTls \<Rightarrow> ''standalone'' | ReverseProxy \<Rightarrow> ''proxy'' | Tunnel \<Rightarrow> ''tunnel'') in
     abind fetch_ip (\<lambda>ip.
     abind (check_a_record resolve_a (wo_hostname opts) (case ip of Inr a \<Rightarrow> a | Inl _ \<Rightarrow> V4 0 0 0 0)) (\<lambda>dns_check.
     let did_method = (case wo_did_method opts of Plc \<Rightarrow> ''plc'' | Web \<Rightarrow> ''web'') in
     await_or CreateFailed (in_db (wo_db_path opts) (create_account_inner P state (first_input (wo_handle opts) (wo_password opts) None))) (\<lambda>resp.
     abind (in_db (wo_db_path opts) (relay (wo_relay_url opts) (wo_hostname opts))) (\<lambda>_.
     await_ok (config_save P (PdsConfig_default\<lparr>cfg_hostname := Some (wo_hostname opts), cfg_mode := Some mode_str,
       cfg_did_method := Some did_method, cfg_db_path := Some (wo_db_path opts), cfg_port := Some (wo_port opts),
       cfg_acme_env := wo_acme_env opts\<rparr>) (wo_config_path opts)) (\<lambda>_.
     Ready (Ok \<lparr>wz_did = car_did resp, wz_dns_check = dns_check, wz_mode_recommendation = recommendation, wz_did_method = did_method\<rparr>)))))))"

definition init_hostname :: "'x cli_prims_scheme \<Rightarrow> InitArgs \<Rightarrow> string option \<Rightarrow> ('s, string) cli" where
  "init_hostname P args config = (case ia_hostname args of Some h \<Rightarrow> Ready (Ok h)
   | None \<Rightarrow> await_ok (config_load_or_default P (resolve_config_path config)) (\<lambda>cfg.
       abind read_line (\<lambda>line. let entered = str_trim line in
       Ready (if entered \<noteq> [] then Ok entered else ok_or NoHostname (cfg_hostname cfg)))))"

definition init_handle :: "InitArgs \<Rightarrow> string \<Rightarrow> ('s host, string) async" where
  "init_handle args hostname = (case ia_handle args of Some h \<Rightarrow> Ready h
   | None \<Rightarrow> abind read_line (\<lambda>line. let entered = str_trim line in Ready (if entered = [] then hostname else entered)))"

text \<open>\<open>str::parse::<u16>\<close>.\<close>

definition parse_u16 :: "string \<Rightarrow> nat option" where
  "parse_u16 s = (case parse_i64 s of Some n \<Rightarrow> if 0 \<le> n \<and> n < 65536 \<and> \<not> starts_with s ''-'' then Some (nat n) else None | None \<Rightarrow> None)"

definition init_port :: "InitArgs \<Rightarrow> ('s, nat) cli" where
  "init_port args = (case ia_port args of Some p \<Rightarrow> Ready (Ok p)
   | None \<Rightarrow> abind read_line (\<lambda>line. let entered = str_trim line in
       Ready (if entered = [] then Ok 3000 else ok_or BadPort (parse_u16 entered))))"

datatype init_report = NoChanges | AccountAdded string | SetUp WizardOutcome

definition init_fresh :: "'x cli_prims_scheme \<Rightarrow> 's StorageBackend \<Rightarrow> 's net \<Rightarrow> InitArgs \<Rightarrow> string option \<Rightarrow> string \<Rightarrow> string \<Rightarrow> ('s, init_report) cli" where
  "init_fresh P B N args config hostname handle =
     await_ok (init_port args) (\<lambda>port.
     try_ok (map_err ClientFailed (nt_ip N)) (\<lambda>fetch_ip.
     abind is_terminal (\<lambda>tty.
     abind (case ia_mode args of Some m \<Rightarrow> Ready (Some m)
       | None \<Rightarrow> if tty then abind (detect_mode (nt_bindable N) fetch_ip) (\<lambda>rec. abind (prompt_mode rec) (\<lambda>m. Ready (Some m)))
           else Ready None) (\<lambda>mode_override.
     await_ok (resolve_password (ia_password args) tty) (\<lambda>password.
     abind (case ia_jwt_secret args of Some s \<Rightarrow> Ready s
       | None \<Rightarrow> abind (in_process (fill_bytes 32)) (\<lambda>b. let encoded = b64url_encode P b in
           abind (show_line (''PDS_JWT_SECRET='' @ encoded)) (\<lambda>_. Ready encoded))) (\<lambda>jwt.
     await_ok (case ia_key_passphrase args of Some p \<Rightarrow> Ready (Ok p) | None \<Rightarrow> prompt_password) (\<lambda>passphrase.
     await_ok (open_store (ia_db_path args)) (\<lambda>_.
     await_ok (init_state P B N args hostname (as_bytes passphrase) (as_bytes jwt)) (\<lambda>state.
     try_ok (map_err ClientFailed (nt_dns N)) (\<lambda>resolve_a.
     try_ok (map_err ClientFailed (nt_relay N)) (\<lambda>relay.
     let opts = \<lparr>wo_hostname = hostname, wo_did_method = ia_did_method args, wo_handle = handle, wo_password = password,
       wo_key_passphrase = as_bytes passphrase, wo_mode_override = mode_override, wo_relay_url = ia_relay_url args, wo_db_path = ia_db_path args, wo_port = port,
       wo_acme_env = map_option (\<lambda>a. case a of Production \<Rightarrow> ''production'' | Staging \<Rightarrow> ''staging'') (ia_acme args),
       wo_config_path = resolve_config_path config\<rparr> in
     await_ok (run_wizard P state opts (nt_bindable N) fetch_ip resolve_a relay) (\<lambda>outcome.
     abind (await_ok (keychain_set hostname JWT_SECRET jwt) (\<lambda>_. keychain_set hostname KEY_PASSPHRASE passphrase)) (\<lambda>_.
     Ready (Ok (SetUp outcome)))))))))))))))"

definition init_run :: "'x cli_prims_scheme \<Rightarrow> 's StorageBackend \<Rightarrow> 's net \<Rightarrow> InitArgs \<Rightarrow> string option \<Rightarrow> ('s, init_report) cli" where
  "init_run P B N args config =
     await_ok (init_hostname P args config) (\<lambda>hostname.
     abind (init_handle args hostname) (\<lambda>handle.
     if handle \<noteq> hostname \<and> \<not> ends_with handle (''.'' @ hostname) then Ready (Err ForeignHandle)
     else await_ok (open_store (ia_db_path args)) (\<lambda>_.
     await_or StoreFailed (in_db (ia_db_path args) (db (list_accounts (account_ops B)))) (\<lambda>accounts. case accounts of
       [] \<Rightarrow> init_fresh P B N args config hostname handle
     | first # _ \<Rightarrow>
         abind is_terminal (\<lambda>tty.
         if \<not> tty then Ready (Err AlreadySetUp)
         else abind prompt_add_or_skip (\<lambda>add.
         if \<not> add then Ready (Ok NoChanges)
         else if list_ex (\<lambda>a. sum_handle a = Some handle) accounts then Ready (Err HandleExists)
         else await_ok (add_user P B N args hostname handle (sum_did first)) (\<lambda>did. Ready (Ok (AccountAdded did)))))))))"

end
