(* ===== verification/Operator_Laws.thy ===== *)
theory Operator_Laws
  imports Operator_Commands
begin

text \<open>
  What the operator's commands do: keys carried to another host load there, an account added to a running server shares its passphrase, and
  a password reset decides who can sign in.
\<close>

subsection \<open>Running on a host\<close>

lemma at_store_sel [simp]: "w_store (at_store w s) = s" "w_clock (at_store w s) = w_clock w"
  by (simp_all add: at_store_def)

lemma at_store_twice [simp]: "at_store (at_store w s) t = at_store w t"
  by (simp add: at_store_def)

lemma at_store_own [simp]: "at_store w (w_store w) = w"
  by (simp add: at_store_def)

lemma at_store_upd [simp]: "at_store (w\<lparr>w_store := x\<rparr>) t = at_store w t" "(at_store w s)\<lparr>w_store := x\<rparr> = at_store w x"
  by (simp_all add: at_store_def)

lemma at_store_unit [simp]: "at_store w () = (w :: unit world)"
  by (simp add: at_store_def)

lemma same_process [simp]: "h\<lparr>ho_process := ho_process h, ho_dbs := d\<rparr> = h\<lparr>ho_dbs := d\<rparr>"
  by (cases h) simp

abbreviation db_world :: "string \<Rightarrow> 's host \<Rightarrow> 's world" where
  "db_world path h \<equiv> at_store (ho_process h) (ho_dbs h path)"

lemma run_in_db [async_simps]:
  "run (in_db path p) h = (case run p (db_world path h) of (a, w) \<Rightarrow>
     (a, h\<lparr>ho_process := at_store w (), ho_dbs := (ho_dbs h)(path := w_store w)\<rparr>))"
  unfolding in_db_def by (rule run_lift_async) simp_all

lemma run_in_process [async_simps]:
  "run (in_process p) h = (case run p (ho_process h) of (a, w) \<Rightarrow> (a, h\<lparr>ho_process := w\<rparr>))"
  unfolding in_process_def by (rule run_lift_async) simp_all

lemma run_await_or [async_simps]:
  "run (await_or f p k) s = (case run p s of (Inl e, s') \<Rightarrow> (Inl (f e), s') | (Inr a, s') \<Rightarrow> run (k a) s')"
  by (auto simp: await_or_def async_simps split: prod.splits sum.splits)

lemma run_with_fate [async_simps]:
  "run (with_fate f) h = f (ho_fates h (ho_ios h)) (h\<lparr>ho_ios := Suc (ho_ios h)\<rparr>)"
  by (simp add: with_fate_def async_simps)

lemma await_or_run_Ok:
  assumes "run (await_or f p k) s = (Inr b, s'')"
  obtains a s' where "run p s = (Inr a, s')" "run (k a) s' = (Inr b, s'')"
  using assms by (auto simp: run_await_or split: prod.splits sum.splits)

lemma await_ok_Ok: "run p s = (Inr a, s') \<Longrightarrow> run (await_ok p k) s = run (k a) s'"
  by (simp add: async_simps)

lemma await_or_Ok: "run p s = (Inr a, s') \<Longrightarrow> run (await_or f p k) s = run (k a) s'"
  by (simp add: async_simps)

lemma in_db_run:
  assumes "run (in_db path p) h = (a, h')"
  obtains w where "run p (db_world path h) = (a, w)" "db_world path h' = w" "ho_answers h' = ho_answers h"
  using assms by (auto simp: run_in_db split: prod.splits)

lemma run_db_at:
  "run (db op) (db_world path h) = (a, w) \<longleftrightarrow> (\<exists>s'. op (ho_dbs h path) = (a, s') \<and> w = at_store (ho_process h) s')"
  by (auto simp: async_simps at_store_def split: prod.splits)

subsection \<open>Key files\<close>

definition export_blob :: "string \<Rightarrow> bytes \<Rightarrow> bytes" where
  "export_blob i c = u32_le_bytes (length (as_bytes i)) @ as_bytes i @ u32_le_bytes (length c) @ c"

context key_store
begin

lemma get_key:
  assumes "good s" "up s"
  shows "\<exists>s'. get_key_blob K i s = (Ok (v_keys (\<alpha> s) i), s') \<and> good s' \<and> up s' \<and> \<alpha> s' = \<alpha> s"
proof -
  obtain r s' where g: "get_key_blob K i s = (r, s')" by (cases "get_key_blob K i s")
  from meets_up [OF get_key_blob assms g] g show ?thesis by (cases r) (auto simp: spec_get_key_blob_def)
qed

lemma put_key:
  assumes "good s" "up s"
  shows "\<exists>s'. put_key_blob K i c s = (Ok (), s') \<and> good s' \<and> up s' \<and> \<alpha> s' = (\<alpha> s)\<lparr>v_keys := (v_keys (\<alpha> s))(i \<mapsto> c)\<rparr>"
proof -
  obtain r s' where g: "put_key_blob K i c s = (r, s')" by (cases "put_key_blob K i c s")
  from meets_up [OF put_key_blob assms g] g show ?thesis by (cases r) (auto simp: spec_put_key_blob_def)
qed

lemma load_key_at:
  assumes "good (ho_dbs h path)" "up (ho_dbs h path)"
  shows "fst (run (in_db path (load_key P K i pass)) h) = (case v_keys (\<alpha> (ho_dbs h path)) i of
     None \<Rightarrow> Err (Crypto ''key not found'') | Some c \<Rightarrow> decrypt_key P c pass)"
  using get_key [OF assms, of i] by (auto simp: load_key_def async_simps split: option.splits)

lemma export_key_at:
  assumes "good (ho_dbs h path)" "up (ho_dbs h path)" "v_keys (\<alpha> (ho_dbs h path)) i = Some c" "decrypt_key P c pass = Ok m"
  shows "\<exists>s'. run (in_db path (export_keys P K i pass)) h = (Ok (export_blob i c), h\<lparr>ho_dbs := (ho_dbs h)(path := s')\<rparr>) \<and>
    good s' \<and> up s' \<and> \<alpha> s' = \<alpha> (ho_dbs h path)"
  using get_key [OF assms(1,2), of i] assms(3,4)
  by (auto simp: export_keys_def async_simps Let_def export_blob_def)

lemma import_key_at:
  assumes "good (ho_dbs h path)" "up (ho_dbs h path)" "length i0 < 2 ^ 32" "length c < 2 ^ 32" "decrypt_key P c pass = Ok m"
  shows "\<exists>s'. run (in_db path (import_keys 64 P K i (export_blob i0 c) pass)) h = (Some (Ok ()), h\<lparr>ho_dbs := (ho_dbs h)(path := s')\<rparr>) \<and>
    good s' \<and> up s' \<and> \<alpha> s' = (\<alpha> (ho_dbs h path))\<lparr>v_keys := (v_keys (\<alpha> (ho_dbs h path)))(i \<mapsto> c)\<rparr>"
proof -
  have "parse_export 64 (export_blob i0 c) = Some (Ok c)"
    using parse_export_roundtrip [of "as_bytes i0" c] assms(3,4) by (simp add: export_blob_def)
  then show ?thesis using put_key [OF assms(1,2), of i c] assms(5)
    by (auto simp: import_keys_def async_simps)
qed

end

text \<open>
  What a host needs for moving keys: nothing fails, the passphrase is typed when asked, and the store meets the contract of key stores.
\<close>

definition ready_host :: "'s StorageBackend \<Rightarrow> ('s \<Rightarrow> bool) \<Rightarrow> ('s \<Rightarrow> bool) \<Rightarrow> ('s \<Rightarrow> view) \<Rightarrow> string \<Rightarrow> string \<Rightarrow> 's host \<Rightarrow> bool" where
  "ready_host B good up \<alpha> path pass h = (key_store (key_ops B) good up \<alpha> \<and> good (ho_dbs h path) \<and> up (ho_dbs h path) \<and>
     (\<forall>i. ho_fates h i = Done) \<and> (\<exists>rest. ho_answers h = Some pass # rest))"

definition holds_keys :: "prims \<Rightarrow> view \<Rightarrow> string \<Rightarrow> string \<Rightarrow> bytes \<Rightarrow> bytes \<Rightarrow> bool" where
  "holds_keys P v did pass c1 c2 = (v_keys v (did @ ''#signing'') = Some c1 \<and> v_keys v (did @ ''#rotation'') = Some c2 \<and>
     (\<exists>m. decrypt_key P c1 (as_bytes pass) = Ok m) \<and> (\<exists>m. decrypt_key P c2 (as_bytes pass) = Ok m))"

text \<open>A step that leaves the databases and the fates as they are.\<close>

definition steps_to :: "('s, 'a) cli \<Rightarrow> 's host \<Rightarrow> 'a \<Rightarrow> 's host \<Rightarrow> bool" where
  "steps_to p h a h' = (run p h = (Ok a, h') \<and> ho_dbs h' = ho_dbs h \<and> ho_fates h' = ho_fates h)"

lemma prompt_step:
  assumes "ho_answers h = Some a # rest"
  obtains h' where "steps_to prompt_password h a h'" "ho_files h' = ho_files h" "ho_modes h' = ho_modes h"
  using that [of "h\<lparr>ho_answers := rest\<rparr>"] assms by (simp add: steps_to_def prompt_password_def async_simps)

lemma open_step:
  assumes "\<forall>i. ho_fates h i = Done"
  obtains h' where "steps_to (open_store path) h () h'" "ho_files h' = ho_files h" "ho_modes h' = ho_modes h"
  using that [of "h\<lparr>ho_ios := Suc (ho_ios h), ho_db_files := List.insert path (ho_db_files h)\<rparr>"] assms
  by (simp add: steps_to_def open_store_def async_simps)

lemma write_step:
  assumes "\<forall>i. ho_fates h i = Done"
  obtains h' where "steps_to (write_private path data) h () h'" "ho_files h' = hm_insert path data (ho_files h)"
    "ho_modes h' = hm_insert path 384 (ho_modes h)"
  using that [of "h\<lparr>ho_ios := Suc (Suc (ho_ios h)), ho_files := hm_insert path data (ho_files h), ho_modes := hm_insert path 384 (ho_modes h)\<rparr>"] assms
  by (simp add: steps_to_def write_private_def fs_write_def set_permissions_def async_simps hm_contains_key_def hm_get_insert)

lemma read_step:
  assumes "\<forall>i. ho_fates h i = Done" "hm_get (ho_files h) path = Some data"
  obtains h' where "steps_to (fs_read path) h data h'" "ho_files h' = ho_files h"
  using that [of "h\<lparr>ho_ios := Suc (ho_ios h)\<rparr>"] assms
  by (simp add: steps_to_def fs_read_def async_simps)

lemma run_export_keys_run:
  assumes ready: "ready_host B good up \<alpha> (ek_db_path args) pass h"
    and keys: "holds_keys P (\<alpha> (ho_dbs h (ek_db_path args))) (ek_did args) pass c1 c2"
  shows "\<exists>h'. run (export_keys_run P B args) h = (Ok (), h') \<and>
    ho_files h' = hm_insert (set_extension ''rotation'' (ek_output args)) (export_blob (ek_did args @ ''#rotation'') c2)
      (hm_insert (ek_output args) (export_blob (ek_did args @ ''#signing'') c1) (ho_files h)) \<and>
    ho_modes h' = hm_insert (set_extension ''rotation'' (ek_output args)) 384 (hm_insert (ek_output args) 384 (ho_modes h))"
proof -
  let ?db = "ek_db_path args"
  from ready have ks: "key_store (key_ops B) good up \<alpha>" and up: "good (ho_dbs h ?db)" "up (ho_dbs h ?db)"
    and fates: "\<forall>i. ho_fates h i = Done" by (auto simp: ready_host_def)
  from ready obtain rest where "ho_answers h = Some pass # rest" by (auto simp: ready_host_def)
  then obtain h1 where h1: "steps_to prompt_password h pass h1" "ho_files h1 = ho_files h" "ho_modes h1 = ho_modes h" by (rule prompt_step)
  with fates have "\<forall>i. ho_fates h1 i = Done" by (simp add: steps_to_def)
  then obtain h2 where h2: "steps_to (open_store ?db) h1 () h2" "ho_files h2 = ho_files h1" "ho_modes h2 = ho_modes h1" by (rule open_step)
  from keys obtain m1 m2 where m: "decrypt_key P c1 (as_bytes pass) = Ok m1" "decrypt_key P c2 (as_bytes pass) = Ok m2"
    by (auto simp: holds_keys_def)
  from h1 h2 have d2: "ho_dbs h2 = ho_dbs h" "\<forall>i. ho_fates h2 i = Done" using fates by (auto simp: steps_to_def)
  from key_store.export_key_at [OF ks, of h2 ?db "ek_did args @ ''#signing''" c1 P "as_bytes pass" m1] up keys m d2
  obtain s3 where e3: "run (in_db ?db (export_keys P (key_ops B) (ek_did args @ ''#signing'') (as_bytes pass))) h2 =
      (Ok (export_blob (ek_did args @ ''#signing'') c1), h2\<lparr>ho_dbs := (ho_dbs h2)(?db := s3)\<rparr>)"
    and s3: "good s3" "up s3" "\<alpha> s3 = \<alpha> (ho_dbs h ?db)"
    by (auto simp: holds_keys_def)
  let ?h3 = "h2\<lparr>ho_dbs := (ho_dbs h2)(?db := s3)\<rparr>"
  from d2 have "\<forall>i. ho_fates ?h3 i = Done" by simp
  then obtain h4 where h4: "steps_to (write_private (ek_output args) (export_blob (ek_did args @ ''#signing'') c1)) ?h3 () h4"
    "ho_files h4 = hm_insert (ek_output args) (export_blob (ek_did args @ ''#signing'') c1) (ho_files ?h3)"
    "ho_modes h4 = hm_insert (ek_output args) 384 (ho_modes ?h3)" by (rule write_step)
  from key_store.export_key_at [OF ks, of h4 ?db "ek_did args @ ''#rotation''" c2 P "as_bytes pass" m2] s3 keys m h4
  obtain s5 where e5: "run (in_db ?db (export_keys P (key_ops B) (ek_did args @ ''#rotation'') (as_bytes pass))) h4 =
      (Ok (export_blob (ek_did args @ ''#rotation'') c2), h4\<lparr>ho_dbs := (ho_dbs h4)(?db := s5)\<rparr>)"
    by (auto simp: holds_keys_def steps_to_def)
  let ?h5 = "h4\<lparr>ho_dbs := (ho_dbs h4)(?db := s5)\<rparr>" and ?rot = "set_extension ''rotation'' (ek_output args)"
  from h4 d2 have "\<forall>i. ho_fates ?h5 i = Done" by (simp add: steps_to_def)
  then obtain h6 where h6: "steps_to (write_private ?rot (export_blob (ek_did args @ ''#rotation'') c2)) ?h5 () h6"
    "ho_files h6 = hm_insert ?rot (export_blob (ek_did args @ ''#rotation'') c2) (ho_files ?h5)"
    "ho_modes h6 = hm_insert ?rot 384 (ho_modes ?h5)" by (rule write_step)
  have "run (export_keys_run P B args) h = (Ok (), h6)"
    using h1 h2 e3 h4 e5 h6 by (simp add: export_keys_run_def steps_to_def await_ok_Ok await_or_Ok)
  with h1 h2 h4 h6 show ?thesis by simp
qed

lemma slot_step:
  assumes ks: "key_store (key_ops B) good up \<alpha>" and up: "good (ho_dbs h path)" "up (ho_dbs h path)"
    and c: "length i0 < 2 ^ 32" "length c < 2 ^ 32" "decrypt_key P c (as_bytes pass) = Ok m"
  obtains h' where "run (import_slot P B path i (export_blob i0 c) pass) h = (Ok (), h')" "good (ho_dbs h' path)" "up (ho_dbs h' path)"
    "v_keys (\<alpha> (ho_dbs h' path)) = (v_keys (\<alpha> (ho_dbs h path)))(i \<mapsto> c)" "ho_fates h' = ho_fates h" "ho_files h' = ho_files h"
proof -
  from key_store.import_key_at [OF ks up c, of i] obtain s where
    "run (in_db path (import_keys 64 P (key_ops B) i (export_blob i0 c) (as_bytes pass))) h = (Some (Ok ()), h\<lparr>ho_dbs := (ho_dbs h)(path := s)\<rparr>)"
    "good s" "up s" "\<alpha> s = (\<alpha> (ho_dbs h path))\<lparr>v_keys := (v_keys (\<alpha> (ho_dbs h path)))(i \<mapsto> c)\<rparr>" by blast
  then show thesis by (intro that [of "h\<lparr>ho_dbs := (ho_dbs h)(path := s)\<rparr>"]) (simp_all add: import_slot_def async_simps del: run_in_db)
qed

lemma run_import_keys_run:
  assumes ready: "ready_host B good up \<alpha> (ik_db_path args) pass h"
    and files: "hm_get (ho_files h) (ik_input args) = Some (export_blob i1 c1)"
      "hm_get (ho_files h) (set_extension ''rotation'' (ik_input args)) = Some (export_blob i2 c2)"
    and c: "length i1 < 2 ^ 32" "length c1 < 2 ^ 32" "decrypt_key P c1 (as_bytes pass) = Ok m1"
      "length i2 < 2 ^ 32" "length c2 < 2 ^ 32" "decrypt_key P c2 (as_bytes pass) = Ok m2"
  shows "\<exists>h'. run (import_keys_run P B args) h = (Ok (), h') \<and> good (ho_dbs h' (ik_db_path args)) \<and> up (ho_dbs h' (ik_db_path args)) \<and>
    v_keys (\<alpha> (ho_dbs h' (ik_db_path args))) = (v_keys (\<alpha> (ho_dbs h (ik_db_path args))))
      (ik_did args @ ''#signing'' \<mapsto> c1, ik_did args @ ''#rotation'' \<mapsto> c2)"
proof -
  let ?db = "ik_db_path args" and ?rot = "set_extension ''rotation'' (ik_input args)"
  from ready have ks: "key_store (key_ops B) good up \<alpha>" and up: "good (ho_dbs h ?db)" "up (ho_dbs h ?db)"
    and fates: "\<forall>i. ho_fates h i = Done" by (auto simp: ready_host_def)
  from ready obtain rest where "ho_answers h = Some pass # rest" by (auto simp: ready_host_def)
  then obtain h1 where h1: "steps_to prompt_password h pass h1" "ho_files h1 = ho_files h" by (rule prompt_step)
  with fates have "\<forall>i. ho_fates h1 i = Done" by (simp add: steps_to_def)
  then obtain h2 where h2: "steps_to (open_store ?db) h1 () h2" "ho_files h2 = ho_files h1" by (rule open_step)
  from h1 h2 files fates have "\<forall>i. ho_fates h2 i = Done" "hm_get (ho_files h2) (ik_input args) = Some (export_blob i1 c1)"
    by (simp_all add: steps_to_def)
  then obtain h3 where h3: "steps_to (fs_read (ik_input args)) h2 (export_blob i1 c1) h3" "ho_files h3 = ho_files h2" by (rule read_step)
  from up h1 h2 h3 have "good (ho_dbs h3 ?db)" "up (ho_dbs h3 ?db)" by (simp_all add: steps_to_def)
  then obtain h4 where h4: "run (import_slot P B ?db (ik_did args @ ''#signing'') (export_blob i1 c1) pass) h3 = (Ok (), h4)"
    "good (ho_dbs h4 ?db)" "up (ho_dbs h4 ?db)" "ho_fates h4 = ho_fates h3" "ho_files h4 = ho_files h3"
    "v_keys (\<alpha> (ho_dbs h4 ?db)) = (v_keys (\<alpha> (ho_dbs h3 ?db)))(ik_did args @ ''#signing'' \<mapsto> c1)"
    using slot_step [OF ks _ _ c(1,2,3)] by metis
  from h1 h2 h3 h4 files fates have f4: "\<forall>i. ho_fates h4 i = Done" "hm_get (ho_files h4) ?rot = Some (export_blob i2 c2)"
    by (simp_all add: steps_to_def)
  then obtain h5 where h5: "steps_to (fs_read ?rot) h4 (export_blob i2 c2) h5" by (rule read_step)
  with h4 have "good (ho_dbs h5 ?db)" "up (ho_dbs h5 ?db)" by (simp_all add: steps_to_def)
  then obtain h6 where h6: "run (import_slot P B ?db (ik_did args @ ''#rotation'') (export_blob i2 c2) pass) h5 = (Ok (), h6)"
    "good (ho_dbs h6 ?db)" "up (ho_dbs h6 ?db)"
    "v_keys (\<alpha> (ho_dbs h6 ?db)) = (v_keys (\<alpha> (ho_dbs h5 ?db)))(ik_did args @ ''#rotation'' \<mapsto> c2)"
    using slot_step [OF ks _ _ c(4,5,6)] by metis
  have "run (import_keys_run P B args) h = (Ok (), h6)"
    using h1 h2 h3 h4(1) h5 h6(1) f4(2)
    by (simp add: import_keys_run_def steps_to_def await_ok_Ok Let_def path_exists_def run_abind run_atomic hm_contains_key_def)
  with h1 h2 h3 h4 h5 h6 show ?thesis by (auto simp: steps_to_def)
qed


text \<open>When the output is itself called \<open>.rotation\<close> the second file is written over the first.\<close>

lemma rotation_overwrites_signing:
  "set_extension ''rotation'' ''alice.rotation'' = ''alice.rotation''"
  by code_simp

lemma port_zero_parses: "parse_u16 ''0'' = Some 0"
  by code_simp

subsection \<open>Adding an account\<close>

text \<open>The clients account creation calls leave the store and the clock alone.\<close>

definition quiet_net :: "'s net \<Rightarrow> bool" where
  "quiet_net N = ((\<forall>url plc d op. nt_plc N url = Ok plc \<longrightarrow> quiet (plc d op)) \<and> (\<forall>dw d. nt_did_web N False = Ok dw \<longrightarrow> quiet (dw d)))"

text \<open>Which errors a program can end in.\<close>

definition fails_in :: "('e \<Rightarrow> bool) \<Rightarrow> ('s, 'e + 'a) async \<Rightarrow> bool" where
  "fails_in Q p = (\<forall>s e s'. run p s = (Inl e, s') \<longrightarrow> Q e)"

lemma fails_in_intros:
  "fails_in Q (Ready (Inr b))"
  "(\<And>a. fails_in Q (k a)) \<Longrightarrow> fails_in Q (abind p k)"
  "(\<And>e. Q (f e)) \<Longrightarrow> (\<And>c. fails_in Q (l c)) \<Longrightarrow> fails_in Q (await_or f q l)"
  "fails_in Q r \<Longrightarrow> (\<And>d. fails_in Q (m d)) \<Longrightarrow> fails_in Q (await_ok r m)"
  "(\<And>e. Q (g e)) \<Longrightarrow> (\<And>d. fails_in Q (n d)) \<Longrightarrow> fails_in Q (try_ok (map_err g x) n)"
  by (auto simp: fails_in_def async_simps map_err_def split: prod.splits sum.splits)

lemma fails_init_state: "fails_in (\<lambda>e. \<exists>a b. e = ClientFailed a \<or> e = OAuthFailed b) (init_state P B N args hostname pass jwt)"
  unfolding init_state_def by (intro fails_in_intros) auto

lemma fails_inD: "fails_in Q p \<Longrightarrow> run p s = (Inl e, s') \<Longrightarrow> Q e"
  by (auto simp: fails_in_def)

lemma fails_weaken: "fails_in Q p \<Longrightarrow> (\<And>e. Q e \<Longrightarrow> R e) \<Longrightarrow> fails_in R p"
  by (auto simp: fails_in_def)

lemma await_or_cases:
  assumes "run (await_or f p k) s = (Inl e, s')"
  obtains x where "run p s = (Inl x, s')" "e = f x" | a s1 where "run p s = (Inr a, s1)" "run (k a) s1 = (Inl e, s')"
  using assms by (auto simp: run_await_or split: prod.splits sum.splits)

lemma await_ok_cases:
  assumes "run (await_ok p k) s = (Inl e, s')"
  obtains "run p s = (Inl e, s')" | a s1 where "run p s = (Inr a, s1)" "run (k a) s1 = (Inl e, s')"
  using assms by (auto simp: run_await_ok split: prod.splits sum.splits)

lemma prompts_keep_dbs:
  "run prompt_password h = (r, h') \<Longrightarrow> ho_dbs h' = ho_dbs h"
  "run (resolve_password x tty) h = (r, h') \<Longrightarrow> ho_dbs h' = ho_dbs h"
  "run (case y of Some p \<Rightarrow> Ready (Ok p) | None \<Rightarrow> prompt_password) h = (r, h') \<Longrightarrow> ho_dbs h' = ho_dbs h"
  by (auto simp: resolve_password_def prompt_password_def async_simps split: option.splits if_splits list.splits)

lemma fails_tail:
  "fails_in (\<lambda>e. e \<notin> {NeedsTerminal, PromptFailed, PasswordTooShort, PassphraseMismatch})
     (abind (in_process (fill_bytes 32)) (\<lambda>jwt. await_ok (init_state P B N args hostname pass jwt) (\<lambda>state.
      abind (in_process (generate_invite_code P)) (\<lambda>code.
      await_or StoreFailed (in_db path (db (insert_invite (account_ops B) code 1 ''admin''))) (\<lambda>_.
      await_or CreateFailed (in_db path (create_account_inner P state (first_input handle password (Some code)))) (\<lambda>resp.
      Ready (Ok (car_did resp))))))))"
  by (intro fails_in_intros fails_weaken [OF fails_init_state]) auto

context key_store
begin

lemma run_load_key_view:
  assumes "good (w_store w)" "run (load_key P K i pass) w = (r, w')"
  shows "good (w_store w') \<and> \<alpha> (w_store w') = \<alpha> (w_store w) \<and>
    (\<forall>m. r = Ok m \<longrightarrow> (\<exists>c. v_keys (\<alpha> (w_store w)) i = Some c \<and> decrypt_key P c pass = Ok m))"
proof -
  obtain x s where g: "get_key_blob K i (w_store w) = (x, s)" by (cases "get_key_blob K i (w_store w)")
  from meets_step [OF get_key_blob assms(1) g] assms(2) g show ?thesis
    by (cases x) (auto simp: load_key_def async_simps spec_get_key_blob_def split: option.splits)
qed

end

context storage_backend
begin

lemma run_bootstrap:
  assumes "aead_ok P" "good (w_store w)" "run (OAuthState_bootstrap P B pass jwt iss sd cr) w = (Ok os, w')"
  shows "good (w_store w') \<and> (\<exists>ks. \<alpha> (w_store w') = (\<alpha> (w_store w))\<lparr>v_keys := ks\<rparr> \<and>
    (\<forall>i. i \<noteq> AS_SIGNING_KEY_ID \<longrightarrow> ks i = v_keys (\<alpha> (w_store w)) i))"
proof -
  from assms(3) obtain key where key: "run (load_or_create_signing_key P B pass) w = (Ok key, w')"
    unfolding OAuthState_bootstrap_def by (elim await_ok_run_Ok) (auto simp: Let_def async_simps)
  obtain r w1 where l: "run (load_key P (key_ops B) AS_SIGNING_KEY_ID pass) w = (r, w1)"
    by (cases "run (load_key P (key_ops B) AS_SIGNING_KEY_ID pass) w")
  note v1 = key.run_load_key_view [OF assms(2) l]
  show ?thesis
  proof (cases r)
    case (Inr m)
    with key l have "w' = w1" by (simp add: load_or_create_signing_key_def async_simps)
    with v1 show ?thesis by (intro conjI exI [of _ "v_keys (\<alpha> (w_store w))"]) auto
  next
    case (Inl e)
    obtain k w2 where g: "run (SigningKey_generate P) w1 = (k, w2)" by (cases "run (SigningKey_generate P) w1")
    then have w2: "w_store w2 = w_store w1" by (auto simp: SigningKey_generate_def async_simps split: prod.splits)
    from Inl key l g have "run (store_key P (key_ops B) AS_SIGNING_KEY_ID (SigningKey_export k) pass) w2 = (Ok (), w')"
      by (auto simp: load_or_create_signing_key_def async_simps split: prod.splits sum.splits)
    from key.run_store_key [OF assms(1) _ this] v1 w2 obtain c where "good (w_store w')"
      "\<alpha> (w_store w') = (\<alpha> (w_store w))\<lparr>v_keys := (v_keys (\<alpha> (w_store w)))(AS_SIGNING_KEY_ID \<mapsto> c)\<rparr>" by metis
    then show ?thesis by (intro conjI exI [of _ "(v_keys (\<alpha> (w_store w)))(AS_SIGNING_KEY_ID \<mapsto> c)"]) auto
  qed
qed

lemma run_init_state:
  assumes "aead_ok P" "good (ho_dbs h (ia_db_path args))" "run (init_state P B N args hostname pass jwt) h = (Ok st, h')"
  shows "st_store st = B \<and> st_key_passphrase st = pass \<and> nt_plc N (ia_plc_url args) = Ok (st_plc_client st) \<and>
    nt_did_web N False = Ok (st_did_web_resolver st) \<and> good (ho_dbs h' (ia_db_path args)) \<and>
    (\<exists>ks. \<alpha> (ho_dbs h' (ia_db_path args)) = (\<alpha> (ho_dbs h (ia_db_path args)))\<lparr>v_keys := ks\<rparr> \<and>
      (\<forall>i. i \<noteq> AS_SIGNING_KEY_ID \<longrightarrow> ks i = v_keys (\<alpha> (ho_dbs h (ia_db_path args))) i))"
proof -
  let ?path = "ia_db_path args"
  from assms(3) obtain plc dw os h1 where c: "nt_plc N (ia_plc_url args) = Ok plc" "nt_did_web N False = Ok dw"
    and b: "run (in_db ?path (OAuthState_bootstrap P B pass jwt (''https://'' @ hostname) (''did:web:'' @ hostname) (nt_client_resolver N))) h = (Ok os, h1)"
    and st: "h' = h1" "st_store st = B" "st_key_passphrase st = pass" "st_plc_client st = plc" "st_did_web_resolver st = dw"
    unfolding init_state_def
    by (elim try_ok_run await_or_run_Ok) (auto simp: map_err_def async_simps split: sum.splits)
  from b obtain w where w: "run (OAuthState_bootstrap P B pass jwt (''https://'' @ hostname) (''did:web:'' @ hostname) (nt_client_resolver N)) (db_world ?path h) = (Ok os, w)"
    "db_world ?path h1 = w" by (rule in_db_run)
  from run_bootstrap [OF assms(1) _ w(1)] assms(2) w(2) c st show ?thesis by auto
qed

lemma quiet_netD: "quiet_net N \<Longrightarrow> nt_plc N url = Ok plc \<Longrightarrow> quiet (plc d op)" "quiet_net N \<Longrightarrow> nt_did_web N False = Ok dw \<Longrightarrow> quiet (dw d)"
  by (auto simp: quiet_net_def)

lemma first_input_sel [simp]: "ca_handle (first_input n pw code) = n" "ca_email (first_input n pw code) = None"
  by (simp_all add: first_input_def)

lemma run_create_at:
  assumes st: "st_store st = B" and good: "good (ho_dbs h path)" and aead: "aead_ok P"
    and quiet: "\<And>d op. quiet (st_plc_client st d op)" "\<And>d. quiet (st_did_web_resolver st d)"
    and run: "run (in_db path (create_account_inner P st (first_input handle password code))) h = (Ok resp, h')"
  obtains phc c1 c2 k1 k2 where "account_free (\<alpha> (ho_dbs h path)) (car_did resp) (to_ascii_lowercase handle)"
    "v_accounts (\<alpha> (ho_dbs h' path)) = (v_accounts (\<alpha> (ho_dbs h path)))
       (car_did resp \<mapsto> new_row (\<alpha> (ho_dbs h path)) (to_ascii_lowercase handle) None phc)"
    "v_keys (\<alpha> (ho_dbs h' path)) = (v_keys (\<alpha> (ho_dbs h path)))(car_did resp @ ''#signing'' \<mapsto> c1, car_did resp @ ''#rotation'' \<mapsto> c2)"
    "decrypt_key P c1 (st_key_passphrase st) = Ok k1" "decrypt_key P c2 (st_key_passphrase st) = Ok k2"
proof -
  from run obtain w where w: "run (create_account_inner P st (first_input handle password code)) (db_world path h) = (Ok resp, w)"
    "db_world path h' = w" by (rule in_db_run)
  have w': "w_store w = ho_dbs h' path" using w(2) by auto
  have "good (w_store (db_world path h))" using good by simp
  note ca = run_create_account [OF st this aead quiet w(1), unfolded Let_def first_input_sel at_store_sel w']
  note free = conjunct1 [OF conjunct2 [OF conjunct2 [OF conjunct2 [OF ca]]]]
  from conjunct2 [OF conjunct2 [OF conjunct2 [OF conjunct2 [OF conjunct2 [OF ca]]]]] show thesis
    by (elim exE conjE) (rule that [OF free])
qed

lemma add_user_run:
  assumes "run (add_user P B' N args hostname handle probe) h = (Ok did, h')"
  obtains p h3 k0 h4 jwt h5 st h6 code h7 h8 password resp where "ho_dbs h3 = ho_dbs h"
    "run (in_db (ia_db_path args) (load_key P (key_ops B') (probe @ ''#signing'') (as_bytes p))) h3 = (Ok k0, h4)"
    "run (in_process (fill_bytes 32)) h4 = (jwt, h5)" "run (init_state P B' N args hostname (as_bytes p) jwt) h5 = (Ok st, h6)"
    "run (in_process (generate_invite_code P)) h6 = (code, h7)"
    "run (in_db (ia_db_path args) (db (insert_invite (account_ops B') code 1 ''admin''))) h7 = (Ok (), h8)"
    "run (in_db (ia_db_path args) (create_account_inner P st (first_input handle password (Some code)))) h8 = (Ok resp, h')"
    "did = car_did resp"
proof -
  from assms obtain tty h1 password h2 p h3 k0 h4 jwt h5 st h6 code h7 h8 resp where
    s1: "run is_terminal h = (tty, h1)" and s2: "run (resolve_password (ia_password args) tty) h1 = (Ok password, h2)"
    and s3: "run (case ia_key_passphrase args of Some p \<Rightarrow> Ready (Ok p) | None \<Rightarrow> prompt_password) h2 = (Ok p, h3)"
    and rest: "run (in_db (ia_db_path args) (load_key P (key_ops B') (probe @ ''#signing'') (as_bytes p))) h3 = (Ok k0, h4)"
      "run (in_process (fill_bytes 32)) h4 = (jwt, h5)" "run (init_state P B' N args hostname (as_bytes p) jwt) h5 = (Ok st, h6)"
      "run (in_process (generate_invite_code P)) h6 = (code, h7)"
      "run (in_db (ia_db_path args) (db (insert_invite (account_ops B') code 1 ''admin''))) h7 = (Ok (), h8)"
      "run (in_db (ia_db_path args) (create_account_inner P st (first_input handle password (Some code)))) h8 = (Ok resp, h')"
      "did = car_did resp"
    unfolding add_user_def Let_def
    by (elim abind_run guard_run await_ok_run_Ok await_or_run_Ok) (auto simp: async_simps)
  have "ho_dbs h3 = ho_dbs h"
    using s1 s2 s3 by (auto simp: is_terminal_def resolve_password_def prompt_password_def async_simps split: option.splits if_splits list.splits)
  then show thesis using rest by (rule that)
qed

lemma run_add_user:
  assumes aead: "aead_ok P" and good: "good (ho_dbs h (ia_db_path args))"
    and quiet: "quiet_net N"
    and run: "run (add_user P B N args hostname handle probe) h = (Ok did, h')"
  shows "let v = \<alpha> (ho_dbs h (ia_db_path args)); v' = \<alpha> (ho_dbs h' (ia_db_path args)) in
    \<exists>pass c0 k0 c1 k1 c2 k2 row. v_keys v (probe @ ''#signing'') = Some c0 \<and> decrypt_key P c0 pass = Ok k0 \<and>
      account_free v did (to_ascii_lowercase handle) \<and> v_accounts v' = (v_accounts v)(did \<mapsto> row) \<and>
      row_handle row = Some (to_ascii_lowercase handle) \<and> active_row row \<and>
      v_keys v' (did @ ''#signing'') = Some c1 \<and> decrypt_key P c1 pass = Ok k1 \<and>
      v_keys v' (did @ ''#rotation'') = Some c2 \<and> decrypt_key P c2 pass = Ok k2 \<and>
      (\<forall>i. i \<notin> {did @ ''#signing'', did @ ''#rotation'', AS_SIGNING_KEY_ID} \<longrightarrow> v_keys v' i = v_keys v i)"
proof -
  let ?path = "ia_db_path args" and ?hn = "to_ascii_lowercase handle"
  let ?v = "\<alpha> (ho_dbs h ?path)"
  from run obtain p h3 k0 h4 jwt h5 st h6 code h7 h8 password resp where d2: "ho_dbs h3 = ho_dbs h"
    and s4: "run (in_db ?path (load_key P (key_ops B) (probe @ ''#signing'') (as_bytes p))) h3 = (Ok k0, h4)"
    and s5: "run (in_process (fill_bytes 32)) h4 = (jwt, h5)"
    and s6: "run (init_state P B N args hostname (as_bytes p) jwt) h5 = (Ok st, h6)"
    and s7: "run (in_process (generate_invite_code P)) h6 = (code, h7)"
    and s8: "run (in_db ?path (db (insert_invite (account_ops B) code 1 ''admin''))) h7 = (Ok (), h8)"
    and s9: "run (in_db ?path (create_account_inner P st (first_input handle password (Some code)))) h8 = (Ok resp, h')"
    and did: "did = car_did resp" by (rule add_user_run)
  from s4 obtain w4 where w4: "run (load_key P (key_ops B) (probe @ ''#signing'') (as_bytes p)) (db_world ?path h3) = (Ok k0, w4)"
    "db_world ?path h4 = w4" by (rule in_db_run)
  from key.run_load_key_view [OF _ w4(1)] good d2 w4(2) obtain c0 where
    v4: "good (ho_dbs h4 ?path)" "\<alpha> (ho_dbs h4 ?path) = ?v" and c0: "v_keys ?v (probe @ ''#signing'') = Some c0" "decrypt_key P c0 (as_bytes p) = Ok k0"
    by auto
  have d5: "ho_dbs h5 = ho_dbs h4" "ho_dbs h7 = ho_dbs h6" using s5 s7 by (auto simp: async_simps split: prod.splits)
  from run_init_state [OF aead _ s6] v4 d5 obtain ks where st: "st_store st = B" "st_key_passphrase st = as_bytes p"
    "nt_plc N (ia_plc_url args) = Ok (st_plc_client st)" "nt_did_web N False = Ok (st_did_web_resolver st)" "good (ho_dbs h6 ?path)"
    and ks: "\<alpha> (ho_dbs h6 ?path) = ?v\<lparr>v_keys := ks\<rparr>" "\<And>i. i \<noteq> AS_SIGNING_KEY_ID \<Longrightarrow> ks i = v_keys ?v i" by auto
  from s8 obtain s where ins: "insert_invite (account_ops B) code 1 ''admin'' (ho_dbs h7 ?path) = (Ok (), s)" "ho_dbs h8 ?path = s"
    by (auto simp: async_simps split: prod.splits)
  from st(5) d5 have "good (ho_dbs h7 ?path)" by simp
  from meets_Ok [OF account.insert_invite this ins(1)] ins(2) have good8: "good (ho_dbs h8 ?path)"
    and "spec_insert_invite code 1 (\<alpha> (ho_dbs h7 ?path)) (Ok ()) (\<alpha> (ho_dbs h8 ?path))" by simp_all
  then have v8: "v_accounts (\<alpha> (ho_dbs h8 ?path)) = v_accounts ?v" "v_keys (\<alpha> (ho_dbs h8 ?path)) = ks"
    using ks(1) d5 by (auto simp: spec_insert_invite_def split: option.splits dest!: sym [of _ "\<alpha> (ho_dbs h8 ?path)"])
  obtain phc c1 c2 k1 k2 where "account_free (\<alpha> (ho_dbs h8 ?path)) (car_did resp) ?hn"
    "v_accounts (\<alpha> (ho_dbs h' ?path)) = (v_accounts (\<alpha> (ho_dbs h8 ?path)))(car_did resp \<mapsto> new_row (\<alpha> (ho_dbs h8 ?path)) ?hn None phc)"
    "v_keys (\<alpha> (ho_dbs h' ?path)) = (v_keys (\<alpha> (ho_dbs h8 ?path)))(car_did resp @ ''#signing'' \<mapsto> c1, car_did resp @ ''#rotation'' \<mapsto> c2)"
    "decrypt_key P c1 (st_key_passphrase st) = Ok k1" "decrypt_key P c2 (st_key_passphrase st) = Ok k2"
    by (rule run_create_at [OF st(1) good8 aead quiet_netD(1) [OF quiet st(3)] quiet_netD(2) [OF quiet st(4)] s9])
  with v8 c0 ks(2) st(2) did show ?thesis unfolding Let_def
    by - (rule exI [of _ "as_bytes p"], rule exI [of _ c0], rule exI [of _ k0], rule exI [of _ c1], rule exI [of _ k1], rule exI [of _ c2],
        rule exI [of _ k2], rule exI [of _ "new_row (\<alpha> (ho_dbs h8 ?path)) ?hn None phc"],
        simp add: account_free_def handle_taken_def new_row_def active_row_def)
qed

lemma add_user_refused:
  assumes "good (ho_dbs h (ia_db_path args))" and run: "run (add_user P B N args hostname handle probe) h = (Err e, h')"
    and e: "e \<in> {NeedsTerminal, PromptFailed, PasswordTooShort, PassphraseMismatch}"
  shows "\<alpha> (ho_dbs h' (ia_db_path args)) = \<alpha> (ho_dbs h (ia_db_path args))"
proof -
  let ?path = "ia_db_path args"
  have load: "\<alpha> (ho_dbs h2 ?path) = \<alpha> (ho_dbs h ?path)" if "ho_dbs h1 = ho_dbs h"
    and l: "run (in_db ?path (load_key P (key_ops B) i pass)) h1 = (r, h2)" for h1 h2 i pass r
  proof -
    from l obtain w where "run (load_key P (key_ops B) i pass) (db_world ?path h1) = (r, w)" "db_world ?path h2 = w" by (rule in_db_run)
    with key.run_load_key_view [OF _ this(1)] assms(1) that(1) show ?thesis by auto
  qed
  have e': "e \<noteq> NeedsTerminal \<Longrightarrow> e \<noteq> PromptFailed \<Longrightarrow> e \<noteq> PasswordTooShort \<Longrightarrow> e = PassphraseMismatch" using e by simp
  from run show ?thesis
    unfolding add_user_def Let_def is_terminal_def
    by (simp only: run_abind run_atomic prod.case)
      (elim await_ok_cases, auto simp: run_Ready dest!: prompts_keep_dbs fails_inD [OF fails_tail] split: if_splits
        elim!: await_ok_cases await_or_cases intro: load e')
qed

end


subsection \<open>Resetting a password\<close>

context storage_backend
begin

lemma run_reset_password:
  assumes good: "good (ho_dbs h path)" and run: "run (reset_password P B path identifier) h = (Ok rep, h')"
  obtains did a pw rest salt phc where "rep = PasswordReset did" "ho_answers h = Some pw # Some pw # rest" "8 \<le> length pw"
    "phc_hash P pw salt = Ok phc" "v_accounts (\<alpha> (ho_dbs h path)) did = Some a" "good (ho_dbs h' path)"
    "\<alpha> (ho_dbs h' path) = (\<alpha> (ho_dbs h path))\<lparr>v_accounts := (v_accounts (\<alpha> (ho_dbs h path)))(did \<mapsto> a\<lparr>row_password := phc\<rparr>)\<rparr>"
proof -
  let ?who = "if starts_with identifier ''did:'' then Ready (Ok identifier)
    else await_or StoreFailed (in_db path (db (get_did_by_handle (account_ops B) identifier))) (\<lambda>found. Ready (ok_or (NoHandle identifier) found))"
  from run obtain did h1 pw h2 h3 phc h4 n h5 where s1: "run ?who h = (Ok did, h1)" and s2: "run prompt_password h1 = (Ok pw, h2)"
    and len: "\<not> length pw < 8" and s3: "run prompt_password h2 = (Ok pw, h3)"
    and s4: "run (in_db path (hash_password P pw)) h3 = (Ok phc, h4)"
    and s5: "run (in_db path (db (update_password (account_ops B) did phc))) h4 = (Ok n, h5)" and n: "n \<noteq> 0" "rep = PasswordReset did" "h' = h5"
    unfolding reset_password_def
    by (elim abind_run guard_run await_ok_run_Ok await_or_run_Ok) (auto simp: async_simps split: if_splits)
  have h1: "good (ho_dbs h1 path) \<and> \<alpha> (ho_dbs h1 path) = \<alpha> (ho_dbs h path) \<and> ho_answers h1 = ho_answers h"
  proof (cases "starts_with identifier ''did:''")
    case True
    with s1 good show ?thesis by (simp add: run_Ready)
  next
    case False
    with s1 obtain x where x: "run (in_db path (db (get_did_by_handle (account_ops B) identifier))) h = (Ok x, h1)"
      by (auto simp: run_await_or run_Ready split: prod.splits sum.splits)
    from x obtain w where "run (db (get_did_by_handle (account_ops B) identifier)) (db_world path h) = (Ok x, w)" "db_world path h1 = w"
      "ho_answers h1 = ho_answers h" by (rule in_db_run)
    then have "get_did_by_handle (account_ops B) identifier (ho_dbs h path) = (Ok x, ho_dbs h1 path)" "ho_answers h1 = ho_answers h"
      by (auto simp: run_db_at dest: arg_cong [where f = w_store])
    with meets_Ok [OF account.get_did_by_handle good] show ?thesis by (auto simp: spec_get_did_by_handle_def)
  qed
  have ans: "ho_answers h = Some pw # Some pw # ho_answers h3" and d3: "ho_dbs h3 = ho_dbs h1"
    using s2 s3 h1 by (auto simp: prompt_password_def async_simps split: list.splits option.splits)
  obtain salt where salt: "phc_hash P pw salt = Ok phc" and d4: "ho_dbs h4 path = ho_dbs h3 path"
    using s4 by (auto simp: hash_password_def async_simps map_err_def split: sum.splits)
  from s5 obtain s where u: "update_password (account_ops B) did phc (ho_dbs h4 path) = (Ok n, s)" "ho_dbs h5 path = s"
    by (auto simp: async_simps split: prod.splits)
  from h1 d3 d4 have "good (ho_dbs h4 path)" by simp
  from meets_Ok [OF account.update_password this u(1)] u(2) n h1 d3 d4 obtain a where "good (ho_dbs h' path)"
    "v_accounts (\<alpha> (ho_dbs h path)) did = Some a"
    "\<alpha> (ho_dbs h' path) = (\<alpha> (ho_dbs h path))\<lparr>v_accounts := (v_accounts (\<alpha> (ho_dbs h path)))(did \<mapsto> a\<lparr>row_password := phc\<rparr>)\<rparr>"
    by (auto simp: spec_update_password_def update_account_def split: option.splits)
  with that [OF n(2) ans _ salt] len show thesis by auto
qed

end

text \<open>C40: a password reset decides who signs in. When the operator has reset the password of an account, typing the new one of at least
  eight bytes twice, then at the server a login with that account's handle succeeds only with a password that verifies against the new hash, and
  only as that account, and fails only for a password that does not, or because the server could not look. What was stored before has no say.\<close>

theorem reset_password_decides_login:
  assumes "storage_backend B good up \<alpha>" "good (ho_dbs h path)" "run (admin_run P B path (ResetPassword identifier)) h = (Ok (PasswordReset did), h')"
    and "visible_by_handle (\<alpha> (ho_dbs h path)) (cs_identifier input) did a"
    and "st_store st = B" "w_store w = ho_dbs h' path" "run (create_session P st input) w = (r, w')"
  shows "\<exists>pw rest salt phc. ho_answers h = Some pw # Some pw # rest \<and> 8 \<le> length pw \<and> phc_hash P pw salt = Ok phc \<and> (case r of
      Inr resp \<Rightarrow> sr_did resp = did \<and> phc_verify P (cs_password input) phc = Ok True
    | Inl e \<Rightarrow> xrpc_status e = 500 \<or> phc_verify P (cs_password input) phc \<noteq> Ok True)"
proof -
  from assms(3) obtain h1 where o: "run (open_store path) h = (Ok (), h1)"
    and reset: "run (reset_password P B path identifier) h1 = (Ok (PasswordReset did), h')"
    unfolding admin_run_def by (elim abind_run guard_run await_ok_run_Ok) (auto simp: async_simps)
  from o have h1: "ho_dbs h1 = ho_dbs h" "ho_answers h1 = ho_answers h" by (auto simp: open_store_def async_simps split: if_splits)
  with assms(2) have "good (ho_dbs h1 path)" by simp
  then obtain did' a' pw rest salt phc where "PasswordReset did = PasswordReset did'" "ho_answers h1 = Some pw # Some pw # rest" "8 \<le> length pw"
    "phc_hash P pw salt = Ok phc" "v_accounts (\<alpha> (ho_dbs h1 path)) did' = Some a'" "good (ho_dbs h' path)"
    "\<alpha> (ho_dbs h' path) = (\<alpha> (ho_dbs h1 path))\<lparr>v_accounts := (v_accounts (\<alpha> (ho_dbs h1 path)))(did' \<mapsto> a'\<lparr>row_password := phc\<rparr>)\<rparr>"
    using reset by (rule storage_backend.run_reset_password [OF assms(1)])
  then have ans: "ho_answers h = Some pw # Some pw # rest" "8 \<le> length pw" "phc_hash P pw salt = Ok phc"
    and a': "v_accounts (\<alpha> (ho_dbs h path)) did = Some a'" and good': "good (ho_dbs h' path)"
    and v': "\<alpha> (ho_dbs h' path) = (\<alpha> (ho_dbs h path))\<lparr>v_accounts := (v_accounts (\<alpha> (ho_dbs h path)))(did \<mapsto> a'\<lparr>row_password := phc\<rparr>)\<rparr>"
    using h1 by simp_all
  have vis: "visible_by_handle (\<alpha> (ho_dbs h' path)) (cs_identifier input) did (a\<lparr>row_password := phc\<rparr>)"
    using assms(4) a' v' by (auto simp: visible_by_handle_def active_row_def)
  have "handles_unique (\<alpha> (ho_dbs h' path))"
    using account_store.account_view_ok [OF storage_backend.axioms(2) [OF assms(1)] good'] by (simp add: view_ok_def)
  then have uniq: "d = did \<and> row_password b = phc" if "visible_by_handle (\<alpha> (ho_dbs h' path)) (cs_identifier input) d b" for d b
    using that vis unfolding visible_by_handle_def handles_unique_def by fastforce
  have "good (w_store w)" using good' assms(6) by simp
  note cs = storage_backend.run_create_session [OF assms(1,5) this assms(7), unfolded assms(6)]
  have "case r of Inr resp \<Rightarrow> sr_did resp = did \<and> phc_verify P (cs_password input) phc = Ok True
    | Inl e \<Rightarrow> xrpc_status e = 500 \<or> phc_verify P (cs_password input) phc \<noteq> Ok True"
  proof (cases r)
    case (Inl e)
    with cs vis show ?thesis by (simp only: sum.case) (metis account_row.select_convs(3) account_row.surjective account_row.update_convs(3))
  next
    case (Inr resp)
    with cs obtain b where "visible_by_handle (\<alpha> (ho_dbs h' path)) (cs_identifier input) (sr_did resp) b"
      "phc_verify P (cs_password input) (row_password b) = Ok True" by (auto simp only: sum.case)
    with uniq Inr show ?thesis by auto
  qed
  with ans show ?thesis by blast
qed

subsection \<open>Witnesses\<close>

definition wit_host :: "string option list \<Rightarrow> Inner \<Rightarrow> Inner host" where
  "wit_host answers s = \<lparr>ho_process = wit_world (), ho_dbs = (\<lambda>_. s), ho_db_files = [''pds.db''], ho_files = [], ho_modes = [],
     ho_fates = (\<lambda>_. Done), ho_ios = 0, ho_keychain = None, ho_tty = True, ho_lines = [], ho_answers = answers,
     ho_admin_password = None, ho_shown = []\<rparr>"

text \<open>Keys sealed under the passphrase \<open>p\<close> by the primitives of \<open>Key_Crypto\<close>.\<close>

definition wit_sealed :: "byte \<Rightarrow> bytes" where
  "wit_sealed b = replicate 28 0 @ [b] @ take 16 ([112] @ replicate 16 0)"

definition wit_keys :: Inner where
  "wit_keys = wit_home\<lparr>m_keys := [(''did:plc:a#signing'', wit_sealed 8), (''did:plc:a#rotation'', wit_sealed 9)]\<rparr>"

definition wit_ek :: ExportKeysArgs where
  "wit_ek = \<lparr>ek_did = ''did:plc:a'', ek_output = ''alice.key'', ek_db_path = ''pds.db''\<rparr>"

definition wit_ik :: ImportKeysArgs where
  "wit_ik = \<lparr>ik_did = ''did:plc:b'', ik_input = ''alice.key'', ik_db_path = ''pds.db''\<rparr>"

abbreviation wit_here :: "Inner host" where
  "wit_here \<equiv> wit_host [Some ''p''] wit_keys"

abbreviation wit_there :: "Inner host" where
  "wit_there \<equiv> (wit_host [Some ''p''] (mem_new ''t''))\<lparr>ho_files := ho_files (snd (run (export_keys_run wit_prims mem_backend wit_ek) wit_here))\<rparr>"

lemma wit_keys_ok: "mem_ok wit_keys"
  using wit_home_ok by (simp add: wit_keys_def mem_ok_def hm_ok_def mem_seq_ok_def mem_accounts_ok_def)

lemma wit_opened:
  "decrypt_key wit_prims (wit_sealed b) (as_bytes ''p'') = Ok [b]" "v_keys (mem_view wit_keys) (''did:plc:a'' @ ''#signing'') = Some (wit_sealed 8)"
  "v_keys (mem_view wit_keys) (''did:plc:a'' @ ''#rotation'') = Some (wit_sealed 9)"
  by (simp_all add: wit_keys_def wit_sealed_def decrypt_key_def wit_prims_def Let_def as_bytes_def hm_get_def)

lemma wit_ready: "mem_ok s \<Longrightarrow> ready_host mem_backend mem_ok mem_up mem_view path ''p'' ((wit_host [Some ''p''] s)\<lparr>ho_files := f\<rparr>)"
  using mem.key.key_store_axioms by (simp add: ready_host_def wit_host_def mem_up_def)


definition wit_net :: "Inner net" where
  "wit_net = \<lparr>nt_plc = (\<lambda>u. Ok (st_plc_client wit_state)), nt_did_web = (\<lambda>b. Ok (st_did_web_resolver wit_state)), nt_relay = Ok (st_relay_client wit_state),
     nt_appview = Ok (st_appview_client wit_state), nt_service = (\<lambda>u. Ok (st_service_resolver wit_state)),
     nt_client_resolver = os_resolve (st_oauth wit_state), nt_bindable = False, nt_ip = Ok (Ready (Err ''no network'')),
     nt_dns = Ok (\<lambda>n. Ready (Ok []))\<rparr>"

definition wit_init :: "string \<Rightarrow> InitArgs" where
  "wit_init pass = \<lparr>ia_hostname = Some ''pds.test'', ia_did_method = Plc, ia_mode = None, ia_db_path = ''pds.db'', ia_port = None,
     ia_relay_url = ''https://relay.test'', ia_plc_url = ''https://plc.test'', ia_acme = None, ia_handle = Some ''bob.pds.test'',
     ia_jwt_secret = None, ia_key_passphrase = Some pass, ia_password = Some ''password9''\<rparr>"

lemma wit_p256 [simp]: "p256_random (wit_server hdr) = (\<lambda>rng pos. (map rng [pos..<pos + 32], pos + 32))"
  by (simp add: wit_server_def wit_oauth_def oauth_prims.defs auth_prims.defs id_prims.defs server_prims.defs prims.defs)

lemma wit_boot:
  assumes "hm_get (m_keys (w_store w)) AS_SIGNING_KEY_ID = None"
  shows "\<exists>os w'. run (OAuthState_bootstrap wit_sp mem_backend pass jwt iss sd cr) w = (Ok os, w') \<and> (\<exists>ks. w_store w' = (w_store w)\<lparr>m_keys := ks\<rparr>)"
  using assms by (auto simp: OAuthState_bootstrap_def load_or_create_signing_key_def load_key_def async_simps mem_get_key_blob_def SigningKey_generate_def
      store_key_def encrypt_key_def wit_prims_def mem_put_key_blob_def Let_def split: prod.splits)

lemma wit_creates:
  assumes "st_store st = mem_backend" "st_hostname st = ''pds.test''" "\<not> st_open_registration st" "st_plc_client st = st_plc_client wit_state"
    and "m_accounts (w_store w) = m_accounts wit_home" "hm_get (m_invites (w_store w)) code = Some \<lparr>inv_available_uses = 1, inv_disabled = False\<rparr>"
      "m_invite_uses (w_store w) = {}"
  shows "\<exists>resp w'. run (create_account_inner wit_sp st (first_input ''bob.pds.test'' ''password9'' (Some code))) w = (Ok resp, w')"
proof -
  have lower: "to_ascii_lowercase ''bob.pds.test'' = ''bob.pds.test''" by code_simp
  have valid: "validate_handle ''bob.pds.test'' = Ok ()" "ends_with ''bob.pds.test'' ''.pds.test''" by code_simp+
  have len: "''did:plc:'' @ take 24 (to_ascii_lowercase (wit_hex (as_bytes (wit_hex (map f [i..<j] @ m))))) \<noteq> ''did:plc:a''" if "j - i = 32" for f i j m
  proof -
    have "length (wit_hex bs) = 2 * length bs" for bs by (induction bs) (simp_all add: wit_hex_def)
    then have "length (take 24 (to_ascii_lowercase (wit_hex (as_bytes (wit_hex (map f [i..<j] @ m)))))) = 24" (is "length ?t = 24")
      using that by (simp add: to_ascii_lowercase_def as_bytes_def)
    moreover have "''did:plc:'' @ t \<noteq> ''did:plc:a''" if "length t = 24" for t using that by auto
    ultimately show ?thesis by blast
  qed
  have one: "hm_get [(k, v)] k' = (if k' = k then Some v else None)" for k k' :: string and v :: Account by (simp add: hm_get_def)
  show ?thesis using assms len
    by (simp add: one create_account_inner_def first_input_def lower valid Let_def async_simps wit_state_def
        invite_gate_def keypair_create_def account_did_def register_did_plc_def plc_unsigned_def store_key_def encrypt_key_def session_jwts_def
        encode_access_jwt_at_def encode_refresh_jwt_def encode_refresh_jwt_at_def wit_jwt_encode_def wit_prims_def wit_home_def wit_account_def
        mem_new_def mem_get_account_by_handle_def mem_active_by_handle_def hm_values_def mem_count_accounts_def acc_active_def mem_consume_invite_def
        PlcGenesisOpUnsigned.defs PlcGenesisOpSigned.defs
        mem_count_and_insert_account_def insert_account_locked_def hm_contains_key_def mem_put_key_blob_def del: nat_text.simps upt_Suc)
qed

lemma wit_reset: "\<exists>h'. run (admin_run wit_sp mem_backend ''pds.db'' (ResetPassword ''alice.pds.test'')) (wit_host [Some ''password2'', Some ''password2''] wit_home) =
    (Ok (PasswordReset ''did:plc:a''), h')"
  by (simp add: admin_run_def reset_password_def open_store_def prompt_password_def wit_host_def async_simps starts_with_def hash_password_def
      wit_world_def wit_home_def wit_account_def mem_get_did_by_handle_def mem_active_by_handle_def hm_values_def acc_active_def
      mem_update_password_def mem_modify_account_def hm_get_def)

lemma wit_added:
  "\<exists>did h'. run (add_user wit_sp mem_backend wit_net (wit_init ''p'') ''pds.test'' ''bob.pds.test'' ''did:plc:a'') (wit_host [] wit_keys) = (Ok did, h')"
proof -
  let ?h = "wit_host [] wit_keys"
  have dbs: "ho_dbs ?h = (\<lambda>_. wit_keys)" and path: "ia_db_path (wit_init ''p'') = ''pds.db''" "ho_tty ?h"
    "ia_password (wit_init ''p'') = Some ''password9''" "ia_key_passphrase (wit_init ''p'') = Some ''p''" by (simp_all add: wit_host_def wit_init_def)
  have l: "run (in_db ''pds.db'' (load_key wit_sp (key_ops mem_backend) ''did:plc:a#signing'' (as_bytes ''p''))) ?h = (Ok [8], ?h)"
    by (simp add: load_key_def async_simps wit_host_def mem_get_key_blob_def wit_keys_def hm_get_def decrypt_key_def wit_sealed_def wit_prims_def
        Let_def as_bytes_def fun_eq_iff)
  obtain jwt h1 where s1: "run (in_process (fill_bytes 32)) ?h = (jwt, h1)" "ho_dbs h1 = ho_dbs ?h" by (simp add: async_simps)
  have "hm_get (m_keys (w_store (db_world ''pds.db'' h1))) AS_SIGNING_KEY_ID = None"
    using s1(2) dbs by (simp add: wit_keys_def hm_get_def AS_SIGNING_KEY_ID_def)
  from wit_boot [OF this, of "as_bytes ''p''" jwt "''https://pds.test''" "''did:web:pds.test''" "os_resolve (st_oauth wit_state)"] s1(2) dbs
  obtain st h2 ks where s2: "run (init_state wit_sp mem_backend wit_net (wit_init ''p'') ''pds.test'' (as_bytes ''p'') jwt) h1 = (Ok st, h2)"
    and st: "st_store st = mem_backend" "st_hostname st = ''pds.test''" "\<not> st_open_registration st" "st_plc_client st = st_plc_client wit_state"
    and h2: "ho_dbs h2 ''pds.db'' = wit_keys\<lparr>m_keys := ks\<rparr>"
    by (auto simp: init_state_def async_simps wit_net_def path)
  obtain code h3 where s3: "run (in_process (generate_invite_code wit_sp)) h2 = (code, h3)" "ho_dbs h3 = ho_dbs h2"
    by (simp add: async_simps generate_invite_code_def)
  obtain h4 where s4: "run (in_db ''pds.db'' (db (insert_invite (account_ops mem_backend) code 1 ''admin''))) h3 = (Ok (), h4)"
    "m_accounts (ho_dbs h4 ''pds.db'') = m_accounts wit_home" "m_invite_uses (ho_dbs h4 ''pds.db'') = {}"
    "hm_get (m_invites (ho_dbs h4 ''pds.db'')) code = Some \<lparr>inv_available_uses = 1, inv_disabled = False\<rparr>"
    using s3(2) h2 by (simp add: async_simps mem_insert_invite_def wit_keys_def wit_home_def mem_new_def hm_contains_key_def hm_get_insert)
  from wit_creates [OF st, of "db_world ''pds.db'' h4" code] s4 obtain resp h5 where
    s5: "run (in_db ''pds.db'' (create_account_inner wit_sp st (first_input ''bob.pds.test'' ''password9'' (Some code)))) h4 = (Ok resp, h5)"
    by (auto simp: async_simps)
  show ?thesis
    using l s1(1) s2 s3(1) s4(1) s5
    by (simp add: add_user_def resolve_password_def is_terminal_def path Let_def run_abind run_atomic run_await_ok run_await_or run_Ready)
qed


theorem reset_password_decides_login_witness:
  "\<exists>h'. run (admin_run wit_sp mem_backend ''pds.db'' (ResetPassword ''alice.pds.test'')) (wit_host [Some ''password2'', Some ''password2''] wit_home) =
      (Ok (PasswordReset ''did:plc:a''), h') \<and>
    (\<forall>resp. fst (run (create_session wit_sp wit_state wit_login) (wit_at 1000 (ho_dbs h' ''pds.db''))) \<noteq> Ok resp)"
proof -
  obtain h' where r: "run (admin_run wit_sp mem_backend ''pds.db'' (ResetPassword ''alice.pds.test'')) (wit_host [Some ''password2'', Some ''password2''] wit_home) =
      (Ok (PasswordReset ''did:plc:a''), h')" using wit_reset by blast
  have g: "mem_ok (ho_dbs (wit_host [Some ''password2'', Some ''password2''] wit_home) ''pds.db'')" using wit_home_ok by (simp add: wit_host_def)
  obtain a where a: "visible_by_handle (mem_view (ho_dbs (wit_host [Some ''password2'', Some ''password2''] wit_home) ''pds.db'')) (cs_identifier wit_login) ''did:plc:a'' a"
    by (simp add: visible_by_handle_def active_row_def wit_host_def wit_home_def wit_account_def hm_get_def acc_row_def)
  obtain x w' where x: "run (create_session wit_sp wit_state wit_login) (wit_at 1000 (ho_dbs h' ''pds.db'')) = (x, w')"
    by (cases "run (create_session wit_sp wit_state wit_login) (wit_at 1000 (ho_dbs h' ''pds.db''))")
  have st: "st_store wit_state = mem_backend" "w_store (wit_at 1000 (ho_dbs h' ''pds.db'')) = ho_dbs h' ''pds.db''"
    by (simp_all add: wit_state_def wit_at_def wit_world_def)
  from reset_password_decides_login [OF mem.storage_backend_axioms g r a st x] r x show ?thesis
    by (auto simp: wit_host_def split: sum.splits)
qed

end
