(* ===== verification/Spec2Isabelle.thy ===== *)
theory Spec2Isabelle
  imports Embedded_Laws Outbound_Laws Repo_Keys Front_Laws Worker_Laws Operator_Laws
begin

text \<open>
  A verification of Stelyph, a Personal Data Server of the AT Protocol.

  \<^bold>\<open>The program.\<close> \<open>rust-core\<close> is the library: storage behind traits with an in-memory and a SQLite backend, encrypted
  signing keys, the OAuth protocol layer (JOSE, DPoP, PKCE, pushed requests), session tokens, identities, repositories with
  their writer and readers, firehose frames, and an in-process server for devices. \<open>rust-pds\<close> is the server binary: the
  OAuth endpoints and consent pages, the XRPC endpoints for sessions, accounts, identities, preferences and repositories,
  the \<open>subscribeRepos\<close> firehose, the requests it makes to other hosts, and the operator's commands. \<open>rust-worker\<close> runs the same library on Cloudflare
  Workers: a stateless front, one Durable Object per account with a storage backend of its own, one registry of labels and
  invites, and one sequencer that orders the commits of all accounts into one stream.

  The parts meet in the store. An authorization code is put there by the consent page and taken by the token endpoint; a
  commit writes its blocks, its event and the repository root in one call, and the firehose replays the events from there;
  the invite gate, takedowns and the DPoP replay cache are rows of it. Besides the store, handlers share a cache of
  decrypted keys and the broadcast channel. In the Workers deployment the parts meet in requests between objects, any of
  which may fail or lose its answer.

  \<^bold>\<open>Programs.\<close> An \<open>async fn\<close> is a resumption of type \<open>async\<close> (\<open>PDS_Prelude\<close>): each storage call, clock reading, draw of random
  bytes, cache access and channel operation is one atomic step on the \<open>world\<close> (\<open>PDS_World\<close>). \<open>run\<close> executes a program alone,
  \<open>astep\<close> steps a pool of them, and \<open>amid R\<close> (\<open>Interference\<close>) runs one while others move the state along \<open>R\<close> between its
  steps. \<open>Result\<close> is a sum, the error on the left; \<open>?\<close> is \<open>try_ok\<close> and \<open>await_ok\<close>. A \<open>str\<close> is its UTF-8 bytes. Machine integers
  are kept at their width where the code depends on it (\<open>as_i64\<close>, \<open>as_u64\<close>, \<open>usize\<close> in export parsing, word operations in
  WebSocket masks and record keys).

  \<^bold>\<open>Third-party code.\<close> What the sources call but do not contain is an argument: the records \<open>prims\<close>, \<open>oauth_prims\<close>,
  \<open>auth_prims\<close>, \<open>server_prims\<close>, \<open>repo_prims\<close>, \<open>worker_prims\<close> and those between them hold digests, encodings, AEAD, password
  hashes, curve operations, \<open>serde_json\<close>, the URL parser, the HTTP client and the functions of \<open>atrium_repo\<close> (as programs over the
  block store). What is relied on of them is a named hypothesis (\<open>aead_ok\<close>, the locales \<open>cid_text\<close> and \<open>hop_texts\<close>, and so on),
  and every theorem with one has a witness with concrete functions in their place.

  \<^bold>\<open>Theories.\<close>
  \<^item> \<open>PDS_Prelude\<close>: strings, results, hash maps, asynchronous programs; \<open>PDS_World\<close>: what handlers run in; \<open>Interference\<close>:
    programs among others.
  \<^item> \<open>Storage_Traits\<close> (\<open>storage/traits.rs\<close>, \<open>oauth/store.rs\<close>): a record of operations per trait, an abstract view of a store
    and the contract of every operation as locales, bundled in \<open>storage_backend\<close>. \<open>Memory_Store\<close> (\<open>storage/memory/\<close>) and
    \<open>Sqlite_Store\<close> (\<open>storage/sqlite/\<close>) interpret it. \<open>Store_Calls\<close> and \<open>Storage_Laws\<close>: sequences of calls; equal answers of the
    backends, single use of codes, conservation of invites, sequencing of commits, takedowns, errors that change nothing.
  \<^item> \<open>Key_Crypto\<close> (\<open>storage/crypto.rs\<close>): key encryption, export and import.
  \<^item> \<open>OAuth_Core\<close>, \<open>OAuth_Jose\<close>, \<open>OAuth_Dpop\<close>, \<open>OAuth_Client\<close> (\<open>rust-core/src/oauth/\<close>): errors, scopes, PKCE, keys, signed
    tokens, proofs of possession, clients and pushed requests.
  \<^item> \<open>Auth_Jwt\<close> (\<open>auth/\<close>, \<open>xrpc/error.rs\<close>) and \<open>Identity\<close> (\<open>identity/\<close>): passwords, session and service tokens, DIDs and handles.
  \<^item> \<open>OAuth_Server\<close>, \<open>OAuth_Authorize\<close>, \<open>OAuth_Pages\<close> (\<open>rust-pds/src/xrpc/oauth/\<close>): the endpoints and pages. \<open>OAuth_Laws\<close> and
    \<open>Authorize_Laws\<close>: what a grant is evidence of, what it leaves in the store, and that the code flow completes.
  \<^item> \<open>Auth_Sessions\<close> (\<open>auth/extractor.rs\<close>, \<open>xrpc/server.rs\<close>, \<open>xrpc/identity.rs\<close>, \<open>xrpc/preferences.rs\<close>) and \<open>Session_Laws\<close>:
    who a request speaks for, sessions, account creation, the invisible key cache.
  \<^item> \<open>Repo_Core\<close>, \<open>Repo_Writer\<close>, \<open>Repo_Read\<close>, \<open>Repo_Handlers\<close> (\<open>repo/\<close>, \<open>blob.rs\<close>, \<open>storage/adapter.rs\<close>, \<open>xrpc/repo.rs\<close>); \<open>Repo_Laws\<close>:
    a write amid other tasks lands whole, once, chained and signed; \<open>Repo_Keys\<close>: record keys made from the clock.
  \<^item> \<open>Firehose\<close> and \<open>Firehose_Laws\<close> (\<open>firehose/\<close>, \<open>rust-pds/src/firehose/\<close>): a subscriber's stream is the log after its cursor.
  \<^item> \<open>Outbound\<close> and \<open>Outbound_Laws\<close> (\<open>xrpc/appview/\<close>, \<open>firehose/crawl.rs\<close>): which requests leave the server.
  \<^item> \<open>Operator_Commands\<close> and \<open>Operator_Laws\<close> (\<open>rust-pds/src/cmd/\<close>, \<open>config.rs\<close>, \<open>keychain.rs\<close>, \<open>detect.rs\<close>, \<open>dns.rs\<close>): the commands on a
    \<open>host\<close> of databases, files, a terminal and a Keychain; keys carried to another host load there, an added account shares
    the passphrase of the others, and a password reset decides who signs in.
  \<^item> \<open>Embedded_Core\<close>, \<open>Embedded_Repo\<close>, \<open>Embedded_Firehose\<close>, \<open>Embedded_Laws\<close> (\<open>rust-core/src/server/\<close>): the device server, its
    WebSocket frames and its stream.
  \<^item> \<open>Durable_Sql\<close>: requests to a Durable Object as functions on its tables, with failing statements. \<open>Worker_Registry\<close>,
    \<open>Worker_Sequencer\<close>, \<open>Worker_Store\<close>, \<open>Worker_Handlers\<close>, \<open>Worker_Durable\<close>, \<open>Worker_Front\<close> (the files of \<open>rust-worker/src/\<close>).
    \<open>Registry_Laws\<close>, \<open>Sequencer_Laws\<close>, \<open>Worker_Store_Laws\<close>, \<open>Front_Laws\<close>, \<open>Worker_Laws\<close>: invites are conserved, the stream is
    complete, the object's store is the third backend of the contract, clients reach no internal endpoint, a sign-up is
    all or nothing, a commit arrives at the sequencer as it was made, and a sign-in needs an enrolled device.

  \<^bold>\<open>Interfaces.\<close> Handlers are verified against \<open>storage_backend\<close> (with \<open>clocked_backend\<close> where time matters), and the laws
  then hold for the three backends, each of which interprets it. \<open>client_calls\<close> is what the front may ask of the objects,
  \<open>deployment\<close> and \<open>registry_at_hand\<close> are the objects behind it; \<open>cloud_stubs\<close> connects the front's calls to the objects' own
  models. \<open>holds\<close> and \<open>acts\<close> of \<open>Durable_Sql\<close> are the two ways to reason about an object's operation.

  \<^bold>\<open>Loops and fuel.\<close> Loops over data are structural recursion. The firehose loops have no end of their own: \<open>live_loop\<close>,
  \<open>run_backfill\<close> and the device server's loop take one unit of fuel per received event or page of the log, and what is
  proved for every amount of fuel holds at every moment of the stream; \<open>backfill_completes\<close> gives the fuel with which the
  backfill loop returns, the number of pages the log fills. Reading a WebSocket frame and trimming strings recurse
  on the length of what is left.

  \<^bold>\<open>Not modelled.\<close> The HTTP, TLS and WebSocket libraries, SQLite and Cloudflare's runtime beneath their documented behaviour;
  argument parsing and what the commands of \<open>rust-pds/src/cmd/\<close> print to narrate their progress; the TLS listener of \<open>tls.rs\<close> and the
  text of \<open>proxy_snippet.rs\<close>; \<open>task.rs\<close>, which moves closures to threads; \<open>sqlite/backup.rs\<close>, one \<open>VACUUM INTO\<close>; the backends' conformance tests. The text of the
  registration page (\<open>register.rs\<close>) is an argument of the front. In \<open>cloud_stubs\<close> an account object's call to the sequencer is an
  argument of the object; \<open>commit_survives_hop\<close> composes the two. The per-DID write lock appears as the interference a commit tolerates.
  Timing is not modelled: \<open>constant_time_eq\<close> is proved to compare, not to take constant time.
\<close>

end
